(* ===== verification/Prelude.thy ===== *)
theory Prelude
  imports Main "HOL-Library.Word" "HOL-Library.Char_ord" "HOL-Library.List_Lexorder"
begin

text \<open>
  Shared vocabulary of the development: the machine integers of the server, the typed
  fields a packet is built from, the observable effects of the handlers, and the generic
  machine interface under which invariants are lifted from one operation to any sequence
  of operations.
\<close>

section \<open>Machine integers\<close>

type_synonym u8 = "8 word"
type_synonym u16 = "16 word"
type_synonym u32 = "32 word"
type_synonym u64 = "64 word"

unbundle bit_operations_syntax


named_theorems packet_defs \<open>definitions of the packet builders\<close>
named_theorems inv_intros \<open>preservation lemmas of component invariants\<close>

section \<open>Packets and effects\<close>

text \<open>
  A handler builds a packet by streaming typed values into it; the theory ByteBuffer
  gives the bytes these fields become on the wire.
\<close>

datatype field = U8 u8 | U16 u16 | U32 u32 | U64 u64 | Str string

record packet =
  opcode :: u16
  body :: "field list"

definition mk_packet :: "u16 \<Rightarrow> field list \<Rightarrow> packet" where
  "mk_packet op fs = \<lparr>opcode = op, body = fs\<rparr>"

lemma mk_packet_sel [simp]: "opcode (mk_packet op fs) = op" "body (mk_packet op fs) = fs"
  by (simp_all add: mk_packet_def)

lemma mk_packet_inject [simp]: "mk_packet a b = mk_packet c d \<longleftrightarrow> a = c \<and> b = d"
  by (simp add: mk_packet_def)

section \<open>Bits of small flag words\<close>

text \<open>
  Flag tests \<open>flags & FLAG\<close> against single-bit masks: setting and clearing one flag leaves
  every other flag alone.
\<close>

lemma flag_or_same [simp]: "m \<noteq> 0 \<Longrightarrow> (x OR m) AND m \<noteq> (0 :: 'a::len word)"
  by (metis word_bw_comms(1) word_bw_comms(2) word_ao_absorbs(1))

lemma flag_clear_same [simp]: "(x AND NOT m) AND m = (0 :: 'a::len word)"
  by (simp add: word_bw_assocs)

lemma flag_or_other: "m AND n = 0 \<Longrightarrow> (x OR m) AND n = x AND (n :: 'a::len word)"
  by (auto simp: bit_eq_iff bit_and_iff bit_or_iff)

lemma flag_clear_other: "m AND n = 0 \<Longrightarrow> (x AND NOT m) AND n = x AND (n :: 'a::len word)"
  by (auto simp: bit_eq_iff bit_and_iff bit_not_iff)

text \<open>The instances the simplifier meets, with the complements as it writes them.\<close>

lemma small_flags_u32 [simp]:
  "(x AND - 2) AND 1 = (0 :: u32)" "(x AND - 3) AND 2 = (0 :: u32)"
  "(x AND - 2) AND 2 = x AND (2 :: u32)" "(x AND - 3) AND 1 = x AND (1 :: u32)"
  "(x OR 1) AND 2 = x AND (2 :: u32)" "(x OR 2) AND 1 = x AND (1 :: u32)"
  using flag_clear_same [of x 1] flag_clear_same [of x 2] flag_clear_other [of 1 2 x]
    flag_clear_other [of 2 1 x] flag_or_other [of 1 2 x] flag_or_other [of 2 1 x]
  by simp_all

lemma clear_zero_u32 [simp]:
  "x AND - 3 = 0 \<Longrightarrow> x AND 1 = (0 :: u32)" "x AND - 2 = 0 \<Longrightarrow> x AND 2 = (0 :: u32)"
  using small_flags_u32(4) [of x] small_flags_u32(3) [of x] by simp_all

lemma small_flags_u8 [simp]:
  "(x AND - 2) AND 1 = (0 :: u8)" "(x AND - 3) AND 2 = (0 :: u8)" "(x AND - 9) AND 8 = (0 :: u8)"
  "(x AND - 2) AND 2 = x AND (2 :: u8)" "(x AND - 2) AND 8 = x AND (8 :: u8)"
  "(x AND - 3) AND 1 = x AND (1 :: u8)" "(x AND - 3) AND 8 = x AND (8 :: u8)"
  "(x AND - 9) AND 1 = x AND (1 :: u8)" "(x AND - 9) AND 2 = x AND (2 :: u8)"
  "(x OR 1) AND 2 = x AND (2 :: u8)" "(x OR 1) AND 8 = x AND (8 :: u8)"
  "(x OR 2) AND 1 = x AND (1 :: u8)" "(x OR 2) AND 8 = x AND (8 :: u8)"
  "(x OR 8) AND 1 = x AND (1 :: u8)" "(x OR 8) AND 2 = x AND (2 :: u8)"
  using flag_clear_same [of x 1] flag_clear_same [of x 2] flag_clear_same [of x 8]
    flag_clear_other [of 1 2 x] flag_clear_other [of 1 8 x]
    flag_clear_other [of 2 1 x] flag_clear_other [of 2 8 x]
    flag_clear_other [of 8 1 x] flag_clear_other [of 8 2 x]
    flag_or_other [of 1 2 x] flag_or_other [of 1 8 x] flag_or_other [of 2 1 x]
    flag_or_other [of 2 8 x] flag_or_other [of 8 1 x] flag_or_other [of 8 2 x]
  by simp_all

section \<open>Lists\<close>

lemma concat_map_if: "concat (map (\<lambda>x. if P x then [f x] else []) xs) = map f (filter P xs)"
  by (induction xs) simp_all

section \<open>Machines: one operation, any number of operations\<close>

text \<open>
  Several components are a state and a set of operations that all keep one invariant.
  The contract is stated once; its consequences for a run are proved once and every
  component interprets it on its own step function.
\<close>

locale machine =
  fixes step :: "'op \<Rightarrow> 's \<Rightarrow> 's"
    and inv :: "'s \<Rightarrow> bool"
  assumes step_inv: "inv s \<Longrightarrow> inv (step op s)"
begin

lemma run_inv: "inv s \<Longrightarrow> inv (fold step ops s)"
  by (induction ops arbitrary: s) (simp_all add: step_inv)

end

locale framed_machine = machine step inv
  for step :: "'op \<Rightarrow> 's \<Rightarrow> 's" and inv :: "'s \<Rightarrow> bool" +
  fixes frame :: "'s \<Rightarrow> 'f"
  assumes step_frame: "inv s \<Longrightarrow> frame (step op s) = frame s"
begin

lemma run_frame: "inv s \<Longrightarrow> frame (fold step ops s) = frame s"
  by (induction ops arbitrary: s) (simp_all add: step_inv step_frame)

end

end
