(* ===== verification/ByteBuffer.thy ===== *)
theory ByteBuffer
  imports Prelude
begin

text \<open>
  \<open>ByteBuffer\<close> of shared/ByteBuffer.h: the byte vector behind every packet with its read
  and write positions. Out-of-range accesses throw; here they are the left side of a sum.
  The arguments of a thrown \<open>ByteBufferPositionException\<close> are kept in the order the throw
  sites pass them.
\<close>

section \<open>State and errors\<close>

record bytebuffer =
  storage :: "u8 list"
  rpos :: nat
  wpos :: nat

datatype bb_error =
    ByteBufferPositionException bool nat nat nat
  | ByteBufferSourceException nat nat nat
  | AssertFailed

definition bb_new :: bytebuffer where
  "bb_new = \<lparr>storage = [], rpos = 0, wpos = 0\<rparr>"

definition bb_size :: "bytebuffer \<Rightarrow> nat" where
  "bb_size b = length (storage b)"

definition bb_clear :: "bytebuffer \<Rightarrow> bytebuffer" where
  "bb_clear b = b\<lparr>storage := [], rpos := 0, wpos := 0\<rparr>"

definition bb_rfinish :: "bytebuffer \<Rightarrow> bytebuffer" where
  "bb_rfinish b = b\<lparr>rpos := wpos b\<rparr>"

definition bb_resize :: "nat \<Rightarrow> bytebuffer \<Rightarrow> bytebuffer" where
  "bb_resize n b =
     b\<lparr>storage := take n (storage b) @ replicate (n - length (storage b)) 0, rpos := 0, wpos := n\<rparr>"

section \<open>Integers as little-endian bytes\<close>

fun to_le :: "nat \<Rightarrow> 'a::len word \<Rightarrow> u8 list" where
  "to_le 0 w = []"
| "to_le (Suc n) w = ucast w # to_le n (drop_bit 8 w)"

fun from_le :: "u8 list \<Rightarrow> 'a::len word" where
  "from_le [] = 0"
| "from_le (b # bs) = ucast b OR push_bit 8 (from_le bs)"

lemma length_to_le [simp]: "length (to_le n w) = n"
  by (induction n arbitrary: w) auto

lemma from_le_to_le: "from_le (to_le n w) = take_bit (8 * n) (w :: 'a::len word)"
proof (induction n arbitrary: w)
  case (Suc n)
  show ?case
    by (rule bit_word_eqI)
      (auto simp: Suc bit_or_iff bit_push_bit_iff bit_take_bit_iff bit_drop_bit_eq bit_ucast_iff)
qed simp

lemma from_le_to_le_full: "LENGTH('a) \<le> 8 * n \<Longrightarrow> from_le (to_le n w) = (w :: 'a::len word)"
  by (simp add: from_le_to_le take_bit_word_eq_self)

section \<open>Writing\<close>

definition bb_write :: "u8 list \<Rightarrow> bytebuffer \<Rightarrow> bytebuffer" where
  "bb_write src b =
     (let need = wpos b + length src;
          st = storage b @ replicate (need - length (storage b)) 0
      in b\<lparr>storage := take (wpos b) st @ src @ drop need st, wpos := need\<rparr>)"

definition bb_append :: "u8 list \<Rightarrow> bytebuffer \<Rightarrow> bb_error + bytebuffer" where
  "bb_append src b =
     (if src = [] then Inl (ByteBufferSourceException (wpos b) (bb_size b) 0)
      else if \<not> bb_size b < 10000000 then Inl AssertFailed
      else Inr (bb_write src b))"

definition bb_put :: "nat \<Rightarrow> u8 list \<Rightarrow> bytebuffer \<Rightarrow> bb_error + bytebuffer" where
  "bb_put pos src b =
     (if pos + length src > bb_size b
      then Inl (ByteBufferPositionException True pos (length src) (bb_size b))
      else Inr (b\<lparr>storage := take pos (storage b) @ src @ drop (pos + length src) (storage b)\<rparr>))"

definition string_bytes :: "string \<Rightarrow> u8 list" where
  "string_bytes s = map (\<lambda>c. of_char c) s"

definition bb_append_string :: "string \<Rightarrow> bytebuffer \<Rightarrow> bb_error + bytebuffer" where
  "bb_append_string s b =
     (case (if s = [] then Inr b else bb_append (string_bytes s) b) of
        Inl e \<Rightarrow> Inl e
      | Inr b' \<Rightarrow> bb_append [0] b')"

fun bb_stream :: "field \<Rightarrow> bytebuffer \<Rightarrow> bb_error + bytebuffer" where
  "bb_stream (U8 v) b = bb_append (to_le 1 v) b"
| "bb_stream (U16 v) b = bb_append (to_le 2 v) b"
| "bb_stream (U32 v) b = bb_append (to_le 4 v) b"
| "bb_stream (U64 v) b = bb_append (to_le 8 v) b"
| "bb_stream (Str s) b = bb_append_string s b"

fun bb_stream_all :: "field list \<Rightarrow> bytebuffer \<Rightarrow> bb_error + bytebuffer" where
  "bb_stream_all [] b = Inr b"
| "bb_stream_all (f # fs) b =
     (case bb_stream f b of Inl e \<Rightarrow> Inl e | Inr b' \<Rightarrow> bb_stream_all fs b')"

section \<open>Reading\<close>

definition bb_read_at :: "nat \<Rightarrow> nat \<Rightarrow> bytebuffer \<Rightarrow> bb_error + 'a::len word" where
  "bb_read_at n pos b =
     (if pos + n > bb_size b then Inl (ByteBufferPositionException False pos n (bb_size b))
      else Inr (from_le (take n (drop pos (storage b)))))"

definition bb_read :: "nat \<Rightarrow> bytebuffer \<Rightarrow> bb_error + ('a::len word \<times> bytebuffer)" where
  "bb_read n b =
     (case bb_read_at n (rpos b) b of
        Inl e \<Rightarrow> Inl e
      | Inr v \<Rightarrow> Inr (v, b\<lparr>rpos := rpos b + n\<rparr>))"

definition bb_read_skip :: "nat \<Rightarrow> bytebuffer \<Rightarrow> bb_error + bytebuffer" where
  "bb_read_skip n b =
     (if rpos b + n > bb_size b then Inl (ByteBufferPositionException False (rpos b) n (bb_size b))
      else Inr (b\<lparr>rpos := rpos b + n\<rparr>))"

text \<open>
  \<open>operator>>(std::string&)\<close> reads up to the terminating zero or the end of the buffer; the
  guard \<open>rpos() < size()\<close> makes it total.
\<close>

fun read_string_bytes :: "u8 list \<Rightarrow> string \<times> nat" where
  "read_string_bytes [] = ([], 0)"
| "read_string_bytes (c # cs) =
     (if c = 0 then ([], 1)
      else (let (s, n) = read_string_bytes cs in (char_of (unat c) # s, Suc n)))"

definition bb_read_string :: "bytebuffer \<Rightarrow> string \<times> bytebuffer" where
  "bb_read_string b =
     (let (s, n) = read_string_bytes (drop (rpos b) (storage b))
      in (s, b\<lparr>rpos := rpos b + n\<rparr>))"

text \<open>Reading back a field of the same shape as \<open>f\<close>.\<close>

fun bb_extract :: "field \<Rightarrow> bytebuffer \<Rightarrow> bb_error + (field \<times> bytebuffer)" where
  "bb_extract (U8 _) b = map_sum id (map_prod U8 id) (bb_read 1 b)"
| "bb_extract (U16 _) b = map_sum id (map_prod U16 id) (bb_read 2 b)"
| "bb_extract (U32 _) b = map_sum id (map_prod U32 id) (bb_read 4 b)"
| "bb_extract (U64 _) b = map_sum id (map_prod U64 id) (bb_read 8 b)"
| "bb_extract (Str _) b = Inr (map_prod Str id (bb_read_string b))"

fun bb_extract_all :: "field list \<Rightarrow> bytebuffer \<Rightarrow> bb_error + (field list \<times> bytebuffer)" where
  "bb_extract_all [] b = Inr ([], b)"
| "bb_extract_all (f # fs) b =
     (case bb_extract f b of
        Inl e \<Rightarrow> Inl e
      | Inr (v, b') \<Rightarrow>
          (case bb_extract_all fs b' of Inl e \<Rightarrow> Inl e | Inr (vs, b'') \<Rightarrow> Inr (v # vs, b'')))"

section \<open>Packed guids\<close>

lemma unat_drop_byte: "g \<noteq> 0 \<Longrightarrow> unat (drop_bit 8 g) < unat (g :: 'a::len word)"
proof -
  assume "g \<noteq> 0"
  then have "0 < unat g" by (simp add: unat_gt_0)
  moreover have "unat (drop_bit 8 g) = unat g div 256"
    by (simp add: unat_drop_bit_eq drop_bit_eq_div [of 8 "unat g"] del: drop_bit_eq_div)
  ultimately show ?thesis by simp
qed

function pack_loop :: "u64 \<Rightarrow> nat \<Rightarrow> u8 \<Rightarrow> u8 list \<Rightarrow> u8 \<times> u8 list" where
  "pack_loop guid i mark bytes =
     (if guid = 0 then (mark, bytes)
      else if guid AND 0xFF \<noteq> 0
      then pack_loop (drop_bit 8 guid) (Suc i) (mark OR push_bit i 1) (bytes @ [ucast (guid AND 0xFF)])
      else pack_loop (drop_bit 8 guid) (Suc i) mark bytes)"
  by pat_completeness auto
termination
  by (relation "measure (\<lambda>(g, _, _, _). unat g)")
    (simp_all add: unat_drop_byte del: drop_bit_eq_div)

declare pack_loop.simps [simp del]

definition appendPackGUID :: "u64 \<Rightarrow> bytebuffer \<Rightarrow> bb_error + bytebuffer" where
  "appendPackGUID guid b =
     (let (mark, bytes) = pack_loop guid 0 0 [] in bb_append (mark # bytes) b)"

fun unpack_loop :: "nat list \<Rightarrow> u8 \<Rightarrow> u64 \<Rightarrow> bytebuffer \<Rightarrow> bb_error + (u64 \<times> bytebuffer)" where
  "unpack_loop [] mark guid b = Inr (guid, b)"
| "unpack_loop (i # is) mark guid b =
     (if mark AND push_bit i 1 \<noteq> 0
      then (if rpos b + 1 > bb_size b
            then Inl (ByteBufferPositionException False (rpos b) 1 (bb_size b))
            else (case bb_read 1 b of
                    Inl e \<Rightarrow> Inl e
                  | Inr (x :: u8, b') \<Rightarrow>
                      unpack_loop is mark (guid OR push_bit (i * 8) (ucast x)) b'))
      else unpack_loop is mark guid b)"

definition readPackGUID :: "bytebuffer \<Rightarrow> bb_error + (u64 \<times> bytebuffer)" where
  "readPackGUID b =
     (if rpos b + 1 > bb_size b
      then Inl (ByteBufferPositionException False (rpos b) 1 (bb_size b))
      else (case bb_read 1 b of
              Inl e \<Rightarrow> Inl e
            | Inr (mark, b') \<Rightarrow> unpack_loop [0..<8] mark 0 b'))"

section \<open>Appending at the end of the buffer\<close>

text \<open>
  A packet under construction: the write position is the end of the storage and the buffer
  is below the size \<open>append\<close> asserts.
\<close>

definition bb_tail :: "bytebuffer \<Rightarrow> bool" where
  "bb_tail b \<longleftrightarrow> wpos b = length (storage b)"

definition bb_extend :: "u8 list \<Rightarrow> bytebuffer \<Rightarrow> bytebuffer" where
  "bb_extend bs b = b\<lparr>storage := storage b @ bs, wpos := length (storage b) + length bs\<rparr>"

lemma bb_extend_sel [simp]:
  "storage (bb_extend bs b) = storage b @ bs" "rpos (bb_extend bs b) = rpos b"
  "bb_tail (bb_extend bs b)"
  by (simp_all add: bb_extend_def bb_tail_def)

lemma bb_extend_extend [simp]: "bb_extend cs (bb_extend bs b) = bb_extend (bs @ cs) b"
  by (simp add: bb_extend_def)

lemma bb_append_tail:
  "bb_tail b \<Longrightarrow> src \<noteq> [] \<Longrightarrow> length (storage b) < 10000000 \<Longrightarrow> bb_append src b = Inr (bb_extend src b)"
  by (simp add: bb_append_def bb_write_def bb_tail_def bb_extend_def bb_size_def Let_def)

fun field_bytes :: "field \<Rightarrow> u8 list" where
  "field_bytes (U8 v) = to_le 1 v"
| "field_bytes (U16 v) = to_le 2 v"
| "field_bytes (U32 v) = to_le 4 v"
| "field_bytes (U64 v) = to_le 8 v"
| "field_bytes (Str s) = string_bytes s @ [0]"

definition packet_bytes :: "field list \<Rightarrow> u8 list" where
  "packet_bytes fs = concat (map field_bytes fs)"

lemma to_le_not_Nil [simp]: "0 < n \<Longrightarrow> to_le n w \<noteq> []"
  by (cases n) auto

lemma string_bytes_Nil [simp]: "string_bytes s = [] \<longleftrightarrow> s = []" "length (string_bytes s) = length s"
  by (simp_all add: string_bytes_def)

lemma bb_stream_tail:
  assumes "bb_tail b" "length (storage b) + length (field_bytes f) < 10000000"
  shows "bb_stream f b = Inr (bb_extend (field_bytes f) b)"
proof (cases f)
  case (Str s)
  show ?thesis
  proof (cases "s = []")
    case True
    with Str assms show ?thesis by (simp add: bb_append_string_def bb_append_tail string_bytes_def)
  next
    case False
    with Str assms have "bb_append (string_bytes s) b = Inr (bb_extend (string_bytes s) b)"
      by (intro bb_append_tail) auto
    with False Str assms show ?thesis
      by (simp add: bb_append_string_def bb_append_tail)
  qed
qed (use assms in \<open>auto intro!: bb_append_tail\<close>)

lemma bb_stream_all_tail:
  "bb_tail b \<Longrightarrow> length (storage b) + length (packet_bytes fs) < 10000000 \<Longrightarrow>
    bb_stream_all fs b = Inr (bb_extend (packet_bytes fs) b)"
proof (induction fs arbitrary: b)
  case Nil
  then show ?case by (simp add: packet_bytes_def bb_extend_def bb_tail_def)
next
  case (Cons f fs)
  then have f: "bb_stream f b = Inr (bb_extend (field_bytes f) b)"
    by (intro bb_stream_tail) (auto simp: packet_bytes_def)
  with Cons.prems show ?case
    by (simp add: Cons.IH packet_bytes_def)
qed

section \<open>Reading back what was written\<close>

definition str_ok :: "field \<Rightarrow> bool" where
  "str_ok f = (case f of Str s \<Rightarrow> CHR 0x00 \<notin> set s | _ \<Rightarrow> True)"

lemma unat_of_char_u8: "unat (of_char c :: u8) = of_char c"
proof -
  have "(of_char c :: u8) = of_nat (of_char c)" by (simp only: of_nat_of_char)
  moreover have "of_char c < (256 :: nat)" by (rule nat_of_char_less_256)
  ultimately show ?thesis by (simp only: unat_of_nat) simp
qed

lemma of_char_u8_eq_0: "(of_char c :: u8) = 0 \<longleftrightarrow> c = CHR 0x00"
proof -
  have "(of_char c :: u8) = 0 \<longleftrightarrow> (of_char c :: nat) = 0"
    by (simp only: unat_eq_zero [symmetric] unat_of_char_u8)
  also have "\<dots> \<longleftrightarrow> c = CHR 0x00"
    by (simp add: of_char_eq_iff [of c "CHR 0x00", where 'a = nat, symmetric] del: of_char_eq_iff)
  finally show ?thesis .
qed

lemma read_string_bytes_string:
  "CHR 0x00 \<notin> set s \<Longrightarrow>
    read_string_bytes (string_bytes s @ 0 # rest) = (s, Suc (length s))"
  by (induction s) (auto simp: string_bytes_def of_char_u8_eq_0 unat_of_char_u8)

lemma bb_read_at_front:
  assumes "storage b = pre @ to_le n w @ rest" "rpos b = length pre" "LENGTH('a) \<le> 8 * n"
  shows "bb_read n b = Inr (w :: 'a::len word, b\<lparr>rpos := rpos b + n\<rparr>)"
  using assms by (simp add: bb_read_def bb_read_at_def bb_size_def from_le_to_le_full)

lemma bb_extract_front:
  assumes "storage b = pre @ field_bytes f @ rest" "rpos b = length pre" "str_ok f"
  shows "bb_extract f b = Inr (f, b\<lparr>rpos := rpos b + length (field_bytes f)\<rparr>)"
proof (cases f)
  case (Str s)
  with assms show ?thesis
    by (simp add: bb_read_string_def read_string_bytes_string str_ok_def)
qed (use assms in \<open>simp_all add: bb_read_at_front\<close>)

lemma bb_extract_all_front:
  "storage b = pre @ packet_bytes fs @ rest \<Longrightarrow> rpos b = length pre \<Longrightarrow> list_all str_ok fs \<Longrightarrow>
    bb_extract_all fs b = Inr (fs, b\<lparr>rpos := rpos b + length (packet_bytes fs)\<rparr>)"
proof (induction fs arbitrary: b pre)
  case Nil
  then show ?case by (simp add: packet_bytes_def)
next
  case (Cons f fs)
  let ?b = "b\<lparr>rpos := rpos b + length (field_bytes f)\<rparr>"
  have st: "storage b = pre @ field_bytes f @ packet_bytes fs @ rest"
    using Cons.prems by (simp add: packet_bytes_def)
  have "bb_extract f b = Inr (f, ?b)"
    using Cons.prems by (intro bb_extract_front [OF st]) auto
  moreover have "bb_extract_all fs ?b = Inr (fs, ?b\<lparr>rpos := rpos ?b + length (packet_bytes fs)\<rparr>)"
    using Cons.prems st by (intro Cons.IH [of _ "pre @ field_bytes f"]) auto
  ultimately show ?case by (simp add: packet_bytes_def)
qed

section \<open>Packed guids read back\<close>

text \<open>What \<open>pack_loop\<close> computes for a guid of at most \<open>n\<close> bytes.\<close>

fun nz_mask :: "nat \<Rightarrow> u64 \<Rightarrow> u8" where
  "nz_mask 0 g = 0"
| "nz_mask (Suc n) g = of_bool (g AND 0xFF \<noteq> 0) OR push_bit 1 (nz_mask n (drop_bit 8 g))"

fun nz_bytes :: "nat \<Rightarrow> u64 \<Rightarrow> u8 list" where
  "nz_bytes 0 g = []"
| "nz_bytes (Suc n) g =
     (if g AND 0xFF \<noteq> 0 then [ucast (g AND 0xFF)] else []) @ nz_bytes n (drop_bit 8 g)"

lemma nz_zero [simp]: "nz_mask n 0 = 0" "nz_bytes n 0 = []"
  by (induction n) auto

lemma pack_loop_nz:
  "take_bit (8 * n) g = g \<Longrightarrow>
    pack_loop g i m bs = (m OR push_bit i (nz_mask n g), bs @ nz_bytes n g)"
proof (induction n arbitrary: g i m bs)
  case 0
  then show ?case by (simp add: pack_loop.simps)
next
  case (Suc n)
  have tb: "take_bit (8 * n) (drop_bit 8 g) = drop_bit 8 g"
  proof -
    have "take_bit (8 * n) (drop_bit 8 g) = drop_bit 8 (take_bit (8 * Suc n) g)"
      by (simp add: drop_bit_take_bit)
    with Suc.prems show ?thesis by simp
  qed
  show ?case
  proof (cases "g = 0")
    case True
    then show ?thesis by (simp add: pack_loop.simps [of 0] del: nz_mask.simps nz_bytes.simps)
  next
    case False
    with Suc.IH [OF tb] show ?thesis
      by (simp add: pack_loop.simps [of g] push_bit_or or.assoc)
  qed
qed

lemma byte_is_mask: "(0xFF :: 'a::len word) = mask 8"
  by (simp add: mask_eq_exp_minus_1)

lemma take_byte_recombine: "(g AND 0xFF) OR push_bit 8 (drop_bit 8 g) = (g :: u64)"
  unfolding byte_is_mask
proof (rule bit_word_eqI)
  fix k assume "k < LENGTH(64)"
  then show "bit ((g AND mask 8) OR push_bit 8 (drop_bit 8 g)) k = bit g k"
    by (cases "k < 8")
      (simp_all add: bit_or_iff bit_and_iff bit_push_bit_iff bit_drop_bit_eq bit_mask_iff)
qed

lemma bit_nz_mask_0: "bit (nz_mask (Suc n) g) 0 \<longleftrightarrow> g AND 0xFF \<noteq> 0"
  by (simp add: bit_or_iff bit_push_bit_iff bit_of_bool_iff del: One_nat_def)

lemma bit_nz_mask_Suc:
  "Suc k < 8 \<Longrightarrow> bit (nz_mask (Suc n) g) (Suc k) \<longleftrightarrow> bit (nz_mask n (drop_bit 8 g)) k"
  unfolding nz_mask.simps bit_or_iff bit_push_bit_iff by (simp add: bit_of_bool_iff)

lemma take_bit_drop_byte:
  "take_bit (8 * Suc n) g = g \<Longrightarrow> take_bit (8 * n) (drop_bit 8 g) = drop_bit 8 (g :: u64)"
  by (metis add.commute add_diff_cancel_left' drop_bit_take_bit mult_Suc_right mult.commute)

lemma mark_bit: "(mark AND 2 ^ i = (0 :: u8)) \<longleftrightarrow> \<not> bit mark i"
  by (rule and_exp_eq_0_iff_not_bit)

lemma bb_read_byte:
  "storage b = pre @ x # rest \<Longrightarrow> rpos b = length pre \<Longrightarrow>
    bb_read (Suc 0) b = Inr (x :: u8, b\<lparr>rpos := Suc (length pre)\<rparr>)"
  by (simp add: bb_read_def bb_read_at_def bb_size_def)

lemma unpack_loop_nz:
  assumes "take_bit (8 * n) g = g" "i + n \<le> 8"
    and "\<forall>k<n. bit mark (i + k) = bit (nz_mask n g) k"
    and "storage b = pre @ nz_bytes n g @ rest" "rpos b = length pre"
  shows "unpack_loop [i..<i + n] mark acc b =
    Inr (acc OR push_bit (8 * i) g, b\<lparr>rpos := length pre + length (nz_bytes n g)\<rparr>)"
  using assms
proof (induction n arbitrary: i g acc b pre)
  case 0
  then show ?case by simp
next
  case (Suc n)
  let ?g = "drop_bit 8 g"
  have up: "[i..<Suc (i + n)] = i # [Suc i..<Suc (i + n)]"
    by (simp add: upt_conv_Cons)
  have tb: "take_bit (8 * n) ?g = ?g"
    by (rule take_bit_drop_byte [OF Suc.prems(1)])
  have mk: "\<forall>k<n. bit mark (Suc i + k) = bit (nz_mask n ?g) k"
  proof safe
    fix k assume "k < n"
    then have "bit mark (i + Suc k) = bit (nz_mask (Suc n) g) (Suc k)" "Suc k < 8"
      using Suc.prems(2,3) by (auto simp del: nz_mask.simps)
    then show "bit mark (Suc i + k) \<Longrightarrow> bit (nz_mask n ?g) k"
      and "bit (nz_mask n ?g) k \<Longrightarrow> bit mark (Suc i + k)"
      by (simp_all add: bit_nz_mask_Suc del: nz_mask.simps)
  qed
  have m0: "bit mark i \<longleftrightarrow> g AND 0xFF \<noteq> 0"
    using Suc.prems(3) [rule_format, of 0] bit_nz_mask_0 [of n g] by simp
  have acc: "(acc OR push_bit (8 * i) (g AND 0xFF)) OR push_bit (8 * Suc i) ?g
      = acc OR push_bit (8 * i) g" for acc
  proof -
    have "push_bit (8 * Suc i) ?g = push_bit (8 * i) (push_bit 8 ?g)"
      by (simp only: push_bit_push_bit mult_Suc_right add.commute [of 8])
    then show ?thesis
      by (simp only: or.assoc push_bit_or [symmetric] take_byte_recombine)
  qed
  show ?case
  proof (cases "g AND 0xFF = 0")
    case True
    with m0 Suc.prems have "unpack_loop [Suc i..<Suc i + n] mark acc b =
        Inr (acc OR push_bit (8 * Suc i) ?g, b\<lparr>rpos := length pre + length (nz_bytes n ?g)\<rparr>)"
      by (intro Suc.IH tb mk) auto
    with True m0 acc [of acc] show ?thesis
      by (simp add: up mark_bit del: upt_Suc)
  next
    case False
    let ?x = "ucast (g AND 0xFF) :: u8" and ?b = "b\<lparr>rpos := Suc (length pre)\<rparr>"
    have rd: "bb_read (Suc 0) b = Inr (?x, ?b)"
      using False Suc.prems by (intro bb_read_byte) auto
    have ux: "ucast ?x = g AND 0xFF"
      by (rule bit_word_eqI) (auto simp: byte_is_mask bit_ucast_iff bit_and_iff bit_mask_iff)
    have "unpack_loop [Suc i..<Suc i + n] mark (acc OR push_bit (8 * i) (g AND 0xFF)) ?b =
        Inr ((acc OR push_bit (8 * i) (g AND 0xFF)) OR push_bit (8 * Suc i) ?g,
          ?b\<lparr>rpos := length (pre @ [?x]) + length (nz_bytes n ?g)\<rparr>)"
      using False Suc.prems by (intro Suc.IH tb mk) auto
    with False m0 acc [of acc] rd ux Suc.prems show ?thesis
      by (simp add: up mark_bit bb_size_def mult.commute del: upt_Suc)
  qed
qed

lemma appendPackGUID_tail:
  assumes "bb_tail b" "length (storage b) < 10000000"
  shows "appendPackGUID g b = Inr (bb_extend (nz_mask 8 g # nz_bytes 8 g) b)"
proof -
  have "take_bit (8 * 8) g = g" by (simp add: take_bit_word_eq_self)
  then have "pack_loop g 0 0 [] = (nz_mask 8 g, nz_bytes 8 g)"
    by (subst pack_loop_nz [of 8]) auto
  with assms show ?thesis by (simp add: appendPackGUID_def bb_append_tail)
qed

section \<open>Reads stay inside the packet\<close>

definition bb_in_bounds :: "bytebuffer \<Rightarrow> bool" where
  "bb_in_bounds b \<longleftrightarrow> rpos b \<le> bb_size b"

lemma read_string_bytes_le: "snd (read_string_bytes cs) \<le> length cs"
  by (induction cs) (auto simp: case_prod_beta)

lemma bb_read_Inr:
  "bb_read n b = Inr (v, b') \<Longrightarrow> b' = b\<lparr>rpos := rpos b + n\<rparr> \<and> rpos b + n \<le> bb_size b"
  by (auto simp: bb_read_def bb_read_at_def split: if_splits)

lemma bb_extract_in_bounds:
  assumes "bb_extract f b = Inr (v, b')" "bb_in_bounds b"
  shows "bb_in_bounds b' \<and> storage b' = storage b"
proof (cases f)
  case (Str s)
  with assms read_string_bytes_le [of "drop (rpos b) (storage b)"] show ?thesis
    by (auto simp: bb_read_string_def bb_in_bounds_def bb_size_def case_prod_beta)
qed (use assms in \<open>auto simp: map_sum_def bb_in_bounds_def bb_size_def dest!: bb_read_Inr split: sum.splits\<close>)

section \<open>Properties\<close>

text \<open>
  C34: fields streamed to the end of a packet (\<open>operator<<\<close>) are extracted (\<open>operator>>\<close>) as exactly the
  values that were written, in their order, from the position where they begin, whatever stands before
  and whatever follows them; the read position ends right behind them and the bytes stay as they are.
  No string among them holds a zero character, the terminator of the wire, and the packet stays below
  the 10000000 bytes that \<open>append\<close> asserts.
\<close>

theorem packet_stream_roundtrip:
  assumes "bb_tail b" "length (storage b) + length (packet_bytes fs) < 10000000" "list_all str_ok fs"
  shows "\<exists>b1. bb_stream_all fs b = Inr b1 \<and> storage b1 = storage b @ packet_bytes fs \<and>
    bb_extract_all fs (b1\<lparr>storage := storage b1 @ rest, rpos := length (storage b)\<rparr>) =
      Inr (fs, b1\<lparr>storage := storage b1 @ rest, rpos := length (storage b1)\<rparr>)"
proof -
  let ?b1 = "bb_extend (packet_bytes fs) b"
  let ?r = "?b1\<lparr>storage := storage ?b1 @ rest, rpos := length (storage b)\<rparr>"
  have "bb_stream_all fs b = Inr ?b1" by (rule bb_stream_all_tail [OF assms(1,2)])
  moreover have "bb_extract_all fs ?r = Inr (fs, ?r\<lparr>rpos := rpos ?r + length (packet_bytes fs)\<rparr>)"
    by (rule bb_extract_all_front [where pre = "storage b" and rest = rest]) (simp_all add: assms(3))
  ultimately show ?thesis by simp
qed

theorem packet_stream_roundtrip_witness:
  "\<exists>b1. bb_stream_all [U8 2, U32 70000, Str ''ab''] (bb_extend [9] bb_new) = Inr b1 \<and>
    storage b1 = [9, 2, 112, 17, 1, 0, 97, 98, 0] \<and>
    bb_extract_all [U8 2, U32 70000, Str ''ab''] (b1\<lparr>storage := storage b1 @ [5, 6], rpos := 1\<rparr>) =
      Inr ([U8 2, U32 70000, Str ''ab''], b1\<lparr>storage := storage b1 @ [5, 6], rpos := 9\<rparr>)"
proof -
  let ?fs = "[U8 2, U32 70000, Str ''ab'']" and ?b = "bb_extend [9] bb_new"
  have bytes: "packet_bytes ?fs = [2, 112, 17, 1, 0, 97, 98, 0]"
    by code_simp
  have st: "storage ?b = [9]" by (simp add: bb_new_def)
  have "length (storage ?b) + length (packet_bytes ?fs) < 10000000" unfolding bytes st by simp
  moreover have "list_all str_ok ?fs" by (simp add: str_ok_def)
  ultimately show ?thesis
    using packet_stream_roundtrip [of ?b ?fs "[5, 6]"] unfolding bytes st by auto
qed

text \<open>
  C35: a guid written with \<open>appendPackGUID\<close> at the end of a packet is read back unchanged by
  \<open>readPackGUID\<close> from that position, whatever follows it, and the read position ends right
  behind the packed bytes (a mask byte and one byte per non-zero byte of the guid).
\<close>

theorem packed_guid_roundtrip:
  assumes "bb_tail b" "length (storage b) < 10000000"
  shows "\<exists>b1. appendPackGUID g b = Inr b1 \<and>
    readPackGUID (b1\<lparr>storage := storage b1 @ rest, rpos := length (storage b)\<rparr>) =
      Inr (g, b1\<lparr>storage := storage b1 @ rest, rpos := length (storage b1)\<rparr>)"
proof -
  let ?b1 = "bb_extend (nz_mask 8 g # nz_bytes 8 g) b"
  let ?r = "?b1\<lparr>storage := storage ?b1 @ rest, rpos := length (storage b)\<rparr>"
  let ?r1 = "?r\<lparr>rpos := Suc (length (storage b))\<rparr>"
  have rd: "bb_read (Suc 0) ?r = Inr (nz_mask 8 g, ?r1)"
    by (rule bb_read_byte [of _ "storage b" _ "nz_bytes 8 g @ rest"]) simp_all
  have "unpack_loop [0..<0 + 8] (nz_mask 8 g) 0 ?r1 =
      Inr (0 OR push_bit (8 * 0) g,
        ?r1\<lparr>rpos := length (storage b @ [nz_mask 8 g]) + length (nz_bytes 8 g)\<rparr>)"
    by (rule unpack_loop_nz [where rest = rest]) (simp_all add: take_bit_word_eq_self)
  with rd have "readPackGUID ?r = Inr (g, ?r\<lparr>rpos := length (storage ?b1)\<rparr>)"
    by (simp add: readPackGUID_def bb_size_def del: upt_Suc upt_rec_numeral)
  with appendPackGUID_tail [OF assms, of g] show ?thesis by auto
qed

theorem packed_guid_roundtrip_witness:
  "\<exists>b1. appendPackGUID 0x0100000000000203 bb_new = Inr b1 \<and>
    readPackGUID (b1\<lparr>storage := storage b1 @ [7], rpos := length (storage bb_new)\<rparr>) =
      Inr (0x0100000000000203, b1\<lparr>storage := storage b1 @ [7], rpos := length (storage b1)\<rparr>)"
  by (rule packed_guid_roundtrip) (simp_all add: bb_new_def bb_tail_def)

text \<open>
  C36: extracting any sequence of fields from a packet whose read position is inside it either
  throws or leaves the read position inside the packet, and never alters the stored bytes.
\<close>

theorem extract_all_in_bounds:
  assumes "bb_extract_all fs b = Inr (vs, b')" "bb_in_bounds b"
  shows "bb_in_bounds b' \<and> storage b' = storage b \<and> length vs = length fs"
  using assms
proof (induction fs arbitrary: b vs)
  case (Cons f fs)
  from Cons.prems(1) obtain v b1 vs' where
    f: "bb_extract f b = Inr (v, b1)" and fs: "bb_extract_all fs b1 = Inr (vs', b')" and vs: "vs = v # vs'"
    by (auto split: sum.splits prod.splits)
  from bb_extract_in_bounds [OF f Cons.prems(2)] Cons.IH [OF fs] vs show ?case by simp
qed simp

theorem extract_all_in_bounds_witness:
  "\<exists>vs b'. bb_extract_all [U16 0, Str ''''] (bb_new\<lparr>storage := [1, 2, 65]\<rparr>) = Inr (vs, b') \<and>
    bb_in_bounds b' \<and> storage b' = [1, 2, 65] \<and> length vs = 2"
proof -
  let ?b = "bb_new\<lparr>storage := [1, 2, 65]\<rparr>"
  have ex: "bb_extract_all [U16 0, Str ''''] ?b = Inr ([U16 513, Str ''A''], ?b\<lparr>rpos := 3\<rparr>)"
    by code_simp
  have "bb_in_bounds ?b" by (simp add: bb_in_bounds_def bb_new_def)
  from extract_all_in_bounds [OF ex this] ex show ?thesis by auto
qed

end
