(* ===== verification/ObjectGuid.thy ===== *)
theory ObjectGuid
  imports Prelude
begin

text \<open>
  The 64-bit object identifiers of game/ObjectGuid.h: the type is in the top 16 bits, the
  low counter in the low 24 or 32 bits, and, for the types that have one, the template
  entry in the 24 bits between them.
\<close>

datatype HighGuid =
    HIGHGUID_ITEM
  | HIGHGUID_PLAYER
  | HIGHGUID_GAMEOBJECT
  | HIGHGUID_TRANSPORT
  | HIGHGUID_UNIT
  | HIGHGUID_PET
  | HIGHGUID_DYNAMICOBJECT
  | HIGHGUID_CORPSE
  | HIGHGUID_MO_TRANSPORT

fun high_code :: "HighGuid \<Rightarrow> u32" where
  "high_code HIGHGUID_ITEM = 0x4000"
| "high_code HIGHGUID_PLAYER = 0x0000"
| "high_code HIGHGUID_GAMEOBJECT = 0xF110"
| "high_code HIGHGUID_TRANSPORT = 0xF120"
| "high_code HIGHGUID_UNIT = 0xF130"
| "high_code HIGHGUID_PET = 0xF140"
| "high_code HIGHGUID_DYNAMICOBJECT = 0xF100"
| "high_code HIGHGUID_CORPSE = 0xF101"
| "high_code HIGHGUID_MO_TRANSPORT = 0x1FC0"

definition MAKE_NEW_GUID :: "u32 \<Rightarrow> u32 \<Rightarrow> u32 \<Rightarrow> u64" where
  "MAKE_NEW_GUID l e h = ucast l OR push_bit 24 (ucast e) OR push_bit 48 (ucast h)"

definition GUID_HIPART :: "u64 \<Rightarrow> u32" where
  "GUID_HIPART x = ucast (drop_bit 48 x AND 0x0000FFFF)"

definition GUID_ENPART_3 :: "u64 \<Rightarrow> u32" where
  "GUID_ENPART_3 x = ucast (drop_bit 24 x AND 0x0000000000FFFFFF)"

definition GUID_LOPART_2 :: "u64 \<Rightarrow> u32" where
  "GUID_LOPART_2 x = ucast (x AND 0x00000000FFFFFFFF)"

definition GUID_LOPART_3 :: "u64 \<Rightarrow> u32" where
  "GUID_LOPART_3 x = ucast (x AND 0x0000000000FFFFFF)"

definition IsGuidHaveEnPart :: "u64 \<Rightarrow> bool" where
  "IsGuidHaveEnPart guid =
     (let h = GUID_HIPART guid in
      if h = high_code HIGHGUID_ITEM \<or> h = high_code HIGHGUID_PLAYER \<or>
         h = high_code HIGHGUID_DYNAMICOBJECT \<or> h = high_code HIGHGUID_CORPSE \<or>
         h = high_code HIGHGUID_MO_TRANSPORT
      then False else True)"

definition GUID_ENPART :: "u64 \<Rightarrow> u32" where
  "GUID_ENPART x = (if IsGuidHaveEnPart x then GUID_ENPART_3 x else 0)"

definition GUID_LOPART :: "u64 \<Rightarrow> u32" where
  "GUID_LOPART x = (if IsGuidHaveEnPart x then GUID_LOPART_3 x else GUID_LOPART_2 x)"

section \<open>Parts of a composed guid\<close>

lemma masks: "(0x0000FFFF :: 'a::len word) = mask 16" "(0xFFFFFF :: 'a word) = mask 24"
    "(0xFFFFFFFF :: 'a word) = mask 32"
  by (simp_all add: mask_eq_exp_minus_1)

lemmas guid_bits = bit_or_iff bit_and_iff bit_push_bit_iff bit_drop_bit_eq bit_mask_iff bit_ucast_iff

text \<open>A value below \<open>2 ^ n\<close> has no bit from \<open>n\<close> on.\<close>

lemma bit_small: "x < 2 ^ n \<Longrightarrow> n < LENGTH('a) \<Longrightarrow> bit (x :: 'a::len word) k \<Longrightarrow> k < n"
  by (metis bit_take_bit_iff less_mask_eq take_bit_eq_mask)

lemma bit_small16: "x < 2 ^ 16 \<Longrightarrow> bit (x :: u32) k \<Longrightarrow> k < 16"
  by (rule bit_small) simp_all

lemma bit_small24: "x < 2 ^ 24 \<Longrightarrow> bit (x :: u32) k \<Longrightarrow> k < 24"
  by (rule bit_small) simp_all

lemma HIPART_MAKE:
  assumes "e < 2 ^ 24" "h < 2 ^ 16"
  shows "GUID_HIPART (MAKE_NEW_GUID l e h) = h"
  by (rule bit_word_eqI)
    (auto simp: GUID_HIPART_def MAKE_NEW_GUID_def masks guid_bits
      dest: bit_imp_le_length bit_small24 [OF assms(1)] bit_small16 [OF assms(2)])

lemma LOPART_3_MAKE:
  assumes "l < 2 ^ 24"
  shows "GUID_LOPART_3 (MAKE_NEW_GUID l e h) = l"
  by (rule bit_word_eqI)
    (auto simp: GUID_LOPART_3_def MAKE_NEW_GUID_def masks guid_bits dest: bit_small24 [OF assms])

lemma ENPART_3_MAKE:
  assumes "l < 2 ^ 24" "e < 2 ^ 24"
  shows "GUID_ENPART_3 (MAKE_NEW_GUID l e h) = e"
  by (rule bit_word_eqI)
    (auto simp: GUID_ENPART_3_def MAKE_NEW_GUID_def masks guid_bits
      dest: bit_small24 [OF assms(1)] bit_small24 [OF assms(2)])

lemma LOPART_2_MAKE: "h < 2 ^ 16 \<Longrightarrow> GUID_LOPART_2 (MAKE_NEW_GUID l 0 h) = l"
  by (rule bit_word_eqI)
    (auto simp: GUID_LOPART_2_def MAKE_NEW_GUID_def masks guid_bits)

lemma high_code_small: "high_code t < 2 ^ 16"
  by (cases t) simp_all

lemma enpart_types:
  "h = high_code t \<Longrightarrow> e < 2 ^ 24 \<Longrightarrow>
    IsGuidHaveEnPart (MAKE_NEW_GUID l e h) \<longleftrightarrow>
    t \<in> {HIGHGUID_GAMEOBJECT, HIGHGUID_TRANSPORT, HIGHGUID_UNIT, HIGHGUID_PET}"
  by (cases t) (simp_all add: IsGuidHaveEnPart_def HIPART_MAKE)

text \<open>A player guid is its low part: the database key and the guid name the same player.\<close>

definition player_guid :: "u32 \<Rightarrow> u64" where
  "player_guid l = MAKE_NEW_GUID l 0 (high_code HIGHGUID_PLAYER)"

lemma LOPART_player [simp]: "GUID_LOPART (player_guid l) = l"
  by (simp add: GUID_LOPART_def player_guid_def enpart_types [of _ HIGHGUID_PLAYER] LOPART_2_MAKE)

section \<open>Properties\<close>

text \<open>
  C37: composing a guid from a low part, an entry and a type and taking it apart with the
  \<open>GUID_*\<close> macros gives the three parts back, for every type of \<open>HighGuid\<close>: the types with an
  entry need 24-bit low parts and entries, the others take any 32-bit low part and no entry.
\<close>

theorem guid_parts_roundtrip:
  assumes "if t \<in> {HIGHGUID_GAMEOBJECT, HIGHGUID_TRANSPORT, HIGHGUID_UNIT, HIGHGUID_PET}
    then l < 2 ^ 24 \<and> e < 2 ^ 24 else e = 0"
  shows "GUID_HIPART (MAKE_NEW_GUID l e (high_code t)) = high_code t \<and>
    GUID_LOPART (MAKE_NEW_GUID l e (high_code t)) = l \<and>
    GUID_ENPART (MAKE_NEW_GUID l e (high_code t)) = e"
proof -
  have e: "e < 2 ^ 24" using assms by (auto split: if_splits)
  note en = enpart_types [of "high_code t" t e l, OF refl e]
  show ?thesis
  proof (cases "IsGuidHaveEnPart (MAKE_NEW_GUID l e (high_code t))")
    case True
    with assms e en show ?thesis
      by (simp add: HIPART_MAKE high_code_small [simplified] GUID_LOPART_def GUID_ENPART_def LOPART_3_MAKE ENPART_3_MAKE)
  next
    case False
    with assms e en show ?thesis
      by (auto simp: HIPART_MAKE high_code_small [simplified] GUID_LOPART_def GUID_ENPART_def LOPART_2_MAKE split: if_splits)
  qed
qed

theorem guid_parts_roundtrip_witness:
  "GUID_HIPART (MAKE_NEW_GUID 77 16128 (high_code HIGHGUID_UNIT)) = 0xF130 \<and>
    GUID_LOPART (MAKE_NEW_GUID 77 16128 (high_code HIGHGUID_UNIT)) = 77 \<and>
    GUID_ENPART (MAKE_NEW_GUID 77 16128 (high_code HIGHGUID_UNIT)) = 16128"
  using guid_parts_roundtrip [of HIGHGUID_UNIT 77 16128] by simp

end
