(* ===== verification/OrderedMap.thy ===== *)
theory OrderedMap
  imports Prelude
begin

text \<open>
  The part of \<open>std::map\<close> and \<open>std::set\<close> the program uses: lookup, \<open>operator[]\<close> with its
  default insertion, \<open>erase\<close>, \<open>begin\<close> (the least key) and \<open>size\<close>. A map is an association
  list that every operation keeps strictly increasing in its keys, so iteration order is
  list order.
\<close>

type_synonym ('k, 'v) omap = "('k \<times> 'v) list"

fun om_put :: "'k::linorder \<Rightarrow> 'v \<Rightarrow> ('k, 'v) omap \<Rightarrow> ('k, 'v) omap" where
  "om_put k v [] = [(k, v)]"
| "om_put k v ((a, w) # m) =
     (if k < a then (k, v) # (a, w) # m
      else if k = a then (k, v) # m
      else (a, w) # om_put k v m)"

definition om_erase :: "'k \<Rightarrow> ('k, 'v) omap \<Rightarrow> ('k, 'v) omap" where
  "om_erase k m = filter (\<lambda>e. fst e \<noteq> k) m"

text \<open>\<open>m[k]\<close> read on a key that is missing yields the default-constructed value.\<close>

definition om_at :: "'v \<Rightarrow> ('k, 'v) omap \<Rightarrow> 'k \<Rightarrow> 'v" where
  "om_at d m k = (case map_of m k of None \<Rightarrow> d | Some v \<Rightarrow> v)"

text \<open>\<open>m[k].f()\<close>: a missing key is first inserted with the default value.\<close>

definition om_modify :: "'v \<Rightarrow> ('v \<Rightarrow> 'v) \<Rightarrow> 'k::linorder \<Rightarrow> ('k, 'v) omap \<Rightarrow> ('k, 'v) omap" where
  "om_modify d f k m = om_put k (f (om_at d m k)) m"

definition om_begin :: "('k, 'v) omap \<Rightarrow> ('k \<times> 'v) option" where
  "om_begin m = (case m of [] \<Rightarrow> None | e # _ \<Rightarrow> Some e)"

abbreviation om_mem :: "'k \<Rightarrow> ('k, 'v) omap \<Rightarrow> bool" where
  "om_mem k m \<equiv> map_of m k \<noteq> None"

definition om_ok :: "('k::linorder, 'v) omap \<Rightarrow> bool" where
  "om_ok m = sorted_wrt (<) (map fst m)"

section \<open>Lookup after an update\<close>

lemma map_of_om_put [simp]: "map_of (om_put k v m) = (map_of m)(k \<mapsto> v)"
  by (induction k v m rule: om_put.induct) auto

lemma map_of_om_erase [simp]: "map_of (om_erase k m) = (map_of m)(k := None)"
  by (induction m) (auto simp: om_erase_def)

lemma map_of_om_modify [simp]:
  "map_of (om_modify d f k m) = (map_of m)(k \<mapsto> f (om_at d m k))"
  by (simp add: om_modify_def)

lemma om_at_put: "om_at d (om_put k v m) k' = (if k' = k then v else om_at d m k')"
  by (simp add: om_at_def)

lemma om_at_Some: "map_of m k = Some v \<Longrightarrow> om_at d m k = v"
  by (simp add: om_at_def)

lemma om_at_None: "map_of m k = None \<Longrightarrow> om_at d m k = d"
  by (simp add: om_at_def)

section \<open>Keys\<close>

lemma keys_om_put [simp]: "fst ` set (om_put k v m) = insert k (fst ` set m)"
  by (induction k v m rule: om_put.induct) auto

lemma keys_om_erase [simp]: "fst ` set (om_erase k m) = fst ` set m - {k}"
  by (auto simp: om_erase_def)

lemma set_om_erase: "set (om_erase k m) = {e \<in> set m. fst e \<noteq> k}"
  by (simp add: om_erase_def)

lemma om_mem_iff: "om_mem k m \<longleftrightarrow> k \<in> fst ` set m"
  by (metis map_of_eq_None_iff)

lemma om_put_not_Nil [simp]: "om_put k v m \<noteq> []"
  by (cases m) (auto split: if_splits)

section \<open>The order invariant\<close>

lemma om_ok_Nil [simp]: "om_ok []"
  by (simp add: om_ok_def)

lemma om_ok_Cons: "om_ok ((k, v) # m) \<longleftrightarrow> (\<forall>k' \<in> fst ` set m. k < k') \<and> om_ok m"
  by (auto simp: om_ok_def)

lemma om_ok_put [simp, inv_intros]: "om_ok m \<Longrightarrow> om_ok (om_put k v m)"
  by (induction k v m rule: om_put.induct) (auto simp: om_ok_Cons)

lemma om_ok_erase [simp, inv_intros]: "om_ok m \<Longrightarrow> om_ok (om_erase k m)"
  by (induction m) (auto simp: om_ok_Cons om_erase_def)

lemma om_ok_modify [simp, inv_intros]: "om_ok m \<Longrightarrow> om_ok (om_modify d f k m)"
  by (simp add: om_modify_def)

lemma om_ok_distinct: "om_ok m \<Longrightarrow> distinct (map fst m)"
  by (simp add: om_ok_def strict_sorted_iff)

lemma om_ok_map_of: "om_ok m \<Longrightarrow> (k, v) \<in> set m \<longleftrightarrow> map_of m k = Some v"
  by (metis map_of_SomeD map_of_is_SomeI om_ok_distinct)

text \<open>\<open>begin()\<close> is the entry with the least key.\<close>

lemma om_begin_least:
  "om_ok m \<Longrightarrow> om_begin m = Some (k, v) \<Longrightarrow>
    map_of m k = Some v \<and> (\<forall>k'. om_mem k' m \<longrightarrow> k \<le> k')"
  unfolding om_mem_iff by (cases m) (auto simp: om_begin_def om_ok_Cons less_imp_le)

lemma om_begin_None [simp]: "om_begin m = None \<longleftrightarrow> m = []"
  by (cases m) (auto simp: om_begin_def)

lemma om_begin_Some_iff: "(\<exists>e. om_begin m = Some e) \<longleftrightarrow> m \<noteq> []"
  by (cases m) (auto simp: om_begin_def)

section \<open>Size\<close>

lemma length_om_put: "om_ok m \<Longrightarrow> length (om_put k v m) = (if om_mem k m then length m else Suc (length m))"
  unfolding om_mem_iff by (induction k v m rule: om_put.induct) (auto simp: om_ok_Cons)

lemma length_om_erase: "om_ok m \<Longrightarrow> length (om_erase k m) = (if om_mem k m then length m - 1 else length m)"
proof (induction m)
  case (Cons e m)
  obtain a w where e: "e = (a, w)" by fastforce
  from Cons.prems have ok: "om_ok m" and lt: "\<forall>k' \<in> fst ` set m. a < k'"
    by (auto simp: e om_ok_Cons)
  show ?case
  proof (cases "k = a")
    case True
    with lt have "om_erase k m = m"
      by (auto simp: om_erase_def intro!: filter_True)
    with True show ?thesis by (simp add: e om_erase_def)
  next
    case False
    from lt Cons.IH [OF ok] show ?thesis
      using False by (cases m) (auto simp: e om_erase_def)
  qed
qed (simp add: om_erase_def)

section \<open>Counting entries\<close>

definition om_count :: "('v \<Rightarrow> bool) \<Rightarrow> ('k, 'v) omap \<Rightarrow> nat" where
  "om_count P m = length (filter (\<lambda>e. P (snd e)) m)"

lemma om_count_simps [simp]:
  "om_count P [] = 0" "om_count P ((k, v) # m) = of_bool (P v) + om_count P m"
  by (simp_all add: om_count_def)

definition om_holds :: "('v \<Rightarrow> bool) \<Rightarrow> 'v option \<Rightarrow> bool" where
  "om_holds P r = (case r of None \<Rightarrow> False | Some v \<Rightarrow> P v)"

lemma om_count_put:
  "om_ok m \<Longrightarrow>
    om_count P (om_put k v m) + of_bool (om_holds P (map_of m k)) = om_count P m + of_bool (P v)"
proof (induction k v m rule: om_put.induct)
  case (2 k v a w m)
  have "k < a \<Longrightarrow> map_of m k = None"
    using 2 by (force simp: om_ok_Cons map_of_eq_None_iff)
  with 2 show ?case by (auto simp: om_ok_Cons om_holds_def)
qed (simp add: om_holds_def)

lemma om_count_erase:
  "om_ok m \<Longrightarrow> om_count P (om_erase k m) + of_bool (om_holds P (map_of m k)) = om_count P m"
proof (induction m)
  case (Cons e m)
  obtain a w where e: "e = (a, w)" by fastforce
  have "map_of m a = None"
    using Cons.prems by (force simp: e om_ok_Cons map_of_eq_None_iff)
  with Cons show ?case
    by (cases "k = a") (auto simp: e om_ok_Cons om_erase_def om_holds_def)
qed (simp add: om_erase_def om_holds_def)

section \<open>The container interface\<close>

text \<open>
  What a client of a map may rely on: a lookup sees exactly the last write to its key,
  an erased key is gone, and the representation invariant survives both. Clients prove
  their consequences once, here.
\<close>

locale keyed_store =
  fixes look :: "'m \<Rightarrow> 'k \<Rightarrow> 'v option"
    and put :: "'k \<Rightarrow> 'v \<Rightarrow> 'm \<Rightarrow> 'm"
    and del :: "'k \<Rightarrow> 'm \<Rightarrow> 'm"
    and ok :: "'m \<Rightarrow> bool"
  assumes look_put: "look (put k v m) k' = (if k' = k then Some v else look m k')"
    and look_del: "look (del k m) k' = (if k' = k then None else look m k')"
    and ok_put: "ok m \<Longrightarrow> ok (put k v m)"
    and ok_del: "ok m \<Longrightarrow> ok (del k m)"
begin

lemma put_then_look: "look (put k v m) k = Some v"
  by (simp add: look_put)

lemma del_then_look: "look (del k m) k = None"
  by (simp add: look_del)

lemma puts_keep_ok: "ok m \<Longrightarrow> ok (fold (\<lambda>(k, v). put k v) kvs m)"
  by (induction kvs arbitrary: m) (auto simp: ok_put)

lemma puts_keep_other:
  "k \<notin> fst ` set kvs \<Longrightarrow> look (fold (\<lambda>(k, v). put k v) kvs m) k = look m k"
  by (induction kvs arbitrary: m) (auto simp: look_put)

lemma dels_keep_ok: "ok m \<Longrightarrow> ok (fold del ks m)"
  by (induction ks arbitrary: m) (auto simp: ok_del)

lemma dels_look: "look (fold del ks m) k = (if k \<in> set ks then None else look m k)"
  by (induction ks arbitrary: m) (auto simp: look_del)

end

interpretation std_map: keyed_store "map_of :: ('k::linorder \<times> 'v) list \<Rightarrow> _" om_put om_erase om_ok
  by unfold_locales auto

end
