(* ===== verification/Players.thy ===== *)
theory Players
  imports ObjectGuid OrderedMap
begin

text \<open>
  What the social components see of the world: the connected players with the fields they
  consult, the configuration switches of \<open>sWorld\<close>, the lookups of \<open>ObjectAccessor\<close>, and the
  packets a handler hands to player sessions.
\<close>

section \<open>Players\<close>

text \<open>\<open>AccountTypes\<close> of shared/Common.h.\<close>

abbreviation SEC_PLAYER :: nat where "SEC_PLAYER \<equiv> 0"
abbreviation SEC_MODERATOR :: nat where "SEC_MODERATOR \<equiv> 1"
abbreviation SEC_GAMEMASTER :: nat where "SEC_GAMEMASTER \<equiv> 2"

abbreviation HORDE :: u32 where "HORDE \<equiv> 67"
abbreviation ALLIANCE :: u32 where "ALLIANCE \<equiv> 469"

datatype UnitVisibility =
    VISIBILITY_OFF
  | VISIBILITY_ON
  | VISIBILITY_GROUP_STEALTH
  | VISIBILITY_RESPAWN

record player =
  p_guid :: u64
  p_name :: string
  p_team :: u32
  p_security :: nat
  p_inWorld :: bool
  p_visibility :: UnitVisibility
  p_guildId :: u32
  p_hasGroup :: bool
  p_lfgEmpty :: bool
  p_afk :: bool
  p_dnd :: bool
  p_gmChatFlag :: bool
  p_zone :: u32
  p_level :: u32
  p_class :: u32

definition GetChatTag :: "player \<Rightarrow> u8" where
  "GetChatTag p =
     (let tag = (0 :: u8);
          tag = (if p_afk p then tag OR 0x01 else tag);
          tag = (if p_dnd p then tag OR 0x02 else tag);
          tag = (if p_security p \<ge> SEC_MODERATOR \<and> p_gmChatFlag p then tag OR 0x04 else tag)
      in tag)"

definition IsVisibleGloballyFor :: "player \<Rightarrow> player option \<Rightarrow> bool" where
  "IsVisibleGloballyFor self u =
     (case u of
        None \<Rightarrow> False
      | Some v \<Rightarrow>
          if p_guid v = p_guid self then True
          else if p_visibility self = VISIBILITY_ON then True
          else if p_security v > SEC_PLAYER then p_security self \<le> p_security v
          else if p_visibility self = VISIBILITY_OFF then False
          else True)"

section \<open>The world\<close>

datatype config_key =
    CONFIG_ALLOW_TWO_SIDE_INTERACTION_CHANNEL
  | CONFIG_ALLOW_TWO_SIDE_WHO_LIST
  | CONFIG_ALLOW_TWO_SIDE_ADD_FRIEND
  | CONFIG_ALLOW_TWO_SIDE_INTERACTION_GROUP
  | CONFIG_ALLOW_TWO_SIDE_INTERACTION_GUILD
  | CONFIG_ALLOW_GM_FRIEND
  | CONFIG_ALLOW_GM_GROUP
  | CONFIG_GM_IN_WHO_LIST
  | CONFIG_RESTRICTED_LFG_CHANNEL
  | CONFIG_SILENTLY_GM_JOIN_TO_CHANNEL

text \<open>
  \<open>w_names\<close> is \<open>objmgr.GetPlayerNameByGUID\<close>: the name of an existing character, connected or
  not, read from the database.
\<close>

record world =
  w_players :: "player list"
  w_config :: "config_key \<Rightarrow> bool"
  w_names :: "u64 \<Rightarrow> string option"

definition FindPlayer :: "'a world_scheme \<Rightarrow> u64 \<Rightarrow> player option" where
  "FindPlayer w guid =
     (case find (\<lambda>p. p_guid p = guid) (w_players w) of
        None \<Rightarrow> None
      | Some p \<Rightarrow> if p_inWorld p then Some p else None)"

definition FindPlayerByName :: "'a world_scheme \<Rightarrow> string \<Rightarrow> player option" where
  "FindPlayerByName w name = find (\<lambda>p. p_inWorld p \<and> p_name p = name) (w_players w)"

definition getConfig :: "'a world_scheme \<Rightarrow> config_key \<Rightarrow> bool" where
  "getConfig w k = w_config w k"

text \<open>The security of a guid's session, 0 where the player is not in the world.\<close>

definition sec_of :: "'a world_scheme \<Rightarrow> u64 \<Rightarrow> nat" where
  "sec_of w g = (case FindPlayer w g of None \<Rightarrow> 0 | Some p \<Rightarrow> p_security p)"

lemma FindPlayer_guid: "FindPlayer w g = Some p \<Longrightarrow> p_guid p = g \<and> p_inWorld p \<and> p \<in> set (w_players w)"
  by (auto simp: FindPlayer_def find_Some_iff split: option.splits if_splits)

lemma FindPlayerByName_name:
  "FindPlayerByName w n = Some p \<Longrightarrow> p_name p = n \<and> p_inWorld p \<and> p \<in> set (w_players w)"
  by (auto simp: FindPlayerByName_def find_Some_iff)

section \<open>Sending\<close>

text \<open>
  \<open>SendPacket\<close> on the session of the player with this guid. \<open>ChatSpy\<close> is the copy of a channel
  message offered to a listener's chat spy (\<open>Player::HandleChatSpyMessage\<close>).
\<close>

datatype effect =
    Send u64 packet
  | ChatSpy u64 string u32 "u64 option" string

fun receiver :: "effect \<Rightarrow> u64" where
  "receiver (Send g _) = g"
| "receiver (ChatSpy g _ _ _ _) = g"

end
