(* ===== verification/Social.thy ===== *)
theory Social
  imports Players
begin

text \<open>
  Friend and ignore lists: game/SocialMgr.cpp, SocialMgr.h and the friend and ignore handlers of
  game/MiscHandler.cpp. A change is applied to the in-memory list and written through to the
  table \<open>character_social\<close>; the statements are modelled with their effect on the rows of the
  player, so that the two can be compared.
\<close>

section \<open>Lists\<close>

datatype FriendStatus =
    FRIEND_STATUS_OFFLINE
  | FRIEND_STATUS_ONLINE
  | FRIEND_STATUS_AFK
  | FRIEND_STATUS_UNK3
  | FRIEND_STATUS_DND

fun status_code :: "FriendStatus \<Rightarrow> u8" where
  "status_code FRIEND_STATUS_OFFLINE = 0"
| "status_code FRIEND_STATUS_ONLINE = 1"
| "status_code FRIEND_STATUS_AFK = 2"
| "status_code FRIEND_STATUS_UNK3 = 3"
| "status_code FRIEND_STATUS_DND = 4"

abbreviation SOCIAL_FLAG_FRIEND :: u32 where "SOCIAL_FLAG_FRIEND \<equiv> 0x01"
abbreviation SOCIAL_FLAG_IGNORED :: u32 where "SOCIAL_FLAG_IGNORED \<equiv> 0x02"
abbreviation SOCIAL_FLAG_MUTED :: u32 where "SOCIAL_FLAG_MUTED \<equiv> 0x04"

abbreviation SOCIALMGR_FRIEND_LIMIT :: nat where "SOCIALMGR_FRIEND_LIMIT \<equiv> 50"
abbreviation SOCIALMGR_IGNORE_LIMIT :: nat where "SOCIALMGR_IGNORE_LIMIT \<equiv> 25"

record FriendInfo =
  fi_Status :: FriendStatus
  fi_Flags :: u32
  fi_Area :: u32
  fi_Level :: u32
  fi_Class :: u32
  fi_Note :: string

definition FriendInfo_new :: FriendInfo where
  "FriendInfo_new = \<lparr>fi_Status = FRIEND_STATUS_OFFLINE, fi_Flags = 0, fi_Area = 0, fi_Level = 0,
     fi_Class = 0, fi_Note = ''''\<rparr>"

definition FriendInfo_make :: "u32 \<Rightarrow> string \<Rightarrow> FriendInfo" where
  "FriendInfo_make flags note = FriendInfo_new\<lparr>fi_Flags := flags, fi_Note := note\<rparr>"

record PlayerSocial =
  m_playerSocialMap :: "(u32, FriendInfo) omap"
  m_playerGUID :: u32

type_synonym SocialMap = "(u32, PlayerSocial) omap"

definition PlayerSocial_new :: PlayerSocial where
  "PlayerSocial_new = \<lparr>m_playerSocialMap = [], m_playerGUID = 0\<rparr>"

text \<open>The list a player's \<open>GetSocial()\<close> points to is the entry of its low guid.\<close>

definition GetSocial :: "SocialMap \<Rightarrow> u64 \<Rightarrow> PlayerSocial" where
  "GetSocial sm g = om_at PlayerSocial_new sm (GUID_LOPART g)"

section \<open>The table character_social\<close>

text \<open>The statements of the list operations, without the \<open>guid\<close> column they all fix.\<close>

datatype social_sql =
    SqlOrFlags u32 u32
  | SqlInsert u32 u32
  | SqlDelete u32
  | SqlClearFlags u32 u32
  | SqlSetNote u32 string

type_synonym social_row = "u32 \<times> string"

text \<open>
  What the statements do to the rows, as SQL defines \<open>UPDATE\<close>, \<open>INSERT\<close> and \<open>DELETE\<close>. \<open>unq\<close> reads a
  quoted string literal.
\<close>

fun social_exec :: "(string \<Rightarrow> string) \<Rightarrow> social_sql \<Rightarrow> (u32 \<rightharpoonup> social_row) \<Rightarrow> (u32 \<rightharpoonup> social_row)" where
  "social_exec unq (SqlOrFlags flag friend) db =
     (case db friend of None \<Rightarrow> db | Some (fl, n) \<Rightarrow> db(friend \<mapsto> (fl OR flag, n)))"
| "social_exec unq (SqlInsert friend flag) db = db(friend \<mapsto> (flag, ''''))"
| "social_exec unq (SqlDelete friend) db = db(friend := None)"
| "social_exec unq (SqlClearFlags flag friend) db =
     (case db friend of None \<Rightarrow> db | Some (fl, n) \<Rightarrow> db(friend \<mapsto> (fl AND NOT flag, n)))"
| "social_exec unq (SqlSetNote friend lit) db =
     (case db friend of None \<Rightarrow> db | Some (fl, n) \<Rightarrow> db(friend \<mapsto> (fl, unq lit)))"

section \<open>Operations on one list\<close>

definition GetNumberOfSocialsWithFlag :: "PlayerSocial \<Rightarrow> u32 \<Rightarrow> nat" where
  "GetNumberOfSocialsWithFlag ps flag =
     length (filter (\<lambda>(_, fi). fi_Flags fi AND flag \<noteq> 0) (m_playerSocialMap ps))"

definition AddToSocialList :: "u32 \<Rightarrow> bool \<Rightarrow> PlayerSocial \<Rightarrow> bool \<times> PlayerSocial \<times> social_sql list" where
  "AddToSocialList friend_guid ignore ps =
     (if ignore \<and> GetNumberOfSocialsWithFlag ps SOCIAL_FLAG_IGNORED \<ge> SOCIALMGR_IGNORE_LIMIT
      then (False, ps, [])
      else if \<not> ignore \<and> GetNumberOfSocialsWithFlag ps SOCIAL_FLAG_FRIEND \<ge> SOCIALMGR_FRIEND_LIMIT
      then (False, ps, [])
      else
        (let flag = (if ignore then SOCIAL_FLAG_IGNORED else SOCIAL_FLAG_FRIEND)
         in case map_of (m_playerSocialMap ps) friend_guid of
              Some fi \<Rightarrow>
                (True,
                 ps\<lparr>m_playerSocialMap := om_put friend_guid (fi\<lparr>fi_Flags := fi_Flags fi OR flag\<rparr>) (m_playerSocialMap ps)\<rparr>,
                 [SqlOrFlags flag friend_guid])
            | None \<Rightarrow>
                (True,
                 ps\<lparr>m_playerSocialMap := om_put friend_guid
                    (FriendInfo_new\<lparr>fi_Flags := fi_Flags FriendInfo_new OR flag\<rparr>) (m_playerSocialMap ps)\<rparr>,
                 [SqlInsert friend_guid flag])))"

definition RemoveFromSocialList :: "u32 \<Rightarrow> bool \<Rightarrow> PlayerSocial \<Rightarrow> PlayerSocial \<times> social_sql list" where
  "RemoveFromSocialList friend_guid ignore ps =
     (case map_of (m_playerSocialMap ps) friend_guid of
        None \<Rightarrow> (ps, [])
      | Some fi \<Rightarrow>
          (let flag = (if ignore then SOCIAL_FLAG_IGNORED else SOCIAL_FLAG_FRIEND);
               fi' = fi\<lparr>fi_Flags := fi_Flags fi AND NOT flag\<rparr>
           in if fi_Flags fi' = 0
              then (ps\<lparr>m_playerSocialMap := om_erase friend_guid (m_playerSocialMap ps)\<rparr>,
                    [SqlDelete friend_guid])
              else (ps\<lparr>m_playerSocialMap := om_put friend_guid fi' (m_playerSocialMap ps)\<rparr>,
                    [SqlClearFlags flag friend_guid])))"

text \<open>
  \<open>trunc\<close> is \<open>utf8truncate(note, 48)\<close> over the utf8 library and \<open>esc\<close> is \<open>escape_string\<close>, the MySQL
  client's quoting; the code stores the string it has quoted.
\<close>

definition SetFriendNote ::
  "(string \<Rightarrow> string) \<Rightarrow> (string \<Rightarrow> string) \<Rightarrow> u32 \<Rightarrow> string \<Rightarrow> PlayerSocial \<Rightarrow> PlayerSocial \<times> social_sql list" where
  "SetFriendNote trunc esc friend_guid note ps =
     (case map_of (m_playerSocialMap ps) friend_guid of
        None \<Rightarrow> (ps, [])
      | Some fi \<Rightarrow>
          (let note = trunc note; note = esc note
           in (ps\<lparr>m_playerSocialMap := om_put friend_guid (fi\<lparr>fi_Note := note\<rparr>) (m_playerSocialMap ps)\<rparr>,
               [SqlSetNote friend_guid note])))"

definition HasFriend :: "PlayerSocial \<Rightarrow> u32 \<Rightarrow> bool" where
  "HasFriend ps friend_guid =
     (case map_of (m_playerSocialMap ps) friend_guid of
        Some fi \<Rightarrow> fi_Flags fi AND SOCIAL_FLAG_FRIEND \<noteq> 0 | None \<Rightarrow> False)"

definition HasIgnore :: "PlayerSocial \<Rightarrow> u32 \<Rightarrow> bool" where
  "HasIgnore ps ignore_guid =
     (case map_of (m_playerSocialMap ps) ignore_guid of
        Some fi \<Rightarrow> fi_Flags fi AND SOCIAL_FLAG_IGNORED \<noteq> 0 | None \<Rightarrow> False)"

text \<open>\<open>LoadFromDB\<close>: rows in result order, at most the client limit of distinct entries.\<close>

fun load_rows :: "(u32 \<times> u32 \<times> string) list \<Rightarrow> (u32, FriendInfo) omap \<Rightarrow> (u32, FriendInfo) omap" where
  "load_rows [] m = m"
| "load_rows ((friend_guid, flags, note) # rows) m =
     (let m' = om_put friend_guid (FriendInfo_make flags note) m
      in if length m' \<ge> SOCIALMGR_FRIEND_LIMIT + SOCIALMGR_IGNORE_LIMIT then m' else load_rows rows m')"

definition LoadFromDB :: "(u32 \<times> u32 \<times> string) list \<Rightarrow> u32 \<Rightarrow> SocialMap \<Rightarrow> SocialMap" where
  "LoadFromDB rows guid sm =
     om_modify PlayerSocial_new
       (\<lambda>ps. ps\<lparr>m_playerGUID := guid, m_playerSocialMap := load_rows rows (m_playerSocialMap ps)\<rparr>) guid sm"

definition RemovePlayerSocial :: "u32 \<Rightarrow> SocialMap \<Rightarrow> SocialMap" where
  "RemovePlayerSocial guid sm = om_erase guid sm"

section \<open>What a friend sees\<close>

definition GetFriendInfo :: "world \<Rightarrow> SocialMap \<Rightarrow> player \<Rightarrow> u32 \<Rightarrow> FriendInfo \<Rightarrow> FriendInfo" where
  "GetFriendInfo w sm player friendGUID fi =
     (let fi = fi\<lparr>fi_Status := FRIEND_STATUS_OFFLINE, fi_Area := 0, fi_Level := 0, fi_Class := 0\<rparr>
      in case FindPlayer w (ucast friendGUID) of
           None \<Rightarrow> fi
         | Some pFriend \<Rightarrow>
             (let team = p_team player; security = p_security player;
                  allowTwoSideWhoList = getConfig w CONFIG_ALLOW_TWO_SIDE_WHO_LIST;
                  gmInWhoList = getConfig w CONFIG_GM_IN_WHO_LIST \<or> security > SEC_PLAYER;
                  fi = (case map_of (m_playerSocialMap (GetSocial sm (p_guid player))) friendGUID of
                          Some e \<Rightarrow> fi\<lparr>fi_Note := fi_Note e\<rparr> | None \<Rightarrow> fi)
              in if security > SEC_PLAYER \<or>
                    (p_team pFriend = team \<or> allowTwoSideWhoList) \<and>
                    (p_security pFriend = SEC_PLAYER \<or>
                     gmInWhoList \<and> IsVisibleGloballyFor pFriend (Some player))
                 then (let st = FRIEND_STATUS_ONLINE;
                           st = (if p_afk pFriend then FRIEND_STATUS_AFK else st);
                           st = (if p_dnd pFriend then FRIEND_STATUS_DND else st)
                       in fi\<lparr>fi_Status := st, fi_Area := p_zone pFriend, fi_Level := p_level pFriend,
                            fi_Class := p_class pFriend\<rparr>)
                 else fi))"

section \<open>Packets\<close>

datatype FriendsResult =
    FRIEND_DB_ERROR
  | FRIEND_LIST_FULL
  | FRIEND_ONLINE
  | FRIEND_OFFLINE
  | FRIEND_NOT_FOUND
  | FRIEND_REMOVED
  | FRIEND_ADDED_ONLINE
  | FRIEND_ADDED_OFFLINE
  | FRIEND_ALREADY
  | FRIEND_SELF
  | FRIEND_ENEMY
  | FRIEND_IGNORE_FULL
  | FRIEND_IGNORE_SELF
  | FRIEND_IGNORE_NOT_FOUND
  | FRIEND_IGNORE_ALREADY
  | FRIEND_IGNORE_ADDED
  | FRIEND_IGNORE_REMOVED

fun friends_code :: "FriendsResult \<Rightarrow> u8" where
  "friends_code FRIEND_DB_ERROR = 0x00"
| "friends_code FRIEND_LIST_FULL = 0x01"
| "friends_code FRIEND_ONLINE = 0x02"
| "friends_code FRIEND_OFFLINE = 0x03"
| "friends_code FRIEND_NOT_FOUND = 0x04"
| "friends_code FRIEND_REMOVED = 0x05"
| "friends_code FRIEND_ADDED_ONLINE = 0x06"
| "friends_code FRIEND_ADDED_OFFLINE = 0x07"
| "friends_code FRIEND_ALREADY = 0x08"
| "friends_code FRIEND_SELF = 0x09"
| "friends_code FRIEND_ENEMY = 0x0A"
| "friends_code FRIEND_IGNORE_FULL = 0x0B"
| "friends_code FRIEND_IGNORE_SELF = 0x0C"
| "friends_code FRIEND_IGNORE_NOT_FOUND = 0x0D"
| "friends_code FRIEND_IGNORE_ALREADY = 0x0E"
| "friends_code FRIEND_IGNORE_ADDED = 0x0F"
| "friends_code FRIEND_IGNORE_REMOVED = 0x10"

abbreviation SMSG_CONTACT_LIST :: u16 where "SMSG_CONTACT_LIST \<equiv> 0x067"
abbreviation SMSG_FRIEND_STATUS :: u16 where "SMSG_FRIEND_STATUS \<equiv> 0x068"

definition MakeFriendStatusPacket :: "FriendsResult \<Rightarrow> u32 \<Rightarrow> packet" where
  "MakeFriendStatusPacket result guid =
     mk_packet SMSG_FRIEND_STATUS [U8 (friends_code result), U64 (ucast guid)]"

definition BroadcastToFriendListers :: "world \<Rightarrow> SocialMap \<Rightarrow> player \<Rightarrow> packet \<Rightarrow> effect list" where
  "BroadcastToFriendListers w sm player pkt =
     (let team = p_team player; security = p_security player; guid = GUID_LOPART (p_guid player);
          gmInWhoList = getConfig w CONFIG_GM_IN_WHO_LIST;
          allowTwoSideWhoList = getConfig w CONFIG_ALLOW_TWO_SIDE_WHO_LIST
      in concat (map (\<lambda>(k, ps).
           case map_of (m_playerSocialMap ps) guid of
             None \<Rightarrow> []
           | Some fi \<Rightarrow>
               if fi_Flags fi AND SOCIAL_FLAG_FRIEND \<noteq> 0
               then (case FindPlayer w (player_guid k) of
                       None \<Rightarrow> []
                     | Some pFriend \<Rightarrow>
                         if p_inWorld pFriend \<and>
                            (p_security pFriend > SEC_PLAYER \<or>
                             (p_team pFriend = team \<or> allowTwoSideWhoList) \<and>
                             (security = SEC_PLAYER \<or>
                              gmInWhoList \<and> IsVisibleGloballyFor player (Some pFriend)))
                         then [Send (p_guid pFriend) pkt] else [])
               else []) sm))"

definition SendFriendStatus ::
  "world \<Rightarrow> SocialMap \<Rightarrow> player \<Rightarrow> FriendsResult \<Rightarrow> u32 \<Rightarrow> bool \<Rightarrow> effect list" where
  "SendFriendStatus w sm player result friend_guid broadcast =
     (let data = MakeFriendStatusPacket result friend_guid;
          fi = GetFriendInfo w sm player friend_guid FriendInfo_new;
          data = (if result = FRIEND_ADDED_OFFLINE \<or> result = FRIEND_ADDED_ONLINE
                  then data\<lparr>body := body data @ [Str (fi_Note fi)]\<rparr> else data);
          data = (if result = FRIEND_ADDED_ONLINE \<or> result = FRIEND_ONLINE
                  then data\<lparr>body := body data @
                         [U8 (status_code (fi_Status fi)), U32 (fi_Area fi), U32 (fi_Level fi), U32 (fi_Class fi)]\<rparr>
                  else data)
      in if broadcast then BroadcastToFriendListers w sm player data
         else [Send (p_guid player) data])"

definition contact_fields :: "u32 \<times> FriendInfo \<Rightarrow> field list" where
  "contact_fields e =
     (let (k, fi) = e in
      [U64 (ucast k), U32 (fi_Flags fi), Str (fi_Note fi)] @
      (if fi_Flags fi AND SOCIAL_FLAG_FRIEND \<noteq> 0
       then U8 (status_code (fi_Status fi)) #
            (if fi_Status fi \<noteq> FRIEND_STATUS_OFFLINE
             then [U32 (fi_Area fi), U32 (fi_Level fi), U32 (fi_Class fi)] else [])
       else []))"

text \<open>
  \<open>SendSocialList\<close> refreshes the status fields of every stored entry before it sends them.
\<close>

definition SendSocialList :: "world \<Rightarrow> SocialMap \<Rightarrow> PlayerSocial \<Rightarrow> PlayerSocial \<times> effect list" where
  "SendSocialList w sm ps =
     (case FindPlayer w (ucast (m_playerGUID ps)) of
        None \<Rightarrow> (ps, [])
      | Some plr \<Rightarrow>
          (let entries = map (\<lambda>(k, fi). (k, GetFriendInfo w sm plr k fi)) (m_playerSocialMap ps);
               data = mk_packet SMSG_CONTACT_LIST
                 ([U32 7, U32 (of_nat (length (m_playerSocialMap ps)))] @ concat (map contact_fields entries))
           in (ps\<lparr>m_playerSocialMap := entries\<rparr>, [Send (p_guid plr) data])))"

section \<open>Handlers\<close>

text \<open>
  A handler runs on the session of one player, changes that player's list and answers it.
  \<open>on_social\<close> replaces the list \<open>GetSocial()\<close> points to.
\<close>

definition on_social :: "u64 \<Rightarrow> PlayerSocial \<Rightarrow> SocialMap \<Rightarrow> SocialMap" where
  "on_social g ps sm = om_put (GUID_LOPART g) ps sm"

type_synonym social_result = "SocialMap \<times> social_sql list \<times> effect list"

definition HandleDelFriendOpcode :: "world \<Rightarrow> player \<Rightarrow> u64 \<Rightarrow> SocialMap \<Rightarrow> social_result" where
  "HandleDelFriendOpcode w me FriendGUID sm =
     (let (ps, sql) = RemoveFromSocialList (GUID_LOPART FriendGUID) False (GetSocial sm (p_guid me));
          sm = on_social (p_guid me) ps sm
      in (sm, sql, SendFriendStatus w sm me FRIEND_REMOVED (GUID_LOPART FriendGUID) False))"

definition HandleDelIgnoreOpcode :: "world \<Rightarrow> player \<Rightarrow> u64 \<Rightarrow> SocialMap \<Rightarrow> social_result" where
  "HandleDelIgnoreOpcode w me IgnoreGUID sm =
     (let (ps, sql) = RemoveFromSocialList (GUID_LOPART IgnoreGUID) True (GetSocial sm (p_guid me));
          sm = on_social (p_guid me) ps sm
      in (sm, sql, SendFriendStatus w sm me FRIEND_IGNORE_REMOVED (GUID_LOPART IgnoreGUID) False))"

definition HandleSetFriendNoteOpcode ::
  "(string \<Rightarrow> string) \<Rightarrow> (string \<Rightarrow> string) \<Rightarrow> player \<Rightarrow> u64 \<Rightarrow> string \<Rightarrow> SocialMap \<Rightarrow> social_result" where
  "HandleSetFriendNoteOpcode trunc esc me guid note sm =
     (let (ps, sql) = SetFriendNote trunc esc (ucast guid) note (GetSocial sm (p_guid me))
      in (on_social (p_guid me) ps sm, sql, []))"

text \<open>
  The callback of the name query. A row holds the character's low guid, the team of its race
  (\<open>Player::TeamForRace\<close> over the race table) and the security of its account.
\<close>

definition HandleAddFriendOpcodeCallBack ::
  "(string \<Rightarrow> string) \<Rightarrow> (string \<Rightarrow> string) \<Rightarrow> world \<Rightarrow> player \<Rightarrow> (u32 \<times> u32 \<times> nat) option \<Rightarrow> string \<Rightarrow>
     SocialMap \<Rightarrow> social_result" where
  "HandleAddFriendOpcodeCallBack trunc esc w me result friendNote sm =
     (let social = GetSocial sm (p_guid me);
          (friendResult, friendGuid, ps, sql) =
            (case result of
               None \<Rightarrow> (FRIEND_NOT_FOUND, 0, social, [])
             | Some (lowguid, team, acctsec) \<Rightarrow>
                 (let friendGuid = player_guid lowguid in
                  if (p_security me \<ge> SEC_MODERATOR \<or> getConfig w CONFIG_ALLOW_GM_FRIEND \<or> acctsec < SEC_MODERATOR)
                     \<and> friendGuid \<noteq> 0
                  then
                    (let (res, ps, sql) =
                       (if friendGuid = p_guid me then (FRIEND_SELF, social, [])
                        else if p_team me \<noteq> team \<and> \<not> getConfig w CONFIG_ALLOW_TWO_SIDE_ADD_FRIEND
                                \<and> p_security me < SEC_MODERATOR
                        then (FRIEND_ENEMY, social, [])
                        else if HasFriend social (GUID_LOPART friendGuid) then (FRIEND_ALREADY, social, [])
                        else
                          (let res = (case FindPlayer w friendGuid of
                                        Some pFriend \<Rightarrow>
                                          if p_inWorld pFriend \<and> IsVisibleGloballyFor pFriend (Some me)
                                          then FRIEND_ADDED_ONLINE else FRIEND_ADDED_OFFLINE
                                      | None \<Rightarrow> FRIEND_ADDED_OFFLINE);
                               (added, ps, sql) = AddToSocialList (GUID_LOPART friendGuid) False social
                           in (if added then res else FRIEND_LIST_FULL, ps, sql)));
                        (ps, sql') = SetFriendNote trunc esc (GUID_LOPART friendGuid) friendNote ps
                     in (res, friendGuid, ps, sql @ sql'))
                  else (FRIEND_NOT_FOUND, friendGuid, social, [])));
          sm = on_social (p_guid me) ps sm
      in (sm, sql, SendFriendStatus w sm me friendResult (GUID_LOPART friendGuid) False))"

definition HandleAddIgnoreOpcodeCallBack ::
  "world \<Rightarrow> player \<Rightarrow> u32 option \<Rightarrow> SocialMap \<Rightarrow> social_result" where
  "HandleAddIgnoreOpcodeCallBack w me result sm =
     (let social = GetSocial sm (p_guid me);
          (ignoreResult, IgnoreGuid, ps, sql) =
            (case result of
               None \<Rightarrow> (FRIEND_IGNORE_NOT_FOUND, 0, social, [])
             | Some lowguid \<Rightarrow>
                 (let IgnoreGuid = player_guid lowguid in
                  if IgnoreGuid = 0 then (FRIEND_IGNORE_NOT_FOUND, IgnoreGuid, social, [])
                  else if IgnoreGuid = p_guid me then (FRIEND_IGNORE_SELF, IgnoreGuid, social, [])
                  else if HasIgnore social (GUID_LOPART IgnoreGuid)
                  then (FRIEND_IGNORE_ALREADY, IgnoreGuid, social, [])
                  else
                    (let (added, ps, sql) = AddToSocialList (GUID_LOPART IgnoreGuid) True social
                     in (if added then FRIEND_IGNORE_ADDED else FRIEND_IGNORE_FULL, IgnoreGuid, ps, sql))));
          sm = on_social (p_guid me) ps sm
      in (sm, sql, SendFriendStatus w sm me ignoreResult (GUID_LOPART IgnoreGuid) False))"

section \<open>Flags of an entry\<close>

abbreviation social_flag :: "bool \<Rightarrow> u32" where
  "social_flag ignore \<equiv> if ignore then SOCIAL_FLAG_IGNORED else SOCIAL_FLAG_FRIEND"

definition HasSocial :: "bool \<Rightarrow> PlayerSocial \<Rightarrow> u32 \<Rightarrow> bool" where
  "HasSocial ignore ps g = (if ignore then HasIgnore ps g else HasFriend ps g)"

lemma HasSocial_iff:
  "HasSocial ignore ps g \<longleftrightarrow>
     om_holds (\<lambda>fi. fi_Flags fi AND social_flag ignore \<noteq> 0) (map_of (m_playerSocialMap ps) g)"
  by (simp add: HasSocial_def HasFriend_def HasIgnore_def om_holds_def split: option.splits)

lemma GetNumber_count:
  "GetNumberOfSocialsWithFlag ps flag = om_count (\<lambda>fi. fi_Flags fi AND flag \<noteq> 0) (m_playerSocialMap ps)"
  by (simp add: GetNumberOfSocialsWithFlag_def om_count_def case_prod_unfold)

lemma social_flag_masks [simp]:
  "(x OR social_flag i) AND social_flag i \<noteq> 0"
  "(x AND NOT (social_flag i)) AND social_flag i = 0"
  "(x OR social_flag i) AND social_flag (\<not> i) = x AND social_flag (\<not> i)"
  "(x AND NOT (social_flag i)) AND social_flag (\<not> i) = x AND social_flag (\<not> i)"
  by (auto simp: flag_or_other flag_clear_other)

section \<open>Invariant of a list\<close>

text \<open>
  Every stored entry carries a flag, no key occurs twice and the client limits hold.
\<close>

definition social_inv :: "PlayerSocial \<Rightarrow> bool" where
  "social_inv ps \<longleftrightarrow>
     om_ok (m_playerSocialMap ps) \<and>
     (\<forall>g fi. map_of (m_playerSocialMap ps) g = Some fi \<longrightarrow> fi_Flags fi \<noteq> 0) \<and>
     GetNumberOfSocialsWithFlag ps SOCIAL_FLAG_FRIEND \<le> SOCIALMGR_FRIEND_LIMIT \<and>
     GetNumberOfSocialsWithFlag ps SOCIAL_FLAG_IGNORED \<le> SOCIALMGR_IGNORE_LIMIT"

lemma AddToSocialList_shape:
  assumes "AddToSocialList g ignore ps = (added, ps', sql)"
  shows "(\<not> added \<and> ps' = ps \<and> sql = [] \<and>
      GetNumberOfSocialsWithFlag ps (social_flag ignore) \<ge> (if ignore then 25 else 50)) \<or>
    (added \<and> GetNumberOfSocialsWithFlag ps (social_flag ignore) < (if ignore then 25 else 50) \<and>
      (let fi = om_at FriendInfo_new (m_playerSocialMap ps) g in
       ps' = ps\<lparr>m_playerSocialMap :=
         om_put g (fi\<lparr>fi_Flags := fi_Flags fi OR social_flag ignore\<rparr>) (m_playerSocialMap ps)\<rparr>) \<and>
      sql = (if om_mem g (m_playerSocialMap ps) then [SqlOrFlags (social_flag ignore) g]
             else [SqlInsert g (social_flag ignore)]))"
  using assms by (auto simp: AddToSocialList_def om_at_def Let_def split: if_splits option.splits)

lemma or_flag_nz: "x OR social_flag i \<noteq> (0 :: u32)"
  by (metis and_zero_eq bit.conj_zero_left social_flag_masks(1) word_bw_comms(1))

text \<open>Replacing one entry by one whose \<open>ignore\<close> flag may change and whose other flag does not.\<close>

lemma count_put_flags:
  assumes "om_ok m"
  shows "om_count (\<lambda>fi. fi_Flags fi AND f \<noteq> 0) (om_put g v m) +
      of_bool (om_holds (\<lambda>fi. fi_Flags fi AND f \<noteq> 0) (map_of m g)) =
    om_count (\<lambda>fi. fi_Flags fi AND f \<noteq> 0) m + of_bool (fi_Flags v AND f \<noteq> 0)"
  by (rule om_count_put [OF assms])

lemma om_at_holds:
  "fi_Flags (om_at FriendInfo_new m g) AND f \<noteq> 0 \<longleftrightarrow> om_holds (\<lambda>fi. fi_Flags fi AND f \<noteq> 0) (map_of m g)"
  by (simp add: om_at_def om_holds_def FriendInfo_new_def split: option.splits)

lemma AddToSocialList_inv:
  assumes "social_inv ps" "AddToSocialList g ignore ps = (added, ps', sql)"
  shows "social_inv ps'"
proof -
  let ?m = "m_playerSocialMap ps"
  let ?v = "(om_at FriendInfo_new ?m g)\<lparr>fi_Flags := fi_Flags (om_at FriendInfo_new ?m g) OR social_flag ignore\<rparr>"
  from AddToSocialList_shape [OF assms(2)] show ?thesis
  proof
    assume added: "added \<and> GetNumberOfSocialsWithFlag ps (social_flag ignore) < (if ignore then 25 else 50) \<and>
      (let fi = om_at FriendInfo_new ?m g in
       ps' = ps\<lparr>m_playerSocialMap :=
         om_put g (fi\<lparr>fi_Flags := fi_Flags fi OR social_flag ignore\<rparr>) ?m\<rparr>) \<and>
      sql = (if om_mem g ?m then [SqlOrFlags (social_flag ignore) g]
             else [SqlInsert g (social_flag ignore)])"
    then have ps': "m_playerSocialMap ps' = om_put g ?v ?m" by (simp add: Let_def)
    have ok: "om_ok ?m" using assms(1) by (simp add: social_inv_def)
    note cnt = count_put_flags [OF ok, of _ g ?v]
    have "GetNumberOfSocialsWithFlag ps' (social_flag (\<not> ignore)) = GetNumberOfSocialsWithFlag ps (social_flag (\<not> ignore))"
      using cnt [of "social_flag (\<not> ignore)"]
      by (simp add: GetNumber_count ps' om_at_holds del: if_not_P)
    moreover have "GetNumberOfSocialsWithFlag ps' (social_flag ignore) \<le> Suc (GetNumberOfSocialsWithFlag ps (social_flag ignore))"
      using cnt [of "social_flag ignore"] by (cases ignore) (auto simp: GetNumber_count ps')
    ultimately show ?thesis
      using assms(1) added ok or_flag_nz [of _ ignore]
      by (cases ignore) (auto simp: social_inv_def ps')
  qed (use assms(1) in simp)
qed

lemma RemoveFromSocialList_inv:
  assumes "social_inv ps"
  shows "social_inv (fst (RemoveFromSocialList g ignore ps))"
proof (cases "map_of (m_playerSocialMap ps) g")
  case (Some fi)
  let ?m = "m_playerSocialMap ps" and ?v = "fi\<lparr>fi_Flags := fi_Flags fi AND NOT (social_flag ignore)\<rparr>"
  have ok: "om_ok ?m" using assms by (simp add: social_inv_def)
  have er: "om_count (\<lambda>fi. fi_Flags fi AND f \<noteq> 0) (om_erase g ?m) \<le> om_count (\<lambda>fi. fi_Flags fi AND f \<noteq> 0) ?m" for f
    using om_count_erase [OF ok, of "\<lambda>fi. fi_Flags fi AND f \<noteq> 0" g] by linarith
  have pu: "om_count (\<lambda>fi. fi_Flags fi AND social_flag i \<noteq> 0) (om_put g ?v ?m)
      \<le> om_count (\<lambda>fi. fi_Flags fi AND social_flag i \<noteq> 0) ?m" for i
    using count_put_flags [OF ok, of "social_flag i" g ?v]
    by (cases "i = ignore") (auto simp: om_holds_def Some)
  have "om_count (\<lambda>fi. fi_Flags fi AND SOCIAL_FLAG_FRIEND \<noteq> 0) (om_put g ?v ?m)
      \<le> om_count (\<lambda>fi. fi_Flags fi AND SOCIAL_FLAG_FRIEND \<noteq> 0) ?m"
    "om_count (\<lambda>fi. fi_Flags fi AND SOCIAL_FLAG_IGNORED \<noteq> 0) (om_put g ?v ?m)
      \<le> om_count (\<lambda>fi. fi_Flags fi AND SOCIAL_FLAG_IGNORED \<noteq> 0) ?m"
    using pu [of False] pu [of True] by simp_all
  with assms er [of SOCIAL_FLAG_FRIEND] er [of SOCIAL_FLAG_IGNORED] ok show ?thesis
    by (auto simp: RemoveFromSocialList_def Some Let_def social_inv_def GetNumber_count split: if_splits)
qed (use assms in \<open>simp add: RemoveFromSocialList_def\<close>)

lemma SetFriendNote_inv:
  assumes "social_inv ps"
  shows "social_inv (fst (SetFriendNote trunc esc g note ps))"
proof (cases "map_of (m_playerSocialMap ps) g")
  case (Some fi)
  let ?m = "m_playerSocialMap ps"
  have ok: "om_ok ?m" using assms by (simp add: social_inv_def)
  have "om_count (\<lambda>fi. fi_Flags fi AND f \<noteq> 0) (om_put g (fi\<lparr>fi_Note := n\<rparr>) ?m)
      = om_count (\<lambda>fi. fi_Flags fi AND f \<noteq> 0) ?m" for f n
    using count_put_flags [OF ok, of f g "fi\<lparr>fi_Note := n\<rparr>"] by (simp add: om_holds_def Some)
  with assms ok Some show ?thesis
    by (auto simp: SetFriendNote_def Let_def social_inv_def GetNumber_count)
qed (use assms in \<open>simp add: SetFriendNote_def\<close>)

section \<open>List and table together\<close>

datatype social_op = SocAdd u32 bool | SocRemove u32 bool | SocNote u32 string

type_synonym social_db = "u32 \<rightharpoonup> social_row"

fun social_step ::
  "(string \<Rightarrow> string) \<Rightarrow> (string \<Rightarrow> string) \<Rightarrow> (string \<Rightarrow> string) \<Rightarrow> social_op \<Rightarrow>
     PlayerSocial \<times> social_db \<Rightarrow> PlayerSocial \<times> social_db" where
  "social_step trunc esc unq (SocAdd g ignore) (ps, db) =
     (let (added, ps', sql) = AddToSocialList g ignore ps in (ps', fold (social_exec unq) sql db))"
| "social_step trunc esc unq (SocRemove g ignore) (ps, db) =
     (let (ps', sql) = RemoveFromSocialList g ignore ps in (ps', fold (social_exec unq) sql db))"
| "social_step trunc esc unq (SocNote g note) (ps, db) =
     (let (ps', sql) = SetFriendNote trunc esc g note ps in (ps', fold (social_exec unq) sql db))"

text \<open>The table holds exactly the entries of the list, with the same flags.\<close>

definition mirrors :: "PlayerSocial \<Rightarrow> social_db \<Rightarrow> bool" where
  "mirrors ps db \<longleftrightarrow>
     (\<forall>g. map_option fi_Flags (map_of (m_playerSocialMap ps) g) = map_option fst (db g))"

lemma mirrors_D:
  "mirrors ps db \<Longrightarrow> map_of (m_playerSocialMap ps) g = Some fi \<Longrightarrow> \<exists>n. db g = Some (fi_Flags fi, n)"
  by (drule spec [of _ g, OF mirrors_def [THEN iffD1]]) (auto simp: map_option_case split: option.splits)

lemma mirrors_None:
  "mirrors ps db \<Longrightarrow> map_of (m_playerSocialMap ps) g = None \<Longrightarrow> db g = None"
  by (drule spec [of _ g, OF mirrors_def [THEN iffD1]]) simp

lemma AddToSocialList_mirrors:
  assumes "mirrors ps db" "AddToSocialList g ignore ps = (added, ps', sql)"
  shows "mirrors ps' (fold (social_exec unq) sql db)"
  using assms mirrors_D [OF assms(1), of g]
  by (auto simp: AddToSocialList_def Let_def mirrors_def FriendInfo_new_def split: if_splits option.splits)

lemma RemoveFromSocialList_mirrors:
  assumes "mirrors ps db" "RemoveFromSocialList g ignore ps = (ps', sql)"
  shows "mirrors ps' (fold (social_exec unq) sql db)"
  using assms mirrors_D [OF assms(1), of g]
  by (auto simp: RemoveFromSocialList_def Let_def mirrors_def split: if_splits option.splits)

lemma SetFriendNote_mirrors:
  assumes "mirrors ps db" "SetFriendNote trunc esc g note ps = (ps', sql)"
  shows "mirrors ps' (fold (social_exec unq) sql db)"
  using assms mirrors_D [OF assms(1), of g]
  by (auto simp: SetFriendNote_def Let_def mirrors_def split: option.splits)

lemma social_step_inv:
  assumes "social_inv (fst s) \<and> mirrors (fst s) (snd s)"
  shows "social_inv (fst (social_step trunc esc unq op s)) \<and>
    mirrors (fst (social_step trunc esc unq op s)) (snd (social_step trunc esc unq op s))"
proof (cases s)
  case (Pair ps db)
  with assms show ?thesis
  proof (cases op)
    case (SocAdd g i)
    with Pair assms show ?thesis
      by (cases "AddToSocialList g i ps") (auto intro: AddToSocialList_inv AddToSocialList_mirrors)
  next
    case (SocRemove g i)
    with Pair assms RemoveFromSocialList_inv [of ps g i] show ?thesis
      by (cases "RemoveFromSocialList g i ps") (auto intro: RemoveFromSocialList_mirrors)
  next
    case (SocNote g n)
    with Pair assms SetFriendNote_inv [of ps trunc esc g n] show ?thesis
      by (cases "SetFriendNote trunc esc g n ps") (auto intro: SetFriendNote_mirrors)
  qed
qed

interpretation social: machine "social_step trunc esc unq"
    "\<lambda>s. social_inv (fst s) \<and> mirrors (fst s) (snd s)" for trunc esc unq
  by unfold_locales (rule social_step_inv)

section \<open>Properties\<close>

text \<open>
  C32: from a list within its limits that agrees with the table on, however many friends and ignores a
  player adds, removes or annotates, the list never holds more than 50 friends or 25 ignored players and
  never keeps an entry without a flag, and the table \<open>character_social\<close> (run through the statements the
  operations issue) holds a row for exactly the players of the list, with the same flags. The notes are
  not compared: a note with a quote differs (\<open>SetFriendNote_keeps_quoted_note\<close>).
\<close>

theorem social_list_limits_and_write_through:
  assumes "social_inv ps" "mirrors ps db"
  shows "case fold (social_step trunc esc unq) ops (ps, db) of (ps', db') \<Rightarrow>
    GetNumberOfSocialsWithFlag ps' SOCIAL_FLAG_FRIEND \<le> 50 \<and>
    GetNumberOfSocialsWithFlag ps' SOCIAL_FLAG_IGNORED \<le> 25 \<and>
    (\<forall>g. map_option fi_Flags (map_of (m_playerSocialMap ps') g) = map_option fst (db' g)) \<and>
    (\<forall>g fi. map_of (m_playerSocialMap ps') g = Some fi \<longrightarrow> fi_Flags fi \<noteq> 0)"
  using social.run_inv [of "(ps, db)" trunc esc unq ops] assms
  by (auto simp: social_inv_def mirrors_def case_prod_unfold)

theorem social_list_limits_and_write_through_witness:
  "case fold (social_step id id id) [SocAdd 7 False, SocAdd 7 True, SocRemove 7 False] (PlayerSocial_new, Map.empty) of
    (ps', db') \<Rightarrow>
    GetNumberOfSocialsWithFlag ps' SOCIAL_FLAG_FRIEND \<le> 50 \<and>
    GetNumberOfSocialsWithFlag ps' SOCIAL_FLAG_IGNORED \<le> 25 \<and>
    (\<forall>g. map_option fi_Flags (map_of (m_playerSocialMap ps') g) = map_option fst (db' g)) \<and>
    (\<forall>g fi. map_of (m_playerSocialMap ps') g = Some fi \<longrightarrow> fi_Flags fi \<noteq> 0)"
  by (rule social_list_limits_and_write_through)
    (simp_all add: social_inv_def mirrors_def PlayerSocial_new_def GetNumberOfSocialsWithFlag_def)

text \<open>
  C33: adding a player to one of the two lists either reports that this list is full and changes
  nothing, or makes exactly that player a member of it; removing takes exactly that player out.
  The other list and the other players' entries stay as they were.
\<close>

theorem social_add_remove_exact:
  assumes "AddToSocialList g ignore ps = (added, ps', sql)"
    and "RemoveFromSocialList g ignore ps = (ps'', sql')"
  shows "(added \<longleftrightarrow> GetNumberOfSocialsWithFlag ps (social_flag ignore) < (if ignore then 25 else 50)) \<and>
    (\<not> added \<longrightarrow> ps' = ps \<and> sql = []) \<and>
    (added \<longrightarrow> (\<forall>i h. HasSocial i ps' h \<longleftrightarrow> (i = ignore \<and> h = g) \<or> HasSocial i ps h)) \<and>
    (\<forall>i h. HasSocial i ps'' h \<longleftrightarrow> HasSocial i ps h \<and> \<not> (i = ignore \<and> h = g))"
proof -
  have "added \<Longrightarrow> HasSocial i ps' h \<longleftrightarrow> (i = ignore \<and> h = g) \<or> HasSocial i ps h" for i h
    using AddToSocialList_shape [OF assms(1)]
    by (cases "i = ignore"; cases "map_of (m_playerSocialMap ps) g")
      (auto simp: HasSocial_iff om_at_def om_holds_def Let_def FriendInfo_new_def)
  moreover have "HasSocial i ps'' h \<longleftrightarrow> HasSocial i ps h \<and> \<not> (i = ignore \<and> h = g)" for i h
    using assms(2)
    by (cases "map_of (m_playerSocialMap ps) g"; cases "i = ignore")
      (auto simp: RemoveFromSocialList_def HasSocial_iff om_holds_def Let_def split: if_splits)
  ultimately show ?thesis
    using AddToSocialList_shape [OF assms(1)] by (auto split: if_splits)
qed

theorem social_add_remove_exact_witness:
  "HasSocial False (fst (snd (AddToSocialList 9 False PlayerSocial_new))) 9 \<and>
    \<not> HasSocial False (fst (RemoveFromSocialList 9 False PlayerSocial_new)) 9"
proof -
  obtain a ps' sql where add: "AddToSocialList 9 False PlayerSocial_new = (a, ps', sql)"
    by (cases "AddToSocialList 9 False PlayerSocial_new")
  obtain ps'' sql' where rem: "RemoveFromSocialList 9 False PlayerSocial_new = (ps'', sql')"
    by (cases "RemoveFromSocialList 9 False PlayerSocial_new")
  have "GetNumberOfSocialsWithFlag PlayerSocial_new SOCIAL_FLAG_FRIEND = 0"
    by (simp add: GetNumberOfSocialsWithFlag_def PlayerSocial_new_def)
  with social_add_remove_exact [OF add rem] show ?thesis by (simp add: add rem)
qed

definition example_player :: "u64 \<Rightarrow> string \<Rightarrow> player" where
  "example_player g n = \<lparr>p_guid = g, p_name = n, p_team = ALLIANCE, p_security = 0, p_inWorld = True,
     p_visibility = VISIBILITY_ON, p_guildId = 0, p_hasGroup = False, p_lfgEmpty = False, p_afk = False,
     p_dnd = False, p_gmChatFlag = False, p_zone = 12, p_level = 70, p_class = 1\<rparr>"

definition example_world :: world where
  "example_world = \<lparr>w_players = [example_player 1 ''Anna'', example_player 2 ''Bert'', example_player 3 ''Carl''],
     w_config = (\<lambda>_. False), w_names = (\<lambda>_. None)\<rparr>"

lemmas example_defs = example_player_def example_world_def FindPlayer_def FindPlayerByName_def getConfig_def

text \<open>
  The note a player attaches is stored in memory in its SQL-quoted form, while the table row
  receives the note itself: whenever quoting changes the truncated note, the list and the table
  disagree until the list is loaded again.
\<close>

theorem SetFriendNote_keeps_quoted_note:
  assumes "map_of (m_playerSocialMap ps) g = Some fi" "mirrors ps db"
    and "unq (esc (trunc nt)) = trunc nt"
    and "SetFriendNote trunc esc g nt ps = (ps', sql)"
  shows "\<exists>fi' fl. map_of (m_playerSocialMap ps') g = Some fi' \<and> fi_Note fi' = esc (trunc nt) \<and>
    fold (social_exec unq) sql db g = Some (fl, trunc nt) \<and>
    (fi_Note fi' = trunc nt \<longleftrightarrow> esc (trunc nt) = trunc nt)"
  using assms mirrors_D [OF assms(2,1)] by (auto simp: SetFriendNote_def Let_def)

definition quote_ticks :: "string \<Rightarrow> string" where
  "quote_ticks s = concat (map (\<lambda>c. if c = CHR 0x27 then [CHR 0x5C, c] else [c]) s)"

definition unquote_ticks :: "string \<Rightarrow> string" where
  "unquote_ticks s = filter (\<lambda>c. c \<noteq> CHR 0x5C) s"

theorem SetFriendNote_keeps_quoted_note_witness:
  "\<exists>ps' sql fi' fl. SetFriendNote id quote_ticks 4 [CHR 0x27]
      (PlayerSocial_new\<lparr>m_playerSocialMap := [(4, FriendInfo_make 1 [])]\<rparr>) = (ps', sql) \<and>
    map_of (m_playerSocialMap ps') 4 = Some fi' \<and> fi_Note fi' = [CHR 0x5C, CHR 0x27] \<and>
    fold (social_exec unquote_ticks) sql [4 \<mapsto> (1, [])] 4 = Some (fl, [CHR 0x27])"
proof -
  let ?ps = "PlayerSocial_new\<lparr>m_playerSocialMap := [(4, FriendInfo_make 1 [])]\<rparr>"
  obtain ps' sql where set: "SetFriendNote id quote_ticks 4 [CHR 0x27] ?ps = (ps', sql)"
    by (cases "SetFriendNote id quote_ticks 4 [CHR 0x27] ?ps")
  have q: "quote_ticks [CHR 0x27] = [CHR 0x5C, CHR 0x27]" by (simp add: quote_ticks_def)
  have m: "mirrors ?ps [4 \<mapsto> (1, [])]" by (simp add: mirrors_def FriendInfo_make_def)
  have u: "unquote_ticks (quote_ticks (id [CHR 0x27])) = id [CHR 0x27]"
    by (simp add: q unquote_ticks_def)
  have g: "map_of (m_playerSocialMap ?ps) 4 = Some (FriendInfo_make 1 [])" by simp
  show ?thesis
    using SetFriendNote_keeps_quoted_note [where trunc = id and esc = quote_ticks and
        unq = unquote_ticks and nt = "[CHR 0x27]", OF g m u set] set q by auto
qed

end
