(* ===== verification/Channel.thy ===== *)
theory Channel
  imports Social
begin

text \<open>
  Chat channels: the class \<open>Channel\<close> of game/Channel.h and Channel.cpp. This theory holds the
  state, the member flags and the packets; the theory ChannelOps the operations players run.
\<close>

section \<open>State\<close>

record chat_world = world +
  w_social :: SocialMap
  w_chatChannels :: "u32 \<Rightarrow> u32 option"

text \<open>
  \<open>w_chatChannels\<close> is \<open>GetChannelEntryFor\<close> over the client's channel table: the flags of a
  built-in channel id.
\<close>

record PlayerInfo =
  pi_player :: u64
  pi_flags :: u8

record channel =
  players :: "(u64, PlayerInfo) omap"
  banned :: "u64 set"
  m_name :: string
  m_announce :: bool
  m_moderate :: bool
  m_password :: string
  m_flags :: u8
  m_channelId :: u32
  m_ownerGUID :: u64

text \<open>A value-initialised \<open>PlayerInfo\<close>, what \<open>players[p]\<close> inserts for a missing key.\<close>

definition PlayerInfo_zero :: PlayerInfo where
  "PlayerInfo_zero = \<lparr>pi_player = 0, pi_flags = 0\<rparr>"

abbreviation CHANNEL_FLAG_CUSTOM :: u8 where "CHANNEL_FLAG_CUSTOM \<equiv> 0x01"
abbreviation CHANNEL_FLAG_TRADE :: u8 where "CHANNEL_FLAG_TRADE \<equiv> 0x04"
abbreviation CHANNEL_FLAG_NOT_LFG :: u8 where "CHANNEL_FLAG_NOT_LFG \<equiv> 0x08"
abbreviation CHANNEL_FLAG_GENERAL :: u8 where "CHANNEL_FLAG_GENERAL \<equiv> 0x10"
abbreviation CHANNEL_FLAG_CITY :: u8 where "CHANNEL_FLAG_CITY \<equiv> 0x20"
abbreviation CHANNEL_FLAG_LFG :: u8 where "CHANNEL_FLAG_LFG \<equiv> 0x40"

abbreviation CHANNEL_DBC_FLAG_TRADE :: u32 where "CHANNEL_DBC_FLAG_TRADE \<equiv> 0x00008"
abbreviation CHANNEL_DBC_FLAG_CITY_ONLY2 :: u32 where "CHANNEL_DBC_FLAG_CITY_ONLY2 \<equiv> 0x00020"
abbreviation CHANNEL_DBC_FLAG_LFG :: u32 where "CHANNEL_DBC_FLAG_LFG \<equiv> 0x40000"

abbreviation MEMBER_FLAG_OWNER :: u8 where "MEMBER_FLAG_OWNER \<equiv> 0x01"
abbreviation MEMBER_FLAG_MODERATOR :: u8 where "MEMBER_FLAG_MODERATOR \<equiv> 0x02"
abbreviation MEMBER_FLAG_MUTED :: u8 where "MEMBER_FLAG_MUTED \<equiv> 0x08"

definition Channel_new :: "(u32 \<Rightarrow> u32 option) \<Rightarrow> string \<Rightarrow> u32 \<Rightarrow> channel" where
  "Channel_new dbc name channel_id =
     (let c = \<lparr>players = [], banned = {}, m_name = name, m_announce = True, m_moderate = False,
               m_password = '''', m_flags = 0, m_channelId = channel_id, m_ownerGUID = 0\<rparr>
      in case dbc channel_id of
           Some chflags \<Rightarrow>
             (let fl = m_flags c OR CHANNEL_FLAG_GENERAL;
                  fl = (if chflags AND CHANNEL_DBC_FLAG_TRADE \<noteq> 0 then fl OR CHANNEL_FLAG_TRADE else fl);
                  fl = (if chflags AND CHANNEL_DBC_FLAG_CITY_ONLY2 \<noteq> 0 then fl OR CHANNEL_FLAG_CITY else fl);
                  fl = (if chflags AND CHANNEL_DBC_FLAG_LFG \<noteq> 0 then fl OR CHANNEL_FLAG_LFG
                        else fl OR CHANNEL_FLAG_NOT_LFG)
              in c\<lparr>m_announce := False, m_flags := fl\<rparr>)
         | None \<Rightarrow> c\<lparr>m_flags := m_flags c OR CHANNEL_FLAG_CUSTOM\<rparr>)"

section \<open>Members\<close>

definition IsOwner :: "PlayerInfo \<Rightarrow> bool" where
  "IsOwner p \<longleftrightarrow> pi_flags p AND MEMBER_FLAG_OWNER \<noteq> 0"

definition IsModerator :: "PlayerInfo \<Rightarrow> bool" where
  "IsModerator p \<longleftrightarrow> pi_flags p AND MEMBER_FLAG_MODERATOR \<noteq> 0"

definition IsMuted :: "PlayerInfo \<Rightarrow> bool" where
  "IsMuted p \<longleftrightarrow> pi_flags p AND MEMBER_FLAG_MUTED \<noteq> 0"

definition set_flag :: "u8 \<Rightarrow> bool \<Rightarrow> PlayerInfo \<Rightarrow> PlayerInfo" where
  "set_flag flag state p =
     (if state then p\<lparr>pi_flags := pi_flags p OR flag\<rparr> else p\<lparr>pi_flags := pi_flags p AND NOT flag\<rparr>)"

definition PlayerInfo_SetOwner :: "bool \<Rightarrow> PlayerInfo \<Rightarrow> PlayerInfo" where
  "PlayerInfo_SetOwner state = set_flag MEMBER_FLAG_OWNER state"

definition PlayerInfo_SetModerator :: "bool \<Rightarrow> PlayerInfo \<Rightarrow> PlayerInfo" where
  "PlayerInfo_SetModerator state = set_flag MEMBER_FLAG_MODERATOR state"

definition PlayerInfo_SetMuted :: "bool \<Rightarrow> PlayerInfo \<Rightarrow> PlayerInfo" where
  "PlayerInfo_SetMuted state = set_flag MEMBER_FLAG_MUTED state"

definition IsOn :: "channel \<Rightarrow> u64 \<Rightarrow> bool" where
  "IsOn c who \<longleftrightarrow> om_mem who (players c)"

definition IsBanned :: "channel \<Rightarrow> u64 \<Rightarrow> bool" where
  "IsBanned c guid \<longleftrightarrow> guid \<in> banned c"

definition IsConstant :: "channel \<Rightarrow> bool" where
  "IsConstant c \<longleftrightarrow> m_channelId c \<noteq> 0"

definition IsLFG :: "channel \<Rightarrow> bool" where
  "IsLFG c \<longleftrightarrow> m_flags c AND CHANNEL_FLAG_LFG \<noteq> 0"

definition GetNumPlayers :: "channel \<Rightarrow> nat" where
  "GetNumPlayers c = length (players c)"

definition GetPlayerFlags :: "channel \<Rightarrow> u64 \<Rightarrow> u8" where
  "GetPlayerFlags c p = (case map_of (players c) p of None \<Rightarrow> 0 | Some i \<Rightarrow> pi_flags i)"

text \<open>\<open>players[p]\<close> read, and \<open>players[p].f()\<close>.\<close>

definition player_at :: "channel \<Rightarrow> u64 \<Rightarrow> PlayerInfo" where
  "player_at c p = om_at PlayerInfo_zero (players c) p"

definition player_upd :: "(PlayerInfo \<Rightarrow> PlayerInfo) \<Rightarrow> u64 \<Rightarrow> channel \<Rightarrow> channel" where
  "player_upd f p c = c\<lparr>players := om_modify PlayerInfo_zero f p (players c)\<rparr>"

section \<open>Packets\<close>

abbreviation SMSG_MESSAGECHAT :: u16 where "SMSG_MESSAGECHAT \<equiv> 0x096"
abbreviation SMSG_CHANNEL_NOTIFY :: u16 where "SMSG_CHANNEL_NOTIFY \<equiv> 0x099"
abbreviation SMSG_CHANNEL_LIST :: u16 where "SMSG_CHANNEL_LIST \<equiv> 0x09B"
abbreviation SMSG_CHANNEL_MEMBER_COUNT :: u16 where "SMSG_CHANNEL_MEMBER_COUNT \<equiv> 0x3D4"
abbreviation SMSG_USERLIST_ADD :: u16 where "SMSG_USERLIST_ADD \<equiv> 0x3EF"
abbreviation SMSG_USERLIST_REMOVE :: u16 where "SMSG_USERLIST_REMOVE \<equiv> 0x3F0"
abbreviation SMSG_USERLIST_UPDATE :: u16 where "SMSG_USERLIST_UPDATE \<equiv> 0x3F1"

definition MakeNotifyPacket :: "channel \<Rightarrow> u8 \<Rightarrow> field list \<Rightarrow> packet" where
  "MakeNotifyPacket c notify_type rest =
     mk_packet SMSG_CHANNEL_NOTIFY ([U8 notify_type, Str (m_name c)] @ rest)"

definition MakeJoined :: "channel \<Rightarrow> u64 \<Rightarrow> packet" where
  "MakeJoined c guid = MakeNotifyPacket c 0x00 [U64 guid]"

definition MakeLeft :: "channel \<Rightarrow> u64 \<Rightarrow> packet" where
  "MakeLeft c guid = MakeNotifyPacket c 0x01 [U64 guid]"

definition MakeYouJoined :: "channel \<Rightarrow> packet" where
  "MakeYouJoined c = MakeNotifyPacket c 0x02 [U8 (m_flags c), U32 (m_channelId c), U32 0]"

definition MakeYouLeft :: "channel \<Rightarrow> packet" where
  "MakeYouLeft c = MakeNotifyPacket c 0x03 [U32 (m_channelId c), U8 0]"

definition MakeWrongPassword :: "channel \<Rightarrow> packet" where
  "MakeWrongPassword c = MakeNotifyPacket c 0x04 []"

definition MakeNotMember :: "channel \<Rightarrow> packet" where
  "MakeNotMember c = MakeNotifyPacket c 0x05 []"

definition MakeNotModerator :: "channel \<Rightarrow> packet" where
  "MakeNotModerator c = MakeNotifyPacket c 0x06 []"

definition MakePasswordChanged :: "channel \<Rightarrow> u64 \<Rightarrow> packet" where
  "MakePasswordChanged c guid = MakeNotifyPacket c 0x07 [U64 guid]"

definition MakeOwnerChanged :: "channel \<Rightarrow> u64 \<Rightarrow> packet" where
  "MakeOwnerChanged c guid = MakeNotifyPacket c 0x08 [U64 guid]"

definition MakePlayerNotFound :: "channel \<Rightarrow> string \<Rightarrow> packet" where
  "MakePlayerNotFound c name = MakeNotifyPacket c 0x09 [Str name]"

definition MakeNotOwner :: "channel \<Rightarrow> packet" where
  "MakeNotOwner c = MakeNotifyPacket c 0x0A []"

definition MakeChannelOwner :: "'a world_scheme \<Rightarrow> channel \<Rightarrow> packet" where
  "MakeChannelOwner w c =
     (let name = (case w_names w (m_ownerGUID c) of
                    None \<Rightarrow> ''PLAYER_NOT_FOUND''
                  | Some n \<Rightarrow> if n = [] then ''PLAYER_NOT_FOUND'' else n)
      in MakeNotifyPacket c 0x0B
           [Str (if IsConstant c \<or> m_ownerGUID c = 0 then ''Nobody'' else name)])"

definition MakeModeChange :: "channel \<Rightarrow> u64 \<Rightarrow> u8 \<Rightarrow> packet" where
  "MakeModeChange c guid oldflags =
     MakeNotifyPacket c 0x0C [U64 guid, U8 oldflags, U8 (GetPlayerFlags c guid)]"

definition MakeAnnouncementsOn :: "channel \<Rightarrow> u64 \<Rightarrow> packet" where
  "MakeAnnouncementsOn c guid = MakeNotifyPacket c 0x0D [U64 guid]"

definition MakeAnnouncementsOff :: "channel \<Rightarrow> u64 \<Rightarrow> packet" where
  "MakeAnnouncementsOff c guid = MakeNotifyPacket c 0x0E [U64 guid]"

definition MakeModerationOn :: "channel \<Rightarrow> u64 \<Rightarrow> packet" where
  "MakeModerationOn c guid = MakeNotifyPacket c 0x0F [U64 guid]"

definition MakeModerationOff :: "channel \<Rightarrow> u64 \<Rightarrow> packet" where
  "MakeModerationOff c guid = MakeNotifyPacket c 0x10 [U64 guid]"

definition MakeMuted :: "channel \<Rightarrow> packet" where
  "MakeMuted c = MakeNotifyPacket c 0x11 []"

definition MakePlayerKicked :: "channel \<Rightarrow> u64 \<Rightarrow> u64 \<Rightarrow> packet" where
  "MakePlayerKicked c bad good = MakeNotifyPacket c 0x12 [U64 bad, U64 good]"

definition MakeBanned :: "channel \<Rightarrow> packet" where
  "MakeBanned c = MakeNotifyPacket c 0x13 []"

definition MakePlayerBanned :: "channel \<Rightarrow> u64 \<Rightarrow> u64 \<Rightarrow> packet" where
  "MakePlayerBanned c bad good = MakeNotifyPacket c 0x14 [U64 bad, U64 good]"

definition MakePlayerUnbanned :: "channel \<Rightarrow> u64 \<Rightarrow> u64 \<Rightarrow> packet" where
  "MakePlayerUnbanned c bad good = MakeNotifyPacket c 0x15 [U64 bad, U64 good]"

definition MakePlayerAlreadyMember :: "channel \<Rightarrow> u64 \<Rightarrow> packet" where
  "MakePlayerAlreadyMember c guid = MakeNotifyPacket c 0x17 [U64 guid]"

definition MakeInvite :: "channel \<Rightarrow> u64 \<Rightarrow> packet" where
  "MakeInvite c guid = MakeNotifyPacket c 0x18 [U64 guid]"

definition MakeInviteWrongFaction :: "channel \<Rightarrow> packet" where
  "MakeInviteWrongFaction c = MakeNotifyPacket c 0x19 []"

definition MakePlayerInvited :: "channel \<Rightarrow> string \<Rightarrow> packet" where
  "MakePlayerInvited c name = MakeNotifyPacket c 0x1D [Str name]"

definition MakeNotInLfg :: "channel \<Rightarrow> packet" where
  "MakeNotInLfg c = MakeNotifyPacket c 0x21 []"

end
