(* ===== verification/ChannelOps.thy ===== *)
theory ChannelOps
  imports Channel
begin

text \<open>
  The operations of game/Channel.cpp. An operation acts on the channel, on the channel lists of
  the players (\<open>Player::m_channels\<close>, a list of channel addresses per player guid) and appends the
  packets it sends to the output, in sending order.
\<close>

section \<open>State and sending\<close>

record cst =
  c_chan :: channel
  c_joined :: "u64 \<Rightarrow> nat list"
  c_out :: "effect list"

definition emit :: "effect list \<Rightarrow> cst \<Rightarrow> cst" where
  "emit es st = st\<lparr>c_out := c_out st @ es\<rparr>"

definition upd_chan :: "(channel \<Rightarrow> channel) \<Rightarrow> cst \<Rightarrow> cst" where
  "upd_chan f st = st\<lparr>c_chan := f (c_chan st)\<rparr>"

definition JoinedChannel :: "u64 \<Rightarrow> nat \<Rightarrow> cst \<Rightarrow> cst" where
  "JoinedChannel g this st = st\<lparr>c_joined := (c_joined st)(g := c_joined st g @ [this])\<rparr>"

definition LeftChannel :: "u64 \<Rightarrow> nat \<Rightarrow> cst \<Rightarrow> cst" where
  "LeftChannel g this st = st\<lparr>c_joined := (c_joined st)(g := removeAll this (c_joined st g))\<rparr>"

definition to_one :: "chat_world \<Rightarrow> packet \<Rightarrow> u64 \<Rightarrow> effect list" where
  "to_one w data who = (case FindPlayer w who of None \<Rightarrow> [] | Some _ \<Rightarrow> [Send who data])"

definition to_all :: "chat_world \<Rightarrow> packet \<Rightarrow> u64 \<Rightarrow> channel \<Rightarrow> effect list" where
  "to_all w data p c =
     concat (map (\<lambda>(g, _).
       case FindPlayer w g of
         None \<Rightarrow> []
       | Some plr \<Rightarrow>
           if p = 0 \<or> \<not> HasIgnore (GetSocial (w_social w) (p_guid plr)) (GUID_LOPART p)
           then [Send g data] else []) (players c))"

definition SendToOne :: "chat_world \<Rightarrow> packet \<Rightarrow> u64 \<Rightarrow> cst \<Rightarrow> cst" where
  "SendToOne w data who st = emit (to_one w data who) st"

definition SendToAll :: "chat_world \<Rightarrow> packet \<Rightarrow> u64 \<Rightarrow> cst \<Rightarrow> cst" where
  "SendToAll w data p st = emit (to_all w data p (c_chan st)) st"

definition JoinNotify :: "chat_world \<Rightarrow> u64 \<Rightarrow> cst \<Rightarrow> cst" where
  "JoinNotify w guid st =
     (let c = c_chan st;
          op = (if IsConstant c then SMSG_USERLIST_ADD else SMSG_USERLIST_UPDATE)
      in SendToAll w (mk_packet op [U64 guid, U8 (GetPlayerFlags c guid), U8 (m_flags c),
           U32 (of_nat (GetNumPlayers c)), Str (m_name c)]) 0 st)"

definition LeaveNotify :: "chat_world \<Rightarrow> u64 \<Rightarrow> cst \<Rightarrow> cst" where
  "LeaveNotify w guid st =
     (let c = c_chan st
      in SendToAll w (mk_packet SMSG_USERLIST_REMOVE [U64 guid, U8 (m_flags c),
           U32 (of_nat (GetNumPlayers c)), Str (m_name c)]) 0 st)"

section \<open>Ownership and member modes\<close>

text \<open>
  The two private overloads \<open>SetModerator(uint64, bool)\<close> and \<open>SetMute(uint64, bool)\<close> are called for
  members only, so their first \<open>players[p]\<close> is a plain read.
\<close>

definition SetOwner :: "chat_world \<Rightarrow> u64 \<Rightarrow> bool \<Rightarrow> cst \<Rightarrow> cst" where
  "SetOwner w guid exclaim st =
     (let old = m_ownerGUID (c_chan st);
          st = (if old \<noteq> 0 \<and> IsOn (c_chan st) old
                then upd_chan (player_upd (PlayerInfo_SetOwner False) old) st else st);
          st = upd_chan (\<lambda>c. c\<lparr>m_ownerGUID := guid\<rparr>) st
      in if guid \<noteq> 0
         then
           (let oldFlag = GetPlayerFlags (c_chan st) guid;
                st = upd_chan (player_upd (PlayerInfo_SetModerator True) guid) st;
                st = upd_chan (player_upd (PlayerInfo_SetOwner True) guid) st;
                st = SendToAll w (MakeModeChange (c_chan st) guid oldFlag) 0 st
            in if exclaim then SendToAll w (MakeOwnerChanged (c_chan st) guid) 0 st else st)
         else st)"

definition SetModerator :: "chat_world \<Rightarrow> u64 \<Rightarrow> bool \<Rightarrow> cst \<Rightarrow> cst" where
  "SetModerator w p on st =
     (if IsModerator (player_at (c_chan st) p) \<noteq> on
      then (let oldFlag = GetPlayerFlags (c_chan st) p;
                st = upd_chan (player_upd (PlayerInfo_SetModerator on) p) st
            in SendToAll w (MakeModeChange (c_chan st) p oldFlag) 0 st)
      else st)"

definition SetMute :: "chat_world \<Rightarrow> u64 \<Rightarrow> bool \<Rightarrow> cst \<Rightarrow> cst" where
  "SetMute w p on st =
     (if IsMuted (player_at (c_chan st) p) \<noteq> on
      then (let oldFlag = GetPlayerFlags (c_chan st) p;
                st = upd_chan (player_upd (PlayerInfo_SetMuted on) p) st
            in SendToAll w (MakeModeChange (c_chan st) p oldFlag) 0 st)
      else st)"

section \<open>Joining and leaving\<close>

definition announced :: "chat_world \<Rightarrow> channel \<Rightarrow> player option \<Rightarrow> bool" where
  "announced w c plr \<longleftrightarrow>
     m_announce c \<and> (case plr of None \<Rightarrow> True
       | Some p \<Rightarrow> p_security p < SEC_GAMEMASTER \<or> \<not> getConfig w CONFIG_SILENTLY_GM_JOIN_TO_CHANNEL)"

definition Join_enter :: "chat_world \<Rightarrow> u64 \<Rightarrow> player option \<Rightarrow> cst \<Rightarrow> cst" where
  "Join_enter w p plr st =
     (let st = (if announced w (c_chan st) plr then SendToAll w (MakeJoined (c_chan st) p) 0 st else st);
          pinfo = \<lparr>pi_player = p, pi_flags = 0\<rparr>;
          st = upd_chan (\<lambda>c. c\<lparr>players := om_put p pinfo (players c)\<rparr>) st;
          st = SendToOne w (MakeYouJoined (c_chan st)) p st;
          st = JoinNotify w p st
      in if \<not> IsConstant (c_chan st) \<and> m_ownerGUID (c_chan st) = 0
         then (let st = SetOwner w p (length (players (c_chan st)) > 1) st
               in upd_chan (player_upd (PlayerInfo_SetModerator True) p) st)
         else st)"

definition Join :: "chat_world \<Rightarrow> nat \<Rightarrow> u64 \<Rightarrow> string \<Rightarrow> cst \<Rightarrow> cst" where
  "Join w this p pass st =
     (let c = c_chan st in
      if IsOn c p
      then (if \<not> IsConstant c then SendToOne w (MakePlayerAlreadyMember c p) p st else st)
      else if IsBanned c p then SendToOne w (MakeBanned c) p st
      else if length (m_password c) > 0 \<and> pass \<noteq> m_password c
      then SendToOne w (MakeWrongPassword c) p st
      else
        (case FindPlayer w p of
           None \<Rightarrow> Join_enter w p None st
         | Some plr \<Rightarrow>
             if IsLFG c \<and> getConfig w CONFIG_RESTRICTED_LFG_CHANNEL \<and> p_security plr = SEC_PLAYER \<and>
                (p_hasGroup plr \<or> p_lfgEmpty plr)
             then SendToOne w (MakeNotInLfg c) p st
             else if p_guildId plr \<noteq> 0 \<and> m_flags c = 0x38 then st
             else Join_enter w p (Some plr) (JoinedChannel (p_guid plr) this st)))"

definition Leave :: "chat_world \<Rightarrow> nat \<Rightarrow> u64 \<Rightarrow> bool \<Rightarrow> cst \<Rightarrow> cst" where
  "Leave w this p send st =
     (if \<not> IsOn (c_chan st) p
      then (if send then SendToOne w (MakeNotMember (c_chan st)) p st else st)
      else
        (let plr = FindPlayer w p;
             st = (if send
                   then (let st = SendToOne w (MakeYouLeft (c_chan st)) p st
                         in case plr of None \<Rightarrow> st | Some q \<Rightarrow> LeftChannel (p_guid q) this st)
                   else st);
             changeowner = IsOwner (player_at (c_chan st) p);
             st = upd_chan (\<lambda>c. c\<lparr>players := om_erase p (players c)\<rparr>) st;
             st = (if announced w (c_chan st) plr then SendToAll w (MakeLeft (c_chan st) p) 0 st else st);
             st = LeaveNotify w p st
         in if changeowner
            then (let newowner = (case om_begin (players (c_chan st)) of None \<Rightarrow> 0 | Some (_, i) \<Rightarrow> pi_player i);
                      st = upd_chan (player_upd (PlayerInfo_SetModerator True) newowner) st
                  in SetOwner w newowner True st)
            else st))"

section \<open>Moderator operations\<close>

text \<open>
  The guard of the moderator operations: not on the channel, on it without the right, or allowed.
\<close>

definition may_moderate :: "chat_world \<Rightarrow> channel \<Rightarrow> u64 \<Rightarrow> bool" where
  "may_moderate w c p \<longleftrightarrow> IsOn c p \<and> (IsModerator (player_at c p) \<or> sec_of w p \<ge> SEC_GAMEMASTER)"

definition moderated :: "chat_world \<Rightarrow> u64 \<Rightarrow> (cst \<Rightarrow> cst) \<Rightarrow> cst \<Rightarrow> cst" where
  "moderated w p act st =
     (if \<not> IsOn (c_chan st) p then SendToOne w (MakeNotMember (c_chan st)) p st
      else if \<not> IsModerator (player_at (c_chan st) p) \<and> sec_of w p < SEC_GAMEMASTER
      then SendToOne w (MakeNotModerator (c_chan st)) p st
      else act st)"

definition KickOrBan :: "chat_world \<Rightarrow> nat \<Rightarrow> u64 \<Rightarrow> string \<Rightarrow> bool \<Rightarrow> cst \<Rightarrow> cst" where
  "KickOrBan w this good badname ban =
     moderated w good (\<lambda>st.
       (let c = c_chan st; sec = sec_of w good in
        case FindPlayerByName w badname of
          None \<Rightarrow> SendToOne w (MakePlayerNotFound c badname) good st
        | Some badp \<Rightarrow>
            (let bad = p_guid badp in
             if \<not> IsOn c bad then SendToOne w (MakePlayerNotFound c badname) good st
             else if sec < SEC_GAMEMASTER \<and> bad = m_ownerGUID c \<and> good \<noteq> m_ownerGUID c
             then SendToOne w (MakeNotOwner c) good st
             else
               (let changeowner = (m_ownerGUID c = bad);
                    (st, data) = (if ban \<and> \<not> IsBanned c bad
                      then (upd_chan (\<lambda>c. c\<lparr>banned := insert bad (banned c)\<rparr>) st, MakePlayerBanned c bad good)
                      else (st, MakePlayerKicked c bad good));
                    st = SendToAll w data 0 st;
                    st = upd_chan (\<lambda>c. c\<lparr>players := om_erase bad (players c)\<rparr>) st;
                    st = LeftChannel bad this st
                in if changeowner
                   then (let newowner = (if players (c_chan st) \<noteq> [] then good else 0);
                             st = upd_chan (player_upd (PlayerInfo_SetModerator True) newowner) st
                         in SetOwner w newowner True st)
                   else st))))"

definition UnBan :: "chat_world \<Rightarrow> u64 \<Rightarrow> string \<Rightarrow> cst \<Rightarrow> cst" where
  "UnBan w good badname =
     moderated w good (\<lambda>st.
       case FindPlayerByName w badname of
         None \<Rightarrow> SendToOne w (MakePlayerNotFound (c_chan st) badname) good st
       | Some badp \<Rightarrow>
           if \<not> IsBanned (c_chan st) (p_guid badp)
           then SendToOne w (MakePlayerNotFound (c_chan st) badname) good st
           else (let st = upd_chan (\<lambda>c. c\<lparr>banned := banned c - {p_guid badp}\<rparr>) st
                 in SendToAll w (MakePlayerUnbanned (c_chan st) (p_guid badp) good) 0 st))"

definition Password :: "chat_world \<Rightarrow> u64 \<Rightarrow> string \<Rightarrow> cst \<Rightarrow> cst" where
  "Password w p pass =
     moderated w p (\<lambda>st.
       (let st = upd_chan (\<lambda>c. c\<lparr>m_password := pass\<rparr>) st
        in SendToAll w (MakePasswordChanged (c_chan st) p) 0 st))"

definition SetMode :: "chat_world \<Rightarrow> u64 \<Rightarrow> string \<Rightarrow> bool \<Rightarrow> bool \<Rightarrow> cst \<Rightarrow> cst" where
  "SetMode w p p2n md on st =
     (case FindPlayer w p of
        None \<Rightarrow> st
      | Some plr \<Rightarrow>
          moderated w p (\<lambda>st.
            (let c = c_chan st in
             case FindPlayerByName w p2n of
               None \<Rightarrow> SendToOne w (MakePlayerNotFound c p2n) p st
             | Some newp \<Rightarrow>
                 if p = m_ownerGUID c \<and> p_guid newp = m_ownerGUID c \<and> md then st
                 else if \<not> IsOn c (p_guid newp) then SendToOne w (MakePlayerNotFound c p2n) p st
                 else if (p_security plr < SEC_GAMEMASTER \<or> p_security newp < SEC_GAMEMASTER) \<and>
                         p_team plr \<noteq> p_team newp \<and>
                         \<not> getConfig w CONFIG_ALLOW_TWO_SIDE_INTERACTION_CHANNEL
                 then SendToOne w (MakePlayerNotFound c p2n) p st
                 else if m_ownerGUID c = p_guid newp \<and> m_ownerGUID c \<noteq> p
                 then SendToOne w (MakeNotOwner c) p st
                 else if md then SetModerator w (p_guid newp) on st
                 else SetMute w (p_guid newp) on st)) st)"

definition SetOwnerByName :: "chat_world \<Rightarrow> u64 \<Rightarrow> string \<Rightarrow> cst \<Rightarrow> cst" where
  "SetOwnerByName w p newname st =
     (let c = c_chan st in
      case FindPlayer w p of
        None \<Rightarrow> st
      | Some plr \<Rightarrow>
          if \<not> IsOn c p then SendToOne w (MakeNotMember c) p st
          else if p_security plr < SEC_GAMEMASTER \<and> p \<noteq> m_ownerGUID c
          then SendToOne w (MakeNotOwner c) p st
          else
            (case FindPlayerByName w newname of
               None \<Rightarrow> SendToOne w (MakePlayerNotFound c newname) p st
             | Some newp \<Rightarrow>
                 if \<not> IsOn c (p_guid newp) then SendToOne w (MakePlayerNotFound c newname) p st
                 else if p_team newp \<noteq> p_team plr \<and> \<not> getConfig w CONFIG_ALLOW_TWO_SIDE_INTERACTION_CHANNEL
                 then SendToOne w (MakePlayerNotFound c newname) p st
                 else
                   (let st = upd_chan (player_upd (PlayerInfo_SetModerator True) (p_guid newp)) st
                    in SetOwner w (p_guid newp) True st)))"

definition Announce :: "chat_world \<Rightarrow> u64 \<Rightarrow> cst \<Rightarrow> cst" where
  "Announce w p =
     moderated w p (\<lambda>st.
       (let st = upd_chan (\<lambda>c. c\<lparr>m_announce := \<not> m_announce c\<rparr>) st; c = c_chan st
        in SendToAll w (if m_announce c then MakeAnnouncementsOn c p else MakeAnnouncementsOff c p) 0 st))"

definition Moderate :: "chat_world \<Rightarrow> u64 \<Rightarrow> cst \<Rightarrow> cst" where
  "Moderate w p =
     moderated w p (\<lambda>st.
       (let st = upd_chan (\<lambda>c. c\<lparr>m_moderate := \<not> m_moderate c\<rparr>) st; c = c_chan st
        in SendToAll w (if m_moderate c then MakeModerationOn c p else MakeModerationOff c p) 0 st))"

section \<open>Queries and talk\<close>

definition SendWhoOwner :: "chat_world \<Rightarrow> u64 \<Rightarrow> cst \<Rightarrow> cst" where
  "SendWhoOwner w p st =
     (if \<not> IsOn (c_chan st) p then SendToOne w (MakeNotMember (c_chan st)) p st
      else SendToOne w (MakeChannelOwner w (c_chan st)) p st)"

text \<open>The members a player may see in the list, in channel order.\<close>

definition listed :: "chat_world \<Rightarrow> player \<Rightarrow> channel \<Rightarrow> (u64 \<times> PlayerInfo) list" where
  "listed w player c =
     (let gmInWhoList = getConfig w CONFIG_GM_IN_WHO_LIST \<or> p_security player > SEC_PLAYER
      in filter (\<lambda>(g, _).
           case FindPlayer w g of
             None \<Rightarrow> False
           | Some plr \<Rightarrow> p_security plr = SEC_PLAYER \<or>
               (gmInWhoList \<and> IsVisibleGloballyFor plr (Some player))) (players c))"

definition ListPlayers :: "chat_world \<Rightarrow> player \<Rightarrow> cst \<Rightarrow> cst" where
  "ListPlayers w player st =
     (let p = p_guid player; c = c_chan st in
      if \<not> IsOn c p then SendToOne w (MakeNotMember c) p st
      else SendToOne w (mk_packet SMSG_CHANNEL_LIST
             ([U8 1, Str (m_name c), U8 (m_flags c), U32 (of_nat (length (listed w player c)))] @
              concat (map (\<lambda>(g, i). [U64 g, U8 (pi_flags i)]) (listed w player c)))) p st)"

definition LANG_UNIVERSAL :: u32 where "LANG_UNIVERSAL = 0"

definition chat_packet :: "chat_world \<Rightarrow> channel \<Rightarrow> u64 \<Rightarrow> string \<Rightarrow> u32 \<Rightarrow> packet" where
  "chat_packet w c p what lang =
     mk_packet SMSG_MESSAGECHAT
       [U8 0x11, U32 lang, U64 p, U32 0, Str (m_name c), U64 p, U32 (of_nat (length what + 1)), Str what,
        U8 (case FindPlayer w p of None \<Rightarrow> 0 | Some plr \<Rightarrow> GetChatTag plr)]"

definition chat_spies :: "chat_world \<Rightarrow> channel \<Rightarrow> u64 \<Rightarrow> string \<Rightarrow> u32 \<Rightarrow> effect list" where
  "chat_spies w c p what lang =
     concat (map (\<lambda>(g, _).
       case FindPlayer w g of
         None \<Rightarrow> []
       | Some pl \<Rightarrow> [ChatSpy g what lang (map_option p_guid (FindPlayer w p)) (m_name c)]) (players c))"

definition Say :: "chat_world \<Rightarrow> u64 \<Rightarrow> string \<Rightarrow> u32 \<Rightarrow> cst \<Rightarrow> cst" where
  "Say w p what lang0 st =
     (let lang = (if getConfig w CONFIG_ALLOW_TWO_SIDE_INTERACTION_CHANNEL then LANG_UNIVERSAL else lang0);
          c = c_chan st in
      if \<not> IsOn c p then SendToOne w (MakeNotMember c) p st
      else if IsMuted (player_at c p) then SendToOne w (MakeMuted c) p st
      else if m_moderate c \<and> \<not> IsModerator (player_at c p) \<and> sec_of w p < SEC_GAMEMASTER
      then SendToOne w (MakeNotModerator c) p st
      else
        (let st = emit (chat_spies w c p what lang) st
         in SendToAll w (chat_packet w c p what lang) (if \<not> IsModerator (player_at c p) then p else 0) st))"

definition Invite :: "chat_world \<Rightarrow> u64 \<Rightarrow> string \<Rightarrow> cst \<Rightarrow> cst" where
  "Invite w p newname st =
     (let c = c_chan st in
      if \<not> IsOn c p then SendToOne w (MakeNotMember c) p st
      else
        (case FindPlayerByName w newname of
           None \<Rightarrow> SendToOne w (MakePlayerNotFound c newname) p st
         | Some newp \<Rightarrow>
             (case FindPlayer w p of
                None \<Rightarrow> st
              | Some plr \<Rightarrow>
                  if p_team newp \<noteq> p_team plr \<and> \<not> getConfig w CONFIG_ALLOW_TWO_SIDE_INTERACTION_CHANNEL
                  then SendToOne w (MakeInviteWrongFaction c) p st
                  else if IsOn c (p_guid newp)
                  then SendToOne w (MakePlayerAlreadyMember c (p_guid newp)) p st
                  else
                    (let st = (if \<not> HasIgnore (GetSocial (w_social w) (p_guid newp)) (GUID_LOPART p)
                               then SendToOne w (MakeInvite c p) (p_guid newp) st else st)
                     in SendToOne w (MakePlayerInvited c (p_name newp)) p st))))"

end
