(* ===== verification/ChannelInv.thy ===== *)
theory ChannelInv
  imports ChannelOps
begin

text \<open>
  What the channel operations keep true and what they guarantee: one owner who is a moderating
  member, no change without the right to make it, and the exact effect of leaving, kicking,
  banning and talking, with the corner cases in which the code loses track of the owner.
\<close>

section \<open>Flags of a member\<close>

lemma member_flags [simp]:
  "IsOwner (PlayerInfo_SetOwner b i) = b"
  "IsOwner (PlayerInfo_SetModerator b i) = IsOwner i"
  "IsOwner (PlayerInfo_SetMuted b i) = IsOwner i"
  "IsModerator (PlayerInfo_SetOwner b i) = IsModerator i"
  "IsModerator (PlayerInfo_SetModerator b i) = b"
  "IsModerator (PlayerInfo_SetMuted b i) = IsModerator i"
  "IsMuted (PlayerInfo_SetOwner b i) = IsMuted i"
  "IsMuted (PlayerInfo_SetModerator b i) = IsMuted i"
  "IsMuted (PlayerInfo_SetMuted b i) = b"
  by (simp_all add: IsOwner_def IsModerator_def IsMuted_def PlayerInfo_SetOwner_def
      PlayerInfo_SetModerator_def PlayerInfo_SetMuted_def set_flag_def)

lemma member_fresh [simp]:
  "\<not> IsOwner PlayerInfo_zero" "\<not> IsModerator PlayerInfo_zero" "\<not> IsMuted PlayerInfo_zero"
  "\<not> IsOwner \<lparr>pi_player = p, pi_flags = 0\<rparr>" "\<not> IsModerator \<lparr>pi_player = p, pi_flags = 0\<rparr>"
  by (simp_all add: IsOwner_def IsModerator_def IsMuted_def PlayerInfo_zero_def)

lemma member_player [simp]:
  "pi_player (PlayerInfo_SetOwner b i) = pi_player i"
  "pi_player (PlayerInfo_SetModerator b i) = pi_player i"
  "pi_player (PlayerInfo_SetMuted b i) = pi_player i"
  by (simp_all add: PlayerInfo_SetOwner_def PlayerInfo_SetModerator_def PlayerInfo_SetMuted_def set_flag_def)

section \<open>Operations seen from the channel\<close>

lemma c_chan_simps [simp]:
  "c_chan (emit es st) = c_chan st"
  "c_chan (SendToOne w d g st) = c_chan st"
  "c_chan (SendToAll w d g st) = c_chan st"
  "c_chan (JoinNotify w g st) = c_chan st"
  "c_chan (LeaveNotify w g st) = c_chan st"
  "c_chan (JoinedChannel g this st) = c_chan st"
  "c_chan (LeftChannel g this st) = c_chan st"
  "c_chan (upd_chan f st) = f (c_chan st)"
  by (simp_all add: emit_def SendToOne_def SendToAll_def JoinNotify_def LeaveNotify_def
      JoinedChannel_def LeftChannel_def upd_chan_def Let_def)

lemma player_upd_sel [simp]:
  "players (player_upd f p c) = om_modify PlayerInfo_zero f p (players c)"
  "banned (player_upd f p c) = banned c" "m_name (player_upd f p c) = m_name c"
  "m_announce (player_upd f p c) = m_announce c" "m_moderate (player_upd f p c) = m_moderate c"
  "m_password (player_upd f p c) = m_password c" "m_flags (player_upd f p c) = m_flags c"
  "m_channelId (player_upd f p c) = m_channelId c" "m_ownerGUID (player_upd f p c) = m_ownerGUID c"
  by (simp_all add: player_upd_def)

lemma player_at_iff:
  "map_of (players c) p = Some i \<Longrightarrow> player_at c p = i"
  by (simp add: player_at_def om_at_def)

text \<open>The channel part of \<open>SetOwner\<close>.\<close>

definition owner_set :: "u64 \<Rightarrow> channel \<Rightarrow> channel" where
  "owner_set guid c =
     (let c = (if m_ownerGUID c \<noteq> 0 \<and> IsOn c (m_ownerGUID c)
               then player_upd (PlayerInfo_SetOwner False) (m_ownerGUID c) c else c);
          c = c\<lparr>m_ownerGUID := guid\<rparr>
      in if guid \<noteq> 0
         then player_upd (PlayerInfo_SetOwner True) guid (player_upd (PlayerInfo_SetModerator True) guid c)
         else c)"

lemma c_chan_SetOwner [simp]: "c_chan (SetOwner w g e st) = owner_set g (c_chan st)"
  by (simp add: SetOwner_def owner_set_def Let_def)

lemma c_chan_SetModerator:
  "c_chan (SetModerator w p b st) =
    (if IsModerator (player_at (c_chan st) p) \<noteq> b
     then player_upd (PlayerInfo_SetModerator b) p (c_chan st) else c_chan st)"
  by (simp add: SetModerator_def Let_def)

lemma c_chan_SetMute:
  "c_chan (SetMute w p b st) =
    (if IsMuted (player_at (c_chan st) p) \<noteq> b
     then player_upd (PlayerInfo_SetMuted b) p (c_chan st) else c_chan st)"
  by (simp add: SetMute_def Let_def)

lemma moderated_cases:
  "(may_moderate w (c_chan st) p \<and> moderated w p act st = act st) \<or>
   (\<not> may_moderate w (c_chan st) p \<and> c_chan (moderated w p act st) = c_chan st \<and>
     c_joined (moderated w p act st) = c_joined st)"
  by (auto simp: moderated_def may_moderate_def SendToOne_def emit_def)

section \<open>The ownership invariant\<close>

text \<open>
  The members are kept in key order; only the recorded owner carries the owner flag; a recorded
  owner is a member with the owner and the moderator flag.
\<close>

definition chan_flags_ok :: "channel \<Rightarrow> bool" where
  "chan_flags_ok c \<longleftrightarrow>
     om_ok (players c) \<and>
     (\<forall>g i. map_of (players c) g = Some i \<longrightarrow> IsOwner i \<longrightarrow> g = m_ownerGUID c \<and> g \<noteq> 0)"

definition chan_owner_ok :: "channel \<Rightarrow> bool" where
  "chan_owner_ok c \<longleftrightarrow>
     (m_ownerGUID c \<noteq> 0 \<longrightarrow>
       (\<exists>i. map_of (players c) (m_ownerGUID c) = Some i \<and> IsOwner i \<and> IsModerator i))"

definition chan_inv :: "channel \<Rightarrow> bool" where
  "chan_inv c \<longleftrightarrow> chan_flags_ok c \<and> chan_owner_ok c"

lemma chan_new_inv: "chan_inv (Channel_new dbc name cid)"
  by (simp add: Channel_new_def chan_inv_def chan_flags_ok_def chan_owner_ok_def Let_def split: option.splits)

lemma owner_set_inv: "chan_flags_ok c \<Longrightarrow> chan_inv (owner_set g c)"
  by (auto simp: owner_set_def chan_inv_def chan_flags_ok_def chan_owner_ok_def Let_def IsOn_def om_at_def
      split: if_splits option.splits)

lemma owner_set_owner [simp]: "m_ownerGUID (owner_set g c) = g"
  by (simp add: owner_set_def Let_def)

lemma player_upd_put:
  "player_upd f p c = c\<lparr>players := om_put p (f (player_at c p)) (players c)\<rparr>"
  by (simp add: player_upd_def om_modify_def player_at_def)

lemma player_at_owner:
  "chan_flags_ok c \<Longrightarrow> IsOwner (player_at c p) \<Longrightarrow> p = m_ownerGUID c \<and> p \<noteq> 0"
  by (cases "map_of (players c) p") (simp_all add: chan_flags_ok_def player_at_def om_at_def)

lemma owner_entry:
  "chan_owner_ok c \<Longrightarrow> m_ownerGUID c \<noteq> 0 \<Longrightarrow>
    IsOn c (m_ownerGUID c) \<and> IsOwner (player_at c (m_ownerGUID c)) \<and> IsModerator (player_at c (m_ownerGUID c))"
  by (auto simp: chan_owner_ok_def IsOn_def player_at_def om_at_def)

lemma flags_ok_put:
  "chan_flags_ok c \<Longrightarrow> (IsOwner i \<Longrightarrow> p = m_ownerGUID c \<and> p \<noteq> 0) \<Longrightarrow>
    chan_flags_ok (c\<lparr>players := om_put p i (players c)\<rparr>)"
  by (cases "IsOwner i") (auto simp: chan_flags_ok_def split: if_splits)

lemma owner_ok_put:
  "chan_owner_ok c \<Longrightarrow> (p = m_ownerGUID c \<Longrightarrow> p \<noteq> 0 \<Longrightarrow> IsOwner i \<and> IsModerator i) \<Longrightarrow>
    chan_owner_ok (c\<lparr>players := om_put p i (players c)\<rparr>)"
  by (simp add: chan_owner_ok_def)

lemma owner_ok_erase:
  "chan_owner_ok c \<Longrightarrow> p \<noteq> m_ownerGUID c \<or> m_ownerGUID c = 0 \<Longrightarrow>
    chan_owner_ok (c\<lparr>players := om_erase p (players c)\<rparr>)"
  unfolding chan_owner_ok_def by fastforce

lemma flags_ok_SetModerator:
  "chan_flags_ok c \<Longrightarrow> chan_flags_ok (player_upd (PlayerInfo_SetModerator b) p c)"
  unfolding player_upd_put by (rule flags_ok_put) (simp_all add: player_at_owner)

lemma flags_ok_SetMuted:
  "chan_flags_ok c \<Longrightarrow> chan_flags_ok (player_upd (PlayerInfo_SetMuted b) p c)"
  unfolding player_upd_put by (rule flags_ok_put) (simp_all add: player_at_owner)

lemma flags_ok_erase: "chan_flags_ok c \<Longrightarrow> chan_flags_ok (c\<lparr>players := om_erase p (players c)\<rparr>)"
  by (auto simp: chan_flags_ok_def)

text \<open>Moderator and mute flags of anyone but the owner, and granting moderation to anyone.\<close>

lemma inv_SetModerator:
  assumes "chan_inv c" "b \<or> p \<noteq> m_ownerGUID c \<or> m_ownerGUID c = 0"
  shows "chan_inv (player_upd (PlayerInfo_SetModerator b) p c)"
proof -
  have "chan_owner_ok (player_upd (PlayerInfo_SetModerator b) p c)"
    unfolding player_upd_put
    by (rule owner_ok_put) (use assms owner_entry [of c] in \<open>auto simp: chan_inv_def\<close>)
  with assms(1) show ?thesis by (simp add: chan_inv_def flags_ok_SetModerator)
qed

lemma inv_SetMuted:
  assumes "chan_inv c"
  shows "chan_inv (player_upd (PlayerInfo_SetMuted b) p c)"
proof -
  have "chan_owner_ok (player_upd (PlayerInfo_SetMuted b) p c)"
    unfolding player_upd_put
    by (rule owner_ok_put) (use assms owner_entry [of c] in \<open>auto simp: chan_inv_def\<close>)
  with assms(1) show ?thesis by (simp add: chan_inv_def flags_ok_SetMuted)
qed

lemma inv_member_put:
  assumes "chan_inv c" "\<not> IsOn c p" "\<not> IsOwner i"
  shows "chan_inv (c\<lparr>players := om_put p i (players c)\<rparr>)"
proof -
  have "chan_owner_ok (c\<lparr>players := om_put p i (players c)\<rparr>)"
    by (rule owner_ok_put) (use assms owner_entry [of c] in \<open>auto simp: chan_inv_def\<close>)
  moreover have "chan_flags_ok (c\<lparr>players := om_put p i (players c)\<rparr>)"
    by (rule flags_ok_put) (use assms in \<open>auto simp: chan_inv_def\<close>)
  ultimately show ?thesis by (simp add: chan_inv_def)
qed

lemma inv_member_erase:
  "chan_inv c \<Longrightarrow> p \<noteq> m_ownerGUID c \<or> m_ownerGUID c = 0 \<Longrightarrow>
    chan_inv (c\<lparr>players := om_erase p (players c)\<rparr>)"
  by (simp add: chan_inv_def flags_ok_erase owner_ok_erase)

lemma inv_other_fields:
  "chan_inv c \<Longrightarrow> chan_inv (c\<lparr>banned := B\<rparr>)"
  "chan_inv c \<Longrightarrow> chan_inv (c\<lparr>m_password := s\<rparr>)"
  "chan_inv c \<Longrightarrow> chan_inv (c\<lparr>m_announce := b\<rparr>)"
  "chan_inv c \<Longrightarrow> chan_inv (c\<lparr>m_moderate := b\<rparr>)"
  by (auto simp: chan_inv_def chan_flags_ok_def chan_owner_ok_def)

end
