(* ===== verification/ChannelTrans.thy ===== *)
theory ChannelTrans
  imports ChannelInv
begin

text \<open>
  One channel under any sequence of requests: the requests as a type, the channel each operation
  leaves behind with the packets left out, and the transition relation the operations refine, from
  which the invariants are proved by rule induction.
\<close>

section \<open>The channel as a machine\<close>

text \<open>Every public operation of \<open>Channel\<close>, as called by the handlers of ChannelHandler.cpp.\<close>

datatype chan_op =
    OpJoin u64 string
  | OpLeave u64 bool
  | OpKickOrBan u64 string bool
  | OpUnBan u64 string
  | OpPassword u64 string
  | OpSetMode u64 string bool bool
  | OpSetOwner u64 string
  | OpAnnounce u64
  | OpModerate u64
  | OpSay u64 string u32
  | OpInvite u64 string
  | OpWho u64
  | OpList player

fun chan_step :: "nat \<Rightarrow> chat_world \<times> chan_op \<Rightarrow> cst \<Rightarrow> cst" where
  "chan_step this (w, OpJoin p pass) = Join w this p pass"
| "chan_step this (w, OpLeave p send) = Leave w this p send"
| "chan_step this (w, OpKickOrBan p n ban) = KickOrBan w this p n ban"
| "chan_step this (w, OpUnBan p n) = UnBan w p n"
| "chan_step this (w, OpPassword p pass) = Password w p pass"
| "chan_step this (w, OpSetMode p n md on) = SetMode w p n md on"
| "chan_step this (w, OpSetOwner p n) = SetOwnerByName w p n"
| "chan_step this (w, OpAnnounce p) = Announce w p"
| "chan_step this (w, OpModerate p) = Moderate w p"
| "chan_step this (w, OpSay p what lang) = Say w p what lang"
| "chan_step this (w, OpInvite p n) = Invite w p n"
| "chan_step this (w, OpWho p) = SendWhoOwner w p"
| "chan_step this (w, OpList pl) = ListPlayers w pl"

text \<open>What a request needs to change the channel at all.\<close>

fun permitted :: "chat_world \<times> chan_op \<Rightarrow> channel \<Rightarrow> bool" where
  "permitted (w, OpJoin p pass) c \<longleftrightarrow>
     \<not> IsOn c p \<and> \<not> IsBanned c p \<and> (m_password c = [] \<or> pass = m_password c)"
| "permitted (w, OpLeave p send) c \<longleftrightarrow> IsOn c p"
| "permitted (w, OpKickOrBan p n ban) c \<longleftrightarrow> may_moderate w c p"
| "permitted (w, OpUnBan p n) c \<longleftrightarrow> may_moderate w c p"
| "permitted (w, OpPassword p pass) c \<longleftrightarrow> may_moderate w c p"
| "permitted (w, OpSetMode p n md on) c \<longleftrightarrow> may_moderate w c p"
| "permitted (w, OpSetOwner p n) c \<longleftrightarrow> IsOn c p \<and> (p = m_ownerGUID c \<or> sec_of w p \<ge> SEC_GAMEMASTER)"
| "permitted (w, OpAnnounce p) c \<longleftrightarrow> may_moderate w c p"
| "permitted (w, OpModerate p) c \<longleftrightarrow> may_moderate w c p"
| "permitted (w, _) c \<longleftrightarrow> False"

section \<open>What each operation makes of the channel\<close>

text \<open>The channel after each operation, the packets left out.\<close>

definition Join_admits :: "chat_world \<Rightarrow> u64 \<Rightarrow> string \<Rightarrow> channel \<Rightarrow> bool" where
  "Join_admits w p pass c \<longleftrightarrow>
     \<not> IsOn c p \<and> \<not> IsBanned c p \<and> (m_password c = [] \<or> pass = m_password c) \<and>
     (case FindPlayer w p of
        None \<Rightarrow> True
      | Some plr \<Rightarrow>
          \<not> (IsLFG c \<and> getConfig w CONFIG_RESTRICTED_LFG_CHANNEL \<and> p_security plr = SEC_PLAYER \<and>
             (p_hasGroup plr \<or> p_lfgEmpty plr)) \<and>
          \<not> (p_guildId plr \<noteq> 0 \<and> m_flags c = 0x38))"

definition chan_enter :: "u64 \<Rightarrow> channel \<Rightarrow> channel" where
  "chan_enter p c =
     (let c = c\<lparr>players := om_put p \<lparr>pi_player = p, pi_flags = 0\<rparr> (players c)\<rparr>
      in if \<not> IsConstant c \<and> m_ownerGUID c = 0
         then player_upd (PlayerInfo_SetModerator True) p (owner_set p c) else c)"

definition chan_hand_over :: "u64 \<Rightarrow> channel \<Rightarrow> channel" where
  "chan_hand_over g c = owner_set g (player_upd (PlayerInfo_SetModerator True) g c)"

definition chan_leave :: "u64 \<Rightarrow> channel \<Rightarrow> channel" where
  "chan_leave p c =
     (let c' = c\<lparr>players := om_erase p (players c)\<rparr>
      in if IsOwner (player_at c p)
         then chan_hand_over (case om_begin (players c') of None \<Rightarrow> 0 | Some (_, i) \<Rightarrow> pi_player i) c'
         else c')"

definition chan_remove :: "u64 \<Rightarrow> u64 \<Rightarrow> bool \<Rightarrow> channel \<Rightarrow> channel" where
  "chan_remove good bad ban c =
     (let c' = c\<lparr>banned := (if ban then insert bad (banned c) else banned c),
                 players := om_erase bad (players c)\<rparr>
      in if m_ownerGUID c = bad
         then chan_hand_over (if players c' \<noteq> [] then good else 0) c'
         else c')"

lemma IsOn_put [simp]: "IsOn (c\<lparr>players := om_put p i (players c)\<rparr>) q \<longleftrightarrow> q = p \<or> IsOn c q"
  by (simp add: IsOn_def)

lemma c_chan_Join_enter: "c_chan (Join_enter w p plr st) = chan_enter p (c_chan st)"
  by (simp add: Join_enter_def chan_enter_def Let_def IsConstant_def)

lemma c_chan_Join:
  "c_chan (Join w this p pass st) =
    (if Join_admits w p pass (c_chan st) then chan_enter p (c_chan st) else c_chan st)"
  by (auto simp: Join_def Join_admits_def c_chan_Join_enter Let_def split: option.splits)

lemma c_chan_Leave:
  "c_chan (Leave w this p send st) = (if IsOn (c_chan st) p then chan_leave p (c_chan st) else c_chan st)"
  by (simp add: Leave_def chan_leave_def chan_hand_over_def Let_def split: option.splits)

definition kick_target :: "chat_world \<Rightarrow> u64 \<Rightarrow> string \<Rightarrow> channel \<Rightarrow> u64 option" where
  "kick_target w good n c =
     (case FindPlayerByName w n of
        None \<Rightarrow> None
      | Some badp \<Rightarrow>
          if \<not> IsOn c (p_guid badp) \<or>
             (sec_of w good < SEC_GAMEMASTER \<and> p_guid badp = m_ownerGUID c \<and> good \<noteq> m_ownerGUID c)
          then None else Some (p_guid badp))"

lemma c_chan_KickOrBan:
  "c_chan (KickOrBan w this good n ban st) =
    (if may_moderate w (c_chan st) good
     then (case kick_target w good n (c_chan st) of
             None \<Rightarrow> c_chan st
           | Some bad \<Rightarrow> chan_remove good bad (ban \<and> \<not> IsBanned (c_chan st) bad) (c_chan st))
     else c_chan st)"
proof (cases "may_moderate w (c_chan st) good")
  case True
  then have m: "moderated w good act st = act st" for act
    using moderated_cases [of w st good act] by simp
  show ?thesis
  proof (cases "FindPlayerByName w n")
    case None
    with True m show ?thesis by (simp add: KickOrBan_def kick_target_def)
  next
    case (Some badp)
    let ?refused = "\<not> IsOn (c_chan st) (p_guid badp) \<or> (sec_of w good < SEC_GAMEMASTER \<and>
      p_guid badp = m_ownerGUID (c_chan st) \<and> good \<noteq> m_ownerGUID (c_chan st))"
    show ?thesis
    proof (cases ?refused)
      case refused: True
      then show ?thesis
        by (elim disjE conjE) (simp_all add: KickOrBan_def m Some kick_target_def Let_def True)
    next
      case False
      then have "kick_target w good n (c_chan st) = Some (p_guid badp)"
        by (simp add: kick_target_def Some)
      with False show ?thesis
        by (cases "ban \<and> \<not> IsBanned (c_chan st) (p_guid badp)")
          (auto simp: KickOrBan_def m Some Let_def True chan_remove_def chan_hand_over_def)
    qed
  qed
next
  case False
  then show ?thesis
    using moderated_cases [of w st good] by (auto simp: KickOrBan_def)
qed

lemma moderated_chan:
  "c_chan (moderated w p act st) = (if may_moderate w (c_chan st) p then c_chan (act st) else c_chan st)"
  using moderated_cases [of w st p act] by auto

lemma c_chan_queries:
  "c_chan (Say w p what lang st) = c_chan st" "c_chan (Invite w p n st) = c_chan st"
  "c_chan (SendWhoOwner w p st) = c_chan st" "c_chan (ListPlayers w pl st) = c_chan st"
  by (auto simp: Say_def Invite_def SendWhoOwner_def ListPlayers_def Let_def split: option.splits)

section \<open>The specification: how a channel may change\<close>

text \<open>
  A request leaves the channel as it is, or changes it in one of these ways, under these
  conditions.
\<close>

inductive chan_trans :: "chat_world \<times> chan_op \<Rightarrow> channel \<Rightarrow> channel \<Rightarrow> bool" where
  stay: "chan_trans wo c c"
| join: "permitted (w, OpJoin p pass) c \<Longrightarrow> chan_trans (w, OpJoin p pass) c (chan_enter p c)"
| leave: "IsOn c p \<Longrightarrow> chan_trans (w, OpLeave p send) c (chan_leave p c)"
| remove: "may_moderate w c good \<Longrightarrow> kick_target w good n c = Some bad \<Longrightarrow>
    chan_trans (w, OpKickOrBan good n ban) c (chan_remove good bad (ban \<and> \<not> IsBanned c bad) c)"
| unban: "may_moderate w c p \<Longrightarrow> FindPlayerByName w n = Some badp \<Longrightarrow>
    chan_trans (w, OpUnBan p n) c (c\<lparr>banned := banned c - {p_guid badp}\<rparr>)"
| password: "may_moderate w c p \<Longrightarrow> chan_trans (w, OpPassword p pass) c (c\<lparr>m_password := pass\<rparr>)"
| announce: "may_moderate w c p \<Longrightarrow> chan_trans (w, OpAnnounce p) c (c\<lparr>m_announce := \<not> m_announce c\<rparr>)"
| moderate: "may_moderate w c p \<Longrightarrow> chan_trans (w, OpModerate p) c (c\<lparr>m_moderate := \<not> m_moderate c\<rparr>)"
| mode: "may_moderate w c p \<Longrightarrow> FindPlayerByName w n = Some newp \<Longrightarrow> IsOn c (p_guid newp) \<Longrightarrow>
    p_guid newp \<noteq> m_ownerGUID c \<Longrightarrow>
    chan_trans (w, OpSetMode p n True on) c (player_upd (PlayerInfo_SetModerator on) (p_guid newp) c)"
| mute: "may_moderate w c p \<Longrightarrow> FindPlayerByName w n = Some newp \<Longrightarrow> IsOn c (p_guid newp) \<Longrightarrow>
    p_guid newp \<noteq> m_ownerGUID c \<or> p = m_ownerGUID c \<Longrightarrow>
    chan_trans (w, OpSetMode p n False on) c (player_upd (PlayerInfo_SetMuted on) (p_guid newp) c)"
| owner: "permitted (w, OpSetOwner p n) c \<Longrightarrow> FindPlayerByName w n = Some newp \<Longrightarrow> IsOn c (p_guid newp) \<Longrightarrow>
    chan_trans (w, OpSetOwner p n) c (chan_hand_over (p_guid newp) c)"

lemma trans_Join: "chan_trans (w, OpJoin p pass) (c_chan st) (c_chan (Join w this p pass st))"
proof (cases "Join_admits w p pass (c_chan st)")
  case True
  then have "permitted (w, OpJoin p pass) (c_chan st)" by (auto simp: Join_admits_def)
  from chan_trans.join [OF this] True show ?thesis by (simp add: c_chan_Join)
qed (simp add: c_chan_Join chan_trans.stay)

lemma trans_Leave: "chan_trans (w, OpLeave p send) (c_chan st) (c_chan (Leave w this p send st))"
  by (simp add: c_chan_Leave chan_trans.stay chan_trans.leave)

lemma trans_KickOrBan:
  "chan_trans (w, OpKickOrBan p n ban) (c_chan st) (c_chan (KickOrBan w this p n ban st))"
  by (auto simp: c_chan_KickOrBan chan_trans.stay chan_trans.remove split: option.splits)

lemma trans_UnBan: "chan_trans (w, OpUnBan p n) (c_chan st) (c_chan (UnBan w p n st))"
  by (auto simp: UnBan_def moderated_chan Let_def split: option.splits intro: chan_trans.stay chan_trans.unban)

lemma trans_switches:
  "chan_trans (w, OpPassword p pass) (c_chan st) (c_chan (Password w p pass st))"
  "chan_trans (w, OpAnnounce p) (c_chan st) (c_chan (Announce w p st))"
  "chan_trans (w, OpModerate p) (c_chan st) (c_chan (Moderate w p st))"
  by (auto simp: Password_def Announce_def Moderate_def moderated_chan Let_def
      intro: chan_trans.stay chan_trans.password chan_trans.announce chan_trans.moderate)

lemma trans_SetMode: "chan_trans (w, OpSetMode p n md on) (c_chan st) (c_chan (SetMode w p n md on st))"
proof (cases "FindPlayer w p")
  case (Some plr)
  note S = SetMode_def moderated_chan Let_def Some
  show ?thesis
    by (cases md) (auto simp: S c_chan_SetModerator c_chan_SetMute split: option.splits
        intro: chan_trans.stay chan_trans.mode chan_trans.mute)
qed (simp add: SetMode_def chan_trans.stay)

lemma trans_SetOwner: "chan_trans (w, OpSetOwner p n) (c_chan st) (c_chan (SetOwnerByName w p n st))"
  by (auto simp: SetOwnerByName_def Let_def sec_of_def chan_hand_over_def [symmetric] split: option.splits
      intro!: chan_trans.stay chan_trans.owner)

lemma chan_step_trans: "chan_trans wo (c_chan st) (c_chan (chan_step this wo st))"
proof -
  obtain w op where wo: "wo = (w, op)" by fastforce
  show ?thesis
    unfolding wo by (cases op) (simp_all add: trans_Join trans_Leave trans_KickOrBan trans_UnBan
        trans_switches trans_SetMode trans_SetOwner c_chan_queries chan_trans.stay)
qed

section \<open>Invariants\<close>

lemma hand_over_inv: "chan_flags_ok c \<Longrightarrow> chan_inv (chan_hand_over g c)"
  by (simp add: chan_hand_over_def owner_set_inv flags_ok_SetModerator)

lemma enter_inv: "chan_inv c \<Longrightarrow> \<not> IsOn c p \<Longrightarrow> chan_inv (chan_enter p c)"
proof -
  assume c: "chan_inv c" "\<not> IsOn c p"
  let ?c = "c\<lparr>players := om_put p \<lparr>pi_player = p, pi_flags = 0\<rparr> (players c)\<rparr>"
  from c have "chan_inv ?c" by (rule inv_member_put) simp
  moreover from this have "chan_inv (player_upd (PlayerInfo_SetModerator True) p (owner_set p ?c))"
    by (intro inv_SetModerator owner_set_inv) (simp_all add: chan_inv_def)
  ultimately show ?thesis by (simp add: chan_enter_def Let_def)
qed

lemma leave_inv: "chan_inv c \<Longrightarrow> chan_inv (chan_leave p c)"
proof -
  assume c: "chan_inv c"
  then have "chan_flags_ok (c\<lparr>players := om_erase p (players c)\<rparr>)"
    by (simp add: chan_inv_def flags_ok_erase)
  moreover have "\<not> IsOwner (player_at c p) \<Longrightarrow> p \<noteq> m_ownerGUID c \<or> m_ownerGUID c = 0"
    using c owner_entry [of c] by (auto simp: chan_inv_def)
  ultimately show ?thesis
    using c by (auto simp: chan_leave_def Let_def intro: hand_over_inv inv_member_erase)
qed

lemma remove_inv: "chan_inv c \<Longrightarrow> chan_inv (chan_remove good bad ban c)"
proof -
  assume c: "chan_inv c"
  let ?c = "c\<lparr>banned := (if ban then insert bad (banned c) else banned c)\<rparr>"
  from c have b: "chan_inv ?c" by (rule inv_other_fields)
  have eq: "c\<lparr>banned := banned ?c, players := om_erase bad (players c)\<rparr> =
      ?c\<lparr>players := om_erase bad (players ?c)\<rparr>" by simp
  have "chan_flags_ok (?c\<lparr>players := om_erase bad (players ?c)\<rparr>)"
    using b flags_ok_erase [of ?c bad] by (simp add: chan_inv_def)
  moreover have "m_ownerGUID c \<noteq> bad \<Longrightarrow> chan_inv (?c\<lparr>players := om_erase bad (players ?c)\<rparr>)"
    using b by (intro inv_member_erase) auto
  ultimately show ?thesis
    using eq by (auto simp: chan_remove_def Let_def intro: hand_over_inv)
qed

lemma chan_trans_inv: "chan_trans wo c c' \<Longrightarrow> chan_inv c \<Longrightarrow> chan_inv c'"
proof (induction rule: chan_trans.induct)
  case (mute w c p n newp on)
  then show ?case by (simp add: inv_SetMuted)
next
  case (mode w c p n newp on)
  then show ?case by (intro inv_SetModerator) auto
next
  case (owner w p n c newp)
  then show ?case by (intro hand_over_inv) (simp add: chan_inv_def)
qed (simp_all add: enter_inv leave_inv remove_inv inv_other_fields)


text \<open>The name and the id of a channel never change.\<close>

lemma trans_name: "chan_trans wo c c' \<Longrightarrow> m_name c' = m_name c"
  by (cases rule: chan_trans.cases)
    (auto simp: chan_enter_def chan_leave_def chan_remove_def chan_hand_over_def owner_set_def Let_def)

lemma trans_id: "chan_trans wo c c' \<Longrightarrow> m_channelId c' = m_channelId c"
  by (cases rule: chan_trans.cases)
    (auto simp: chan_enter_def chan_leave_def chan_remove_def chan_hand_over_def owner_set_def Let_def)

interpretation chan: framed_machine "chan_step this" "\<lambda>st. chan_inv (c_chan st)"
    "\<lambda>st. (m_name (c_chan st), m_channelId (c_chan st))"
  by unfold_locales (simp_all add: chan_trans_inv [OF chan_step_trans] trans_name [OF chan_step_trans]
      trans_id [OF chan_step_trans])

end
