(* ===== verification/ChannelProps.thy ===== *)
theory ChannelProps
  imports ChannelTrans
begin

text \<open>
  What a channel guarantees its members: one owner, no change without the right to make it, the
  exact effect of leaving and banning, who hears a message and who is listed, and two corner cases
  in which the code loses the owner.
\<close>

section \<open>Membership after each change\<close>

lemma IsOn_other [simp]:
  "IsOn (c\<lparr>players := om_erase p (players c)\<rparr>) q \<longleftrightarrow> q \<noteq> p \<and> IsOn c q"
  "IsOn (player_upd f p c) q \<longleftrightarrow> q = p \<or> IsOn c q"
  "IsOn (c\<lparr>m_ownerGUID := g\<rparr>) q \<longleftrightarrow> IsOn c q"
  "IsOn (c\<lparr>banned := B\<rparr>) q \<longleftrightarrow> IsOn c q"
  "IsOn (c\<lparr>banned := B, players := om_erase p (players c)\<rparr>) q \<longleftrightarrow> q \<noteq> p \<and> IsOn c q"
  "IsOn (c\<lparr>m_password := s\<rparr>) q \<longleftrightarrow> IsOn c q"
  "IsOn (c\<lparr>m_announce := b\<rparr>) q \<longleftrightarrow> IsOn c q"
  "IsOn (c\<lparr>m_moderate := b\<rparr>) q \<longleftrightarrow> IsOn c q"
  by (auto simp: IsOn_def)

lemma IsOn_owner_set [simp]: "IsOn (owner_set g c) q \<longleftrightarrow> IsOn c q \<or> (g \<noteq> 0 \<and> q = g)"
  by (auto simp: owner_set_def Let_def)

lemma IsOn_hand_over [simp]: "IsOn (chan_hand_over g c) q \<longleftrightarrow> IsOn c q \<or> q = g"
  by (auto simp: chan_hand_over_def)

lemma IsOn_enter [simp]: "IsOn (chan_enter p c) q \<longleftrightarrow> IsOn c q \<or> q = p"
  by (auto simp: chan_enter_def Let_def)

lemma banned_simps [simp]:
  "banned (owner_set g c) = banned c" "banned (chan_hand_over g c) = banned c"
  "banned (chan_enter p c) = banned c" "banned (chan_leave p c) = banned c"
  "banned (chan_remove good bad ban c) = (if ban then insert bad (banned c) else banned c)"
  by (simp_all add: owner_set_def chan_hand_over_def chan_enter_def chan_leave_def chan_remove_def Let_def)

text \<open>A member's record names the member, or nobody where \<open>players[p]\<close> created it.\<close>

definition keys_ok :: "channel \<Rightarrow> bool" where
  "keys_ok c \<longleftrightarrow> (\<forall>g i. map_of (players c) g = Some i \<longrightarrow> pi_player i = g \<or> pi_player i = 0)"

lemma keys_ok_upd:
  "keys_ok c \<Longrightarrow> (\<And>i. pi_player (f i) = pi_player i) \<Longrightarrow> keys_ok (player_upd f p c)"
  by (auto simp: keys_ok_def om_at_def PlayerInfo_zero_def split: if_splits option.splits)

lemma keys_ok_fields [simp]:
  "keys_ok (c\<lparr>m_ownerGUID := g\<rparr>) \<longleftrightarrow> keys_ok c" "keys_ok (c\<lparr>banned := B\<rparr>) \<longleftrightarrow> keys_ok c"
  "keys_ok (c\<lparr>m_password := s\<rparr>) \<longleftrightarrow> keys_ok c" "keys_ok (c\<lparr>m_announce := b\<rparr>) \<longleftrightarrow> keys_ok c"
  "keys_ok (c\<lparr>m_moderate := b\<rparr>) \<longleftrightarrow> keys_ok c"
  by (simp_all add: keys_ok_def)

lemma keys_ok_erase:
  "keys_ok c \<Longrightarrow> keys_ok (c\<lparr>players := om_erase p (players c)\<rparr>)"
  "keys_ok c \<Longrightarrow> keys_ok (c\<lparr>banned := B, players := om_erase p (players c)\<rparr>)"
  by (auto simp: keys_ok_def)

lemma keys_ok_owner_set: "keys_ok c \<Longrightarrow> keys_ok (owner_set g c)"
  unfolding owner_set_def Let_def
  by (cases "g = 0") (auto intro!: keys_ok_upd split del: if_split split: if_splits)

lemma keys_ok_hand_over: "keys_ok c \<Longrightarrow> keys_ok (chan_hand_over g c)"
  by (simp add: chan_hand_over_def keys_ok_owner_set keys_ok_upd)

lemma keys_ok_enter: "keys_ok c \<Longrightarrow> keys_ok (chan_enter p c)"
proof -
  assume "keys_ok c"
  then have "keys_ok (c\<lparr>players := om_put p \<lparr>pi_player = p, pi_flags = 0\<rparr> (players c)\<rparr>)"
    by (simp add: keys_ok_def)
  then show ?thesis by (simp add: chan_enter_def Let_def keys_ok_owner_set keys_ok_upd)
qed

lemma chan_trans_keys_ok: "chan_trans wo c c' \<Longrightarrow> keys_ok c \<Longrightarrow> keys_ok c'"
  by (induction rule: chan_trans.induct)
    (simp_all add: keys_ok_enter keys_ok_upd keys_ok_hand_over keys_ok_erase chan_leave_def
      chan_remove_def Let_def)

lemma keys_ok_new: "keys_ok (Channel_new dbc name cid)"
  by (simp add: keys_ok_def Channel_new_def Let_def split: option.splits)

interpretation chan_keys: machine "chan_step this" "\<lambda>st. keys_ok (c_chan st)"
  by unfold_locales (rule chan_trans_keys_ok [OF chan_step_trans])

section \<open>Banned players\<close>

definition shut_out :: "u64 \<Rightarrow> channel \<Rightarrow> bool" where
  "shut_out bad c \<longleftrightarrow> keys_ok c \<and> bad \<in> banned c \<and> \<not> IsOn c bad"

fun unbans :: "u64 \<Rightarrow> chat_world \<times> chan_op \<Rightarrow> bool" where
  "unbans bad (w, OpUnBan p n) \<longleftrightarrow> map_option p_guid (FindPlayerByName w n) = Some bad"
| "unbans bad _ \<longleftrightarrow> False"

lemma leave_members:
  assumes "keys_ok c" "IsOn (chan_leave p c) q"
  shows "IsOn c q \<or> q = 0"
proof -
  let ?m = "om_erase p (players c)"
  have "IsOn c k \<and> (pi_player i = k \<or> pi_player i = 0)" if "om_begin ?m = Some (k, i)" for k i
  proof -
    from that obtain rest where "?m = (k, i) # rest" by (cases ?m) (auto simp: om_begin_def)
    then have "map_of ?m k = Some i" by simp
    with assms(1) show ?thesis by (auto simp: keys_ok_def IsOn_def split: if_splits)
  qed
  then show ?thesis
    using assms(2) by (fastforce simp: chan_leave_def Let_def split: if_splits option.splits)
qed

lemma remove_members:
  "IsOn (chan_remove good bad ban c) q \<Longrightarrow> IsOn c q \<or> q = good \<or> q = 0"
  by (auto simp: chan_remove_def Let_def split: if_splits)

lemma shut_out_step:
  assumes "chan_trans wo c c'" "shut_out bad c" "bad \<noteq> 0" "\<not> unbans bad wo"
  shows "shut_out bad c'"
proof -
  have "keys_ok c'" using assms(1,2) chan_trans_keys_ok by (auto simp: shut_out_def)
  moreover from assms have "bad \<in> banned c' \<and> \<not> IsOn c' bad"
  proof (induction rule: chan_trans.induct)
    case (leave c p w send)
    then show ?case using leave_members [of c p bad] by (auto simp: shut_out_def)
  next
    case (remove w c good n b ban)
    then show ?case
      using remove_members [of good b "ban \<and> \<not> IsBanned c b" c bad] by (auto simp: shut_out_def may_moderate_def)
  qed (auto simp: shut_out_def IsBanned_def)
  ultimately show ?thesis by (simp add: shut_out_def)
qed

lemma shut_out_run:
  "shut_out bad (c_chan st) \<Longrightarrow> bad \<noteq> 0 \<Longrightarrow> (\<forall>wo \<in> set ops. \<not> unbans bad wo) \<Longrightarrow>
    shut_out bad (c_chan (fold (chan_step this) ops st))"
  by (induction ops arbitrary: st) (auto intro: shut_out_step [OF chan_step_trans])

section \<open>Ghost members\<close>

text \<open>
  \<open>players[0]\<close> in \<open>Leave\<close> and \<open>KickOrBan\<close> creates a member with guid 0 when the last owner goes.
\<close>

definition populated :: "channel \<Rightarrow> bool" where
  "populated c \<longleftrightarrow> chan_inv c \<and> m_channelId c = 0 \<and> (m_ownerGUID c = 0 \<longrightarrow> IsOn c 0)"

fun op_guid :: "chan_op \<Rightarrow> u64" where
  "op_guid (OpJoin p _) = p"
| "op_guid (OpLeave p _) = p"
| "op_guid (OpKickOrBan p _ _) = p"
| "op_guid (OpUnBan p _) = p"
| "op_guid (OpPassword p _) = p"
| "op_guid (OpSetMode p _ _ _) = p"
| "op_guid (OpSetOwner p _) = p"
| "op_guid (OpAnnounce p) = p"
| "op_guid (OpModerate p) = p"
| "op_guid (OpSay p _ _) = p"
| "op_guid (OpInvite p _) = p"
| "op_guid (OpWho p) = p"
| "op_guid (OpList pl) = p_guid pl"

text \<open>Requests of real players: guid 0 is nobody.\<close>

definition real_guids :: "chat_world \<times> chan_op \<Rightarrow> bool" where
  "real_guids wo \<longleftrightarrow> op_guid (snd wo) \<noteq> 0 \<and> (\<forall>p \<in> set (w_players (fst wo)). p_guid p \<noteq> 0)"

lemma id_owner_simps [simp]:
  "m_channelId (owner_set g c) = m_channelId c" "m_channelId (chan_hand_over g c) = m_channelId c"
  "m_channelId (chan_enter p c) = m_channelId c" "m_channelId (chan_leave p c) = m_channelId c"
  "m_channelId (chan_remove good bad ban c) = m_channelId c"
  "m_ownerGUID (chan_hand_over g c) = g"
  by (simp_all add: owner_set_def chan_hand_over_def chan_enter_def chan_leave_def chan_remove_def Let_def
      split: option.splits)

lemma populated_step:
  assumes "chan_trans wo c c'" "real_guids wo" "populated c"
  shows "populated c'"
proof -
  have "chan_inv c'" using assms(1,3) chan_trans_inv by (auto simp: populated_def)
  moreover from assms have "m_channelId c' = 0 \<and> (m_ownerGUID c' = 0 \<longrightarrow> IsOn c' 0)"
  proof (induction rule: chan_trans.induct)
    case (join w p pass c)
    then show ?case by (simp add: populated_def real_guids_def chan_enter_def Let_def)
  next
    case (leave c p w send)
    then show ?case by (auto simp: populated_def real_guids_def chan_leave_def Let_def split: option.splits)
  next
    case (remove w c good n bad ban)
    then have "bad \<noteq> 0"
      by (auto simp: real_guids_def kick_target_def split: option.splits if_splits
          dest: FindPlayerByName_name)
    with remove show ?case by (auto simp: populated_def chan_remove_def Let_def)
  next
    case (owner w p n c newp)
    then show ?case by (auto simp: populated_def)
  qed (simp_all add: populated_def)
  ultimately show ?thesis by (simp add: populated_def)
qed

lemma populated_run:
  "populated (c_chan st) \<Longrightarrow> (\<forall>wo \<in> set ops. real_guids wo) \<Longrightarrow>
    populated (c_chan (fold (chan_step this) ops st))"
  by (induction ops arbitrary: st) (auto intro: populated_step [OF chan_step_trans])

lemma populated_nonempty: "populated c \<Longrightarrow> GetNumPlayers c \<noteq> 0"
  by (auto simp: populated_def chan_inv_def chan_owner_ok_def IsOn_def GetNumPlayers_def)

section \<open>Properties\<close>

text \<open>
  C1: every operation of a channel leaves it unchanged or changes it in one of the ways of the
  specification \<open>chan_trans\<close>, under the conditions stated there.
\<close>

theorem channel_operations_refine_spec:
  "chan_trans wo (c_chan st) (c_chan (chan_step this wo st))"
  by (rule chan_step_trans)

text \<open>
  C29: a request that changes the channel at all had the right to: a joiner is not on it, not
  banned and gave the password, a leaver is on it, a moderation request comes from a moderator or
  game master on the channel, a change of owner from the owner or a game master on it; talk,
  invitations and queries never change it.
\<close>

theorem channel_changes_need_right:
  assumes "c_chan (chan_step this wo st) \<noteq> c_chan st"
  shows "permitted wo (c_chan st)"
  using chan_step_trans [of wo st this] assms by (cases rule: chan_trans.cases) auto

definition example_chat :: chat_world where
  "example_chat = \<lparr>w_players = w_players example_world, w_config = (\<lambda>_. False), w_names = (\<lambda>_. None),
     w_social = [], w_chatChannels = (\<lambda>_. None)\<rparr>"

definition example_cst :: "channel \<Rightarrow> cst" where
  "example_cst c = \<lparr>c_chan = c, c_joined = (\<lambda>_. []), c_out = []\<rparr>"

definition example_channel :: channel where
  "example_channel = chan_enter 2 (chan_enter 1 (Channel_new (\<lambda>_. None) ''den'' 0))"

lemma example_find [simp]:
  "FindPlayer example_chat 1 = Some (example_player 1 ''Anna'')"
  "FindPlayer example_chat 2 = Some (example_player 2 ''Bert'')"
  "FindPlayerByName example_chat ''Bert'' = Some (example_player 2 ''Bert'')"
  "FindPlayerByName example_chat ''Anna'' = Some (example_player 1 ''Anna'')"
  by (simp_all add: example_chat_def example_defs)

lemma example_channel_eq:
  "example_channel = (Channel_new (\<lambda>_. None) ''den'' 0)
     \<lparr>players := [(1, \<lparr>pi_player = 1, pi_flags = 3\<rparr>), (2, \<lparr>pi_player = 2, pi_flags = 0\<rparr>)], m_ownerGUID := 1\<rparr>"
  by (simp add: example_channel_def chan_enter_def Channel_new_def Let_def IsConstant_def owner_set_def
      IsOn_def player_upd_def om_modify_def om_at_def PlayerInfo_SetModerator_def PlayerInfo_SetOwner_def
      set_flag_def)

lemma example_channel_sel [simp]:
  "players example_channel = [(1, \<lparr>pi_player = 1, pi_flags = 3\<rparr>), (2, \<lparr>pi_player = 2, pi_flags = 0\<rparr>)]"
  "m_ownerGUID example_channel = 1" "banned example_channel = {}" "m_password example_channel = []"
  "m_channelId example_channel = 0" "m_moderate example_channel = False" "m_announce example_channel = True"
  "m_name example_channel = ''den''"
  by (simp_all add: example_channel_eq Channel_new_def Let_def)

lemma example_cst_sel [simp]: "c_chan (example_cst c) = c" "c_out (example_cst c) = []"
  by (simp_all add: example_cst_def)

lemma example_moderates [simp]: "may_moderate w example_channel 1"
  by (simp add: may_moderate_def IsOn_def player_at_def om_at_def IsModerator_def)

theorem channel_changes_need_right_witness:
  "permitted (example_chat, OpPassword 1 ''x'') example_channel"
proof (rule channel_changes_need_right [of 0 _ "example_cst example_channel", simplified example_cst_sel])
  have "m_password (c_chan (chan_step 0 (example_chat, OpPassword 1 ''x'') (example_cst example_channel))) = ''x''"
    by (simp add: Password_def moderated_chan Let_def)
  then show "c_chan (chan_step 0 (example_chat, OpPassword 1 ''x'') (example_cst example_channel)) \<noteq> example_channel"
    using example_channel_sel(4) by (auto simp del: chan_step.simps example_channel_sel)
qed

text \<open>
  C25: from its creation on, whatever requests arrive, a channel has at most one owner: the
  recorded owner is on it, with the owner and the moderator flag, and nobody else has the owner
  flag. The members stay in guid order, and the channel keeps its name and id.
\<close>

theorem channel_one_owner:
  assumes "c_chan st = Channel_new dbc name cid"
  shows "let c = c_chan (fold (chan_step this) ops st) in
    om_ok (players c) \<and>
    (m_ownerGUID c = 0 \<or>
      IsOn c (m_ownerGUID c) \<and> IsOwner (player_at c (m_ownerGUID c)) \<and> IsModerator (player_at c (m_ownerGUID c))) \<and>
    {g. IsOwner (player_at c g)} \<subseteq> {m_ownerGUID c} - {0} \<and> m_name c = name \<and> m_channelId c = cid"
proof -
  have new: "chan_inv (c_chan st)" "m_name (c_chan st) = name" "m_channelId (c_chan st) = cid"
    by (simp_all add: assms chan_new_inv) (simp_all add: Channel_new_def Let_def split: option.split)
  have inv: "chan_inv (c_chan (fold (chan_step this) ops st))"
    by (rule chan.run_inv) (rule new(1))
  have frame: "m_name (c_chan (fold (chan_step this) ops st)) = name"
    "m_channelId (c_chan (fold (chan_step this) ops st)) = cid"
    using chan.run_frame [OF new(1), of this ops] new(2,3) by simp_all
  from inv have "om_ok (players (c_chan (fold (chan_step this) ops st)))"
    by (simp add: chan_inv_def chan_flags_ok_def)
  with inv frame show ?thesis
    using owner_entry player_at_owner unfolding chan_inv_def Let_def by blast
qed

theorem channel_one_owner_witness:
  "let c = c_chan (fold (chan_step 0) [(example_chat, OpJoin 1 ''''), (example_chat, OpLeave 1 True)]
      (example_cst (Channel_new (\<lambda>_. None) ''den'' 0))) in
    om_ok (players c) \<and>
    (m_ownerGUID c = 0 \<or>
      IsOn c (m_ownerGUID c) \<and> IsOwner (player_at c (m_ownerGUID c)) \<and> IsModerator (player_at c (m_ownerGUID c))) \<and>
    {g. IsOwner (player_at c g)} \<subseteq> {m_ownerGUID c} - {0} \<and> m_name c = ''den'' \<and> m_channelId c = 0"
  by (rule channel_one_owner) (simp add: example_cst_def)

text \<open>
  C31: on a channel with exact owner flags, where guid 0 is no member and every record stands under the guid
  it names (an owner who leaves the channel empty, or kicks himself, breaks this), leaving takes exactly
  the leaver off. When the owner leaves, the remaining member with the least guid becomes
  owner and moderator; when nobody remains, the code creates a moderating member with guid 0 instead, so
  the channel still counts one player.
\<close>

theorem channel_leave_hand_over:
  assumes "chan_inv (c_chan st)" "\<forall>g i. map_of (players (c_chan st)) g = Some i \<longrightarrow> pi_player i = g"
    and "\<not> IsOn (c_chan st) 0" "IsOn (c_chan st) p"
    and "c' = c_chan (Leave w this p send st)"
  shows "(\<forall>q. q \<noteq> 0 \<longrightarrow> IsOn c' q = (IsOn (c_chan st) q \<and> q \<noteq> p)) \<and>
    (p \<noteq> m_ownerGUID (c_chan st) \<longrightarrow> m_ownerGUID c' = m_ownerGUID (c_chan st)) \<and>
    (p = m_ownerGUID (c_chan st) \<longrightarrow> (\<exists>q. IsOn (c_chan st) q \<and> q \<noteq> p) \<longrightarrow>
      IsOn c' (m_ownerGUID c') \<and> IsModerator (player_at c' (m_ownerGUID c')) \<and>
      (\<forall>q. IsOn c' q \<longrightarrow> m_ownerGUID c' \<le> q)) \<and>
    ((\<forall>q. IsOn (c_chan st) q \<longrightarrow> q = p) \<and> p = m_ownerGUID (c_chan st) \<longrightarrow>
      m_ownerGUID c' = 0 \<and> players c' = [(0, \<lparr>pi_player = 0, pi_flags = MEMBER_FLAG_MODERATOR\<rparr>)])"
proof -
  let ?c = "c_chan st" and ?m = "om_erase p (players (c_chan st))"
  have c': "c' = chan_leave p ?c" using assms(4,5) by (simp add: c_chan_Leave)
  have inv': "chan_inv c'" using assms(1) by (simp add: c' leave_inv)
  have "p \<noteq> 0" using assms(3,4) by auto
  then have own: "IsOwner (player_at ?c p) \<longleftrightarrow> p = m_ownerGUID ?c"
    using assms(1) owner_entry [of ?c] player_at_owner [of ?c p] by (auto simp: chan_inv_def)
  have ok: "om_ok ?m" using assms(1) by (simp add: chan_inv_def chan_flags_ok_def)
  show ?thesis
  proof (cases "om_begin ?m")
    case None
    then have m: "?m = []" by simp
    then have only: "IsOn ?c q \<Longrightarrow> q = p" for q
      using map_of_om_erase [of p "players ?c"] by (cases "q = p") (auto simp: IsOn_def dest: fun_cong [of _ _ q])
    have c'_0: "c' = chan_hand_over 0 (?c\<lparr>players := []\<rparr>)" if "p = m_ownerGUID ?c"
      using that own m by (simp add: c' chan_leave_def om_begin_def)
    have "chan_hand_over 0 (?c\<lparr>players := []\<rparr>) =
        ?c\<lparr>players := [(0, \<lparr>pi_player = 0, pi_flags = MEMBER_FLAG_MODERATOR\<rparr>)], m_ownerGUID := 0\<rparr>"
      if "m_ownerGUID ?c \<noteq> 0"
      using that by (simp add: chan_hand_over_def owner_set_def IsOn_def player_upd_def om_modify_def om_at_def
          PlayerInfo_zero_def PlayerInfo_SetModerator_def set_flag_def)
    with c'_0 \<open>p \<noteq> 0\<close> have ghost: "p = m_ownerGUID ?c \<Longrightarrow>
        c' = ?c\<lparr>players := [(0, \<lparr>pi_player = 0, pi_flags = MEMBER_FLAG_MODERATOR\<rparr>)], m_ownerGUID := 0\<rparr>"
      by simp
    moreover have "p \<noteq> m_ownerGUID ?c \<Longrightarrow> c' = ?c\<lparr>players := []\<rparr>"
      using own m by (simp add: c' chan_leave_def Let_def)
    moreover have "IsOn (?c\<lparr>players := P\<rparr>) q \<longleftrightarrow> om_mem q P" for P q by (simp add: IsOn_def)
    ultimately show ?thesis
      using only by (cases "p = m_ownerGUID ?c") auto
  next
    case (Some e)
    then obtain k i where b: "om_begin ?m = Some (k, i)" by (cases e) auto
    with om_begin_least [OF ok] have k: "map_of ?m k = Some i" "\<And>q. om_mem q ?m \<Longrightarrow> k \<le> q" by auto
    with assms(2) have i: "pi_player i = k" "k \<noteq> p" "IsOn ?c k" by (auto simp: IsOn_def split: if_splits)
    then have "k \<noteq> 0" using assms(3) by auto
    have on: "IsOn c' q \<longleftrightarrow> IsOn ?c q \<and> q \<noteq> p" for q
      using b i by (auto simp: c' chan_leave_def Let_def)
    have least: "IsOn c' q \<Longrightarrow> k \<le> q" for q using k(2) [of q] on by (simp add: IsOn_def)
    have mo: "m_ownerGUID c' = (if p = m_ownerGUID ?c then k else m_ownerGUID ?c)"
      using b i own by (cases "p = m_ownerGUID ?c") (simp_all add: c' chan_leave_def Let_def)
    moreover have "m_ownerGUID c' \<noteq> 0 \<Longrightarrow> IsModerator (player_at c' (m_ownerGUID c'))"
      using inv' owner_entry [of c'] by (simp add: chan_inv_def)
    ultimately show ?thesis
      using on least i \<open>k \<noteq> 0\<close> by auto
  qed
qed

theorem channel_leave_hand_over_witness:
  "let c' = c_chan (Leave example_chat 0 1 True (example_cst example_channel)) in
    IsOn c' 2 \<and> \<not> IsOn c' 1 \<and> IsOn c' (m_ownerGUID c') \<and> (\<forall>q. IsOn c' q \<longrightarrow> m_ownerGUID c' \<le> q)"
proof -
  let ?c' = "c_chan (Leave example_chat 0 1 True (example_cst example_channel))"
  have inv: "chan_inv example_channel"
    unfolding example_channel_def
    by (intro enter_inv chan_new_inv) (simp_all add: IsOn_def Channel_new_def chan_enter_def owner_set_def
        IsConstant_def)
  have on: "IsOn example_channel q \<longleftrightarrow> q = 1 \<or> q = 2" for q by (simp add: IsOn_def)
  have *: "\<exists>q. IsOn example_channel q \<and> q \<noteq> 1" unfolding on by (rule exI [of _ 2]) simp
  have rec: "\<forall>g i. map_of (players example_channel) g = Some i \<longrightarrow> pi_player i = g" by simp
  show ?thesis
    using channel_leave_hand_over [of "example_cst example_channel" 1 ?c' example_chat 0 True] inv * rec
    by (simp add: on Let_def)
qed

text \<open>
  C26: once a player has been banned by somebody else, no sequence of requests brings the player
  back on the channel until an unban names this player: joining is refused, and no change of owner
  or kick puts the player back.
\<close>

theorem channel_ban_keeps_out:
  assumes "c_chan st0 = Channel_new dbc name cid" "st = fold (chan_step this) before st0"
    and "may_moderate w (c_chan st) good" "kick_target w good n (c_chan st) = Some bad"
    and "bad \<noteq> good" "bad \<noteq> 0" "\<forall>wo \<in> set ops. \<not> unbans bad wo"
    and "st' = fold (chan_step this) ops (KickOrBan w this good n True st)"
  shows "IsBanned (c_chan st') bad \<and> \<not> IsOn (c_chan st') bad"
proof -
  have "keys_ok (c_chan (fold (chan_step this) before st0))"
    by (rule chan_keys.run_inv) (simp add: assms(1) keys_ok_new)
  then have "keys_ok (c_chan st)" by (simp add: assms(2))
  moreover from this have "keys_ok (c_chan (KickOrBan w this good n True st))"
    using trans_KickOrBan chan_trans_keys_ok by blast
  ultimately have "shut_out bad (c_chan (KickOrBan w this good n True st))"
    using assms(3-6) remove_members [of good bad "\<not> IsBanned (c_chan st) bad" "c_chan st" bad]
    by (auto simp: shut_out_def c_chan_KickOrBan IsBanned_def chan_remove_def Let_def)
  then show ?thesis
    using shut_out_run assms(6-8) by (simp add: shut_out_def IsBanned_def)
qed

theorem channel_ban_keeps_out_witness:
  "\<not> IsOn (c_chan (Join example_chat 0 2 '''' (KickOrBan example_chat 0 1 ''Bert'' True
      (Join example_chat 0 2 '''' (Join example_chat 0 1 '''' (example_cst (Channel_new (\<lambda>_. None) ''den'' 0))))))) 2"
proof -
  let ?st0 = "example_cst (Channel_new (\<lambda>_. None) ''den'' 0)"
  let ?before = "[(example_chat, OpJoin 1 ''''), (example_chat, OpJoin 2 '''')]"
  have "Join_admits example_chat 1 '''' (c_chan ?st0)"
    "Join_admits example_chat 2 '''' (chan_enter 1 (c_chan ?st0))"
    by (simp_all add: Join_admits_def Channel_new_def IsOn_def IsBanned_def IsLFG_def example_player_def
        chan_enter_def IsConstant_def owner_set_def Let_def)
  then have c: "c_chan (fold (chan_step 0) ?before ?st0) = example_channel"
    by (simp add: c_chan_Join example_channel_def)
  have "kick_target example_chat 1 ''Bert'' example_channel = Some 2"
    by (simp add: kick_target_def IsOn_def example_player_def)
  then show ?thesis
    using channel_ban_keeps_out [of ?st0 "\<lambda>_. None" "''den''" 0 _ 0 ?before example_chat 1 "''Bert''" 2
        "[(example_chat, OpJoin 2 '''')]"] c by simp
qed

text \<open>The recipients of a packet sent to the whole channel, in member order.\<close>

definition hears :: "chat_world \<Rightarrow> u64 \<Rightarrow> u64 \<Rightarrow> bool" where
  "hears w p g \<longleftrightarrow> FindPlayer w g \<noteq> None \<and> (p = 0 \<or> \<not> HasIgnore (GetSocial (w_social w) g) (GUID_LOPART p))"

lemma to_all_eq: "to_all w d p c = map (\<lambda>g. Send g d) (filter (hears w p) (map fst (players c)))"
proof -
  have "to_all w d p c = concat (map (\<lambda>g. if hears w p g then [Send g d] else []) (map fst (players c)))"
    unfolding to_all_def map_map
    by (intro arg_cong [where f = concat] map_cong)
      (auto simp: hears_def split: option.splits dest: FindPlayer_guid)
  also have "\<dots> = map (\<lambda>g. Send g d) (filter (hears w p) (map fst (players c)))"
    by (rule concat_map_if)
  finally show ?thesis .
qed

definition speaks :: "chat_world \<Rightarrow> channel \<Rightarrow> u64 \<Rightarrow> bool" where
  "speaks w c p \<longleftrightarrow>
     IsOn c p \<and> \<not> IsMuted (player_at c p) \<and>
     (m_moderate c \<longrightarrow> IsModerator (player_at c p) \<or> sec_of w p \<ge> SEC_GAMEMASTER)"

text \<open>
  C30: a member who is not muted, and on a moderated channel has the right to speak, is heard by
  exactly the members in the world who do not ignore the speaker, by all of them when the speaker
  is a moderator, each once; anyone else is heard by nobody and alone receives the answer.
\<close>

theorem channel_say_audience:
  assumes "om_ok (players (c_chan st))" "p \<noteq> 0"
    and "c_out (Say w p what lang st) = c_out st @ new"
  shows "if speaks w (c_chan st) p
    then distinct (filter (\<lambda>e. \<exists>q d. e = Send q d) new) \<and>
      (\<forall>q d. Send q d \<in> set new \<longleftrightarrow>
        d = chat_packet w (c_chan st) p what
          (if getConfig w CONFIG_ALLOW_TWO_SIDE_INTERACTION_CHANNEL then LANG_UNIVERSAL else lang) \<and>
        IsOn (c_chan st) q \<and> FindPlayer w q \<noteq> None \<and>
        (IsModerator (player_at (c_chan st) p) \<or> \<not> HasIgnore (GetSocial (w_social w) q) (GUID_LOPART p)))
    else \<forall>e \<in> set new. receiver e = p"
proof (cases "speaks w (c_chan st) p")
  case True
  let ?c = "c_chan st"
  let ?lang = "if getConfig w CONFIG_ALLOW_TWO_SIDE_INTERACTION_CHANNEL then LANG_UNIVERSAL else lang"
  let ?p = "if \<not> IsModerator (player_at ?c p) then p else 0"
  from True have "c_out (Say w p what lang st) = c_out st @ chat_spies w ?c p what ?lang @
      to_all w (chat_packet w ?c p what ?lang) ?p ?c"
    by (auto simp: Say_def speaks_def Let_def emit_def SendToAll_def)
  with assms(3) have new: "new = chat_spies w ?c p what ?lang @
      map (\<lambda>g. Send g (chat_packet w ?c p what ?lang)) (filter (hears w ?p) (map fst (players ?c)))"
    by (simp add: to_all_eq)
  have spies: "Send q d \<notin> set (chat_spies w ?c p what l)" for q d l
    by (auto simp: chat_spies_def split: option.splits)
  then have no_send: "filter (\<lambda>e. \<exists>q d. e = Send q d) (chat_spies w ?c p what l) = []" for l
    by (auto simp: filter_empty_conv)
  have d: "distinct (map (\<lambda>g. Send g (chat_packet w ?c p what ?lang)) (filter (hears w ?p) (map fst (players ?c))))"
    using om_ok_distinct [OF assms(1)] by (simp add: distinct_map inj_on_def)
  have "IsOn ?c q \<longleftrightarrow> q \<in> fst ` set (players ?c)" for q
    unfolding IsOn_def by (rule om_mem_iff)
  then show ?thesis
    using True d assms(2) by (auto simp: new hears_def spies no_send filter_map o_def)
next
  case False
  then show ?thesis
    using assms(3) by (auto simp: Say_def speaks_def SendToOne_def emit_def to_one_def Let_def
        split: option.splits if_splits)
qed

theorem channel_say_audience_witness:
  "Send 2 (chat_packet example_chat example_channel 1 ''hi'' 7) \<in>
    set (c_out (Say example_chat 1 ''hi'' 7 (example_cst example_channel)))"
proof -
  obtain new where new: "c_out (Say example_chat 1 ''hi'' 7 (example_cst example_channel)) =
      c_out (example_cst example_channel) @ new" by simp
  have "speaks example_chat example_channel 1" "IsOn example_channel 2" "om_ok (players example_channel)"
    "IsModerator (player_at example_channel 1)" "getConfig example_chat k = False" for k
    by (simp_all add: speaks_def IsOn_def IsMuted_def IsModerator_def player_at_def om_at_def om_ok_def
        getConfig_def example_chat_def)
  then show ?thesis
    using channel_say_audience [of "example_cst example_channel" 1 example_chat "''hi''" 7 new] new by simp
qed

text \<open>
  A channel a player created by joining never becomes empty again, whoever leaves, is kicked or
  banned: the code puts a member with guid 0 in place of the last owner. (The manager deletes a
  channel only when it is empty.)
\<close>

theorem custom_channel_never_empty:
  assumes "c_chan st = Channel_new dbc name 0" "dbc 0 = None" "p \<noteq> 0"
    and "\<forall>wo \<in> set ops. real_guids wo"
  shows "GetNumPlayers (c_chan (fold (chan_step this) ops (Join w this p pass st))) \<noteq> 0"
proof -
  have "Join_admits w p pass (c_chan st)"
    using assms(1,2) by (simp add: Join_admits_def Channel_new_def IsOn_def IsBanned_def IsLFG_def
        split: option.splits)
  then have "c_chan (Join w this p pass st) = chan_enter p (Channel_new dbc name 0)"
    by (simp add: c_chan_Join assms(1))
  moreover have "populated (chan_enter p (Channel_new dbc name 0))"
    using enter_inv [OF chan_new_inv, of dbc name 0 p] assms(2,3)
    by (simp add: populated_def Channel_new_def IsOn_def chan_enter_def IsConstant_def)
  ultimately show ?thesis
    by (intro populated_nonempty populated_run assms(4)) simp
qed

theorem custom_channel_never_empty_witness:
  "GetNumPlayers (c_chan (Leave example_chat 0 1 True
     (Join example_chat 0 1 '''' (example_cst (Channel_new (\<lambda>_. None) ''den'' 0))))) \<noteq> 0"
proof -
  have "real_guids (example_chat, OpLeave 1 True)"
    by (simp add: real_guids_def example_chat_def example_defs)
  then show ?thesis
    using custom_channel_never_empty [of "example_cst (Channel_new (\<lambda>_. None) ''den'' 0)" "\<lambda>_. None" "''den''" 1
        "[(example_chat, OpLeave 1 True)]" 0 example_chat "''''"] by simp
qed

text \<open>
  An owner who kicks or bans himself from a channel with other members is put back on it, as
  its owner, although (for a ban) he is on the ban list and his own channel list no longer holds
  the channel.
\<close>

theorem channel_owner_self_kick:
  assumes "chan_inv (c_chan st)" "m_ownerGUID (c_chan st) = p" "p \<noteq> 0"
    and "FindPlayerByName w n = Some badp" "p_guid badp = p"
    and "IsOn (c_chan st) q" "q \<noteq> p"
    and "st' = KickOrBan w this p n ban st"
  shows "IsOn (c_chan st') p \<and> m_ownerGUID (c_chan st') = p \<and> IsModerator (player_at (c_chan st') p) \<and>
    (ban \<longrightarrow> IsBanned (c_chan st') p) \<and> this \<notin> set (c_joined st' p)"
proof -
  let ?c = "c_chan st"
  have own: "IsOn ?c p" "IsModerator (player_at ?c p)"
    using owner_entry [of ?c] assms(1-3) by (auto simp: chan_inv_def)
  then have may: "may_moderate w ?c p" by (simp add: may_moderate_def)
  have target: "kick_target w p n ?c = Some p"
    using assms(2,4,5) own by (simp add: kick_target_def)
  have rest: "om_erase p (players ?c) \<noteq> []"
    using assms(6,7) map_of_om_erase [of p "players ?c"] by (metis IsOn_def fun_upd_apply map_of.simps(1))
  then have c': "c_chan st' = chan_hand_over p (?c\<lparr>banned := (if ban then insert p (banned ?c) else banned ?c),
      players := om_erase p (players ?c)\<rparr>)"
    using may target assms(2,8) by (auto simp: c_chan_KickOrBan chan_remove_def IsBanned_def insert_absorb)
  have "chan_inv (c_chan st')"
    using assms(1,8) chan_trans_inv trans_KickOrBan by blast
  moreover have "m_ownerGUID (c_chan st') = p" by (simp add: c')
  ultimately have "IsOn (c_chan st') p \<and> IsModerator (player_at (c_chan st') p)"
    using owner_entry [of "c_chan st'"] assms(3) by (auto simp: chan_inv_def)
  moreover have "this \<notin> set (c_joined st' p)"
    using own assms(2,4,5,8)
    by (auto simp: KickOrBan_def moderated_def Let_def SetOwner_def upd_chan_def SendToAll_def emit_def
        LeftChannel_def)
  ultimately show ?thesis by (auto simp: c' IsBanned_def)
qed

theorem channel_owner_self_kick_witness:
  "IsOn (c_chan (KickOrBan example_chat 0 1 ''Anna'' True (example_cst example_channel))) 1"
proof -
  have "chan_inv example_channel"
    by (simp add: chan_inv_def chan_flags_ok_def chan_owner_ok_def om_ok_def IsOwner_def IsModerator_def)
  then show ?thesis
    using channel_owner_self_kick [of "example_cst example_channel" 1 example_chat "''Anna''"
        "example_player 1 ''Anna''" 2 _ 0 True]
    by (simp add: example_player_def IsOn_def)
qed

end
