(* ===== verification/TextUtil.thy ===== *)
theory TextUtil
  imports Prelude
begin

text \<open>
  The string helpers of shared/Util.cpp: splitting, the clean-up of chat lines, durations as text
  and back, and hexadecimal dumps.
\<close>

section \<open>Splitting and cleaning\<close>

fun StrSplit_loop :: "string \<Rightarrow> string \<Rightarrow> string \<Rightarrow> string list \<Rightarrow> string list" where
  "StrSplit_loop sep [] s r = (if s \<noteq> [] then r @ [s] else r)"
| "StrSplit_loop sep (c # cs) s r =
     (if c \<in> set sep
      then StrSplit_loop sep cs [] (if s \<noteq> [] then r @ [s] else r)
      else StrSplit_loop sep cs (s @ [c]) r)"

definition StrSplit :: "string \<Rightarrow> string \<Rightarrow> string list" where
  "StrSplit src sep = StrSplit_loop sep src [] []"

definition invChars :: string where
  "invChars = [CHR 0x20, CHR 0x09, CHR 0x07, CHR 0x0A]"

text \<open>
  The loop writes into the string it reads: \<open>out\<close> is \<open>str[0..wpos)\<close>, and as \<open>wpos \<le> pos\<close> the
  characters not yet read are those of the original string.
\<close>

fun strip_loop :: "string \<Rightarrow> string \<Rightarrow> bool \<Rightarrow> string" where
  "strip_loop [] out space = out"
| "strip_loop (c # cs) out space =
     (if c \<in> set invChars
      then (if \<not> space then strip_loop cs (out @ [CHR 0x20]) True else strip_loop cs out space)
      else strip_loop cs (out @ [c]) False)"

fun contains :: "string \<Rightarrow> string \<Rightarrow> bool" where
  "contains pat [] \<longleftrightarrow> pat = []"
| "contains pat (c # cs) \<longleftrightarrow> take (length pat) (c # cs) = pat \<or> contains pat cs"

definition stripLineInvisibleChars :: "string \<Rightarrow> string" where
  "stripLineInvisibleChars str =
     (let str = strip_loop str [] False
      in if contains ''|TInterface'' str then [] else str)"

section \<open>Durations\<close>

abbreviation MINUTE :: u32 where "MINUTE \<equiv> 60"
abbreviation HOUR :: u32 where "HOUR \<equiv> 3600"
abbreviation DAY :: u32 where "DAY \<equiv> 86400"

definition digit :: "nat \<Rightarrow> char" where
  "digit n = char_of (48 + n)"

fun dec :: "nat \<Rightarrow> string" where
  "dec n = (if n < 10 then [digit n] else dec (n div 10) @ [digit (n mod 10)])"

declare dec.simps [simp del]

definition secsToTimeString :: "u32 \<Rightarrow> bool \<Rightarrow> bool \<Rightarrow> string" where
  "secsToTimeString timeInSecs shortText hoursOnly =
     (let secs = timeInSecs mod MINUTE;
          minutes = timeInSecs mod HOUR div MINUTE;
          hours = timeInSecs mod DAY div HOUR;
          days = timeInSecs div DAY;
          ss = (if days \<noteq> 0 then dec (unat days) @ (if shortText then ''d'' else '' Day(s) '') else []);
          ss = (if hours \<noteq> 0 \<or> hoursOnly
                then ss @ dec (unat hours) @ (if shortText then ''h'' else '' Hour(s) '') else ss)
      in if \<not> hoursOnly
         then (let ss = (if minutes \<noteq> 0
                         then ss @ dec (unat minutes) @ (if shortText then ''m'' else '' Minute(s) '') else ss)
               in if secs \<noteq> 0 \<or> (days = 0 \<and> hours = 0 \<and> minutes = 0)
                  then ss @ dec (unat secs) @ (if shortText then ''s'' else '' Second(s).'') else ss)
         else ss)"

definition isdigit :: "char \<Rightarrow> bool" where
  "isdigit c \<longleftrightarrow> 48 \<le> (of_char c :: nat) \<and> (of_char c :: nat) \<le> 57"

definition digit_value :: "char \<Rightarrow> u32" where
  "digit_value c = of_nat (of_char c - 48)"

definition unit_of :: "char \<Rightarrow> u32 option" where
  "unit_of c =
     (if c = CHR ''d'' then Some DAY
      else if c = CHR ''h'' then Some HOUR
      else if c = CHR ''m'' then Some MINUTE
      else if c = CHR ''s'' then Some 1
      else None)"

fun TimeString_loop :: "string \<Rightarrow> u32 \<Rightarrow> u32 \<Rightarrow> u32" where
  "TimeString_loop [] secs buffer = secs"
| "TimeString_loop (c # cs) secs buffer =
     (if isdigit c then TimeString_loop cs secs (buffer * 10 + digit_value c)
      else (case unit_of c of
              None \<Rightarrow> 0
            | Some multiplier \<Rightarrow> TimeString_loop cs (secs + buffer * multiplier) 0))"

definition TimeStringToSecs :: "string \<Rightarrow> u32" where
  "TimeStringToSecs timestring = TimeString_loop timestring 0 0"

section \<open>Hexadecimal\<close>

definition hex_nibble :: "u8 \<Rightarrow> char" where
  "hex_nibble nibble =
     (if nibble < 0x0A then char_of (48 + unat nibble) else char_of (65 + unat nibble - 10))"

definition hexEncodeByteArray :: "u8 list \<Rightarrow> string" where
  "hexEncodeByteArray bytes =
     concat (map (\<lambda>b. map (\<lambda>j. hex_nibble (0x0F AND drop_bit ((1 - j) * 4) b)) [0, 1]) bytes)"

section \<open>Numbers in decimal\<close>

lemma digit_facts:
  assumes "n < 10"
  shows "isdigit (digit n)" "digit_value (digit n) = of_nat n"
  using assms by (simp_all add: digit_def isdigit_def digit_value_def of_char_of)

lemma TimeString_dec:
  "TimeString_loop (dec n @ rest) secs 0 = TimeString_loop rest secs (of_nat n)"
proof (induction n arbitrary: rest rule: dec.induct)
  case (1 n)
  show ?case
  proof (cases "n < 10")
    case True
    then show ?thesis by (simp add: dec.simps [of n] digit_facts)
  next
    case False
    have "of_nat n = (of_nat (n div 10) * 10 + of_nat (n mod 10) :: u32)"
      by (metis div_mult_mod_eq of_nat_add of_nat_mult of_nat_numeral)
    with False 1 show ?thesis by (simp add: dec.simps [of n] digit_facts)
  qed
qed

lemma unit_facts:
  "\<not> isdigit CHR ''d''" "\<not> isdigit CHR ''h''" "\<not> isdigit CHR ''m''" "\<not> isdigit CHR ''s''"
  "unit_of CHR ''d'' = Some DAY" "unit_of CHR ''h'' = Some HOUR" "unit_of CHR ''m'' = Some MINUTE"
  "unit_of CHR ''s'' = Some 1"
  by (simp_all add: isdigit_def unit_of_def)

lemma duration_parts:
  fixes s :: u32
  shows "s div DAY * DAY + s mod DAY div HOUR * HOUR + s mod HOUR div MINUTE * MINUTE + s mod MINUTE = s"
proof -
  have "s mod DAY div HOUR * HOUR + s mod DAY mod HOUR = s mod DAY" by (rule div_mult_mod_eq)
  moreover have "s mod HOUR div MINUTE * MINUTE + s mod HOUR mod MINUTE = s mod HOUR" by (rule div_mult_mod_eq)
  moreover have "s mod DAY mod HOUR = s mod HOUR" "s mod HOUR mod MINUTE = s mod MINUTE"
    by (simp_all add: word_unat_eq_iff unat_mod mod_mod_cancel)
  moreover have "s div DAY * DAY + s mod DAY = s" by (rule div_mult_mod_eq)
  ultimately show ?thesis by (simp add: add.assoc)
qed

section \<open>Properties\<close>

text \<open>
  A duration printed in the short form (\<open>1d2h3m4s\<close>) and read back is the same number of seconds,
  for every 32-bit value.
\<close>

theorem duration_roundtrip: "TimeStringToSecs (secsToTimeString t True False) = t"
proof -
  let ?d = "t div DAY" and ?h = "t mod DAY div HOUR" and ?m = "t mod HOUR div MINUTE" and ?s = "t mod MINUTE"
  have loop: "TimeString_loop (secsToTimeString t True False) 0 0 = ?d * DAY + ?h * HOUR + ?m * MINUTE + ?s"
    by (cases "?d = 0"; cases "?h = 0"; cases "?m = 0"; cases "?s = 0")
      (simp_all add: secsToTimeString_def TimeString_dec unit_facts Let_def split del: if_split)
  show ?thesis unfolding TimeStringToSecs_def loop by (rule duration_parts)
qed

text \<open>The text a reader sees: the characters that are not blank, bell or line break.\<close>

definition visible :: "string \<Rightarrow> string" where
  "visible s = filter (\<lambda>c. c \<notin> set invChars) s"

lemma strip_loop_visible: "visible (strip_loop s out sp) = visible out @ visible s"
  by (induction s out sp rule: strip_loop.induct) (simp_all add: visible_def invChars_def)

definition clean_line :: "string \<Rightarrow> bool" where
  "clean_line s \<longleftrightarrow> (\<forall>c \<in> set s. c \<in> set invChars \<longrightarrow> c = CHR 0x20) \<and>
     successively (\<lambda>a b. \<not> (a = CHR 0x20 \<and> b = CHR 0x20)) s"

lemma clean_line_Nil [simp]: "clean_line []"
  by (simp add: clean_line_def)

lemma clean_line_snoc:
  "clean_line (s @ [c]) \<longleftrightarrow> clean_line s \<and> (c \<in> set invChars \<longrightarrow> c = CHR 0x20) \<and>
     \<not> (s \<noteq> [] \<and> last s = CHR 0x20 \<and> c = CHR 0x20)"
  by (cases s rule: rev_cases) (auto simp: clean_line_def successively_append_iff)

lemma space_invChars: "CHR 0x20 \<in> set invChars"
  by (simp add: invChars_def)

lemma strip_loop_clean:
  "clean_line out \<Longrightarrow> out = [] \<or> last out \<noteq> CHR 0x20 \<or> sp \<Longrightarrow> clean_line (strip_loop s out sp)"
proof (induction s out sp rule: strip_loop.induct)
  case (2 c cs out space)
  show ?case
  proof (cases "c \<in> set invChars")
    case True
    with 2 show ?thesis by (cases space) (auto simp: clean_line_snoc)
  next
    case False
    then have "c \<noteq> CHR 0x20" using space_invChars by auto
    with 2 False show ?thesis by (simp add: clean_line_snoc)
  qed
qed simp

text \<open>
  Cleaning a chat line keeps every visible character in order, leaves no bell, tab or line
  break and no two adjacent blanks; a line whose cleaned form contains an interface escape becomes
  empty.
\<close>

theorem stripLineInvisibleChars_clean:
  "stripLineInvisibleChars s = [] \<and> contains ''|TInterface'' (strip_loop s [] False) \<or>
   visible (stripLineInvisibleChars s) = visible s \<and>
   \<not> contains ''|TInterface'' (stripLineInvisibleChars s) \<and>
   clean_line (stripLineInvisibleChars s)"
proof (cases "contains ''|TInterface'' (strip_loop s [] False)")
  case False
  then have eq: "stripLineInvisibleChars s = strip_loop s [] False"
    unfolding stripLineInvisibleChars_def Let_def by (rule if_not_P)
  have "visible (strip_loop s [] False) = visible s"
    by (simp only: strip_loop_visible) (simp add: visible_def)
  moreover have "clean_line (strip_loop s [] False)"
    by (rule strip_loop_clean) simp_all
  ultimately show ?thesis using False unfolding eq by blast
qed (simp only: stripLineInvisibleChars_def Let_def simp_thms if_True)

definition is_token :: "string \<Rightarrow> string \<Rightarrow> bool" where
  "is_token sep t \<longleftrightarrow> t \<noteq> [] \<and> list_all (\<lambda>c. c \<notin> set sep) t"

lemma StrSplit_loop_tokens:
  "list_all (\<lambda>c. c \<notin> set sep) s \<Longrightarrow> list_all (is_token sep) r \<Longrightarrow> list_all (is_token sep) (StrSplit_loop sep cs s r)"
  by (induction sep cs s r rule: StrSplit_loop.induct) (simp_all add: is_token_def)

lemma StrSplit_loop_concat:
  "concat (StrSplit_loop sep cs s r) = concat r @ s @ filter (\<lambda>c. c \<notin> set sep) cs"
  by (induction sep cs s r rule: StrSplit_loop.induct) simp_all

text \<open>
  Splitting yields non-empty tokens without separators whose concatenation is the input without
  its separators.
\<close>

theorem StrSplit_tokens:
  "list_all (is_token sep) (StrSplit src sep) \<and>
    concat (StrSplit src sep) = filter (\<lambda>c. c \<notin> set sep) src"
  by (simp add: StrSplit_def StrSplit_loop_tokens StrSplit_loop_concat)

text \<open>Reading a hexadecimal dump back.\<close>

definition nibble_of :: "char \<Rightarrow> u8" where
  "nibble_of c = (let n = of_char c in if n < 58 then of_nat (n - 48) else of_nat (n - 55))"

fun hex_decode :: "string \<Rightarrow> u8 list" where
  "hex_decode (a # b # cs) = (push_bit 4 (nibble_of a) OR nibble_of b) # hex_decode cs"
| "hex_decode _ = []"

lemma nibble_of_hex: "n < 16 \<Longrightarrow> nibble_of (hex_nibble n) = n"
  by (simp add: nibble_of_def hex_nibble_def word_less_nat_alt of_char_of Let_def)

lemma nibbles_join:
  "push_bit 4 (0x0F AND drop_bit 4 b) OR (0x0F AND b) = (b :: u8)"
proof -
  have "(0x0F :: u8) = mask 4" by (simp add: mask_eq_exp_minus_1)
  then show ?thesis
    unfolding \<open>(0x0F :: u8) = mask 4\<close> by (intro bit_word_eqI) (auto simp: bit_simps)
qed

text \<open>
  A hexadecimal dump has two characters per byte and determines the bytes.
\<close>

theorem hexEncode_roundtrip:
  "length (hexEncodeByteArray bytes) = 2 * length bytes \<and> hex_decode (hexEncodeByteArray bytes) = bytes"
proof (induction bytes)
  case (Cons b bs)
  have "0x0F AND x < (16 :: u8)" for x
    by (rule le_less_trans [OF word_and_le2]) simp
  with Cons show ?case
    by (simp add: hexEncodeByteArray_def nibble_of_hex nibbles_join [simplified])
qed (simp add: hexEncodeByteArray_def)

end
