(* ===== verification/Names.thy ===== *)
theory Names
  imports TextUtil
begin

text \<open>
  Names of characters, pets and charters: the character classes and case mappings of shared/Util.h
  and the checks of game/ObjectMgr.cpp. Wide characters are natural numbers. The conversion between
  UTF-8 and wide strings is the library utf8cpp: \<open>u8dec\<close> gives the code points of a byte string, or
  nothing where the library throws, \<open>utf16\<close> the units it writes for them, and \<open>u8enc\<close> the way back.
\<close>

section \<open>Character classes\<close>

type_synonym wchar = nat

definition isBasicLatinCharacter :: "wchar \<Rightarrow> bool" where
  "isBasicLatinCharacter w \<longleftrightarrow> (0x61 \<le> w \<and> w \<le> 0x7A) \<or> (0x41 \<le> w \<and> w \<le> 0x5A)"

definition isExtendedLatinCharacter :: "wchar \<Rightarrow> bool" where
  "isExtendedLatinCharacter w \<longleftrightarrow>
     isBasicLatinCharacter w \<or> (0x00C0 \<le> w \<and> w \<le> 0x00D6) \<or> (0x00D8 \<le> w \<and> w \<le> 0x00DF) \<or> w = 0x00DF \<or>
     (0x00E0 \<le> w \<and> w \<le> 0x00F6) \<or> (0x00F8 \<le> w \<and> w \<le> 0x00FE) \<or> (0x0100 \<le> w \<and> w \<le> 0x012F) \<or> w = 0x1E9E"

definition isCyrillicCharacter :: "wchar \<Rightarrow> bool" where
  "isCyrillicCharacter w \<longleftrightarrow> (0x0410 \<le> w \<and> w \<le> 0x044F) \<or> w = 0x0401 \<or> w = 0x0451"

definition isEastAsianCharacter :: "wchar \<Rightarrow> bool" where
  "isEastAsianCharacter w \<longleftrightarrow>
     (0x1100 \<le> w \<and> w \<le> 0x11F9) \<or> (0x3041 \<le> w \<and> w \<le> 0x30FF) \<or> (0x3131 \<le> w \<and> w \<le> 0x318E) \<or>
     (0x31F0 \<le> w \<and> w \<le> 0x31FF) \<or> (0x3400 \<le> w \<and> w \<le> 0x4DB5) \<or> (0x4E00 \<le> w \<and> w \<le> 0x9FC3) \<or>
     (0xAC00 \<le> w \<and> w \<le> 0xD7A3) \<or> (0xFF01 \<le> w \<and> w \<le> 0xFFEE)"

definition isNumeric :: "wchar \<Rightarrow> bool" where
  "isNumeric w \<longleftrightarrow> 0x30 \<le> w \<and> w \<le> 0x39"

definition isNumericOrSpace :: "wchar \<Rightarrow> bool" where
  "isNumericOrSpace w \<longleftrightarrow> isNumeric w \<or> w = 0x20"

definition isBasicLatinString :: "wchar list \<Rightarrow> bool \<Rightarrow> bool" where
  "isBasicLatinString s numericOrSpace \<longleftrightarrow>
     list_all (\<lambda>c. isBasicLatinCharacter c \<or> (numericOrSpace \<and> isNumericOrSpace c)) s"

definition isExtendedLatinString :: "wchar list \<Rightarrow> bool \<Rightarrow> bool" where
  "isExtendedLatinString s numericOrSpace \<longleftrightarrow>
     list_all (\<lambda>c. isExtendedLatinCharacter c \<or> (numericOrSpace \<and> isNumericOrSpace c)) s"

definition isCyrillicString :: "wchar list \<Rightarrow> bool \<Rightarrow> bool" where
  "isCyrillicString s numericOrSpace \<longleftrightarrow>
     list_all (\<lambda>c. isCyrillicCharacter c \<or> (numericOrSpace \<and> isNumericOrSpace c)) s"

definition isEastAsianString :: "wchar list \<Rightarrow> bool \<Rightarrow> bool" where
  "isEastAsianString s numericOrSpace \<longleftrightarrow>
     list_all (\<lambda>c. isEastAsianCharacter c \<or> (numericOrSpace \<and> isNumericOrSpace c)) s"

section \<open>Case\<close>

definition wcharToUpper :: "wchar \<Rightarrow> wchar" where
  "wcharToUpper w =
     (if 0x61 \<le> w \<and> w \<le> 0x7A then w - 0x20
      else if w = 0x00DF then 0x1E9E
      else if 0x00E0 \<le> w \<and> w \<le> 0x00F6 then w - 0x20
      else if 0x00F8 \<le> w \<and> w \<le> 0x00FE then w - 0x20
      else if 0x0101 \<le> w \<and> w \<le> 0x012F \<and> w mod 2 = 1 then w - 1
      else if 0x0430 \<le> w \<and> w \<le> 0x044F then w - 0x20
      else if w = 0x0451 then 0x0401
      else w)"

definition wcharToLower :: "wchar \<Rightarrow> wchar" where
  "wcharToLower w =
     (if 0x41 \<le> w \<and> w \<le> 0x5A then w + 0x20
      else if 0x00C0 \<le> w \<and> w \<le> 0x00D6 then w + 0x20
      else if 0x00D8 \<le> w \<and> w \<le> 0x00DE then w + 0x20
      else if 0x0100 \<le> w \<and> w \<le> 0x012E \<and> w mod 2 = 0 then w + 1
      else if w = 0x1E9E then 0x00DF
      else if w = 0x0401 then 0x0451
      else if 0x0410 \<le> w \<and> w \<le> 0x042F then w + 0x20
      else w)"

section \<open>Normal form and validity\<close>

abbreviation MAX_PLAYER_NAME :: nat where "MAX_PLAYER_NAME \<equiv> 12"
abbreviation MAX_INTERNAL_PLAYER_NAME :: nat where "MAX_INTERNAL_PLAYER_NAME \<equiv> 15"

type_synonym utf8_decoder = "string \<Rightarrow> wchar list option"
type_synonym utf8_encoder = "wchar list \<Rightarrow> string option"

text \<open>
  The conversions measure the string in code points and then let the library write its UTF-16 units:
  a code point beyond \<open>0xFFFF\<close> is written as two. The result is the first \<open>length cps\<close> units.
\<close>

definition utf16 :: "nat list \<Rightarrow> wchar list" where
  "utf16 cps = concat (map (\<lambda>cp.
     if cp > 0xFFFF then [cp div 1024 + 0xD7C0, cp mod 1024 + 0xDC00] else [cp]) cps)"

definition Utf8toWStr :: "utf8_decoder \<Rightarrow> string \<Rightarrow> wchar list option" where
  "Utf8toWStr u8dec s = map_option (\<lambda>cps. take (length cps) (utf16 cps)) (u8dec s)"

text \<open>The overload with a buffer: more code points than it holds are refused.\<close>

definition Utf8toWStr_buf :: "utf8_decoder \<Rightarrow> string \<Rightarrow> nat \<Rightarrow> wchar list option" where
  "Utf8toWStr_buf u8dec s wsize =
     (case u8dec s of
        None \<Rightarrow> None
      | Some cps \<Rightarrow> if length cps > wsize then None else Some (take (length cps) (utf16 cps)))"

fun capitalise :: "wchar list \<Rightarrow> wchar list" where
  "capitalise [] = []"
| "capitalise (c # cs) = wcharToUpper c # map wcharToLower cs"

definition normalizePlayerName :: "utf8_decoder \<Rightarrow> utf8_encoder \<Rightarrow> string \<Rightarrow> string option" where
  "normalizePlayerName u8dec u8enc name =
     (if name = [] then None
      else (case Utf8toWStr_buf u8dec name MAX_INTERNAL_PLAYER_NAME of
              None \<Rightarrow> None
            | Some w \<Rightarrow> u8enc (capitalise w)))"

section \<open>Validity\<close>

abbreviation LT_BASIC_LATIN :: u32 where "LT_BASIC_LATIN \<equiv> 0x0000"
abbreviation LT_EXTENDEN_LATIN :: u32 where "LT_EXTENDEN_LATIN \<equiv> 0x0001"
abbreviation LT_CYRILLIC :: u32 where "LT_CYRILLIC \<equiv> 0x0002"
abbreviation LT_EAST_ASIA :: u32 where "LT_EAST_ASIA \<equiv> 0x0004"
abbreviation LT_ANY :: u32 where "LT_ANY \<equiv> 0xFFFF"

text \<open>The argument is the value of \<open>CONFIG_REALM_ZONE\<close>, an \<open>enum RealmZone\<close>.\<close>

definition GetRealmLanguageType :: "nat \<Rightarrow> bool \<Rightarrow> u32" where
  "GetRealmLanguageType zone create =
     (if zone \<in> set [0, 1, 26, 28] then LT_ANY
      else if zone \<in> set [2, 3, 4, 8, 9, 10, 11] then LT_EXTENDEN_LATIN
      else if zone \<in> set [6, 14, 16] then LT_EAST_ASIA
      else if zone = 12 then LT_CYRILLIC
      else if create then LT_BASIC_LATIN else LT_ANY)"

definition isValidString :: "nat \<Rightarrow> wchar list \<Rightarrow> u32 \<Rightarrow> bool \<Rightarrow> bool \<Rightarrow> bool" where
  "isValidString zone w strictMask numericOrSpace create =
     (if strictMask = 0
      then isExtendedLatinString w numericOrSpace \<or> isCyrillicString w numericOrSpace \<or>
           isEastAsianString w numericOrSpace
      else
        (strictMask AND 0x2 \<noteq> 0 \<and>
          (let lt = GetRealmLanguageType zone create
           in (lt AND LT_EXTENDEN_LATIN \<noteq> 0 \<and> isExtendedLatinString w numericOrSpace) \<or>
              (lt AND LT_CYRILLIC \<noteq> 0 \<and> isCyrillicString w numericOrSpace) \<or>
              (lt AND LT_EAST_ASIA \<noteq> 0 \<and> isEastAsianString w numericOrSpace))) \<or>
        (strictMask AND 0x1 \<noteq> 0 \<and> isBasicLatinString w numericOrSpace))"

definition IsValidName :: "utf8_decoder \<Rightarrow> nat \<Rightarrow> u32 \<Rightarrow> string \<Rightarrow> bool \<Rightarrow> bool" where
  "IsValidName u8dec zone strictMask name create =
     (case Utf8toWStr u8dec name of
        None \<Rightarrow> False
      | Some w \<Rightarrow>
          if length w < 1 \<or> length w > MAX_PLAYER_NAME then False
          else isValidString zone w strictMask False create)"

definition IsValidCharterName :: "utf8_decoder \<Rightarrow> nat \<Rightarrow> u32 \<Rightarrow> string \<Rightarrow> bool" where
  "IsValidCharterName u8dec zone strictMask name =
     (case Utf8toWStr u8dec name of
        None \<Rightarrow> False
      | Some w \<Rightarrow> if length w < 1 then False else isValidString zone w strictMask True False)"

definition IsValidPetName :: "utf8_decoder \<Rightarrow> nat \<Rightarrow> u32 \<Rightarrow> string \<Rightarrow> bool" where
  "IsValidPetName u8dec zone strictMask name =
     (case Utf8toWStr u8dec name of
        None \<Rightarrow> False
      | Some w \<Rightarrow> if length w < 1 then False else isValidString zone w strictMask False False)"

section \<open>Declined names\<close>

text \<open>The endings of each grammatical case, \<open>dropEnds\<close>.\<close>

definition dropEnds :: "wchar list list list" where
  "dropEnds =
    [[[0x0430], [0x043E], [0x044F], [0x0435], [0x044C], [0x0439]],
     [[0x0430], [0x044F], [0x044B], [0x0438]],
     [[0x0435], [0x0443], [0x044E], [0x0438]],
     [[0x0443], [0x044E], [0x043E], [0x0435], [0x044C], [0x044F], [0x0430]],
     [[0x043E, 0x0439], [0x0451, 0x0439], [0x0435, 0x0439], [0x043E, 0x043C], [0x0451, 0x043C],
      [0x0435, 0x043C], [0x044E]],
     [[0x0435], [0x0438]]]"

text \<open>
  \<open>wname.substr(wname.size()-len, len)\<close> throws \<open>std::out_of_range\<close> when the ending is longer than the
  name, as the unsigned difference wraps round: the result is then nothing.
\<close>

fun drop_end :: "wchar list list \<Rightarrow> wchar list \<Rightarrow> wchar list option" where
  "drop_end [] w = Some w"
| "drop_end (e # es) w =
     (let len = length e in
      if len > length w then None
      else if drop (length w - len) w = e then Some (take (length w - len) w)
      else drop_end es w)"

definition GetMainPartOfName :: "wchar list \<Rightarrow> nat \<Rightarrow> wchar list option" where
  "GetMainPartOfName w declension =
     (if length w < 1 \<or> \<not> isCyrillicCharacter (hd w) \<or> declension > 5 then Some w
      else drop_end (dropEnds ! declension) w)"

text \<open>
  \<open>CheckDeclinedNames\<close> over the five cases: nothing when \<open>GetMainPartOfName\<close> throws.
\<close>

fun CheckDeclined_loop :: "utf8_decoder \<Rightarrow> wchar list \<Rightarrow> string list \<Rightarrow> nat \<Rightarrow> bool option" where
  "CheckDeclined_loop u8dec mainpart [] i = Some True"
| "CheckDeclined_loop u8dec mainpart (n # ns) i =
     (case Utf8toWStr u8dec n of
        None \<Rightarrow> Some False
      | Some w \<Rightarrow>
          (case GetMainPartOfName w (i + 1) of
             None \<Rightarrow> None
           | Some m \<Rightarrow> if mainpart \<noteq> m then Some False else CheckDeclined_loop u8dec mainpart ns (i + 1)))"

definition CheckDeclinedNames :: "utf8_decoder \<Rightarrow> wchar list \<Rightarrow> string list \<Rightarrow> bool option" where
  "CheckDeclinedNames u8dec mainpart names = CheckDeclined_loop u8dec mainpart (take 5 names) 0"

section \<open>Case mappings are inverse to each other\<close>

lemma lower_upper: "wcharToLower (wcharToUpper c) = wcharToLower c"
proof -
  consider "0x61 \<le> c \<and> c \<le> 0x7A" | "c = 0x00DF" | "0x00E0 \<le> c \<and> c \<le> 0x00F6" | "0x00F8 \<le> c \<and> c \<le> 0x00FE"
    | "0x0101 \<le> c \<and> c \<le> 0x012F \<and> c mod 2 = 1" | "0x0430 \<le> c \<and> c \<le> 0x044F" | "c = 0x0451"
    | "wcharToUpper c = c"
    by (cases "wcharToUpper c = c") (simp_all add: wcharToUpper_def split: if_split_asm)
  then show ?thesis
  proof cases
    case 5
    then obtain k where k: "c = 2 * k + 1" by (metis mult_div_mod_eq)
    with 5 show ?thesis by (simp add: wcharToUpper_def wcharToLower_def)
  qed (auto simp: wcharToUpper_def wcharToLower_def)
qed

lemma upper_lower: "wcharToUpper (wcharToLower c) = wcharToUpper c"
proof -
  consider "0x41 \<le> c \<and> c \<le> 0x5A" | "0x00C0 \<le> c \<and> c \<le> 0x00D6" | "0x00D8 \<le> c \<and> c \<le> 0x00DE"
    | "0x0100 \<le> c \<and> c \<le> 0x012E \<and> c mod 2 = 0" | "c = 0x1E9E" | "c = 0x0401" | "0x0410 \<le> c \<and> c \<le> 0x042F"
    | "wcharToLower c = c"
    by (cases "wcharToLower c = c") (simp_all add: wcharToLower_def split: if_split_asm)
  then show ?thesis
  proof cases
    case 4
    then obtain k where k: "c = 2 * k" by (metis mod_0_imp_dvd dvd_def)
    with 4 show ?thesis by (simp add: wcharToUpper_def wcharToLower_def)
  qed (auto simp: wcharToUpper_def wcharToLower_def)
qed

lemma case_idem:
  "wcharToUpper (wcharToUpper c) = wcharToUpper c" "wcharToLower (wcharToLower c) = wcharToLower c"
  by (metis lower_upper upper_lower)+

lemma capitalise_idem: "capitalise (capitalise w) = capitalise w"
  by (cases w) (simp_all add: case_idem)

lemma capitalise_length [simp]: "length (capitalise w) = length w"
  by (cases w) simp_all

text \<open>Two names that differ in case only have the same normal form.\<close>

lemma capitalise_cong: "map wcharToLower v = map wcharToLower w \<Longrightarrow> capitalise v = capitalise w"
  by (cases v; cases w) (auto, metis upper_lower)

lemma capitalise_lower: "map wcharToLower (capitalise w) = map wcharToLower w"
  by (cases w) (simp_all add: lower_upper case_idem)

section \<open>UTF-16\<close>

lemma utf16_simps [simp]:
  "utf16 [] = []"
  "utf16 (cp # cps) = (if cp > 0xFFFF then [cp div 1024 + 0xD7C0, cp mod 1024 + 0xDC00] else [cp]) @ utf16 cps"
  by (simp_all add: utf16_def)

lemma utf16_bmp: "\<forall>cp \<in> set cps. cp \<le> 0xFFFF \<Longrightarrow> utf16 cps = cps"
  by (induction cps) auto

section \<open>Properties\<close>

lemma take_bmp: "\<forall>cp \<in> set cps. cp \<le> 0xFFFF \<Longrightarrow> take (length cps) (utf16 cps) = cps"
  by (simp add: utf16_bmp)

text \<open>
  Names of the basic plane that differ in case only are normalised to the same name, and a
  normalised name is its own normal form, given that the library decodes what it encodes.
\<close>

theorem normalizePlayerName_normal_form:
  assumes "u8dec n = Some a" "u8dec n' = Some b" "n \<noteq> []" "n' \<noteq> []"
    and "map wcharToLower a = map wcharToLower b" "length a \<le> MAX_INTERNAL_PLAYER_NAME"
    and "\<forall>c \<in> set a \<union> set b \<union> set (capitalise a). c \<le> 0xFFFF"
    and "normalizePlayerName u8dec u8enc n = Some r" "r \<noteq> []" "u8dec r = Some (capitalise a)"
  shows "normalizePlayerName u8dec u8enc n' = Some r \<and> normalizePlayerName u8dec u8enc r = Some r"
proof -
  have "length b = length a" using assms(5) by (metis length_map)
  moreover have "capitalise b = capitalise a" using assms(5) by (metis capitalise_cong)
  ultimately show ?thesis
    using assms(1-4,6-10) take_bmp [of a] take_bmp [of b] take_bmp [of "capitalise a"]
    by (simp add: normalizePlayerName_def Utf8toWStr_buf_def capitalise_idem ball_Un split: if_splits)
qed

text \<open>A decoder and an encoder for ASCII.\<close>

definition ascii_dec :: utf8_decoder where
  "ascii_dec s = Some (map of_char s)"

definition ascii_enc :: utf8_encoder where
  "ascii_enc w = Some (map char_of w)"

theorem normalizePlayerName_normal_form_witness:
  "normalizePlayerName ascii_dec ascii_enc ''ANNA'' = Some ''Anna'' \<and>
    normalizePlayerName ascii_dec ascii_enc ''Anna'' = Some ''Anna''"
proof -
  have a: "ascii_dec ''aNNa'' = Some [97, 78, 78, 97]" "ascii_dec ''ANNA'' = Some [65, 78, 78, 65]"
    "ascii_dec ''Anna'' = Some [65, 110, 110, 97]"
    by (simp_all add: ascii_dec_def)
  have n: "normalizePlayerName ascii_dec ascii_enc ''aNNa'' = Some ''Anna''"
    by (simp add: normalizePlayerName_def Utf8toWStr_buf_def a wcharToUpper_def wcharToLower_def
        ascii_enc_def char_of_def bit_iff_odd)
  show ?thesis
    using normalizePlayerName_normal_form [OF a(1) a(2), of ascii_enc "''Anna''"] n a(3)
    by (simp add: wcharToUpper_def wcharToLower_def)
qed

lemma isValidString_script:
  assumes "isValidString zone w strict False create"
  shows "list_all isExtendedLatinCharacter w \<or> list_all isCyrillicCharacter w \<or> list_all isEastAsianCharacter w"
proof -
  have "list_all isBasicLatinCharacter w \<Longrightarrow> list_all isExtendedLatinCharacter w"
    by (erule list.pred_mono_strong) (simp add: isExtendedLatinCharacter_def)
  with assms show ?thesis
    unfolding isValidString_def isExtendedLatinString_def isCyrillicString_def isEastAsianString_def
      isBasicLatinString_def Let_def by (simp split: if_splits) blast
qed

lemma IsValidName_tournament: "\<not> IsValidName u8dec 5 2 n True"
  by (auto simp: IsValidName_def isValidString_def GetRealmLanguageType_def Let_def split: option.splits)

text \<open>
  A character name that passes the check has 1 to 12 characters, all of one script, without
  digits and spaces, whatever the realm and the strictness; under strictness 2 alone a realm whose
  zone has no script of its own accepts no new name at all, not even a basic Latin one.
\<close>

theorem IsValidName_one_script:
  assumes "IsValidName u8dec zone strict n create"
  shows "(\<exists>w. Utf8toWStr u8dec n = Some w \<and> 1 \<le> length w \<and> length w \<le> 12 \<and>
      (list_all isExtendedLatinCharacter w \<or> list_all isCyrillicCharacter w \<or> list_all isEastAsianCharacter w)) \<and>
    \<not> IsValidName u8dec 5 2 m True"
proof -
  from assms obtain w where "Utf8toWStr u8dec n = Some w" "1 \<le> length w" "length w \<le> 12"
    "isValidString zone w strict False create"
    by (auto simp: IsValidName_def not_le Suc_le_eq split: option.splits if_splits)
  then show ?thesis using isValidString_script IsValidName_tournament by blast
qed

theorem IsValidName_one_script_witness:
  "(\<exists>w. Utf8toWStr (\<lambda>s. Some (map of_char s)) ''Anna'' = Some w \<and> 1 \<le> length w \<and> length w \<le> 12 \<and>
      (list_all isExtendedLatinCharacter w \<or> list_all isCyrillicCharacter w \<or> list_all isEastAsianCharacter w)) \<and>
    \<not> IsValidName (\<lambda>s. Some (map of_char s)) 5 2 ''Anna'' True"
  by (rule IsValidName_one_script [where zone = 1 and strict = 0 and create = True])
    (simp add: IsValidName_def Utf8toWStr_def isValidString_def isExtendedLatinString_def
      isExtendedLatinCharacter_def isBasicLatinCharacter_def)

lemma drop_end_prefix:
  "drop_end es w = Some m \<Longrightarrow> \<forall>e \<in> set es. length e \<le> 2 \<Longrightarrow> m = take (length m) w \<and> length w \<le> length m + 2"
  by (induction es w rule: drop_end.induct) (auto simp: Let_def split: if_splits)

lemma drop_end_throws: "drop_end es w = None \<Longrightarrow> \<exists>e \<in> set es. length e > length w"
  by (induction es w rule: drop_end.induct) (auto simp: Let_def split: if_splits)

lemma dropEnds_lengths:
  assumes "d \<le> 5"
  shows "\<forall>e \<in> set (dropEnds ! d). length e \<le> 2" "d \<noteq> 4 \<Longrightarrow> \<forall>e \<in> set (dropEnds ! d). length e = 1"
proof -
  have "d = 0 \<or> d = 1 \<or> d = 2 \<or> d = 3 \<or> d = 4 \<or> d = 5" using assms by auto
  then show "\<forall>e \<in> set (dropEnds ! d). length e \<le> 2" "d \<noteq> 4 \<Longrightarrow> \<forall>e \<in> set (dropEnds ! d). length e = 1"
    by (elim disjE; simp add: dropEnds_def)+
qed

text \<open>
  The main part of a declined name is the name with an ending of at most two letters cut off;
  the computation throws exactly for a single Cyrillic letter in the case whose endings have two
  letters (row 4 of \<open>dropEnds\<close>).
\<close>

theorem GetMainPartOfName_total_but_one:
  "(GetMainPartOfName w d = None \<longleftrightarrow> d = 4 \<and> length w = 1 \<and> isCyrillicCharacter (hd w)) \<and>
    list_all (\<lambda>m. m = take (length m) w \<and> length w \<le> length m + 2)
      (case GetMainPartOfName w d of None \<Rightarrow> [] | Some m \<Rightarrow> [m])"
proof -
  have throws: "GetMainPartOfName w d = None \<Longrightarrow> d = 4 \<and> length w = 1 \<and> isCyrillicCharacter (hd w)"
  proof -
    assume none: "GetMainPartOfName w d = None"
    then have d: "d \<le> 5" "w \<noteq> []" "isCyrillicCharacter (hd w)" "drop_end (dropEnds ! d) w = None"
      by (auto simp: GetMainPartOfName_def split: if_splits)
    then obtain e where e: "e \<in> set (dropEnds ! d)" "length e > length w" using drop_end_throws by blast
    have "length e \<le> 2" using dropEnds_lengths(1) [OF d(1)] e(1) by blast
    moreover have "1 \<le> length w" using d(2) by (simp add: Suc_le_eq)
    moreover have "d = 4" using e(1) dropEnds_lengths(2) [OF d(1)] calculation e(2) by force
    ultimately have "length w = 1" "d = 4" using e(2) by simp_all
    then show ?thesis using d(3) by simp
  qed
  have "length w = 1 \<Longrightarrow> isCyrillicCharacter (hd w) \<Longrightarrow> GetMainPartOfName w 4 = None"
    by (simp add: GetMainPartOfName_def dropEnds_def Let_def)
  moreover have "m = take (length m) w \<and> length w \<le> length m + 2" if "GetMainPartOfName w d = Some m" for m
  proof (cases "length w < 1 \<or> \<not> isCyrillicCharacter (hd w) \<or> d > 5")
    case False
    with that show ?thesis
      using drop_end_prefix [OF _ dropEnds_lengths(1)] by (simp add: GetMainPartOfName_def)
  qed (use that in \<open>simp add: GetMainPartOfName_def\<close>)
  ultimately show ?thesis
    using throws by (cases "GetMainPartOfName w d") auto
qed

end
