(* ===== verification/ChannelMgr.thy ===== *)
theory ChannelMgr
  imports ChannelProps Names
begin

text \<open>
  The channel registries of the two factions (game/ChannelMgr.h), the request handlers of
  game/ChannelHandler.cpp, and the channel lists a player keeps (game/Player.cpp).
\<close>

section \<open>State\<close>

text \<open>
  Channels live at addresses; a registry maps names to addresses. \<open>new Channel\<close> takes the next free
  address, and \<open>delete\<close> removes the address from the heap: a later use of it is a use after free.
\<close>

record mgr_state =
  s_heap :: "nat \<Rightarrow> channel option"
  s_next :: nat
  s_alliance :: "(string, nat) omap"
  s_horde :: "(string, nat) omap"
  s_joined :: "u64 \<Rightarrow> nat list"
  s_out :: "effect list"

datatype mgr = AllianceChannelMgr | HordeChannelMgr

definition channels :: "mgr \<Rightarrow> mgr_state \<Rightarrow> (string, nat) omap" where
  "channels m st = (case m of AllianceChannelMgr \<Rightarrow> s_alliance st | HordeChannelMgr \<Rightarrow> s_horde st)"

definition set_channels :: "mgr \<Rightarrow> (string, nat) omap \<Rightarrow> mgr_state \<Rightarrow> mgr_state" where
  "set_channels m cs st =
     (case m of AllianceChannelMgr \<Rightarrow> st\<lparr>s_alliance := cs\<rparr> | HordeChannelMgr \<Rightarrow> st\<lparr>s_horde := cs\<rparr>)"

definition channelMgr :: "chat_world \<Rightarrow> u32 \<Rightarrow> mgr option" where
  "channelMgr w team =
     (if getConfig w CONFIG_ALLOW_TWO_SIDE_INTERACTION_CHANNEL then Some AllianceChannelMgr
      else if team = ALLIANCE then Some AllianceChannelMgr
      else if team = HORDE then Some HordeChannelMgr
      else None)"

text \<open>A member function of \<open>Channel\<close> run on the channel at an address.\<close>

definition on_chan :: "nat \<Rightarrow> (cst \<Rightarrow> cst) \<Rightarrow> mgr_state \<Rightarrow> mgr_state" where
  "on_chan this f st =
     (case s_heap st this of
        None \<Rightarrow> st
      | Some c \<Rightarrow>
          (let r = f \<lparr>c_chan = c, c_joined = s_joined st, c_out = s_out st\<rparr>
           in st\<lparr>s_heap := (s_heap st)(this \<mapsto> c_chan r), s_joined := c_joined r, s_out := c_out r\<rparr>))"

section \<open>The registry\<close>

definition GetJoinChannel :: "chat_world \<Rightarrow> mgr \<Rightarrow> string \<Rightarrow> u32 \<Rightarrow> mgr_state \<Rightarrow> nat \<times> mgr_state" where
  "GetJoinChannel w m name channel_id st =
     (let st = (if \<not> om_mem name (channels m st)
                then (let nchan = s_next st;
                          st = st\<lparr>s_heap := (s_heap st)(nchan \<mapsto> Channel_new (w_chatChannels w) name channel_id),
                                  s_next := nchan + 1\<rparr>
                      in set_channels m (om_put name nchan (channels m st)) st)
                else st)
      in (om_at 0 (channels m st) name, st))"

definition MakeNotOnPacket :: "string \<Rightarrow> packet" where
  "MakeNotOnPacket name = mk_packet SMSG_CHANNEL_NOTIFY [U8 0x05, Str name]"

definition GetChannel :: "mgr \<Rightarrow> string \<Rightarrow> player \<Rightarrow> mgr_state \<Rightarrow> nat option \<times> mgr_state" where
  "GetChannel m name p st =
     (case map_of (channels m st) name of
        None \<Rightarrow> (None, st\<lparr>s_out := s_out st @ [Send (p_guid p) (MakeNotOnPacket name)]\<rparr>)
      | Some a \<Rightarrow> (Some a, st))"

definition Mgr_LeftChannel :: "mgr \<Rightarrow> string \<Rightarrow> mgr_state \<Rightarrow> mgr_state" where
  "Mgr_LeftChannel m name st =
     (case map_of (channels m st) name of
        None \<Rightarrow> st
      | Some a \<Rightarrow>
          (case s_heap st a of
             None \<Rightarrow> st
           | Some c \<Rightarrow>
               if GetNumPlayers c = 0 \<and> \<not> IsConstant c
               then (set_channels m (om_erase name (channels m st)) st)\<lparr>s_heap := (s_heap st)(a := None)\<rparr>
               else st))"

section \<open>Handlers\<close>

text \<open>
  The shape most handlers share: find the registry of the player's faction, find the channel there
  (telling the player when there is none), and run the operation. The arguments are the values read
  from the packet; \<open>normal\<close> is \<open>normalizePlayerName\<close> with the library's conversions.
\<close>

definition with_channel ::
  "chat_world \<Rightarrow> player \<Rightarrow> string \<Rightarrow> (nat \<Rightarrow> cst \<Rightarrow> cst) \<Rightarrow> mgr_state \<Rightarrow> mgr_state" where
  "with_channel w plr channelname f st =
     (case channelMgr w (p_team plr) of
        None \<Rightarrow> st
      | Some m \<Rightarrow>
          (case GetChannel m channelname plr st of
             (None, st) \<Rightarrow> st
           | (Some a, st) \<Rightarrow> on_chan a (f a) st))"

definition with_name :: "(string \<Rightarrow> string option) \<Rightarrow> string \<Rightarrow> (string \<Rightarrow> mgr_state \<Rightarrow> mgr_state) \<Rightarrow> mgr_state \<Rightarrow> mgr_state" where
  "with_name normal otp f st = (case normal otp of None \<Rightarrow> st | Some n \<Rightarrow> f n st)"

definition HandleChannelJoin ::
  "chat_world \<Rightarrow> player \<Rightarrow> u32 \<Rightarrow> string \<Rightarrow> string \<Rightarrow> mgr_state \<Rightarrow> mgr_state" where
  "HandleChannelJoin w plr channel_id channelname pass st =
     (if channelname = [] then st
      else (case channelMgr w (p_team plr) of
              None \<Rightarrow> st
            | Some m \<Rightarrow>
                (let (a, st) = GetJoinChannel w m channelname channel_id st
                 in on_chan a (Join w a (p_guid plr) pass) st)))"

definition HandleChannelLeave :: "chat_world \<Rightarrow> player \<Rightarrow> string \<Rightarrow> mgr_state \<Rightarrow> mgr_state" where
  "HandleChannelLeave w plr channelname st =
     (if channelname = [] then st
      else (case channelMgr w (p_team plr) of
              None \<Rightarrow> st
            | Some m \<Rightarrow>
                (let st = (case GetChannel m channelname plr st of
                             (None, st) \<Rightarrow> st
                           | (Some a, st) \<Rightarrow> on_chan a (Leave w a (p_guid plr) True) st)
                 in Mgr_LeftChannel m channelname st)))"

definition HandleChannelList :: "chat_world \<Rightarrow> player \<Rightarrow> string \<Rightarrow> mgr_state \<Rightarrow> mgr_state" where
  "HandleChannelList w plr name = with_channel w plr name (\<lambda>a. ListPlayers w plr)"

definition HandleChannelPassword :: "chat_world \<Rightarrow> player \<Rightarrow> string \<Rightarrow> string \<Rightarrow> mgr_state \<Rightarrow> mgr_state" where
  "HandleChannelPassword w plr name pass = with_channel w plr name (\<lambda>a. Password w (p_guid plr) pass)"

definition HandleChannelSetOwner ::
  "chat_world \<Rightarrow> (string \<Rightarrow> string option) \<Rightarrow> player \<Rightarrow> string \<Rightarrow> string \<Rightarrow> mgr_state \<Rightarrow> mgr_state" where
  "HandleChannelSetOwner w normal plr name newp =
     with_name normal newp (\<lambda>n. with_channel w plr name (\<lambda>a. SetOwnerByName w (p_guid plr) n))"

definition HandleChannelOwner :: "chat_world \<Rightarrow> player \<Rightarrow> string \<Rightarrow> mgr_state \<Rightarrow> mgr_state" where
  "HandleChannelOwner w plr name = with_channel w plr name (\<lambda>a. SendWhoOwner w (p_guid plr))"

definition HandleChannelModerator ::
  "chat_world \<Rightarrow> (string \<Rightarrow> string option) \<Rightarrow> player \<Rightarrow> string \<Rightarrow> string \<Rightarrow> mgr_state \<Rightarrow> mgr_state" where
  "HandleChannelModerator w normal plr name otp =
     with_name normal otp (\<lambda>n. with_channel w plr name (\<lambda>a. SetMode w (p_guid plr) n True True))"

definition HandleChannelUnmoderator ::
  "chat_world \<Rightarrow> (string \<Rightarrow> string option) \<Rightarrow> player \<Rightarrow> string \<Rightarrow> string \<Rightarrow> mgr_state \<Rightarrow> mgr_state" where
  "HandleChannelUnmoderator w normal plr name otp =
     with_name normal otp (\<lambda>n. with_channel w plr name (\<lambda>a. SetMode w (p_guid plr) n True False))"

definition HandleChannelMute ::
  "chat_world \<Rightarrow> (string \<Rightarrow> string option) \<Rightarrow> player \<Rightarrow> string \<Rightarrow> string \<Rightarrow> mgr_state \<Rightarrow> mgr_state" where
  "HandleChannelMute w normal plr name otp =
     with_name normal otp (\<lambda>n. with_channel w plr name (\<lambda>a. SetMode w (p_guid plr) n False True))"

definition HandleChannelUnmute ::
  "chat_world \<Rightarrow> (string \<Rightarrow> string option) \<Rightarrow> player \<Rightarrow> string \<Rightarrow> string \<Rightarrow> mgr_state \<Rightarrow> mgr_state" where
  "HandleChannelUnmute w normal plr name otp =
     with_name normal otp (\<lambda>n. with_channel w plr name (\<lambda>a. SetMode w (p_guid plr) n False False))"

definition HandleChannelInvite ::
  "chat_world \<Rightarrow> (string \<Rightarrow> string option) \<Rightarrow> player \<Rightarrow> string \<Rightarrow> string \<Rightarrow> mgr_state \<Rightarrow> mgr_state" where
  "HandleChannelInvite w normal plr name otp =
     with_name normal otp (\<lambda>n. with_channel w plr name (\<lambda>a. Invite w (p_guid plr) n))"

definition HandleChannelKick ::
  "chat_world \<Rightarrow> (string \<Rightarrow> string option) \<Rightarrow> player \<Rightarrow> string \<Rightarrow> string \<Rightarrow> mgr_state \<Rightarrow> mgr_state" where
  "HandleChannelKick w normal plr name otp =
     with_name normal otp (\<lambda>n. with_channel w plr name (\<lambda>a. KickOrBan w a (p_guid plr) n False))"

definition HandleChannelBan ::
  "chat_world \<Rightarrow> (string \<Rightarrow> string option) \<Rightarrow> player \<Rightarrow> string \<Rightarrow> string \<Rightarrow> mgr_state \<Rightarrow> mgr_state" where
  "HandleChannelBan w normal plr name otp =
     with_name normal otp (\<lambda>n. with_channel w plr name (\<lambda>a. KickOrBan w a (p_guid plr) n True))"

definition HandleChannelUnban ::
  "chat_world \<Rightarrow> (string \<Rightarrow> string option) \<Rightarrow> player \<Rightarrow> string \<Rightarrow> string \<Rightarrow> mgr_state \<Rightarrow> mgr_state" where
  "HandleChannelUnban w normal plr name otp =
     with_name normal otp (\<lambda>n. with_channel w plr name (\<lambda>a. UnBan w (p_guid plr) n))"

definition HandleChannelAnnounce :: "chat_world \<Rightarrow> player \<Rightarrow> string \<Rightarrow> mgr_state \<Rightarrow> mgr_state" where
  "HandleChannelAnnounce w plr name = with_channel w plr name (\<lambda>a. Announce w (p_guid plr))"

definition HandleChannelModerate :: "chat_world \<Rightarrow> player \<Rightarrow> string \<Rightarrow> mgr_state \<Rightarrow> mgr_state" where
  "HandleChannelModerate w plr name = with_channel w plr name (\<lambda>a. Moderate w (p_guid plr))"

definition HandleChannelRosterQuery :: "chat_world \<Rightarrow> player \<Rightarrow> string \<Rightarrow> mgr_state \<Rightarrow> mgr_state" where
  "HandleChannelRosterQuery w plr name = with_channel w plr name (\<lambda>a. ListPlayers w plr)"

definition HandleChannelInfoQuery :: "chat_world \<Rightarrow> player \<Rightarrow> string \<Rightarrow> mgr_state \<Rightarrow> mgr_state" where
  "HandleChannelInfoQuery w plr name =
     with_channel w plr name (\<lambda>a st. emit [Send (p_guid plr) (mk_packet SMSG_CHANNEL_MEMBER_COUNT
       [Str (m_name (c_chan st)), U8 (m_flags (c_chan st)), U32 (of_nat (GetNumPlayers (c_chan st)))])] st)"

text \<open>The handler of \<open>CMSG_SET_CHANNEL_WATCH\<close> reads the name and does nothing else.\<close>

definition HandleChannelJoinNotify :: "mgr_state \<Rightarrow> mgr_state" where
  "HandleChannelJoinNotify st = st"

section \<open>A player's channels\<close>

text \<open>
  \<open>CleanupChannels\<close>, run at logout, empties the list from the front: its fuel is the list's length.
\<close>

definition CleanupChannels_step :: "chat_world \<Rightarrow> player \<Rightarrow> nat \<Rightarrow> mgr_state \<Rightarrow> mgr_state" where
  "CleanupChannels_step w plr ch st =
     (let st = on_chan ch (Leave w ch (p_guid plr) False) st
      in case channelMgr w (p_team plr) of
           None \<Rightarrow> st
         | Some m \<Rightarrow> (case s_heap st ch of None \<Rightarrow> st | Some c \<Rightarrow> Mgr_LeftChannel m (m_name c) st))"

fun CleanupChannels :: "nat \<Rightarrow> chat_world \<Rightarrow> player \<Rightarrow> mgr_state \<Rightarrow> mgr_state option" where
  "CleanupChannels fuel w plr st =
     (case s_joined st (p_guid plr) of
        [] \<Rightarrow> Some st
      | ch # rest \<Rightarrow>
          (case fuel of
             0 \<Rightarrow> None
           | Suc fuel' \<Rightarrow>
               CleanupChannels fuel' w plr
                 (CleanupChannels_step w plr ch (st\<lparr>s_joined := (s_joined st)(p_guid plr := rest)\<rparr>))))"

definition LeaveLFGChannel :: "chat_world \<Rightarrow> player \<Rightarrow> mgr_state \<Rightarrow> mgr_state" where
  "LeaveLFGChannel w plr st =
     (case find (\<lambda>a. case s_heap st a of None \<Rightarrow> False | Some c \<Rightarrow> IsLFG c) (s_joined st (p_guid plr)) of
        None \<Rightarrow> st
      | Some a \<Rightarrow> on_chan a (Leave w a (p_guid plr) True) st)"

declare CleanupChannels.simps [simp del]

section \<open>Players' lists and one channel\<close>

lemma c_joined_simps [simp]:
  "c_joined (emit es st) = c_joined st" "c_joined (SendToOne w d g st) = c_joined st"
  "c_joined (SendToAll w d g st) = c_joined st" "c_joined (JoinNotify w g st) = c_joined st"
  "c_joined (LeaveNotify w g st) = c_joined st" "c_joined (upd_chan f st) = c_joined st"
  "c_joined (LeftChannel g this st) = (c_joined st)(g := removeAll this (c_joined st g))"
  "c_joined (JoinedChannel g this st) = (c_joined st)(g := c_joined st g @ [this])"
  by (simp_all add: emit_def SendToOne_def SendToAll_def JoinNotify_def LeaveNotify_def
      JoinedChannel_def LeftChannel_def upd_chan_def Let_def)

lemma c_joined_modes [simp]:
  "c_joined (SetOwner w g e st) = c_joined st" "c_joined (SetModerator w p b st) = c_joined st"
  "c_joined (SetMute w p b st) = c_joined st" "c_joined (Join_enter w p plr st) = c_joined st"
  by (simp_all add: SetOwner_def SetModerator_def SetMute_def Join_enter_def Let_def)

lemma c_joined_moderated:
  "(\<And>st. c_joined (act st) = c_joined st) \<Longrightarrow> c_joined (moderated w p act st) = c_joined st"
  using moderated_cases [of w st p act] by auto

lemma c_joined_kept [simp]:
  "c_joined (UnBan w p n st) = c_joined st" "c_joined (Password w p pass st) = c_joined st"
  "c_joined (Announce w p st) = c_joined st" "c_joined (Moderate w p st) = c_joined st"
  "c_joined (SetMode w p n md on st) = c_joined st" "c_joined (SetOwnerByName w p n st) = c_joined st"
  "c_joined (Say w p what lang st) = c_joined st" "c_joined (Invite w p n st) = c_joined st"
  "c_joined (SendWhoOwner w p st) = c_joined st" "c_joined (ListPlayers w pl st) = c_joined st"
  unfolding UnBan_def Password_def Announce_def Moderate_def SetMode_def
  by (auto intro!: c_joined_moderated simp: SetOwnerByName_def Say_def Invite_def SendWhoOwner_def ListPlayers_def
      Let_def split: option.splits)

text \<open>
  The lists name this channel only for its members, and agree with \<open>J\<close> on every other channel.
\<close>

definition joined_ok :: "nat \<Rightarrow> (u64 \<Rightarrow> nat list) \<Rightarrow> cst \<Rightarrow> bool" where
  "joined_ok this J st \<longleftrightarrow>
     (\<forall>p. this \<in> set (c_joined st p) \<longrightarrow> IsOn (c_chan st) p) \<and>
     (\<forall>p a. a \<noteq> this \<longrightarrow> (a \<in> set (c_joined st p) \<longleftrightarrow> a \<in> set (J p)))"

text \<open>A request that leaves the player's own list in step: leaving is asked for by a player in the world.\<close>

fun in_step :: "chat_world \<times> chan_op \<Rightarrow> bool" where
  "in_step (w, OpLeave p send) \<longleftrightarrow> send \<and> FindPlayer w p \<noteq> None"
| "in_step _ \<longleftrightarrow> True"

lemma members_kept:
  "IsOn c q \<Longrightarrow> q \<noteq> p \<Longrightarrow> IsOn (chan_leave p c) q"
  "IsOn c q \<Longrightarrow> q \<noteq> bad \<Longrightarrow> IsOn (chan_remove good bad ban c) q"
  by (auto simp: chan_leave_def chan_remove_def Let_def split: option.splits)

lemma trans_members:
  assumes "chan_trans wo c c'" "\<nexists>w p send. wo = (w, OpLeave p send)" "\<nexists>w p n ban. wo = (w, OpKickOrBan p n ban)"
    and "IsOn c q"
  shows "IsOn c' q"
  using assms by (cases rule: chan_trans.cases) auto

lemma joined_Join: "joined_ok this J st \<Longrightarrow> joined_ok this J (Join w this p pass st)"
  by (auto simp: joined_ok_def Join_def c_chan_Join_enter Let_def split: option.splits dest: FindPlayer_guid)

lemma joined_Leave:
  assumes "joined_ok this J st" "send" "FindPlayer w p \<noteq> None"
  shows "joined_ok this J (Leave w this p send st)"
proof -
  obtain plr where plr: "FindPlayer w p = Some plr" "p_guid plr = p"
    using assms(3) FindPlayer_guid by fastforce
  have j: "c_joined (Leave w this p send st) =
      (if IsOn (c_chan st) p then (c_joined st)(p := removeAll this (c_joined st p)) else c_joined st)"
    using assms(2) plr by (simp add: Leave_def Let_def)
  with assms(1) show ?thesis by (auto simp: joined_ok_def c_chan_Leave intro: members_kept)
qed

lemma joined_KickOrBan:
  assumes "joined_ok this J st"
  shows "joined_ok this J (KickOrBan w this good n ban st)"
proof (cases "if may_moderate w (c_chan st) good then kick_target w good n (c_chan st) else None")
  case None
  then have "c_chan (KickOrBan w this good n ban st) = c_chan st"
    by (auto simp: c_chan_KickOrBan split: if_splits)
  moreover have "c_joined (KickOrBan w this good n ban st) = c_joined st"
    using None by (auto simp: KickOrBan_def moderated_def may_moderate_def kick_target_def Let_def
        split: if_splits option.splits)
  ultimately show ?thesis using assms by (simp add: joined_ok_def)
next
  case (Some bad)
  then have may: "may_moderate w (c_chan st) good" and tgt: "kick_target w good n (c_chan st) = Some bad"
    by (auto split: if_splits)
  then obtain badp where b: "FindPlayerByName w n = Some badp" "p_guid badp = bad"
    by (auto simp: kick_target_def split: option.splits if_splits)
  have "c_joined (KickOrBan w this good n ban st) = (c_joined st)(bad := removeAll this (c_joined st bad))"
    using may tgt b by (auto simp: KickOrBan_def moderated_def may_moderate_def kick_target_def Let_def split: if_splits)
  with assms may tgt show ?thesis
    by (auto simp: joined_ok_def c_chan_KickOrBan intro: members_kept)
qed

lemma joined_step:
  assumes "joined_ok this J st" "in_step wo"
  shows "joined_ok this J (chan_step this wo st)"
proof -
  obtain w op where wo: "wo = (w, op)" by fastforce
  have keep: "joined_ok this J (chan_step this wo st)"
    if "c_joined (chan_step this wo st) = c_joined st" "\<nexists>w p send. wo = (w, OpLeave p send)"
      "\<nexists>w p n ban. wo = (w, OpKickOrBan p n ban)"
    using assms(1) that trans_members [OF chan_step_trans] by (auto simp: joined_ok_def)
  show ?thesis
  proof (cases op)
    case (OpJoin p pass)
    with assms show ?thesis by (simp add: wo joined_Join)
  next
    case (OpLeave p send)
    with assms show ?thesis by (auto simp: wo intro: joined_Leave)
  next
    case (OpKickOrBan p n ban)
    with assms show ?thesis by (simp add: wo joined_KickOrBan)
  qed (rule keep; simp add: wo)+
qed

section \<open>The registry invariant\<close>

text \<open>
  Every address in a player's list is a live channel with the player on it; every registered address
  is a live channel of that name, registered once; addresses from \<open>s_next\<close> on are free.
\<close>

definition live_lists :: "mgr_state \<Rightarrow> bool" where
  "live_lists st \<longleftrightarrow> (\<forall>p a. a \<in> set (s_joined st p) \<longrightarrow> (\<exists>c. s_heap st a = Some c \<and> IsOn c p))"

definition registry_ok :: "mgr_state \<Rightarrow> bool" where
  "registry_ok st \<longleftrightarrow>
     (\<forall>m n a. map_of (channels m st) n = Some a \<longrightarrow> (\<exists>c. s_heap st a = Some c \<and> m_name c = n)) \<and>
     (\<forall>m n m' n' a. map_of (channels m st) n = Some a \<longrightarrow> map_of (channels m' st) n' = Some a \<longrightarrow> m = m') \<and>
     (\<forall>a \<ge> s_next st. s_heap st a = None) \<and>
     (\<forall>m. om_ok (channels m st))"

definition mgr_inv :: "mgr_state \<Rightarrow> bool" where
  "mgr_inv st \<longleftrightarrow> live_lists st \<and> registry_ok st"

lemma channels_simps [simp]:
  "channels m (st\<lparr>s_heap := h\<rparr>) = channels m st" "channels m (st\<lparr>s_joined := j\<rparr>) = channels m st"
  "channels m (st\<lparr>s_out := es\<rparr>) = channels m st" "channels m (st\<lparr>s_next := k\<rparr>) = channels m st"
  "channels m (set_channels m' cs st) = (if m = m' then cs else channels m st)"
  by (cases m; cases m'; simp add: channels_def set_channels_def)+

lemma set_channels_sel [simp]:
  "s_heap (set_channels m cs st) = s_heap st" "s_joined (set_channels m cs st) = s_joined st"
  "s_next (set_channels m cs st) = s_next st" "s_out (set_channels m cs st) = s_out st"
  by (cases m; simp add: set_channels_def)+

lemma mgr_inv_out [simp]: "mgr_inv (st\<lparr>s_out := es\<rparr>) \<longleftrightarrow> mgr_inv st"
  by (simp add: mgr_inv_def live_lists_def registry_ok_def)

lemma on_chan_inv:
  assumes inv: "mgr_inv st"
    and step: "\<And>c. s_heap st a = Some c \<Longrightarrow>
      joined_ok a (s_joined st) \<lparr>c_chan = c, c_joined = s_joined st, c_out = s_out st\<rparr> \<Longrightarrow>
      joined_ok a (s_joined st) (f \<lparr>c_chan = c, c_joined = s_joined st, c_out = s_out st\<rparr>) \<and>
      m_name (c_chan (f \<lparr>c_chan = c, c_joined = s_joined st, c_out = s_out st\<rparr>)) = m_name c"
  shows "mgr_inv (on_chan a f st)"
proof (cases "s_heap st a")
  case (Some c)
  let ?r = "f \<lparr>c_chan = c, c_joined = s_joined st, c_out = s_out st\<rparr>"
  have "joined_ok a (s_joined st) \<lparr>c_chan = c, c_joined = s_joined st, c_out = s_out st\<rparr>"
    using inv Some by (fastforce simp: joined_ok_def mgr_inv_def live_lists_def)
  note r = step [OF Some this]
  have on: "on_chan a f st = st\<lparr>s_heap := (s_heap st)(a \<mapsto> c_chan ?r), s_joined := c_joined ?r, s_out := c_out ?r\<rparr>"
    by (simp add: on_chan_def Some Let_def)
  have "live_lists (on_chan a f st)"
    using inv r by (fastforce simp: on live_lists_def mgr_inv_def joined_ok_def)
  moreover have "registry_ok (on_chan a f st)"
    using inv r Some by (fastforce simp: on registry_ok_def mgr_inv_def)
  ultimately show ?thesis by (simp add: mgr_inv_def)
qed (simp add: on_chan_def inv)

lemma on_chan_step_inv: "mgr_inv st \<Longrightarrow> in_step wo \<Longrightarrow> mgr_inv (on_chan a (chan_step a wo) st)"
  by (rule on_chan_inv) (simp_all add: joined_step trans_name [OF chan_step_trans])

lemma GetJoinChannel_inv:
  assumes "mgr_inv st"
  shows "mgr_inv (snd (GetJoinChannel w m name cid st))"
proof (cases "om_mem name (channels m st)")
  case False
  have free: "s_heap st (s_next st) = None" "\<forall>a \<ge> s_next st. s_heap st a = None"
    using assms by (auto simp: mgr_inv_def registry_ok_def)
  then have "map_of (channels m' st) n \<noteq> Some (s_next st)" for m' n
    using assms by (force simp: mgr_inv_def registry_ok_def)
  moreover have "s_next st \<notin> set (s_joined st p)" for p
    using assms free by (force simp: mgr_inv_def live_lists_def)
  moreover have "m_name (Channel_new dbc name cid) = name" for dbc
    by (simp add: Channel_new_def Let_def split: option.split)
  ultimately show ?thesis
    using assms False free
    by (auto simp: GetJoinChannel_def mgr_inv_def live_lists_def registry_ok_def Let_def split: if_splits)
qed (use assms in \<open>simp add: GetJoinChannel_def\<close>)

lemma GetChannel_inv [simp]: "mgr_inv (snd (GetChannel m name p st)) \<longleftrightarrow> mgr_inv st"
  by (simp add: GetChannel_def split: option.split)

lemma LeftChannel_inv:
  assumes "mgr_inv st"
  shows "mgr_inv (Mgr_LeftChannel m name st)"
proof -
  have "mgr_inv ((set_channels m (om_erase name (channels m st)) st)\<lparr>s_heap := (s_heap st)(a := None)\<rparr>)"
    if a: "map_of (channels m st) name = Some a" "s_heap st a = Some c" "GetNumPlayers c = 0" for a c
  proof -
    have "\<not> IsOn c p" for p using a(3) by (simp add: GetNumPlayers_def IsOn_def)
    then have "a \<notin> set (s_joined st p)" for p
      using assms a(2) by (force simp: mgr_inv_def live_lists_def)
    moreover have "map_of (channels m' st) n = Some a \<Longrightarrow> m' = m \<and> n = name" for m' n
      using assms a(1) unfolding mgr_inv_def registry_ok_def by (metis option.inject)
    ultimately show ?thesis
      using assms by (auto simp: mgr_inv_def live_lists_def registry_ok_def split: if_splits)
  qed
  with assms show ?thesis by (auto simp: Mgr_LeftChannel_def split: option.splits)
qed

section \<open>Requests\<close>

text \<open>Every request of the chat handlers, with the values read from the packet.\<close>

datatype chat_req =
    ReqJoin u32 string string
  | ReqLeave string
  | ReqList string
  | ReqPassword string string
  | ReqSetOwner string string
  | ReqOwner string
  | ReqModerator string string
  | ReqUnmoderator string string
  | ReqMute string string
  | ReqUnmute string string
  | ReqInvite string string
  | ReqKick string string
  | ReqBan string string
  | ReqUnban string string
  | ReqAnnounce string
  | ReqModerate string
  | ReqRosterQuery string
  | ReqInfoQuery string
  | ReqJoinNotify string

record request =
  r_world :: chat_world
  r_player :: player
  r_req :: chat_req

fun handle_req ::
  "(string \<Rightarrow> string option) \<Rightarrow> chat_world \<Rightarrow> player \<Rightarrow> chat_req \<Rightarrow> mgr_state \<Rightarrow> mgr_state" where
  "handle_req normal w plr (ReqJoin cid n pass) = HandleChannelJoin w plr cid n pass"
| "handle_req normal w plr (ReqLeave n) = HandleChannelLeave w plr n"
| "handle_req normal w plr (ReqList n) = HandleChannelList w plr n"
| "handle_req normal w plr (ReqPassword n pass) = HandleChannelPassword w plr n pass"
| "handle_req normal w plr (ReqSetOwner n p) = HandleChannelSetOwner w normal plr n p"
| "handle_req normal w plr (ReqOwner n) = HandleChannelOwner w plr n"
| "handle_req normal w plr (ReqModerator n p) = HandleChannelModerator w normal plr n p"
| "handle_req normal w plr (ReqUnmoderator n p) = HandleChannelUnmoderator w normal plr n p"
| "handle_req normal w plr (ReqMute n p) = HandleChannelMute w normal plr n p"
| "handle_req normal w plr (ReqUnmute n p) = HandleChannelUnmute w normal plr n p"
| "handle_req normal w plr (ReqInvite n p) = HandleChannelInvite w normal plr n p"
| "handle_req normal w plr (ReqKick n p) = HandleChannelKick w normal plr n p"
| "handle_req normal w plr (ReqBan n p) = HandleChannelBan w normal plr n p"
| "handle_req normal w plr (ReqUnban n p) = HandleChannelUnban w normal plr n p"
| "handle_req normal w plr (ReqAnnounce n) = HandleChannelAnnounce w plr n"
| "handle_req normal w plr (ReqModerate n) = HandleChannelModerate w plr n"
| "handle_req normal w plr (ReqRosterQuery n) = HandleChannelRosterQuery w plr n"
| "handle_req normal w plr (ReqInfoQuery n) = HandleChannelInfoQuery w plr n"
| "handle_req normal w plr (ReqJoinNotify n) = HandleChannelJoinNotify"

text \<open>
  The dispatcher runs a chat handler only for a player in the world; a request from anyone else is
  dropped.
\<close>

definition handle :: "(string \<Rightarrow> string option) \<Rightarrow> request \<Rightarrow> mgr_state \<Rightarrow> mgr_state" where
  "handle normal r st =
     (if FindPlayer (r_world r) (p_guid (r_player r)) = Some (r_player r)
      then handle_req normal (r_world r) (r_player r) (r_req r) st else st)"

text \<open>
  What a handler does to the state, seen from the registries: it creates a channel, runs an
  operation on one, deletes an empty one, or sends.
\<close>

text \<open>An invariant of those four actions is one of every handler; \<open>ok\<close> restricts the operations.\<close>

locale chat_invariant =
  fixes I :: "mgr_state \<Rightarrow> bool"
    and ok :: "chat_world \<times> chan_op \<Rightarrow> bool"
  assumes I_create: "I st \<Longrightarrow> ok (w, OpJoin p pass) \<Longrightarrow> GetJoinChannel w m name cid st = (a, st') \<Longrightarrow>
      I (on_chan a (chan_step a (w, OpJoin p pass)) st')"
    and I_step: "I st \<Longrightarrow> ok wo \<Longrightarrow> I (on_chan a (chan_step a wo) st)"
    and I_left: "I st \<Longrightarrow> I (Mgr_LeftChannel m name st)"
    and I_out: "I st \<Longrightarrow> I (st\<lparr>s_out := es\<rparr>)"
begin

lemma I_with_channel:
  assumes "I st" "\<And>a. f a = chan_step a wo" "ok wo"
  shows "I (with_channel w plr name f st)"
  using assms I_step by (auto simp: with_channel_def GetChannel_def I_out split: option.splits)

lemma I_with_name:
  assumes "I st" "\<And>n. I (f n st)"
  shows "I (with_name normal otp f st)"
  using assms by (simp add: with_name_def split: option.split)

lemma I_info:
  assumes "I st"
  shows "I (HandleChannelInfoQuery w plr name st)"
proof -
  have "on_chan a (emit es) s = s\<lparr>s_out := s_out s @ es\<rparr> \<or> on_chan a (emit es) s = s" for a es s
    by (cases "s_heap s a") (simp_all add: on_chan_def emit_def fun_upd_idem)
  then have on: "on_chan a (\<lambda>c. emit (F c) c) s = s \<or> (\<exists>es. on_chan a (\<lambda>c. emit (F c) c) s = s\<lparr>s_out := es\<rparr>)" for a F s
    by (cases "s_heap s a") (auto simp: on_chan_def emit_def fun_upd_idem Let_def)
  have "I (on_chan a (\<lambda>c. emit (F c) c) s)" if "I s" for a F s
    using on [of a F s] that I_out by auto
  with assms show ?thesis
    by (auto simp: HandleChannelInfoQuery_def with_channel_def GetChannel_def I_out split: option.splits)
qed

lemma handle_req_keeps:
  assumes "I st" "\<And>op. op_guid op = p_guid plr \<Longrightarrow> in_step (w, op) \<Longrightarrow> ok (w, op)"
    and "FindPlayer w (p_guid plr) \<noteq> None"
  shows "I (handle_req normal w plr r st)"
proof -
  note W = I_with_channel [OF assms(1) _ assms(2)]
  show ?thesis
  proof (cases r)
    case (ReqJoin cid n pass)
    with assms show ?thesis
      by (auto simp: HandleChannelJoin_def I_create [where w = w, simplified] split: option.splits prod.splits)
  next
    case (ReqLeave n)
    have "I (on_chan a (Leave w a (p_guid plr) True) s)" if "I s" for a s
      using I_step [OF that, of "(w, OpLeave (p_guid plr) True)" a] assms(2,3) by simp
    with assms ReqLeave show ?thesis
      by (auto simp: HandleChannelLeave_def GetChannel_def I_left I_out Let_def split: option.splits)
  next
    case (ReqList n)
    then show ?thesis using W [of _ "OpList plr"] by (simp add: HandleChannelList_def)
  next
    case (ReqPassword n pass)
    then show ?thesis using W [of _ "OpPassword (p_guid plr) pass"] by (simp add: HandleChannelPassword_def)
  next
    case (ReqSetOwner n p)
    then show ?thesis using W [of _ "OpSetOwner (p_guid plr) _"]
      by (auto intro!: I_with_name assms(1) simp: HandleChannelSetOwner_def)
  next
    case (ReqOwner n)
    then show ?thesis using W [of _ "OpWho (p_guid plr)"] by (simp add: HandleChannelOwner_def)
  next
    case (ReqModerator n p)
    then show ?thesis using W [of _ "OpSetMode (p_guid plr) _ True True"]
      by (auto intro!: I_with_name assms(1) simp: HandleChannelModerator_def)
  next
    case (ReqUnmoderator n p)
    then show ?thesis using W [of _ "OpSetMode (p_guid plr) _ True False"]
      by (auto intro!: I_with_name assms(1) simp: HandleChannelUnmoderator_def)
  next
    case (ReqMute n p)
    then show ?thesis using W [of _ "OpSetMode (p_guid plr) _ False True"]
      by (auto intro!: I_with_name assms(1) simp: HandleChannelMute_def)
  next
    case (ReqUnmute n p)
    then show ?thesis using W [of _ "OpSetMode (p_guid plr) _ False False"]
      by (auto intro!: I_with_name assms(1) simp: HandleChannelUnmute_def)
  next
    case (ReqInvite n p)
    then show ?thesis using W [of _ "OpInvite (p_guid plr) _"]
      by (auto intro!: I_with_name assms(1) simp: HandleChannelInvite_def)
  next
    case (ReqKick n p)
    then show ?thesis using W [of _ "OpKickOrBan (p_guid plr) _ False"]
      by (auto intro!: I_with_name assms(1) simp: HandleChannelKick_def)
  next
    case (ReqBan n p)
    then show ?thesis using W [of _ "OpKickOrBan (p_guid plr) _ True"]
      by (auto intro!: I_with_name assms(1) simp: HandleChannelBan_def)
  next
    case (ReqUnban n p)
    then show ?thesis using W [of _ "OpUnBan (p_guid plr) _"]
      by (auto intro!: I_with_name assms(1) simp: HandleChannelUnban_def)
  next
    case (ReqAnnounce n)
    then show ?thesis using W [of _ "OpAnnounce (p_guid plr)"] by (simp add: HandleChannelAnnounce_def)
  next
    case (ReqModerate n)
    then show ?thesis using W [of _ "OpModerate (p_guid plr)"] by (simp add: HandleChannelModerate_def)
  next
    case (ReqRosterQuery n)
    then show ?thesis using W [of _ "OpList plr"] by (simp add: HandleChannelRosterQuery_def)
  qed (simp_all add: HandleChannelJoinNotify_def assms(1) I_info)
qed

end

section \<open>No dangling channels\<close>

lemma GetJoinChannel_step_inv:
  assumes "mgr_inv st" "in_step (w, OpJoin p pass)" "GetJoinChannel w m name cid st = (a, st')"
  shows "mgr_inv (on_chan a (chan_step a (w, OpJoin p pass)) st')"
  by (rule on_chan_step_inv [OF _ assms(2)]) (use GetJoinChannel_inv [OF assms(1), of w m name cid] assms(3) in simp)

interpretation mgr_chat: chat_invariant mgr_inv in_step
  by unfold_locales (rule GetJoinChannel_step_inv on_chan_step_inv LeftChannel_inv; assumption | simp)+

lemma handle_inv: "mgr_inv st \<Longrightarrow> mgr_inv (handle normal r st)"
  unfolding handle_def
proof (split if_split, intro conjI impI)
  assume "mgr_inv st" "FindPlayer (r_world r) (p_guid (r_player r)) = Some (r_player r)"
  moreover have "in_step (r_world r, op)"
    if "op_guid op = p_guid (r_player r)" "in_step (r_world r, op)" for op using that by simp
  ultimately show "mgr_inv (handle_req normal (r_world r) (r_player r) (r_req r) st)"
    by (intro mgr_chat.handle_req_keeps) auto
qed

interpretation mgr: machine "handle normal" mgr_inv
  by unfold_locales (rule handle_inv)

section \<open>Custom channels are never deleted\<close>

definition all_populated :: "mgr_state \<Rightarrow> bool" where
  "all_populated st \<longleftrightarrow> (\<forall>a c. s_heap st a = Some c \<longrightarrow> m_channelId c \<noteq> 0 \<or> populated c)"

definition real_request :: "chat_world \<times> chan_op \<Rightarrow> bool" where
  "real_request wo \<longleftrightarrow> real_guids wo \<and> w_chatChannels (fst wo) 0 = None"

lemma populated_on_chan:
  assumes "all_populated st" "real_request wo"
  shows "all_populated (on_chan a (chan_step a wo) st)"
proof (cases "s_heap st a")
  case (Some c)
  let ?c = "\<lparr>c_chan = c, c_joined = s_joined st, c_out = s_out st\<rparr>"
  have tr: "chan_trans wo c (c_chan (chan_step a wo ?c))" using chan_step_trans [of wo ?c a] by simp
  have "m_channelId c \<noteq> 0 \<or> populated c" using assms(1) Some by (simp add: all_populated_def)
  then have "m_channelId (c_chan (chan_step a wo ?c)) \<noteq> 0 \<or> populated (c_chan (chan_step a wo ?c))"
    using populated_step [OF tr] trans_id [OF tr] assms(2) by (auto simp: real_request_def)
  with assms(1) show ?thesis by (simp add: all_populated_def on_chan_def Some Let_def)
qed (simp add: on_chan_def assms)

lemma populated_left: "all_populated st \<Longrightarrow> Mgr_LeftChannel m name st = st"
  using populated_nonempty
  by (force simp: Mgr_LeftChannel_def all_populated_def IsConstant_def split: option.splits)

lemma populated_new:
  assumes "m_channelId (Channel_new dbc name cid) = 0" "dbc 0 = None" "p \<noteq> 0"
  shows "populated (c_chan (Join w a p pass \<lparr>c_chan = Channel_new dbc name cid, c_joined = J, c_out = es\<rparr>))"
proof -
  have "cid = 0" using assms(1) by (simp add: Channel_new_def Let_def split: option.splits)
  then have new: "Channel_new dbc name cid = Channel_new dbc name 0" by simp
  have "Join_admits w p pass (Channel_new dbc name 0)"
    using assms(2) by (simp add: Join_admits_def Channel_new_def IsOn_def IsBanned_def IsLFG_def split: option.split)
  moreover have "populated (chan_enter p (Channel_new dbc name 0))"
    using enter_inv [OF chan_new_inv, of dbc name 0 p] assms(2,3)
    by (simp add: populated_def Channel_new_def IsOn_def chan_enter_def IsConstant_def)
  ultimately show ?thesis by (simp add: new c_chan_Join)
qed

lemma populated_create:
  assumes "all_populated st" "real_request (w, OpJoin p pass)" "GetJoinChannel w m name cid st = (a, st')"
  shows "all_populated (on_chan a (chan_step a (w, OpJoin p pass)) st')"
proof (cases "om_mem name (channels m st)")
  case True
  with assms(3) have "st' = st" by (auto simp: GetJoinChannel_def)
  then show ?thesis using populated_on_chan [OF assms(1,2)] by simp
next
  case False
  have p: "p \<noteq> 0" "w_chatChannels w 0 = None" using assms(2) by (simp_all add: real_request_def real_guids_def)
  from False assms(3) have st': "a = s_next st" "s_joined st' = s_joined st" "s_out st' = s_out st"
      "s_heap st' = (s_heap st)(s_next st \<mapsto> Channel_new (w_chatChannels w) name cid)"
    by (auto simp: GetJoinChannel_def om_at_def Let_def)
  let ?r = "Join w a p pass \<lparr>c_chan = Channel_new (w_chatChannels w) name cid, c_joined = s_joined st, c_out = s_out st\<rparr>"
  have "m_channelId (c_chan ?r) = m_channelId (Channel_new (w_chatChannels w) name cid)"
    using trans_id [OF trans_Join] by simp
  then have "m_channelId (c_chan ?r) \<noteq> 0 \<or> populated (c_chan ?r)"
    using populated_new [of "w_chatChannels w" name cid p w a pass] p by auto
  with assms(1) show ?thesis
    by (simp add: all_populated_def on_chan_def st' Let_def)
qed

lemma on_chan_channels [simp]: "channels m (on_chan a f st) = channels m st"
  by (simp add: on_chan_def Let_def split: option.split)

lemma GetJoinChannel_keeps:
  "GetJoinChannel w m name cid st = (a, st') \<Longrightarrow> om_mem n (channels m' st) \<Longrightarrow> om_mem n (channels m' st')"
  by (auto simp: GetJoinChannel_def Let_def split: if_splits)

interpretation crowd: chat_invariant all_populated real_request
  by unfold_locales
    (auto simp: populated_left intro: populated_create populated_on_chan simp del: chan_step.simps,
     auto simp: all_populated_def)

text \<open>Registered names stay registered.\<close>

interpretation leak: chat_invariant "\<lambda>st. all_populated st \<and> om_mem n (channels m st)" real_request
proof
  fix st st' :: mgr_state and w p pass m' name cid a
  assume "all_populated st \<and> om_mem n (channels m st)" "real_request (w, OpJoin p pass)"
    "GetJoinChannel w m' name cid st = (a, st')"
  then show "all_populated (on_chan a (chan_step a (w, OpJoin p pass)) st') \<and>
      om_mem n (channels m (on_chan a (chan_step a (w, OpJoin p pass)) st'))"
    using GetJoinChannel_keeps populated_create unfolding on_chan_channels by blast
next
  fix st wo a
  assume "all_populated st \<and> om_mem n (channels m st)" "real_request wo"
  then show "all_populated (on_chan a (chan_step a wo) st) \<and> om_mem n (channels m (on_chan a (chan_step a wo) st))"
    using populated_on_chan by simp
qed (simp_all add: populated_left, simp add: all_populated_def)

text \<open>Worlds in which guid 0 names no player and id 0 no built-in channel.\<close>

definition real_world :: "request \<Rightarrow> bool" where
  "real_world r \<longleftrightarrow> (\<forall>p \<in> set (w_players (r_world r)). p_guid p \<noteq> 0) \<and> w_chatChannels (r_world r) 0 = None"

lemma real_world_request:
  assumes "real_world r" "FindPlayer (r_world r) (p_guid (r_player r)) = Some (r_player r)"
    and "op_guid op = p_guid (r_player r)"
  shows "real_request (r_world r, op)"
proof -
  have "r_player r \<in> set (w_players (r_world r))" using assms(2) FindPlayer_guid by blast
  with assms show ?thesis by (auto simp: real_world_def real_request_def real_guids_def)
qed

lemma handle_populated: "all_populated st \<Longrightarrow> real_world r \<Longrightarrow> all_populated (handle normal r st)"
  by (auto simp: handle_def intro!: crowd.handle_req_keeps real_world_request)

lemma handle_keeps_names:
  "all_populated st \<Longrightarrow> om_mem n (channels m st) \<Longrightarrow> real_world r \<Longrightarrow> om_mem n (channels m (handle normal r st))"
  using leak.handle_req_keeps [of st m n "r_player r" "r_world r" normal "r_req r"] real_world_request [of r]
  by (cases "FindPlayer (r_world r) (p_guid (r_player r)) = Some (r_player r)") (simp_all add: handle_def)

lemma run_populated: "all_populated st \<Longrightarrow> list_all real_world rs \<Longrightarrow> all_populated (fold (handle normal) rs st)"
  by (induction rs arbitrary: st) (simp_all add: handle_populated)

lemma run_keeps_names:
  "all_populated st \<Longrightarrow> om_mem n (channels m st) \<Longrightarrow> list_all real_world rs \<Longrightarrow>
    om_mem n (channels m (fold (handle normal) rs st))"
proof (induction rs arbitrary: st)
  case (Cons r rs)
  show ?case unfolding fold.simps o_apply
    by (rule Cons.IH; use Cons.prems handle_populated handle_keeps_names in simp)
qed simp

section \<open>Logout\<close>

lemma c_joined_Leave_silent: "c_joined (Leave w this p False st) = c_joined st"
  by (simp add: Leave_def Let_def)

lemma CleanupChannels_step_joined: "s_joined (CleanupChannels_step w plr ch st) = s_joined st"
  by (simp add: CleanupChannels_step_def Let_def Mgr_LeftChannel_def on_chan_def c_joined_Leave_silent
      split: option.splits)

lemma CleanupChannels_total:
  "length (s_joined st (p_guid plr)) \<le> fuel \<Longrightarrow>
    \<exists>st'. CleanupChannels fuel w plr st = Some st' \<and> s_joined st' = (s_joined st)(p_guid plr := [])"
proof (induction fuel arbitrary: st)
  case 0
  then show ?case by (simp add: CleanupChannels.simps fun_upd_idem)
next
  case (Suc fuel)
  show ?case
  proof (cases "s_joined st (p_guid plr)")
    case Nil
    then show ?thesis by (simp add: CleanupChannels.simps fun_upd_idem)
  next
    case (Cons ch rest)
    let ?st = "CleanupChannels_step w plr ch (st\<lparr>s_joined := (s_joined st)(p_guid plr := rest)\<rparr>)"
    have "s_joined ?st = (s_joined st)(p_guid plr := rest)" by (simp add: CleanupChannels_step_joined)
    moreover have "CleanupChannels (Suc fuel) w plr st = CleanupChannels fuel w plr ?st"
      using Cons by (simp add: CleanupChannels.simps [of "Suc fuel"])
    moreover obtain st' where "CleanupChannels fuel w plr ?st = Some st'"
      "s_joined st' = (s_joined ?st)(p_guid plr := [])"
      using Suc.IH [of ?st] Suc.prems Cons calculation(1) by (metis fun_upd_same length_Cons Suc_le_mono)
    ultimately show ?thesis by (intro exI [of _ st']) simp
  qed
qed

section \<open>Properties\<close>

definition mgr_empty :: mgr_state where
  "mgr_empty = \<lparr>s_heap = (\<lambda>_. None), s_next = 0, s_alliance = [], s_horde = [], s_joined = (\<lambda>_. []), s_out = []\<rparr>"

lemma mgr_empty_channels [simp]: "channels m mgr_empty = []"
  by (simp add: channels_def mgr_empty_def split: mgr.split)

lemma mgr_empty_inv: "mgr_inv mgr_empty"
  by (simp add: mgr_inv_def live_lists_def registry_ok_def) (simp add: mgr_empty_def)

text \<open>
  Once a custom channel is registered, every later state still has it registered, whatever its
  members do, given that guid 0 names no player and id 0 no built-in channel: deleting empty channels
  has no effect, since a channel that has had an owner is never empty.
\<close>

theorem custom_channels_never_deleted:
  assumes "list_all real_world before" "om_mem n (channels m (fold (handle normal) before mgr_empty))"
    and "list_all real_world rs"
  shows "om_mem n (channels m (fold (handle normal) (before @ rs) mgr_empty))"
proof -
  have "all_populated mgr_empty" by (simp add: all_populated_def mgr_empty_def)
  with run_keeps_names [OF run_populated] assms show ?thesis by simp
qed

theorem custom_channels_never_deleted_witness:
  "om_mem ''den'' (channels AllianceChannelMgr (fold (handle Some)
     [\<lparr>r_world = example_chat, r_player = example_player 1 ''Anna'', r_req = ReqJoin 0 ''den'' ''''\<rparr>,
      \<lparr>r_world = example_chat, r_player = example_player 1 ''Anna'', r_req = ReqLeave ''den''\<rparr>] mgr_empty))"
proof -
  let ?j = "\<lparr>r_world = example_chat, r_player = example_player 1 ''Anna'', r_req = ReqJoin 0 ''den'' ''''\<rparr>"
  let ?l = "\<lparr>r_world = example_chat, r_player = example_player 1 ''Anna'', r_req = ReqLeave ''den''\<rparr>"
  have real: "real_world ?j" "real_world ?l"
    by (simp_all add: real_world_def example_chat_def example_defs)
  have p: "p_guid (example_player 1 ''Anna'') = 1" "p_team (example_player 1 ''Anna'') = ALLIANCE"
    "getConfig example_chat k = False" for k
    by (simp_all add: example_player_def getConfig_def example_chat_def)
  have "om_mem ''den'' (channels AllianceChannelMgr (handle Some ?j mgr_empty))"
    by (simp add: handle_def HandleChannelJoin_def channelMgr_def GetJoinChannel_def p Let_def)
  with real show ?thesis
    using custom_channels_never_deleted [of "[?j]" AllianceChannelMgr Some "''den''" "[?l]"] by simp
qed

text \<open>
  The logout loop over a player's channels ends after one round per channel and leaves this
  player's list empty and the other lists as they were.
\<close>

theorem CleanupChannels_ends:
  "\<exists>st'. CleanupChannels (length (s_joined st (p_guid plr))) w plr st = Some st' \<and>
    s_joined st' = (s_joined st)(p_guid plr := [])"
  by (rule CleanupChannels_total) simp

end
