(* ===== verification/ChannelLife.thy ===== *)
theory ChannelLife
  imports ChannelMgr
begin

text \<open>
  The channels of players who change zone, find a group or log out: \<open>Player::UpdateLocalChannels\<close>, and
  the registries under every operation that touches them, requests, zone changes, the LFG channel and
  logouts.
\<close>

section \<open>Zone channels\<close>

text \<open>
  The name of a zone's channel: \<open>snprintf\<close> with the pattern of the channel's entry and the name of the
  zone into 100 bytes. The pattern holds at most one \<open>%s\<close>.
\<close>

fun printf_s :: "string \<Rightarrow> string \<Rightarrow> string" where
  "printf_s [] z = []"
| "printf_s [c] z = [c]"
| "printf_s (c # d # f) z =
     (if c = CHR ''%'' \<and> d = CHR ''s'' then z @ printf_s f z
      else if c = CHR ''%'' \<and> d = CHR ''%'' then CHR ''%'' # printf_s f z
      else c # printf_s (d # f) z)"

definition local_name :: "(u32 \<Rightarrow> string) \<Rightarrow> string \<Rightarrow> u32 \<Rightarrow> string" where
  "local_name pat zone channel_id = take 99 (printf_s (pat channel_id) zone)"

text \<open>
  One round of the loop, for the channel at an address of the list; whether it has left the list.
\<close>

definition local_step ::
  "chat_world \<Rightarrow> (u32 \<Rightarrow> string) \<Rightarrow> string \<Rightarrow> player \<Rightarrow> mgr \<Rightarrow> nat \<Rightarrow> mgr_state \<Rightarrow> bool \<times> mgr_state" where
  "local_step w pat zone plr m i st =
     (case s_heap st i of
        None \<Rightarrow> (False, st)
      | Some c \<Rightarrow>
          if \<not> IsConstant c then (False, st)
          else
            (case w_chatChannels w (m_channelId c) of
               None \<Rightarrow> (False, st)
             | Some fl \<Rightarrow>
                 if fl AND 4 = 4 then (False, st)
                 else
                   (let (new_channel, st) = GetJoinChannel w m (local_name pat zone (m_channelId c)) (m_channelId c) st
                    in if i \<noteq> new_channel
                       then
                         (let st = on_chan new_channel (Join w new_channel (p_guid plr) '''') st;
                              st = on_chan i (Leave w i (p_guid plr) False) st;
                              st = st\<lparr>s_joined := (s_joined st)(p_guid plr := removeAll i (s_joined st (p_guid plr)))\<rparr>
                          in (True, Mgr_LeftChannel m (m_name c) st))
                       else (False, st))))"

text \<open>
  The loop over the list, whose iterator is at position \<open>k\<close>: the position after it is computed before the
  round, so that a round at the last position ends the loop even when it has appended a channel. The
  loop need not end (\<open>zone_change_never_ends\<close> below): the result is nothing when the fuel is used up.
\<close>

fun local_loop ::
  "nat \<Rightarrow> chat_world \<Rightarrow> (u32 \<Rightarrow> string) \<Rightarrow> string \<Rightarrow> player \<Rightarrow> mgr \<Rightarrow> nat \<Rightarrow> mgr_state \<Rightarrow> mgr_state option" where
  "local_loop fuel w pat zone plr m k st =
     (if length (s_joined st (p_guid plr)) \<le> k then Some st
      else
        (case fuel of
           0 \<Rightarrow> None
         | Suc fuel' \<Rightarrow>
             (case local_step w pat zone plr m (s_joined st (p_guid plr) ! k) st of
                (left, st') \<Rightarrow>
                  if Suc k = length (s_joined st (p_guid plr)) then Some st'
                  else local_loop fuel' w pat zone plr m (if left then k else Suc k) st')))"

declare local_loop.simps [simp del]

definition UpdateLocalChannels ::
  "nat \<Rightarrow> chat_world \<Rightarrow> (u32 \<Rightarrow> string option) \<Rightarrow> (u32 \<Rightarrow> string) \<Rightarrow> player \<Rightarrow> u32 \<Rightarrow> mgr_state \<Rightarrow> mgr_state option" where
  "UpdateLocalChannels fuel w areas pat plr newZone st =
     (if s_joined st (p_guid plr) = [] then Some st
      else
        (case areas newZone of
           None \<Rightarrow> Some st
         | Some current_zone_name \<Rightarrow>
             (case channelMgr w (p_team plr) of
                None \<Rightarrow> Some st
              | Some m \<Rightarrow> local_loop fuel w pat current_zone_name plr m 0 st)))"

section \<open>Lists without duplicates\<close>

definition lists_ok :: "mgr_state \<Rightarrow> bool" where
  "lists_ok st \<longleftrightarrow> mgr_inv st \<and> (\<forall>p. distinct (s_joined st p))"

lemma distinct_Join:
  assumes "joined_ok this J st" "\<forall>p. distinct (c_joined st p)"
  shows "distinct (c_joined (Join w this p pass st) q)"
  using assms by (auto simp: Join_def joined_ok_def Let_def split: option.splits dest: FindPlayer_guid)

lemma distinct_step:
  assumes "joined_ok this J st" "\<forall>p. distinct (c_joined st p)"
  shows "distinct (c_joined (chan_step this wo st) q)"
proof -
  obtain w op where wo: "wo = (w, op)" by fastforce
  show ?thesis
  proof (cases op)
    case (OpJoin p pass)
    thus ?thesis using distinct_Join [OF assms] by (simp add: wo)
  next
    case (OpLeave p send)
    thus ?thesis using assms(2) by (auto simp: wo Leave_def Let_def distinct_removeAll split: option.splits)
  next
    case (OpKickOrBan p n ban)
    thus ?thesis using assms(2)
      by (auto simp: wo KickOrBan_def moderated_def Let_def distinct_removeAll split: option.splits)
  qed (use assms(2) in \<open>simp_all add: wo\<close>)
qed

lemma lists_on_chan:
  assumes "lists_ok st" "in_step wo"
  shows "lists_ok (on_chan a (chan_step a wo) st)"
proof -
  have "distinct (s_joined (on_chan a (chan_step a wo) st) q)" for q
  proof (cases "s_heap st a")
    case (Some c)
    have "joined_ok a (s_joined st) \<lparr>c_chan = c, c_joined = s_joined st, c_out = s_out st\<rparr>"
      using assms(1) Some by (fastforce simp: joined_ok_def lists_ok_def mgr_inv_def live_lists_def)
    from distinct_step [OF this] assms(1) Some show ?thesis by (simp add: on_chan_def lists_ok_def Let_def)
  qed (use assms(1) in \<open>simp add: on_chan_def lists_ok_def\<close>)
  thus ?thesis using assms on_chan_step_inv by (simp add: lists_ok_def)
qed

lemma GetJoinChannel_joined: "GetJoinChannel w m name cid st = (a, st') \<Longrightarrow> s_joined st' = s_joined st"
  by (auto simp: GetJoinChannel_def Let_def split: if_splits)

lemma lists_GetJoinChannel: "lists_ok st \<Longrightarrow> GetJoinChannel w m name cid st = (a, st') \<Longrightarrow> lists_ok st'"
  using GetJoinChannel_inv [of st w m name cid] GetJoinChannel_joined by (fastforce simp: lists_ok_def)

lemma lists_left: "lists_ok st \<Longrightarrow> lists_ok (Mgr_LeftChannel m name st)"
  using LeftChannel_inv [of st m name] by (auto simp: lists_ok_def Mgr_LeftChannel_def split: option.splits)

interpretation life: chat_invariant lists_ok in_step
proof
  show "lists_ok (on_chan a (chan_step a (w, OpJoin p pass)) st')"
    if "lists_ok st" "in_step (w, OpJoin p pass)" "GetJoinChannel w m name cid st = (a, st')" for st w p pass m name cid a st'
    using lists_on_chan [OF lists_GetJoinChannel [OF that(1,3)] that(2)] .
qed (simp_all add: lists_on_chan lists_left del: chan_step.simps, simp add: lists_ok_def)

section \<open>Leaving without a word\<close>

text \<open>
  \<open>Leave\<close> with \<open>send\<close> off takes the player off the channel and leaves his list to the caller: every entry
  but this one stays right.
\<close>

definition live_but :: "u64 \<Rightarrow> nat \<Rightarrow> mgr_state \<Rightarrow> bool" where
  "live_but p a st \<longleftrightarrow>
     (\<forall>q b. b \<in> set (s_joined st q) \<longrightarrow> (q = p \<and> b = a) \<or> (\<exists>c. s_heap st b = Some c \<and> IsOn c q))"

lemma silent_leave:
  assumes "registry_ok st" "live_but p a st"
  shows "registry_ok (on_chan a (Leave w a p False) st) \<and> live_but p a (on_chan a (Leave w a p False) st) \<and>
    s_joined (on_chan a (Leave w a p False) st) = s_joined st"
proof (cases "s_heap st a")
  case (Some c)
  let ?c = "c_chan (Leave w a p False \<lparr>c_chan = c, c_joined = s_joined st, c_out = s_out st\<rparr>)"
  have j: "s_joined (on_chan a (Leave w a p False) st) = s_joined st"
    and h: "s_heap (on_chan a (Leave w a p False) st) = (s_heap st)(a \<mapsto> ?c)"
    and r: "channels m (on_chan a (Leave w a p False) st) = channels m st" "s_next (on_chan a (Leave w a p False) st) = s_next st" for m
    using Some by (simp_all add: on_chan_def c_joined_Leave_silent Let_def)
  have "m_name ?c = m_name c" using trans_name [OF trans_Leave] by simp
  hence "registry_ok (on_chan a (Leave w a p False) st)"
    using assms(1) Some by (fastforce simp: registry_ok_def h r)
  moreover have "IsOn ?c q" if "IsOn c q" "q \<noteq> p" for q using members_kept(1) [OF that] that by (simp add: c_chan_Leave)
  hence "live_but p a (on_chan a (Leave w a p False) st)"
    using assms(2) Some unfolding live_but_def j h by (metis fun_upd_apply option.inject)
  ultimately show ?thesis using j by blast
qed (use assms in \<open>simp add: on_chan_def\<close>)

lemma lists_ok_live: "lists_ok st \<Longrightarrow> registry_ok st \<and> live_but p a st"
  by (auto simp: lists_ok_def mgr_inv_def live_lists_def live_but_def)

lemma live_but_removed:
  assumes "registry_ok st" "live_but p a st" "a \<notin> set (s_joined st p)" "\<forall>q. distinct (s_joined st q)"
  shows "lists_ok st"
  using assms by (fastforce simp: lists_ok_def mgr_inv_def live_lists_def live_but_def)

lemma lists_Cleanup_step:
  assumes "lists_ok st" "s_joined st (p_guid plr) = ch # rest"
  shows "lists_ok (CleanupChannels_step w plr ch (st\<lparr>s_joined := (s_joined st)(p_guid plr := rest)\<rparr>))"
proof -
  let ?s = "st\<lparr>s_joined := (s_joined st)(p_guid plr := rest)\<rparr>"
  let ?l = "on_chan ch (Leave w ch (p_guid plr) False) ?s"
  have d: "ch \<notin> set rest" "distinct rest" "\<forall>q. distinct (s_joined st q)"
    using assms by (auto simp: lists_ok_def dest: spec [of _ "p_guid plr"])
  have "registry_ok ?s" "live_but (p_guid plr) ch ?s"
    using lists_ok_live [OF assms(1), of "p_guid plr" ch] assms(2)
    by (simp_all add: registry_ok_def live_but_def) (metis list.set_intros(2))
  hence "registry_ok ?l" "live_but (p_guid plr) ch ?l" "s_joined ?l = s_joined ?s" using silent_leave by blast+
  hence "lists_ok ?l" using d by (intro live_but_removed [of _ "p_guid plr" ch]) auto
  thus ?thesis by (simp add: CleanupChannels_step_def lists_left Let_def split: option.split)
qed

lemma lists_Cleanup: "lists_ok st \<Longrightarrow> CleanupChannels fuel w plr st = Some st' \<Longrightarrow> lists_ok st'"
proof (induction fuel arbitrary: st)
  case 0
  thus ?case by (simp add: CleanupChannels.simps split: list.splits)
next
  case (Suc fuel)
  thus ?case
    using Suc.IH [OF lists_Cleanup_step [OF Suc.prems(1)]]
    by (cases "s_joined st (p_guid plr)") (simp_all add: CleanupChannels.simps [of "Suc fuel"])
qed

lemma lists_local_step:
  assumes "lists_ok st" "local_step w pat zone plr m a st = (left, st')"
  shows "lists_ok st'"
proof -
  have move: "lists_ok (let s = on_chan b (Join w b p '''') s; s = on_chan a (Leave w a p False) s;
      s = s\<lparr>s_joined := (s_joined s)(p := removeAll a (s_joined s p))\<rparr> in Mgr_LeftChannel m n s)"
    if "lists_ok s" for s b p n
  proof -
    let ?j = "on_chan b (Join w b p '''') s"
    let ?l = "on_chan a (Leave w a p False) ?j"
    let ?r = "?l\<lparr>s_joined := (s_joined ?l)(p := removeAll a (s_joined ?l p))\<rparr>"
    have j: "lists_ok ?j" using lists_on_chan [OF that, of "(w, OpJoin p '''')" b] by simp
    hence l: "registry_ok ?l" "live_but p a ?l" "s_joined ?l = s_joined ?j" using silent_leave lists_ok_live by blast+
    have "registry_ok ?r" "live_but p a ?r" "a \<notin> set (s_joined ?r p)"
      using l(1,2) by (auto simp: registry_ok_def live_but_def)
    moreover have "\<forall>q. distinct (s_joined ?r q)" using j by (simp add: l(3) lists_ok_def distinct_removeAll)
    ultimately have "lists_ok ?r" by (rule live_but_removed)
    thus ?thesis by (simp add: lists_left Let_def)
  qed
  show ?thesis
  proof (cases "GetJoinChannel w m (local_name pat zone (m_channelId (the (s_heap st a)))) (m_channelId (the (s_heap st a))) st")
    case (Pair b s)
    hence "lists_ok s" using lists_GetJoinChannel [OF assms(1)] by blast
    thus ?thesis using assms Pair move [of s b "p_guid plr" "m_name (the (s_heap st a))"]
      by (auto simp: local_step_def Let_def split: option.splits if_splits)
  qed
qed

lemma lists_local_loop: "lists_ok st \<Longrightarrow> local_loop fuel w pat zone plr m k st = Some st' \<Longrightarrow> lists_ok st'"
proof (induction fuel arbitrary: k st)
  case 0
  thus ?case by (simp add: local_loop.simps split: if_splits)
next
  case (Suc fuel)
  obtain left s where s: "local_step w pat zone plr m (s_joined st (p_guid plr) ! k) st = (left, s)" by fastforce
  have "lists_ok s" by (rule lists_local_step [OF Suc.prems(1) s])
  thus ?case using Suc.IH [of s] Suc.prems s by (simp add: local_loop.simps [of "Suc fuel"] split: if_splits)
qed

lemma lists_UpdateLocalChannels:
  "lists_ok st \<Longrightarrow> UpdateLocalChannels fuel w areas pat plr z st = Some st' \<Longrightarrow> lists_ok st'"
  by (auto simp: UpdateLocalChannels_def split: if_splits option.splits intro: lists_local_loop)

lemma lists_LFG:
  assumes "lists_ok st" "FindPlayer w (p_guid plr) \<noteq> None"
  shows "lists_ok (LeaveLFGChannel w plr st)"
  using assms lists_on_chan [OF assms(1), of "(w, OpLeave (p_guid plr) True)"]
  by (simp add: LeaveLFGChannel_def split: option.split)

section \<open>Everything that touches the registries\<close>

inductive chat_run :: "(string \<Rightarrow> string option) \<Rightarrow> mgr_state \<Rightarrow> bool" for normal where
  start: "chat_run normal mgr_empty"
| request: "chat_run normal st \<Longrightarrow> chat_run normal (handle normal r st)"
| zone: "chat_run normal st \<Longrightarrow> UpdateLocalChannels fuel w areas pat plr newZone st = Some st' \<Longrightarrow> chat_run normal st'"
| lfg: "chat_run normal st \<Longrightarrow> FindPlayer w (p_guid plr) = Some plr \<Longrightarrow> chat_run normal (LeaveLFGChannel w plr st)"
| logout: "chat_run normal st \<Longrightarrow> CleanupChannels (length (s_joined st (p_guid plr))) w plr st = Some st' \<Longrightarrow>
    chat_run normal st'"

lemma handle_lists: "lists_ok st \<Longrightarrow> lists_ok (handle normal r st)"
  by (auto simp: handle_def intro!: life.handle_req_keeps)

lemma chat_run_lists: "chat_run normal st \<Longrightarrow> lists_ok st"
proof (induction rule: chat_run.induct)
  case start
  thus ?case using mgr_empty_inv by (simp add: lists_ok_def) (simp add: mgr_empty_def)
qed (auto intro: handle_lists lists_UpdateLocalChannels lists_LFG lists_Cleanup)

text \<open>
  C2: from the empty registries on, in whatever order players make requests of the chat handlers, change
  zone, leave the LFG channel and log out, and however the factions share or separate their channels: no
  player's list and no registry holds the address of a deleted channel, a player's list holds only
  channels the player is on, each once, and a registered channel has the name it is registered under.
\<close>

theorem no_dangling_channel:
  assumes "chat_run normal st"
  shows "(\<forall>p. distinct (s_joined st p) \<and> list_all (\<lambda>a. \<exists>c. s_heap st a = Some c \<and> IsOn c p) (s_joined st p)) \<and>
    (\<forall>m. list_all (\<lambda>(n, a). map_option m_name (s_heap st a) = Some n) (channels m st))"
proof -
  have inv: "lists_ok st" by (rule chat_run_lists [OF assms])
  then have "map_option m_name (s_heap st a) = Some n" if "(n, a) \<in> set (channels m st)" for m n a
    using that om_ok_map_of [of "channels m st"] by (fastforce simp: lists_ok_def mgr_inv_def registry_ok_def)
  with inv show ?thesis
    by (auto simp: lists_ok_def mgr_inv_def live_lists_def list_all_iff)
qed

section \<open>A zone change that never ends\<close>

text \<open>
  A ring of built-in channels: the name the loop computes for each is the name under which the next one
  is registered. None refuses the player.
\<close>

definition open_to :: "u64 \<Rightarrow> channel \<Rightarrow> bool" where
  "open_to p c \<longleftrightarrow> IsConstant c \<and> m_password c = [] \<and> \<not> IsBanned c p \<and> \<not> IsLFG c \<and> m_flags c \<noteq> 0x38 \<and>
     \<not> IsOwner (player_at c p)"

definition ring ::
  "chat_world \<Rightarrow> (u32 \<Rightarrow> string) \<Rightarrow> string \<Rightarrow> mgr \<Rightarrow> u64 \<Rightarrow> nat set \<Rightarrow> (nat \<Rightarrow> nat) \<Rightarrow> mgr_state \<Rightarrow> bool" where
  "ring w pat zone m p A succ st \<longleftrightarrow>
     inj_on succ A \<and>
     (\<forall>a \<in> A. succ a \<in> A \<and> succ a \<noteq> a \<and>
        (\<exists>c fl. s_heap st a = Some c \<and> open_to p c \<and> w_chatChannels w (m_channelId c) = Some fl \<and> fl AND 4 \<noteq> 4 \<and>
           map_of (channels m st) (local_name pat zone (m_channelId c)) = Some (succ a) \<and>
           map_of (channels m st) (m_name c) = Some a))"

definition on_two :: "u64 \<Rightarrow> nat set \<Rightarrow> nat \<Rightarrow> nat \<Rightarrow> mgr_state \<Rightarrow> bool" where
  "on_two p A x y st \<longleftrightarrow>
     s_joined st p = [x, y] \<and> (\<forall>a \<in> A. \<forall>c. s_heap st a = Some c \<longrightarrow> (IsOn c p \<longleftrightarrow> a = x \<or> a = y))"

lemma open_enter:
  "IsConstant c \<Longrightarrow> chan_enter p c = c\<lparr>players := om_put p \<lparr>pi_player = p, pi_flags = 0\<rparr> (players c)\<rparr>"
  by (simp add: chan_enter_def IsConstant_def Let_def)

lemma open_leave: "open_to p c \<Longrightarrow> chan_leave p c = c\<lparr>players := om_erase p (players c)\<rparr>"
  by (simp add: chan_leave_def open_to_def Let_def)

lemma open_players:
  assumes "open_to p c"
  shows "open_to p (c\<lparr>players := om_put p \<lparr>pi_player = p, pi_flags = 0\<rparr> (players c)\<rparr>)"
    "open_to p (c\<lparr>players := om_erase p (players c)\<rparr>)"
  using assms
  by (simp_all add: open_to_def IsConstant_def IsBanned_def IsLFG_def player_at_def om_at_def IsOwner_def PlayerInfo_zero_def)

lemma ring_step:
  assumes r: "ring w pat zone m (p_guid plr) A succ st" and o: "on_two (p_guid plr) A x y st"
    and xy: "x \<in> A" "y \<in> A" "x \<noteq> y" "y \<noteq> succ x" and plr: "FindPlayer w (p_guid plr) = Some plr"
  shows "\<exists>st'. local_step w pat zone plr m x st = (True, st') \<and> ring w pat zone m (p_guid plr) A succ st' \<and>
    on_two (p_guid plr) A y (succ x) st'"
proof -
  let ?p = "p_guid plr" and ?b = "succ x"
  obtain c fl where c: "s_heap st x = Some c" "open_to ?p c" "w_chatChannels w (m_channelId c) = Some fl" "fl AND 4 \<noteq> 4"
    "map_of (channels m st) (local_name pat zone (m_channelId c)) = Some ?b" "map_of (channels m st) (m_name c) = Some x"
    using r xy(1) unfolding ring_def by blast
  have b: "?b \<in> A" "?b \<noteq> x" using r xy(1) by (auto simp: ring_def)
  obtain d where d: "s_heap st ?b = Some d" "open_to ?p d" using r b(1) unfolding ring_def by blast
  have on: "IsOn c ?p" "\<not> IsOn d ?p" using o c(1) d(1) xy b by (auto simp: on_two_def)
  define d' where "d' = d\<lparr>players := om_put ?p \<lparr>pi_player = ?p, pi_flags = 0\<rparr> (players d)\<rparr>"
  define c' where "c' = c\<lparr>players := om_erase ?p (players c)\<rparr>"
  have adm: "Join_admits w ?p '''' d" using on(2) d(2) plr by (simp add: Join_admits_def open_to_def)
  have get: "GetJoinChannel w m (local_name pat zone (m_channelId c)) (m_channelId c) st = (?b, st)"
    by (simp add: GetJoinChannel_def c(5) om_at_def)
  define s1 where "s1 = on_chan ?b (Join w ?b ?p '''') st"
  have "c_joined (Join w ?b ?p '''' \<lparr>c_chan = d, c_joined = s_joined st, c_out = s_out st\<rparr>) = (s_joined st)(?p := s_joined st ?p @ [?b])"
    using on(2) d(2) plr by (simp add: Join_def open_to_def Let_def)
  hence s1: "s_heap s1 = (s_heap st)(?b \<mapsto> d')" "s_joined s1 = (s_joined st)(?p := [x, y, ?b])" "channels k s1 = channels k st" for k
    using adm d o by (simp_all add: s1_def on_chan_def Let_def c_chan_Join open_enter d'_def open_to_def on_two_def)
  define s2 where "s2 = on_chan x (Leave w x ?p False) s1"
  have s2: "s_heap s2 = (s_heap st)(?b \<mapsto> d', x \<mapsto> c')" "s_joined s2 = (s_joined st)(?p := [x, y, ?b])" "channels k s2 = channels k st" for k
    using on(1) c(1,2) b(2) s1 by (simp_all add: s2_def on_chan_def Let_def c_chan_Leave open_leave c_joined_Leave_silent c'_def)
  define s3 where "s3 = s2\<lparr>s_joined := (s_joined s2)(?p := removeAll x (s_joined s2 ?p))\<rparr>"
  have s3: "s_heap s3 = (s_heap st)(?b \<mapsto> d', x \<mapsto> c')" "s_joined s3 ?p = [y, ?b]" "channels k s3 = channels k st" for k
    using s2 xy b(2) by (simp_all add: s3_def)
  have "Mgr_LeftChannel m (m_name c) s3 = s3"
    using c(2,6) s3 by (simp add: Mgr_LeftChannel_def c'_def open_to_def IsConstant_def)
  hence "local_step w pat zone plr m x st = (True, s3)"
    using c get b(2) by (auto simp: local_step_def open_to_def Let_def s1_def [symmetric] s2_def [symmetric] s3_def [symmetric])
  moreover have "ring w pat zone m ?p A succ s3"
    unfolding ring_def
  proof (intro conjI ballI)
    show "inj_on succ A" using r by (simp add: ring_def)
    fix a assume a: "a \<in> A"
    show "succ a \<in> A" "succ a \<noteq> a" using r a by (auto simp: ring_def)
    obtain ca f where ca: "s_heap st a = Some ca" "open_to ?p ca" "w_chatChannels w (m_channelId ca) = Some f" "f AND 4 \<noteq> 4"
      "map_of (channels m st) (local_name pat zone (m_channelId ca)) = Some (succ a)" "map_of (channels m st) (m_name ca) = Some a"
      using r a unfolding ring_def by blast
    show "\<exists>c fl. s_heap s3 a = Some c \<and> open_to ?p c \<and> w_chatChannels w (m_channelId c) = Some fl \<and> fl AND 4 \<noteq> 4 \<and>
        map_of (channels m s3) (local_name pat zone (m_channelId c)) = Some (succ a) \<and> map_of (channels m s3) (m_name c) = Some a"
      using ca c(1) d(1) open_players [OF ca(2)] b(2) by (auto simp: s3 c'_def d'_def)
  qed
  moreover have "on_two ?p A y ?b s3"
    using o c(1) d(1) xy b unfolding on_two_def by (auto simp: s3 c'_def d'_def)
  ultimately show ?thesis by blast
qed

lemma ring_never_ends:
  assumes "ring w pat zone m (p_guid plr) A succ st" "on_two (p_guid plr) A x y st" "x \<in> A" "y \<in> A" "x \<noteq> y" "y \<noteq> succ x"
    and "FindPlayer w (p_guid plr) = Some plr"
  shows "local_loop fuel w pat zone plr m 0 st = None"
  using assms(1-6)
proof (induction fuel arbitrary: st x y)
  case 0
  thus ?case by (simp add: local_loop.simps on_two_def)
next
  case (Suc fuel)
  obtain st' where s: "local_step w pat zone plr m x st = (True, st')" "ring w pat zone m (p_guid plr) A succ st'"
    "on_two (p_guid plr) A y (succ x) st'" using ring_step [OF Suc.prems assms(7)] by blast
  have n: "succ x \<in> A" "y \<noteq> succ x" "succ x \<noteq> succ y"
    using Suc.prems by (auto simp: ring_def inj_on_def)
  have "local_loop fuel w pat zone plr m 0 st' = None"
    by (rule Suc.IH [OF s(2,3) Suc.prems(4) n])
  thus ?case using Suc.prems(2) s(1) by (simp add: local_loop.simps [of "Suc fuel"] on_two_def)
qed

text \<open>
  C27: \<open>UpdateLocalChannels\<close> need not return: when built-in channels are registered in a ring, each under the
  name that the new zone gives to the one before it, and a player who may enter them all is on two of
  them, the second not the next of the first, then his change to that zone never ends, whatever the
  fuel. (Clients choose both the name and the number of a channel they join.)
\<close>

theorem zone_change_never_ends:
  assumes "ring w pat zone m (p_guid plr) A succ st" "on_two (p_guid plr) A x y st" "x \<in> A" "y \<in> A" "x \<noteq> y" "y \<noteq> succ x"
    and "FindPlayer w (p_guid plr) = Some plr" "areas newZone = Some zone" "channelMgr w (p_team plr) = Some m"
  shows "\<forall>fuel. UpdateLocalChannels fuel w areas pat plr newZone st = None"
proof -
  have "s_joined st (p_guid plr) \<noteq> []" using assms(2) by (simp add: on_two_def)
  thus ?thesis using ring_never_ends [OF assms(1-7)] assms(8,9) by (simp add: UpdateLocalChannels_def)
qed

text \<open>Anna makes the three channels of Durotar with each other's numbers, and leaves the second.\<close>

definition durotar_world :: chat_world where
  "durotar_world = \<lparr>w_players = [example_player 1 ''Anna''], w_config = \<lambda>_. False, w_names = \<lambda>_. None, w_social = [],
     w_chatChannels = [1 \<mapsto> 3, 2 \<mapsto> 59, 22 \<mapsto> 65539]\<rparr>"

definition zone_pattern :: "u32 \<Rightarrow> string" where
  "zone_pattern i = (if i = 1 then ''General - %s'' else if i = 2 then ''Trade - %s'' else ''LocalDefense - %s'')"

definition anna_asks :: "chat_req \<Rightarrow> request" where
  "anna_asks q = \<lparr>r_world = durotar_world, r_player = example_player 1 ''Anna'', r_req = q\<rparr>"

definition durotar :: mgr_state where
  "durotar = fold (handle Some) (map anna_asks [ReqJoin 2 ''General - Durotar'' '''', ReqJoin 22 ''Trade - Durotar'' '''',
     ReqJoin 1 ''LocalDefense - Durotar'' '''', ReqLeave ''Trade - Durotar'']) mgr_empty"

definition durotar_next :: "nat \<Rightarrow> nat" where
  "durotar_next a = (if a = 2 then 0 else a + 1)"

lemma durotar_heap:
  "\<exists>c. s_heap durotar 0 = Some c \<and> m_channelId c = 2 \<and> m_name c = ''General - Durotar'' \<and> open_to 1 c \<and> IsOn c 1"
  "\<exists>c. s_heap durotar 1 = Some c \<and> m_channelId c = 22 \<and> m_name c = ''Trade - Durotar'' \<and> open_to 1 c \<and> \<not> IsOn c 1"
  "\<exists>c. s_heap durotar 2 = Some c \<and> m_channelId c = 1 \<and> m_name c = ''LocalDefense - Durotar'' \<and> open_to 1 c \<and> IsOn c 1"
proof -
  have "map_option (\<lambda>c. m_channelId c = 2 \<and> m_name c = ''General - Durotar'' \<and> open_to 1 c \<and> IsOn c 1) (s_heap durotar 0) = Some True"
    by code_simp
  thus "\<exists>c. s_heap durotar 0 = Some c \<and> m_channelId c = 2 \<and> m_name c = ''General - Durotar'' \<and> open_to 1 c \<and> IsOn c 1"
    by (cases "s_heap durotar 0") simp_all
  have "map_option (\<lambda>c. m_channelId c = 22 \<and> m_name c = ''Trade - Durotar'' \<and> open_to 1 c \<and> \<not> IsOn c 1) (s_heap durotar 1) = Some True"
    by code_simp
  thus "\<exists>c. s_heap durotar 1 = Some c \<and> m_channelId c = 22 \<and> m_name c = ''Trade - Durotar'' \<and> open_to 1 c \<and> \<not> IsOn c 1"
    by (cases "s_heap durotar 1") simp_all
  have "map_option (\<lambda>c. m_channelId c = 1 \<and> m_name c = ''LocalDefense - Durotar'' \<and> open_to 1 c \<and> IsOn c 1) (s_heap durotar 2) = Some True"
    by code_simp
  thus "\<exists>c. s_heap durotar 2 = Some c \<and> m_channelId c = 1 \<and> m_name c = ''LocalDefense - Durotar'' \<and> open_to 1 c \<and> IsOn c 1"
    by (cases "s_heap durotar 2") simp_all
qed

lemma durotar_lists:
  "s_joined durotar 1 = [0, 2]"
  "map_of (channels AllianceChannelMgr durotar) ''General - Durotar'' = Some 0"
  "map_of (channels AllianceChannelMgr durotar) ''Trade - Durotar'' = Some 1"
  "map_of (channels AllianceChannelMgr durotar) ''LocalDefense - Durotar'' = Some 2"
  "local_name zone_pattern ''Durotar'' 1 = ''General - Durotar''"
  "local_name zone_pattern ''Durotar'' 2 = ''Trade - Durotar''"
  "local_name zone_pattern ''Durotar'' 22 = ''LocalDefense - Durotar''"
  by code_simp+

theorem zone_change_never_ends_witness:
  "\<forall>fuel. UpdateLocalChannels fuel durotar_world (\<lambda>_. Some ''Durotar'') zone_pattern (example_player 1 ''Anna'') 14 durotar = None"
proof -
  have p: "p_guid (example_player 1 ''Anna'') = 1" "p_team (example_player 1 ''Anna'') = ALLIANCE"
    "FindPlayer durotar_world 1 = Some (example_player 1 ''Anna'')" "getConfig durotar_world k = False" for k
    by (simp_all add: example_player_def getConfig_def durotar_world_def FindPlayer_def)
  have fl: "w_chatChannels durotar_world 1 = Some 3" "w_chatChannels durotar_world 2 = Some 59"
    "w_chatChannels durotar_world 22 = Some 65539" by (simp_all add: durotar_world_def)
  obtain c0 c1 c2 where
    c: "s_heap durotar 0 = Some c0" "m_channelId c0 = 2" "m_name c0 = ''General - Durotar''" "open_to 1 c0" "IsOn c0 1"
      "s_heap durotar 1 = Some c1" "m_channelId c1 = 22" "m_name c1 = ''Trade - Durotar''" "open_to 1 c1" "\<not> IsOn c1 1"
      "s_heap durotar 2 = Some c2" "m_channelId c2 = 1" "m_name c2 = ''LocalDefense - Durotar''" "open_to 1 c2" "IsOn c2 1"
    using durotar_heap by blast
  have "ring durotar_world zone_pattern ''Durotar'' AllianceChannelMgr 1 {0, 1, 2} durotar_next durotar"
    by (simp add: ring_def inj_on_def durotar_next_def c fl durotar_lists del: One_nat_def)
  moreover have "on_two 1 {0, 1, 2} 0 2 durotar" by (simp add: on_two_def durotar_lists c del: One_nat_def)
  ultimately show ?thesis
    by (intro zone_change_never_ends [where A = "{0, 1, 2}" and succ = durotar_next and x = 0 and y = 2])
      (simp_all add: p durotar_next_def channelMgr_def)
qed

lemma chat_run_requests: "chat_run normal st \<Longrightarrow> chat_run normal (fold (handle normal) rs st)"
  by (induction rs arbitrary: st) (simp_all add: chat_run.request)

theorem no_dangling_channel_witness:
  "\<exists>st'. CleanupChannels 2 durotar_world (example_player 1 ''Anna'') durotar = Some st' \<and> s_joined st' 1 = [] \<and>
     (\<forall>m. list_all (\<lambda>(n, a). map_option m_name (s_heap st' a) = Some n) (channels m st'))"
proof -
  have p: "p_guid (example_player 1 ''Anna'') = 1" by (simp add: example_player_def)
  have len: "length (s_joined durotar (p_guid (example_player 1 ''Anna''))) = 2" by (simp add: p durotar_lists)
  obtain st' where st': "CleanupChannels 2 durotar_world (example_player 1 ''Anna'') durotar = Some st'"
    "s_joined st' = (s_joined durotar)(1 := [])"
    using CleanupChannels_total [of durotar "example_player 1 ''Anna''" 2 durotar_world] len p by auto
  have "chat_run Some durotar" unfolding durotar_def by (rule chat_run_requests [OF chat_run.start])
  from chat_run.logout [OF this, of "example_player 1 ''Anna''" durotar_world st'] have "chat_run Some st'"
    using st'(1) len by simp
  from no_dangling_channel [OF this] st' show ?thesis by auto
qed

end
