(* ===== verification/GroupRolls.thy ===== *)
theory GroupRolls
  imports Social
begin

text \<open>
  Loot rolls of a group (game/Group.cpp): starting the rolls for the items over the threshold, the
  votes, and the end of a roll. The random numbers, the inventory check and the item data are
  arguments: \<open>e_rand\<close> gives the results of \<open>urand(1, 100)\<close> in the order they are drawn, and
  \<open>e_can_store\<close> the answer of \<open>CanStoreNewItem\<close>, 0 for \<open>EQUIP_ERR_OK\<close>.
\<close>

section \<open>State\<close>

datatype RollVote =
    ROLL_PASS
  | ROLL_NEED
  | ROLL_GREED
  | ROLL_NOT_EMITED_YET
  | ROLL_NOT_VALID

record loot_item =
  li_itemid :: u32
  li_randomSuffix :: u32
  li_randomPropertyId :: u32
  li_count :: u8
  li_is_looted :: bool
  li_is_blocked :: bool
  li_freeforall :: bool
  li_is_underthreshold :: bool

record loot =
  items :: "loot_item list"
  unlootedCount :: u8

text \<open>\<open>r_loot\<close> is the roll's link to its loot, gone once the loot is.\<close>

record roll =
  itemGUID :: u64
  r_itemid :: u32
  itemRandomPropId :: u32
  itemRandomSuffix :: u32
  playerVote :: "(u64, RollVote) omap"
  totalPlayersRolling :: u8
  totalNeed :: u8
  totalGreed :: u8
  totalPass :: u8
  itemSlot :: u8
  r_loot :: "nat option"

datatype roll_event =
    RollSend u64 packet
  | RollStored u64 u32 u32
  | RollEquipError u64 u8
  | RollItemRemoved nat u8

record rolls =
  RollId :: "roll list"
  rs_loot :: "nat \<Rightarrow> loot"
  rs_drawn :: nat
  rs_out :: "roll_event list"

record roll_env =
  e_world :: world
  e_rand :: "nat \<Rightarrow> u8"
  e_can_store :: "u64 \<Rightarrow> u32 \<Rightarrow> u8 \<Rightarrow> u8"

definition Roll_new :: "u64 \<Rightarrow> loot_item \<Rightarrow> roll" where
  "Roll_new guid li =
     \<lparr>itemGUID = guid, r_itemid = li_itemid li, itemRandomPropId = li_randomPropertyId li,
      itemRandomSuffix = li_randomSuffix li, playerVote = [], totalPlayersRolling = 0, totalNeed = 0,
      totalGreed = 0, totalPass = 0, itemSlot = 0, r_loot = None\<rparr>"

definition r_emit :: "roll_event list \<Rightarrow> rolls \<Rightarrow> rolls" where
  "r_emit es st = st\<lparr>rs_out := rs_out st @ es\<rparr>"

section \<open>Packets\<close>

abbreviation SMSG_LOOT_ALL_PASSED :: u16 where "SMSG_LOOT_ALL_PASSED \<equiv> 0x29E"
abbreviation SMSG_LOOT_ROLL_WON :: u16 where "SMSG_LOOT_ROLL_WON \<equiv> 0x29F"
abbreviation SMSG_LOOT_START_ROLL :: u16 where "SMSG_LOOT_START_ROLL \<equiv> 0x2A1"
abbreviation SMSG_LOOT_ROLL :: u16 where "SMSG_LOOT_ROLL \<equiv> 0x2A2"
abbreviation SMSG_LOOT_MASTER_LIST :: u16 where "SMSG_LOOT_MASTER_LIST \<equiv> 0x2A4"

text \<open>Roll packets go to the voters in the world whose vote is valid.\<close>

definition to_voters :: "world \<Rightarrow> packet \<Rightarrow> roll \<Rightarrow> roll_event list" where
  "to_voters w data r =
     concat (map (\<lambda>(g, v). if FindPlayer w g \<noteq> None \<and> v \<noteq> ROLL_NOT_VALID then [RollSend g data] else [])
       (playerVote r))"

definition SendLootStartRoll :: "world \<Rightarrow> u32 \<Rightarrow> roll \<Rightarrow> rolls \<Rightarrow> rolls" where
  "SendLootStartRoll w CountDown r =
     r_emit (to_voters w (mk_packet SMSG_LOOT_START_ROLL
       [U64 (itemGUID r), U32 (ucast (totalPlayersRolling r)), U32 (r_itemid r), U32 (itemRandomSuffix r),
        U32 (itemRandomPropId r), U32 CountDown]) r)"

definition SendLootRoll :: "world \<Rightarrow> u64 \<Rightarrow> u64 \<Rightarrow> u8 \<Rightarrow> u8 \<Rightarrow> roll \<Rightarrow> rolls \<Rightarrow> rolls" where
  "SendLootRoll w SourceGuid TargetGuid RollNumber RollType r =
     r_emit (to_voters w (mk_packet SMSG_LOOT_ROLL
       [U64 SourceGuid, U32 0, U64 TargetGuid, U32 (r_itemid r), U32 (itemRandomSuffix r),
        U32 (itemRandomPropId r), U8 RollNumber, U8 RollType, U8 0]) r)"

definition SendLootRollWon :: "world \<Rightarrow> u64 \<Rightarrow> u64 \<Rightarrow> u8 \<Rightarrow> u8 \<Rightarrow> roll \<Rightarrow> rolls \<Rightarrow> rolls" where
  "SendLootRollWon w SourceGuid TargetGuid RollNumber RollType r =
     r_emit (to_voters w (mk_packet SMSG_LOOT_ROLL_WON
       [U64 SourceGuid, U32 0, U32 (r_itemid r), U32 (itemRandomSuffix r), U32 (itemRandomPropId r),
        U64 TargetGuid, U8 RollNumber, U8 RollType]) r)"

definition SendLootAllPassed :: "world \<Rightarrow> u32 \<Rightarrow> roll \<Rightarrow> rolls \<Rightarrow> rolls" where
  "SendLootAllPassed w NumberOfPlayers r =
     r_emit (to_voters w (mk_packet SMSG_LOOT_ALL_PASSED
       [U64 (itemGUID r), U32 NumberOfPlayers, U32 (r_itemid r), U32 (itemRandomPropId r),
        U32 (itemRandomSuffix r)]) r)"

section \<open>Starting rolls\<close>

text \<open>
  The looted object, and what the handlers ask about items and members: the quality of an item's
  prototype, if it has one, whether a member may see and use an item, and whether the member is near
  the object. \<open>m_online\<close> are the linked members with a session, in link order.
\<close>

record loot_object =
  m_groupLootTimer :: u32
  lootingGroupLeaderGUID :: u64

record loot_ctx =
  m_quality :: "u32 \<Rightarrow> nat option"
  m_online :: "u64 list"
  m_allowed :: "loot_item \<Rightarrow> u64 \<Rightarrow> bool"
  m_usable :: "u32 \<Rightarrow> u64 \<Rightarrow> bool"
  m_near :: "u64 \<Rightarrow> bool"
  m_newguid :: "nat \<Rightarrow> u64"
  m_threshold :: nat
  m_leader :: u64

definition add_voter :: "u64 \<Rightarrow> roll \<Rightarrow> roll" where
  "add_voter g r = r\<lparr>playerVote := om_put g ROLL_NOT_EMITED_YET (playerVote r),
     totalPlayersRolling := totalPlayersRolling r + 1\<rparr>"

definition set_item :: "nat \<Rightarrow> nat \<Rightarrow> (loot_item \<Rightarrow> loot_item) \<Rightarrow> rolls \<Rightarrow> rolls" where
  "set_item a k f st = st\<lparr>rs_loot := (rs_loot st)(a := (rs_loot st a)
     \<lparr>items := (items (rs_loot st a))[k := f (items (rs_loot st a) ! k)]\<rparr>)\<rparr>"

definition GroupLoot_item ::
  "roll_env \<Rightarrow> loot_ctx \<Rightarrow> nat \<Rightarrow> nat \<Rightarrow> loot_object \<times> rolls \<Rightarrow> loot_object \<times> rolls" where
  "GroupLoot_item e x a k ost =
     (let (obj, st) = ost; i = items (rs_loot st a) ! k in
      case m_quality x (li_itemid i) of
        None \<Rightarrow> (obj, st)
      | Some q \<Rightarrow>
          if q \<ge> m_threshold x \<and> \<not> li_freeforall i
          then
            (let r = fold (\<lambda>g r. if m_allowed x i g \<and> m_near x g then add_voter g r else r) (m_online x)
                       (Roll_new (m_newguid x (length (RollId st))) i);
                 r = r\<lparr>r_loot := Some a, itemSlot := of_nat k\<rparr>;
                 st = SendLootStartRoll (e_world e) 60000 r st;
                 st = set_item a k (\<lambda>i. i\<lparr>li_is_blocked := True\<rparr>) st;
                 obj = obj\<lparr>m_groupLootTimer := 60000, lootingGroupLeaderGUID := m_leader x\<rparr>
             in (obj, st\<lparr>RollId := RollId st @ [r]\<rparr>))
          else (obj, set_item a k (\<lambda>i. i\<lparr>li_is_underthreshold := True\<rparr>) st))"

definition GroupLoot :: "roll_env \<Rightarrow> loot_ctx \<Rightarrow> nat \<Rightarrow> loot_object \<times> rolls \<Rightarrow> loot_object \<times> rolls" where
  "GroupLoot e x a ost = fold (GroupLoot_item e x a) [0..<length (items (rs_loot (snd ost) a))] ost"

text \<open>
  \<open>NeedBeforeGreed\<close> reads the quality without looking whether the prototype exists: the result is
  nothing where the code dereferences a null pointer.
\<close>

fun NeedBeforeGreed_loop :: "roll_env \<Rightarrow> loot_ctx \<Rightarrow> nat \<Rightarrow> nat list \<Rightarrow> rolls \<Rightarrow> rolls option" where
  "NeedBeforeGreed_loop e x a [] st = Some st"
| "NeedBeforeGreed_loop e x a (k # ks) st =
     (let i = items (rs_loot st a) ! k in
      case m_quality x (li_itemid i) of
        None \<Rightarrow> None
      | Some q \<Rightarrow>
          if q \<ge> m_threshold x \<and> \<not> li_freeforall i
          then
            (let r = fold (\<lambda>g r. if m_usable x (li_itemid i) g \<and> m_allowed x i g \<and> m_near x g
                       then add_voter g r else r) (m_online x)
                       (Roll_new (m_newguid x (length (RollId st))) i)
             in if totalPlayersRolling r > 0
                then
                  (let r = r\<lparr>r_loot := Some a, itemSlot := of_nat k\<rparr>;
                       st = SendLootStartRoll (e_world e) 60000 r st;
                       st = set_item a k (\<lambda>i. i\<lparr>li_is_blocked := True\<rparr>) st
                   in NeedBeforeGreed_loop e x a ks (st\<lparr>RollId := RollId st @ [r]\<rparr>))
                else NeedBeforeGreed_loop e x a ks st)
          else NeedBeforeGreed_loop e x a ks (set_item a k (\<lambda>i. i\<lparr>li_is_underthreshold := True\<rparr>) st))"

definition NeedBeforeGreed :: "roll_env \<Rightarrow> loot_ctx \<Rightarrow> nat \<Rightarrow> rolls \<Rightarrow> rolls option" where
  "NeedBeforeGreed e x a st = NeedBeforeGreed_loop e x a [0..<length (items (rs_loot st a))] st"

text \<open>The first byte, written as the member count, is overwritten with the count of near members.\<close>

definition MasterLoot :: "world \<Rightarrow> loot_ctx \<Rightarrow> u64 \<Rightarrow> rolls \<Rightarrow> rolls" where
  "MasterLoot w x playerGUID st =
     (if FindPlayer w playerGUID = None then st
      else
        (let near = filter (\<lambda>g. FindPlayer w g \<noteq> None \<and> m_near x g) (m_online x);
             data = mk_packet SMSG_LOOT_MASTER_LIST (U8 (of_nat (length near)) # map U64 near)
         in r_emit (map (\<lambda>g. RollSend g data) (filter (m_near x) (m_online x))) st))"

section \<open>The end of a roll\<close>

text \<open>
  One throw per voter with this vote; a throw wins only when it is higher than every earlier one.
\<close>

fun throw_dice :: "roll_env \<Rightarrow> RollVote \<Rightarrow> u8 \<Rightarrow> roll \<Rightarrow> (u64, RollVote) omap \<Rightarrow> u64 \<times> u8 \<times> rolls \<Rightarrow> u64 \<times> u8 \<times> rolls" where
  "throw_dice e v code r [] acc = acc"
| "throw_dice e v code r ((g, v') # vs) (maxguid, maxresul, st) =
     (if v' \<noteq> v then throw_dice e v code r vs (maxguid, maxresul, st)
      else
        (let randomN = e_rand e (rs_drawn st);
             st = SendLootRoll (e_world e) 0 g randomN code r (st\<lparr>rs_drawn := rs_drawn st + 1\<rparr>)
         in throw_dice e v code r vs (if maxresul < randomN then (g, randomN, st) else (maxguid, maxresul, st))))"

definition award :: "roll_env \<Rightarrow> roll \<Rightarrow> nat \<Rightarrow> u64 \<Rightarrow> rolls \<Rightarrow> rolls" where
  "award e r a winner st =
     (case FindPlayer (e_world e) winner of
        None \<Rightarrow> st
      | Some _ \<Rightarrow>
          (let k = unat (itemSlot r); item = items (rs_loot st a) ! k;
               msg = e_can_store e winner (r_itemid r) (li_count item)
           in if msg = 0
              then (let st = set_item a k (\<lambda>i. i\<lparr>li_is_looted := True\<rparr>) st;
                        st = r_emit [RollItemRemoved a (itemSlot r)] st;
                        st = st\<lparr>rs_loot := (rs_loot st)(a := (rs_loot st a)
                               \<lparr>unlootedCount := unlootedCount (rs_loot st a) - 1\<rparr>)\<rparr>
                    in r_emit [RollStored winner (r_itemid r) (li_randomPropertyId item)] st)
              else r_emit [RollEquipError winner msg] (set_item a k (\<lambda>i. i\<lparr>li_is_blocked := False\<rparr>) st)))"

definition contest :: "roll_env \<Rightarrow> RollVote \<Rightarrow> u8 \<Rightarrow> roll \<Rightarrow> nat \<Rightarrow> rolls \<Rightarrow> rolls" where
  "contest e v code r a st =
     (case playerVote r of
        [] \<Rightarrow> st
      | (g, _) # _ \<Rightarrow>
          (let (maxguid, maxresul, st) = throw_dice e v code r (playerVote r) (g, 0, st);
               st = SendLootRollWon (e_world e) 0 maxguid maxresul code r st
           in award e r a maxguid st))"

definition remove_nth :: "nat \<Rightarrow> 'a list \<Rightarrow> 'a list" where
  "remove_nth k xs = take k xs @ drop (Suc k) xs"

definition CountTheRoll :: "roll_env \<Rightarrow> nat \<Rightarrow> u32 \<Rightarrow> rolls \<Rightarrow> rolls" where
  "CountTheRoll e rollI NumberOfPlayers st =
     (let r = RollId st ! rollI; del = (\<lambda>st. st\<lparr>RollId := remove_nth rollI (RollId st)\<rparr>) in
      case r_loot r of
        None \<Rightarrow> del st
      | Some a \<Rightarrow>
          if totalNeed r > 0 then del (contest e ROLL_NEED 1 r a st)
          else if totalGreed r > 0 then del (contest e ROLL_GREED 2 r a st)
          else del (set_item a (unat (itemSlot r)) (\<lambda>i. i\<lparr>li_is_blocked := False\<rparr>)
                     (SendLootAllPassed (e_world e) NumberOfPlayers r st)))"

section \<open>Votes\<close>

fun GetRoll :: "u64 \<Rightarrow> roll list \<Rightarrow> nat option" where
  "GetRoll g [] = None"
| "GetRoll g (r # rs) =
     (if itemGUID r = g \<and> r_loot r \<noteq> None then Some 0 else map_option Suc (GetRoll g rs))"

definition set_roll :: "nat \<Rightarrow> roll \<Rightarrow> rolls \<Rightarrow> rolls" where
  "set_roll k r st = st\<lparr>RollId := (RollId st)[k := r]\<rparr>"

definition cast_vote :: "world \<Rightarrow> u64 \<Rightarrow> u8 \<Rightarrow> nat \<Rightarrow> roll \<Rightarrow> rolls \<Rightarrow> rolls" where
  "cast_vote w playerGUID Choice k r st =
     (if Choice = 0
      then (let st = SendLootRoll w 0 playerGUID 128 128 r st
            in set_roll k (r\<lparr>totalPass := totalPass r + 1, playerVote := om_put playerGUID ROLL_PASS (playerVote r)\<rparr>) st)
      else if Choice = 1
      then (let st = SendLootRoll w 0 playerGUID 0 0 r st
            in set_roll k (r\<lparr>totalNeed := totalNeed r + 1, playerVote := om_put playerGUID ROLL_NEED (playerVote r)\<rparr>) st)
      else if Choice = 2
      then (let st = SendLootRoll w 0 playerGUID 128 2 r st
            in set_roll k (r\<lparr>totalGreed := totalGreed r + 1, playerVote := om_put playerGUID ROLL_GREED (playerVote r)\<rparr>) st)
      else st)"

definition complete :: "roll \<Rightarrow> bool" where
  "complete r \<longleftrightarrow> unat (totalPass r) + unat (totalGreed r) + unat (totalNeed r) \<ge> unat (totalPlayersRolling r)"

definition CountRollVote :: "roll_env \<Rightarrow> u64 \<Rightarrow> u64 \<Rightarrow> u32 \<Rightarrow> u8 \<Rightarrow> rolls \<Rightarrow> rolls" where
  "CountRollVote e playerGUID Guid NumberOfPlayers Choice st =
     (case GetRoll Guid (RollId st) of
        None \<Rightarrow> st
      | Some k \<Rightarrow>
          (let r = RollId st ! k in
           if \<not> om_mem playerGUID (playerVote r) then st
           else if (case r_loot r of None \<Rightarrow> False | Some a \<Rightarrow> items (rs_loot st a) = []) then st
           else
             (let st = cast_vote (e_world e) playerGUID Choice k r st
              in if complete (RollId st ! k) then CountTheRoll e k NumberOfPlayers st else st)))"

fun EndRoll :: "nat \<Rightarrow> roll_env \<Rightarrow> u32 \<Rightarrow> rolls \<Rightarrow> rolls option" where
  "EndRoll fuel e members st =
     (case RollId st of
        [] \<Rightarrow> Some st
      | _ # _ \<Rightarrow> (case fuel of 0 \<Rightarrow> None | Suc fuel' \<Rightarrow> EndRoll fuel' e members (CountTheRoll e 0 members st)))"

declare EndRoll.simps [simp del]

text \<open>
  A member leaves: the vote is taken out of every roll; the call of \<open>CountRollVote\<close> with choice 3 is
  meant to end the rolls that waited for this vote only.
\<close>

definition forget_vote :: "u64 \<Rightarrow> roll \<Rightarrow> roll" where
  "forget_vote guid r =
     (case map_of (playerVote r) guid of
        None \<Rightarrow> r
      | Some v \<Rightarrow>
          r\<lparr>totalGreed := (if v = ROLL_GREED then totalGreed r - 1 else totalGreed r),
            totalNeed := (if v = ROLL_NEED then totalNeed r - 1 else totalNeed r),
            totalPass := (if v = ROLL_PASS then totalPass r - 1 else totalPass r),
            totalPlayersRolling := (if v \<noteq> ROLL_NOT_VALID then totalPlayersRolling r - 1 else totalPlayersRolling r),
            playerVote := om_erase guid (playerVote r)\<rparr>)"

definition removeRolls :: "roll_env \<Rightarrow> u64 \<Rightarrow> u32 \<Rightarrow> rolls \<Rightarrow> rolls" where
  "removeRolls e guid members st =
     fold (\<lambda>k st.
       if k < length (RollId st) \<and> om_mem guid (playerVote (RollId st ! k))
       then (let r = forget_vote guid (RollId st ! k)
             in CountRollVote e guid (itemGUID r) (members - 1) 3 (set_roll k r st))
       else st) [0..<length (RollId st)] st"

section \<open>Tallies\<close>

text \<open>
  What the counters of a roll mean: one entry of the vote table per player rolling, and each counter
  the number of votes of its kind.
\<close>

definition tallies_ok :: "roll \<Rightarrow> bool" where
  "tallies_ok r \<longleftrightarrow>
     om_ok (playerVote r) \<and> om_count (\<lambda>v. v = ROLL_NOT_VALID) (playerVote r) = 0 \<and>
     length (playerVote r) < 256 \<and> unat (totalPlayersRolling r) = length (playerVote r) \<and>
     unat (totalNeed r) = om_count (\<lambda>v. v = ROLL_NEED) (playerVote r) \<and>
     unat (totalGreed r) = om_count (\<lambda>v. v = ROLL_GREED) (playerVote r) \<and>
     unat (totalPass r) = om_count (\<lambda>v. v = ROLL_PASS) (playerVote r)"

definition vote :: "u64 \<Rightarrow> RollVote \<Rightarrow> roll \<Rightarrow> roll" where
  "vote g v r = r\<lparr>playerVote := om_put g v (playerVote r),
     totalPass := (if v = ROLL_PASS then totalPass r + 1 else totalPass r),
     totalNeed := (if v = ROLL_NEED then totalNeed r + 1 else totalNeed r),
     totalGreed := (if v = ROLL_GREED then totalGreed r + 1 else totalGreed r)\<rparr>"

lemma om_count_le: "om_count P m \<le> length m"
  by (simp add: om_count_def)

lemma om_count_lt: "map_of m k = Some v \<Longrightarrow> \<not> P v \<Longrightarrow> om_count P m < length m"
proof -
  assume "map_of m k = Some v" "\<not> P v"
  then have "(k, v) \<in> set m" "\<not> P (snd (k, v))" by (auto dest: map_of_SomeD)
  then show ?thesis unfolding om_count_def by (rule length_filter_less)
qed

lemma unat_suc8: "unat (x :: u8) < 255 \<Longrightarrow> unat (x + 1) = unat x + 1"
  by (simp add: unat_word_ariths)

lemma unat_pred8: "0 < unat (x :: u8) \<Longrightarrow> unat (x - 1) = unat x - 1"
  by (metis unat_gt_0 unat_minus_one)

lemma om_count_change:
  "om_ok m \<Longrightarrow> map_of m k = Some v \<Longrightarrow>
    om_count P (om_put k v' m) + of_bool (P v) = om_count P m + of_bool (P v')"
  using om_count_put [of m P k v'] by (simp add: om_holds_def)

lemma vote_tallies:
  assumes "tallies_ok r" "map_of (playerVote r) g = Some ROLL_NOT_EMITED_YET"
    and "v \<in> {ROLL_PASS, ROLL_NEED, ROLL_GREED}"
  shows "tallies_ok (vote g v r)"
proof -
  have c: "om_count P (om_put g v (playerVote r)) + of_bool (P ROLL_NOT_EMITED_YET) =
      om_count P (playerVote r) + of_bool (P v)" for P
    using assms(1,2) by (intro om_count_change) (simp_all add: tallies_ok_def)
  have lt: "om_count (\<lambda>v. v = u) (playerVote r) < 255" if "u \<noteq> ROLL_NOT_EMITED_YET" for u
    using om_count_lt [OF assms(2), of "\<lambda>v. v = u"] that assms(1) by (auto simp: tallies_ok_def)
  have l: "length (om_put g v (playerVote r)) = length (playerVote r)"
    using assms(1,2) by (simp add: length_om_put tallies_ok_def)
  show ?thesis
    using assms(1,3) c [of "\<lambda>v. v = ROLL_NEED"] c [of "\<lambda>v. v = ROLL_GREED"] c [of "\<lambda>v. v = ROLL_PASS"]
      c [of "\<lambda>v. v = ROLL_NOT_VALID"] lt l
    by (auto simp: tallies_ok_def vote_def unat_suc8)
qed

lemma forget_tallies:
  assumes "tallies_ok r"
  shows "tallies_ok (forget_vote g r)"
proof (cases "map_of (playerVote r) g")
  case (Some v)
  have ok: "om_ok (playerVote r)" using assms by (simp add: tallies_ok_def)
  have e: "om_count P (om_erase g (playerVote r)) + of_bool (P v) = om_count P (playerVote r)" for P
    using om_count_erase [OF ok, of P g] Some by (simp add: om_holds_def)
  have l: "length (om_erase g (playerVote r)) = length (playerVote r) - 1"
    using ok Some by (simp add: length_om_erase)
  have nv: "v \<noteq> ROLL_NOT_VALID"
    using e [of "\<lambda>v. v = ROLL_NOT_VALID"] assms by (auto simp: tallies_ok_def)
  have ne: "0 < length (playerVote r)" using Some by (cases "playerVote r") auto
  show ?thesis
    using assms Some e [of "\<lambda>v. v = ROLL_NEED"] e [of "\<lambda>v. v = ROLL_GREED"] e [of "\<lambda>v. v = ROLL_PASS"]
      e [of "\<lambda>v. v = ROLL_NOT_VALID"] l nv ne
    by (cases v) (auto simp: tallies_ok_def forget_vote_def unat_pred8)
qed (use assms in \<open>simp add: forget_vote_def\<close>)

section \<open>Operations on the list of rolls\<close>

lemma RollId_simps [simp]:
  "RollId (r_emit es st) = RollId st" "RollId (SendLootRoll w a b n t r st) = RollId st"
  "RollId (SendLootRollWon w a b n t r st) = RollId st" "RollId (SendLootAllPassed w m r st) = RollId st"
  "RollId (SendLootStartRoll w c r st) = RollId st" "RollId (set_item l k f st) = RollId st"
  "RollId (set_roll k r st) = (RollId st)[k := r]" "RollId (award e r l g st) = RollId st"
  by (simp_all add: r_emit_def SendLootRoll_def SendLootRollWon_def SendLootAllPassed_def SendLootStartRoll_def
      set_item_def set_roll_def award_def Let_def split: option.split)

lemma RollId_throw: "throw_dice e v code r vs acc = (g, n, st') \<Longrightarrow> RollId st' = RollId (snd (snd acc))"
  by (induction e v code r vs acc rule: throw_dice.induct) (auto simp: Let_def split: if_splits)

lemma RollId_contest [simp]: "RollId (contest e v code r a st) = RollId st"
  by (cases "playerVote r")
    (auto simp: contest_def simp del: throw_dice.simps dest!: RollId_throw split: prod.split)

lemma RollId_CountTheRoll: "RollId (CountTheRoll e k n st) = remove_nth k (RollId st)"
  by (simp add: CountTheRoll_def Let_def split: option.split)

lemma GetRoll_bound:
  "GetRoll g rs = Some k \<Longrightarrow> k < length rs \<and> itemGUID (rs ! k) = g \<and> r_loot (rs ! k) \<noteq> None"
  by (induction g rs arbitrary: k rule: GetRoll.induct) (auto split: if_splits)

lemma cast_vote_RollId:
  "Choice = 0 \<Longrightarrow> k < length (RollId st) \<Longrightarrow> RollId (cast_vote w p Choice k r st) = (RollId st)[k := vote p ROLL_PASS r]"
  "Choice = 1 \<Longrightarrow> k < length (RollId st) \<Longrightarrow> RollId (cast_vote w p Choice k r st) = (RollId st)[k := vote p ROLL_NEED r]"
  "Choice = 2 \<Longrightarrow> k < length (RollId st) \<Longrightarrow> RollId (cast_vote w p Choice k r st) = (RollId st)[k := vote p ROLL_GREED r]"
  "Choice > 2 \<Longrightarrow> cast_vote w p Choice k r st = st"
  by (cases r; auto simp: cast_vote_def vote_def Let_def)+

section \<open>Votes and tallies\<close>

text \<open>A vote that has been cast, as opposed to one not given yet.\<close>

fun cast :: "RollVote option \<Rightarrow> bool" where
  "cast (Some ROLL_PASS) = True"
| "cast (Some ROLL_NEED) = True"
| "cast (Some ROLL_GREED) = True"
| "cast _ = False"

lemma in_remove_nth: "x \<in> set (remove_nth k xs) \<Longrightarrow> x \<in> set xs"
  by (auto simp: remove_nth_def dest: in_set_takeD in_set_dropD)

lemma unat_numeral_u8: "unat (2 :: u8) = 2"
  by simp

lemma small_choice: "x = 0 \<or> x = 1 \<or> x = 2 \<or> x > (2 :: u8)"
proof (cases "x > 2")
  case False
  then have "unat x = 0 \<or> unat x = 1 \<or> unat x = 2" by (auto simp: word_less_nat_alt)
  then show ?thesis by (metis unat_0 unat_1 unat_numeral_u8 word_unat_eq_iff)
qed simp

lemma list_all_update: "list_all P xs \<Longrightarrow> P y \<Longrightarrow> list_all P (xs[k := y])"
  using set_update_subset_insert [of xs k y] by (auto simp: list_all_iff)

lemma CountRollVote_tallies:
  assumes "list_all tallies_ok (RollId st)"
    and "\<And>k. GetRoll Guid (RollId st) = Some k \<Longrightarrow> \<not> cast (map_of (playerVote (RollId st ! k)) p)"
  shows "list_all tallies_ok (RollId (CountRollVote e p Guid n Choice st))"
proof (cases "GetRoll Guid (RollId st)")
  case (Some k)
  let ?r = "RollId st ! k"
  have k: "k < length (RollId st)" using GetRoll_bound [OF Some] by simp
  then have r: "tallies_ok ?r" using assms(1) by (simp add: list_all_length)
  show ?thesis
  proof (cases "om_mem p (playerVote ?r) \<and> \<not> (case r_loot ?r of None \<Rightarrow> False | Some a \<Rightarrow> items (rs_loot st a) = [])")
    case True
    then obtain v where v: "map_of (playerVote ?r) p = Some v" by auto
    then have "v \<noteq> ROLL_NOT_VALID"
      using r om_count_def [of "\<lambda>v. v = ROLL_NOT_VALID" "playerVote ?r"] map_of_SomeD [OF v]
      by (auto simp: tallies_ok_def filter_empty_conv)
    with v assms(2) [OF Some] have v: "map_of (playerVote ?r) p = Some ROLL_NOT_EMITED_YET"
      by (cases v) auto
    let ?st = "cast_vote (e_world e) p Choice k ?r st"
    have ch: "Choice = 0 \<or> Choice = 1 \<or> Choice = 2 \<or> Choice > 2" by (rule small_choice)
    then have "list_all tallies_ok (RollId ?st)"
      by (elim disjE) (simp_all add: cast_vote_RollId k assms(1) list_all_update vote_tallies [OF r v])
    then have "list_all tallies_ok (RollId (if complete (RollId ?st ! k) then CountTheRoll e k n ?st else ?st))"
      by (auto simp: RollId_CountTheRoll list_all_iff dest: in_remove_nth)
    with True Some v show ?thesis by (simp add: CountRollVote_def Let_def)
  next
    case False
    with assms(1) Some show ?thesis by (auto simp: CountRollVote_def Let_def)
  qed
qed (use assms(1) in \<open>simp add: CountRollVote_def\<close>)

section \<open>The highest throw wins\<close>

lemma throw_dice_result:
  assumes "throw_dice e v code r vs (g0, m0, st) = (g, m, st')"
  shows "\<exists>gs ns. gs = map fst (filter (\<lambda>e. snd e = v) vs) \<and>
    ns = map (\<lambda>j. e_rand e (rs_drawn st + j)) [0..<length gs] \<and>
    (\<forall>n \<in> set ns. n \<le> m) \<and> m0 \<le> m \<and>
    (m = m0 \<and> g = g0 \<or> (\<exists>j < length gs. g = gs ! j \<and> ns ! j = m \<and> m0 < m \<and> (\<forall>i < j. ns ! i < m)))"
  using assms
proof (induction vs arbitrary: g0 m0 st)
  case (Cons e' vs)
  obtain h v' where e': "e' = (h, v')" by fastforce
  show ?case
  proof (cases "v' = v")
    case False
    with Cons show ?thesis by (simp add: e')
  next
    case True
    let ?n = "e_rand e (rs_drawn st)"
    let ?st = "SendLootRoll (e_world e) 0 h ?n code r (st\<lparr>rs_drawn := rs_drawn st + 1\<rparr>)"
    have d: "rs_drawn ?st = Suc (rs_drawn st)" by (simp add: SendLootRoll_def r_emit_def)
    have "throw_dice e v code r vs (if m0 < ?n then h else g0, max m0 ?n, ?st) = (g, m, st')"
      using Cons.prems True by (auto simp: e' Let_def max_def split: if_splits)
    from Cons.IH [OF this] obtain gs ns where IH: "gs = map fst (filter (\<lambda>e. snd e = v) vs)"
      "ns = map (\<lambda>j. e_rand e (Suc (rs_drawn st) + j)) [0..<length gs]"
      "\<forall>n \<in> set ns. n \<le> m" "max m0 ?n \<le> m"
      "m = max m0 ?n \<and> g = (if m0 < ?n then h else g0) \<or>
        (\<exists>j < length gs. g = gs ! j \<and> ns ! j = m \<and> max m0 ?n < m \<and> (\<forall>i < j. ns ! i < m))"
      unfolding d by blast
    have ns: "map (\<lambda>j. e_rand e (rs_drawn st + j)) [0..<length (h # gs)] = ?n # ns"
      by (simp add: IH(2) map_upt_Suc del: upt_Suc)
    from IH(5) have "m = m0 \<and> g = g0 \<or>
        (\<exists>j < length (h # gs). g = (h # gs) ! j \<and> (?n # ns) ! j = m \<and> m0 < m \<and> (\<forall>i < j. (?n # ns) ! i < m))"
    proof
      assume "m = max m0 ?n \<and> g = (if m0 < ?n then h else g0)"
      then show ?thesis by (cases "m0 < ?n") (auto simp: max_def intro!: exI [of _ 0])
    next
      assume "\<exists>j < length gs. g = gs ! j \<and> ns ! j = m \<and> max m0 ?n < m \<and> (\<forall>i < j. ns ! i < m)"
      then obtain j where "j < length gs" "g = gs ! j" "ns ! j = m" "max m0 ?n < m" "\<forall>i < j. ns ! i < m" by blast
      then show ?thesis
        by (intro disjI2 exI [of _ "Suc j"]) (auto simp: nth_Cons split: nat.split)
    qed
    with IH(3,4) ns True show ?thesis
      by (intro exI [of _ "h # gs"] exI [of _ "?n # ns"]) (auto simp: e' IH(1) simp del: upt_Suc)
  qed
qed simp

text \<open>The throws themselves: one for each voter with the vote, in the order of the table, announced as it falls.\<close>

definition voters :: "RollVote \<Rightarrow> roll \<Rightarrow> u64 list" where
  "voters v r = map fst (filter (\<lambda>e. snd e = v) (playerVote r))"

definition throws :: "roll_env \<Rightarrow> nat \<Rightarrow> u64 list \<Rightarrow> (u64 \<times> u8) list" where
  "throws e d gs = map (\<lambda>j. (gs ! j, e_rand e (d + j))) [0..<length gs]"

definition throws_shown :: "roll_env \<Rightarrow> u8 \<Rightarrow> roll \<Rightarrow> (u64 \<times> u8) list \<Rightarrow> rolls \<Rightarrow> rolls" where
  "throws_shown e code r ts st =
     fold (\<lambda>(g, n). SendLootRoll (e_world e) 0 g n code r) ts (st\<lparr>rs_drawn := rs_drawn st + length ts\<rparr>)"

lemma throws_Cons: "throws e d (g # gs) = (g, e_rand e d) # throws e (Suc d) gs"
  by (simp add: throws_def map_upt_Suc del: upt_Suc)

lemma throws_shown_Cons:
  "throws_shown e code r ((g, n) # ts) st =
   throws_shown e code r ts (SendLootRoll (e_world e) 0 g n code r (st\<lparr>rs_drawn := rs_drawn st + 1\<rparr>))"
  by (cases st) (simp add: throws_shown_def SendLootRoll_def r_emit_def)

lemma throw_dice_announces:
  "throw_dice e v code r vs (g0, m0, st) = (g, m, st') \<Longrightarrow>
   st' = throws_shown e code r (throws e (rs_drawn st) (map fst (filter (\<lambda>e. snd e = v) vs))) st"
proof (induction vs arbitrary: g0 m0 st)
  case Nil
  thus ?case by (simp add: throws_def throws_shown_def)
next
  case (Cons e' vs)
  obtain h v' where e': "e' = (h, v')" by fastforce
  let ?st = "SendLootRoll (e_world e) 0 h (e_rand e (rs_drawn st)) code r (st\<lparr>rs_drawn := rs_drawn st + 1\<rparr>)"
  have "rs_drawn ?st = Suc (rs_drawn st)" by (simp add: SendLootRoll_def r_emit_def)
  moreover have "throw_dice e v code r vs (if m0 < e_rand e (rs_drawn st) then h else g0,
      if m0 < e_rand e (rs_drawn st) then e_rand e (rs_drawn st) else m0, ?st) = (g, m, st')" if "v' = v"
    using Cons.prems that by (auto simp: e' Let_def split: if_splits)
  ultimately show ?case
    using Cons.IH [of _ _ ?st] Cons.IH [of g0 m0 st] Cons.prems
    by (cases "v' = v") (simp_all add: e' throws_Cons throws_shown_Cons)
qed

section \<open>Starting a roll\<close>

lemma add_voter_tallies:
  assumes "tallies_ok r" "\<not> om_mem g (playerVote r)" "length (playerVote r) < 255"
  shows "tallies_ok (add_voter g r)"
proof -
  have c: "om_count P (om_put g ROLL_NOT_EMITED_YET (playerVote r)) = om_count P (playerVote r) + of_bool (P ROLL_NOT_EMITED_YET)" for P
    using om_count_put [of "playerVote r" P g ROLL_NOT_EMITED_YET] assms by (simp add: om_holds_def tallies_ok_def)
  show ?thesis
    using assms by (simp add: tallies_ok_def add_voter_def length_om_put c unat_suc8)
qed

lemma start_tallies:
  assumes "distinct gs" "length gs + length (playerVote r) < 256" "tallies_ok r"
    and "\<forall>g \<in> set gs. \<not> om_mem g (playerVote r)"
  shows "tallies_ok (fold (\<lambda>g r. if P g then add_voter g r else r) gs r)"
  using assms
proof (induction gs arbitrary: r)
  case (Cons g gs)
  have "tallies_ok (add_voter g r)" using Cons.prems by (intro add_voter_tallies) auto
  moreover have "length (playerVote (add_voter g r)) = Suc (length (playerVote r))"
    "\<forall>h \<in> set gs. \<not> om_mem h (playerVote (add_voter g r))"
    using Cons.prems by (auto simp: add_voter_def length_om_put tallies_ok_def)
  ultimately show ?case using Cons by simp
qed simp

lemma Roll_new_tallies: "tallies_ok (Roll_new g i)"
  by (simp add: tallies_ok_def Roll_new_def)

lemma tallies_link: "tallies_ok (r\<lparr>r_loot := l, itemSlot := k\<rparr>) \<longleftrightarrow> tallies_ok r"
  by (simp add: tallies_ok_def)

lemma GroupLoot_item_tallies:
  assumes "list_all tallies_ok (RollId (snd ost))" "distinct (m_online x)" "length (m_online x) < 256"
  shows "list_all tallies_ok (RollId (snd (GroupLoot_item e x a k ost)))"
proof -
  obtain obj st where ost: "ost = (obj, st)" by fastforce
  have "tallies_ok (fold (\<lambda>g r. if P g then add_voter g r else r) (m_online x) (Roll_new g i))" for P g i
    using assms(2,3) Roll_new_tallies by (intro start_tallies) (simp_all add: Roll_new_def)
  with assms(1) show ?thesis
    by (auto simp: ost GroupLoot_item_def Let_def tallies_link split: option.split)
qed

lemma GroupLoot_tallies:
  assumes "list_all tallies_ok (RollId st)" "distinct (m_online x)" "length (m_online x) < 256"
  shows "list_all tallies_ok (RollId (snd (GroupLoot e x a (obj, st))))"
proof -
  have "list_all tallies_ok (RollId (snd (fold (GroupLoot_item e x a) ks ost)))"
    if "list_all tallies_ok (RollId (snd ost))" for ks ost
    using that by (induction ks arbitrary: ost) (simp_all add: GroupLoot_item_tallies assms(2,3))
  then show ?thesis using assms(1) by (simp add: GroupLoot_def)
qed

lemma NeedBeforeGreed_returns:
  assumes "\<And>i. m_quality x i \<noteq> None"
  shows "NeedBeforeGreed e x a st \<noteq> None"
proof -
  have "NeedBeforeGreed_loop e x a ks st \<noteq> None" for ks
  proof (induction ks arbitrary: st)
    case (Cons k ks)
    obtain q where "m_quality x (li_itemid (items (rs_loot st a) ! k)) = Some q" using assms by blast
    thus ?case using Cons by (simp add: Let_def del: not_None_eq)
  qed simp
  thus ?thesis by (simp add: NeedBeforeGreed_def)
qed

lemma NeedBeforeGreed_tallies:
  assumes "list_all tallies_ok (RollId st)" "distinct (m_online x)" "length (m_online x) < 256"
    and "NeedBeforeGreed e x a st = Some st'"
  shows "list_all tallies_ok (RollId st')"
proof -
  have new: "tallies_ok (fold (\<lambda>g r. if P g then add_voter g r else r) (m_online x) (Roll_new g i))" for P g i
    using assms(2,3) Roll_new_tallies by (intro start_tallies) (simp_all add: Roll_new_def)
  have "list_all tallies_ok (RollId st')"
    if "NeedBeforeGreed_loop e x a ks s = Some st'" "list_all tallies_ok (RollId s)" for ks s
    using that
  proof (induction ks arbitrary: s)
    case (Cons k ks)
    let ?i = "items (rs_loot s a) ! k"
    let ?r = "fold (\<lambda>g r. if m_usable x (li_itemid ?i) g \<and> m_allowed x ?i g \<and> m_near x g then add_voter g r else r)
      (m_online x) (Roll_new (m_newguid x (length (RollId s))) ?i)"
    let ?b = "set_item a k (\<lambda>i. i\<lparr>li_is_blocked := True\<rparr>)
      (SendLootStartRoll (e_world e) 60000 (?r\<lparr>r_loot := Some a, itemSlot := of_nat k\<rparr>) s)"
    obtain q where q: "m_quality x (li_itemid ?i) = Some q"
      using Cons.prems(1) by (auto simp: Let_def split: option.splits)
    define n where "n = (if q \<ge> m_threshold x \<and> \<not> li_freeforall ?i
      then if totalPlayersRolling ?r > 0 then ?b\<lparr>RollId := RollId ?b @ [?r\<lparr>r_loot := Some a, itemSlot := of_nat k\<rparr>]\<rparr> else s
      else set_item a k (\<lambda>i. i\<lparr>li_is_underthreshold := True\<rparr>) s)"
    have "list_all tallies_ok (RollId n)"
      using Cons.prems(2) new [of "\<lambda>g. m_usable x (li_itemid ?i) g \<and> m_allowed x ?i g \<and> m_near x g"]
      by (simp add: n_def tallies_link)
    moreover have "NeedBeforeGreed_loop e x a ks n = Some st'"
      using Cons.prems(1) q
      by (cases "q \<ge> m_threshold x \<and> \<not> li_freeforall ?i"; cases "totalPlayersRolling ?r > 0") (auto simp: n_def Let_def)
    ultimately show ?case by (rule Cons.IH [rotated])
  qed simp
  thus ?thesis using assms(1,4) unfolding NeedBeforeGreed_def by blast
qed

section \<open>Members who leave\<close>

lemma forget_guid [simp]: "itemGUID (forget_vote g r) = itemGUID r"
  by (simp add: forget_vote_def split: option.split)

lemma forget_unvoted: "\<not> om_mem g (playerVote r) \<Longrightarrow> forget_vote g r = r"
  by (simp add: forget_vote_def)

lemma forget_voteless: "\<not> om_mem g (playerVote (forget_vote g r))"
  by (simp add: forget_vote_def split: option.split)

lemma CountRollVote_voteless:
  assumes "distinct (map itemGUID (RollId st))" "k < length (RollId st)"
    and "\<not> om_mem p (playerVote (RollId st ! k))"
  shows "CountRollVote e p (itemGUID (RollId st ! k)) n Choice st = st"
proof (cases "GetRoll (itemGUID (RollId st ! k)) (RollId st)")
  case (Some j)
  then have "j < length (RollId st)" "itemGUID (RollId st ! j) = itemGUID (RollId st ! k)"
    by (simp_all add: GetRoll_bound)
  then have "j = k" using assms(1,2) by (simp add: distinct_conv_nth) (metis nth_map)
  with Some assms(3) show ?thesis by (simp add: CountRollVote_def Let_def)
qed (simp add: CountRollVote_def)

lemma removeRolls_map:
  assumes "distinct (map itemGUID (RollId st))"
  shows "removeRolls e g n st = st\<lparr>RollId := map (forget_vote g) (RollId st)\<rparr>"
proof -
  let ?f = "\<lambda>k st. if k < length (RollId st) \<and> om_mem g (playerVote (RollId st ! k))
       then (let r = forget_vote g (RollId st ! k)
             in CountRollVote e g (itemGUID r) (n - 1) 3 (set_roll k r st))
       else st"
  have "fold ?f [0..<k] st = st\<lparr>RollId := map (forget_vote g) (take k (RollId st)) @ drop k (RollId st)\<rparr>"
    if "k \<le> length (RollId st)" for k
    using that
  proof (induction k)
    case (Suc k)
    let ?st = "st\<lparr>RollId := map (forget_vote g) (take k (RollId st)) @ drop k (RollId st)\<rparr>"
    have nth: "RollId ?st ! k = RollId st ! k" using Suc.prems by (simp add: nth_append)
    have upd: "set_roll k (forget_vote g (RollId st ! k)) ?st =
        st\<lparr>RollId := map (forget_vote g) (take (Suc k) (RollId st)) @ drop (Suc k) (RollId st)\<rparr>"
      using Suc.prems by (simp add: set_roll_def list_update_append take_Suc_conv_app_nth
          Cons_nth_drop_Suc [symmetric])
    have "distinct (map itemGUID (RollId (set_roll k (forget_vote g (RollId st ! k)) ?st)))"
      unfolding upd using assms by (simp add: o_def flip: take_map drop_map)
    moreover have "RollId (set_roll k (forget_vote g (RollId st ! k)) ?st) ! k = forget_vote g (RollId st ! k)"
      using Suc.prems by (simp add: nth_append)
    ultimately have call: "CountRollVote e g (itemGUID (forget_vote g (RollId st ! k))) (n - 1) 3
        (set_roll k (forget_vote g (RollId st ! k)) ?st) = set_roll k (forget_vote g (RollId st ! k)) ?st"
      using CountRollVote_voteless [of "set_roll k (forget_vote g (RollId st ! k)) ?st" k g e "n - 1" 3]
        forget_voteless Suc.prems by simp
    have "?f k ?st = set_roll k (forget_vote g (RollId st ! k)) ?st"
    proof (cases "om_mem g (playerVote (RollId st ! k))")
      case True
      with call nth Suc.prems show ?thesis by (simp add: Let_def)
    next
      case False
      then have "set_roll k (forget_vote g (RollId st ! k)) ?st = ?st"
        using nth by (simp add: forget_unvoted set_roll_def) (metis list_update_id)
      with False nth show ?thesis by simp
    qed
    then show ?case
      unfolding upd [symmetric] upt_Suc_append [OF le0] fold_append o_apply fold.simps
        Suc.IH [OF Suc_leD [OF Suc.prems]] by simp
  qed simp
  then show ?thesis by (simp add: removeRolls_def)
qed

section \<open>Properties\<close>

text \<open>
  C40: in a group of fewer than 256 connected members, each linked once, whose rolls have different item
  guids: starting rolls under group loot and, where every item has a prototype, under need before greed,
  a vote of a member who has not cast one in that roll, and a member leaving keep every roll's counters
  equal to the numbers of players rolling and of need, greed and pass votes.
\<close>

theorem roll_tallies_exact:
  assumes "list_all tallies_ok (RollId st)" "distinct (m_online x)" "length (m_online x) < 256"
    and "\<And>k. GetRoll Guid (RollId st) = Some k \<Longrightarrow> \<not> cast (map_of (playerVote (RollId st ! k)) p)"
    and "distinct (map itemGUID (RollId st))"
  shows "list_all tallies_ok (RollId (snd (GroupLoot e x a (obj, st)))) \<and>
    pred_option (\<lambda>st'. list_all tallies_ok (RollId st')) (NeedBeforeGreed e x a st) \<and>
    list_all tallies_ok (RollId (CountRollVote e p Guid n Choice st)) \<and>
    list_all tallies_ok (RollId (removeRolls e p n st))"
proof -
  have "list_all tallies_ok (RollId (removeRolls e p n st))"
    using assms(1) by (simp add: removeRolls_map [OF assms(5)] list_all_iff forget_tallies)
  with GroupLoot_tallies NeedBeforeGreed_tallies CountRollVote_tallies assms show ?thesis
    by (cases "NeedBeforeGreed e x a st") simp_all
qed

definition example_env :: roll_env where
  "example_env = \<lparr>e_world = example_world, e_rand = (\<lambda>n. of_nat (n mod 100) + 1), e_can_store = (\<lambda>_ _ _. 0)\<rparr>"

definition example_item :: loot_item where
  "example_item = \<lparr>li_itemid = 55, li_randomSuffix = 0, li_randomPropertyId = 0, li_count = 1,
     li_is_looted = False, li_is_blocked = True, li_freeforall = False, li_is_underthreshold = False\<rparr>"

definition example_roll :: roll where
  "example_roll = (Roll_new 9 example_item)\<lparr>playerVote := [(1, ROLL_NOT_EMITED_YET), (2, ROLL_NOT_EMITED_YET)],
     totalPlayersRolling := 2, r_loot := Some 0\<rparr>"

definition example_rolls :: rolls where
  "example_rolls = \<lparr>RollId = [example_roll], rs_loot = (\<lambda>_. \<lparr>items = [example_item], unlootedCount = 1\<rparr>),
     rs_drawn = 0, rs_out = []\<rparr>"

lemma example_roll_sel [simp]:
  "itemGUID example_roll = 9" "r_itemid example_roll = 55" "r_loot example_roll = Some 0" "itemSlot example_roll = 0"
  "playerVote example_roll = [(1, ROLL_NOT_EMITED_YET), (2, ROLL_NOT_EMITED_YET)]"
  "totalPlayersRolling example_roll = 2" "totalNeed example_roll = 0" "totalGreed example_roll = 0"
  "totalPass example_roll = 0"
  by (simp_all add: example_roll_def Roll_new_def example_item_def)

lemma example_rolls_sel [simp]:
  "RollId example_rolls = [example_roll]" "items (rs_loot example_rolls l) = [example_item]"
  "rs_drawn example_rolls = 0" "rs_out example_rolls = []"
  by (simp_all add: example_rolls_def)

lemma example_env_sel [simp]:
  "FindPlayer (e_world example_env) 1 = Some (example_player 1 ''Anna'')"
  "FindPlayer (e_world example_env) 2 = Some (example_player 2 ''Bert'')"
  "e_can_store example_env g i c = 0"
  by (simp_all add: example_env_def example_defs)

lemma example_roll_tallies: "tallies_ok example_roll"
  by (simp add: tallies_ok_def om_ok_def)

definition example_ctx :: loot_ctx where
  "example_ctx = \<lparr>m_quality = (\<lambda>_. Some 2), m_online = [1, 2], m_allowed = (\<lambda>_ _. True), m_usable = (\<lambda>_ _. True),
     m_near = (\<lambda>_. True), m_newguid = (\<lambda>n. of_nat n + 100), m_threshold = 2, m_leader = 1\<rparr>"

theorem roll_tallies_exact_witness:
  "list_all tallies_ok (RollId (CountRollVote example_env 1 9 2 1 example_rolls)) \<and>
   (case NeedBeforeGreed example_env example_ctx 0 example_rolls of None \<Rightarrow> False | Some st' \<Rightarrow> list_all tallies_ok (RollId st'))"
  using roll_tallies_exact [of example_rolls example_ctx 9 1 example_env 0 "\<lparr>m_groupLootTimer = 0, lootingGroupLeaderGUID = 0\<rparr>" 2 1]
    NeedBeforeGreed_returns [of example_ctx example_env 0 example_rolls]
  by (cases "NeedBeforeGreed example_env example_ctx 0 example_rolls") (simp_all add: example_roll_tallies example_ctx_def)

text \<open>
  C28: when a roll whose counters are exact and whose loot still exists ends with a need vote, or without one but with a greed vote,
  every player with that vote throws once, in the order of their guids and announced to the voters, and
  the item is awarded to the player who threw the highest of these numbers, to the first of them when
  several threw it. (The random numbers are at least 1, as \<open>urand(1, 100)\<close> promises.)
\<close>

theorem roll_highest_throw_wins:
  assumes "tallies_ok r" "RollId st ! k = r" "r_loot r = Some a" "\<And>j. 1 \<le> e_rand e j"
    and "(v, code) = (if totalNeed r > 0 then (ROLL_NEED, 1) else (ROLL_GREED, 2))"
    and "totalNeed r > 0 \<or> totalGreed r > 0"
  shows "\<exists>g n. let ts = throws e (rs_drawn st) (voters v r) in
    (\<exists>j < length ts. ts ! j = (g, n) \<and> (\<forall>i < length ts. snd (ts ! i) \<le> n) \<and> (\<forall>i < j. snd (ts ! i) < n)) \<and>
    CountTheRoll e k N st =
      (award e r a g (SendLootRollWon (e_world e) 0 g n code r (throws_shown e code r ts st)))
        \<lparr>RollId := remove_nth k (RollId st)\<rparr>"
proof -
  have pos: "0 < om_count (\<lambda>v'. v' = v) (playerVote r)"
  proof (cases "totalNeed r > 0")
    case True
    then have "0 < unat (totalNeed r)" by (simp add: unat_gt_0 word_gt_0)
    with True assms(1,5) show ?thesis by (simp add: tallies_ok_def)
  next
    case False
    then have "0 < unat (totalGreed r)" using assms(6) by (simp add: unat_gt_0 word_gt_0)
    with False assms(1,5) show ?thesis by (simp add: tallies_ok_def)
  qed
  then obtain g0 v0 vs where vs: "playerVote r = (g0, v0) # vs" by (cases "playerVote r") auto
  obtain g n st' where throw: "throw_dice e v code r (playerVote r) (g0, 0, st) = (g, n, st')"
    by (metis prod_cases3)
  from throw_dice_result [OF this] obtain ns where
    ns: "ns = map (\<lambda>j. e_rand e (rs_drawn st + j)) [0..<length (voters v r)]" and
    top: "\<forall>m \<in> set ns. m \<le> n" and
    win: "n = 0 \<and> g = g0 \<or> (\<exists>j < length (voters v r). g = voters v r ! j \<and> ns ! j = n \<and> 0 < n \<and> (\<forall>i < j. ns ! i < n))"
    unfolding voters_def by blast
  have len: "0 < length (voters v r)" using pos by (simp add: voters_def om_count_def)
  have "ns ! 0 \<in> set ns" by (rule nth_mem) (use len in \<open>simp add: ns\<close>)
  moreover have "ns ! 0 = e_rand e (rs_drawn st)" using len by (simp add: ns)
  ultimately have "e_rand e (rs_drawn st) \<le> n" using top by auto
  then have "n \<noteq> 0" using assms(4) [of "rs_drawn st"] by auto
  then obtain j where j: "j < length (voters v r)" "g = voters v r ! j" "ns ! j = n" "\<forall>i < j. ns ! i < n" using win by auto
  let ?ts = "throws e (rs_drawn st) (voters v r)"
  have ts: "length ?ts = length (voters v r)" "\<And>i. i < length (voters v r) \<Longrightarrow> ?ts ! i = (voters v r ! i, ns ! i)"
    by (simp_all add: throws_def ns)
  have "ns ! i \<le> n" if "i < length (voters v r)" for i using top that by (simp add: ns)
  with j ts have "\<exists>j < length ?ts. ?ts ! j = (g, n) \<and> (\<forall>i < length ?ts. snd (?ts ! i) \<le> n) \<and> (\<forall>i < j. snd (?ts ! i) < n)"
    by (intro exI [of _ j]) auto
  moreover have "st' = throws_shown e code r ?ts st" using throw_dice_announces [OF throw] by (simp add: voters_def)
  moreover have "CountTheRoll e k N st =
      (award e r a g (SendLootRollWon (e_world e) 0 g n code r st'))\<lparr>RollId := remove_nth k (RollId st)\<rparr>"
    using assms(2,3,5,6) throw vs RollId_throw [OF throw]
    by (auto simp: CountTheRoll_def contest_def Let_def simp del: throw_dice.simps split: if_splits)
  ultimately show ?thesis unfolding Let_def by blast
qed

theorem roll_highest_throw_wins_witness:
  "let r = vote 2 ROLL_NEED example_roll; st = example_rolls\<lparr>RollId := [r]\<rparr> in
   CountTheRoll example_env 0 2 st =
     (award example_env r 0 2 (SendLootRollWon example_world 0 2 1 1 r (throws_shown example_env 1 r [(2, 1)] st)))\<lparr>RollId := []\<rparr>"
proof -
  let ?r = "vote 2 ROLL_NEED example_roll"
  let ?st = "example_rolls\<lparr>RollId := [?r]\<rparr>"
  have ok: "tallies_ok ?r"
    by (rule vote_tallies [OF example_roll_tallies]) simp_all
  have rand: "1 \<le> e_rand example_env j" for j
  proof -
    have "unat (of_nat (j mod 100) :: u8) = j mod 100" by (simp add: unat_of_nat take_bit_eq_mod)
    moreover have "j mod 100 < 100" by simp
    ultimately have "unat (of_nat (j mod 100) + 1 :: u8) = j mod 100 + 1" by (simp add: unat_suc8)
    then show ?thesis by (simp add: example_env_def word_le_nat_alt)
  qed
  have ts: "throws example_env 0 (voters ROLL_NEED ?r) = [(2, 1)]"
    by (simp add: throws_def voters_def vote_def example_env_def)
  have w: "e_world example_env = example_world" by (simp add: example_env_def)
  have sel: "RollId ?st ! 0 = ?r" "r_loot ?r = Some 0" "totalNeed ?r = 1" by (simp_all add: vote_def)
  have "\<exists>g n. let ts = throws example_env (rs_drawn ?st) (voters ROLL_NEED ?r) in
    (\<exists>j < length ts. ts ! j = (g, n) \<and> (\<forall>i < length ts. snd (ts ! i) \<le> n) \<and> (\<forall>i < j. snd (ts ! i) < n)) \<and>
    CountTheRoll example_env 0 2 ?st =
      (award example_env ?r 0 g (SendLootRollWon (e_world example_env) 0 g n 1 ?r (throws_shown example_env 1 ?r ts ?st)))
        \<lparr>RollId := remove_nth 0 (RollId ?st)\<rparr>"
    by (rule roll_highest_throw_wins [OF ok sel(1,2) rand]) (simp_all add: sel(3))
  thus ?thesis by (auto simp: ts w remove_nth_def Let_def)
qed

text \<open>
  The code counts a second vote of the same player like a first one. In a roll of two players who
  have not voted, one of them ends it alone by choosing need and then pass: the counter says that
  there is a need vote although the table holds none, and the item goes to the player with the lower
  guid, with no throw at all.
\<close>

theorem roll_double_vote:
  assumes "RollId st = [r]" "r_loot r = Some l" "items (rs_loot st l) \<noteq> []" "unat (itemSlot r) < length (items (rs_loot st l))"
    and "playerVote r = [(a, ROLL_NOT_EMITED_YET), (b, ROLL_NOT_EMITED_YET)]" "a < b" "p \<in> {a, b}"
    and "totalPlayersRolling r = 2" "totalNeed r = 0" "totalGreed r = 0" "totalPass r = 0"
    and "FindPlayer (e_world e) a \<noteq> None" "\<And>c. e_can_store e a (r_itemid r) c = 0"
    and "st' = CountRollVote e p (itemGUID r) n 0 (CountRollVote e p (itemGUID r) n 1 st)"
  shows "RollId st' = [] \<and> (\<exists>prop. RollStored a (r_itemid r) prop \<in> set (rs_out st')) \<and> rs_drawn st' = rs_drawn st"
proof -
  let ?r1 = "vote p ROLL_NEED r" and ?r2 = "vote p ROLL_PASS (vote p ROLL_NEED r)"
  have get: "GetRoll (itemGUID x) [x] = Some 0" if "r_loot x \<noteq> None" for x using that by simp
  have keep: "itemGUID (vote p v x) = itemGUID x" "r_loot (vote p v x) = r_loot x" "itemSlot (vote p v x) = itemSlot x"
    "r_itemid (vote p v x) = r_itemid x" for v x by (simp_all add: vote_def)
  have loot: "rs_loot (cast_vote w p c 0 x s) = rs_loot s" "rs_drawn (cast_vote w p c 0 x s) = rs_drawn s" for w c x s
    by (simp_all add: cast_vote_def SendLootRoll_def r_emit_def set_roll_def Let_def)
  have n1: "\<not> complete ?r1" using assms(8-11) by (simp add: complete_def vote_def)
  let ?s1 = "cast_vote (e_world e) p 1 0 r st"
  have s1: "RollId ?s1 = [?r1]" using assms(1) by (simp add: cast_vote_RollId(2))
  have p: "map_of (playerVote r) p = Some ROLL_NOT_EMITED_YET" "map_of (playerVote ?r1) p = Some ROLL_NEED"
    using assms(5,7) by (auto simp: vote_def)
  have 1: "CountRollVote e p (itemGUID r) n 1 st = ?s1"
    using assms(1-3) get [of r] n1 s1 p(1) by (simp add: CountRollVote_def Let_def)
  let ?s2 = "cast_vote (e_world e) p 0 0 ?r1 ?s1"
  have s2: "RollId ?s2 = [?r2]" using s1 by (simp add: cast_vote_RollId(1))
  have c2: "complete ?r2" using assms(8-11) by (simp add: complete_def vote_def)
  have 2: "st' = CountTheRoll e 0 n ?s2"
    unfolding assms(14) 1
    using s1 s2 c2 p(2) assms(2,3) get [of ?r1] by (simp add: CountRollVote_def Let_def keep loot)
  have votes: "playerVote ?r2 = [(a, if p = a then ROLL_PASS else ROLL_NOT_EMITED_YET),
      (b, if p = b then ROLL_PASS else ROLL_NOT_EMITED_YET)]"
    using assms(5-7) by (auto simp: vote_def)
  have need: "totalNeed ?r2 > 0" using assms(9) by (simp add: vote_def)
  have throw: "throw_dice e ROLL_NEED 1 ?r2 (playerVote ?r2) (a, 0, ?s2) = (a, 0, ?s2)"
    unfolding votes by simp
  have st': "st' = (award e ?r2 l a (SendLootRollWon (e_world e) 0 a 0 1 ?r2 ?s2))\<lparr>RollId := []\<rparr>"
    unfolding 2 CountTheRoll_def contest_def s2
    using need throw s2 assms(2) by (simp add: keep votes Let_def remove_nth_def)
  show ?thesis
    using assms(12,13) unfolding st'
    by (auto simp: award_def Let_def r_emit_def SendLootRollWon_def set_item_def keep loot)
qed

theorem roll_double_vote_witness:
  "\<exists>prop. RollStored 1 55 prop \<in> set (rs_out (CountRollVote example_env 2 9 2 0 (CountRollVote example_env 2 9 2 1 example_rolls)))"
  using roll_double_vote [of example_rolls example_roll 0 1 2 2 example_env _ 2] by simp

text \<open>
  When a member leaves, the vote is taken out of every roll and nothing else happens, although the
  code means to end the rolls that only waited for this member: they stay in the list, complete, until
  the timer of the loot runs out.
\<close>

theorem leaving_never_ends_a_roll:
  assumes "distinct (map itemGUID (RollId st))"
  shows "removeRolls e g n st = st\<lparr>RollId := map (forget_vote g) (RollId st)\<rparr>"
  by (rule removeRolls_map [OF assms])

theorem leaving_never_ends_a_roll_witness:
  "\<exists>r \<in> set (RollId (removeRolls example_env 2 2
      (example_rolls\<lparr>RollId := [vote 1 ROLL_PASS example_roll]\<rparr>))). complete r"
proof -
  have "complete (forget_vote 2 (vote 1 ROLL_PASS example_roll))"
    by (simp add: complete_def forget_vote_def vote_def)
  then show ?thesis
    using leaving_never_ends_a_roll [of "example_rolls\<lparr>RollId := [vote 1 ROLL_PASS example_roll]\<rparr>" example_env 2 2]
    by simp
qed

lemma EndRoll_total:
  "length (RollId st) \<le> fuel \<Longrightarrow> \<exists>st'. EndRoll fuel e n st = Some st' \<and> RollId st' = []"
proof (induction fuel arbitrary: st)
  case (Suc fuel)
  show ?case
  proof (cases "RollId st")
    case (Cons r rs)
    then have "length (RollId (CountTheRoll e 0 n st)) \<le> fuel"
      using Suc.prems by (simp add: RollId_CountTheRoll remove_nth_def)
    from Suc.IH [OF this] Cons show ?thesis by (simp add: EndRoll.simps [of "Suc fuel"])
  qed (simp add: EndRoll.simps)
qed (simp add: EndRoll.simps)

text \<open>
  Ending the rolls when the loot timer runs out terminates, one roll per round, and leaves none.
\<close>

theorem EndRoll_ends_all:
  "\<exists>st'. EndRoll (length (RollId st)) e n st = Some st' \<and> RollId st' = []"
  by (rule EndRoll_total) simp

end
