(* ===== verification/Group.thy ===== *)
theory Group
  imports GroupRolls
begin

text \<open>
  Parties and raids: the class \<open>Group\<close> of game/Group.h and Group.cpp, the references players hold on
  their groups (game/GroupReference.cpp over framework/Utilities/LinkedReference) and the functions
  of game/Player.cpp that set them. Groups live at addresses; \<open>new\<close> takes the next free address and
  \<open>delete\<close> takes the group out of the heap. This theory holds the state and the operations of a
  group, GroupHandlers the requests of the players.
\<close>

section \<open>State\<close>

datatype GroupType = GROUPTYPE_NORMAL | GROUPTYPE_RAID

record member_slot =
  ms_guid :: u64
  ms_name :: string
  ms_group :: u8
  ms_assistant :: bool

text \<open>
  A player object holds two references on groups, \<open>m_group\<close> and \<open>m_originalGroup\<close> (the party left for
  a battleground raid), and the group that has invited the player. The subgroup of a reference stays
  when the reference is cut.
\<close>

datatype ref_kind = MainRef | OriginalRef

record group_ref =
  ref_to :: "nat option"
  ref_sub :: u8

record group_player =
  gp_ref :: "ref_kind \<Rightarrow> group_ref"
  gp_invite :: "nat option"
  gp_difficulty :: u8

text \<open>
  \<open>m_memberMgr\<close> are the references linked to the group, the last linked one first. \<open>m_subGroupsCounts\<close>
  points at eight counters; what lies behind them in memory is part of the model, since the code
  indexes it with an unchecked byte.
\<close>

record group =
  m_memberSlots :: "member_slot list"
  m_memberMgr :: "(u64 \<times> ref_kind) list"
  m_invitees :: "u64 list"
  m_leaderGuid :: u64
  m_leaderName :: string
  m_mainTank :: u64
  m_mainAssistant :: u64
  m_groupType :: GroupType
  m_difficulty :: u8
  m_bgGroup :: "nat option"
  m_targetIcons :: "u64 list"
  m_lootMethod :: u32
  m_lootThreshold :: u32
  m_looterGuid :: u64
  m_subGroupsCounts :: "(u8 \<Rightarrow> u8) option"
  m_rolls :: rolls

text \<open>The statements the group code sends to the character database, in its words.\<close>

datatype group_sql =
    DeleteGroupRow u32
  | DeleteMemberRows u32
  | InsertGroupRow u32 u32 u32 u32 u32 u32 "u64 list" bool u8
  | InsertMemberRow u32 u32 bool u8
  | DeleteMemberRow u32
  | SetMemberSubgroup u8 u32
  | SetMemberAssistant bool u32
  | SetGroupMainTank u32 u32
  | SetGroupMainAssistant u32 u32
  | SetGroupRaid u32
  | SetGroupDifficulty u8 u32
  | DropPermanentBinds u32 u32
  | MoveBinds u32 u32
  | MoveGroupLeader u32 u32
  | MoveMembersLeader u32 u32

text \<open>
  What a request makes visible: packets, statements, and the calls into parts that are not modelled
  here (instance binds, forced field updates, the homebind timer, opening a corpse).
\<close>

datatype group_event =
    GSend u64 packet
  | GSql group_sql
  | GForceUpdate u64
  | GHomebindIfInstance u64
  | GCheckInstance u64
  | GConvertInstances u64
  | GResetInstances u64
  | GResetGroupInstances nat
  | GSendLoot u64
  | GSetDifficulty u64 u8
  | GAssertFailed

record gstate =
  gs_heap :: "nat \<Rightarrow> group option"
  gs_next :: nat
  gs_players :: "u64 \<Rightarrow> group_player"
  gs_groupSet :: "nat list"
  gs_out :: "group_event list"

text \<open>
  What the code asks of the rest of the server: distances, visibility, battleground state and the
  initial contents of a freshly allocated byte array.
\<close>

record group_env = roll_env +
  g_social :: SocialMap
  g_near :: "u64 \<Rightarrow> bool"
  g_looting :: "u64 \<Rightarrow> bool"
  g_visible :: "u64 \<Rightarrow> u64 \<Rightarrow> bool"
  g_stats :: "u64 \<Rightarrow> packet"
  g_inBG :: "u64 \<Rightarrow> bool"
  g_gm :: "u64 \<Rightarrow> bool"
  g_instance :: "u64 \<Rightarrow> u32"
  g_mapid :: "u64 \<Rightarrow> u32"
  g_memory :: "u8 \<Rightarrow> u8"

abbreviation g_find :: "'a group_env_scheme \<Rightarrow> u64 \<Rightarrow> player option" where
  "g_find e g \<equiv> FindPlayer (e_world e) g"

definition Group_new :: group where
  "Group_new =
     \<lparr>m_memberSlots = [], m_memberMgr = [], m_invitees = [], m_leaderGuid = 0, m_leaderName = [],
      m_mainTank = 0, m_mainAssistant = 0, m_groupType = GROUPTYPE_NORMAL, m_difficulty = 0,
      m_bgGroup = None, m_targetIcons = replicate 8 0, m_lootMethod = 0, m_lootThreshold = 2,
      m_looterGuid = 0, m_subGroupsCounts = None,
      m_rolls = \<lparr>RollId = [], rs_loot = (\<lambda>_. \<lparr>items = [], unlootedCount = 0\<rparr>), rs_drawn = 0, rs_out = []\<rparr>\<rparr>"

definition grp :: "gstate \<Rightarrow> nat \<Rightarrow> group" where
  "grp st a = (case gs_heap st a of Some g \<Rightarrow> g | None \<Rightarrow> Group_new)"

definition upd_grp :: "nat \<Rightarrow> (group \<Rightarrow> group) \<Rightarrow> gstate \<Rightarrow> gstate" where
  "upd_grp a f st = st\<lparr>gs_heap := (gs_heap st)(a := map_option f (gs_heap st a))\<rparr>"

definition g_emit :: "group_event list \<Rightarrow> gstate \<Rightarrow> gstate" where
  "g_emit es st = st\<lparr>gs_out := gs_out st @ es\<rparr>"

definition g_sql :: "nat \<Rightarrow> group_sql list \<Rightarrow> gstate \<Rightarrow> gstate" where
  "g_sql a qs st = (if m_bgGroup (grp st a) = None then g_emit (map GSql qs) st else st)"

section \<open>References of players on groups\<close>

definition gref :: "ref_kind \<Rightarrow> u64 \<Rightarrow> gstate \<Rightarrow> group_ref" where
  "gref k p st = gp_ref (gs_players st p) k"

definition upd_player :: "u64 \<Rightarrow> (group_player \<Rightarrow> group_player) \<Rightarrow> gstate \<Rightarrow> gstate" where
  "upd_player p f st = st\<lparr>gs_players := (gs_players st)(p := f (gs_players st p))\<rparr>"

definition set_ref :: "ref_kind \<Rightarrow> u64 \<Rightarrow> group_ref \<Rightarrow> gstate \<Rightarrow> gstate" where
  "set_ref k p r = upd_player p (\<lambda>pl. pl\<lparr>gp_ref := (gp_ref pl)(k := r)\<rparr>)"

text \<open>\<open>Reference::unlink\<close>, \<open>link\<close> and \<open>GroupReference::setSubGroup\<close>.\<close>

definition ref_unlink :: "ref_kind \<Rightarrow> u64 \<Rightarrow> gstate \<Rightarrow> gstate" where
  "ref_unlink k p st =
     (let r = gref k p st;
          st = set_ref k p (r\<lparr>ref_to := None\<rparr>) st
      in case ref_to r of
           None \<Rightarrow> st
         | Some a \<Rightarrow> upd_grp a (\<lambda>g. g\<lparr>m_memberMgr := remove1 (p, k) (m_memberMgr g)\<rparr>) st)"

definition ref_link :: "ref_kind \<Rightarrow> nat \<Rightarrow> u64 \<Rightarrow> gstate \<Rightarrow> gstate" where
  "ref_link k a p st =
     (let st = (if ref_to (gref k p st) \<noteq> None then ref_unlink k p st else st);
          st = set_ref k p ((gref k p st)\<lparr>ref_to := Some a\<rparr>) st
      in upd_grp a (\<lambda>g. g\<lparr>m_memberMgr := (p, k) # m_memberMgr g\<rparr>) st)"

definition setSubGroup :: "ref_kind \<Rightarrow> u64 \<Rightarrow> u8 \<Rightarrow> gstate \<Rightarrow> gstate" where
  "setSubGroup k p s st = set_ref k p ((gref k p st)\<lparr>ref_sub := s\<rparr>) st"

definition GetGroup :: "u64 \<Rightarrow> gstate \<Rightarrow> nat option" where
  "GetGroup p st = ref_to (gref MainRef p st)"

definition GetOriginalGroup :: "u64 \<Rightarrow> gstate \<Rightarrow> nat option" where
  "GetOriginalGroup p st = ref_to (gref OriginalRef p st)"

definition GetSubGroup :: "u64 \<Rightarrow> gstate \<Rightarrow> u8" where
  "GetSubGroup p st = ref_sub (gref MainRef p st)"

definition GetOriginalSubGroup :: "u64 \<Rightarrow> gstate \<Rightarrow> u8" where
  "GetOriginalSubGroup p st = ref_sub (gref OriginalRef p st)"

definition GetGroupInvite :: "u64 \<Rightarrow> gstate \<Rightarrow> nat option" where
  "GetGroupInvite p st = gp_invite (gs_players st p)"

definition SetGroupInvite :: "u64 \<Rightarrow> nat option \<Rightarrow> gstate \<Rightarrow> gstate" where
  "SetGroupInvite p a = upd_player p (\<lambda>pl. pl\<lparr>gp_invite := a\<rparr>)"

text \<open>
  \<open>Player::SetGroup\<close> and \<open>SetOriginalGroup\<close>: the subgroup is taken as a signed byte and must not be
  negative.
\<close>

definition set_group :: "ref_kind \<Rightarrow> u64 \<Rightarrow> nat option \<Rightarrow> u8 \<Rightarrow> gstate \<Rightarrow> gstate" where
  "set_group k p to s st =
     (case to of
        None \<Rightarrow> ref_unlink k p st
      | Some a \<Rightarrow> if s \<ge> 128 then g_emit [GAssertFailed] st
                 else setSubGroup k p s (ref_link k a p st))"

abbreviation SetGroup :: "u64 \<Rightarrow> nat option \<Rightarrow> u8 \<Rightarrow> gstate \<Rightarrow> gstate" where
  "SetGroup \<equiv> set_group MainRef"

abbreviation SetOriginalGroup :: "u64 \<Rightarrow> nat option \<Rightarrow> u8 \<Rightarrow> gstate \<Rightarrow> gstate" where
  "SetOriginalGroup \<equiv> set_group OriginalRef"

definition SetBattleGroundRaid :: "u64 \<Rightarrow> nat \<Rightarrow> u8 \<Rightarrow> gstate \<Rightarrow> gstate" where
  "SetBattleGroundRaid p a s st =
     (let st = SetOriginalGroup p (GetGroup p st) (GetSubGroup p st) st;
          st = ref_link MainRef a p (ref_unlink MainRef p st)
      in setSubGroup MainRef p s st)"

definition RemoveFromBattleGroundRaid :: "u64 \<Rightarrow> gstate \<Rightarrow> gstate" where
  "RemoveFromBattleGroundRaid p st =
     (let st = ref_unlink MainRef p st;
          st = (case GetOriginalGroup p st of
                  None \<Rightarrow> st
                | Some a \<Rightarrow> setSubGroup MainRef p (GetOriginalSubGroup p st) (ref_link MainRef a p st))
      in SetOriginalGroup p None 0 st)"


section \<open>Slots and counters\<close>

definition getMemberSlot :: "u64 \<Rightarrow> group \<Rightarrow> member_slot option" where
  "getMemberSlot guid g = find (\<lambda>s. ms_guid s = guid) (m_memberSlots g)"

fun upd_slot :: "u64 \<Rightarrow> (member_slot \<Rightarrow> member_slot) \<Rightarrow> member_slot list \<Rightarrow> member_slot list" where
  "upd_slot guid f [] = []"
| "upd_slot guid f (s # ss) = (if ms_guid s = guid then f s # ss else s # upd_slot guid f ss)"

fun erase_slot :: "u64 \<Rightarrow> member_slot list \<Rightarrow> member_slot list" where
  "erase_slot guid [] = []"
| "erase_slot guid (s # ss) = (if ms_guid s = guid then ss else s # erase_slot guid ss)"

definition IsMember :: "u64 \<Rightarrow> group \<Rightarrow> bool" where
  "IsMember guid g \<longleftrightarrow> getMemberSlot guid g \<noteq> None"

definition IsLeader :: "u64 \<Rightarrow> group \<Rightarrow> bool" where
  "IsLeader guid g \<longleftrightarrow> m_leaderGuid g = guid"

definition IsAssistant :: "u64 \<Rightarrow> group \<Rightarrow> bool" where
  "IsAssistant guid g \<longleftrightarrow> (case getMemberSlot guid g of None \<Rightarrow> False | Some s \<Rightarrow> ms_assistant s)"

definition GetMemberGUID :: "string \<Rightarrow> group \<Rightarrow> u64" where
  "GetMemberGUID name g =
     (case find (\<lambda>s. ms_name s = name) (m_memberSlots g) of None \<Rightarrow> 0 | Some s \<Rightarrow> ms_guid s)"

definition GetMemberGroup :: "u64 \<Rightarrow> group \<Rightarrow> u8" where
  "GetMemberGroup guid g = (case getMemberSlot guid g of None \<Rightarrow> 9 | Some s \<Rightarrow> ms_group s)"

definition isRaidGroup :: "group \<Rightarrow> bool" where
  "isRaidGroup g \<longleftrightarrow> m_groupType g = GROUPTYPE_RAID"

definition isBGGroup :: "group \<Rightarrow> bool" where
  "isBGGroup g \<longleftrightarrow> m_bgGroup g \<noteq> None"

definition GetMembersCount :: "group \<Rightarrow> nat" where
  "GetMembersCount g = length (m_memberSlots g)"

definition IsCreated :: "group \<Rightarrow> bool" where
  "IsCreated g \<longleftrightarrow> GetMembersCount g > 0"

definition group_capacity :: "group \<Rightarrow> nat" where
  "group_capacity g = (case m_groupType g of GROUPTYPE_NORMAL \<Rightarrow> 5 | GROUPTYPE_RAID \<Rightarrow> 40)"

definition IsFull :: "group \<Rightarrow> bool" where
  "IsFull g \<longleftrightarrow> length (m_memberSlots g) \<ge> group_capacity g"

definition HasFreeSlotSubGroup :: "u8 \<Rightarrow> group \<Rightarrow> bool" where
  "HasFreeSlotSubGroup s g \<longleftrightarrow> (case m_subGroupsCounts g of None \<Rightarrow> False | Some c \<Rightarrow> c s < 5)"

definition SubGroupCounterIncrease :: "u8 \<Rightarrow> group \<Rightarrow> group" where
  "SubGroupCounterIncrease s g =
     g\<lparr>m_subGroupsCounts := map_option (\<lambda>c. c(s := c s + 1)) (m_subGroupsCounts g)\<rparr>"

definition SubGroupCounterDecrease :: "u8 \<Rightarrow> group \<Rightarrow> group" where
  "SubGroupCounterDecrease s g =
     g\<lparr>m_subGroupsCounts := map_option (\<lambda>c. c(s := c s - 1)) (m_subGroupsCounts g)\<rparr>"

text \<open>
  The array is allocated once, with whatever follows it in memory, and its eight cells are counted
  anew on every call.
\<close>

definition initRaidSubGroupsCounter :: "(u8 \<Rightarrow> u8) \<Rightarrow> group \<Rightarrow> group" where
  "initRaidSubGroupsCounter mem g =
     (let c = (case m_subGroupsCounts g of None \<Rightarrow> mem | Some c \<Rightarrow> c);
          c = (\<lambda>i. if i < 8 then 0 else c i)
      in g\<lparr>m_subGroupsCounts := Some (fold (\<lambda>s c. c(ms_group s := c (ms_group s) + 1)) (m_memberSlots g) c)\<rparr>)"

definition first_free_subgroup :: "(u8 \<Rightarrow> u8) \<Rightarrow> u8 option" where
  "first_free_subgroup c = find (\<lambda>i. c i < 5) [0, 1, 2, 3, 4, 5, 6, 7]"

section \<open>Packets\<close>

abbreviation SMSG_GROUP_INVITE :: u16 where "SMSG_GROUP_INVITE \<equiv> 0x06F"
abbreviation SMSG_GROUP_DECLINE :: u16 where "SMSG_GROUP_DECLINE \<equiv> 0x074"
abbreviation SMSG_GROUP_UNINVITE :: u16 where "SMSG_GROUP_UNINVITE \<equiv> 0x077"
abbreviation SMSG_GROUP_SET_LEADER :: u16 where "SMSG_GROUP_SET_LEADER \<equiv> 0x079"
abbreviation SMSG_GROUP_DESTROYED :: u16 where "SMSG_GROUP_DESTROYED \<equiv> 0x07C"
abbreviation SMSG_GROUP_LIST :: u16 where "SMSG_GROUP_LIST \<equiv> 0x07D"
abbreviation SMSG_PARTY_COMMAND_RESULT :: u16 where "SMSG_PARTY_COMMAND_RESULT \<equiv> 0x07F"
abbreviation MSG_MINIMAP_PING :: u16 where "MSG_MINIMAP_PING \<equiv> 0x1D5"
abbreviation MSG_RANDOM_ROLL :: u16 where "MSG_RANDOM_ROLL \<equiv> 0x1FB"
abbreviation MSG_RAID_TARGET_UPDATE :: u16 where "MSG_RAID_TARGET_UPDATE \<equiv> 0x321"
abbreviation MSG_RAID_READY_CHECK :: u16 where "MSG_RAID_READY_CHECK \<equiv> 0x322"
abbreviation MSG_RAID_READY_CHECK_CONFIRM :: u16 where "MSG_RAID_READY_CHECK_CONFIRM \<equiv> 0x3AE"

definition empty_group_list :: packet where
  "empty_group_list = mk_packet SMSG_GROUP_LIST [U64 0, U64 0, U64 0]"

definition type_code :: "GroupType \<Rightarrow> u8" where
  "type_code t = (case t of GROUPTYPE_NORMAL \<Rightarrow> 0 | GROUPTYPE_RAID \<Rightarrow> 1)"

definition other_member :: "'a group_env_scheme \<Rightarrow> group \<Rightarrow> member_slot \<Rightarrow> field list" where
  "other_member e g s =
     (let online = (if g_find e (ms_guid s) \<noteq> None then 1 else 0 :: u8);
          online = online OR (if isBGGroup g then 2 else 0)
      in [Str (ms_name s), U64 (ms_guid s), U8 online, U8 (ms_group s), U8 (if ms_assistant s then 1 else 0)])"

definition group_list :: "'a group_env_scheme \<Rightarrow> group \<Rightarrow> member_slot \<Rightarrow> packet" where
  "group_list e g me =
     mk_packet SMSG_GROUP_LIST
       ([U8 (type_code (m_groupType g)), U8 (if isBGGroup g then 1 else 0), U8 (ms_group me),
         U8 (if ms_assistant me then 1 else 0), U64 0x50000000FFFFFFFE,
         U32 (word_of_nat (GetMembersCount g) - 1)] @
        concat (map (other_member e g) (filter (\<lambda>s. ms_guid s \<noteq> ms_guid me) (m_memberSlots g))) @
        [U64 (m_leaderGuid g)] @
        (if (word_of_nat (GetMembersCount g) :: u32) - 1 \<noteq> 0
         then [U8 (ucast (m_lootMethod g)), U64 (m_looterGuid g), U8 (ucast (m_lootThreshold g)),
               U8 (m_difficulty g)]
         else []))"

definition SendUpdate :: "'a group_env_scheme \<Rightarrow> nat \<Rightarrow> gstate \<Rightarrow> gstate" where
  "SendUpdate e a st =
     (let g = grp st a in
      g_emit (map (\<lambda>s. GSend (ms_guid s) (group_list e g s))
        (filter (\<lambda>s. g_find e (ms_guid s) \<noteq> None \<and> GetGroup (ms_guid s) st = Some a) (m_memberSlots g))) st)"

text \<open>
  \<open>BroadcastPacket\<close> runs over the linked players, not over the slots: the subgroup is that of the
  reference, and players of the group who are in a battleground raid are linked by their original
  reference.
\<close>

definition broadcast_hears :: "nat \<Rightarrow> bool \<Rightarrow> u8 option \<Rightarrow> u64 \<Rightarrow> gstate \<Rightarrow> u64 \<times> ref_kind \<Rightarrow> bool" where
  "broadcast_hears a ignorePlayersInBGRaid sub ignore st pk \<longleftrightarrow>
     (case pk of (p, k) \<Rightarrow>
        \<not> (ignore \<noteq> 0 \<and> p = ignore) \<and> \<not> (ignorePlayersInBGRaid \<and> GetGroup p st \<noteq> Some a) \<and>
        (case sub of None \<Rightarrow> True | Some s \<Rightarrow> ref_sub (gref k p st) = s))"

definition BroadcastPacket :: "nat \<Rightarrow> packet \<Rightarrow> bool \<Rightarrow> u8 option \<Rightarrow> u64 \<Rightarrow> gstate \<Rightarrow> gstate" where
  "BroadcastPacket a data ignorePlayersInBGRaid sub ignore st =
     g_emit (map (\<lambda>pk. GSend (fst pk) data)
       (filter (broadcast_hears a ignorePlayersInBGRaid sub ignore st) (m_memberMgr (grp st a)))) st"

definition BroadcastReadyCheck :: "nat \<Rightarrow> packet \<Rightarrow> gstate \<Rightarrow> gstate" where
  "BroadcastReadyCheck a data st =
     (let g = grp st a in
      g_emit (map (\<lambda>pk. GSend (fst pk) data)
        (filter (\<lambda>pk. IsLeader (fst pk) g \<or> IsAssistant (fst pk) g) (m_memberMgr g))) st)"

definition OfflineReadyCheck :: "'a group_env_scheme \<Rightarrow> nat \<Rightarrow> gstate \<Rightarrow> gstate" where
  "OfflineReadyCheck e a st =
     fold (\<lambda>s. BroadcastReadyCheck a (mk_packet MSG_RAID_READY_CHECK_CONFIRM [U64 (ms_guid s), U8 0]))
       (filter (\<lambda>s. g_find e (ms_guid s) = None) (m_memberSlots (grp st a))) st"

definition BroadcastGroupUpdate :: "'a group_env_scheme \<Rightarrow> nat \<Rightarrow> gstate \<Rightarrow> gstate" where
  "BroadcastGroupUpdate e a st =
     g_emit (map (\<lambda>s. GForceUpdate (ms_guid s))
       (filter (\<lambda>s. g_find e (ms_guid s) \<noteq> None) (m_memberSlots (grp st a)))) st"

definition icon_entries :: "u64 list \<Rightarrow> field list" where
  "icon_entries icons =
     concat (map (\<lambda>(i, guid). if guid = 0 then [] else [U8 (word_of_nat i), U64 guid]) (enumerate 0 icons))"

definition SendTargetIconList :: "u64 \<Rightarrow> nat \<Rightarrow> gstate \<Rightarrow> gstate" where
  "SendTargetIconList p a st =
     g_emit [GSend p (mk_packet MSG_RAID_TARGET_UPDATE (U8 1 # icon_entries (m_targetIcons (grp st a))))] st"

definition UpdatePlayerOutOfRange :: "'a group_env_scheme \<Rightarrow> nat \<Rightarrow> u64 \<Rightarrow> gstate \<Rightarrow> gstate" where
  "UpdatePlayerOutOfRange e a p st =
     g_emit (map (\<lambda>pk. GSend (fst pk) (g_stats e p))
       (filter (\<lambda>pk. fst pk \<noteq> p \<and> \<not> g_visible e p (fst pk)) (m_memberMgr (grp st a)))) st"


section \<open>Members\<close>

text \<open>A player joins: \<open>_addMember\<close> with a subgroup, and with the first subgroup that is not full.\<close>

definition addMember_link :: "nat \<Rightarrow> u64 \<Rightarrow> u8 \<Rightarrow> gstate \<Rightarrow> gstate" where
  "addMember_link a p s st =
     (let st = SetGroupInvite p None st;
          st = (if GetGroup p st \<noteq> None \<and> isBGGroup (grp st a) then SetBattleGroundRaid p a s st
                else if GetGroup p st \<noteq> None then SetOriginalGroup p (Some a) s st
                else SetGroup p (Some a) s st)
      in g_emit [GCheckInstance p] st)"

definition addMember_to ::
  "'a group_env_scheme \<Rightarrow> nat \<Rightarrow> u64 \<Rightarrow> string \<Rightarrow> bool \<Rightarrow> u8 \<Rightarrow> gstate \<Rightarrow> bool \<times> gstate" where
  "addMember_to e a guid name isAssistant s st =
     (if IsFull (grp st a) \<or> guid = 0 then (False, st)
      else
        (let m = \<lparr>ms_guid = guid, ms_name = name, ms_group = s, ms_assistant = isAssistant\<rparr>;
             st = upd_grp a (\<lambda>g. SubGroupCounterIncrease s (g\<lparr>m_memberSlots := m_memberSlots g @ [m]\<rparr>)) st;
             st = (case g_find e guid of None \<Rightarrow> st | Some _ \<Rightarrow> addMember_link a guid s st);
             st = (if \<not> isRaidGroup (grp st a) then upd_grp a (\<lambda>g. g\<lparr>m_targetIcons := replicate 8 0\<rparr>) st else st);
             st = g_sql a [InsertMemberRow (GUID_LOPART (m_leaderGuid (grp st a))) (GUID_LOPART guid) isAssistant s] st
         in (True, st)))"

definition addMember ::
  "'a group_env_scheme \<Rightarrow> nat \<Rightarrow> u64 \<Rightarrow> string \<Rightarrow> bool \<Rightarrow> gstate \<Rightarrow> bool \<times> gstate" where
  "addMember e a guid name isAssistant st =
     (case m_subGroupsCounts (grp st a) of
        None \<Rightarrow> addMember_to e a guid name isAssistant 0 st
      | Some c \<Rightarrow>
          (case first_free_subgroup c of
             None \<Rightarrow> (False, st)
           | Some s \<Rightarrow> addMember_to e a guid name isAssistant s st))"

definition AddMember :: "'a group_env_scheme \<Rightarrow> nat \<Rightarrow> u64 \<Rightarrow> string \<Rightarrow> gstate \<Rightarrow> bool \<times> gstate" where
  "AddMember e a guid name st =
     (case addMember e a guid name False st of
        (False, st) \<Rightarrow> (False, st)
      | (True, st) \<Rightarrow>
          (let st = SendUpdate e a st
           in case g_find e guid of
                None \<Rightarrow> (True, st)
              | Some player \<Rightarrow>
                  (let g = grp st a;
                       st = (if \<not> IsLeader guid g \<and> \<not> isBGGroup g
                             then (let st = g_emit [GResetInstances guid] st
                                   in if p_level player \<ge> 70 \<and> gp_difficulty (gs_players st guid) \<noteq> m_difficulty g
                                      then g_emit [GSetDifficulty guid (m_difficulty g)]
                                        (upd_player guid (\<lambda>pl. pl\<lparr>gp_difficulty := m_difficulty g\<rparr>) st)
                                      else st)
                             else st)
                   in (True, UpdatePlayerOutOfRange e a guid st))))"

text \<open>A new leader takes over the instance binds of the group and the rows keyed by the leader.\<close>

definition setLeader :: "'a group_env_scheme \<Rightarrow> nat \<Rightarrow> u64 \<Rightarrow> gstate \<Rightarrow> gstate" where
  "setLeader e a guid st =
     (case getMemberSlot guid (grp st a) of
        None \<Rightarrow> st
      | Some slot \<Rightarrow>
          (let old = GUID_LOPART (m_leaderGuid (grp st a)); new = GUID_LOPART (ms_guid slot);
               st = (if isBGGroup (grp st a) then st
                     else g_emit ([GSql (DropPermanentBinds old new), GSql (MoveBinds new old),
                        GConvertInstances (ms_guid slot), GSql (MoveGroupLeader new old),
                        GSql (MoveMembersLeader new old)]) st)
           in upd_grp a (\<lambda>g. g\<lparr>m_leaderGuid := ms_guid slot, m_leaderName := ms_name slot\<rparr>) st))"

text \<open>The player's references on a group that is left.\<close>

definition leave_refs :: "nat \<Rightarrow> u64 \<Rightarrow> gstate \<Rightarrow> gstate" where
  "leave_refs a p st =
     (if isBGGroup (grp st a) then RemoveFromBattleGroundRaid p st
      else if GetOriginalGroup p st = Some a then SetOriginalGroup p None 0 st
      else SetGroup p None 0 st)"

definition removeMember :: "'a group_env_scheme \<Rightarrow> nat \<Rightarrow> u64 \<Rightarrow> gstate \<Rightarrow> bool \<times> gstate" where
  "removeMember e a guid st =
     (let st = (if g_find e guid \<noteq> None then leave_refs a guid st else st);
          st = upd_grp a (\<lambda>g. g\<lparr>m_rolls := removeRolls (roll_env.truncate e) guid
                 (word_of_nat (GetMembersCount g)) (m_rolls g)\<rparr>) st;
          st = (case getMemberSlot guid (grp st a) of
                  None \<Rightarrow> st
                | Some slot \<Rightarrow> upd_grp a (\<lambda>g. (SubGroupCounterDecrease (ms_group slot) g)
                     \<lparr>m_memberSlots := erase_slot guid (m_memberSlots g)\<rparr>) st);
          st = g_sql a [DeleteMemberRow (GUID_LOPART guid)] st
      in if m_leaderGuid (grp st a) = guid
         then (True, case m_memberSlots (grp st a) of [] \<Rightarrow> st | s # _ \<Rightarrow> setLeader e a (ms_guid s) st)
         else (False, st))"

text \<open>The end of a player's membership as the player sees it: the list of the group he is in now.\<close>

definition send_list_after_leaving :: "'a group_env_scheme \<Rightarrow> u64 \<Rightarrow> gstate \<Rightarrow> gstate" where
  "send_list_after_leaving e p st =
     g_emit [GHomebindIfInstance p]
       (case GetGroup p st of
          Some b \<Rightarrow> SendUpdate e b st
        | None \<Rightarrow> g_emit [GSend p empty_group_list] st)"

definition RemoveInvite :: "nat \<Rightarrow> u64 \<Rightarrow> gstate \<Rightarrow> gstate" where
  "RemoveInvite a p st =
     SetGroupInvite p None (upd_grp a (\<lambda>g. g\<lparr>m_invitees := removeAll p (m_invitees g)\<rparr>) st)"

definition RemoveAllInvites :: "nat \<Rightarrow> gstate \<Rightarrow> gstate" where
  "RemoveAllInvites a st =
     upd_grp a (\<lambda>g. g\<lparr>m_invitees := []\<rparr>) (fold (\<lambda>p. SetGroupInvite p None) (m_invitees (grp st a)) st)"

definition Disband_member :: "'a group_env_scheme \<Rightarrow> nat \<Rightarrow> bool \<Rightarrow> u64 \<Rightarrow> gstate \<Rightarrow> gstate" where
  "Disband_member e a hideDestroy p st =
     (case g_find e p of
        None \<Rightarrow> st
      | Some _ \<Rightarrow>
          (let st = leave_refs a p st;
               st = (if \<not> hideDestroy then g_emit [GSend p (mk_packet SMSG_GROUP_DESTROYED [])] st else st)
           in send_list_after_leaving e p st))"

definition Disband :: "'a group_env_scheme \<Rightarrow> nat \<Rightarrow> bool \<Rightarrow> gstate \<Rightarrow> gstate" where
  "Disband e a hideDestroy st =
     (let st = fold (\<lambda>s. Disband_member e a hideDestroy (ms_guid s)) (m_memberSlots (grp st a)) st;
          st = upd_grp a (\<lambda>g. g\<lparr>m_rolls := (m_rolls g)\<lparr>RollId := []\<rparr>, m_memberSlots := []\<rparr>) st;
          st = RemoveAllInvites a st;
          leader = GUID_LOPART (m_leaderGuid (grp st a));
          st = (if isBGGroup (grp st a) then st
                else g_emit [GSql (DeleteGroupRow leader), GSql (DeleteMemberRows leader), GResetGroupInstances a] st)
      in upd_grp a (\<lambda>g. g\<lparr>m_leaderGuid := 0, m_leaderName := []\<rparr>) st)"

definition RemoveMember :: "'a group_env_scheme \<Rightarrow> nat \<Rightarrow> u64 \<Rightarrow> u8 \<Rightarrow> gstate \<Rightarrow> nat \<times> gstate" where
  "RemoveMember e a guid how st =
     (let st = BroadcastGroupUpdate e a st;
          st = (if GetMembersCount (grp st a) > (if isBGGroup (grp st a) then 1 else 2)
            then
              (case removeMember e a guid st of (leaderChanged, st) \<Rightarrow>
                 (let st = (case g_find e guid of
                              None \<Rightarrow> st
                            | Some _ \<Rightarrow>
                                (let st = (if how = 1 then g_emit [GSend guid (mk_packet SMSG_GROUP_UNINVITE [])] st else st)
                                 in send_list_after_leaving e guid st));
                      st = (case m_memberSlots (grp st a) of
                              s # _ \<Rightarrow> if leaderChanged
                                then BroadcastPacket a (mk_packet SMSG_GROUP_SET_LEADER [Str (ms_name s)]) True None 0 st
                                else st
                            | [] \<Rightarrow> st)
                  in SendUpdate e a st))
            else Disband e a True st)
      in (GetMembersCount (grp st a), st))"

definition ChangeLeader :: "'a group_env_scheme \<Rightarrow> nat \<Rightarrow> u64 \<Rightarrow> gstate \<Rightarrow> gstate" where
  "ChangeLeader e a guid st =
     (case getMemberSlot guid (grp st a) of
        None \<Rightarrow> st
      | Some slot \<Rightarrow>
          (let st = setLeader e a guid st;
               st = BroadcastPacket a (mk_packet SMSG_GROUP_SET_LEADER [Str (ms_name slot)]) True None 0 st
           in SendUpdate e a st))"


section \<open>Creating, inviting, converting\<close>

definition Create_fields :: "'a group_env_scheme \<Rightarrow> u64 \<Rightarrow> string \<Rightarrow> group \<Rightarrow> group" where
  "Create_fields e guid name g =
     (let g = g\<lparr>m_leaderGuid := guid, m_leaderName := name,
            m_groupType := (if isBGGroup g then GROUPTYPE_RAID else GROUPTYPE_NORMAL)\<rparr>;
          g = (if m_groupType g = GROUPTYPE_RAID then initRaidSubGroupsCounter (g_memory e) g else g)
      in g\<lparr>m_lootMethod := 3, m_lootThreshold := 2, m_looterGuid := guid, m_difficulty := 0\<rparr>)"

text \<open>The statements for a new group, before its first member is added.\<close>

definition Create_store :: "nat \<Rightarrow> u64 \<Rightarrow> gstate \<Rightarrow> gstate" where
  "Create_store a guid st =
     (let g = grp st a; low = GUID_LOPART (m_leaderGuid g)
      in g_emit [GConvertInstances guid, GSql (DeleteGroupRow low), GSql (DeleteMemberRows low),
           GSql (InsertGroupRow low (GUID_LOPART (m_mainTank g)) (GUID_LOPART (m_mainAssistant g))
             (m_lootMethod g) (GUID_LOPART (m_looterGuid g)) (m_lootThreshold g) (m_targetIcons g)
             (isRaidGroup g) (m_difficulty g))] st)"

definition Create :: "'a group_env_scheme \<Rightarrow> nat \<Rightarrow> u64 \<Rightarrow> string \<Rightarrow> gstate \<Rightarrow> bool \<times> gstate" where
  "Create e a guid name st =
     (let st = upd_grp a (Create_fields e guid name) st;
          st = (if isBGGroup (grp st a) then st
                else
                  Create_store a guid
                    (case g_find e guid of
                       None \<Rightarrow> st
                     | Some _ \<Rightarrow> upd_grp a (\<lambda>g. g\<lparr>m_difficulty := gp_difficulty (gs_players st guid)\<rparr>) st))
      in AddMember e a guid name st)"

definition AddInvite :: "nat \<Rightarrow> u64 \<Rightarrow> gstate \<Rightarrow> bool \<times> gstate" where
  "AddInvite a p st =
     (if GetGroupInvite p st \<noteq> None then (False, st)
      else
        (let group = GetGroup p st;
             group = (case group of
                        Some b \<Rightarrow> if isBGGroup (grp st b) then GetOriginalGroup p st else group
                      | None \<Rightarrow> group)
         in if group \<noteq> None then (False, st)
            else
              (let st = RemoveInvite a p st;
                   st = upd_grp a (\<lambda>g. g\<lparr>m_invitees := List.insert p (m_invitees g)\<rparr>) st
               in (True, SetGroupInvite p (Some a) st))))"

definition AddLeaderInvite :: "nat \<Rightarrow> u64 \<Rightarrow> string \<Rightarrow> gstate \<Rightarrow> bool \<times> gstate" where
  "AddLeaderInvite a p name st =
     (case AddInvite a p st of
        (False, st) \<Rightarrow> (False, st)
      | (True, st) \<Rightarrow> (True, upd_grp a (\<lambda>g. g\<lparr>m_leaderGuid := p, m_leaderName := name\<rparr>) st))"

definition GetInvited :: "u64 \<Rightarrow> group \<Rightarrow> u64 option" where
  "GetInvited guid g = find (\<lambda>p. p = guid) (m_invitees g)"

definition GetInvited_name :: "'a group_env_scheme \<Rightarrow> string \<Rightarrow> group \<Rightarrow> u64 option" where
  "GetInvited_name e name g =
     find (\<lambda>p. \<exists>pl \<in> set (w_players (e_world e)). p_guid pl = p \<and> p_name pl = name) (m_invitees g)"

definition ConvertToRaid :: "'a group_env_scheme \<Rightarrow> nat \<Rightarrow> gstate \<Rightarrow> gstate" where
  "ConvertToRaid e a st =
     (let st = upd_grp a (\<lambda>g. initRaidSubGroupsCounter (g_memory e) (g\<lparr>m_groupType := GROUPTYPE_RAID\<rparr>)) st;
          st = g_sql a [SetGroupRaid (GUID_LOPART (m_leaderGuid (grp st a)))] st
      in SendUpdate e a st)"

section \<open>Roles, subgroups and icons\<close>

definition setMembersGroup :: "nat \<Rightarrow> u64 \<Rightarrow> u8 \<Rightarrow> gstate \<Rightarrow> bool \<times> gstate" where
  "setMembersGroup a guid s st =
     (if \<not> IsMember guid (grp st a) then (False, st)
      else
        (let st = upd_grp a (\<lambda>g. SubGroupCounterIncrease s
               (g\<lparr>m_memberSlots := upd_slot guid (\<lambda>m. m\<lparr>ms_group := s\<rparr>) (m_memberSlots g)\<rparr>)) st
         in (True, g_sql a [SetMemberSubgroup s (GUID_LOPART guid)] st)))"

definition SetAssistant :: "'a group_env_scheme \<Rightarrow> nat \<Rightarrow> u64 \<Rightarrow> bool \<Rightarrow> gstate \<Rightarrow> gstate" where
  "SetAssistant e a guid state st =
     (if \<not> isRaidGroup (grp st a) \<or> \<not> IsMember guid (grp st a) then st
      else
        (let st = upd_grp a (\<lambda>g. g\<lparr>m_memberSlots :=
               upd_slot guid (\<lambda>m. m\<lparr>ms_assistant := state\<rparr>) (m_memberSlots g)\<rparr>) st;
             st = g_sql a [SetMemberAssistant state (GUID_LOPART guid)] st
         in SendUpdate e a st))"

text \<open>
  The two setters call each other with guid 0 to give the other role up; a call with a guid that is
  not a member changes nothing, and 0 is never a member.
\<close>

fun setRole :: "nat \<Rightarrow> bool \<Rightarrow> nat \<Rightarrow> u64 \<Rightarrow> gstate \<Rightarrow> bool \<times> gstate" where
  "setRole 0 tank a guid st = (False, st)"
| "setRole (Suc n) tank a guid st =
     (if \<not> IsMember guid (grp st a) then (False, st)
      else if tank
      then
        (let st = (if m_mainAssistant (grp st a) = guid then snd (setRole n False a 0 st) else st);
             st = upd_grp a (\<lambda>g. g\<lparr>m_mainTank := guid\<rparr>) st
         in (True, g_sql a [SetGroupMainTank (GUID_LOPART guid) (GUID_LOPART (m_leaderGuid (grp st a)))] st))
      else
        (let st = (if m_mainTank (grp st a) = guid then snd (setRole n True a 0 st) else st);
             st = upd_grp a (\<lambda>g. g\<lparr>m_mainAssistant := guid\<rparr>) st
         in (True, g_sql a [SetGroupMainAssistant (GUID_LOPART guid) (GUID_LOPART (m_leaderGuid (grp st a)))] st)))"

definition SetMainRole :: "bool \<Rightarrow> 'a group_env_scheme \<Rightarrow> nat \<Rightarrow> u64 \<Rightarrow> gstate \<Rightarrow> gstate" where
  "SetMainRole tank e a guid st =
     (if \<not> isRaidGroup (grp st a) then st
      else (case setRole 3 tank a guid st of (False, st) \<Rightarrow> st | (True, st) \<Rightarrow> SendUpdate e a st))"

abbreviation "SetMainTank \<equiv> SetMainRole True"
abbreviation "SetMainAssistant \<equiv> SetMainRole False"

text \<open>\<open>ChangeMembersGroup(Player*, \<dots>)\<close> and \<open>ChangeMembersGroup(guid, \<dots>)\<close>.\<close>

definition ChangeMembersGroup_player ::
  "'a group_env_scheme \<Rightarrow> nat \<Rightarrow> u64 option \<Rightarrow> u8 \<Rightarrow> gstate \<Rightarrow> gstate" where
  "ChangeMembersGroup_player e a player s st =
     (case player of
        None \<Rightarrow> st
      | Some p \<Rightarrow>
          if \<not> isRaidGroup (grp st a) then st
          else
            (case setMembersGroup a p s st of
               (False, st) \<Rightarrow> st
             | (True, st) \<Rightarrow>
                 (let st = upd_grp a (SubGroupCounterDecrease (GetSubGroup p st)) st;
                      st = setSubGroup MainRef p s st
                  in SendUpdate e a st)))"

definition ChangeMembersGroup :: "'a group_env_scheme \<Rightarrow> nat \<Rightarrow> u64 \<Rightarrow> u8 \<Rightarrow> gstate \<Rightarrow> gstate" where
  "ChangeMembersGroup e a guid s st =
     (if \<not> isRaidGroup (grp st a) then st
      else
        (case g_find e guid of
           None \<Rightarrow> ChangeMembersGroup_player e a None s st
         | Some _ \<Rightarrow>
             (let main = (GetGroup guid st = Some a);
                  prev = (if main then GetSubGroup guid st else GetOriginalSubGroup guid st);
                  st = setSubGroup (if main then MainRef else OriginalRef) guid s st;
                  st = upd_grp a (SubGroupCounterDecrease prev) st
              in case setMembersGroup a guid s st of (False, st) \<Rightarrow> st | (True, st) \<Rightarrow> SendUpdate e a st)))"

definition set_icon :: "nat \<Rightarrow> nat \<Rightarrow> u64 \<Rightarrow> gstate \<Rightarrow> gstate" where
  "set_icon a i guid st =
     (let st = upd_grp a (\<lambda>g. g\<lparr>m_targetIcons := (m_targetIcons g)[i := guid]\<rparr>) st
      in BroadcastPacket a (mk_packet MSG_RAID_TARGET_UPDATE [U8 0, U8 (word_of_nat i), U64 guid]) True None 0 st)"

definition SetTargetIcon :: "nat \<Rightarrow> u8 \<Rightarrow> u64 \<Rightarrow> gstate \<Rightarrow> gstate" where
  "SetTargetIcon a i guid st =
     (if i \<ge> 8 then st
      else
        (let st = (if guid \<noteq> 0
               then fold (\<lambda>j st. if m_targetIcons (grp st a) ! j = guid then set_icon a j 0 st else st) [0..<8] st
               else st)
         in set_icon a (unat i) guid st))"

section \<open>Looters\<close>

definition set_looter :: "'a group_env_scheme \<Rightarrow> nat \<Rightarrow> member_slot option \<Rightarrow> gstate \<Rightarrow> gstate" where
  "set_looter e a next st =
     (case next of
        None \<Rightarrow> SendUpdate e a (upd_grp a (\<lambda>g. g\<lparr>m_looterGuid := 0\<rparr>) st)
      | Some s \<Rightarrow>
          (let st = SendUpdate e a (upd_grp a (\<lambda>g. g\<lparr>m_looterGuid := ms_guid s\<rparr>) st)
           in if g_looting e (ms_guid s) then g_emit [GSendLoot (ms_guid s)] st else st))"

text \<open>A member who may loot: in the world and near the object.\<close>

definition may_loot :: "'a group_env_scheme \<Rightarrow> member_slot \<Rightarrow> bool" where
  "may_loot e s \<longleftrightarrow> g_find e (ms_guid s) \<noteq> None \<and> g_near e (ms_guid s)"

definition next_looter :: "'a group_env_scheme \<Rightarrow> u64 \<Rightarrow> member_slot list \<Rightarrow> member_slot option" where
  "next_looter e looter slots =
     (let before = takeWhile (\<lambda>s. ms_guid s \<noteq> looter) slots;
          k = (if length before < length slots then length before + 1 else length before)
      in case find (may_loot e) (drop k slots) of
           Some s \<Rightarrow> Some s
         | None \<Rightarrow> find (may_loot e) (take k slots))"

definition UpdateLooterGuid :: "'a group_env_scheme \<Rightarrow> nat \<Rightarrow> bool \<Rightarrow> gstate \<Rightarrow> gstate" where
  "UpdateLooterGuid e a ifneed st =
     (let g = grp st a in
      if m_lootMethod g = 2 \<or> m_lootMethod g = 0 then st
      else if ifneed \<and> (case getMemberSlot (m_looterGuid g) g of None \<Rightarrow> False | Some s \<Rightarrow> may_loot e s) then st
      else set_looter e a (next_looter e (m_looterGuid g) (m_memberSlots g)) st)"


section \<open>Loading, deleting, difficulty\<close>

text \<open>A row of \<open>groups\<close>, in the order of the query, and a row of \<open>group_member\<close>.\<close>

record group_row =
  gr_mainTank :: u64
  gr_mainAssistant :: u64
  gr_lootMethod :: u8
  gr_looterGuid :: u32
  gr_lootThreshold :: u16
  gr_icons :: "u64 list"
  gr_isRaid :: bool
  gr_difficulty :: u8

record member_row =
  mr_memberGuid :: u32
  mr_assistant :: bool
  mr_subgroup :: u8

definition LoadMemberFromDB :: "world \<Rightarrow> member_row \<Rightarrow> group \<Rightarrow> group" where
  "LoadMemberFromDB w r g =
     (let guid = MAKE_NEW_GUID (ucast (mr_memberGuid r)) 0 (high_code HIGHGUID_PLAYER)
      in case w_names w guid of
           None \<Rightarrow> g
         | Some name \<Rightarrow>
             SubGroupCounterIncrease (mr_subgroup r)
               (g\<lparr>m_memberSlots := m_memberSlots g @
                  [\<lparr>ms_guid = guid, ms_name = name, ms_group = mr_subgroup r, ms_assistant = mr_assistant r\<rparr>]\<rparr>))"

definition LoadGroupFromDB ::
  "world \<Rightarrow> (u8 \<Rightarrow> u8) \<Rightarrow> u64 \<Rightarrow> group_row option \<Rightarrow> member_row list \<Rightarrow> group \<Rightarrow> bool \<times> group" where
  "LoadGroupFromDB w mem leaderGuid row members g =
     (if isBGGroup g then (False, g)
      else
        (case row of
           None \<Rightarrow> (False, g)
         | Some r \<Rightarrow>
             (let g = g\<lparr>m_leaderGuid := leaderGuid\<rparr>
              in case w_names w leaderGuid of
                   None \<Rightarrow> (False, g)
                 | Some name \<Rightarrow>
                     (let g = g\<lparr>m_leaderName := name,
                            m_groupType := (if gr_isRaid r then GROUPTYPE_RAID else GROUPTYPE_NORMAL)\<rparr>;
                          g = (if isRaidGroup g then initRaidSubGroupsCounter mem g else g);
                          g = g\<lparr>m_difficulty := gr_difficulty r, m_mainTank := gr_mainTank r,
                            m_mainAssistant := gr_mainAssistant r, m_lootMethod := ucast (gr_lootMethod r),
                            m_looterGuid := MAKE_NEW_GUID (ucast (gr_looterGuid r)) 0 (high_code HIGHGUID_PLAYER),
                            m_lootThreshold := ucast (gr_lootThreshold r), m_targetIcons := gr_icons r\<rparr>
                      in if members = [] then (False, g)
                         else
                           (let g = fold (LoadMemberFromDB w) members g
                            in (GetMembersCount g \<ge> 2, g))))))"

text \<open>
  \<open>delete group\<close>: the destructor of the reference manager cuts the references that are still linked;
  a player's \<open>m_groupInvite\<close> is a plain pointer and stays.
\<close>

definition delete_group :: "nat \<Rightarrow> gstate \<Rightarrow> gstate" where
  "delete_group a st =
     (let st = fold (\<lambda>(p, k). set_ref k p ((gref k p st)\<lparr>ref_to := None\<rparr>)) (m_memberMgr (grp st a)) st
      in st\<lparr>gs_heap := (gs_heap st)(a := None)\<rparr>)"

definition new_group :: "gstate \<Rightarrow> nat \<times> gstate" where
  "new_group st =
     (gs_next st, st\<lparr>gs_heap := (gs_heap st)(gs_next st := Some Group_new), gs_next := gs_next st + 1\<rparr>)"

definition SetDifficulty :: "'a group_env_scheme \<Rightarrow> nat \<Rightarrow> u8 \<Rightarrow> gstate \<Rightarrow> gstate" where
  "SetDifficulty e a d st =
     (let st = upd_grp a (\<lambda>g. g\<lparr>m_difficulty := d\<rparr>) st;
          st = g_sql a [SetGroupDifficulty d (GUID_LOPART (m_leaderGuid (grp st a)))] st
      in fold (\<lambda>pk st.
           case find (\<lambda>pl. p_guid pl = fst pk) (w_players (e_world e)) of
             None \<Rightarrow> st
           | Some pl \<Rightarrow>
               if p_level pl < 70 then st
               else g_emit [GSetDifficulty (fst pk) d] (upd_player (fst pk) (\<lambda>pl. pl\<lparr>gp_difficulty := d\<rparr>) st))
         (m_memberMgr (grp st a)) st)"

definition SameSubGroup :: "u64 \<Rightarrow> u64 \<Rightarrow> group \<Rightarrow> bool" where
  "SameSubGroup guid1 guid2 g \<longleftrightarrow>
     (case getMemberSlot guid2 g of
        None \<Rightarrow> False
      | Some s2 \<Rightarrow> (case getMemberSlot guid1 g of None \<Rightarrow> False | Some s1 \<Rightarrow> ms_group s1 = ms_group s2))"

definition SameSubGroup_players :: "nat \<Rightarrow> u64 \<Rightarrow> u64 \<Rightarrow> gstate \<Rightarrow> bool" where
  "SameSubGroup_players a p q st \<longleftrightarrow>
     (if GetGroup p st \<noteq> Some a \<or> GetGroup q st \<noteq> Some a then False else GetSubGroup p st = GetSubGroup q st)"

section \<open>Battleground queues\<close>

datatype BattleGroundJoinError =
    BG_JOIN_ERR_OK
  | BG_JOIN_ERR_OFFLINE_MEMBER
  | BG_JOIN_ERR_GROUP_TOO_MANY
  | BG_JOIN_ERR_MIXED_FACTION
  | BG_JOIN_ERR_MIXED_LEVELS
  | BG_JOIN_ERR_MIXED_ARENATEAM
  | BG_JOIN_ERR_GROUP_MEMBER_ALREADY_IN_QUEUE
  | BG_JOIN_ERR_GROUP_DESERTER
  | BG_JOIN_ERR_ALL_QUEUES_USED
  | BG_JOIN_ERR_GROUP_NOT_ENOUGH

text \<open>What the check asks about a member.\<close>

record bg_member =
  bm_team :: u32
  bm_bracket :: u32
  bm_arenaTeam :: u32
  bm_inQueue :: bool
  bm_canJoin :: bool
  bm_hasFreeQueue :: bool

fun bg_check :: "u32 \<Rightarrow> bool \<Rightarrow> bg_member \<Rightarrow> bg_member list \<Rightarrow> BattleGroundJoinError" where
  "bg_check bgTypeId isRated r [] = BG_JOIN_ERR_OK"
| "bg_check bgTypeId isRated r (m # ms) =
     (if bm_team m \<noteq> bm_team r then BG_JOIN_ERR_MIXED_FACTION
      else if bm_bracket m \<noteq> bm_bracket r then BG_JOIN_ERR_MIXED_LEVELS
      else if isRated \<and> bm_arenaTeam m \<noteq> bm_arenaTeam r then BG_JOIN_ERR_MIXED_ARENATEAM
      else if bm_inQueue m then BG_JOIN_ERR_GROUP_MEMBER_ALREADY_IN_QUEUE
      else if bgTypeId \<noteq> 6 \<and> \<not> bm_canJoin m then BG_JOIN_ERR_GROUP_DESERTER
      else if \<not> bm_hasFreeQueue m then BG_JOIN_ERR_ALL_QUEUES_USED
      else bg_check bgTypeId isRated r ms)"

text \<open>
  The reference is the first linked player; without any linked player the code dereferences null.
\<close>

definition CanJoinBattleGroundQueue ::
  "(u64 \<Rightarrow> bg_member) \<Rightarrow> nat \<Rightarrow> u32 \<Rightarrow> u32 \<Rightarrow> u32 \<Rightarrow> bool \<Rightarrow> gstate \<Rightarrow> BattleGroundJoinError option" where
  "CanJoinBattleGroundQueue q a bgTypeId MinPlayerCount MaxPlayerCount isRated st =
     (let g = grp st a; memberscount = word_of_nat (GetMembersCount g) :: u32 in
      if memberscount < MinPlayerCount then Some BG_JOIN_ERR_GROUP_NOT_ENOUGH
      else if memberscount > MaxPlayerCount then Some BG_JOIN_ERR_GROUP_TOO_MANY
      else
        (case m_memberMgr g of
           [] \<Rightarrow> None
         | (p, _) # _ \<Rightarrow> Some (bg_check bgTypeId isRated (q p) (map (q \<circ> fst) (m_memberMgr g)))))"

end
