(* ===== verification/GroupHandlers.thy ===== *)
theory GroupHandlers
  imports Group Names
begin

text \<open>
  The requests of the players about groups: game/GroupHandler.cpp, the group functions of
  game/Player.cpp, and what login and logout (game/WorldSession.cpp) do to a player's group.
\<close>

section \<open>Functions of the player\<close>

definition GetGroupByLeader :: "u64 \<Rightarrow> gstate \<Rightarrow> nat option" where
  "GetGroupByLeader guid st = find (\<lambda>a. m_leaderGuid (grp st a) = guid) (gs_groupSet st)"

definition AddGroup :: "nat \<Rightarrow> gstate \<Rightarrow> gstate" where
  "AddGroup a st = st\<lparr>gs_groupSet := List.insert a (gs_groupSet st)\<rparr>"

definition RemoveGroup :: "nat \<Rightarrow> gstate \<Rightarrow> gstate" where
  "RemoveGroup a st = st\<lparr>gs_groupSet := removeAll a (gs_groupSet st)\<rparr>"

definition UninviteFromGroup :: "'a group_env_scheme \<Rightarrow> u64 \<Rightarrow> gstate \<Rightarrow> gstate" where
  "UninviteFromGroup e p st =
     (case GetGroupInvite p st of
        None \<Rightarrow> st
      | Some a \<Rightarrow>
          (let st = RemoveInvite a p st in
           if GetMembersCount (grp st a) \<le> 1
           then (let st = (if IsCreated (grp st a) then RemoveGroup a (Disband e a True st)
                           else RemoveAllInvites a st)
                 in delete_group a st)
           else st))"

definition RemoveFromGroup :: "'a group_env_scheme \<Rightarrow> nat option \<Rightarrow> u64 \<Rightarrow> gstate \<Rightarrow> gstate" where
  "RemoveFromGroup e to guid st =
     (case to of
        None \<Rightarrow> st
      | Some a \<Rightarrow>
          (case RemoveMember e a guid 0 st of
             (n, st) \<Rightarrow> if n \<le> 1 then delete_group a (RemoveGroup a st) else st))"

datatype PartyResult =
    PARTY_RESULT_OK
  | PARTY_RESULT_CANT_FIND_TARGET
  | PARTY_RESULT_NOT_IN_YOUR_PARTY
  | PARTY_RESULT_NOT_IN_YOUR_INSTANCE
  | PARTY_RESULT_PARTY_FULL
  | PARTY_RESULT_ALREADY_IN_GROUP
  | PARTY_RESULT_YOU_NOT_IN_GROUP
  | PARTY_RESULT_YOU_NOT_LEADER
  | PARTY_RESULT_TARGET_UNFRIENDLY
  | PARTY_RESULT_TARGET_IGNORE_YOU
  | PARTY_RESULT_INVITE_RESTRICTED

fun party_result_code :: "PartyResult \<Rightarrow> u32" where
  "party_result_code PARTY_RESULT_OK = 0"
| "party_result_code PARTY_RESULT_CANT_FIND_TARGET = 1"
| "party_result_code PARTY_RESULT_NOT_IN_YOUR_PARTY = 2"
| "party_result_code PARTY_RESULT_NOT_IN_YOUR_INSTANCE = 3"
| "party_result_code PARTY_RESULT_PARTY_FULL = 4"
| "party_result_code PARTY_RESULT_ALREADY_IN_GROUP = 5"
| "party_result_code PARTY_RESULT_YOU_NOT_IN_GROUP = 6"
| "party_result_code PARTY_RESULT_YOU_NOT_LEADER = 7"
| "party_result_code PARTY_RESULT_TARGET_UNFRIENDLY = 8"
| "party_result_code PARTY_RESULT_TARGET_IGNORE_YOU = 9"
| "party_result_code PARTY_RESULT_INVITE_RESTRICTED = 13"

abbreviation PARTY_OP_INVITE :: u32 where "PARTY_OP_INVITE \<equiv> 0"
abbreviation PARTY_OP_LEAVE :: u32 where "PARTY_OP_LEAVE \<equiv> 2"

definition SendPartyResult :: "u64 \<Rightarrow> u32 \<Rightarrow> string \<Rightarrow> PartyResult \<Rightarrow> gstate \<Rightarrow> gstate" where
  "SendPartyResult p operation member res =
     g_emit [GSend p (mk_packet SMSG_PARTY_COMMAND_RESULT
       [U32 operation, Str member, U32 (party_result_code res)])]"

definition CanUninviteFromGroup :: "'a group_env_scheme \<Rightarrow> u64 \<Rightarrow> gstate \<Rightarrow> PartyResult" where
  "CanUninviteFromGroup e p st =
     (case GetGroup p st of
        None \<Rightarrow> PARTY_RESULT_YOU_NOT_IN_GROUP
      | Some a \<Rightarrow>
          if \<not> IsLeader p (grp st a) \<and> \<not> IsAssistant p (grp st a) then PARTY_RESULT_YOU_NOT_LEADER
          else if g_inBG e p then PARTY_RESULT_INVITE_RESTRICTED
          else PARTY_RESULT_OK)"

section \<open>Invitations\<close>

text \<open>
  What the handlers need beyond the group operations: the UTF-8 library, the random number generator
  and the character table.
\<close>

record handler_env = group_env +
  h_u8dec :: utf8_decoder
  h_u8enc :: utf8_encoder
  h_urand :: "u32 \<Rightarrow> u32 \<Rightarrow> u32"
  h_guidByName :: "string \<Rightarrow> u64"

text \<open>A name that cannot be normalised: it is emptied when only the way back to UTF-8 fails.\<close>

definition unnormalised :: "handler_env \<Rightarrow> string \<Rightarrow> string" where
  "unnormalised e name =
     (if Utf8toWStr_buf (h_u8dec e) name MAX_INTERNAL_PLAYER_NAME = None then name else [])"

text \<open>The group a player counts as being in: not a battleground raid but the party left for it.\<close>

definition home_group :: "u64 \<Rightarrow> gstate \<Rightarrow> nat option" where
  "home_group p st =
     (case GetGroup p st of
        None \<Rightarrow> None
      | Some a \<Rightarrow> if isBGGroup (grp st a) then GetOriginalGroup p st else Some a)"

text \<open>The checks on the two players, in the order of the handler.\<close>

definition invite_refused :: "handler_env \<Rightarrow> player \<Rightarrow> player \<Rightarrow> gstate \<Rightarrow> PartyResult option" where
  "invite_refused e self pl st =
     (let me = p_guid self; you = p_guid pl; w = e_world e in
      if \<not> getConfig w CONFIG_ALLOW_GM_GROUP \<and> \<not> g_gm e me \<and> g_gm e you
      then Some PARTY_RESULT_CANT_FIND_TARGET
      else if \<not> getConfig w CONFIG_ALLOW_TWO_SIDE_INTERACTION_GROUP \<and> p_team self \<noteq> p_team pl
      then Some PARTY_RESULT_TARGET_UNFRIENDLY
      else if g_instance e me \<noteq> 0 \<and> g_instance e you \<noteq> 0 \<and> g_instance e me \<noteq> g_instance e you \<and>
        g_mapid e me = g_mapid e you
      then Some PARTY_RESULT_NOT_IN_YOUR_INSTANCE
      else if g_instance e you \<noteq> 0 \<and> gp_difficulty (gs_players st you) \<noteq> gp_difficulty (gs_players st me)
      then Some PARTY_RESULT_TARGET_IGNORE_YOU
      else if HasIgnore (GetSocial (g_social e) you) (GUID_LOPART me)
      then Some PARTY_RESULT_TARGET_IGNORE_YOU
      else if home_group you st \<noteq> None \<or> GetGroupInvite you st \<noteq> None
      then Some PARTY_RESULT_ALREADY_IN_GROUP
      else None)"

definition invite_sent :: "player \<Rightarrow> player \<Rightarrow> string \<Rightarrow> gstate \<Rightarrow> gstate" where
  "invite_sent self pl name st =
     SendPartyResult (p_guid self) PARTY_OP_INVITE name PARTY_RESULT_OK
       (g_emit [GSend (p_guid pl) (mk_packet SMSG_GROUP_INVITE [Str (p_name self)])] st)"

definition HandleGroupInviteOpcode :: "handler_env \<Rightarrow> player \<Rightarrow> string \<Rightarrow> gstate \<Rightarrow> gstate" where
  "HandleGroupInviteOpcode e self membername st =
     (let me = p_guid self in
      case normalizePlayerName (h_u8dec e) (h_u8enc e) membername of
        None \<Rightarrow> SendPartyResult me PARTY_OP_INVITE (unnormalised e membername) PARTY_RESULT_CANT_FIND_TARGET st
      | Some name \<Rightarrow>
          (case FindPlayerByName (e_world e) name of
             None \<Rightarrow> SendPartyResult me PARTY_OP_INVITE name PARTY_RESULT_CANT_FIND_TARGET st
           | Some pl \<Rightarrow>
               (case invite_refused e self pl st of
                  Some r \<Rightarrow> SendPartyResult me PARTY_OP_INVITE name r st
                | None \<Rightarrow>
                    (case home_group me st of
                       Some a \<Rightarrow>
                         if \<not> IsLeader me (grp st a) \<and> \<not> IsAssistant me (grp st a)
                         then SendPartyResult me PARTY_OP_INVITE [] PARTY_RESULT_YOU_NOT_LEADER st
                         else if IsFull (grp st a)
                         then SendPartyResult me PARTY_OP_INVITE [] PARTY_RESULT_PARTY_FULL st
                         else
                           (case AddInvite a (p_guid pl) st of
                              (False, st) \<Rightarrow> st
                            | (True, st) \<Rightarrow> invite_sent self pl name st)
                     | None \<Rightarrow>
                         (case new_group st of (a, st) \<Rightarrow>
                            case AddLeaderInvite a me (p_name self) st of
                              (False, st) \<Rightarrow> delete_group a st
                            | (True, st) \<Rightarrow>
                                (case AddInvite a (p_guid pl) st of
                                   (False, st) \<Rightarrow> delete_group a st
                                 | (True, st) \<Rightarrow> invite_sent self pl name st))))))"

text \<open>The first acceptance creates the group, with the inviting leader as its first member.\<close>

definition accept_create :: "handler_env \<Rightarrow> nat \<Rightarrow> gstate \<Rightarrow> gstate" where
  "accept_create e a st =
     (if IsCreated (grp st a) then st
      else
        (let leader = m_leaderGuid (grp st a);
             st = (if g_find e leader \<noteq> None then RemoveInvite a leader st else st)
         in AddGroup a (snd (Create e a leader (m_leaderName (grp st a)) st))))"

definition HandleGroupAcceptOpcode :: "handler_env \<Rightarrow> player \<Rightarrow> gstate \<Rightarrow> gstate" where
  "HandleGroupAcceptOpcode e self st =
     (let me = p_guid self in
      case GetGroupInvite me st of
        None \<Rightarrow> st
      | Some a \<Rightarrow>
          if m_leaderGuid (grp st a) = me then st
          else
            (let st = RemoveInvite a me st in
             if IsFull (grp st a) then SendPartyResult me PARTY_OP_INVITE [] PARTY_RESULT_PARTY_FULL st
             else
               (case AddMember e a me (p_name self) (accept_create e a st) of
                  (False, st) \<Rightarrow> st
                | (True, st) \<Rightarrow> BroadcastGroupUpdate e a st)))"

definition HandleGroupDeclineOpcode :: "handler_env \<Rightarrow> player \<Rightarrow> gstate \<Rightarrow> gstate" where
  "HandleGroupDeclineOpcode e self st =
     (let me = p_guid self in
      case GetGroupInvite me st of
        None \<Rightarrow> st
      | Some a \<Rightarrow>
          (let leader = m_leaderGuid (grp st a); st = UninviteFromGroup e me st
           in if g_find e leader = None then st
              else g_emit [GSend leader (mk_packet SMSG_GROUP_DECLINE [Str (p_name self)])] st))"


section \<open>Leaving and leading\<close>

definition HandleGroupUninviteGuidOpcode :: "handler_env \<Rightarrow> player \<Rightarrow> u64 \<Rightarrow> gstate \<Rightarrow> gstate" where
  "HandleGroupUninviteGuidOpcode e self guid st =
     (let me = p_guid self in
      if guid = me then st
      else if CanUninviteFromGroup e me st \<noteq> PARTY_RESULT_OK
      then SendPartyResult me PARTY_OP_LEAVE [] (CanUninviteFromGroup e me st) st
      else
        (case GetGroup me st of
           None \<Rightarrow> st
         | Some a \<Rightarrow>
             if IsMember guid (grp st a) then RemoveFromGroup e (Some a) guid st
             else
               (case GetInvited guid (grp st a) of
                  Some q \<Rightarrow> UninviteFromGroup e q st
                | None \<Rightarrow> SendPartyResult me PARTY_OP_LEAVE [] PARTY_RESULT_NOT_IN_YOUR_PARTY st)))"

definition HandleGroupUninviteNameOpcode :: "handler_env \<Rightarrow> player \<Rightarrow> string \<Rightarrow> gstate \<Rightarrow> gstate" where
  "HandleGroupUninviteNameOpcode e self membername st =
     (let me = p_guid self in
      case normalizePlayerName (h_u8dec e) (h_u8enc e) membername of
        None \<Rightarrow> st
      | Some name \<Rightarrow>
          if p_name self = name then st
          else if CanUninviteFromGroup e me st \<noteq> PARTY_RESULT_OK
          then SendPartyResult me PARTY_OP_LEAVE [] (CanUninviteFromGroup e me st) st
          else
            (case GetGroup me st of
               None \<Rightarrow> st
             | Some a \<Rightarrow>
                 (let guid = GetMemberGUID name (grp st a) in
                  if guid \<noteq> 0 then RemoveFromGroup e (Some a) guid st
                  else
                    (case GetInvited_name e name (grp st a) of
                       Some q \<Rightarrow> UninviteFromGroup e q st
                     | None \<Rightarrow> SendPartyResult me PARTY_OP_LEAVE name PARTY_RESULT_NOT_IN_YOUR_PARTY st))))"

definition HandleGroupSetLeaderOpcode :: "handler_env \<Rightarrow> player \<Rightarrow> u64 \<Rightarrow> gstate \<Rightarrow> gstate" where
  "HandleGroupSetLeaderOpcode e self guid st =
     (case GetGroup (p_guid self) st of
        None \<Rightarrow> st
      | Some a \<Rightarrow>
          if g_find e guid = None \<or> \<not> IsLeader (p_guid self) (grp st a) \<or> GetGroup guid st \<noteq> Some a then st
          else ChangeLeader e a guid st)"

definition HandleGroupLeaveOpcode :: "handler_env \<Rightarrow> player \<Rightarrow> gstate \<Rightarrow> gstate" where
  "HandleGroupLeaveOpcode e self st =
     (let me = p_guid self in
      if GetGroup me st = None then st
      else if g_inBG e me then SendPartyResult me PARTY_OP_INVITE [] PARTY_RESULT_INVITE_RESTRICTED st
      else
        (let st = SendPartyResult me PARTY_OP_LEAVE (p_name self) PARTY_RESULT_OK st
         in RemoveFromGroup e (GetGroup me st) me st))"

section \<open>Loot, icons and raids\<close>

definition HandleLootMethodOpcode :: "handler_env \<Rightarrow> player \<Rightarrow> u32 \<Rightarrow> u64 \<Rightarrow> u32 \<Rightarrow> gstate \<Rightarrow> gstate" where
  "HandleLootMethodOpcode e self lootMethod lootMaster lootThreshold st =
     (case GetGroup (p_guid self) st of
        None \<Rightarrow> st
      | Some a \<Rightarrow>
          if \<not> IsLeader (p_guid self) (grp st a) then st
          else SendUpdate e a (upd_grp a (\<lambda>g. g\<lparr>m_lootMethod := lootMethod, m_looterGuid := lootMaster,
                 m_lootThreshold := lootThreshold\<rparr>) st))"

definition HandleLootRoll :: "handler_env \<Rightarrow> player \<Rightarrow> u64 \<Rightarrow> u32 \<Rightarrow> u8 \<Rightarrow> gstate \<Rightarrow> gstate" where
  "HandleLootRoll e self Guid NumberOfPlayers Choise st =
     (case GetGroup (p_guid self) st of
        None \<Rightarrow> st
      | Some a \<Rightarrow> upd_grp a (\<lambda>g. g\<lparr>m_rolls :=
          CountRollVote (roll_env.truncate e) (p_guid self) Guid NumberOfPlayers Choise (m_rolls g)\<rparr>) st)"

text \<open>The coordinates are floats, streamed as their four bytes.\<close>

definition HandleMinimapPingOpcode :: "player \<Rightarrow> u32 \<Rightarrow> u32 \<Rightarrow> gstate \<Rightarrow> gstate" where
  "HandleMinimapPingOpcode self x y st =
     (case GetGroup (p_guid self) st of
        None \<Rightarrow> st
      | Some a \<Rightarrow> BroadcastPacket a (mk_packet MSG_MINIMAP_PING [U64 (p_guid self), U32 x, U32 y])
          True None (p_guid self) st)"

definition HandleRandomRollOpcode :: "handler_env \<Rightarrow> player \<Rightarrow> u32 \<Rightarrow> u32 \<Rightarrow> gstate \<Rightarrow> gstate" where
  "HandleRandomRollOpcode e self minimum maximum st =
     (if minimum > maximum \<or> maximum > 10000 then st
      else
        (let data = mk_packet MSG_RANDOM_ROLL
               [U32 minimum, U32 maximum, U32 (h_urand e minimum maximum), U64 (p_guid self)]
         in case GetGroup (p_guid self) st of
              Some a \<Rightarrow> BroadcastPacket a data False None 0 st
            | None \<Rightarrow> g_emit [GSend (p_guid self) data] st))"

definition HandleRaidIconTargetOpcode :: "player \<Rightarrow> u8 \<Rightarrow> u64 \<Rightarrow> gstate \<Rightarrow> gstate" where
  "HandleRaidIconTargetOpcode self x guid st =
     (case GetGroup (p_guid self) st of
        None \<Rightarrow> st
      | Some a \<Rightarrow>
          if x = 0xFF then SendTargetIconList (p_guid self) a st
          else if \<not> IsLeader (p_guid self) (grp st a) \<and> \<not> IsAssistant (p_guid self) (grp st a) then st
          else SetTargetIcon a x guid st)"

definition HandleRaidConvertOpcode :: "handler_env \<Rightarrow> player \<Rightarrow> gstate \<Rightarrow> gstate" where
  "HandleRaidConvertOpcode e self st =
     (case GetGroup (p_guid self) st of
        None \<Rightarrow> st
      | Some a \<Rightarrow>
          if g_inBG e (p_guid self) then st
          else if \<not> IsLeader (p_guid self) (grp st a) \<or> GetMembersCount (grp st a) < 2 then st
          else ConvertToRaid e a (SendPartyResult (p_guid self) PARTY_OP_INVITE [] PARTY_RESULT_OK st))"

definition HandleGroupChangeSubGroupOpcode :: "handler_env \<Rightarrow> player \<Rightarrow> string \<Rightarrow> u8 \<Rightarrow> gstate \<Rightarrow> gstate" where
  "HandleGroupChangeSubGroupOpcode e self name groupNr st =
     (case GetGroup (p_guid self) st of
        None \<Rightarrow> st
      | Some a \<Rightarrow>
          if \<not> IsLeader (p_guid self) (grp st a) \<and> \<not> IsAssistant (p_guid self) (grp st a) then st
          else if \<not> HasFreeSlotSubGroup groupNr (grp st a) then st
          else
            (case FindPlayerByName (e_world e) name of
               Some pl \<Rightarrow> ChangeMembersGroup_player e a (Some (p_guid pl)) groupNr st
             | None \<Rightarrow> ChangeMembersGroup e a (h_guidByName e name) groupNr st))"

definition HandleGroupAssistantOpcode :: "handler_env \<Rightarrow> player \<Rightarrow> u64 \<Rightarrow> u8 \<Rightarrow> gstate \<Rightarrow> gstate" where
  "HandleGroupAssistantOpcode e self guid flag st =
     (case GetGroup (p_guid self) st of
        None \<Rightarrow> st
      | Some a \<Rightarrow> if \<not> IsLeader (p_guid self) (grp st a) then st else SetAssistant e a guid (flag \<noteq> 0) st)"

definition HandlePartyAssignmentOpcode :: "handler_env \<Rightarrow> player \<Rightarrow> u8 \<Rightarrow> u8 \<Rightarrow> u64 \<Rightarrow> gstate \<Rightarrow> gstate" where
  "HandlePartyAssignmentOpcode e self flag1 flag2 guid st =
     (case GetGroup (p_guid self) st of
        None \<Rightarrow> st
      | Some a \<Rightarrow>
          if \<not> IsLeader (p_guid self) (grp st a) then st
          else
            (let st = (if flag1 = 1 then SetMainAssistant e a guid st else st)
             in if flag2 = 1 then SetMainTank e a guid st else st))"

definition HandleRaidReadyCheckOpcode :: "handler_env \<Rightarrow> player \<Rightarrow> u8 option \<Rightarrow> gstate \<Rightarrow> gstate" where
  "HandleRaidReadyCheckOpcode e self answer st =
     (let me = p_guid self in
      case GetGroup me st of
        None \<Rightarrow> st
      | Some a \<Rightarrow>
          (case answer of
             None \<Rightarrow>
               if \<not> IsLeader me (grp st a) \<and> \<not> IsAssistant me (grp st a) then st
               else OfflineReadyCheck e a (BroadcastPacket a (mk_packet MSG_RAID_READY_CHECK [U64 me]) False None 0 st)
           | Some state \<Rightarrow>
               BroadcastReadyCheck a (mk_packet MSG_RAID_READY_CHECK_CONFIRM [U64 me, U8 state]) st))"

section \<open>Login and logout\<close>

definition fresh_player :: group_player where
  "fresh_player = \<lparr>gp_ref = (\<lambda>_. \<lparr>ref_to = None, ref_sub = 0\<rparr>), gp_invite = None, gp_difficulty = 0\<rparr>"

text \<open>
  \<open>Player::_LoadGroup\<close> on the new player object, with the leader found in the row of \<open>group_member\<close>.
\<close>

definition LoadGroup :: "player \<Rightarrow> u32 option \<Rightarrow> gstate \<Rightarrow> gstate" where
  "LoadGroup self row st =
     (case row of
        None \<Rightarrow> st
      | Some low \<Rightarrow>
          (case GetGroupByLeader (MAKE_NEW_GUID low 0 (high_code HIGHGUID_PLAYER)) st of
             None \<Rightarrow> st
           | Some a \<Rightarrow>
               (let me = p_guid self; st = SetGroup me (Some a) (GetMemberGroup me (grp st a)) st
                in if p_level self \<ge> 70
                   then upd_player me (\<lambda>pl. pl\<lparr>gp_difficulty := m_difficulty (grp st a)\<rparr>) st else st)))"

text \<open>
  \<open>LogoutPlayer\<close>: the group part, with the socket still open or not, and the destructor of the player
  object, which cuts both references.
\<close>

definition LogoutPlayer :: "handler_env \<Rightarrow> player \<Rightarrow> bool \<Rightarrow> gstate \<Rightarrow> gstate" where
  "LogoutPlayer e self socket st =
     (let me = p_guid self;
          st = UninviteFromGroup e me st;
          st = (case GetGroup me st of
                  None \<Rightarrow> st
                | Some a \<Rightarrow> if \<not> isRaidGroup (grp st a) \<and> socket then RemoveFromGroup e (Some a) me st else st);
          st = (case GetGroup me st of None \<Rightarrow> st | Some a \<Rightarrow> SendUpdate e a st);
          st = ref_unlink OriginalRef me (ref_unlink MainRef me st)
      in upd_player me (\<lambda>_. fresh_player) st)"

section \<open>All requests\<close>

datatype group_req =
    RInvite string
  | RAccept
  | RDecline
  | RUninviteGuid u64
  | RUninviteName string
  | RSetLeader u64
  | RLeave
  | RLootMethod u32 u64 u32
  | RLootRoll u64 u32 u8
  | RPing u32 u32
  | RRandomRoll u32 u32
  | RIcon u8 u64
  | RConvert
  | RChangeSubGroup string u8
  | RAssistant u64 u8
  | RAssignment u8 u8 u64
  | RReadyCheck "u8 option"
  | RLogin "u32 option"
  | RLogout bool

fun group_request :: "handler_env \<times> player \<times> group_req \<Rightarrow> gstate \<Rightarrow> gstate" where
  "group_request (e, self, RInvite n) st = HandleGroupInviteOpcode e self n st"
| "group_request (e, self, RAccept) st = HandleGroupAcceptOpcode e self st"
| "group_request (e, self, RDecline) st = HandleGroupDeclineOpcode e self st"
| "group_request (e, self, RUninviteGuid g) st = HandleGroupUninviteGuidOpcode e self g st"
| "group_request (e, self, RUninviteName n) st = HandleGroupUninviteNameOpcode e self n st"
| "group_request (e, self, RSetLeader g) st = HandleGroupSetLeaderOpcode e self g st"
| "group_request (e, self, RLeave) st = HandleGroupLeaveOpcode e self st"
| "group_request (e, self, RLootMethod m g t) st = HandleLootMethodOpcode e self m g t st"
| "group_request (e, self, RLootRoll g n c) st = HandleLootRoll e self g n c st"
| "group_request (e, self, RPing x y) st = HandleMinimapPingOpcode self x y st"
| "group_request (e, self, RRandomRoll lo hi) st = HandleRandomRollOpcode e self lo hi st"
| "group_request (e, self, RIcon x g) st = HandleRaidIconTargetOpcode self x g st"
| "group_request (e, self, RConvert) st = HandleRaidConvertOpcode e self st"
| "group_request (e, self, RChangeSubGroup n s) st = HandleGroupChangeSubGroupOpcode e self n s st"
| "group_request (e, self, RAssistant g f) st = HandleGroupAssistantOpcode e self g f st"
| "group_request (e, self, RAssignment a b g) st = HandlePartyAssignmentOpcode e self a b g st"
| "group_request (e, self, RReadyCheck s) st = HandleRaidReadyCheckOpcode e self s st"
| "group_request (e, self, RLogin row) st = LoadGroup self row st"
| "group_request (e, self, RLogout socket) st = LogoutPlayer e self socket st"

definition groups_empty :: gstate where
  "groups_empty = \<lparr>gs_heap = (\<lambda>_. None), gs_next = 0, gs_players = (\<lambda>_. fresh_player), gs_groupSet = [], gs_out = []\<rparr>"

end
