(* ===== verification/GroupLinks.thy ===== *)
theory GroupLinks
  imports GroupHandlers
begin

text \<open>
  The references between players and groups under the requests: which pointers are live, and the
  shape of every group (leader, size, subgroup counters, icons).
\<close>

definition live :: "gstate \<Rightarrow> nat \<Rightarrow> bool" where
  "live st a \<longleftrightarrow> gs_heap st a \<noteq> None"

section \<open>Selectors of the primitive steps\<close>

lemma g_emit_sel [simp]:
  "gs_heap (g_emit es st) = gs_heap st" "gs_next (g_emit es st) = gs_next st"
  "gs_players (g_emit es st) = gs_players st" "gs_groupSet (g_emit es st) = gs_groupSet st"
  "grp (g_emit es st) a = grp st a" "gref k p (g_emit es st) = gref k p st"
  "gs_out (g_emit es st) = gs_out st @ es"
  by (simp_all add: g_emit_def grp_def gref_def)

lemma g_sql_sel [simp]:
  "gs_heap (g_sql b qs st) = gs_heap st" "gs_next (g_sql b qs st) = gs_next st"
  "gs_players (g_sql b qs st) = gs_players st" "gs_groupSet (g_sql b qs st) = gs_groupSet st"
  "grp (g_sql b qs st) a = grp st a" "gref k p (g_sql b qs st) = gref k p st"
  by (simp_all add: g_sql_def)

lemma upd_grp_sel [simp]:
  "gs_next (upd_grp a f st) = gs_next st" "gs_players (upd_grp a f st) = gs_players st"
  "gs_groupSet (upd_grp a f st) = gs_groupSet st" "gref k p (upd_grp a f st) = gref k p st"
  "gs_heap (upd_grp a f st) = (gs_heap st)(a := map_option f (gs_heap st a))"
  "gs_out (upd_grp a f st) = gs_out st"
  by (simp_all add: upd_grp_def gref_def)

lemma live_prims [simp]:
  "live (g_emit es st) a = live st a" "live (g_sql b qs st) a = live st a"
  "live (upd_grp b f st) a = live st a" "live (upd_player p h st) a = live st a"
  "live (set_ref k p r st) a = live st a" "live (SetGroupInvite p i st) a = live st a"
  "live (setSubGroup k p s st) a = live st a"
  by (simp_all add: live_def g_emit_def g_sql_def upd_grp_def upd_player_def set_ref_def
      SetGroupInvite_def setSubGroup_def)

lemma grp_upd_grp [simp]:
  "live st a \<Longrightarrow> grp (upd_grp a f st) a = f (grp st a)"
  "b \<noteq> a \<Longrightarrow> grp (upd_grp a f st) b = grp st b"
  by (auto simp: upd_grp_def grp_def live_def)

lemma upd_player_sel [simp]:
  "gs_heap (upd_player p f st) = gs_heap st" "gs_next (upd_player p f st) = gs_next st"
  "gs_groupSet (upd_player p f st) = gs_groupSet st" "grp (upd_player p f st) a = grp st a"
  "gs_players (upd_player p f st) = (gs_players st)(p := f (gs_players st p))"
  by (simp_all add: upd_player_def grp_def)

lemma set_ref_sel [simp]:
  "gs_heap (set_ref k p r st) = gs_heap st" "gs_next (set_ref k p r st) = gs_next st"
  "gs_groupSet (set_ref k p r st) = gs_groupSet st" "grp (set_ref k p r st) a = grp st a"
  "gref k' p' (set_ref k p r st) = (if p' = p \<and> k' = k then r else gref k' p' st)"
  "gp_invite (gs_players (set_ref k p r st) q) = gp_invite (gs_players st q)"
  by (simp_all add: set_ref_def gref_def)

lemma SetGroupInvite_sel [simp]:
  "gs_heap (SetGroupInvite p i st) = gs_heap st" "gs_next (SetGroupInvite p i st) = gs_next st"
  "gs_groupSet (SetGroupInvite p i st) = gs_groupSet st" "grp (SetGroupInvite p i st) a = grp st a"
  "gref k q (SetGroupInvite p i st) = gref k q st"
  "gp_invite (gs_players (SetGroupInvite p i st) q) = (if q = p then i else gp_invite (gs_players st q))"
  by (simp_all add: SetGroupInvite_def gref_def)

lemma setSubGroup_sel [simp]:
  "gs_heap (setSubGroup k p s st) = gs_heap st" "gs_next (setSubGroup k p s st) = gs_next st"
  "gs_groupSet (setSubGroup k p s st) = gs_groupSet st" "grp (setSubGroup k p s st) a = grp st a"
  "gp_invite (gs_players (setSubGroup k p s st) q) = gp_invite (gs_players st q)"
  "ref_to (gref k' q (setSubGroup k p s st)) = ref_to (gref k' q st)"
  by (simp_all add: setSubGroup_def)

lemma grp_Some: "gs_heap st a = Some g \<Longrightarrow> grp st a = g"
  by (simp add: grp_def)

lemma grp_heap: "live st a \<Longrightarrow> gs_heap st a = Some (grp st a)"
  by (auto simp: grp_def live_def)

lemma live_cong: "gs_heap st' = gs_heap st \<Longrightarrow> live st' a = live st a"
  by (simp add: live_def)

lemma BroadcastPacket_sel [simp]:
  "gs_heap (BroadcastPacket a d b s i st) = gs_heap st" "gs_next (BroadcastPacket a d b s i st) = gs_next st"
  "gs_players (BroadcastPacket a d b s i st) = gs_players st"
  "gs_groupSet (BroadcastPacket a d b s i st) = gs_groupSet st"
  by (simp_all add: BroadcastPacket_def)

lemma sending_sel [simp]:
  "gs_heap (SendUpdate e a st) = gs_heap st" "gs_next (SendUpdate e a st) = gs_next st"
  "gs_players (SendUpdate e a st) = gs_players st" "gs_groupSet (SendUpdate e a st) = gs_groupSet st"
  "gs_heap (BroadcastGroupUpdate e a st) = gs_heap st" "gs_next (BroadcastGroupUpdate e a st) = gs_next st"
  "gs_players (BroadcastGroupUpdate e a st) = gs_players st"
  "gs_groupSet (BroadcastGroupUpdate e a st) = gs_groupSet st"
  "gs_heap (UpdatePlayerOutOfRange e a p st) = gs_heap st" "gs_next (UpdatePlayerOutOfRange e a p st) = gs_next st"
  "gs_players (UpdatePlayerOutOfRange e a p st) = gs_players st"
  "gs_groupSet (UpdatePlayerOutOfRange e a p st) = gs_groupSet st"
  "gs_heap (SendPartyResult p oper m res st) = gs_heap st" "gs_next (SendPartyResult p oper m res st) = gs_next st"
  "gs_players (SendPartyResult p oper m res st) = gs_players st"
  "gs_groupSet (SendPartyResult p oper m res st) = gs_groupSet st"
  "gs_heap (send_list_after_leaving e p st) = gs_heap st" "gs_next (send_list_after_leaving e p st) = gs_next st"
  "gs_players (send_list_after_leaving e p st) = gs_players st"
  "gs_groupSet (send_list_after_leaving e p st) = gs_groupSet st"
  by (simp_all add: SendUpdate_def BroadcastGroupUpdate_def UpdatePlayerOutOfRange_def Let_def
      SendPartyResult_def send_list_after_leaving_def split: option.split)


section \<open>Live pointers\<close>

text \<open>
  A reference and the group's list of references agree, only live groups are referenced or invite, no
  group belongs to a battleground, and addresses from \<open>gs_next\<close> on are free.
\<close>

definition refs_ok :: "gstate \<Rightarrow> bool" where
  "refs_ok st \<longleftrightarrow>
     (\<forall>p k a. ref_to (gref k p st) = Some a \<longleftrightarrow> (p, k) \<in> set (m_memberMgr (grp st a))) \<and>
     (\<forall>a. distinct (m_memberMgr (grp st a)) \<and> m_bgGroup (grp st a) = None)"

definition invites_ok :: "gstate \<Rightarrow> bool" where
  "invites_ok st \<longleftrightarrow>
     (\<forall>p a. gp_invite (gs_players st p) = Some a \<longrightarrow> p \<in> set (m_invitees (grp st a))) \<and>
     (\<forall>a \<ge> gs_next st. \<not> live st a)"

definition links_ok :: "gstate \<Rightarrow> bool" where
  "links_ok st \<longleftrightarrow> refs_ok st \<and> invites_ok st"

named_theorems links_keep \<open>operations that keep \<open>links_ok\<close>\<close>

lemma dead_grp: "\<not> live st a \<Longrightarrow> grp st a = Group_new"
  by (simp add: grp_def live_def)

lemma Group_new_sel [simp]:
  "m_memberMgr Group_new = []" "m_invitees Group_new = []" "m_memberSlots Group_new = []"
  "m_bgGroup Group_new = None"
  by (simp_all add: Group_new_def)

lemma live_if_linked: "(p, k) \<in> set (m_memberMgr (grp st a)) \<Longrightarrow> live st a"
  "p \<in> set (m_invitees (grp st a)) \<Longrightarrow> live st a"
  using dead_grp by force+

lemma grp_upd: "grp (upd_grp a f st) b = (if b = a \<and> live st a then f (grp st a) else grp st b)"
  by (auto simp: upd_grp_def grp_def live_def split: option.splits)

lemma links_ok_cong:
  "gs_heap st' = gs_heap st \<Longrightarrow> gs_players st' = gs_players st \<Longrightarrow> gs_next st' = gs_next st \<Longrightarrow>
    links_ok st' = links_ok st"
  by (simp add: links_ok_def refs_ok_def invites_ok_def gref_def grp_def live_def)

lemma links_ok_quiet [simp]:
  "links_ok (g_emit es st) = links_ok st" "links_ok (g_sql a qs st) = links_ok st"
  "links_ok (SendUpdate e a st) = links_ok st" "links_ok (BroadcastPacket a d b s i st) = links_ok st"
  "links_ok (BroadcastGroupUpdate e a st) = links_ok st"
  "links_ok (UpdatePlayerOutOfRange e a p st) = links_ok st"
  "links_ok (SendPartyResult p oper m res st) = links_ok st"
  "links_ok (send_list_after_leaving e p st) = links_ok st"
  "links_ok (st\<lparr>gs_groupSet := S\<rparr>) = links_ok st"
  by (rule links_ok_cong; simp)+

lemma links_ok_upd_grp:
  assumes "links_ok st" "\<And>g. m_memberMgr (f g) = m_memberMgr g" "\<And>g. m_bgGroup (f g) = m_bgGroup g"
    "\<And>g. set (m_invitees g) \<subseteq> set (m_invitees (f g))"
  shows "links_ok (upd_grp a f st)"
proof -
  have "refs_ok (upd_grp a f st)"
    using assms(1) by (simp add: links_ok_def refs_ok_def assms(2,3) grp_upd)
  moreover have "invites_ok (upd_grp a f st)"
    using assms(1) assms(4) unfolding links_ok_def invites_ok_def by (auto simp: grp_upd)
  ultimately show ?thesis by (simp add: links_ok_def)
qed

lemma links_ok_setSubGroup [links_keep]: "links_ok st \<Longrightarrow> links_ok (setSubGroup k p s st)"
  by (simp add: links_ok_def refs_ok_def invites_ok_def)

lemma links_ok_difficulty [links_keep]:
  "links_ok st \<Longrightarrow> links_ok (upd_player p (\<lambda>pl. pl\<lparr>gp_difficulty := d\<rparr>) st)"
  by (simp add: links_ok_def refs_ok_def invites_ok_def gref_def)

lemma links_ok_uninvite [links_keep]: "links_ok st \<Longrightarrow> links_ok (SetGroupInvite p None st)"
  by (simp add: links_ok_def refs_ok_def invites_ok_def)

lemma set_ref_same: "r = gref k p st \<Longrightarrow> gref k' q (set_ref k p r st) = gref k' q st"
  by simp

lemma grp_unlink:
  "grp (ref_unlink k p st) b =
    (if ref_to (gref k p st) = Some b \<and> live st b
     then (grp st b)\<lparr>m_memberMgr := remove1 (p, k) (m_memberMgr (grp st b))\<rparr> else grp st b)"
  by (auto simp: ref_unlink_def Let_def grp_upd split: option.splits)

lemma unlink_facts [simp]:
  "gref k' q (ref_unlink k p st) = (if k' = k \<and> q = p then (gref k p st)\<lparr>ref_to := None\<rparr> else gref k' q st)"
  "gp_invite (gs_players (ref_unlink k p st) q) = gp_invite (gs_players st q)"
  "live (ref_unlink k p st) a = live st a"
  "gs_next (ref_unlink k p st) = gs_next st" "gs_groupSet (ref_unlink k p st) = gs_groupSet st"
  by (auto simp: ref_unlink_def Let_def split: option.splits)

lemma links_ok_unlink [links_keep]:
  assumes "links_ok st"
  shows "links_ok (ref_unlink k p st)"
  using assms unfolding links_ok_def refs_ok_def invites_ok_def
  by (auto simp: grp_unlink live_if_linked)

lemma grp_link:
  "live st a \<Longrightarrow> grp (ref_link k a p st) b =
    (let g = (if ref_to (gref k p st) = Some b \<and> live st b
       then (grp st b)\<lparr>m_memberMgr := remove1 (p, k) (m_memberMgr (grp st b))\<rparr> else grp st b)
     in if b = a then g\<lparr>m_memberMgr := (p, k) # m_memberMgr g\<rparr> else g)"
  by (simp add: ref_link_def Let_def grp_upd grp_unlink)

lemma link_facts [simp]:
  "gp_invite (gs_players (ref_link k a p st) q) = gp_invite (gs_players st q)"
  "live (ref_link k a p st) b = live st b"
  "gs_next (ref_link k a p st) = gs_next st" "gs_groupSet (ref_link k a p st) = gs_groupSet st"
  "ref_to (gref k' q (ref_link k a p st)) = (if k' = k \<and> q = p then Some a else ref_to (gref k' q st))"
  by (simp_all add: ref_link_def Let_def)

lemma links_ok_link [links_keep]:
  assumes "links_ok st" "live st a"
  shows "links_ok (ref_link k a p st)"
  using assms unfolding links_ok_def refs_ok_def invites_ok_def
  by (auto simp: grp_link Let_def live_if_linked split: if_splits)

lemma links_ok_set_group [links_keep]:
  "links_ok st \<Longrightarrow> links_ok (set_group k p None s st)"
  "links_ok st \<Longrightarrow> live st a \<Longrightarrow> links_ok (set_group k p (Some a) s st)"
  by (simp_all add: set_group_def links_keep)

lemma set_group_facts [simp]:
  "gp_invite (gs_players (set_group k p to s st) q) = gp_invite (gs_players st q)"
  "live (set_group k p to s st) b = live st b"
  "gs_next (set_group k p to s st) = gs_next st" "gs_groupSet (set_group k p to s st) = gs_groupSet st"
  by (auto simp: set_group_def split: option.splits)


lemma sending_live [simp]:
  "live (SendUpdate e a st) b = live st b" "grp (SendUpdate e a st) b = grp st b"
  "gref k q (SendUpdate e a st) = gref k q st"
  "live (BroadcastPacket a d x s i st) b = live st b" "grp (BroadcastPacket a d x s i st) b = grp st b"
  "gref k q (BroadcastPacket a d x s i st) = gref k q st"
  "live (BroadcastGroupUpdate e a st) b = live st b" "grp (BroadcastGroupUpdate e a st) b = grp st b"
  "gref k q (BroadcastGroupUpdate e a st) = gref k q st"
  "live (UpdatePlayerOutOfRange e a p st) b = live st b" "grp (UpdatePlayerOutOfRange e a p st) b = grp st b"
  "gref k q (UpdatePlayerOutOfRange e a p st) = gref k q st"
  "live (SendPartyResult p oper m res st) b = live st b" "grp (SendPartyResult p oper m res st) b = grp st b"
  "gref k q (SendPartyResult p oper m res st) = gref k q st"
  "live (send_list_after_leaving e p st) b = live st b" "grp (send_list_after_leaving e p st) b = grp st b"
  "gref k q (send_list_after_leaving e p st) = gref k q st"
  by (simp_all add: live_def grp_def gref_def)

section \<open>What linking leaves alone\<close>

text \<open>The part of a group that references and invitations do not touch.\<close>

definition gcore :: "group \<Rightarrow> member_slot list \<times> u64 \<times> GroupType \<times> u64 list \<times> (u8 \<Rightarrow> u8) option" where
  "gcore g = (m_memberSlots g, m_leaderGuid g, m_groupType g, m_targetIcons g, m_subGroupsCounts g)"

lemma gcore_upd [simp]:
  "gcore (g\<lparr>m_memberMgr := x\<rparr>) = gcore g" "gcore (g\<lparr>m_invitees := y\<rparr>) = gcore g"
  "gcore (g\<lparr>m_rolls := z\<rparr>) = gcore g" "gcore (g\<lparr>m_looterGuid := l\<rparr>) = gcore g"
  by (simp_all add: gcore_def)

lemma gcore_links [simp]:
  "gcore (grp (ref_unlink k p st) b) = gcore (grp st b)"
  "live st a \<Longrightarrow> gcore (grp (ref_link k a p st) b) = gcore (grp st b)"
  by (simp_all add: grp_unlink grp_link Let_def)

lemma gcore_set_group [simp]:
  "gcore (grp (set_group k p None s st) b) = gcore (grp st b)"
  "live st a \<Longrightarrow> gcore (grp (set_group k p (Some a) s st) b) = gcore (grp st b)"
  by (simp_all add: set_group_def)

lemma links_ok_no_bg: "links_ok st \<Longrightarrow> \<not> isBGGroup (grp st a)"
  by (simp add: links_ok_def refs_ok_def isBGGroup_def)

lemma leave_refs_facts:
  assumes "links_ok st"
  shows "links_ok (leave_refs a p st)" "live (leave_refs a p st) b = live st b"
    "gcore (grp (leave_refs a p st) b) = gcore (grp st b)" "gs_groupSet (leave_refs a p st) = gs_groupSet st"
    "gp_invite (gs_players (leave_refs a p st) q) = gp_invite (gs_players st q)"
    "gs_next (leave_refs a p st) = gs_next st"
  using assms by (simp_all add: leave_refs_def links_ok_no_bg links_keep)

lemma addMember_link_facts:
  assumes "links_ok st" "live st a"
  shows "links_ok (addMember_link a p s st)" "live (addMember_link a p s st) b = live st b"
    "gcore (grp (addMember_link a p s st) b) = gcore (grp st b)"
    "gs_groupSet (addMember_link a p s st) = gs_groupSet st"
  using assms by (simp_all add: addMember_link_def links_ok_no_bg links_keep Let_def)

section \<open>Shapes\<close>

text \<open>
  A group is led by one of its members (before it is created it has none), it is not larger than its
  type allows, an icon marks at most one target, and the subgroup counters count.
\<close>

definition icons_ok :: "u64 list \<Rightarrow> bool" where
  "icons_ok icons \<longleftrightarrow> length icons = 8 \<and>
     (\<forall>i < 8. \<forall>j < 8. icons ! i \<noteq> 0 \<longrightarrow> icons ! i = icons ! j \<longrightarrow> i = j)"

definition in_subgroup :: "u8 \<Rightarrow> member_slot list \<Rightarrow> nat" where
  "in_subgroup i slots = length (filter (\<lambda>s. ms_group s = i) slots)"

definition counts_ok :: "GroupType \<Rightarrow> member_slot list \<Rightarrow> (u8 \<Rightarrow> u8) option \<Rightarrow> bool" where
  "counts_ok t slots counts \<longleftrightarrow>
     (case counts of
        None \<Rightarrow> t = GROUPTYPE_NORMAL \<and> (\<forall>s \<in> set slots. ms_group s = 0)
      | Some c \<Rightarrow> (\<forall>s \<in> set slots. ms_group s < 8) \<and>
          (\<forall>i < 8. in_subgroup i slots \<le> 5 \<and> unat (c i) = in_subgroup i slots))"

definition cshape :: "member_slot list \<times> u64 \<times> GroupType \<times> u64 list \<times> (u8 \<Rightarrow> u8) option \<Rightarrow> bool" where
  "cshape = (\<lambda>(slots, leader, t, icons, counts).
     leader \<noteq> 0 \<and> (slots = [] \<or> leader \<in> ms_guid ` set slots) \<and> 0 \<notin> ms_guid ` set slots \<and>
     length slots \<le> (case t of GROUPTYPE_NORMAL \<Rightarrow> 5 | GROUPTYPE_RAID \<Rightarrow> 40) \<and>
     icons_ok icons \<and> counts_ok t slots counts)"

lemma cshape_iff:
  "cshape (gcore g) \<longleftrightarrow>
     m_leaderGuid g \<noteq> 0 \<and> (m_memberSlots g = [] \<or> m_leaderGuid g \<in> ms_guid ` set (m_memberSlots g)) \<and>
     0 \<notin> ms_guid ` set (m_memberSlots g) \<and>
     length (m_memberSlots g) \<le> (case m_groupType g of GROUPTYPE_NORMAL \<Rightarrow> 5 | GROUPTYPE_RAID \<Rightarrow> 40) \<and>
     icons_ok (m_targetIcons g) \<and> counts_ok (m_groupType g) (m_memberSlots g) (m_subGroupsCounts g)"
  by (simp add: cshape_def gcore_def)

definition shape_inv :: "nat set \<Rightarrow> gstate \<Rightarrow> bool" where
  "shape_inv X st \<longleftrightarrow> (\<forall>b. live st b \<longrightarrow> b \<notin> X \<longrightarrow> cshape (gcore (grp st b)))"

lemma shape_cong:
  "(\<And>b. live st' b = live st b) \<Longrightarrow> (\<And>b. gcore (grp st' b) = gcore (grp st b)) \<Longrightarrow>
    shape_inv X st' = shape_inv X st"
  by (simp add: shape_inv_def)

lemma shape_quiet [simp]:
  "shape_inv X (g_emit es st) = shape_inv X st" "shape_inv X (g_sql a qs st) = shape_inv X st"
  "shape_inv X (SendUpdate e a st) = shape_inv X st" "shape_inv X (BroadcastPacket a d b s i st) = shape_inv X st"
  "shape_inv X (BroadcastGroupUpdate e a st) = shape_inv X st"
  "shape_inv X (UpdatePlayerOutOfRange e a p st) = shape_inv X st"
  "shape_inv X (SendPartyResult p oper m res st) = shape_inv X st"
  "shape_inv X (send_list_after_leaving e p st) = shape_inv X st"
  "shape_inv X (SetGroupInvite p ga st) = shape_inv X st" "shape_inv X (upd_player p h st) = shape_inv X st"
  "shape_inv X (setSubGroup k p sg st) = shape_inv X st" "shape_inv X (ref_unlink k p st) = shape_inv X st"
  by (rule shape_cong; simp)+

lemma shape_linking [simp]:
  "live st a \<Longrightarrow> shape_inv X (ref_link k a p st) = shape_inv X st"
  "shape_inv X (set_group k p None s st) = shape_inv X st"
  "live st a \<Longrightarrow> shape_inv X (set_group k p (Some a) s st) = shape_inv X st"
  "links_ok st \<Longrightarrow> shape_inv X (leave_refs a p st) = shape_inv X st"
  "links_ok st \<Longrightarrow> live st a \<Longrightarrow> shape_inv X (addMember_link a p s st) = shape_inv X st"
  by (rule shape_cong; simp add: leave_refs_facts addMember_link_facts)+

lemma shape_upd:
  "shape_inv X st \<Longrightarrow> (live st a \<Longrightarrow> a \<notin> X \<Longrightarrow> cshape (gcore (grp st a)) \<Longrightarrow> cshape (gcore (f (grp st a)))) \<Longrightarrow>
    shape_inv X (upd_grp a f st)"
  by (auto simp: shape_inv_def grp_upd)

lemma shape_upd_other: "shape_inv X st \<Longrightarrow> a \<in> X \<Longrightarrow> shape_inv X (upd_grp a f st)"
  by (auto simp: shape_inv_def grp_upd)

lemma shape_mono: "shape_inv X st \<Longrightarrow> X \<subseteq> Y \<Longrightarrow> shape_inv Y st"
  by (auto simp: shape_inv_def)


section \<open>Counting\<close>

lemma in_subgroup_simps [simp]:
  "in_subgroup i [] = 0" "in_subgroup i (s # ss) = of_bool (ms_group s = i) + in_subgroup i ss"
  "in_subgroup i (xs @ ys) = in_subgroup i xs + in_subgroup i ys"
  by (simp_all add: in_subgroup_def)

lemma in_subgroup_le: "in_subgroup i slots \<le> length slots"
  by (simp add: in_subgroup_def)

lemma in_subgroup_erase:
  "find (\<lambda>s. ms_guid s = guid) slots = Some m \<Longrightarrow>
    in_subgroup i (erase_slot guid slots) + of_bool (ms_group m = i) = in_subgroup i slots"
  by (induction slots) (auto split: if_splits)

lemma in_subgroup_move:
  "find (\<lambda>s. ms_guid s = guid) slots = Some m \<Longrightarrow>
    in_subgroup i (upd_slot guid (\<lambda>m. m\<lparr>ms_group := t\<rparr>) slots) + of_bool (ms_group m = i) =
    in_subgroup i slots + of_bool (t = i)"
  by (induction slots) (auto split: if_splits)

lemma in_subgroup_upd: "(\<And>m. ms_group (f m) = ms_group m) \<Longrightarrow> in_subgroup i (upd_slot guid f slots) = in_subgroup i slots"
  by (induction slots) auto

lemma set_erase_slot: "set (erase_slot guid slots) \<subseteq> set slots"
  by (induction slots) auto

lemma length_erase_slot:
  "length (erase_slot guid slots) = (if find (\<lambda>s. ms_guid s = guid) slots = None then length slots else length slots - 1)"
proof (induction slots)
  case (Cons s ss)
  then show ?case by (cases ss) auto
qed simp

lemma upd_slot_shape [simp]:
  "length (upd_slot guid f slots) = length slots"
  "(\<And>m. ms_guid (f m) = ms_guid m) \<Longrightarrow> map ms_guid (upd_slot guid f slots) = map ms_guid slots"
  by (induction slots) auto

lemma upd_slot_guids: "(\<And>m. ms_guid (f m) = ms_guid m) \<Longrightarrow> ms_guid ` set (upd_slot guid f slots) = ms_guid ` set slots"
  by (metis upd_slot_shape(2) image_set)

lemma upd_slot_groups:
  "s \<in> set (upd_slot guid f slots) \<Longrightarrow> s \<in> set slots \<or> (\<exists>m \<in> set slots. s = f m)"
  by (induction slots) (auto split: if_splits)

lemma counts_add:
  assumes "counts_ok t slots (Some c)" "c i < 5" "i < 8" "ms_group m = i"
  shows "counts_ok t (slots @ [m]) (Some (c(i := c i + 1)))"
proof -
  from assms have "unat (c i) < 5" by (simp add: word_less_nat_alt)
  with assms show ?thesis by (auto simp: counts_ok_def unat_suc8)
qed

lemma counts_erase:
  assumes "counts_ok t slots (Some c)" "find (\<lambda>s. ms_guid s = guid) slots = Some m"
  shows "counts_ok t (erase_slot guid slots) (Some (c(ms_group m := c (ms_group m) - 1)))"
proof -
  from assms(2) have m: "m \<in> set slots" by (auto simp: find_Some_iff)
  with assms(1) have lt: "ms_group m < 8" by (auto simp: counts_ok_def)
  have e: "in_subgroup i (erase_slot guid slots) + of_bool (ms_group m = i) = in_subgroup i slots" for i
    using in_subgroup_erase [OF assms(2)] .
  have "unat ((c(ms_group m := c (ms_group m) - 1)) i) = in_subgroup i (erase_slot guid slots) \<and>
    in_subgroup i (erase_slot guid slots) \<le> 5" if "i < 8" for i
    using e [of i] assms(1) that by (auto simp: counts_ok_def unat_pred8)
  moreover have "\<forall>s \<in> set (erase_slot guid slots). ms_group s < 8"
    using assms(1) set_erase_slot [of guid slots] by (auto simp: counts_ok_def)
  ultimately show ?thesis by (simp add: counts_ok_def)
qed

text \<open>Up in the new subgroup first, then down in the old one, in this order as the code does it.\<close>

lemma counts_move:
  assumes "counts_ok t slots (Some c)" "find (\<lambda>s. ms_guid s = guid) slots = Some m" "i < 8" "c i < 5"
    and "d = c(i := c i + 1)"
  shows "counts_ok t (upd_slot guid (\<lambda>m. m\<lparr>ms_group := i\<rparr>) slots) (Some (d(ms_group m := d (ms_group m) - 1)))"
proof -
  from assms(2) have m: "m \<in> set slots" by (auto simp: find_Some_iff)
  with assms(1) have lt: "ms_group m < 8" by (auto simp: counts_ok_def)
  have e: "in_subgroup j (upd_slot guid (\<lambda>m. m\<lparr>ms_group := i\<rparr>) slots) + of_bool (ms_group m = j) =
      in_subgroup j slots + of_bool (i = j)" for j
    using in_subgroup_move [OF assms(2)] .
  have "unat (c i) < 5" using assms(4) by (simp add: word_less_nat_alt)
  with assms(1,3,5) have d: "unat (d j) = in_subgroup j slots + of_bool (i = j) \<and>
      in_subgroup j slots + of_bool (i = j) \<le> 5" if "j < 8" for j
    using that by (auto simp: counts_ok_def unat_suc8)
  then have "unat ((d(ms_group m := d (ms_group m) - 1)) j) = in_subgroup j (upd_slot guid (\<lambda>m. m\<lparr>ms_group := i\<rparr>) slots) \<and>
    in_subgroup j (upd_slot guid (\<lambda>m. m\<lparr>ms_group := i\<rparr>) slots) \<le> 5" if "j < 8" for j
  proof (cases "ms_group m = j")
    case True
    from d [OF that] e [of j] True have "0 < unat (d j)" by (cases "i = j") auto
    then have "unat (d j - 1) = unat (d j) - 1" by (rule unat_pred8)
    with d [OF that] e [of j] True show ?thesis by (cases "i = j") auto
  next
    case False
    then have "j \<noteq> ms_group m" by simp
    with False d [OF that] e [of j] show ?thesis by simp
  qed
  moreover have "\<forall>s \<in> set (upd_slot guid (\<lambda>m. m\<lparr>ms_group := i\<rparr>) slots). ms_group s < 8"
    using assms(1,3) by (auto simp: counts_ok_def dest!: upd_slot_groups)
  ultimately show ?thesis by (simp add: counts_ok_def)
qed

lemma first_free: "first_free_subgroup c = Some i \<Longrightarrow> c i < 5 \<and> i < 8"
  by (auto simp: first_free_subgroup_def split: if_splits)

lemma counts_None: "counts_ok t slots None \<Longrightarrow> t = GROUPTYPE_NORMAL \<and> (\<forall>s \<in> set slots. ms_group s = 0)"
  by (simp add: counts_ok_def)


section \<open>Operations keep links and shapes\<close>

text \<open>The three facts every operation is shown to keep, with the groups excepted that are about to go.\<close>

definition groups_ok :: "nat set \<Rightarrow> gstate \<Rightarrow> bool" where
  "groups_ok X st \<longleftrightarrow> links_ok st \<and> shape_inv X st"

lemma groups_ok_quiet [simp]:
  "groups_ok X (g_emit es st) = groups_ok X st" "groups_ok X (g_sql a qs st) = groups_ok X st"
  "groups_ok X (SendUpdate e a st) = groups_ok X st" "groups_ok X (BroadcastPacket a d b s i st) = groups_ok X st"
  "groups_ok X (BroadcastGroupUpdate e a st) = groups_ok X st"
  "groups_ok X (UpdatePlayerOutOfRange e a p st) = groups_ok X st"
  "groups_ok X (SendPartyResult p oper m res st) = groups_ok X st"
  "groups_ok X (send_list_after_leaving e p st) = groups_ok X st"
  by (simp_all add: groups_ok_def)

lemma groups_ok_bg [simp]: "groups_ok X st \<Longrightarrow> \<not> isBGGroup (grp st a)"
  by (simp add: groups_ok_def links_ok_no_bg)

lemma groups_ok_upd:
  assumes "groups_ok X st" "\<And>g. m_memberMgr (f g) = m_memberMgr g" "\<And>g. m_bgGroup (f g) = m_bgGroup g"
    "\<And>g. set (m_invitees g) \<subseteq> set (m_invitees (f g))"
    "live st a \<Longrightarrow> a \<notin> X \<Longrightarrow> cshape (gcore (grp st a)) \<Longrightarrow> cshape (gcore (f (grp st a)))"
  shows "groups_ok X (upd_grp a f st)"
  using assms links_ok_upd_grp shape_upd unfolding groups_ok_def by blast

lemma groups_ok_shape: "groups_ok X st \<Longrightarrow> live st a \<Longrightarrow> a \<notin> X \<Longrightarrow> cshape (gcore (grp st a))"
  by (simp add: groups_ok_def shape_inv_def)

text \<open>Joining, as a function of the group alone.\<close>

definition add_slot :: "member_slot \<Rightarrow> group \<Rightarrow> group" where
  "add_slot m g =
     (let g = SubGroupCounterIncrease (ms_group m) (g\<lparr>m_memberSlots := m_memberSlots g @ [m]\<rparr>)
      in if isRaidGroup g then g else g\<lparr>m_targetIcons := replicate 8 0\<rparr>)"

lemma icons_ok_empty [simp]: "icons_ok (replicate 8 0)"
  by (simp add: icons_ok_def)

lemma Counter_sel [simp]:
  "m_memberMgr (SubGroupCounterIncrease s g) = m_memberMgr g" "m_bgGroup (SubGroupCounterIncrease s g) = m_bgGroup g"
  "m_invitees (SubGroupCounterIncrease s g) = m_invitees g" "m_memberSlots (SubGroupCounterIncrease s g) = m_memberSlots g"
  "m_groupType (SubGroupCounterIncrease s g) = m_groupType g" "m_leaderGuid (SubGroupCounterIncrease s g) = m_leaderGuid g"
  "m_memberMgr (SubGroupCounterDecrease s g) = m_memberMgr g" "m_bgGroup (SubGroupCounterDecrease s g) = m_bgGroup g"
  "m_invitees (SubGroupCounterDecrease s g) = m_invitees g" "m_memberSlots (SubGroupCounterDecrease s g) = m_memberSlots g"
  "m_groupType (SubGroupCounterDecrease s g) = m_groupType g" "m_leaderGuid (SubGroupCounterDecrease s g) = m_leaderGuid g"
  by (simp_all add: SubGroupCounterIncrease_def SubGroupCounterDecrease_def)

lemma add_slot_sel [simp]:
  "m_memberMgr (add_slot m g) = m_memberMgr g" "m_bgGroup (add_slot m g) = m_bgGroup g"
  "m_invitees (add_slot m g) = m_invitees g" "m_memberSlots (add_slot m g) = m_memberSlots g @ [m]"
  "m_leaderGuid (add_slot m g) = m_leaderGuid g"
  by (simp_all add: add_slot_def Let_def)

lemma add_slot_more:
  "m_groupType (add_slot m g) = m_groupType g"
  "m_subGroupsCounts (add_slot m g) = m_subGroupsCounts (SubGroupCounterIncrease (ms_group m) g)"
  by (simp_all add: add_slot_def Let_def SubGroupCounterIncrease_def)

lemma cshape_add_slot:
  assumes "cshape (gcore g)" "ms_guid m \<noteq> 0" "\<not> IsFull g" "m_memberSlots g \<noteq> [] \<or> ms_guid m = m_leaderGuid g"
    and "case m_subGroupsCounts g of None \<Rightarrow> ms_group m = 0 | Some c \<Rightarrow> first_free_subgroup c = Some (ms_group m)"
  shows "cshape (gcore (add_slot m g))"
proof -
  have "counts_ok (m_groupType g) (m_memberSlots g @ [m]) (m_subGroupsCounts (SubGroupCounterIncrease (ms_group m) g))"
  proof (cases "m_subGroupsCounts g")
    case None
    then show ?thesis
      using assms(1,5) by (simp add: cshape_iff counts_ok_def SubGroupCounterIncrease_def)
  next
    case (Some c)
    with assms(5) have "c (ms_group m) < 5" "ms_group m < 8" using first_free by auto
    then show ?thesis
      using assms(1) Some counts_add [of "m_groupType g" "m_memberSlots g" c "ms_group m" m]
      by (simp add: cshape_iff SubGroupCounterIncrease_def)
  qed
  moreover have "length (m_memberSlots g @ [m]) \<le> (case m_groupType g of GROUPTYPE_NORMAL \<Rightarrow> 5 | GROUPTYPE_RAID \<Rightarrow> 40)"
    using assms(3) by (simp add: IsFull_def group_capacity_def not_le Suc_le_eq)
  moreover have "icons_ok (m_targetIcons (add_slot m g))"
    using assms(1) by (simp add: cshape_iff add_slot_def Let_def SubGroupCounterIncrease_def)
  ultimately show ?thesis
    using assms(1,2,4) by (auto simp: cshape_iff add_slot_more)
qed

lemma gcore_eq:
  "gcore g = gcore h \<longleftrightarrow> m_memberSlots g = m_memberSlots h \<and> m_leaderGuid g = m_leaderGuid h \<and>
    m_groupType g = m_groupType h \<and> m_targetIcons g = m_targetIcons h \<and> m_subGroupsCounts g = m_subGroupsCounts h"
  by (simp add: gcore_def)

lemma addMember_to_facts:
  assumes ok: "links_ok st" "live st a" and op: "addMember_to e a guid name asst s st = (b, st')"
  shows "links_ok st'" "live st' c = live st c" "gs_groupSet st' = gs_groupSet st"
    "b \<longleftrightarrow> \<not> IsFull (grp st a) \<and> guid \<noteq> 0"
    "gcore (grp st' c) = (if c = a \<and> b
       then gcore (add_slot \<lparr>ms_guid = guid, ms_name = name, ms_group = s, ms_assistant = asst\<rparr> (grp st a))
       else gcore (grp st c))"
proof -
  define m where "m = \<lparr>ms_guid = guid, ms_name = name, ms_group = s, ms_assistant = asst\<rparr>"
  define h where "h g = SubGroupCounterIncrease s (g\<lparr>m_memberSlots := m_memberSlots g @ [m]\<rparr>)" for g
  define st1 where "st1 = upd_grp a h st"
  define st2 where "st2 = (case g_find e guid of None \<Rightarrow> st1 | Some _ \<Rightarrow> addMember_link a guid s st1)"
  define st3 where "st3 = (if \<not> isRaidGroup (grp st2 a) then upd_grp a (\<lambda>g. g\<lparr>m_targetIcons := replicate 8 0\<rparr>) st2 else st2)"
  have l1: "links_ok st1" unfolding st1_def by (rule links_ok_upd_grp) (simp_all add: ok h_def)
  have l2: "links_ok st2" "live st2 c = live st c" "gcore (grp st2 c) = gcore (grp st1 c)"
    "gs_groupSet st2 = gs_groupSet st" for c
    using l1 ok(2) by (simp_all add: st2_def st1_def addMember_link_facts split: option.split)
  have l3: "links_ok st3" "live st3 c = live st c" "gs_groupSet st3 = gs_groupSet st" for c
    using l2 by (auto simp: st3_def intro: links_ok_upd_grp)
  have g: "gcore (grp st2 a) = gcore (h (grp st a))" "live st2 a" using l2 ok(2) by (simp_all add: st1_def)
  then have "gcore (grp st3 a) = gcore (add_slot m (grp st a))"
    by (simp add: st3_def add_slot_def Let_def isRaidGroup_def grp_upd gcore_eq h_def m_def)
  moreover have "c \<noteq> a \<Longrightarrow> gcore (grp st3 c) = gcore (grp st c)" for c
    using l2(3) [of c] by (simp add: st3_def st1_def)
  ultimately have g3: "gcore (grp st3 c) = (if c = a then gcore (add_slot m (grp st a)) else gcore (grp st c))" for c
    by simp
  have "(b, st') = (if IsFull (grp st a) \<or> guid = 0 then (False, st) else
      (True, g_sql a [InsertMemberRow (GUID_LOPART (m_leaderGuid (grp st3 a))) (GUID_LOPART guid) asst s] st3))"
    using op unfolding addMember_to_def Let_def st3_def st2_def st1_def h_def m_def by simp
  with l3 g3 ok show "links_ok st'" "live st' c = live st c" "gs_groupSet st' = gs_groupSet st"
    "b \<longleftrightarrow> \<not> IsFull (grp st a) \<and> guid \<noteq> 0"
    "gcore (grp st' c) = (if c = a \<and> b
       then gcore (add_slot \<lparr>ms_guid = guid, ms_name = name, ms_group = s, ms_assistant = asst\<rparr> (grp st a))
       else gcore (grp st c))"
    by (auto simp flip: m_def split: if_splits)
qed


definition created :: "gstate \<Rightarrow> nat \<Rightarrow> bool" where
  "created st a \<longleftrightarrow> live st a \<and> m_memberSlots (grp st a) \<noteq> []"

lemma created_cong:
  "live st' a = live st a \<Longrightarrow> gcore (grp st' a) = gcore (grp st a) \<Longrightarrow> created st' a = created st a"
  by (simp add: created_def gcore_def)

lemma created_quiet [simp]:
  "created (g_emit es st) b = created st b" "created (g_sql a qs st) b = created st b"
  "created (SendUpdate e a st) b = created st b" "created (BroadcastPacket a d x s i st) b = created st b"
  "created (BroadcastGroupUpdate e a st) b = created st b"
  "created (UpdatePlayerOutOfRange e a p st) b = created st b"
  "created (SendPartyResult p oper m res st) b = created st b"
  "created (send_list_after_leaving e p st) b = created st b"
  "created (SetGroupInvite p ga st) b = created st b" "created (upd_player p h st) b = created st b"
  "created (setSubGroup k p sg st) b = created st b"
  by (rule created_cong; simp)+

lemma addMember_facts:
  assumes ok: "groups_ok X st" "live st a" "m_memberSlots (grp st a) \<noteq> [] \<or> guid = m_leaderGuid (grp st a)"
    and op: "addMember e a guid name asst st = (b, st')"
  shows "groups_ok X st'" "live st' c = live st c" "gs_groupSet st' = gs_groupSet st"
    "m_leaderGuid (grp st' c) = m_leaderGuid (grp st c)" "created st c \<Longrightarrow> created st' c" "b \<Longrightarrow> created st' a"
    "c \<noteq> a \<Longrightarrow> gcore (grp st' c) = gcore (grp st c)"
proof -
  let ?c = "m_subGroupsCounts (grp st a)"
  let ?s = "case ?c of None \<Rightarrow> Some 0 | Some c \<Rightarrow> first_free_subgroup c"
  have "b = False \<and> st' = st \<or> (\<exists>s. ?s = Some s \<and> addMember_to e a guid name asst s st = (b, st'))"
    using op by (auto simp: addMember_def split: option.splits)
  moreover have "groups_ok X st' \<and> live st' c = live st c \<and> gs_groupSet st' = gs_groupSet st \<and>
      m_leaderGuid (grp st' c) = m_leaderGuid (grp st c) \<and> (created st c \<longrightarrow> created st' c) \<and>
      (b \<longrightarrow> created st' a) \<and> (c \<noteq> a \<longrightarrow> gcore (grp st' c) = gcore (grp st c))"
    if s: "?s = Some s" and to: "addMember_to e a guid name asst s st = (b, st')" for s
  proof -
    let ?m = "\<lparr>ms_guid = guid, ms_name = name, ms_group = s, ms_assistant = asst\<rparr>"
    have links: "links_ok st" using ok(1) by (simp add: groups_ok_def)
    note f = addMember_to_facts [OF links ok(2) to]
    have "cshape (gcore (add_slot ?m (grp st a)))" if "a \<notin> X" b
      by (rule cshape_add_slot) (use that f(4) ok s groups_ok_shape [OF ok(1,2)] in \<open>auto split: option.splits\<close>)
    then have "shape_inv X st'"
      using ok(1) f(2,5) by (auto simp: shape_inv_def groups_ok_def)
    moreover have "m_memberSlots (grp st' c) = (if c = a \<and> b then m_memberSlots (grp st a) @ [?m] else m_memberSlots (grp st c))"
      "m_leaderGuid (grp st' c) = m_leaderGuid (grp st c)" for c
      using f(5) [of c] by (auto simp: gcore_eq split: if_splits)
    ultimately show ?thesis
      using f ok(2) by (simp add: groups_ok_def created_def)
  qed
  ultimately show "groups_ok X st'" "live st' c = live st c" "gs_groupSet st' = gs_groupSet st"
    "m_leaderGuid (grp st' c) = m_leaderGuid (grp st c)" "created st c \<Longrightarrow> created st' c" "b \<Longrightarrow> created st' a"
    "c \<noteq> a \<Longrightarrow> gcore (grp st' c) = gcore (grp st c)"
    using ok by auto
qed

lemma groups_ok_difficulty [simp]:
  "groups_ok X st \<Longrightarrow> groups_ok X (upd_player p (\<lambda>pl. pl\<lparr>gp_difficulty := d\<rparr>) st)"
  by (simp add: groups_ok_def links_keep)

lemma AddMember_facts:
  assumes ok: "groups_ok X st" "live st a" "m_memberSlots (grp st a) \<noteq> [] \<or> guid = m_leaderGuid (grp st a)"
    and op: "AddMember e a guid name st = (b, st')"
  shows "groups_ok X st'" "live st' c = live st c" "gs_groupSet st' = gs_groupSet st"
    "m_leaderGuid (grp st' c) = m_leaderGuid (grp st c)" "created st c \<Longrightarrow> created st' c" "b \<Longrightarrow> created st' a"
    "c \<noteq> a \<Longrightarrow> gcore (grp st' c) = gcore (grp st c)"
proof -
  obtain b1 st1 where one: "addMember e a guid name False st = (b1, st1)" by force
  note f = addMember_facts [OF ok one]
  from op one have "groups_ok X st' \<and> b = b1 \<and> (\<forall>c. live st' c = live st1 c \<and> grp st' c = grp st1 c) \<and>
      gs_groupSet st' = gs_groupSet st1"
    using f(1) by (auto simp: AddMember_def Let_def split: bool.splits option.splits if_splits)
  with f show "groups_ok X st'" "live st' c = live st c" "gs_groupSet st' = gs_groupSet st"
    "m_leaderGuid (grp st' c) = m_leaderGuid (grp st c)" "created st c \<Longrightarrow> created st' c" "b \<Longrightarrow> created st' a"
    "c \<noteq> a \<Longrightarrow> gcore (grp st' c) = gcore (grp st c)"
    by (auto simp: created_def)
qed


section \<open>Leaving\<close>

definition lead :: "u64 \<Rightarrow> group \<Rightarrow> group" where
  "lead guid g = (case getMemberSlot guid g of None \<Rightarrow> g | Some s \<Rightarrow> g\<lparr>m_leaderGuid := ms_guid s\<rparr>)"

lemma getMemberSlot_guid: "getMemberSlot guid g = Some s \<Longrightarrow> ms_guid s = guid \<and> s \<in> set (m_memberSlots g)"
  by (auto simp: getMemberSlot_def find_Some_iff)

lemma setLeader_facts:
  assumes "links_ok st" "live st a"
  shows "links_ok (setLeader e a guid st)" "live (setLeader e a guid st) c = live st c"
    "gs_groupSet (setLeader e a guid st) = gs_groupSet st"
    "gcore (grp (setLeader e a guid st) c) = (if c = a then gcore (lead guid (grp st a)) else gcore (grp st c))"
  using assms by (auto simp: setLeader_def Let_def lead_def gcore_def links_ok_no_bg intro: links_ok_upd_grp
      split: option.split)

text \<open>Leaving, as a function of the group alone.\<close>

definition drop_slot :: "u64 \<Rightarrow> group \<Rightarrow> group" where
  "drop_slot guid g =
     (let g = (case getMemberSlot guid g of None \<Rightarrow> g
               | Some s \<Rightarrow> (SubGroupCounterDecrease (ms_group s) g)\<lparr>m_memberSlots := erase_slot guid (m_memberSlots g)\<rparr>)
      in if m_leaderGuid g = guid then (case m_memberSlots g of [] \<Rightarrow> g | s # _ \<Rightarrow> lead (ms_guid s) g) else g)"

lemma erase_slot_other: "l \<in> ms_guid ` set slots \<Longrightarrow> l \<noteq> guid \<Longrightarrow> l \<in> ms_guid ` set (erase_slot guid slots)"
  by (induction slots) auto

lemma lead_front: "m_memberSlots g = s # ss \<Longrightarrow> lead (ms_guid s) g = g\<lparr>m_leaderGuid := ms_guid s\<rparr>"
  by (simp add: lead_def getMemberSlot_def)

lemma erase_slot_absent: "getMemberSlot guid g = None \<Longrightarrow> erase_slot guid (m_memberSlots g) = m_memberSlots g"
proof -
  have "\<forall>s \<in> set slots. ms_guid s \<noteq> guid \<Longrightarrow> erase_slot guid slots = slots" for slots
    by (induction slots) auto
  then show "getMemberSlot guid g = None \<Longrightarrow> erase_slot guid (m_memberSlots g) = m_memberSlots g"
    by (simp add: getMemberSlot_def find_None_iff)
qed

lemma drop_slot_sel:
  "m_memberSlots (drop_slot guid g) = erase_slot guid (m_memberSlots g)"
  "m_groupType (drop_slot guid g) = m_groupType g" "m_targetIcons (drop_slot guid g) = m_targetIcons g"
  "m_leaderGuid (drop_slot guid g) =
    (if m_leaderGuid g = guid
     then (case erase_slot guid (m_memberSlots g) of [] \<Rightarrow> guid | s # _ \<Rightarrow> ms_guid s) else m_leaderGuid g)"
proof -
  show "m_memberSlots (drop_slot guid g) = erase_slot guid (m_memberSlots g)"
    "m_groupType (drop_slot guid g) = m_groupType g" "m_targetIcons (drop_slot guid g) = m_targetIcons g"
    "m_leaderGuid (drop_slot guid g) =
      (if m_leaderGuid g = guid
       then (case erase_slot guid (m_memberSlots g) of [] \<Rightarrow> guid | s # _ \<Rightarrow> ms_guid s) else m_leaderGuid g)"
    by (auto simp: drop_slot_def Let_def lead_front erase_slot_absent SubGroupCounterDecrease_def
        split: option.splits list.splits)
qed

lemma cshape_drop_slot:
  assumes "cshape (gcore g)"
  shows "cshape (gcore (drop_slot guid g))"
proof -
  let ?S = "m_memberSlots g" and ?S' = "erase_slot guid (m_memberSlots g)"
  have counts: "counts_ok (m_groupType g) ?S' (m_subGroupsCounts (drop_slot guid g))"
  proof (cases "getMemberSlot guid g")
    case None
    then have "?S' = ?S" "m_subGroupsCounts (drop_slot guid g) = m_subGroupsCounts g"
      by (auto simp: erase_slot_absent drop_slot_def Let_def lead_front split: list.splits)
    with assms show ?thesis by (simp add: cshape_iff)
  next
    case (Some s)
    then have "m_subGroupsCounts (drop_slot guid g) =
        map_option (\<lambda>c. c(ms_group s := c (ms_group s) - 1)) (m_subGroupsCounts g)"
      by (auto simp: drop_slot_def Let_def lead_front SubGroupCounterDecrease_def split: list.splits)
    moreover have "counts_ok (m_groupType g) ?S' None" if "counts_ok (m_groupType g) ?S None"
      using that set_erase_slot [of guid ?S] by (auto simp: counts_ok_def)
    ultimately show ?thesis
      using Some assms counts_erase [of "m_groupType g" ?S _ guid s]
      by (cases "m_subGroupsCounts g") (simp_all add: cshape_iff getMemberSlot_def)
  qed
  have "ms_guid ` set ?S' \<subseteq> ms_guid ` set ?S" using set_erase_slot by blast
  moreover have "length ?S' \<le> length ?S" by (simp add: length_erase_slot)
  moreover have "m_leaderGuid (drop_slot guid g) \<in> ms_guid ` set ?S'" if "?S' \<noteq> []"
    using assms that erase_slot_other [of "m_leaderGuid g" ?S guid]
    by (cases ?S') (auto simp: drop_slot_sel cshape_iff)
  moreover have "m_leaderGuid (drop_slot guid g) = m_leaderGuid g" if "?S' = []"
    using that by (simp add: drop_slot_sel)
  ultimately have "m_leaderGuid (drop_slot guid g) \<noteq> 0" "0 \<notin> ms_guid ` set ?S'"
    "length ?S' \<le> (case m_groupType g of GROUPTYPE_NORMAL \<Rightarrow> 5 | GROUPTYPE_RAID \<Rightarrow> 40)"
    "?S' = [] \<or> m_leaderGuid (drop_slot guid g) \<in> ms_guid ` set ?S'"
    using assms unfolding cshape_iff by (metis subsetD, blast, linarith, blast)
  with counts assms show ?thesis by (simp add: cshape_iff drop_slot_sel(1-3))
qed

lemma removeMember_facts:
  assumes ok: "links_ok st" "live st a" and op: "removeMember e a guid st = (b, st')"
  shows "links_ok st'" "live st' c = live st c" "gs_groupSet st' = gs_groupSet st"
    "gcore (grp st' c) = (if c = a then gcore (drop_slot guid (grp st a)) else gcore (grp st c))"
proof -
  define st1 where "st1 = (if g_find e guid \<noteq> None then leave_refs a guid st else st)"
  define st2 where "st2 = upd_grp a (\<lambda>g. g\<lparr>m_rolls := removeRolls (roll_env.truncate e) guid
                 (word_of_nat (GetMembersCount g)) (m_rolls g)\<rparr>) st1"
  define k where "k g = (case getMemberSlot guid g of None \<Rightarrow> g
               | Some s \<Rightarrow> (SubGroupCounterDecrease (ms_group s) g)\<lparr>m_memberSlots := erase_slot guid (m_memberSlots g)\<rparr>)" for g
  define st3 where "st3 = (case getMemberSlot guid (grp st2 a) of
                  None \<Rightarrow> st2
                | Some slot \<Rightarrow> upd_grp a (\<lambda>g. (SubGroupCounterDecrease (ms_group slot) g)
                     \<lparr>m_memberSlots := erase_slot guid (m_memberSlots g)\<rparr>) st2)"
  have 1: "links_ok st1" "live st1 c = live st c" "gcore (grp st1 c) = gcore (grp st c)"
    "gs_groupSet st1 = gs_groupSet st" for c
    using ok by (simp_all add: st1_def leave_refs_facts)
  have 2: "links_ok st2" "live st2 c = live st c" "gcore (grp st2 c) = gcore (grp st c)"
    "gs_groupSet st2 = gs_groupSet st" for c
    using 1 by (auto simp: st2_def grp_upd intro: links_ok_upd_grp)
  have 3: "links_ok st3" "live st3 c = live st c" "gs_groupSet st3 = gs_groupSet st"
    "grp st3 c = (if c = a then k (grp st2 a) else grp st2 c)" for c
    using 2 ok(2) by (auto simp: st3_def k_def grp_upd intro: links_ok_upd_grp split: option.splits)
  have k: "gcore (k g) = gcore (k h)" if "gcore g = gcore h" for g h
    using that by (simp add: gcore_eq k_def getMemberSlot_def SubGroupCounterDecrease_def split: option.split)
  have l: "gcore (lead p g) = gcore (lead p h)" if "gcore g = gcore h" for g h p
    using that by (simp add: gcore_eq lead_def getMemberSlot_def split: option.split)
  define fin where "fin g = (if m_leaderGuid g = guid
      then (case m_memberSlots g of [] \<Rightarrow> g | s # _ \<Rightarrow> lead (ms_guid s) g) else g)" for g
  have d: "drop_slot guid g = fin (k g)" for g
    unfolding drop_slot_def k_def fin_def Let_def by (rule refl)
  have fin: "gcore (fin g) = gcore (fin h)" if "gcore g = gcore h" for g h
  proof -
    from that have "m_memberSlots g = m_memberSlots h" "m_leaderGuid g = m_leaderGuid h" by (simp_all add: gcore_eq)
    with that l [OF that] show ?thesis by (simp add: fin_def split: list.split)
  qed
  have core: "gcore (fin (grp st3 a)) = gcore (drop_slot guid (grp st a))"
    using 3(4) [of a] fin [OF k [OF 2(3) [of a]]] by (simp add: d)
  define st4 where "st4 = g_sql a [DeleteMemberRow (GUID_LOPART guid)] st3"
  have "(b, st') = (if m_leaderGuid (grp st4 a) = guid
      then (True, case m_memberSlots (grp st4 a) of [] \<Rightarrow> st4 | s # _ \<Rightarrow> setLeader e a (ms_guid s) st4)
      else (False, st4))"
    using op unfolding removeMember_def Let_def st4_def st3_def st2_def st1_def by (rule sym)
  then have "st' = (if m_leaderGuid (grp st4 a) = guid
      then case m_memberSlots (grp st4 a) of [] \<Rightarrow> st4 | s # _ \<Rightarrow> setLeader e a (ms_guid s) st4 else st4)"
    by (simp split: if_splits)
  moreover have "links_ok st4" "live st4 a" using 3 ok(2) by (simp_all add: st4_def)
  ultimately have "links_ok st'" "\<And>c. live st' c = live st4 c" "gs_groupSet st' = gs_groupSet st4"
    "\<And>c. gcore (grp st' c) = (if c = a then gcore (fin (grp st4 a)) else gcore (grp st4 c))"
    by (auto simp: setLeader_facts fin_def st4_def split: list.split)
  with core 3 2(3) show "links_ok st'" "live st' c = live st c" "gs_groupSet st' = gs_groupSet st"
    "gcore (grp st' c) = (if c = a then gcore (drop_slot guid (grp st a)) else gcore (grp st c))"
    by (auto simp: st4_def)
qed


section \<open>Invitations and deletion\<close>

definition uninvited :: "nat \<Rightarrow> gstate \<Rightarrow> bool" where
  "uninvited a st \<longleftrightarrow> (\<forall>p. gp_invite (gs_players st p) \<noteq> Some a)"

lemma RemoveInvite_facts [simp]:
  "live (RemoveInvite a p st) b = live st b" "gcore (grp (RemoveInvite a p st) b) = gcore (grp st b)"
  "gs_groupSet (RemoveInvite a p st) = gs_groupSet st" "gs_next (RemoveInvite a p st) = gs_next st"
  "gref k q (RemoveInvite a p st) = gref k q st"
  "gp_invite (gs_players (RemoveInvite a p st) q) = (if q = p then None else gp_invite (gs_players st q))"
  by (simp_all add: RemoveInvite_def grp_upd)

lemma links_ok_RemoveInvite [links_keep]: "links_ok st \<Longrightarrow> links_ok (RemoveInvite a p st)"
  unfolding RemoveInvite_def links_ok_def refs_ok_def invites_ok_def by (auto simp: grp_upd)

lemma groups_ok_RemoveInvite [simp]: "groups_ok X st \<Longrightarrow> groups_ok X (RemoveInvite a p st)"
  using shape_cong [of "RemoveInvite a p st" st X] by (simp add: groups_ok_def links_keep)

lemma fold_uninvite [simp]:
  "gs_heap (fold (\<lambda>p. SetGroupInvite p None) ps st) = gs_heap st"
  "gs_next (fold (\<lambda>p. SetGroupInvite p None) ps st) = gs_next st"
  "gs_groupSet (fold (\<lambda>p. SetGroupInvite p None) ps st) = gs_groupSet st"
  "grp (fold (\<lambda>p. SetGroupInvite p None) ps st) b = grp st b"
  "live (fold (\<lambda>p. SetGroupInvite p None) ps st) b = live st b"
  "gref k q (fold (\<lambda>p. SetGroupInvite p None) ps st) = gref k q st"
  "gp_invite (gs_players (fold (\<lambda>p. SetGroupInvite p None) ps st) q) =
    (if q \<in> set ps then None else gp_invite (gs_players st q))"
  by (induction ps arbitrary: st) auto

lemma RemoveAllInvites_facts [simp]:
  "live (RemoveAllInvites a st) b = live st b" "gcore (grp (RemoveAllInvites a st) b) = gcore (grp st b)"
  "gs_groupSet (RemoveAllInvites a st) = gs_groupSet st"
  by (simp_all add: RemoveAllInvites_def grp_upd)

lemma links_ok_RemoveAllInvites:
  "links_ok st \<Longrightarrow> links_ok (RemoveAllInvites a st) \<and> uninvited a (RemoveAllInvites a st)"
  unfolding RemoveAllInvites_def links_ok_def refs_ok_def invites_ok_def uninvited_def
  by (auto simp: grp_upd live_if_linked)

lemma fold_cut_refs:
  fixes st0 defines "F \<equiv> \<lambda>(p, k). set_ref k p ((gref k p st0)\<lparr>ref_to := None\<rparr>)"
  shows "gs_heap (fold F pks st) = gs_heap st" "gs_next (fold F pks st) = gs_next st"
    "gs_groupSet (fold F pks st) = gs_groupSet st"
    "gp_invite (gs_players (fold F pks st) q) = gp_invite (gs_players st q)"
    "ref_to (gref k q (fold F pks st)) = (if (q, k) \<in> set pks then None else ref_to (gref k q st))"
  by (induction pks arbitrary: st) (auto simp: F_def split: if_splits)

lemma delete_group_facts [simp]:
  "live (delete_group a st) b \<longleftrightarrow> b \<noteq> a \<and> live st b"
  "grp (delete_group a st) b = (if b = a then Group_new else grp st b)"
  "gs_groupSet (delete_group a st) = gs_groupSet st"
  by (auto simp: delete_group_def Let_def fold_cut_refs live_def grp_def)

lemma heap_gref [simp]: "gref k q (st\<lparr>gs_heap := h\<rparr>) = gref k q st"
  by (simp add: gref_def)

lemma links_ok_delete:
  assumes "links_ok st" "uninvited a st"
  shows "links_ok (delete_group a st)"
proof -
  have "ref_to (gref k q (delete_group a st)) = (if (q, k) \<in> set (m_memberMgr (grp st a)) then None else ref_to (gref k q st))"
    "gp_invite (gs_players (delete_group a st) q) = gp_invite (gs_players st q)"
    "gs_next (delete_group a st) = gs_next st" for k q
    by (simp_all add: delete_group_def Let_def fold_cut_refs heap_gref)
  moreover have "b = a" if "(p, k) \<in> set (m_memberMgr (grp st a))" "(p, k) \<in> set (m_memberMgr (grp st b))" for p k b
    using that assms(1) unfolding links_ok_def refs_ok_def by (metis option.inject)
  ultimately show ?thesis
    using assms unfolding links_ok_def refs_ok_def invites_ok_def uninvited_def by (auto split: if_splits)
qed

lemma groups_ok_delete:
  assumes "groups_ok (insert a X) st" "uninvited a st"
  shows "groups_ok X (delete_group a st)"
  using assms links_ok_delete unfolding groups_ok_def shape_inv_def by auto

section \<open>Disbanding\<close>

lemma Disband_member_facts:
  assumes "links_ok st"
  shows "links_ok (Disband_member e a hide p st)" "live (Disband_member e a hide p st) c = live st c"
    "gcore (grp (Disband_member e a hide p st) c) = gcore (grp st c)"
    "gs_groupSet (Disband_member e a hide p st) = gs_groupSet st"
  using assms by (auto simp: Disband_member_def Let_def leave_refs_facts split: option.split)

lemma fold_Disband_member:
  assumes "links_ok st"
  shows "links_ok (fold (\<lambda>s. Disband_member e a hide (ms_guid s)) ss st) \<and>
    (\<forall>c. live (fold (\<lambda>s. Disband_member e a hide (ms_guid s)) ss st) c = live st c) \<and>
    (\<forall>c. gcore (grp (fold (\<lambda>s. Disband_member e a hide (ms_guid s)) ss st) c) = gcore (grp st c)) \<and>
    gs_groupSet (fold (\<lambda>s. Disband_member e a hide (ms_guid s)) ss st) = gs_groupSet st"
  using assms by (induction ss arbitrary: st) (simp_all add: Disband_member_facts)

lemma Disband_facts:
  assumes ok: "links_ok st"
  shows "links_ok (Disband e a hide st)" "uninvited a (Disband e a hide st)"
    "live (Disband e a hide st) c = live st c" "gs_groupSet (Disband e a hide st) = gs_groupSet st"
    "c \<noteq> a \<Longrightarrow> gcore (grp (Disband e a hide st) c) = gcore (grp st c)"
    "m_memberSlots (grp (Disband e a hide st) a) = []"
proof -
  define st1 where "st1 = fold (\<lambda>s. Disband_member e a hide (ms_guid s)) (m_memberSlots (grp st a)) st"
  define st2 where "st2 = upd_grp a (\<lambda>g. g\<lparr>m_rolls := (m_rolls g)\<lparr>RollId := []\<rparr>, m_memberSlots := []\<rparr>) st1"
  have 1: "links_ok st1" "live st1 c = live st c" "gcore (grp st1 c) = gcore (grp st c)"
    "gs_groupSet st1 = gs_groupSet st" for c
    using fold_Disband_member [OF ok, of e a hide "m_memberSlots (grp st a)"] by (simp_all add: st1_def)
  have 2: "links_ok st2" "live st2 c = live st c" "gs_groupSet st2 = gs_groupSet st"
    "c \<noteq> a \<Longrightarrow> gcore (grp st2 c) = gcore (grp st c)" "m_memberSlots (grp st2 a) = []" for c
    using 1 by (auto simp: st2_def grp_upd dead_grp intro: links_ok_upd_grp)
  have 3: "links_ok (RemoveAllInvites a st2)" "uninvited a (RemoveAllInvites a st2)"
    using links_ok_RemoveAllInvites 2(1) by auto
  define st3 where "st3 = g_emit [GSql (DeleteGroupRow (GUID_LOPART (m_leaderGuid (grp (RemoveAllInvites a st2) a)))),
    GSql (DeleteMemberRows (GUID_LOPART (m_leaderGuid (grp (RemoveAllInvites a st2) a)))), GResetGroupInstances a]
    (RemoveAllInvites a st2)"
  have eq: "Disband e a hide st = upd_grp a (\<lambda>g. g\<lparr>m_leaderGuid := 0, m_leaderName := []\<rparr>) st3"
    using links_ok_no_bg [OF 3(1), of a]
    unfolding Disband_def Let_def st1_def [symmetric] st2_def [symmetric] by (simp add: st3_def)
  have "gcore (grp st3 c) = gcore (grp st2 c)" for c by (simp add: st3_def)
  then have s3: "m_memberSlots (grp st3 c) = m_memberSlots (grp st2 c)" for c by (simp add: gcore_eq)
  have l3: "links_ok st3" "uninvited a st3" using 3 by (simp_all add: st3_def uninvited_def)
  show "links_ok (Disband e a hide st)" unfolding eq by (rule links_ok_upd_grp) (simp_all add: l3)
  show "uninvited a (Disband e a hide st)" using l3(2) by (simp add: eq uninvited_def)
  show "live (Disband e a hide st) c = live st c" "gs_groupSet (Disband e a hide st) = gs_groupSet st"
    "c \<noteq> a \<Longrightarrow> gcore (grp (Disband e a hide st) c) = gcore (grp st c)"
    using 2 by (simp_all add: eq st3_def)
  show "m_memberSlots (grp (Disband e a hide st) a) = []"
    using 2(5) s3 by (simp add: eq grp_upd)
qed


section \<open>Requests keep the invariant\<close>

definition groups_inv :: "gstate \<Rightarrow> bool" where
  "groups_inv st \<longleftrightarrow> groups_ok {} st \<and> (\<forall>a \<in> set (gs_groupSet st). created st a)"

lemma groups_inv_quiet [simp]:
  "groups_inv (g_emit es st) = groups_inv st" "groups_inv (g_sql a qs st) = groups_inv st"
  "groups_inv (SendUpdate e a st) = groups_inv st" "groups_inv (BroadcastPacket a d b s i st) = groups_inv st"
  "groups_inv (BroadcastGroupUpdate e a st) = groups_inv st"
  "groups_inv (SendPartyResult p oper m res st) = groups_inv st"
  "groups_inv (send_list_after_leaving e p st) = groups_inv st"
  by (simp_all add: groups_inv_def)

text \<open>An update of one group that keeps its links, its slots and its shape.\<close>

lemma groups_inv_upd:
  assumes "groups_inv st" "\<And>g. m_memberMgr (f g) = m_memberMgr g" "\<And>g. m_bgGroup (f g) = m_bgGroup g"
    "\<And>g. set (m_invitees g) \<subseteq> set (m_invitees (f g))" "\<And>g. m_memberSlots g \<noteq> [] \<Longrightarrow> m_memberSlots (f g) \<noteq> []"
    "live st a \<Longrightarrow> cshape (gcore (grp st a)) \<Longrightarrow> cshape (gcore (f (grp st a)))"
  shows "groups_inv (upd_grp a f st)"
  using assms(1,5) groups_ok_upd [of "{}" st f a, OF _ assms(2-4)] assms(6)
  by (auto simp: groups_inv_def created_def grp_upd)

lemma set_update_sel [simp]:
  "live (st\<lparr>gs_groupSet := S\<rparr>) b = live st b" "grp (st\<lparr>gs_groupSet := S\<rparr>) b = grp st b"
  "created (st\<lparr>gs_groupSet := S\<rparr>) b = created st b" "groups_ok X (st\<lparr>gs_groupSet := S\<rparr>) = groups_ok X st"
  "uninvited a (st\<lparr>gs_groupSet := S\<rparr>) = uninvited a st"
  by (simp_all add: live_def grp_def created_def groups_ok_def shape_inv_def uninvited_def)

text \<open>The end of a group: disbanded, taken out of the set of groups, deleted.\<close>

lemma groups_inv_bury:
  assumes "groups_ok {a} st" "uninvited a st" "\<And>c. c \<in> set (gs_groupSet st) \<Longrightarrow> c \<noteq> a \<Longrightarrow> created st c"
    "a \<notin> set (gs_groupSet st)"
  shows "groups_inv (delete_group a st)"
  using assms groups_ok_delete [of a "{}" st] by (auto simp: groups_inv_def created_def)

lemma Disband_groups_ok: "groups_ok {} st \<Longrightarrow> groups_ok {a} (Disband e a hide st)"
  by (auto simp: groups_ok_def shape_inv_def Disband_facts)

lemma groups_inv_disbanded:
  assumes "groups_inv st"
  shows "groups_inv (delete_group a (RemoveGroup a (Disband e a hide st)))"
proof -
  from assms have l: "links_ok st" by (simp add: groups_inv_def groups_ok_def)
  have "created (Disband e a hide st) c = created st c" if "c \<noteq> a" for c
    by (rule created_cong) (simp_all add: Disband_facts [OF l] that)
  then show ?thesis
    using assms Disband_groups_ok [of st a e hide]
    by (intro groups_inv_bury) (auto simp: RemoveGroup_def groups_inv_def Disband_facts [OF l])
qed

lemma RemoveMember_stays:
  assumes ok: "groups_inv st" "live st a" "GetMembersCount (grp st a) > 2" and op: "RemoveMember e a guid how st = (n, st')"
  shows "groups_inv st'" "n \<ge> 2" "gcore (grp st' a) = gcore (drop_slot guid (grp st a))"
proof -
  define st0 where "st0 = BroadcastGroupUpdate e a st"
  obtain b st1 where one: "removeMember e a guid st0 = (b, st1)" by force
  have l: "links_ok st0" "live st0 a" using ok by (simp_all add: st0_def groups_inv_def groups_ok_def)
  note f = removeMember_facts [OF l one]
  have core: "gcore (grp st1 c) = (if c = a then gcore (drop_slot guid (grp st a)) else gcore (grp st c))" for c
    using f(4) by (simp add: st0_def)
  have slots: "m_memberSlots (grp st1 a) = erase_slot guid (m_memberSlots (grp st a))"
    using core [of a] by (simp add: gcore_eq drop_slot_sel)
  then have n: "length (m_memberSlots (grp st1 a)) \<ge> 2"
    using ok(3) by (auto simp: length_erase_slot GetMembersCount_def)
  have "created st1 c = created st c" if "c \<noteq> a" for c
    by (rule created_cong) (simp_all add: f(2) core that st0_def)
  moreover have "created st1 a" using n f(2) l(2) by (auto simp: created_def st0_def)
  ultimately have "created st c \<Longrightarrow> created st1 c" for c by (cases "c = a") auto
  moreover have "shape_inv {} st1"
    using ok f(2) core by (auto simp: shape_inv_def groups_inv_def groups_ok_def st0_def cshape_drop_slot)
  ultimately have inv: "groups_inv st1"
    using ok f(1,3) by (auto simp: groups_inv_def groups_ok_def st0_def)
  have bg: "\<not> isBGGroup (grp st0 a)" "GetMembersCount (grp st0 a) > 2"
    using l ok(3) by (simp_all add: links_ok_no_bg st0_def)
  have st': "n = length (m_memberSlots (grp st1 a)) \<and> gcore (grp st' a) = gcore (grp st1 a) \<and> groups_inv st' = groups_inv st1"
    using op one bg unfolding RemoveMember_def st0_def [symmetric] Let_def
    by (auto simp: GetMembersCount_def split: option.splits list.splits if_splits)
  with inv n core show "groups_inv st'" "n \<ge> 2" "gcore (grp st' a) = gcore (drop_slot guid (grp st a))" by simp_all
qed

lemma RemoveMember_disbands:
  assumes "groups_inv st" "\<not> GetMembersCount (grp st a) > 2"
  shows "RemoveMember e a guid how st = (0, Disband e a True (BroadcastGroupUpdate e a st))"
proof -
  have l: "links_ok (BroadcastGroupUpdate e a st)" using assms(1) by (simp add: groups_inv_def groups_ok_def)
  then have "\<not> isBGGroup (grp st a)" using links_ok_no_bg [OF l, of a] by simp
  then show ?thesis
    using assms(2) by (simp add: RemoveMember_def GetMembersCount_def Disband_facts [OF l])
qed

lemma RemoveFromGroup_inv:
  assumes "groups_inv st" "\<And>a. to = Some a \<Longrightarrow> live st a"
  shows "groups_inv (RemoveFromGroup e to guid st)"
proof (cases to)
  case (Some b)
  show ?thesis
  proof (cases "GetMembersCount (grp st b) > 2")
    case True
    obtain n st' where op: "RemoveMember e b guid 0 st = (n, st')" by force
    from RemoveMember_stays(1,2) [OF assms(1) assms(2) [OF Some] True op] op Some show ?thesis
      by (simp add: RemoveFromGroup_def)
  next
    case False
    then show ?thesis
      using assms Some groups_inv_disbanded [of "BroadcastGroupUpdate e b st" b e True]
      by (simp add: RemoveFromGroup_def RemoveMember_disbands)
  qed
qed (simp add: RemoveFromGroup_def assms)

lemma UninviteFromGroup_inv:
  assumes "groups_inv st"
  shows "groups_inv (UninviteFromGroup e p st)"
proof (cases "GetGroupInvite p st")
  case (Some a)
  define st1 where "st1 = RemoveInvite a p st"
  have inv: "groups_inv st1"
    using assms created_cong [of st1 _ st] by (auto simp: st1_def groups_inv_def)
  show ?thesis
  proof (cases "IsCreated (grp st1 a)")
    case True
    with inv Some show ?thesis
      using groups_inv_disbanded [OF inv, of a e True] by (simp add: UninviteFromGroup_def Let_def flip: st1_def)
  next
    case False
    have l: "links_ok st1" using inv by (simp add: groups_inv_def groups_ok_def)
    define st2 where "st2 = RemoveAllInvites a st1"
    have "created st2 c = created st1 c" for c by (rule created_cong) (simp_all add: st2_def)
    moreover have "shape_inv {} st2 = shape_inv {} st1" by (rule shape_cong) (simp_all add: st2_def)
    moreover have "a \<notin> set (gs_groupSet st1)"
      using inv False by (auto simp: groups_inv_def created_def IsCreated_def GetMembersCount_def)
    ultimately have "groups_inv (delete_group a st2)"
      using inv links_ok_RemoveAllInvites [OF l, of a] shape_mono [of "{}" st2 "{a}"]
      by (intro groups_inv_bury) (auto simp: groups_inv_def groups_ok_def st2_def)
    with Some False show ?thesis
      by (simp add: UninviteFromGroup_def Let_def IsCreated_def st2_def flip: st1_def)
  qed
qed (simp add: UninviteFromGroup_def assms)

end
