(* ===== verification/GroupProps.thy ===== *)
theory GroupProps
  imports GroupLinks
begin

text \<open>
  What every request about groups keeps, and what follows for groups: live pointers, leaders, sizes,
  subgroup counters, icons, looters; and the requests the code does not get right.
\<close>

section \<open>Creating and joining\<close>

lemma groups_inv_links: "groups_inv st \<Longrightarrow> links_ok st" "groups_inv st \<Longrightarrow> groups_ok {} st"
  "groups_inv st \<Longrightarrow> live st a \<Longrightarrow> cshape (gcore (grp st a))" "groups_inv st \<Longrightarrow> \<not> isBGGroup (grp st a)"
  by (simp_all add: groups_inv_def groups_ok_def shape_inv_def links_ok_no_bg)

lemma RemoveInvite_inv [simp]: "groups_inv st \<Longrightarrow> groups_inv (RemoveInvite a p st)"
  using created_cong [of "RemoveInvite a p st" _ st] by (auto simp: groups_inv_def)

lemma invited_live: "links_ok st \<Longrightarrow> GetGroupInvite p st = Some a \<Longrightarrow> live st a"
  by (auto simp: links_ok_def invites_ok_def GetGroupInvite_def intro: live_if_linked)

lemma linked_live:
  "links_ok st \<Longrightarrow> GetGroup p st = Some a \<Longrightarrow> live st a"
  "links_ok st \<Longrightarrow> GetOriginalGroup p st = Some a \<Longrightarrow> live st a"
  by (auto simp: links_ok_def refs_ok_def GetGroup_def GetOriginalGroup_def dest: live_if_linked)

lemma first_member:
  assumes "links_ok st" "live st a" "cshape (gcore (grp st a))" "m_memberSlots (grp st a) = []" "guid \<noteq> 0"
  shows "fst (addMember e a guid name asst st)"
proof -
  have "\<not> IsFull (grp st a)" using assms(4) by (simp add: IsFull_def group_capacity_def split: GroupType.split)
  then have to: "fst (addMember_to e a guid name asst s st)" for s
    using addMember_to_facts(4) [OF assms(1,2)] assms(5) by (metis fst_conv prod.exhaust)
  show ?thesis
  proof (cases "m_subGroupsCounts (grp st a)")
    case (Some c)
    with assms(3,4) have "unat (c 0) = 0" by (auto simp: cshape_iff counts_ok_def)
    then have "first_free_subgroup c = Some 0" by (simp add: first_free_subgroup_def unat_eq_0)
    with Some to show ?thesis by (simp add: addMember_def)
  qed (simp add: addMember_def to)
qed

lemma AddMember_fst: "fst (AddMember e a guid name st) = fst (addMember e a guid name False st)"
  by (auto simp: AddMember_def Let_def split: prod.splits bool.splits option.splits)

lemma Create_facts:
  assumes ok: "groups_ok {} st" "live st a" "m_memberSlots (grp st a) = []" "m_leaderGuid (grp st a) = guid"
    and op: "st' = snd (Create e a guid name st)"
  shows "groups_ok {} st'" "live st' c = live st c" "gs_groupSet st' = gs_groupSet st" "created st' a"
    "created st c \<Longrightarrow> created st' c" "m_leaderGuid (grp st' a) = guid"
proof -
  have shape: "cshape (gcore (grp st a))" using groups_ok_shape [OF ok(1,2)] by simp
  define f where "f = Create_fields e guid name"
  define st1 where "st1 = upd_grp a f st"
  have bg: "\<not> isBGGroup (grp st a)" using ok(1) by simp
  have f: "f (grp st a) = (grp st a)\<lparr>m_leaderGuid := guid, m_leaderName := name, m_groupType := GROUPTYPE_NORMAL,
      m_lootMethod := 3, m_lootThreshold := 2, m_looterGuid := guid, m_difficulty := 0\<rparr>"
    using bg by (simp add: f_def Create_fields_def Let_def isBGGroup_def)
  have "m_memberMgr (f g) = m_memberMgr g" "m_bgGroup (f g) = m_bgGroup g" "m_invitees (f g) = m_invitees g" for g
    by (simp_all add: f_def Create_fields_def Let_def initRaidSubGroupsCounter_def)
  moreover have "counts_ok GROUPTYPE_NORMAL [] (m_subGroupsCounts (grp st a))"
    using shape ok(3) by (auto simp: cshape_iff counts_ok_def split: option.splits)
  then have "cshape (gcore (f (grp st a)))"
    using shape ok(3,4) by (simp add: f cshape_iff)
  ultimately have 1: "groups_ok {} st1"
    unfolding st1_def using ok(1) by (intro groups_ok_upd) simp_all
  define st2 where "st2 = (case g_find e guid of None \<Rightarrow> st1 | Some _ \<Rightarrow> upd_grp a (\<lambda>g. g\<lparr>m_difficulty := gp_difficulty (gs_players st1 guid)\<rparr>) st1)"
  have dd: "gcore (g\<lparr>m_difficulty := x\<rparr>) = gcore g" for g x by (simp add: gcore_def)
  have 2: "groups_ok {} st2" "live st2 c = live st c" "gs_groupSet st2 = gs_groupSet st"
    "gcore (grp st2 c) = (if c = a then gcore (f (grp st a)) else gcore (grp st c))" for c
    using 1 ok(2) by (auto simp: st2_def st1_def grp_upd dd intro: groups_ok_upd split: option.split)
  from 2(4) [of a] have core2: "m_memberSlots (grp st2 a) = []" "m_leaderGuid (grp st2 a) = guid"
    using ok(3) by (simp_all add: gcore_eq f)
  define st3 where "st3 = Create_store a guid st2"
  have quiet: "\<exists>es. st3 = g_emit es st2" by (auto simp: st3_def Create_store_def Let_def)
  have nbg: "isBGGroup (grp st1 a) = False" using 1 by simp
  have es: "Create e a guid name st = AddMember e a guid name st3"
    unfolding Create_def f_def [symmetric] st1_def [symmetric] Let_def st3_def st2_def nbg if_False by (rule refl)
  have 3: "groups_ok {} st3" "live st3 a" "m_memberSlots (grp st3 a) \<noteq> [] \<or> guid = m_leaderGuid (grp st3 a)"
    using quiet 2 core2 ok(2) by auto
  have core3: "m_memberSlots (grp st3 a) = []" using quiet core2 by auto
  have "guid \<noteq> 0" using shape ok(4) by (simp add: cshape_iff)
  moreover have "cshape (gcore (grp st3 a))" using groups_ok_shape [OF 3(1,2)] by simp
  ultimately have b: "fst (AddMember e a guid name st3)"
    unfolding AddMember_fst using 3(1,2) core3 by (intro first_member) (simp_all add: groups_ok_def)
  obtain st4 where st4: "AddMember e a guid name st3 = (True, st4)"
    using b by (metis fst_conv prod.exhaust)
  note a4 = AddMember_facts [OF 3 st4]
  have "st' = st4" using op es st4 by simp
  then show "groups_ok {} st'" "live st' c = live st c" "gs_groupSet st' = gs_groupSet st" "created st' a"
    "m_leaderGuid (grp st' a) = guid"
    using a4 2 core2 quiet by auto
  have "created st2 c" if "created st c"
  proof -
    have "c \<noteq> a" using that ok(3) by (auto simp: created_def)
    then show ?thesis using that 2(2,4) [of c] created_cong [of st2 c st] by simp
  qed
  then show "created st c \<Longrightarrow> created st' c"
    using a4(5) [of c] \<open>st' = st4\<close> quiet by auto
qed


section \<open>Invitations and acceptance\<close>

lemma AddInvite_facts:
  assumes "links_ok st" "live st a" "AddInvite a p st = (b, st')"
  shows "links_ok st'" "live st' c = live st c" "gcore (grp st' c) = gcore (grp st c)"
    "gs_groupSet st' = gs_groupSet st" "gref k q st' = gref k q st" "gs_next st' = gs_next st"
    "gp_invite (gs_players st' q) = (if b \<and> q = p then Some a else gp_invite (gs_players st q))"
    "b \<longleftrightarrow> GetGroupInvite p st = None \<and> home_group p st = None"
proof -
  let ?st1 = "SetGroupInvite p (Some a) (upd_grp a (\<lambda>g. g\<lparr>m_invitees := List.insert p (m_invitees g)\<rparr>) (RemoveInvite a p st))"
  have home: "(case GetGroup p st of None \<Rightarrow> GetGroup p st
      | Some b \<Rightarrow> if isBGGroup (grp st b) then GetOriginalGroup p st else GetGroup p st) = home_group p st"
    by (simp add: home_group_def split: option.split)
  have op: "(b, st') = (if GetGroupInvite p st \<noteq> None \<or> home_group p st \<noteq> None then (False, st) else (True, ?st1))"
    using assms(3) home by (auto simp: AddInvite_def Let_def split: if_splits)
  have "links_ok (RemoveInvite a p st)" "live (RemoveInvite a p st) a" using assms(1,2) by (simp_all add: links_keep)
  then have "links_ok ?st1"
    unfolding links_ok_def refs_ok_def invites_ok_def by (auto simp: grp_upd)
  with op assms show "links_ok st'" "live st' c = live st c" "gcore (grp st' c) = gcore (grp st c)"
    "gs_groupSet st' = gs_groupSet st" "gref k q st' = gref k q st" "gs_next st' = gs_next st"
    "gp_invite (gs_players st' q) = (if b \<and> q = p then Some a else gp_invite (gs_players st q))"
    "b \<longleftrightarrow> GetGroupInvite p st = None \<and> home_group p st = None"
    by (auto simp: grp_upd split: if_splits)
qed

lemma groups_inv_cong:
  "links_ok st' \<Longrightarrow> (\<And>c. live st' c = live st c) \<Longrightarrow> (\<And>c. gcore (grp st' c) = gcore (grp st c)) \<Longrightarrow>
    gs_groupSet st' = gs_groupSet st \<Longrightarrow> groups_inv st \<Longrightarrow> groups_inv st'"
  using shape_cong [of st' st "{}"] created_cong [of st' _ st] by (auto simp: groups_inv_def groups_ok_def)

lemma AddInvite_inv:
  assumes "groups_inv st" "live st a"
  shows "groups_inv (snd (AddInvite a p st))"
proof -
  obtain b st' where op: "AddInvite a p st = (b, st')" by force
  note f = AddInvite_facts [OF groups_inv_links(1) [OF assms(1)] assms(2) op]
  show ?thesis using groups_inv_cong [of st' st] f(1-4) assms(1) by (simp add: op)
qed

lemma new_group_facts:
  assumes "groups_inv st" "new_group st = (a, st')"
  shows "links_ok st'" "shape_inv {a} st'" "live st' c \<longleftrightarrow> c = a \<or> live st c" "grp st' c = grp st c"
    "gs_groupSet st' = gs_groupSet st" "gref k q st' = gref k q st" "gs_players st' = gs_players st" "\<not> live st a"
proof -
  have a: "a = gs_next st" and st': "st' = st\<lparr>gs_heap := (gs_heap st)(gs_next st := Some Group_new), gs_next := gs_next st + 1\<rparr>"
    using assms(2) by (auto simp: new_group_def)
  have above: "\<not> live st c" if "c \<ge> gs_next st" for c
    using assms(1) that by (simp add: groups_inv_def groups_ok_def links_ok_def invites_ok_def)
  show dead: "\<not> live st a" using above a by simp
  show l: "live st' c \<longleftrightarrow> c = a \<or> live st c" for c by (auto simp: st' a live_def)
  show g: "grp st' c = grp st c" for c
    using above [of c] dead_grp [of st c] by (auto simp: st' grp_def a)
  show "gs_groupSet st' = gs_groupSet st" by (simp add: st')
  show r: "gref k q st' = gref k q st" for k q by (simp add: st' gref_def)
  show p: "gs_players st' = gs_players st" by (simp add: st')
  have n: "gs_next st' = gs_next st + 1" by (simp add: st')
  show "links_ok st'"
    using groups_inv_links(1) [OF assms(1)] unfolding links_ok_def refs_ok_def invites_ok_def
    by (simp add: g r p l a n)
  show "shape_inv {a} st'"
    using groups_inv_links(2) [OF assms(1)] by (auto simp: groups_ok_def shape_inv_def g l)
qed


lemma home_no_bg: "links_ok st \<Longrightarrow> home_group p st = GetGroup p st"
  by (simp add: home_group_def links_ok_no_bg split: option.split)

lemma invite_refused_None:
  "invite_refused e self pl st = None \<Longrightarrow> home_group (p_guid pl) st = None \<and> GetGroupInvite (p_guid pl) st = None"
  by (auto simp: invite_refused_def Let_def split: if_splits)

lemma cshape_fresh_leader: "p \<noteq> 0 \<Longrightarrow> cshape (gcore (Group_new\<lparr>m_leaderGuid := p\<rparr>))"
  by (simp add: cshape_iff Group_new_def counts_ok_def)

text \<open>A new group for an invitation: it is deleted again when the leader has been invited elsewhere.\<close>

lemma new_invite_inv:
  assumes inv: "groups_inv st" and new: "new_group st = (a, st1)" and me: "me \<noteq> 0" "me \<noteq> you"
    and free: "home_group you st = None" "GetGroupInvite you st = None"
    and lead: "AddLeaderInvite a me name st1 = (b, st2)"
  shows "\<not> b \<Longrightarrow> groups_inv (delete_group a st2)"
    "b \<Longrightarrow> fst (AddInvite a you st2) \<and> groups_inv (snd (AddInvite a you st2))"
proof -
  note n = new_group_facts [OF inv new]
  obtain st3 where add: "AddInvite a me st1 = (b, st3)" and
    st2: "st2 = (if b then upd_grp a (\<lambda>g. g\<lparr>m_leaderGuid := me, m_leaderName := name\<rparr>) st3 else st1)"
    using lead by (auto simp: AddLeaderInvite_def AddInvite_def Let_def split: prod.splits bool.splits if_splits)
  have a1: "live st1 a" using n(3) by simp
  note i = AddInvite_facts [OF n(1) a1 add]
  have a0: "grp st1 a = Group_new" using n(4,8) dead_grp by simp
  have set1: "created st1 c" "c \<noteq> a" if "c \<in> set (gs_groupSet st)" for c
    using that inv n(3,4,8) by (auto simp: groups_inv_def created_def)
  {
    assume "\<not> b"
    have "gp_invite (gs_players st1 p) = Some a \<Longrightarrow> p \<in> set (m_invitees (grp st1 a))" for p
      using n(1) unfolding links_ok_def invites_ok_def by blast
    then have "uninvited a st1" using a0 by (auto simp: uninvited_def)
    then show "groups_inv (delete_group a st2)"
      using \<open>\<not> b\<close> st2 n(1,2,5,8) set1 by (intro groups_inv_bury) (auto simp: groups_ok_def)
  }
  {
    assume b
    let ?f = "\<lambda>g. g\<lparr>m_leaderGuid := me, m_leaderName := name\<rparr>"
    have st2': "st2 = upd_grp a ?f st3" using \<open>b\<close> st2 by simp
    have l2: "links_ok st2" unfolding st2' by (rule links_ok_upd_grp) (simp_all add: i(1))
    have core: "gcore (grp st2 c) = (if c = a then gcore (Group_new\<lparr>m_leaderGuid := me\<rparr>) else gcore (grp st c))" for c
      using i(2) [of a] i(3) [of c] a0 a1 n(4) [of c] by (auto simp: st2' grp_upd gcore_eq)
    have "shape_inv {} st2"
      using inv n(3) core cshape_fresh_leader [OF me(1)]
      by (auto simp: shape_inv_def groups_inv_def groups_ok_def st2' i(2))
    moreover have "created st2 c" if "c \<in> set (gs_groupSet st)" for c
      using that set1 [OF that] core [of c] by (auto simp: created_def st2' i(2) n(4) gcore_eq)
    ultimately have inv2: "groups_inv st2"
      using l2 i(4) n(5) by (auto simp: groups_inv_def groups_ok_def st2')
    moreover have a2: "live st2 a" using a1 by (simp add: st2' i(2))
    moreover have "GetGroupInvite you st2 = None" "home_group you st2 = None"
      using free me(2) i(5,7) n(6,7) home_no_bg [OF l2] home_no_bg [OF groups_inv_links(1) [OF inv]]
      by (simp_all add: GetGroupInvite_def st2' GetGroup_def)
    ultimately show "fst (AddInvite a you st2) \<and> groups_inv (snd (AddInvite a you st2))"
      using AddInvite_inv [OF inv2 a2] AddInvite_facts(8) [OF l2 a2]
      by (metis prod.collapse)
  }
qed

definition self_invite :: "handler_env \<Rightarrow> player \<Rightarrow> string \<Rightarrow> bool" where
  "self_invite e self n \<longleftrightarrow>
     (case normalizePlayerName (h_u8dec e) (h_u8enc e) n of
        None \<Rightarrow> False
      | Some name \<Rightarrow> (case FindPlayerByName (e_world e) name of None \<Rightarrow> False | Some pl \<Rightarrow> p_guid pl = p_guid self))"

lemma HandleGroupInvite_inv:
  assumes inv: "groups_inv st" and me: "p_guid self \<noteq> 0" "\<not> self_invite e self n"
  shows "groups_inv (HandleGroupInviteOpcode e self n st)"
proof (cases "normalizePlayerName (h_u8dec e) (h_u8enc e) n")
  case None
  with inv show ?thesis by (simp add: HandleGroupInviteOpcode_def Let_def)
next
  case (Some name)
  show ?thesis
  proof (cases "FindPlayerByName (e_world e) name")
    case None
    with inv Some show ?thesis by (simp add: HandleGroupInviteOpcode_def Let_def)
  next
    case pl: (Some pl)
    then have ne: "p_guid self \<noteq> p_guid pl" using me(2) Some by (auto simp: self_invite_def)
    note r = Some pl
    show ?thesis
    proof (cases "invite_refused e self pl st")
      case None
      note free = invite_refused_None [OF None]
      have sent: "groups_inv (invite_sent self pl x st') = groups_inv st'" for x st'
        by (simp add: invite_sent_def)
      show ?thesis
      proof (cases "home_group (p_guid self) st")
        case none: None
        obtain a st1 where new: "new_group st = (a, st1)" by force
        obtain b st2 where lead: "AddLeaderInvite a (p_guid self) (p_name self) st1 = (b, st2)" by force
        obtain b3 st3 where add: "AddInvite a (p_guid pl) st2 = (b3, st3)" by force
        from new_invite_inv [OF inv new me(1) ne _ _ lead] free add r None none new lead show ?thesis
          by (cases b) (auto simp: HandleGroupInviteOpcode_def Let_def sent)
      next
        case (Some a)
        then have a: "live st a"
          using linked_live(1) [OF groups_inv_links(1) [OF inv]] home_no_bg [OF groups_inv_links(1) [OF inv]] by simp
        obtain b st' where "AddInvite a (p_guid pl) st = (b, st')" by force
        with AddInvite_inv [OF inv a, of "p_guid pl"] inv r None Some
          AddInvite_facts(1) [OF groups_inv_links(1) [OF inv] a]
        show ?thesis
          by (cases b) (auto simp: HandleGroupInviteOpcode_def Let_def sent)
      qed
    next
      case (Some x)
      with inv r show ?thesis by (simp add: HandleGroupInviteOpcode_def Let_def)
    qed
  qed
qed

lemma accept_create_facts:
  assumes inv: "groups_inv st" and a: "live st a"
  shows "groups_inv (accept_create e a st) \<and> created (accept_create e a st) a"
proof (cases "IsCreated (grp st a)")
  case True
  with inv a show ?thesis by (simp add: accept_create_def created_def IsCreated_def GetMembersCount_def)
next
  case False
  define l where "l = m_leaderGuid (grp st a)"
  define st2 where "st2 = (if g_find e l \<noteq> None then RemoveInvite a l st else st)"
  have inv2: "groups_inv st2" and a2: "live st2 a" and core2: "gcore (grp st2 a) = gcore (grp st a)"
    using inv a by (simp_all add: st2_def)
  have "m_memberSlots (grp st2 a) = []" "m_leaderGuid (grp st2 a) = l"
    using False core2 by (simp_all add: IsCreated_def GetMembersCount_def gcore_eq l_def)
  note c = Create_facts [OF groups_inv_links(2) [OF inv2] a2 this refl, where e = e and name = "m_leaderName (grp st2 a)"]
  have "accept_create e a st = AddGroup a (snd (Create e a l (m_leaderName (grp st2 a)) st2))"
    using False unfolding accept_create_def Let_def st2_def l_def by simp
  with inv2 c show ?thesis by (auto simp: AddGroup_def groups_inv_def)
qed

lemma HandleGroupAccept_inv:
  assumes inv: "groups_inv st"
  shows "groups_inv (HandleGroupAcceptOpcode e self st)"
proof (cases "GetGroupInvite (p_guid self) st")
  case (Some a)
  let ?me = "p_guid self"
  define st1 where "st1 = RemoveInvite a ?me st"
  define st3 where "st3 = accept_create e a st1"
  have inv1: "groups_inv st1" and a1: "live st1 a"
    using inv invited_live [OF groups_inv_links(1) [OF inv] Some] by (simp_all add: st1_def)
  then have 3: "groups_inv st3" "created st3 a" using accept_create_facts by (simp_all add: st3_def)
  obtain b st4 where 4: "AddMember e a ?me (p_name self) st3 = (b, st4)" by force
  have a3: "live st3 a" "m_memberSlots (grp st3 a) \<noteq> [] \<or> ?me = m_leaderGuid (grp st3 a)"
    using 3 by (auto simp: created_def)
  note f = AddMember_facts [OF groups_inv_links(2) a3 4]
  have inv4: "groups_inv st4" using 3 f by (auto simp: groups_inv_def)
  show ?thesis
    using inv inv1 inv4 4 Some
    by (cases b) (simp_all add: HandleGroupAcceptOpcode_def Let_def flip: st1_def st3_def)
qed (simp add: HandleGroupAcceptOpcode_def inv)


section \<open>Leaders, raids, roles\<close>

lemma ChangeLeader_inv:
  assumes inv: "groups_inv st" and a: "live st a"
  shows "groups_inv (ChangeLeader e a guid st)"
proof (cases "getMemberSlot guid (grp st a)")
  case (Some s)
  let ?st = "setLeader e a guid st"
  note f = setLeader_facts [OF groups_inv_links(1) [OF inv] a, of e guid]
  have s: "ms_guid s \<in> ms_guid ` set (m_memberSlots (grp st a))" using getMemberSlot_guid [OF Some] by blast
  have "cshape (gcore (lead guid (grp st a)))"
    using groups_inv_links(3) [OF inv a] s Some by (auto simp: lead_def cshape_iff)
  then have "shape_inv {} ?st"
    using inv f(2,4) by (auto simp: shape_inv_def groups_inv_def groups_ok_def)
  moreover have "m_memberSlots (grp ?st c) = m_memberSlots (grp st c)" for c
    using f(4) [of c] Some by (auto simp: gcore_eq lead_def split: if_splits)
  ultimately have "groups_inv ?st"
    using inv f(1-3) by (auto simp: groups_inv_def groups_ok_def created_def)
  with Some show ?thesis by (simp add: ChangeLeader_def Let_def)
qed (simp add: ChangeLeader_def inv)

lemma count_slots:
  "unat (c i) + in_subgroup i slots < 256 \<Longrightarrow>
    unat (fold (\<lambda>s c. c(ms_group s := c (ms_group s) + 1)) slots (c :: u8 \<Rightarrow> u8) i) = unat (c i) + in_subgroup i slots"
proof (induction slots arbitrary: c)
  case (Cons s ss)
  show ?case
  proof (cases "ms_group s = i")
    case True
    with Cons.prems have "unat (c i + 1) = unat (c i) + 1" by (intro unat_suc8) simp
    with Cons.prems have "unat (fold (\<lambda>s c. c(ms_group s := c (ms_group s) + 1)) ss (c(i := c i + 1)) i) =
        unat (c i) + in_subgroup i (s # ss)"
      using True by (subst Cons.IH) simp_all
    then show ?thesis unfolding fold_Cons o_apply True .
  next
    case False
    with Cons.prems Cons.IH [of "c(ms_group s := c (ms_group s) + 1)"] show ?thesis by simp
  qed
qed simp

lemma cshape_convert:
  assumes "cshape (gcore g)"
  shows "cshape (gcore (initRaidSubGroupsCounter mem (g\<lparr>m_groupType := GROUPTYPE_RAID\<rparr>)))"
proof -
  have small: "length (m_memberSlots g) \<le> 40" "m_groupType g = GROUPTYPE_NORMAL \<Longrightarrow> length (m_memberSlots g) \<le> 5"
    using assms by (auto simp: cshape_iff split: GroupType.splits)
  have "ms_group s < 8" if "s \<in> set (m_memberSlots g)" for s
    using assms that by (auto simp: cshape_iff counts_ok_def split: option.splits)
  moreover have "in_subgroup i (m_memberSlots g) \<le> 5" if "i < 8" for i
    using assms that small(2) in_subgroup_le [of i "m_memberSlots g"]
    by (cases "m_subGroupsCounts g") (auto simp: cshape_iff counts_ok_def)
  moreover have "unat (fold (\<lambda>s c. c(ms_group s := c (ms_group s) + 1)) (m_memberSlots g)
      (\<lambda>i. if i < 8 then 0 else c i) i) = in_subgroup i (m_memberSlots g)" if "i < 8" for i and c :: "u8 \<Rightarrow> u8"
    using that small(1) in_subgroup_le [of i "m_memberSlots g"] count_slots [of "\<lambda>i. if i < 8 then 0 else c i" i "m_memberSlots g"]
    by simp
  ultimately show ?thesis
    using assms small(1) by (simp add: cshape_iff initRaidSubGroupsCounter_def Let_def counts_ok_def)
qed

lemma ConvertToRaid_inv:
  assumes inv: "groups_inv st" and a: "live st a"
  shows "groups_inv (ConvertToRaid e a st)"
proof -
  let ?f = "\<lambda>g. initRaidSubGroupsCounter (g_memory e) (g\<lparr>m_groupType := GROUPTYPE_RAID\<rparr>)"
  have "groups_inv (upd_grp a ?f st)"
    by (rule groups_inv_upd [OF inv]) (simp_all add: initRaidSubGroupsCounter_def Let_def,
        use cshape_convert in \<open>simp add: initRaidSubGroupsCounter_def Let_def\<close>)
  then show ?thesis by (simp add: ConvertToRaid_def Let_def)
qed

lemma counts_ok_upd:
  "(\<And>m. ms_group (f m) = ms_group m) \<Longrightarrow> counts_ok t slots c \<Longrightarrow> counts_ok t (upd_slot guid f slots) c"
  by (auto simp: counts_ok_def in_subgroup_upd dest!: upd_slot_groups split: option.splits)

lemma SetAssistant_inv:
  assumes inv: "groups_inv st" and a: "live st a"
  shows "groups_inv (SetAssistant e a guid s st)"
proof -
  let ?h = "\<lambda>m. m\<lparr>ms_assistant := s\<rparr>"
  have ne: "slots \<noteq> [] \<Longrightarrow> upd_slot guid ?h slots \<noteq> []" for slots by (cases slots) auto
  have "groups_inv (upd_grp a (\<lambda>g. g\<lparr>m_memberSlots := upd_slot guid ?h (m_memberSlots g)\<rparr>) st)"
    by (rule groups_inv_upd [OF inv]) (auto simp: ne cshape_iff upd_slot_guids counts_ok_upd)
  with inv show ?thesis by (simp add: SetAssistant_def Let_def)
qed

lemma setRole_inv:
  assumes "groups_inv st"
  shows "groups_inv (snd (setRole n tank a guid st))"
  using assms
proof (induction n tank a guid st rule: setRole.induct)
  case (2 n tank a guid st)
  have upd: "groups_inv (upd_grp a (\<lambda>g. g\<lparr>m_mainTank := guid\<rparr>) st')"
    "groups_inv (upd_grp a (\<lambda>g. g\<lparr>m_mainAssistant := guid\<rparr>) st')" if "groups_inv st'" for st'
    using that by (auto intro!: groups_inv_upd simp: cshape_iff)
  show ?case
    using 2 by (cases tank) (auto simp: Let_def upd)
qed simp

lemma SetMainRole_inv: "groups_inv st \<Longrightarrow> groups_inv (SetMainRole tank e a guid st)"
  using setRole_inv [of st 3 tank a guid] by (auto simp: SetMainRole_def split: prod.splits bool.splits)


section \<open>Subgroups and icons\<close>

lemma groups_inv_core:
  assumes "groups_inv st" "links_ok st'" "\<And>c. live st' c = live st c" "gs_groupSet st' = gs_groupSet st"
    "\<And>c. c \<noteq> a \<Longrightarrow> gcore (grp st' c) = gcore (grp st c)" "live st a \<Longrightarrow> cshape (gcore (grp st' a))"
    "m_memberSlots (grp st a) \<noteq> [] \<Longrightarrow> m_memberSlots (grp st' a) \<noteq> []"
  shows "groups_inv st'"
proof -
  have "shape_inv {} st'"
    using assms(1,3,5,6) unfolding shape_inv_def groups_inv_def groups_ok_def by (metis)
  moreover have "created st' c" if "created st c" for c
    using that assms(3,7) created_cong [OF assms(3) assms(5)] by (cases "c = a") (auto simp: created_def)
  ultimately show ?thesis using assms(1,2,4) by (auto simp: groups_inv_def groups_ok_def)
qed

definition agrees :: "gstate \<Rightarrow> nat \<Rightarrow> u64 \<Rightarrow> bool" where
  "agrees st a p \<longleftrightarrow>
     (\<exists>m. getMemberSlot p (grp st a) = Some m \<and> GetGroup p st = Some a \<and> GetSubGroup p st = ms_group m)"

text \<open>A change of subgroup, as a function of the group alone.\<close>

definition move_slot :: "u64 \<Rightarrow> u8 \<Rightarrow> u8 \<Rightarrow> group \<Rightarrow> group" where
  "move_slot p old i g =
     SubGroupCounterDecrease old (SubGroupCounterIncrease i
       (g\<lparr>m_memberSlots := upd_slot p (\<lambda>m. m\<lparr>ms_group := i\<rparr>) (m_memberSlots g)\<rparr>))"

lemma cshape_move_slot:
  assumes "cshape (gcore g)" "getMemberSlot p g = Some m" "i < 8" "HasFreeSlotSubGroup i g"
  shows "cshape (gcore (move_slot p (ms_group m) i g))"
proof -
  obtain c where c: "m_subGroupsCounts g = Some c" "c i < 5"
    using assms(4) by (auto simp: HasFreeSlotSubGroup_def split: option.splits)
  have "counts_ok (m_groupType g) (upd_slot p (\<lambda>m. m\<lparr>ms_group := i\<rparr>) (m_memberSlots g))
      (Some ((c(i := c i + 1))(ms_group m := (c(i := c i + 1)) (ms_group m) - 1)))"
    using assms c by (intro counts_move) (simp_all add: cshape_iff getMemberSlot_def)
  moreover have "upd_slot p (\<lambda>m. m\<lparr>ms_group := i\<rparr>) slots = [] \<longleftrightarrow> slots = []" for slots
    by (metis length_0_conv upd_slot_shape(1))
  ultimately show ?thesis
    using assms(1) c by (simp add: cshape_iff move_slot_def SubGroupCounterIncrease_def SubGroupCounterDecrease_def
        upd_slot_guids)
qed

lemma move_slot_alt:
  "SubGroupCounterIncrease i ((SubGroupCounterDecrease old g)\<lparr>m_memberSlots :=
     upd_slot p (\<lambda>m. m\<lparr>ms_group := i\<rparr>) (m_memberSlots g)\<rparr>) = move_slot p old i g"
proof -
  have "(c(old := c old - 1))(i := (c(old := c old - 1)) i + 1) = (c(i := c i + 1))(old := (c(i := c i + 1)) old - 1)"
    for c :: "u8 \<Rightarrow> u8"
    by (cases "i = old") (auto simp: fun_upd_twist)
  then show ?thesis
    by (cases "m_subGroupsCounts g")
      (simp_all add: move_slot_def SubGroupCounterIncrease_def SubGroupCounterDecrease_def del: fun_upd_apply)
qed

lemma getMemberSlot_IsMember: "IsMember p g \<longleftrightarrow> (\<exists>m. getMemberSlot p g = Some m)"
  by (auto simp: IsMember_def)

lemma setMembersGroup_facts:
  assumes "links_ok st" "live st a" "IsMember p (grp st a)" "setMembersGroup a p i st = (b, st')"
  shows "b" "links_ok st'" "live st' c = live st c" "gs_groupSet st' = gs_groupSet st" "gref k q st' = gref k q st"
    "grp st' c = (if c = a then SubGroupCounterIncrease i ((grp st a)
       \<lparr>m_memberSlots := upd_slot p (\<lambda>m. m\<lparr>ms_group := i\<rparr>) (m_memberSlots (grp st a))\<rparr>) else grp st c)"
  using assms by (auto simp: setMembersGroup_def Let_def grp_upd intro!: links_ok_upd_grp)

lemma move_slot_nonempty: "m_memberSlots (move_slot p old i g) = [] \<longleftrightarrow> m_memberSlots g = []"
  by (simp add: move_slot_def) (metis length_0_conv upd_slot_shape(1))

lemma ChangeMembersGroup_player_inv:
  assumes inv: "groups_inv st" and a: "live st a" and i: "i < 8" "HasFreeSlotSubGroup i (grp st a)"
    and p: "IsMember p (grp st a) \<Longrightarrow> agrees st a p"
  shows "groups_inv (ChangeMembersGroup_player e a (Some p) i st)"
proof (cases "isRaidGroup (grp st a) \<and> IsMember p (grp st a)")
  case True
  then obtain m where m: "getMemberSlot p (grp st a) = Some m" "GetSubGroup p st = ms_group m"
    using p by (auto simp: agrees_def)
  obtain b st1 where 1: "setMembersGroup a p i st = (b, st1)" by force
  have member: "IsMember p (grp st a)" using True by simp
  note f = setMembersGroup_facts [OF groups_inv_links(1) [OF inv] a member 1]
  let ?st2 = "upd_grp a (SubGroupCounterDecrease (GetSubGroup p st1)) st1"
  have sub: "GetSubGroup p st1 = ms_group m" using m(2) f(5) by (simp add: GetSubGroup_def)
  then have core: "grp ?st2 a = move_slot p (ms_group m) i (grp st a)"
    using f(3,6) a by (simp add: grp_upd move_slot_def)
  have "groups_inv ?st2"
  proof (rule groups_inv_core [OF inv, where a = a])
    show "links_ok ?st2" by (rule links_ok_upd_grp) (simp_all add: f(2))
    show "cshape (gcore (grp ?st2 a))"
      unfolding core using groups_inv_links(3) [OF inv a] m(1) i by (rule cshape_move_slot)
    show "m_memberSlots (grp ?st2 a) \<noteq> []" if "m_memberSlots (grp st a) \<noteq> []"
      unfolding core using that by (simp add: move_slot_nonempty)
  qed (simp_all add: f)
  then have "groups_inv (setSubGroup MainRef p i ?st2)"
    using groups_inv_cong [of "setSubGroup MainRef p i ?st2" ?st2] by (simp add: links_keep groups_inv_links)
  then show ?thesis
    using True 1 f(1) by (simp add: ChangeMembersGroup_player_def Let_def)
next
  case False
  then show ?thesis using inv by (auto simp: ChangeMembersGroup_player_def setMembersGroup_def)
qed

lemma ChangeMembersGroup_inv:
  assumes inv: "groups_inv st" and a: "live st a" and i: "i < 8" "HasFreeSlotSubGroup i (grp st a)"
    and p: "g_find e p \<noteq> None \<Longrightarrow> agrees st a p"
  shows "groups_inv (ChangeMembersGroup e a p i st)"
proof (cases "isRaidGroup (grp st a) \<and> g_find e p \<noteq> None")
  case True
  then obtain m where m: "getMemberSlot p (grp st a) = Some m" "GetGroup p st = Some a" "GetSubGroup p st = ms_group m"
    using p by (auto simp: agrees_def)
  let ?st1 = "upd_grp a (SubGroupCounterDecrease (ms_group m)) (setSubGroup MainRef p i st)"
  have l1: "links_ok ?st1"
    by (rule links_ok_upd_grp) (simp_all add: links_keep groups_inv_links [OF inv])
  have a1: "live ?st1 a" "IsMember p (grp ?st1 a)"
    using a m(1) by (simp_all add: IsMember_def getMemberSlot_def grp_upd)
  obtain b st2 where 2: "setMembersGroup a p i ?st1 = (b, st2)" by force
  note f = setMembersGroup_facts [OF l1 a1 2]
  have core: "grp st2 a = move_slot p (ms_group m) i (grp st a)"
    using f(6) [of a] a by (simp add: grp_upd move_slot_alt)
  have "groups_inv st2"
  proof (rule groups_inv_core [OF inv, where a = a])
    show "cshape (gcore (grp st2 a))"
      unfolding core using groups_inv_links(3) [OF inv a] m(1) i by (rule cshape_move_slot)
    show "m_memberSlots (grp st2 a) \<noteq> []" if "m_memberSlots (grp st a) \<noteq> []"
      unfolding core using that by (simp add: move_slot_nonempty)
  qed (simp_all add: f)
  moreover have "GetSubGroup p (setSubGroup MainRef p i st) = i" by (simp add: GetSubGroup_def setSubGroup_def)
  ultimately show ?thesis
    using True m 2 f(1) by (auto simp: ChangeMembersGroup_def Let_def)
next
  case False
  then show ?thesis using inv by (auto simp: ChangeMembersGroup_def ChangeMembersGroup_player_def split: option.split)
qed


definition clear_icons :: "u64 \<Rightarrow> nat \<Rightarrow> u64 list \<Rightarrow> u64 list" where
  "clear_icons x n xs = fold (\<lambda>j xs. if xs ! j = x then xs[j := 0] else xs) [0..<n] xs"

lemma clear_icons_map:
  assumes "x \<noteq> 0" "n \<le> length xs"
  shows "clear_icons x n xs = map (\<lambda>y. if y = x then 0 else y) (take n xs) @ drop n xs"
  using assms(2)
proof (induction n)
  case (Suc n)
  have "take (Suc n) xs = take n xs @ [xs ! n]" "drop n xs = xs ! n # drop (Suc n) xs"
    using Suc.prems by (simp_all add: take_Suc_conv_app_nth Cons_nth_drop_Suc)
  with Suc assms(1) show ?case
    by (simp add: clear_icons_def nth_append list_update_append)
qed (simp add: clear_icons_def)

lemma set_icon_facts:
  "live (set_icon a i x st) c = live st c" "gs_groupSet (set_icon a i x st) = gs_groupSet st"
  "grp (set_icon a i x st) c = (if c = a \<and> live st a then (grp st a)\<lparr>m_targetIcons := (m_targetIcons (grp st a))[i := x]\<rparr> else grp st c)"
  "links_ok st \<Longrightarrow> links_ok (set_icon a i x st)" "gref k q (set_icon a i x st) = gref k q st"
  by (auto simp: set_icon_def Let_def grp_upd intro: links_ok_upd_grp)

lemma fold_icons:
  assumes "live st a"
  shows "live (fold (\<lambda>j st. if m_targetIcons (grp st a) ! j = x then set_icon a j 0 st else st) js st) c = live st c \<and>
    gs_groupSet (fold (\<lambda>j st. if m_targetIcons (grp st a) ! j = x then set_icon a j 0 st else st) js st) = gs_groupSet st \<and>
    (links_ok st \<longrightarrow> links_ok (fold (\<lambda>j st. if m_targetIcons (grp st a) ! j = x then set_icon a j 0 st else st) js st)) \<and>
    grp (fold (\<lambda>j st. if m_targetIcons (grp st a) ! j = x then set_icon a j 0 st else st) js st) c =
      (if c = a then (grp st a)\<lparr>m_targetIcons :=
         fold (\<lambda>j xs. if xs ! j = x then xs[j := 0] else xs) js (m_targetIcons (grp st a))\<rparr> else grp st c)"
  using assms
proof (induction js arbitrary: st)
  case (Cons j js)
  show ?case
    using Cons.IH [of "if m_targetIcons (grp st a) ! j = x then set_icon a j 0 st else st"] Cons.prems
    by (auto simp: set_icon_facts)
qed simp

definition marked :: "u8 \<Rightarrow> u64 \<Rightarrow> u64 list \<Rightarrow> u64 list" where
  "marked i x xs = (if i \<ge> 8 then xs
     else (if x \<noteq> 0 then map (\<lambda>y. if y = x then 0 else y) xs else xs)[unat i := x])"

lemma SetTargetIcon_facts:
  assumes "live st a" "length (m_targetIcons (grp st a)) = 8"
  shows "live (SetTargetIcon a i x st) c = live st c" "gs_groupSet (SetTargetIcon a i x st) = gs_groupSet st"
    "links_ok st \<Longrightarrow> links_ok (SetTargetIcon a i x st)"
    "grp (SetTargetIcon a i x st) c =
      (if c = a then (grp st a)\<lparr>m_targetIcons := marked i x (m_targetIcons (grp st a))\<rparr> else grp st c)"
proof -
  define st1 where "st1 = (if x \<noteq> 0
    then fold (\<lambda>j st. if m_targetIcons (grp st a) ! j = x then set_icon a j 0 st else st) [0..<8] st else st)"
  have clear: "clear_icons x 8 (m_targetIcons (grp st a)) = map (\<lambda>y. if y = x then 0 else y) (m_targetIcons (grp st a))" if "x \<noteq> 0"
    using clear_icons_map [OF that, of 8] assms(2) by simp
  have 1: "live st1 c = live st c" "gs_groupSet st1 = gs_groupSet st" "links_ok st \<Longrightarrow> links_ok st1"
    "grp st1 c = (if c = a then (grp st a)\<lparr>m_targetIcons :=
       (if x \<noteq> 0 then map (\<lambda>y. if y = x then 0 else y) (m_targetIcons (grp st a)) else m_targetIcons (grp st a))\<rparr>
       else grp st c)" for c
    using fold_icons [OF assms(1), of x "[0..<8]"] clear by (auto simp: st1_def clear_icons_def)
  have "SetTargetIcon a i x st = (if i \<ge> 8 then st else set_icon a (unat i) x st1)"
    unfolding SetTargetIcon_def Let_def st1_def by (rule refl)
  with 1 assms show "live (SetTargetIcon a i x st) c = live st c"
    "gs_groupSet (SetTargetIcon a i x st) = gs_groupSet st" "links_ok st \<Longrightarrow> links_ok (SetTargetIcon a i x st)"
    "grp (SetTargetIcon a i x st) c =
      (if c = a then (grp st a)\<lparr>m_targetIcons := marked i x (m_targetIcons (grp st a))\<rparr> else grp st c)"
    by (auto simp: set_icon_facts marked_def)
qed

lemma icons_ok_marked:
  assumes "icons_ok xs"
  shows "icons_ok (marked i x xs)"
proof -
  define ys where "ys = (if x \<noteq> 0 then map (\<lambda>y. if y = x then 0 else y) xs else xs)"
  have len: "length xs = 8" "length ys = 8" using assms by (auto simp: icons_ok_def ys_def)
  have no: "x = 0 \<or> ys ! j \<noteq> x" if "j < 8" for j using that len by (auto simp: ys_def)
  have ys: "j = k" if "j < 8" "k < 8" "ys ! j \<noteq> 0" "ys ! j = ys ! k" for j k
    using that assms len by (auto simp: icons_ok_def ys_def split: if_splits)
  have upd: "ys[unat i := x] ! j = (if unat i = j then x else ys ! j)" if "j < 8" for j
    using that len by (cases "unat i = j") auto
  have "j = k" if jk: "j < 8" "k < 8" "ys[unat i := x] ! j \<noteq> 0" "ys[unat i := x] ! j = ys[unat i := x] ! k" for j k
    using jk(3,4) no [OF jk(1)] no [OF jk(2)] ys [OF jk(1,2)] unfolding upd [OF jk(1)] upd [OF jk(2)]
    by metis
  then have "icons_ok (ys[unat i := x])" by (simp add: icons_ok_def len)
  with assms show ?thesis by (simp add: marked_def flip: ys_def)
qed

lemma SetTargetIcon_inv:
  assumes inv: "groups_inv st" and a: "live st a"
  shows "groups_inv (SetTargetIcon a i x st)"
proof -
  have shape: "cshape (gcore (grp st a))" using groups_inv_links(3) [OF inv a] .
  then have len: "length (m_targetIcons (grp st a)) = 8" by (simp add: cshape_iff icons_ok_def)
  note f = SetTargetIcon_facts [OF a len]
  show ?thesis
    by (rule groups_inv_core [OF inv, where a = a])
      (use f groups_inv_links(1) [OF inv] shape in \<open>auto simp: cshape_iff icons_ok_marked\<close>)
qed


section \<open>Login, logout and all requests\<close>

lemma set_group_inv:
  "groups_inv st \<Longrightarrow> groups_inv (set_group k p None s st)"
  "groups_inv st \<Longrightarrow> live st a \<Longrightarrow> groups_inv (set_group k p (Some a) s st)"
  using groups_inv_cong [of "set_group k p None s st" st] groups_inv_cong [of "set_group k p (Some a) s st" st]
  by (simp_all add: links_keep groups_inv_links)

lemma difficulty_inv: "groups_inv st \<Longrightarrow> groups_inv (upd_player p (\<lambda>pl. pl\<lparr>gp_difficulty := d\<rparr>) st)"
  using groups_inv_cong [of "upd_player p (\<lambda>pl. pl\<lparr>gp_difficulty := d\<rparr>) st" st]
  by (simp add: links_keep groups_inv_links)

lemma LoadGroup_inv:
  assumes "groups_inv st"
  shows "groups_inv (LoadGroup self row st)"
proof -
  have "live st a" if "GetGroupByLeader g st = Some a" for g a
    using that assms by (auto simp: GetGroupByLeader_def find_Some_iff groups_inv_def created_def)
  then show ?thesis
    using assms by (auto simp: LoadGroup_def Let_def set_group_inv difficulty_inv split: option.split)
qed

lemma unlink_inv: "groups_inv st \<Longrightarrow> groups_inv (ref_unlink k p st)"
  using groups_inv_cong [of "ref_unlink k p st" st]
  by (simp add: links_keep groups_inv_links)

lemma fresh_player_inv:
  assumes "groups_inv st" "\<And>k. ref_to (gref k p st) = None"
  shows "groups_inv (upd_player p (\<lambda>_. fresh_player) st)"
proof -
  let ?st = "upd_player p (\<lambda>_. fresh_player) st"
  have r: "ref_to (gref k q ?st) = ref_to (gref k q st)" for k q
    using assms(2) [of k] by (simp add: gref_def fresh_player_def)
  have i: "gp_invite (gs_players ?st q) = (if q = p then None else gp_invite (gs_players st q))" for q
    by (simp add: fresh_player_def)
  have "links_ok ?st"
    using groups_inv_links(1) [OF assms(1)] unfolding links_ok_def refs_ok_def invites_ok_def
    by (simp add: r i del: upd_player_sel(5))
  then show ?thesis using groups_inv_cong [of ?st st] assms(1) by simp
qed

lemma LogoutPlayer_inv:
  assumes "groups_inv st"
  shows "groups_inv (LogoutPlayer e self socket st)"
proof -
  let ?me = "p_guid self"
  define st1 where "st1 = UninviteFromGroup e ?me st"
  define st2 where "st2 = (case GetGroup ?me st1 of None \<Rightarrow> st1
    | Some a \<Rightarrow> if \<not> isRaidGroup (grp st1 a) \<and> socket then RemoveFromGroup e (Some a) ?me st1 else st1)"
  define st3 where "st3 = (case GetGroup ?me st2 of None \<Rightarrow> st2 | Some a \<Rightarrow> SendUpdate e a st2)"
  define st4 where "st4 = ref_unlink OriginalRef ?me (ref_unlink MainRef ?me st3)"
  have 1: "groups_inv st1" using UninviteFromGroup_inv [OF assms] by (simp add: st1_def)
  have 2: "groups_inv st2"
    using 1 linked_live(1) [OF groups_inv_links(1) [OF 1]]
    by (auto simp: st2_def intro!: RemoveFromGroup_inv split: option.split)
  then have 3: "groups_inv st4" by (auto simp: st4_def st3_def intro!: unlink_inv split: option.split)
  have "ref_to (gref k ?me st4) = None" for k by (cases k) (simp_all add: st4_def)
  from fresh_player_inv [OF 3 this] show ?thesis
    unfolding LogoutPlayer_def Let_def st4_def st3_def st2_def st1_def .
qed

lemma simple_upd_inv:
  "groups_inv st \<Longrightarrow> groups_inv (upd_grp a (\<lambda>g. g\<lparr>m_lootMethod := x, m_looterGuid := y, m_lootThreshold := z\<rparr>) st)"
  "groups_inv st \<Longrightarrow> groups_inv (upd_grp a (\<lambda>g. g\<lparr>m_rolls := F g\<rparr>) st)"
  by (auto intro!: groups_inv_upd simp: cshape_iff)

text \<open>
  The requests for which the code keeps its promises: players have a guid, nobody invites himself, and a
  change of subgroup names one of the eight subgroups and a player whose reference carries the
  subgroup of his slot.
\<close>

fun fair :: "handler_env \<times> player \<times> group_req \<Rightarrow> gstate \<Rightarrow> bool" where
  "fair (e, self, RInvite n) st \<longleftrightarrow> p_guid self \<noteq> 0 \<and> \<not> self_invite e self n"
| "fair (e, self, RChangeSubGroup n s) st \<longleftrightarrow> s < 8 \<and>
     (case GetGroup (p_guid self) st of
        None \<Rightarrow> True
      | Some a \<Rightarrow>
          (case FindPlayerByName (e_world e) n of
             Some pl \<Rightarrow> (if IsMember (p_guid pl) (grp st a) then agrees st a (p_guid pl) else True)
           | None \<Rightarrow> (if g_find e (h_guidByName e n) = None then True else agrees st a (h_guidByName e n))))"
| "fair _ st \<longleftrightarrow> True"

lemma OfflineReadyCheck_inv [simp]: "groups_inv (OfflineReadyCheck e a st) = groups_inv st"
proof -
  have b: "groups_inv (BroadcastReadyCheck a d st) = groups_inv st" for d st
    by (simp add: BroadcastReadyCheck_def Let_def)
  have "groups_inv (fold (\<lambda>s. BroadcastReadyCheck a (f s)) ss st) = groups_inv st" for f :: "member_slot \<Rightarrow> packet" and ss
    by (induction ss arbitrary: st) (simp_all add: b)
  then show ?thesis by (simp add: OfflineReadyCheck_def)
qed

lemma BroadcastReadyCheck_inv [simp]: "groups_inv (BroadcastReadyCheck a d st) = groups_inv st"
  by (simp add: BroadcastReadyCheck_def Let_def)

lemma uninvite_requests_inv:
  assumes inv: "groups_inv st"
  shows "groups_inv (HandleGroupUninviteGuidOpcode e self g st)" "groups_inv (HandleGroupUninviteNameOpcode e self n st)"
    "groups_inv (HandleGroupLeaveOpcode e self st)" "groups_inv (HandleGroupDeclineOpcode e self st)"
proof -
  have r: "groups_inv (RemoveFromGroup e (Some a) guid st)" if "GetGroup p st = Some a" for p guid a
    using that inv linked_live(1) [OF groups_inv_links(1) [OF inv]] by (auto intro: RemoveFromGroup_inv)
  have u: "groups_inv (UninviteFromGroup e p st)" for p using UninviteFromGroup_inv [OF inv] .
  show "groups_inv (HandleGroupUninviteGuidOpcode e self g st)"
    using inv r u by (auto simp: HandleGroupUninviteGuidOpcode_def Let_def split: option.split)
  show "groups_inv (HandleGroupUninviteNameOpcode e self n st)"
    using inv r u by (auto simp: HandleGroupUninviteNameOpcode_def Let_def split: option.split)
  show "groups_inv (HandleGroupLeaveOpcode e self st)"
    using inv linked_live(1) [OF groups_inv_links(1) [OF inv]]
    by (auto simp: HandleGroupLeaveOpcode_def Let_def GetGroup_def intro!: RemoveFromGroup_inv)
  show "groups_inv (HandleGroupDeclineOpcode e self st)"
    using inv u by (auto simp: HandleGroupDeclineOpcode_def Let_def split: option.split)
qed

lemma raid_requests_inv:
  assumes inv: "groups_inv st"
  shows "groups_inv (HandleGroupSetLeaderOpcode e self g st)" "groups_inv (HandleLootMethodOpcode e self lm lg lt st)"
    "groups_inv (HandleLootRoll e self item n ch st)" "groups_inv (HandleMinimapPingOpcode self x y st)"
    "groups_inv (HandleRandomRollOpcode e self lo hi st)" "groups_inv (HandleRaidIconTargetOpcode self ic g st)"
    "groups_inv (HandleRaidConvertOpcode e self st)" "groups_inv (HandleGroupAssistantOpcode e self g fl st)"
    "groups_inv (HandlePartyAssignmentOpcode e self f1 f2 g st)" "groups_inv (HandleRaidReadyCheckOpcode e self an st)"
  using inv linked_live(1) [OF groups_inv_links(1) [OF inv]]
  by (auto simp: HandleGroupSetLeaderOpcode_def HandleLootMethodOpcode_def HandleLootRoll_def HandleMinimapPingOpcode_def
      HandleRandomRollOpcode_def HandleRaidIconTargetOpcode_def HandleRaidConvertOpcode_def HandleGroupAssistantOpcode_def
      HandlePartyAssignmentOpcode_def HandleRaidReadyCheckOpcode_def SendTargetIconList_def Let_def
      ChangeLeader_inv simple_upd_inv SetTargetIcon_inv ConvertToRaid_inv SetAssistant_inv SetMainRole_inv
      split: option.split)

lemma ChangeSubGroup_inv:
  assumes inv: "groups_inv st" and ok: "fair (e, self, RChangeSubGroup n s) st"
  shows "groups_inv (HandleGroupChangeSubGroupOpcode e self n s st)"
proof (cases "GetGroup (p_guid self) st")
  case (Some a)
  have a: "live st a" using Some linked_live(1) [OF groups_inv_links(1) [OF inv]] by simp
  show ?thesis
    using inv ok Some ChangeMembersGroup_player_inv [OF inv a, of s] ChangeMembersGroup_inv [OF inv a, of s e]
    by (auto simp: HandleGroupChangeSubGroupOpcode_def split: option.splits if_splits)
qed (simp add: HandleGroupChangeSubGroupOpcode_def inv)

lemma group_request_inv: "groups_inv st \<Longrightarrow> fair r st \<Longrightarrow> groups_inv (group_request r st)"
  by (cases "(r, st)" rule: group_request.cases)
    (simp_all add: HandleGroupInvite_inv HandleGroupAccept_inv uninvite_requests_inv raid_requests_inv
      ChangeSubGroup_inv LoadGroup_inv LogoutPlayer_inv del: fair.simps(2))

inductive group_run :: "gstate \<Rightarrow> bool" where
  start: "group_run groups_empty"
| request: "group_run st \<Longrightarrow> fair r st \<Longrightarrow> group_run (group_request r st)"

lemma groups_empty_inv: "groups_inv groups_empty"
  by (simp add: groups_inv_def groups_ok_def links_ok_def refs_ok_def invites_ok_def shape_inv_def groups_empty_def
      live_def gref_def grp_def fresh_player_def)

lemma group_run_inv: "group_run st \<Longrightarrow> groups_inv st"
  by (induction rule: group_run.induct) (simp_all add: groups_empty_inv group_request_inv)

end
