(* ===== verification/GroupTheorems.thy ===== *)
theory GroupTheorems
  imports GroupProps
begin

text \<open>
  What the group code promises, over all sequences of requests: pointers, the shape of groups, the order
  of looters, target icons and roles; and where it does not keep the promise.
\<close>

section \<open>A server for the examples\<close>

definition party_env :: handler_env where
  "party_env =
     \<lparr>e_world = example_world, e_rand = (\<lambda>_. 1), e_can_store = (\<lambda>_ _ _. 0), g_social = [],
      g_near = (\<lambda>_. True), g_looting = (\<lambda>_. False), g_visible = (\<lambda>_ _. True), g_stats = (\<lambda>_. mk_packet 0 []),
      g_inBG = (\<lambda>_. False), g_gm = (\<lambda>_. False), g_instance = (\<lambda>_. 0), g_mapid = (\<lambda>_. 0), g_memory = (\<lambda>_. 0),
      h_u8dec = (\<lambda>s. Some (map of_char s)), h_u8enc = (\<lambda>w. Some (map char_of w)), h_urand = (\<lambda>lo hi. lo),
      h_guidByName = (\<lambda>_. 0)\<rparr>"

lemma party_players [simp]:
  "p_guid (example_player g n) = g" "p_name (example_player g n) = n" "p_level (example_player g n) = 70"
  by (simp_all add: example_player_def)

lemma party_find [simp]:
  "FindPlayerByName (e_world party_env) ''Bert'' = Some (example_player 2 ''Bert'')"
  "FindPlayerByName (e_world party_env) ''Anna'' = Some (example_player 1 ''Anna'')"
  "g_find party_env 1 = Some (example_player 1 ''Anna'')" "g_find party_env 2 = Some (example_player 2 ''Bert'')"
  by (simp_all add: party_env_def example_defs)

lemma party_names [simp]:
  "normalizePlayerName (h_u8dec party_env) (h_u8enc party_env) ''Bert'' = Some ''Bert''"
  "normalizePlayerName (h_u8dec party_env) (h_u8enc party_env) ''Anna'' = Some ''Anna''"
  by (simp_all add: party_env_def normalizePlayerName_def Utf8toWStr_buf_def wcharToUpper_def wcharToLower_def
      char_of_def bit_iff_odd)

lemma groups_empty_sel [simp]:
  "gref k p groups_empty = \<lparr>ref_to = None, ref_sub = 0\<rparr>" "gs_players groups_empty p = fresh_player"
  "gs_heap groups_empty = (\<lambda>_. None)" "gs_next groups_empty = 0" "gs_groupSet groups_empty = []"
  by (simp_all add: groups_empty_def gref_def fresh_player_def)

lemma party_ask:
  "invite_refused party_env (example_player 1 ''Anna'') (example_player g n) groups_empty = None"
  by (simp add: invite_refused_def party_env_def example_player_def example_world_def getConfig_def home_group_def
      GetGroup_def GetGroupInvite_def fresh_player_def HasIgnore_def GetSocial_def om_at_def PlayerSocial_new_def)

definition party_invited :: gstate where
  "party_invited = group_request (party_env, example_player 1 ''Anna'', RInvite ''Bert'') groups_empty"

definition party_formed :: gstate where
  "party_formed = group_request (party_env, example_player 2 ''Bert'', RAccept) party_invited"

lemmas invite_defs = HandleGroupInviteOpcode_def Let_def home_group_def GetGroup_def GetGroupInvite_def fresh_player_def
  new_group_def AddLeaderInvite_def AddInvite_def RemoveInvite_def SetGroupInvite_def upd_player_def upd_grp_def
  Group_new_def grp_def gref_def invite_sent_def SendPartyResult_def g_emit_def

lemma party_invited_sel:
  "gs_heap party_invited 0 = Some (Group_new\<lparr>m_invitees := [2, 1], m_leaderGuid := 1, m_leaderName := ''Anna''\<rparr>)"
  "gp_invite (gs_players party_invited 1) = Some 0" "gp_invite (gs_players party_invited 2) = Some 0"
  by (simp_all add: party_invited_def invite_defs party_ask)

lemma party_run: "group_run party_invited" "group_run party_formed"
proof -
  show "group_run party_invited"
    unfolding party_invited_def by (intro group_run.intros) (simp add: self_invite_def)
  then show "group_run party_formed"
    unfolding party_formed_def by (intro group_run.request) simp_all
qed

section \<open>The order of looters\<close>

text \<open>The members in the order in which the search for the next looter visits them.\<close>

definition turn_order :: "u64 \<Rightarrow> member_slot list \<Rightarrow> member_slot list" where
  "turn_order looter slots =
     (let before = takeWhile (\<lambda>s. ms_guid s \<noteq> looter) slots;
          k = (if length before < length slots then length before + 1 else length before)
      in drop k slots @ take k slots)"

lemma find_append_case: "find P (xs @ ys) = (case find P xs of Some x \<Rightarrow> Some x | None \<Rightarrow> find P ys)"
  by (induction xs) auto

lemma find_filter: "find P xs = (case filter P xs of [] \<Rightarrow> None | x # _ \<Rightarrow> Some x)"
  by (induction xs) auto

lemma next_looter_turn:
  "next_looter e looter slots = (case filter (may_loot e) (turn_order looter slots) of [] \<Rightarrow> None | s # _ \<Rightarrow> Some s)"
  by (simp only: next_looter_def turn_order_def Let_def find_append_case find_filter [symmetric])

lemma turn_order_at:
  assumes "distinct (map ms_guid (xs @ s # ys))"
  shows "turn_order (ms_guid s) (xs @ s # ys) = ys @ xs @ [s]"
proof -
  have "takeWhile (\<lambda>m. ms_guid m \<noteq> ms_guid s) (xs @ s # ys) = xs"
    using assms by (subst takeWhile_append2) (auto simp: image_iff)
  then show ?thesis by (simp add: turn_order_def)
qed

lemma turn_order_rotates:
  assumes "distinct (map ms_guid slots)" "turn_order looter slots = pre @ s # post"
  shows "turn_order (ms_guid s) slots = post @ pre @ [s]"
proof -
  obtain k where "drop k slots @ take k slots = pre @ s # post"
    using assms(2) by (auto simp: turn_order_def Let_def)
  then consider us where "drop k slots = pre @ s # us" "post = us @ take k slots"
    | us where "pre = drop k slots @ us" "take k slots = us @ s # post"
    by (auto simp: append_eq_append_conv2 append_eq_Cons_conv Cons_eq_append_conv)
  then show ?thesis
  proof cases
    case 1
    with append_take_drop_id [of k slots] have "slots = (take k slots @ pre) @ s # us" by simp
    then show ?thesis using turn_order_at [of "take k slots @ pre" s us] assms(1) 1(2) by (metis append_assoc)
  next
    case 2
    with append_take_drop_id [of k slots] have "slots = us @ s # (post @ drop k slots)" by simp
    then show ?thesis using turn_order_at [of us s "post @ drop k slots"] assms(1) 2(1) by (metis append_assoc)
  qed
qed

lemma set_turn_order [simp]: "set (turn_order looter slots) = set slots"
proof -
  have "set (drop k slots @ take k slots) = set slots" for k
    using append_take_drop_id [of k slots] by (metis set_append sup_commute)
  then show ?thesis by (simp add: turn_order_def Let_def)
qed

lemma length_turn_filter: "length (filter P (turn_order looter slots)) = length (filter P slots)"
proof -
  have "length (filter P (drop k slots @ take k slots)) = length (filter P slots)" for k
    by (metis add.commute append_take_drop_id filter_append length_append)
  then show ?thesis by (simp add: turn_order_def Let_def)
qed

lemma rotate_candidates:
  assumes "distinct (map ms_guid slots)" "filter P (turn_order looter slots) = s # cand"
  shows "filter P (turn_order (ms_guid s) slots) = cand @ [s]"
proof -
  obtain pre post where split: "turn_order looter slots = pre @ s # post" "\<forall>x \<in> set pre. \<not> P x" "P s" "cand = filter P post"
    using assms(2) by (auto simp: filter_eq_Cons_iff)
  with turn_order_rotates [OF assms(1) split(1)] show ?thesis by simp
qed

lemma UpdateLooterGuid_facts:
  assumes "live st a" "m_lootMethod (grp st a) \<noteq> 2" "m_lootMethod (grp st a) \<noteq> 0"
  shows "live (UpdateLooterGuid e a False st) a" "grp (UpdateLooterGuid e a False st) a = (grp st a)\<lparr>m_looterGuid :=
    (case filter (may_loot e) (turn_order (m_looterGuid (grp st a)) (m_memberSlots (grp st a))) of [] \<Rightarrow> 0 | s # _ \<Rightarrow> ms_guid s)\<rparr>"
proof -
  have upd: "live (SendUpdate e a s') a = live s' a" "grp (SendUpdate e a s') a = grp s' a" for s'
    by (simp_all add: live_def grp_def)
  show "live (UpdateLooterGuid e a False st) a" "grp (UpdateLooterGuid e a False st) a = (grp st a)\<lparr>m_looterGuid :=
    (case filter (may_loot e) (turn_order (m_looterGuid (grp st a)) (m_memberSlots (grp st a))) of [] \<Rightarrow> 0 | s # _ \<Rightarrow> ms_guid s)\<rparr>"
    using assms by (simp_all add: UpdateLooterGuid_def Let_def set_looter_def next_looter_turn upd split: list.split)
qed

lemma looters_in_turn:
  assumes a: "live st a" "m_lootMethod (grp st a) \<noteq> 2" "m_lootMethod (grp st a) \<noteq> 0"
    and distinct: "distinct (map ms_guid (m_memberSlots (grp st a)))"
    and cand: "filter (may_loot e) (turn_order (m_looterGuid (grp st a)) (m_memberSlots (grp st a))) = xs"
    and n: "n < length xs"
  shows "m_looterGuid (grp ((UpdateLooterGuid e a False ^^ Suc n) st) a) = ms_guid (xs ! n)"
  using assms
proof (induction n arbitrary: st xs)
  case 0
  then show ?case by (cases xs) (simp_all add: UpdateLooterGuid_facts)
next
  case (Suc n)
  then obtain s ys where xs: "xs = s # ys" by (cases xs) auto
  let ?st1 = "UpdateLooterGuid e a False st"
  have g: "live ?st1 a" "grp ?st1 a = (grp st a)\<lparr>m_looterGuid := ms_guid s\<rparr>"
    using UpdateLooterGuid_facts [OF Suc.prems(1-3), of e] Suc.prems(5) xs by simp_all
  have "filter (may_loot e) (turn_order (ms_guid s) (m_memberSlots (grp st a))) = ys @ [s]"
    using rotate_candidates [OF Suc.prems(4)] Suc.prems(5) xs by simp
  then have "m_looterGuid (grp ((UpdateLooterGuid e a False ^^ Suc n) ?st1) a) = ms_guid ((ys @ [s]) ! n)"
    using Suc.prems xs g by (intro Suc.IH) simp_all
  moreover have "(ys @ [s]) ! n = xs ! Suc n" using Suc.prems(6) xs by (simp add: nth_append)
  ultimately show ?case by (simp only: funpow_Suc_right o_apply)
qed

section \<open>Pointers and shape\<close>

text \<open>
  C3: after any sequence of fair requests every reference of a player points at a live group that lists
  the player, every invitation comes from a live group that knows of it, and the groups registered for
  saving are live and have members.
\<close>

theorem no_dangling_group:
  assumes "group_run st"
  shows "(\<forall>p k a. ref_to (gref k p st) = Some a \<longrightarrow>
      (\<exists>g. gs_heap st a = Some g \<and> (p, k) \<in> set (m_memberMgr g))) \<and>
    (\<forall>p a. GetGroupInvite p st = Some a \<longrightarrow> (\<exists>g. gs_heap st a = Some g \<and> p \<in> set (m_invitees g))) \<and>
    (\<forall>a \<in> set (gs_groupSet st). \<exists>g. gs_heap st a = Some g \<and> IsCreated g)"
proof -
  have inv: "groups_inv st" using group_run_inv assms .
  have l: "refs_ok st" "invites_ok st" using groups_inv_links(1) [OF inv] by (simp_all add: links_ok_def)
  have 1: "\<exists>g. gs_heap st a = Some g \<and> (p, k) \<in> set (m_memberMgr g)" if "ref_to (gref k p st) = Some a" for p k a
  proof -
    have m: "(p, k) \<in> set (m_memberMgr (grp st a))" using that l(1) unfolding refs_ok_def by blast
    with grp_heap [OF live_if_linked(1) [OF m]] show ?thesis by blast
  qed
  have 2: "\<exists>g. gs_heap st a = Some g \<and> p \<in> set (m_invitees g)" if "GetGroupInvite p st = Some a" for p a
  proof -
    have m: "p \<in> set (m_invitees (grp st a))" using that l(2) unfolding invites_ok_def GetGroupInvite_def by blast
    with grp_heap [OF live_if_linked(2) [OF m]] show ?thesis by blast
  qed
  have 3: "\<exists>g. gs_heap st a = Some g \<and> IsCreated g" if "a \<in> set (gs_groupSet st)" for a
    using that inv grp_heap [of st a] by (auto simp: groups_inv_def created_def IsCreated_def GetMembersCount_def)
  show ?thesis using 1 2 3 by blast
qed

theorem no_dangling_group_witness:
  "\<exists>g. GetGroupInvite 2 party_invited = Some 0 \<and> gs_heap party_invited 0 = Some g \<and> 2 \<in> set (m_invitees g)"
  using no_dangling_group [OF party_run(1)] party_invited_sel(3) by (simp add: GetGroupInvite_def)

lemma accept_created:
  assumes inv: "groups_inv st" and a: "GetGroupInvite (p_guid self) st = Some a" "m_leaderGuid (grp st a) \<noteq> p_guid self"
    "\<not> IsFull (grp st a)"
  shows "created (HandleGroupAcceptOpcode e self st) a"
proof -
  define st1 where "st1 = RemoveInvite a (p_guid self) st"
  have "IsFull (grp st1 a) = IsFull (grp st a)"
    by (simp add: st1_def RemoveInvite_def IsFull_def group_capacity_def grp_upd)
  then have 1: "groups_inv st1" "live st1 a" "\<not> IsFull (grp st1 a)"
    using inv invited_live [OF groups_inv_links(1) [OF inv] a(1)] a(3) by (simp_all add: st1_def)
  define st2 where "st2 = accept_create e a st1"
  have 2: "groups_inv st2" "created st2 a" using accept_create_facts [OF 1(1,2)] by (simp_all add: st2_def)
  obtain b st3 where 3: "AddMember e a (p_guid self) (p_name self) st2 = (b, st3)" by force
  have a2: "live st2 a" "m_memberSlots (grp st2 a) \<noteq> [] \<or> p_guid self = m_leaderGuid (grp st2 a)"
    using 2(2) by (auto simp: created_def)
  have "created st3 a" using AddMember_facts(5) [OF groups_inv_links(2) [OF 2(1)] a2 3 2(2)] .
  then show ?thesis
    using a(1,2) 1(3) 3
    by (cases b) (simp_all add: HandleGroupAcceptOpcode_def Let_def flip: st1_def st2_def)
qed

text \<open>
  C24: after any sequence of fair requests every group has the shape its type promises: it is led by one
  of its members, has at most 5 or 40 of them, none with guid 0, each target icon marks another target,
  and the eight subgroup counters of a raid are the sizes of the subgroups, none above 5.
\<close>

theorem group_shape:
  assumes "group_run st" "gs_heap st a = Some g"
  shows "(m_memberSlots g = [] \<or> m_leaderGuid g \<in> ms_guid ` set (m_memberSlots g)) \<and>
    length (m_memberSlots g) \<le> group_capacity g \<and> 0 \<notin> ms_guid ` set (m_memberSlots g) \<and>
    icons_ok (m_targetIcons g) \<and>
    (case m_subGroupsCounts g of
       None \<Rightarrow> \<not> isRaidGroup g
     | Some c \<Rightarrow> \<forall>i < 8. in_subgroup i (m_memberSlots g) \<le> 5 \<and> unat (c i) = in_subgroup i (m_memberSlots g))"
proof -
  have "cshape (gcore g)"
    using groups_inv_links(3) [OF group_run_inv [OF assms(1)]] assms(2) by (metis grp_Some live_def option.discI)
  then show ?thesis
    by (auto simp: cshape_iff group_capacity_def counts_ok_def isRaidGroup_def split: option.splits)
qed

theorem group_shape_witness:
  "\<exists>g. gs_heap party_formed 0 = Some g \<and> m_memberSlots g \<noteq> [] \<and>
     m_leaderGuid g \<in> ms_guid ` set (m_memberSlots g) \<and> length (m_memberSlots g) \<le> group_capacity g"
proof -
  have "created party_formed 0"
    unfolding party_formed_def
    using accept_created [OF group_run_inv [OF party_run(1)], of "example_player 2 ''Bert''" 0 party_env] party_invited_sel
    by (simp add: GetGroupInvite_def grp_def IsFull_def group_capacity_def Group_new_def)
  then have "m_memberSlots (grp party_formed 0) \<noteq> []" "gs_heap party_formed 0 = Some (grp party_formed 0)"
    by (simp_all add: created_def grp_heap)
  with group_shape [OF party_run(2), of 0 "grp party_formed 0"] show ?thesis by blast
qed

section \<open>Looters, icons and roles\<close>

text \<open>
  C38: with round robin looting every member who may loot becomes the looter after at most as many updates
  as there are such members.
\<close>

theorem looter_reaches_everyone:
  assumes "gs_heap st a = Some g" "m_lootMethod g \<noteq> 2" "m_lootMethod g \<noteq> 0" "distinct (map ms_guid (m_memberSlots g))"
    and s: "s \<in> set (m_memberSlots g)" "may_loot e s"
  shows "\<exists>n. 0 < n \<and> n \<le> length (filter (may_loot e) (m_memberSlots g)) \<and>
    m_looterGuid (grp ((UpdateLooterGuid e a False ^^ n) st) a) = ms_guid s"
proof -
  let ?xs = "filter (may_loot e) (turn_order (m_looterGuid g) (m_memberSlots g))"
  have g: "grp st a = g" "live st a" using assms(1) by (simp_all add: grp_Some live_def)
  have "s \<in> set ?xs" using s by simp
  then obtain n where n: "n < length ?xs" "?xs ! n = s" by (auto simp only: in_set_conv_nth)
  then have "m_looterGuid (grp ((UpdateLooterGuid e a False ^^ Suc n) st) a) = ms_guid s"
    using looters_in_turn [of st a e ?xs n] assms(2-4) g by simp
  with n(1) show ?thesis unfolding length_turn_filter by (intro exI [of _ "Suc n"]) simp
qed

definition party_raid :: gstate where
  "party_raid = groups_empty\<lparr>gs_heap := [0 \<mapsto> Group_new\<lparr>m_leaderGuid := 1, m_groupType := GROUPTYPE_RAID, m_lootMethod := 3,
     m_memberSlots := [\<lparr>ms_guid = 1, ms_name = ''Anna'', ms_group = 0, ms_assistant = False\<rparr>,
       \<lparr>ms_guid = 2, ms_name = ''Bert'', ms_group = 0, ms_assistant = False\<rparr>],
     m_subGroupsCounts := Some (\<lambda>i. if i = 0 then 2 else 0), m_memberMgr := [(1, MainRef)]\<rparr>],
     gs_players := (\<lambda>p. if p = 1 then fresh_player\<lparr>gp_ref := (\<lambda>_. \<lparr>ref_to = Some 0, ref_sub = 0\<rparr>)\<rparr> else fresh_player)\<rparr>"

lemma party_raid_sel [simp]:
  "gs_heap party_raid 0 = Some (grp party_raid 0)" "live party_raid 0"
  "m_leaderGuid (grp party_raid 0) = 1" "m_groupType (grp party_raid 0) = GROUPTYPE_RAID" "m_lootMethod (grp party_raid 0) = 3"
  "m_memberSlots (grp party_raid 0) = [\<lparr>ms_guid = 1, ms_name = ''Anna'', ms_group = 0, ms_assistant = False\<rparr>,
     \<lparr>ms_guid = 2, ms_name = ''Bert'', ms_group = 0, ms_assistant = False\<rparr>]"
  "m_subGroupsCounts (grp party_raid 0) = Some (\<lambda>i. if i = 0 then 2 else 0)" "m_mainTank (grp party_raid 0) = 0"
  "m_targetIcons (grp party_raid 0) = replicate 8 0" "GetGroup 1 party_raid = Some 0" "GetSubGroup p party_raid = 0"
  "m_mainAssistant (grp party_raid 0) = 0" "m_memberMgr (grp party_raid 0) = [(1, MainRef)]"
  by (simp_all add: party_raid_def grp_def live_def Group_new_def GetGroup_def GetSubGroup_def gref_def fresh_player_def)

theorem looter_reaches_everyone_witness:
  "\<exists>n. 0 < n \<and> n \<le> 2 \<and> m_looterGuid (grp ((UpdateLooterGuid party_env 0 False ^^ n) party_raid) 0) = 2"
proof -
  have "may_loot party_env \<lparr>ms_guid = p, ms_name = n, ms_group = 0, ms_assistant = False\<rparr>" if "p = 1 \<or> p = 2" for p n
    using that by (auto simp: may_loot_def) (simp_all add: party_env_def)
  then show ?thesis
    unfolding numeral_2_eq_2
    using looter_reaches_everyone [OF party_raid_sel(1),
        of "\<lparr>ms_guid = 2, ms_name = ''Bert'', ms_group = 0, ms_assistant = False\<rparr>" party_env]
    by simp
qed

text \<open>
  A target icon is set on exactly the named target: another icon on the same target is cleared, every
  other icon stays, and an icon number beyond the eight changes nothing.
\<close>

theorem target_icon_unique:
  assumes "group_run st" "gs_heap st a = Some g"
  shows "m_targetIcons (grp (SetTargetIcon a i x st) a) =
    (if i \<ge> 8 then m_targetIcons g else (map (\<lambda>y. if y = x then 0 else y) (m_targetIcons g))[unat i := x]) \<and>
    icons_ok (m_targetIcons (grp (SetTargetIcon a i x st) a))"
proof -
  have a: "live st a" "grp st a = g" using assms(2) by (simp_all add: grp_Some live_def)
  have "cshape (gcore g)" using groups_inv_links(3) [OF group_run_inv [OF assms(1)] a(1)] a(2) by simp
  then have ok: "icons_ok (m_targetIcons g)" "length (m_targetIcons (grp st a)) = 8"
    using a(2) by (simp_all add: cshape_iff icons_ok_def)
  have "map (\<lambda>y. if y = 0 then 0 else y) xs = xs" for xs :: "u64 list" by (rule map_idI) simp
  then show ?thesis
    using SetTargetIcon_facts(4) [OF a(1) ok(2), of i x a] icons_ok_marked [OF ok(1), of i x] a(2)
    by (auto simp: marked_def)
qed

lemma eight_icons: "(replicate 8 0)[3 := x] = [0, 0, 0, x, 0, 0, 0, 0]"
  by (simp add: eval_nat_numeral)

theorem target_icon_unique_witness:
  "m_targetIcons (grp (SetTargetIcon 0 3 7 party_invited) 0) = [0, 0, 0, 7, 0, 0, 0, 0]"
  using target_icon_unique [OF party_run(1) party_invited_sel(1), of 3 7]
  by (simp add: Group_new_def eight_icons)

lemma setRole_as_is:
  assumes "live st a" "IsMember p (grp st a)" "\<not> IsMember 0 (grp st a)"
  shows "fst (setRole 3 tank a p st)" "live (snd (setRole 3 tank a p st)) c = live st c"
    "grp (snd (setRole 3 tank a p st)) a = (if tank then (grp st a)\<lparr>m_mainTank := p\<rparr> else (grp st a)\<lparr>m_mainAssistant := p\<rparr>)"
  using assms by (auto simp: numeral_3_eq_3 Let_def)

lemma SetMainRole_as_is:
  assumes "live st a" "isRaidGroup (grp st a)" "IsMember p (grp st a)" "\<not> IsMember 0 (grp st a)"
  shows "live (SetMainRole tank e a p st) c = live st c"
    "grp (SetMainRole tank e a p st) a = (if tank then (grp st a)\<lparr>m_mainTank := p\<rparr> else (grp st a)\<lparr>m_mainAssistant := p\<rparr>)"
proof -
  have quiet: "live (SendUpdate e a s') c = live s' c" "grp (SendUpdate e a s') c = grp s' c" for s' c
    by (simp_all add: live_def grp_def)
  obtain st' where st': "setRole 3 tank a p st = (True, st')"
    using setRole_as_is(1) [OF assms(1,3,4), of tank] by (cases "setRole 3 tank a p st") auto
  then have "SetMainRole tank e a p st = SendUpdate e a st'" using assms(2) by (simp add: SetMainRole_def)
  with setRole_as_is(2,3) [OF assms(1,3,4), of tank] st' quiet
  show "live (SetMainRole tank e a p st) c = live st c"
    "grp (SetMainRole tank e a p st) a = (if tank then (grp st a)\<lparr>m_mainTank := p\<rparr> else (grp st a)\<lparr>m_mainAssistant := p\<rparr>)"
    by simp_all
qed

text \<open>
  Naming a raid member main assistant and then main tank leaves him in both roles, although each of
  the two functions means to take the other role away from him.
\<close>

theorem main_tank_and_assistant:
  assumes a: "GetGroup (p_guid self) st = Some a" "gs_heap st a = Some g"
    and g: "IsLeader (p_guid self) g" "isRaidGroup g" "IsMember p g" "\<not> IsMember 0 g"
  shows "m_mainTank (grp (HandlePartyAssignmentOpcode e self 1 1 p st) a) = p \<and>
    m_mainAssistant (grp (HandlePartyAssignmentOpcode e self 1 1 p st) a) = p"
proof -
  have l: "live st a" "grp st a = g" using a(2) by (simp_all add: live_def grp_Some)
  let ?st1 = "SetMainAssistant e a p st"
  have 1: "grp ?st1 a = g\<lparr>m_mainAssistant := p\<rparr>" "live ?st1 a"
    using SetMainRole_as_is [OF l(1), of p, where tank = False and e = e] l g by simp_all
  then have "grp (SetMainTank e a p ?st1) a = (grp ?st1 a)\<lparr>m_mainTank := p\<rparr>"
    using SetMainRole_as_is(2) [of ?st1 a p True e] g by (simp add: isRaidGroup_def IsMember_def getMemberSlot_def)
  with 1 a l g show ?thesis by (simp add: HandlePartyAssignmentOpcode_def)
qed

theorem main_tank_and_assistant_witness:
  "m_mainTank (grp (HandlePartyAssignmentOpcode party_env (example_player 1 ''Anna'') 1 1 2 party_raid) 0) = 2 \<and>
    m_mainAssistant (grp (HandlePartyAssignmentOpcode party_env (example_player 1 ''Anna'') 1 1 2 party_raid) 0) = 2"
  by (rule main_tank_and_assistant [OF _ party_raid_sel(1)])
    (simp_all add: IsLeader_def isRaidGroup_def IsMember_def getMemberSlot_def)

section \<open>Where the promise is broken\<close>

text \<open>
  C39: a player without a group who invites himself keeps an invitation from a group that has been deleted:
  the new group invites its leader, cannot invite him a second time and is deleted without taking the
  first invitation back.
\<close>

theorem self_invite_dangles:
  assumes run: "group_run st" and pl: "normalizePlayerName (h_u8dec e) (h_u8enc e) n = Some name"
    "FindPlayerByName (e_world e) name = Some pl" "p_guid pl = p_guid self" "invite_refused e self pl st = None"
  shows "GetGroupInvite (p_guid self) (HandleGroupInviteOpcode e self n st) = Some (gs_next st) \<and>
    gs_heap (HandleGroupInviteOpcode e self n st) (gs_next st) = None"
proof -
  let ?me = "p_guid self" and ?a = "gs_next st"
  have l: "links_ok st" using groups_inv_links(1) [OF group_run_inv [OF run]] .
  have home: "home_group ?me st = None" and free: "GetGroupInvite ?me st = None"
    using invite_refused_None [OF pl(4)] pl(3) by simp_all
  have none: "GetGroup ?me st = None" using home home_no_bg [OF l] by simp
  obtain st1 where new: "new_group st = (?a, st1)" by (simp add: new_group_def)
  have 1: "GetGroup ?me st1 = None" "GetGroupInvite ?me st1 = None"
    using new none free by (auto simp: new_group_def GetGroup_def GetGroupInvite_def gref_def)
  obtain st2 where 2: "AddLeaderInvite ?a ?me (p_name self) st1 = (True, st2)" "GetGroupInvite ?me st2 = Some ?a"
    using 1 by (simp add: AddLeaderInvite_def AddInvite_def Let_def GetGroupInvite_def)
  have 3: "GetGroupInvite ?me (delete_group ?a st2) = Some ?a" "\<not> live (delete_group ?a st2) ?a"
    using 2(2) by (simp_all add: GetGroupInvite_def delete_group_def Let_def fold_cut_refs live_def)
  have "HandleGroupInviteOpcode e self n st = delete_group ?a st2"
    using pl home new 2 by (simp add: HandleGroupInviteOpcode_def Let_def AddInvite_def)
  with 3 show ?thesis by (simp add: live_def)
qed

theorem self_invite_dangles_witness:
  "GetGroupInvite 1 (HandleGroupInviteOpcode party_env (example_player 1 ''Anna'') ''Anna'' groups_empty) = Some 0 \<and>
    gs_heap (HandleGroupInviteOpcode party_env (example_player 1 ''Anna'') ''Anna'' groups_empty) 0 = None"
  using self_invite_dangles [OF group_run.start, of party_env "''Anna''" "''Anna''" "example_player 1 ''Anna''" "example_player 1 ''Anna''"]
  by (simp add: party_ask)

text \<open>
  The subgroup of a change of subgroup is an index into the eight counters that nothing checks: any
  byte value is taken when the memory at that place is below 5, and this memory is incremented.
\<close>

theorem change_subgroup_out_of_bounds:
  assumes a: "GetGroup (p_guid self) st = Some a" "gs_heap st a = Some g"
    and g: "IsLeader (p_guid self) g" "isRaidGroup g" "m_subGroupsCounts g = Some c" "IsMember (p_guid pl) g"
    and i: "i \<ge> 8" "c i < 5" "GetSubGroup (p_guid pl) st \<noteq> i"
    and pl: "FindPlayerByName (e_world e) n = Some pl"
  shows "GetMemberGroup (p_guid pl) (grp (HandleGroupChangeSubGroupOpcode e self n i st) a) = i \<and>
    map_option (\<lambda>c'. c' i) (m_subGroupsCounts (grp (HandleGroupChangeSubGroupOpcode e self n i st) a)) = Some (c i + 1)"
proof -
  have l: "live st a" "grp st a = g" using a(2) by (simp_all add: live_def grp_Some)
  obtain st1 where 1: "setMembersGroup a (p_guid pl) i st = (True, st1)"
    using l g(4) by (simp add: setMembersGroup_def Let_def)
  then have s1: "grp st1 a = SubGroupCounterIncrease i
      (g\<lparr>m_memberSlots := upd_slot (p_guid pl) (\<lambda>m. m\<lparr>ms_group := i\<rparr>) (m_memberSlots g)\<rparr>)"
    "live st1 a" "GetSubGroup (p_guid pl) st1 = GetSubGroup (p_guid pl) st"
    using l g(4) by (auto simp: setMembersGroup_def Let_def GetSubGroup_def)
  have moved: "GetMemberGroup p (SubGroupCounterDecrease j (SubGroupCounterIncrease i
      (g\<lparr>m_memberSlots := upd_slot p (\<lambda>m. m\<lparr>ms_group := i\<rparr>) (m_memberSlots g)\<rparr>))) = i" if "IsMember p g" for p j
  proof -
    have "find (\<lambda>s. ms_guid s = p) (upd_slot p (\<lambda>m. m\<lparr>ms_group := i\<rparr>) xs) =
        map_option (\<lambda>m. m\<lparr>ms_group := i\<rparr>) (find (\<lambda>s. ms_guid s = p) xs)" for xs
      by (induction xs) auto
    with that show ?thesis by (auto simp: GetMemberGroup_def getMemberSlot_def IsMember_def split: option.split)
  qed
  have "grp (HandleGroupChangeSubGroupOpcode e self n i st) a = SubGroupCounterDecrease (GetSubGroup (p_guid pl) st) (grp st1 a)"
    using a l g(1-3) i(2) pl 1 s1(2,3)
    by (auto simp: HandleGroupChangeSubGroupOpcode_def HasFreeSlotSubGroup_def ChangeMembersGroup_player_def Let_def
        grp_def live_def)
  then have eq: "grp (HandleGroupChangeSubGroupOpcode e self n i st) a =
      SubGroupCounterDecrease (GetSubGroup (p_guid pl) st) (SubGroupCounterIncrease i
        (g\<lparr>m_memberSlots := upd_slot (p_guid pl) (\<lambda>m. m\<lparr>ms_group := i\<rparr>) (m_memberSlots g)\<rparr>))"
    by (simp only: s1(1))
  have "map_option (\<lambda>c'. c' i) (m_subGroupsCounts (grp (HandleGroupChangeSubGroupOpcode e self n i st) a)) = Some (c i + 1)"
    using g(3) i(3) by (simp add: eq SubGroupCounterIncrease_def SubGroupCounterDecrease_def)
  with moved [OF g(4)] show ?thesis by (simp only: eq simp_thms)
qed

theorem change_subgroup_out_of_bounds_witness:
  "GetMemberGroup 2 (grp (HandleGroupChangeSubGroupOpcode party_env (example_player 1 ''Anna'') ''Bert'' 200 party_raid) 0) = 200"
  using change_subgroup_out_of_bounds [OF _ party_raid_sel(1), of "example_player 1 ''Anna''" _ "example_player 2 ''Bert''" 200 party_env "''Bert''"]
  by (simp add: IsLeader_def isRaidGroup_def IsMember_def getMemberSlot_def)

end
