(* ===== verification/Guild.thy ===== *)
theory Guild
  imports Social
begin

text \<open>
  Guilds: the class \<open>Guild\<close> of game/Guild.h and Guild.cpp without its bank (see GuildBank), the
  registry of guilds of game/ObjectMgr.cpp and the guild fields of the players. Guilds live at
  addresses; a disbanded guild leaves the registry but is not deleted, as in the source.
\<close>

section \<open>State\<close>

abbreviation GUILD_BANK_MAX_TABS :: nat where "GUILD_BANK_MAX_TABS \<equiv> 6"
abbreviation GUILD_BANK_MAX_SLOTS :: nat where "GUILD_BANK_MAX_SLOTS \<equiv> 98"
abbreviation GUILD_BANK_MAX_LOGS :: nat where "GUILD_BANK_MAX_LOGS \<equiv> 24"
abbreviation GUILD_EVENTLOG_MAX_ENTRIES :: nat where "GUILD_EVENTLOG_MAX_ENTRIES \<equiv> 100"
abbreviation GUILD_MAX_RANKS :: nat where "GUILD_MAX_RANKS \<equiv> 10"

abbreviation WITHDRAW_UNLIMITED :: u32 where "WITHDRAW_UNLIMITED \<equiv> 0xFFFFFFFF"

abbreviation GR_GUILDMASTER :: u32 where "GR_GUILDMASTER \<equiv> 0"
abbreviation GR_OFFICER :: u32 where "GR_OFFICER \<equiv> 1"

datatype GuildRankRights =
    GR_RIGHT_EMPTY
  | GR_RIGHT_GCHATLISTEN
  | GR_RIGHT_GCHATSPEAK
  | GR_RIGHT_OFFCHATLISTEN
  | GR_RIGHT_OFFCHATSPEAK
  | GR_RIGHT_PROMOTE
  | GR_RIGHT_DEMOTE
  | GR_RIGHT_INVITE
  | GR_RIGHT_REMOVE
  | GR_RIGHT_SETMOTD
  | GR_RIGHT_EPNOTE
  | GR_RIGHT_VIEWOFFNOTE
  | GR_RIGHT_EOFFNOTE
  | GR_RIGHT_MODIFY_GUILD_INFO
  | GR_RIGHT_WITHDRAW_GOLD_LOCK
  | GR_RIGHT_WITHDRAW_REPAIR
  | GR_RIGHT_WITHDRAW_GOLD
  | GR_RIGHT_ALL

fun right_code :: "GuildRankRights \<Rightarrow> u32" where
  "right_code GR_RIGHT_EMPTY = 0x40"
| "right_code GR_RIGHT_GCHATLISTEN = 0x41"
| "right_code GR_RIGHT_GCHATSPEAK = 0x42"
| "right_code GR_RIGHT_OFFCHATLISTEN = 0x44"
| "right_code GR_RIGHT_OFFCHATSPEAK = 0x48"
| "right_code GR_RIGHT_PROMOTE = 0xC0"
| "right_code GR_RIGHT_DEMOTE = 0x140"
| "right_code GR_RIGHT_INVITE = 0x50"
| "right_code GR_RIGHT_REMOVE = 0x60"
| "right_code GR_RIGHT_SETMOTD = 0x1040"
| "right_code GR_RIGHT_EPNOTE = 0x2040"
| "right_code GR_RIGHT_VIEWOFFNOTE = 0x4040"
| "right_code GR_RIGHT_EOFFNOTE = 0x8040"
| "right_code GR_RIGHT_MODIFY_GUILD_INFO = 0x10040"
| "right_code GR_RIGHT_WITHDRAW_GOLD_LOCK = 0x20000"
| "right_code GR_RIGHT_WITHDRAW_REPAIR = 0x40000"
| "right_code GR_RIGHT_WITHDRAW_GOLD = 0x80000"
| "right_code GR_RIGHT_ALL = 0xDF1FF"

text \<open>A member, a rank (with one entry per bank tab), and an entry of the event log.\<close>

record guild_member =
  gm_accountId :: u32
  gm_Name :: string
  gm_RankId :: u32
  gm_Level :: u8
  gm_Class :: u8
  gm_ZoneId :: u32
  gm_LogoutTime :: u64
  gm_Pnote :: string
  gm_OFFnote :: string
  gm_BankResetTimeMoney :: u32
  gm_BankRemMoney :: u32
  gm_BankResetTimeTab :: "u32 list"
  gm_BankRemSlotsTab :: "u32 list"

record rank_info =
  ri_Name :: string
  ri_Rights :: u32
  ri_BankMoneyPerDay :: u32
  ri_TabRight :: "u32 list"
  ri_TabSlotPerDay :: "u32 list"

record eventlog_entry =
  el_LogGuid :: u32
  el_EventType :: u8
  el_PlayerGuid1 :: u32
  el_PlayerGuid2 :: u32
  el_NewRank :: u8
  el_TimeStamp :: u64

record bank_event =
  be_LogGuid :: u32
  be_LogEntry :: u8
  be_PlayerGuid :: u32
  be_ItemOrMoney :: u32
  be_ItemStackCount :: u8
  be_DestTabId :: u8
  be_TimeStamp :: u64

text \<open>The slots of a bank tab point at items; no pointer is \<open>None\<close>.\<close>

record bank_tab =
  bt_Slots :: "nat option list"
  bt_Name :: string
  bt_Icon :: string
  bt_Text :: string

record guild =
  m_Id :: u32
  m_Name :: string
  m_LeaderGuid :: u64
  MOTD :: string
  GINFO :: string
  m_Created :: "u32 \<times> u32 \<times> u32"
  m_Emblem :: "u32 list"
  m_accountsNumber :: u32
  m_Ranks :: "rank_info list"
  gmembers :: "(u32, guild_member) omap"
  m_TabListMap :: "bank_tab option list"
  m_GuildEventlog :: "eventlog_entry list"
  m_BankLog_Money :: "bank_event list"
  m_BankLog_Item :: "bank_event list list"
  m_bankloaded :: bool
  m_eventlogloaded :: bool
  m_onlinemembers :: u32
  m_GuildBankMoney :: u64
  m_PurchasedTabs :: u8
  LogMaxGuid :: u32
  GuildEventlogMaxGuid :: u32

text \<open>The statements the guild code sends to the character database, in its words, by table.\<close>

datatype guild_row_sql =
    QDeleteGuild u32
  | QInsertGuild u32 string u32 string string "u32 list" u64
  | QSetMOTD string u32
  | QSetInfo string u32
  | QSetLeader u32 u32
  | QSetEmblem "u32 list" u32
  | QSetBankMoney u64 u32

datatype member_row_sql =
    QDeleteMembers u32
  | QInsertMember u32 u32 u32 string string
  | QDeleteMember u32
  | QSetRank u32 u32
  | QSetPnote string u32
  | QSetOffnote string u32
  | QSetRemMoney u32 u32 u32
  | QResetMoney u32 u32 u32 u32
  | QSetRemSlots u32 u32 u32 u32
  | QResetTab u32 u32 u32 u32 u32
  | QForgetMoneyReset u32 u32
  | QForgetTabReset u32 u32 u32

datatype rank_row_sql =
    QDeleteRanks u32
  | QInsertRank u32 u32 string u32
  | QDeleteRanksFrom u32 u32
  | QSetRankName string u32 u32
  | QSetRankRights u32 u32 u32
  | QSetMoneyPerDay u32 u32 u32
  | QDeleteBankRights u32
  | QDeleteBankRightsFrom u32 u32
  | QDeleteBankRight u32 u32 u32
  | QInsertBankRight u32 u32 u32
  | QInsertBankRights u32 u32 u32 u32 u32

datatype log_row_sql =
    QDeleteEvents u32
  | QInsertEvent u32 eventlog_entry
  | QDeleteEvent u32 u32
  | QDeleteEventsBelow u32 u32
  | QRenumEvents u32 u32 bool
  | QDeleteBankLogs u32
  | QInsertBankLog u32 bank_event u32
  | QDeleteBankLog u32 u32
  | QDeleteBankLogsBelow u32 u32
  | QRenumBankLogs u32 u32 bool

datatype bank_row_sql =
    QDeleteTabs u32
  | QDeleteTab u32 u32
  | QInsertTab u32 u32
  | QSetTabInfo string string u32 u32
  | QSetTabText string u32 u32
  | QDeleteItems u32
  | QDeleteItem u32 u32 u32
  | QInsertItem u32 u32 u32 u32 u32
  | QSaveItem nat
  | QDeleteItemInstance nat

datatype guild_sql =
    OnGuild guild_row_sql
  | OnMember member_row_sql
  | OnRank rank_row_sql
  | OnLog log_row_sql
  | OnBank bank_row_sql

text \<open>
  What a request makes visible: packets, offers to a chat spy, statements, and calls into parts that
  are not modelled here (petitions, quests, the inventory and gold of a player, equip errors).
\<close>

datatype guild_event =
    USend u64 packet
  | UChatSpy u64 string u32 u64
  | USql guild_sql
  | URemovePetitions u64
  | UStop
  | UQuestCheck u64 u32 u8
  | UEquipError u64 u8
  | USaveMoney u64
  | USaveInventory u64
  | UMoveToInventory u64 "(u8 \<times> u8 \<times> u32) list" nat
  | UMoveFromInventory u64 u8 u8
  | UDeleteFromInventory nat
  | UMarkChanged nat u64
  | URemoveFeignDeath u64

text \<open>The guild fields of a player object, and an item as the guild bank sees it.\<close>

record guild_player =
  pg_guildId :: u32
  pg_rank :: u32
  pg_invited :: u32
  pg_money :: u32

record bank_item =
  bi_guid :: u32
  bi_entry :: u32
  bi_count :: u32
  bi_stackable :: u32
  bi_soulbound :: bool
  bi_randomProperty :: u32
  bi_suffixFactor :: u32
  bi_enchantment :: u32

record gust =
  gt_heap :: "nat \<Rightarrow> guild option"
  gt_next :: nat
  gt_map :: "(u32, nat) omap"
  gt_guildId :: u32
  gt_players :: "u64 \<Rightarrow> guild_player"
  gt_items :: "nat \<Rightarrow> bank_item option"
  gt_nextItem :: nat
  gt_itemGuid :: u32
  gt_out :: "guild_event list"

text \<open>
  The rest of the server: the time, rows of the character table, float conversions, default rank
  names, who may use a bank chest or a tabard designer, and the contents of fresh memory.
\<close>

record char_row =
  cr_name :: string
  cr_level :: u32
  cr_zone :: u32
  cr_class :: u32
  cr_account :: u32

record guild_env =
  ge_world :: world
  ge_social :: SocialMap
  ge_time :: u64
  ge_date :: "u32 \<times> u32 \<times> u32"
  ge_days :: "u64 \<Rightarrow> u64 \<Rightarrow> u32"
  ge_account :: "u64 \<Rightarrow> u32"
  ge_charRow :: "u32 \<Rightarrow> char_row option"
  ge_zoneFromDB :: "u64 \<Rightarrow> u32"
  ge_guildFromDB :: "u64 \<Rightarrow> u32"
  ge_teamOf :: "u64 \<Rightarrow> u32"
  ge_rankNames :: "string list"
  ge_junk :: u32
  ge_fresh :: "bool \<times> bool \<times> u32 \<times> u32 \<times> u32"

abbreviation u_find :: "'a guild_env_scheme \<Rightarrow> u64 \<Rightarrow> player option" where
  "u_find e g \<equiv> FindPlayer (ge_world e) g"

text \<open>The constructor leaves five fields as the memory was.\<close>

fun Guild_new :: "bool \<times> bool \<times> u32 \<times> u32 \<times> u32 \<Rightarrow> guild" where
  "Guild_new (bankloaded, eventlogloaded, online, logMax, eventMax) =
     \<lparr>m_Id = 0, m_Name = [], m_LeaderGuid = 0, MOTD = [], GINFO = [], m_Created = (0, 0, 0),
      m_Emblem = [0, 0, 0, 0, 0], m_accountsNumber = 0, m_Ranks = [], gmembers = [], m_TabListMap = [],
      m_GuildEventlog = [], m_BankLog_Money = [], m_BankLog_Item = replicate GUILD_BANK_MAX_TABS [],
      m_bankloaded = bankloaded, m_eventlogloaded = eventlogloaded, m_onlinemembers = online,
      m_GuildBankMoney = 0, m_PurchasedTabs = 0, LogMaxGuid = logMax, GuildEventlogMaxGuid = eventMax\<rparr>"

definition gld :: "gust \<Rightarrow> nat \<Rightarrow> guild" where
  "gld st a = (case gt_heap st a of Some g \<Rightarrow> g | None \<Rightarrow> Guild_new (False, False, 0, 0, 0))"

definition upd_gld :: "nat \<Rightarrow> (guild \<Rightarrow> guild) \<Rightarrow> gust \<Rightarrow> gust" where
  "upd_gld a f st = st\<lparr>gt_heap := (gt_heap st)(a := map_option f (gt_heap st a))\<rparr>"

definition u_emit :: "guild_event list \<Rightarrow> gust \<Rightarrow> gust" where
  "u_emit es st = st\<lparr>gt_out := gt_out st @ es\<rparr>"

definition u_sql :: "guild_sql list \<Rightarrow> gust \<Rightarrow> gust" where
  "u_sql qs = u_emit (map USql qs)"

definition upd_gplayer :: "u64 \<Rightarrow> (guild_player \<Rightarrow> guild_player) \<Rightarrow> gust \<Rightarrow> gust" where
  "upd_gplayer p f st = st\<lparr>gt_players := (gt_players st)(p := f (gt_players st p))\<rparr>"

section \<open>The registry\<close>

definition GetGuildById :: "u32 \<Rightarrow> gust \<Rightarrow> nat option" where
  "GetGuildById i st = map_of (gt_map st) i"

definition GetGuildByName :: "string \<Rightarrow> gust \<Rightarrow> nat option" where
  "GetGuildByName n st = map_option snd (find (\<lambda>e. m_Name (gld st (snd e)) = n) (gt_map st))"

definition GetGuildByLeader :: "u64 \<Rightarrow> gust \<Rightarrow> nat option" where
  "GetGuildByLeader guid st = map_option snd (find (\<lambda>e. m_LeaderGuid (gld st (snd e)) = guid) (gt_map st))"

definition AddGuild :: "nat \<Rightarrow> gust \<Rightarrow> gust" where
  "AddGuild a st = st\<lparr>gt_map := om_put (m_Id (gld st a)) a (gt_map st)\<rparr>"

definition RemoveGuild :: "u32 \<Rightarrow> gust \<Rightarrow> gust" where
  "RemoveGuild i st = st\<lparr>gt_map := om_erase i (gt_map st)\<rparr>"

text \<open>At the end of the numbers the server is told to stop, but the number is still handed out.\<close>

definition GenerateGuildId :: "gust \<Rightarrow> u32 \<times> gust" where
  "GenerateGuildId st =
     (let st = (if gt_guildId st \<ge> 0xFFFFFFFE then u_emit [UStop] st else st)
      in (gt_guildId st, st\<lparr>gt_guildId := gt_guildId st + 1\<rparr>))"

section \<open>Players\<close>

definition GetGuildId :: "u64 \<Rightarrow> gust \<Rightarrow> u32" where
  "GetGuildId p st = pg_guildId (gt_players st p)"

definition GetRank :: "u64 \<Rightarrow> gust \<Rightarrow> u32" where
  "GetRank p st = pg_rank (gt_players st p)"

definition GetGuildIdInvited :: "u64 \<Rightarrow> gust \<Rightarrow> u32" where
  "GetGuildIdInvited p st = pg_invited (gt_players st p)"

definition GetMoney :: "u64 \<Rightarrow> gust \<Rightarrow> u32" where
  "GetMoney p st = pg_money (gt_players st p)"

definition SetInGuild :: "u64 \<Rightarrow> u32 \<Rightarrow> gust \<Rightarrow> gust" where
  "SetInGuild p i = upd_gplayer p (\<lambda>pl. pl\<lparr>pg_guildId := i\<rparr>)"

definition SetRank :: "u64 \<Rightarrow> u32 \<Rightarrow> gust \<Rightarrow> gust" where
  "SetRank p r = upd_gplayer p (\<lambda>pl. pl\<lparr>pg_rank := r\<rparr>)"

definition SetGuildIdInvited :: "u64 \<Rightarrow> u32 \<Rightarrow> gust \<Rightarrow> gust" where
  "SetGuildIdInvited p i = upd_gplayer p (\<lambda>pl. pl\<lparr>pg_invited := i\<rparr>)"

abbreviation MAX_MONEY_AMOUNT :: u32 where "MAX_MONEY_AMOUNT \<equiv> 0x7FFFFFFE"
abbreviation EQUIP_ERR_TOO_MUCH_GOLD :: u8 where "EQUIP_ERR_TOO_MUCH_GOLD \<equiv> 77"

text \<open>\<open>ModifyMoney\<close> takes a signed amount; the comparisons are unsigned.\<close>

definition money_after :: "u32 \<Rightarrow> u32 \<Rightarrow> u32" where
  "money_after money d =
     (if sint d < 0 then (if money > - d then money + d else 0)
      else if money < MAX_MONEY_AMOUNT - d then money + d else MAX_MONEY_AMOUNT)"

definition ModifyMoney :: "u64 \<Rightarrow> u32 \<Rightarrow> gust \<Rightarrow> gust" where
  "ModifyMoney p d st =
     (let st = upd_gplayer p (\<lambda>pl. pl\<lparr>pg_money := money_after (pg_money pl) d\<rparr>) st
      in if GetMoney p st \<ge> MAX_MONEY_AMOUNT then u_emit [UEquipError p EQUIP_ERR_TOO_MUCH_GOLD] st else st)"

section \<open>Members and ranks\<close>

definition Guild_IsMember :: "u32 \<Rightarrow> guild \<Rightarrow> bool" where
  "Guild_IsMember low g \<longleftrightarrow> om_mem low (gmembers g)"

definition GetNrRanks :: "guild \<Rightarrow> u32" where
  "GetNrRanks g = word_of_nat (length (m_Ranks g))"

definition GetLowestRank :: "guild \<Rightarrow> u32" where
  "GetLowestRank g = GetNrRanks g - 1"

definition GetMemberSize :: "guild \<Rightarrow> u32" where
  "GetMemberSize g = word_of_nat (length (gmembers g))"

definition GetRankName :: "u32 \<Rightarrow> guild \<Rightarrow> string" where
  "GetRankName r g = (if unat r \<ge> length (m_Ranks g) then ''<unknown>'' else ri_Name (m_Ranks g ! unat r))"

definition GetRankRights :: "u32 \<Rightarrow> guild \<Rightarrow> u32" where
  "GetRankRights r g = (if unat r \<ge> length (m_Ranks g) then 0 else ri_Rights (m_Ranks g ! unat r))"

definition HasRankRight :: "u32 \<Rightarrow> GuildRankRights \<Rightarrow> guild \<Rightarrow> bool" where
  "HasRankRight r right g \<longleftrightarrow> GetRankRights r g AND right_code right \<noteq> right_code GR_RIGHT_EMPTY"

text \<open>\<open>Guild::GetRank\<close> returns a signed number, -1 for a player who is not a member.\<close>

definition Guild_GetRank :: "u32 \<Rightarrow> guild \<Rightarrow> u32" where
  "Guild_GetRank low g = (case map_of (gmembers g) low of None \<Rightarrow> - 1 | Some m \<Rightarrow> gm_RankId m)"

definition GetMemberSlotByName :: "string \<Rightarrow> guild \<Rightarrow> (u32 \<times> guild_member) option" where
  "GetMemberSlotByName name g = find (\<lambda>e. gm_Name (snd e) = name) (gmembers g)"

definition upd_member :: "u32 \<Rightarrow> (guild_member \<Rightarrow> guild_member) \<Rightarrow> guild \<Rightarrow> guild" where
  "upd_member low f g = g\<lparr>gmembers := map (\<lambda>(k, m). (k, if k = low then f m else m)) (gmembers g)\<rparr>"

definition upd_rank :: "u32 \<Rightarrow> (rank_info \<Rightarrow> rank_info) \<Rightarrow> guild \<Rightarrow> guild" where
  "upd_rank r f g = g\<lparr>m_Ranks := (m_Ranks g)[unat r := f (m_Ranks g ! unat r)]\<rparr>"

definition RankInfo_new :: "string \<Rightarrow> u32 \<Rightarrow> u32 \<Rightarrow> rank_info" where
  "RankInfo_new name rights money =
     \<lparr>ri_Name = name, ri_Rights = rights, ri_BankMoneyPerDay = money,
      ri_TabRight = replicate GUILD_BANK_MAX_TABS 0, ri_TabSlotPerDay = replicate GUILD_BANK_MAX_TABS 0\<rparr>"

definition AddRank :: "string \<Rightarrow> u32 \<Rightarrow> u32 \<Rightarrow> guild \<Rightarrow> guild" where
  "AddRank name rights money g = g\<lparr>m_Ranks := m_Ranks g @ [RankInfo_new name rights money]\<rparr>"

definition CreateBankRightForTab :: "nat \<Rightarrow> u32 \<Rightarrow> u8 \<Rightarrow> gust \<Rightarrow> gust" where
  "CreateBankRightForTab a r tab st =
     (let g = gld st a in
      if unat r \<ge> length (m_Ranks g) \<or> unat tab \<ge> GUILD_BANK_MAX_TABS then st
      else
        (let st = upd_gld a (upd_rank r (\<lambda>i. i\<lparr>ri_TabRight := (ri_TabRight i)[unat tab := 0],
               ri_TabSlotPerDay := (ri_TabSlotPerDay i)[unat tab := 0]\<rparr>)) st
         in u_sql [OnRank (QDeleteBankRight (m_Id g) (ucast tab) r), OnRank (QInsertBankRight (m_Id g) (ucast tab) r)] st))"

definition CreateRank :: "nat \<Rightarrow> string \<Rightarrow> u32 \<Rightarrow> gust \<Rightarrow> gust" where
  "CreateRank a name rights st =
     (if length (m_Ranks (gld st a)) \<ge> GUILD_MAX_RANKS then st
      else
        (let st = upd_gld a (AddRank name rights 0) st;
             st = fold (\<lambda>i. CreateBankRightForTab a (GetLowestRank (gld st a)) (word_of_nat i))
                    [0..<unat (m_PurchasedTabs (gld st a))] st;
             g = gld st a
         in u_sql [OnRank (QInsertRank (m_Id g) (GetNrRanks g) name rights)] st))"

definition default_rights :: u32 where
  "default_rights = right_code GR_RIGHT_GCHATLISTEN OR right_code GR_RIGHT_GCHATSPEAK"

definition CreateDefaultGuildRanks :: "'a guild_env_scheme \<Rightarrow> nat \<Rightarrow> gust \<Rightarrow> gust" where
  "CreateDefaultGuildRanks e a st =
     fold (\<lambda>(name, rights). CreateRank a name rights)
       (zip (ge_rankNames e) [right_code GR_RIGHT_ALL, right_code GR_RIGHT_ALL, default_rights, default_rights, default_rights])
       (u_sql [OnRank (QDeleteRanks (m_Id (gld st a))), OnRank (QDeleteBankRights (m_Id (gld st a)))] st)"

definition DelRank :: "nat \<Rightarrow> gust \<Rightarrow> gust" where
  "DelRank a st =
     (let g = gld st a; rank = GetNrRanks g - 1 in
      if m_Ranks g = [] then st
      else upd_gld a (\<lambda>g. g\<lparr>m_Ranks := butlast (m_Ranks g)\<rparr>)
        (u_sql [OnRank (QDeleteRanksFrom (rank + 1) (m_Id g)), OnRank (QDeleteBankRightsFrom rank (m_Id g))] st))"

definition SetRankName :: "nat \<Rightarrow> u32 \<Rightarrow> string \<Rightarrow> gust \<Rightarrow> gust" where
  "SetRankName a r name st =
     (if unat r \<ge> length (m_Ranks (gld st a)) then st
      else u_sql [OnRank (QSetRankName name (r + 1) (m_Id (gld st a)))] (upd_gld a (upd_rank r (\<lambda>i. i\<lparr>ri_Name := name\<rparr>)) st))"

definition SetRankRights :: "nat \<Rightarrow> u32 \<Rightarrow> u32 \<Rightarrow> gust \<Rightarrow> gust" where
  "SetRankRights a r rights st =
     (if unat r \<ge> length (m_Ranks (gld st a)) then st
      else u_sql [OnRank (QSetRankRights rights (r + 1) (m_Id (gld st a)))]
        (upd_gld a (upd_rank r (\<lambda>i. i\<lparr>ri_Rights := rights\<rparr>)) st))"

section \<open>Broadcasts\<close>

abbreviation SMSG_GUILD_QUERY_RESPONSE :: u16 where "SMSG_GUILD_QUERY_RESPONSE \<equiv> 0x055"
abbreviation SMSG_GUILD_INVITE :: u16 where "SMSG_GUILD_INVITE \<equiv> 0x083"
abbreviation SMSG_GUILD_INFO :: u16 where "SMSG_GUILD_INFO \<equiv> 0x088"
abbreviation SMSG_GUILD_ROSTER :: u16 where "SMSG_GUILD_ROSTER \<equiv> 0x08A"
abbreviation SMSG_GUILD_EVENT :: u16 where "SMSG_GUILD_EVENT \<equiv> 0x092"
abbreviation SMSG_GUILD_COMMAND_RESULT :: u16 where "SMSG_GUILD_COMMAND_RESULT \<equiv> 0x093"
abbreviation GUILD_MESSAGECHAT :: u16 where "GUILD_MESSAGECHAT \<equiv> 0x096"
abbreviation MSG_SAVE_GUILD_EMBLEM :: u16 where "MSG_SAVE_GUILD_EMBLEM \<equiv> 0x1F1"
abbreviation MSG_GUILD_EVENT_LOG_QUERY :: u16 where "MSG_GUILD_EVENT_LOG_QUERY \<equiv> 0x3FE"

datatype GuildEvents =
    GE_PROMOTION
  | GE_DEMOTION
  | GE_MOTD
  | GE_JOINED
  | GE_LEFT
  | GE_REMOVED
  | GE_LEADER_CHANGED
  | GE_DISBANDED
  | GE_SIGNED_ON
  | GE_SIGNED_OFF

fun event_code :: "GuildEvents \<Rightarrow> u8" where
  "event_code GE_PROMOTION = 0"
| "event_code GE_DEMOTION = 1"
| "event_code GE_MOTD = 2"
| "event_code GE_JOINED = 3"
| "event_code GE_LEFT = 4"
| "event_code GE_REMOVED = 5"
| "event_code GE_LEADER_CHANGED = 7"
| "event_code GE_DISBANDED = 8"
| "event_code GE_SIGNED_ON = 12"
| "event_code GE_SIGNED_OFF = 13"

text \<open>The connected members in the order of the member map.\<close>

definition online_members :: "'a guild_env_scheme \<Rightarrow> guild \<Rightarrow> (u32 \<times> guild_member) list" where
  "online_members e g = filter (\<lambda>m. u_find e (player_guid (fst m)) \<noteq> None) (gmembers g)"

definition Guild_BroadcastPacket :: "'a guild_env_scheme \<Rightarrow> nat \<Rightarrow> packet \<Rightarrow> gust \<Rightarrow> gust" where
  "Guild_BroadcastPacket e a pk st =
     u_emit (map (\<lambda>m. USend (player_guid (fst m)) pk) (online_members e (gld st a))) st"

definition BroadcastPacketToRank :: "'a guild_env_scheme \<Rightarrow> nat \<Rightarrow> packet \<Rightarrow> u32 \<Rightarrow> gust \<Rightarrow> gust" where
  "BroadcastPacketToRank e a pk r st =
     u_emit (map (\<lambda>m. USend (player_guid (fst m)) pk)
       (filter (\<lambda>m. gm_RankId (snd m) = r) (online_members e (gld st a)))) st"

definition event_packet :: "GuildEvents \<Rightarrow> u64 \<Rightarrow> string list \<Rightarrow> packet" where
  "event_packet ev guid strs =
     mk_packet SMSG_GUILD_EVENT
       ([U8 (event_code ev), U8 (word_of_nat (length strs))] @ map Str strs @ (if guid \<noteq> 0 then [U64 guid] else []))"

definition BroadcastEvent :: "'a guild_env_scheme \<Rightarrow> nat \<Rightarrow> GuildEvents \<Rightarrow> u64 \<Rightarrow> string list \<Rightarrow> gust \<Rightarrow> gust" where
  "BroadcastEvent e a ev guid strs = Guild_BroadcastPacket e a (event_packet ev guid strs)"

text \<open>Guild and officer chat: heard by connected members whose rank may listen and who do not ignore the speaker.\<close>

definition guild_chat_packet :: "u8 \<Rightarrow> u32 \<Rightarrow> player \<Rightarrow> string \<Rightarrow> packet" where
  "guild_chat_packet type language self msg =
     mk_packet GUILD_MESSAGECHAT
       [U8 type, U32 language, U64 (p_guid self), U32 0, U64 (p_guid self),
        U32 (word_of_nat (length msg) + 1), Str msg, U8 (GetChatTag self)]"

definition guild_listeners :: "'a guild_env_scheme \<Rightarrow> GuildRankRights \<Rightarrow> player \<Rightarrow> nat \<Rightarrow> gust \<Rightarrow> u64 list" where
  "guild_listeners e right self a st =
     filter (\<lambda>p. HasRankRight (GetRank p st) right (gld st a) \<and>
         \<not> HasIgnore (GetSocial (ge_social e) p) (GUID_LOPART (p_guid self)))
       (map (player_guid \<circ> fst) (online_members e (gld st a)))"

definition BroadcastToGuild :: "'a guild_env_scheme \<Rightarrow> player \<Rightarrow> nat \<Rightarrow> string \<Rightarrow> u32 \<Rightarrow> gust \<Rightarrow> gust" where
  "BroadcastToGuild e self a msg language st =
     (if HasRankRight (GetRank (p_guid self) st) GR_RIGHT_GCHATSPEAK (gld st a)
      then u_emit (concat (map (\<lambda>p. [UChatSpy p msg language (p_guid self), USend p (guild_chat_packet 4 language self msg)])
             (guild_listeners e GR_RIGHT_GCHATLISTEN self a st))) st
      else st)"

definition BroadcastToOfficers :: "'a guild_env_scheme \<Rightarrow> player \<Rightarrow> nat \<Rightarrow> string \<Rightarrow> u32 \<Rightarrow> gust \<Rightarrow> gust" where
  "BroadcastToOfficers e self a msg language st =
     (if HasRankRight (GetRank (p_guid self) st) GR_RIGHT_OFFCHATSPEAK (gld st a)
      then u_emit (concat (map (\<lambda>p. [USend p (guild_chat_packet 5 language self msg), UChatSpy p msg language (p_guid self)])
             (guild_listeners e GR_RIGHT_OFFCHATLISTEN self a st))) st
      else st)"

text \<open>The roster; the days since logout are a float, streamed as its four bytes.\<close>

definition rank_fields :: "rank_info \<Rightarrow> field list" where
  "rank_fields r =
     [U32 (ri_Rights r), U32 (ri_BankMoneyPerDay r)] @
     concat (map (\<lambda>(right, slots). [U32 right, U32 slots]) (zip (ri_TabRight r) (ri_TabSlotPerDay r)))"

definition member_fields :: "'a guild_env_scheme \<Rightarrow> u32 \<times> guild_member \<Rightarrow> field list" where
  "member_fields e km =
     (case km of (low, m) \<Rightarrow>
        (case u_find e (player_guid low) of
           Some pl \<Rightarrow>
             [U64 (p_guid pl), U8 1, Str (p_name pl), U32 (gm_RankId m), U8 (ucast (p_level pl)), U8 (ucast (p_class pl)),
              U8 0, U32 (p_zone pl), Str (gm_Pnote m), Str (gm_OFFnote m)]
         | None \<Rightarrow>
             [U64 (player_guid low), U8 0, Str (gm_Name m), U32 (gm_RankId m), U8 (gm_Level m), U8 (gm_Class m),
              U8 0, U32 (gm_ZoneId m), U32 (ge_days e (ge_time e) (gm_LogoutTime m)), Str (gm_Pnote m), Str (gm_OFFnote m)]))"

definition roster_packet :: "'a guild_env_scheme \<Rightarrow> guild \<Rightarrow> packet" where
  "roster_packet e g =
     mk_packet SMSG_GUILD_ROSTER
       ([U32 (GetMemberSize g), Str (MOTD g), Str (GINFO g), U32 (GetNrRanks g)] @
        concat (map rank_fields (m_Ranks g)) @ concat (map (member_fields e) (gmembers g)))"

definition Roster :: "'a guild_env_scheme \<Rightarrow> nat \<Rightarrow> u64 option \<Rightarrow> gust \<Rightarrow> gust" where
  "Roster e a session st =
     (let pk = roster_packet e (gld st a)
      in case session of Some p \<Rightarrow> u_emit [USend p pk] st | None \<Rightarrow> Guild_BroadcastPacket e a pk st)"

definition Query :: "nat \<Rightarrow> u64 \<Rightarrow> gust \<Rightarrow> gust" where
  "Query a p st =
     (let g = gld st a
      in u_emit [USend p (mk_packet SMSG_GUILD_QUERY_RESPONSE
           ([U32 (m_Id g), Str (m_Name g)] @
            map (\<lambda>i. if i < length (m_Ranks g) then Str (ri_Name (m_Ranks g ! i)) else U8 0) [0..<10] @
            map U32 (m_Emblem g)))] st)"

section \<open>Joining and leaving\<close>

definition UpdateAccountsNumber :: "guild \<Rightarrow> guild" where
  "UpdateAccountsNumber g =
     g\<lparr>m_accountsNumber := word_of_nat (length (remdups (map (gm_accountId \<circ> snd) (gmembers g))))\<rparr>"

abbreviation STRONG_MAX_LEVEL :: u32 where "STRONG_MAX_LEVEL \<equiv> 255"
abbreviation CLASS_WARRIOR :: u32 where "CLASS_WARRIOR \<equiv> 1"
abbreviation MAX_CLASSES :: u32 where "MAX_CLASSES \<equiv> 12"

definition FillPlayerData :: "'a guild_env_scheme \<Rightarrow> u64 \<Rightarrow> guild_member \<Rightarrow> guild_member option" where
  "FillPlayerData e guid m =
     (case u_find e guid of
        Some pl \<Rightarrow>
          Some (m\<lparr>gm_accountId := ge_account e guid, gm_Name := p_name pl, gm_Level := ucast (p_level pl),
            gm_Class := ucast (p_class pl), gm_ZoneId := p_zone pl\<rparr>)
      | None \<Rightarrow>
          (case ge_charRow e (GUID_LOPART guid) of
             None \<Rightarrow> None
           | Some r \<Rightarrow>
               if cr_level r < 1 \<or> cr_level r > STRONG_MAX_LEVEL then None
               else
                 (let zone = (if cr_zone r = 0 then ge_zoneFromDB e guid else cr_zone r) in
                  if cr_class r < CLASS_WARRIOR \<or> cr_class r \<ge> MAX_CLASSES then None
                  else Some (m\<lparr>gm_accountId := cr_account r, gm_Name := cr_name r, gm_Level := ucast (cr_level r),
                         gm_Class := ucast (cr_class r), gm_ZoneId := zone\<rparr>))))"

definition new_member :: "'a guild_env_scheme \<Rightarrow> u32 \<Rightarrow> guild_member" where
  "new_member e r =
     \<lparr>gm_accountId = 0, gm_Name = [], gm_RankId = r, gm_Level = 0, gm_Class = 0, gm_ZoneId = 0,
      gm_LogoutTime = ge_time e, gm_Pnote = [], gm_OFFnote = [], gm_BankResetTimeMoney = 0, gm_BankRemMoney = ge_junk e,
      gm_BankResetTimeTab = replicate GUILD_BANK_MAX_TABS 0, gm_BankRemSlotsTab = replicate GUILD_BANK_MAX_TABS (ge_junk e)\<rparr>"

definition Guild_AddMember :: "'a guild_env_scheme \<Rightarrow> nat \<Rightarrow> u64 \<Rightarrow> u32 \<Rightarrow> gust \<Rightarrow> bool \<times> gust" where
  "Guild_AddMember e a plGuid plRank st =
     (let pl = u_find e plGuid in
      if (if pl \<noteq> None then GetGuildId plGuid st \<noteq> 0 else ge_guildFromDB e plGuid \<noteq> 0) then (False, st)
      else
        (let st = u_emit [URemovePetitions plGuid] st in
         case FillPlayerData e plGuid (new_member e plRank) of
           None \<Rightarrow> (False, st)
         | Some m \<Rightarrow>
             (let st = upd_gld a (\<lambda>g. g\<lparr>gmembers := om_put (GUID_LOPART plGuid) m (gmembers g)\<rparr>) st;
                  st = u_sql [OnMember (QInsertMember (m_Id (gld st a)) (GUID_LOPART plGuid) plRank [] [])] st;
                  st = (if pl = None then st
                        else SetGuildIdInvited plGuid 0 (SetRank plGuid plRank (SetInGuild plGuid (m_Id (gld st a)) st)))
              in (True, upd_gld a UpdateAccountsNumber st))))"

definition ChangeRank :: "'a guild_env_scheme \<Rightarrow> nat \<Rightarrow> u64 \<Rightarrow> u32 \<Rightarrow> gust \<Rightarrow> gust" where
  "ChangeRank e a guid newRank st =
     (let st = upd_gld a (upd_member (GUID_LOPART guid) (\<lambda>m. m\<lparr>gm_RankId := newRank\<rparr>)) st;
          st = (if u_find e guid \<noteq> None then SetRank guid newRank st else st)
      in u_sql [OnMember (QSetRank newRank (GUID_LOPART guid))] st)"

definition Guild_SetLeader :: "'a guild_env_scheme \<Rightarrow> nat \<Rightarrow> u64 \<Rightarrow> gust \<Rightarrow> gust" where
  "Guild_SetLeader e a guid st =
     (let st = upd_gld a (\<lambda>g. g\<lparr>m_LeaderGuid := guid\<rparr>) st;
          st = ChangeRank e a guid GR_GUILDMASTER st
      in u_sql [OnGuild (QSetLeader (GUID_LOPART guid) (m_Id (gld st a)))] st)"

text \<open>What \<open>DelMember\<close> does once the leader, if it was he, has been replaced.\<close>

definition erase_member :: "'a guild_env_scheme \<Rightarrow> nat \<Rightarrow> u64 \<Rightarrow> gust \<Rightarrow> gust" where
  "erase_member e a guid st =
     (let st = upd_gld a (\<lambda>g. g\<lparr>gmembers := om_erase (GUID_LOPART guid) (gmembers g)\<rparr>) st;
          st = (if u_find e guid \<noteq> None then SetRank guid 0 (SetInGuild guid 0 st) else st)
      in u_sql [OnMember (QDeleteMember (GUID_LOPART guid))] st)"

text \<open>The loop of \<open>Disband\<close> deletes the first member until none is left.\<close>

fun disband_loop :: "nat \<Rightarrow> 'a guild_env_scheme \<Rightarrow> nat \<Rightarrow> gust \<Rightarrow> gust option" where
  "disband_loop n e a st =
     (case om_begin (gmembers (gld st a)) of
        None \<Rightarrow> Some st
      | Some (low, _) \<Rightarrow>
          (case n of 0 \<Rightarrow> None | Suc k \<Rightarrow> disband_loop k e a (erase_member e a (player_guid low) st)))"

definition Guild_Disband :: "'a guild_env_scheme \<Rightarrow> nat \<Rightarrow> gust \<Rightarrow> gust option" where
  "Guild_Disband e a st =
     (let st = BroadcastEvent e a GE_DISBANDED 0 [] st in
      case disband_loop (length (gmembers (gld st a))) e a st of
        None \<Rightarrow> None
      | Some st \<Rightarrow>
          (let i = m_Id (gld st a)
           in Some (RemoveGuild i (u_sql [OnGuild (QDeleteGuild i), OnRank (QDeleteRanks i), OnBank (QDeleteTabs i),
                OnBank (QDeleteItems i), OnRank (QDeleteBankRights i), OnLog (QDeleteBankLogs i), OnLog (QDeleteEvents i)] st))))"

text \<open>The heir of a leaving leader: the first member, in the order of the map, with the least rank number.\<close>

fun best_heir :: "u32 \<Rightarrow> (u32, guild_member) omap \<Rightarrow> (u32 \<times> guild_member) option \<Rightarrow> (u32 \<times> guild_member) option" where
  "best_heir old [] best = best"
| "best_heir old ((k, m) # ms) best =
     (if k = old then best_heir old ms best
      else best_heir old ms
        (case best of
           None \<Rightarrow> Some (k, m)
         | Some (_, b) \<Rightarrow> if gm_RankId b > gm_RankId m then Some (k, m) else best))"

definition replace_leader :: "'a guild_env_scheme \<Rightarrow> nat \<Rightarrow> u64 \<Rightarrow> u32 \<times> guild_member \<Rightarrow> gust \<Rightarrow> gust" where
  "replace_leader e a guid heir st =
     (let old = map_of (gmembers (gld st a)) (GUID_LOPART guid);
          st = Guild_SetLeader e a (ucast (fst heir)) st;
          st = (if u_find e (ucast (fst heir)) \<noteq> None then SetRank (ucast (fst heir)) GR_GUILDMASTER st else st)
      in case old of
           None \<Rightarrow> st
         | Some l \<Rightarrow>
             BroadcastEvent e a GE_LEFT guid [gm_Name l]
               (BroadcastEvent e a GE_LEADER_CHANGED 0 [gm_Name l, gm_Name (snd heir)] st))"

definition DelMember :: "'a guild_env_scheme \<Rightarrow> nat \<Rightarrow> u64 \<Rightarrow> gust \<Rightarrow> gust option" where
  "DelMember e a guid st =
     (let g = gld st a in
      if m_LeaderGuid g = guid
      then
        (case best_heir (GUID_LOPART guid) (gmembers g) None of
           None \<Rightarrow> Guild_Disband e a st
         | Some heir \<Rightarrow> Some (erase_member e a guid (replace_leader e a guid heir st)))
      else Some (erase_member e a guid st))"

section \<open>Texts, emblem, logout\<close>

definition SetMOTD :: "nat \<Rightarrow> string \<Rightarrow> gust \<Rightarrow> gust" where
  "SetMOTD a s st = u_sql [OnGuild (QSetMOTD s (m_Id (gld st a)))] (upd_gld a (\<lambda>g. g\<lparr>MOTD := s\<rparr>) st)"

definition SetGINFO :: "nat \<Rightarrow> string \<Rightarrow> gust \<Rightarrow> gust" where
  "SetGINFO a s st = u_sql [OnGuild (QSetInfo s (m_Id (gld st a)))] (upd_gld a (\<lambda>g. g\<lparr>GINFO := s\<rparr>) st)"

definition SetPNOTE :: "nat \<Rightarrow> u64 \<Rightarrow> string \<Rightarrow> gust \<Rightarrow> gust" where
  "SetPNOTE a guid s st =
     (let low = GUID_LOPART guid in
      if \<not> Guild_IsMember low (gld st a) then st
      else u_sql [OnMember (QSetPnote s low)] (upd_gld a (upd_member low (\<lambda>m. m\<lparr>gm_Pnote := s\<rparr>)) st))"

definition SetOFFNOTE :: "nat \<Rightarrow> u64 \<Rightarrow> string \<Rightarrow> gust \<Rightarrow> gust" where
  "SetOFFNOTE a guid s st =
     (let low = GUID_LOPART guid in
      if \<not> Guild_IsMember low (gld st a) then st
      else u_sql [OnMember (QSetOffnote s low)] (upd_gld a (upd_member low (\<lambda>m. m\<lparr>gm_OFFnote := s\<rparr>)) st))"

definition SetEmblem :: "nat \<Rightarrow> u32 list \<Rightarrow> gust \<Rightarrow> gust" where
  "SetEmblem a emblem st =
     u_sql [OnGuild (QSetEmblem emblem (m_Id (gld st a)))] (upd_gld a (\<lambda>g. g\<lparr>m_Emblem := emblem\<rparr>) st)"

definition LoadPlayerStatsByGuid :: "'a guild_env_scheme \<Rightarrow> nat \<Rightarrow> u64 \<Rightarrow> gust \<Rightarrow> gust" where
  "LoadPlayerStatsByGuid e a guid st =
     (case u_find e guid of
        None \<Rightarrow> st
      | Some pl \<Rightarrow> upd_gld a (upd_member (GUID_LOPART guid) (\<lambda>m. m\<lparr>gm_Name := p_name pl,
          gm_Level := ucast (p_level pl), gm_Class := ucast (p_class pl)\<rparr>)) st)"

section \<open>The event log\<close>

abbreviation GUILD_EVENT_LOG_INVITE_PLAYER :: u8 where "GUILD_EVENT_LOG_INVITE_PLAYER \<equiv> 1"
abbreviation GUILD_EVENT_LOG_JOIN_GUILD :: u8 where "GUILD_EVENT_LOG_JOIN_GUILD \<equiv> 2"
abbreviation GUILD_EVENT_LOG_PROMOTE_PLAYER :: u8 where "GUILD_EVENT_LOG_PROMOTE_PLAYER \<equiv> 3"
abbreviation GUILD_EVENT_LOG_DEMOTE_PLAYER :: u8 where "GUILD_EVENT_LOG_DEMOTE_PLAYER \<equiv> 4"
abbreviation GUILD_EVENT_LOG_UNINVITE_PLAYER :: u8 where "GUILD_EVENT_LOG_UNINVITE_PLAYER \<equiv> 5"
abbreviation GUILD_EVENT_LOG_LEAVE_GUILD :: u8 where "GUILD_EVENT_LOG_LEAVE_GUILD \<equiv> 6"

text \<open>The rows of the log query, the newest first; an empty result leaves the log unloaded.\<close>

definition LoadGuildEventLogFromDB :: "nat \<Rightarrow> eventlog_entry list \<Rightarrow> gust \<Rightarrow> gust" where
  "LoadGuildEventLogFromDB a rows st =
     (let g = gld st a in
      if m_eventlogloaded g \<or> rows = [] then st
      else
        (let log = rev rows @ m_GuildEventlog g
         in upd_gld a (\<lambda>g. g\<lparr>m_GuildEventlog := log, m_eventlogloaded := True\<rparr>)
              (u_sql [OnLog (QDeleteEventsBelow (m_Id g) (el_LogGuid (hd log)))] st)))"

definition UnloadGuildEventlog :: "guild \<Rightarrow> guild" where
  "UnloadGuildEventlog g =
     (if m_eventlogloaded g then g\<lparr>m_GuildEventlog := [], m_eventlogloaded := False\<rparr> else g)"

text \<open>The least and the greatest number in the log, as the query returns them.\<close>

definition RenumGuildEventlog :: "nat \<Rightarrow> (u32 \<times> u32) option \<Rightarrow> gust \<Rightarrow> gust" where
  "RenumGuildEventlog a minmax st =
     (case minmax of
        None \<Rightarrow> st
      | Some (lo, hi) \<Rightarrow>
          upd_gld a (\<lambda>g. g\<lparr>GuildEventlogMaxGuid := hi + 1\<rparr>)
            (u_sql [OnLog (QRenumEvents lo (m_Id (gld st a)) (lo \<noteq> 0))] st))"

definition LogGuildEvent :: "'a guild_env_scheme \<Rightarrow> nat \<Rightarrow> u8 \<Rightarrow> u32 \<Rightarrow> u32 \<Rightarrow> u8 \<Rightarrow> gust \<Rightarrow> gust" where
  "LogGuildEvent e a EventType p1 p2 NewRank st =
     (let g = gld st a;
          ev = \<lparr>el_LogGuid = GuildEventlogMaxGuid g, el_EventType = EventType, el_PlayerGuid1 = p1,
                el_PlayerGuid2 = p2, el_NewRank = NewRank, el_TimeStamp = ucast (ucast (ge_time e) :: u32)\<rparr>;
          full = length (m_GuildEventlog g) > GUILD_EVENTLOG_MAX_ENTRIES;
          st = (if full then u_sql [OnLog (QDeleteEvent (m_Id g) (el_LogGuid (hd (m_GuildEventlog g))))] st else st);
          st = upd_gld a (\<lambda>g. g\<lparr>GuildEventlogMaxGuid := GuildEventlogMaxGuid g + 1,
             m_GuildEventlog := (if full then tl (m_GuildEventlog g) else m_GuildEventlog g) @ [ev]\<rparr>) st
      in u_sql [OnLog (QInsertEvent (m_Id g) ev)] st)"

definition eventlog_fields :: "'a guild_env_scheme \<Rightarrow> eventlog_entry \<Rightarrow> field list" where
  "eventlog_fields e ev =
     [U8 (el_EventType ev), U64 (ucast (el_PlayerGuid1 ev))] @
     (if el_EventType ev \<noteq> GUILD_EVENT_LOG_JOIN_GUILD \<and> el_EventType ev \<noteq> GUILD_EVENT_LOG_LEAVE_GUILD
      then [U64 (ucast (el_PlayerGuid2 ev))] else []) @
     (if el_EventType ev = GUILD_EVENT_LOG_PROMOTE_PLAYER \<or> el_EventType ev = GUILD_EVENT_LOG_DEMOTE_PLAYER
      then [U8 (el_NewRank ev)] else []) @
     [U32 (ucast (ge_time e - el_TimeStamp ev))]"

definition DisplayGuildEventlog :: "'a guild_env_scheme \<Rightarrow> nat \<Rightarrow> eventlog_entry list \<Rightarrow> u64 \<Rightarrow> gust \<Rightarrow> gust" where
  "DisplayGuildEventlog e a rows p st =
     (let st = (if m_eventlogloaded (gld st a) then st else LoadGuildEventLogFromDB a rows st);
          log = m_GuildEventlog (gld st a)
      in u_emit [USend p (mk_packet MSG_GUILD_EVENT_LOG_QUERY
           (U8 (word_of_nat (length log)) # concat (map (eventlog_fields e) log)))] st)"

section \<open>Founding and loading\<close>

definition Guild_Create :: "'a guild_env_scheme \<Rightarrow> nat \<Rightarrow> u64 \<Rightarrow> string \<Rightarrow> gust \<Rightarrow> bool \<times> gust" where
  "Guild_Create e a leader gname st =
     (if GetGuildByName gname st \<noteq> None then (False, st)
      else
        (case GenerateGuildId st of (i, st) \<Rightarrow>
           (let st = upd_gld a (\<lambda>g. g\<lparr>m_LeaderGuid := leader, m_Name := gname, GINFO := [], MOTD := ''No message set.'',
                   m_GuildBankMoney := 0, m_PurchasedTabs := 0, m_Id := i, m_Created := ge_date e\<rparr>) st;
                g = gld st a;
                st = u_sql [OnRank (QDeleteRanks i), OnMember (QDeleteMembers i),
                       OnGuild (QInsertGuild i gname (GUID_LOPART leader) [] (MOTD g) (m_Emblem g) 0)] st;
                st = CreateDefaultGuildRanks e a st
            in Guild_AddMember e a leader GR_GUILDMASTER st)))"

record guild_row =
  gr_guildid :: u32
  gr_name :: string
  gr_leaderguid :: u32
  gr_emblem :: "u32 list"
  gr_info :: string
  gr_motd :: string
  gr_createdate :: u64
  gr_BankMoney :: u64
  gr_tabs :: u32

text \<open>\<open>localtime\<close> of the creation date is the argument \<open>date\<close>.\<close>

definition LoadGuildFromDB :: "(u64 \<Rightarrow> u32 \<times> u32 \<times> u32) \<Rightarrow> guild_row \<Rightarrow> guild \<Rightarrow> guild" where
  "LoadGuildFromDB date r g =
     (let g = g\<lparr>m_Id := gr_guildid r, m_Name := gr_name r, m_LeaderGuid := player_guid (gr_leaderguid r),
            m_Emblem := gr_emblem r, GINFO := gr_info r, MOTD := gr_motd r, m_GuildBankMoney := gr_BankMoney r,
            m_PurchasedTabs := ucast (gr_tabs r)\<rparr>;
          g = (if unat (m_PurchasedTabs g) > GUILD_BANK_MAX_TABS then g\<lparr>m_PurchasedTabs := 6\<rparr> else g)
      in if sint (gr_createdate r) > 0 then g\<lparr>m_Created := date (gr_createdate r)\<rparr> else g)"

record rank_row =
  rr_guildid :: u32
  rr_rid :: u32
  rr_name :: string
  rr_rights :: u32
  rr_money :: u32

text \<open>
  The rows of all guilds come from one query in the order of the guild ids; a guild takes its own and
  leaves the rest. Rows of guilds that do not exist are deleted.
\<close>

fun load_ranks :: "nat \<Rightarrow> rank_row list \<Rightarrow> bool \<Rightarrow> gust \<Rightarrow> rank_row list \<times> bool \<times> gust" where
  "load_ranks a [] broken st = ([], broken, st)"
| "load_ranks a (r # rs) broken st =
     (if rr_guildid r < m_Id (gld st a) then load_ranks a rs broken (u_sql [OnRank (QDeleteRanks (rr_guildid r))] st)
      else if rr_guildid r > m_Id (gld st a) then (r # rs, broken, st)
      else
        (let g = gld st a;
             broken = (broken \<or> rr_rid r \<noteq> GetNrRanks g + 1);
             rights = (if m_Ranks g = [] then rr_rights r OR right_code GR_RIGHT_ALL else rr_rights r)
         in load_ranks a rs broken (upd_gld a (AddRank (rr_name r) rights (rr_money r)) st)))"

definition repair_ranks :: "nat \<Rightarrow> gust \<Rightarrow> gust" where
  "repair_ranks a st =
     (let g = gld st a
      in u_sql (OnRank (QDeleteRanks (m_Id g)) #
           map (\<lambda>(i, r). OnRank (QInsertRank (m_Id g) (word_of_nat i) (ri_Name r) (ri_Rights r))) (enumerate 0 (m_Ranks g))) st)"

definition LoadRanksFromDB ::
  "'a guild_env_scheme \<Rightarrow> nat \<Rightarrow> rank_row list option \<Rightarrow> gust \<Rightarrow> rank_row list option \<times> gust" where
  "LoadRanksFromDB e a result st =
     (case result of
        None \<Rightarrow> (None, CreateDefaultGuildRanks e a st)
      | Some rows \<Rightarrow>
          (case load_ranks a rows False st of
             (rows, broken, st) \<Rightarrow>
               if length (m_Ranks (gld st a)) < 5
               then (Some rows, CreateDefaultGuildRanks e a (upd_gld a (\<lambda>g. g\<lparr>m_Ranks := []\<rparr>) st))
               else (Some rows, if broken then repair_ranks a st else st)))"

record guild_member_row =
  mw_guildid :: u32
  mw_guid :: u32
  mw_rank :: u32
  mw_pnote :: string
  mw_offnote :: string
  mw_BankResetTimeMoney :: u32
  mw_BankRemMoney :: u32
  mw_tabs :: "(u32 \<times> u32) list"
  mw_name :: string
  mw_level :: u8
  mw_class :: u8
  mw_zone :: u32
  mw_logout :: u64
  mw_account :: u32

definition loaded_member :: "'a guild_env_scheme \<Rightarrow> guild \<Rightarrow> guild_member_row \<Rightarrow> guild_member" where
  "loaded_member e g r =
     \<lparr>gm_accountId = mw_account r, gm_Name = mw_name r,
      gm_RankId = (if unat (mw_rank r) \<ge> length (m_Ranks g) then GetLowestRank g else mw_rank r),
      gm_Level = mw_level r, gm_Class = mw_class r,
      gm_ZoneId = (if mw_zone r = 0 then ge_zoneFromDB e (player_guid (mw_guid r)) else mw_zone r),
      gm_LogoutTime = mw_logout r, gm_Pnote = mw_pnote r, gm_OFFnote = mw_offnote r,
      gm_BankResetTimeMoney = mw_BankResetTimeMoney r, gm_BankRemMoney = mw_BankRemMoney r,
      gm_BankResetTimeTab = map fst (mw_tabs r), gm_BankRemSlotsTab = map snd (mw_tabs r)\<rparr>"

fun load_members :: "'a guild_env_scheme \<Rightarrow> nat \<Rightarrow> guild_member_row list \<Rightarrow> gust \<Rightarrow> guild_member_row list \<times> gust" where
  "load_members e a [] st = ([], st)"
| "load_members e a (r # rs) st =
     (if mw_guildid r < m_Id (gld st a) then load_members e a rs (u_sql [OnMember (QDeleteMembers (mw_guildid r))] st)
      else if mw_guildid r > m_Id (gld st a) then (r # rs, st)
      else if mw_level r < 1 \<or> mw_class r < ucast CLASS_WARRIOR \<or> mw_class r \<ge> ucast MAX_CLASSES
      then load_members e a rs (u_sql [OnMember (QDeleteMember (mw_guid r))] st)
      else load_members e a rs
        (upd_gld a (\<lambda>g. g\<lparr>gmembers := om_put (GUID_LOPART (player_guid (mw_guid r))) (loaded_member e g r) (gmembers g)\<rparr>) st))"

definition LoadMembersFromDB ::
  "'a guild_env_scheme \<Rightarrow> nat \<Rightarrow> guild_member_row list option \<Rightarrow> gust \<Rightarrow> bool \<times> guild_member_row list option \<times> gust" where
  "LoadMembersFromDB e a result st =
     (case result of
        None \<Rightarrow> (False, None, st)
      | Some rows \<Rightarrow>
          (case load_members e a rows st of
             (rows, st) \<Rightarrow>
               if gmembers (gld st a) = [] then (False, Some rows, st)
               else (True, Some rows, upd_gld a UpdateAccountsNumber st)))"

end
