(* ===== verification/GuildBank.thy ===== *)
theory GuildBank
  imports Guild "HOL-Library.Monad_Syntax"
begin

text \<open>
  The bank of a guild (game/Guild.cpp): money and item withdrawals with their daily limits, the rights
  of the ranks on the tabs, the logs, the tabs and the items in them. A dereference of a null tab or an
  index beyond the tabs is \<open>None\<close>.
\<close>

section \<open>Rights and daily limits\<close>

abbreviation GUILD_BANK_RIGHT_VIEW_TAB :: u32 where "GUILD_BANK_RIGHT_VIEW_TAB \<equiv> 1"
abbreviation GUILD_BANK_RIGHT_DEPOSIT_ITEM :: u32 where "GUILD_BANK_RIGHT_DEPOSIT_ITEM \<equiv> 3"
abbreviation GUILD_BANK_RIGHT_FULL :: u32 where "GUILD_BANK_RIGHT_FULL \<equiv> 0xFF"

definition GetBankRights :: "u32 \<Rightarrow> u8 \<Rightarrow> guild \<Rightarrow> u32" where
  "GetBankRights r tab g =
     (if unat r \<ge> length (m_Ranks g) \<or> unat tab \<ge> GUILD_BANK_MAX_TABS then 0
      else ri_TabRight (m_Ranks g ! unat r) ! unat tab)"

definition IsMemberHaveRights :: "u32 \<Rightarrow> u8 \<Rightarrow> u32 \<Rightarrow> guild \<Rightarrow> bool" where
  "IsMemberHaveRights low tab rights g \<longleftrightarrow>
     (case map_of (gmembers g) low of
        None \<Rightarrow> False
      | Some m \<Rightarrow> if gm_RankId m = GR_GUILDMASTER then True
                  else GetBankRights (gm_RankId m) tab g AND rights = rights)"

definition GetBankMoneyPerDay :: "u32 \<Rightarrow> guild \<Rightarrow> u32" where
  "GetBankMoneyPerDay r g =
     (if unat r \<ge> length (m_Ranks g) then 0
      else if r = GR_GUILDMASTER then WITHDRAW_UNLIMITED
      else ri_BankMoneyPerDay (m_Ranks g ! unat r))"

definition GetBankSlotPerDay :: "u32 \<Rightarrow> u8 \<Rightarrow> guild \<Rightarrow> u32" where
  "GetBankSlotPerDay r tab g =
     (if unat r \<ge> length (m_Ranks g) \<or> unat tab \<ge> GUILD_BANK_MAX_TABS then 0
      else if r = GR_GUILDMASTER then WITHDRAW_UNLIMITED
      else ri_TabSlotPerDay (m_Ranks g ! unat r) ! unat tab)"

text \<open>The current minute; a day has 1440 of them.\<close>

definition cur_minute :: "'a guild_env_scheme \<Rightarrow> u32" where
  "cur_minute e = ucast (ge_time e div 60)"

definition GetMemberMoneyWithdrawRem :: "'a guild_env_scheme \<Rightarrow> nat \<Rightarrow> u32 \<Rightarrow> gust \<Rightarrow> u32 \<times> gust" where
  "GetMemberMoneyWithdrawRem e a low st =
     (let g = gld st a in
      case map_of (gmembers g) low of
        None \<Rightarrow> (0, st)
      | Some m \<Rightarrow>
          if gm_RankId m = GR_GUILDMASTER then (WITHDRAW_UNLIMITED, st)
          else if cur_minute e > gm_BankResetTimeMoney m + 1440
          then
            (let rem = GetBankMoneyPerDay (gm_RankId m) g
             in (rem, u_sql [OnMember (QResetMoney (cur_minute e) rem (m_Id g) low)]
                  (upd_gld a (upd_member low (\<lambda>m. m\<lparr>gm_BankResetTimeMoney := cur_minute e, gm_BankRemMoney := rem\<rparr>)) st)))
          else (gm_BankRemMoney m, st))"

definition GetMemberSlotWithdrawRem :: "'a guild_env_scheme \<Rightarrow> nat \<Rightarrow> u32 \<Rightarrow> u8 \<Rightarrow> gust \<Rightarrow> u32 \<times> gust" where
  "GetMemberSlotWithdrawRem e a low tab st =
     (let g = gld st a in
      case map_of (gmembers g) low of
        None \<Rightarrow> (0, st)
      | Some m \<Rightarrow>
          if gm_RankId m = GR_GUILDMASTER then (WITHDRAW_UNLIMITED, st)
          else if GetBankRights (gm_RankId m) tab g AND GUILD_BANK_RIGHT_VIEW_TAB \<noteq> GUILD_BANK_RIGHT_VIEW_TAB then (0, st)
          else if cur_minute e - gm_BankResetTimeTab m ! unat tab \<ge> 1440
          then
            (let rem = GetBankSlotPerDay (gm_RankId m) tab g
             in (rem, u_sql [OnMember (QResetTab (ucast tab) (cur_minute e) rem (m_Id g) low)]
                  (upd_gld a (upd_member low (\<lambda>m. m\<lparr>gm_BankResetTimeTab := (gm_BankResetTimeTab m)[unat tab := cur_minute e],
                    gm_BankRemSlotsTab := (gm_BankRemSlotsTab m)[unat tab := rem]\<rparr>)) st)))
          else (gm_BankRemSlotsTab m ! unat tab, st))"

text \<open>The money is a signed number here; the statement gets it after the correction.\<close>

definition SetBankMoney :: "nat \<Rightarrow> u64 \<Rightarrow> gust \<Rightarrow> gust" where
  "SetBankMoney a money st =
     (let money = (if sint money < 0 then 0 else money)
      in u_sql [OnGuild (QSetBankMoney money (m_Id (gld st a)))] (upd_gld a (\<lambda>g. g\<lparr>m_GuildBankMoney := money\<rparr>) st))"

definition MemberMoneyWithdraw :: "'a guild_env_scheme \<Rightarrow> nat \<Rightarrow> u32 \<Rightarrow> u32 \<Rightarrow> gust \<Rightarrow> bool \<times> gust" where
  "MemberMoneyWithdraw e a amount low st =
     (case GetMemberMoneyWithdrawRem e a low st of (right, st) \<Rightarrow>
        if right < amount \<or> m_GuildBankMoney (gld st a) < ucast amount then (False, st)
        else
          (let st = SetBankMoney a (m_GuildBankMoney (gld st a) - ucast amount) st in
           if right < WITHDRAW_UNLIMITED
           then
             (case map_of (gmembers (gld st a)) low of
                None \<Rightarrow> (False, st)
              | Some m \<Rightarrow>
                  (True, u_sql [OnMember (QSetRemMoney (gm_BankRemMoney m - amount) (m_Id (gld st a)) low)]
                    (upd_gld a (upd_member low (\<lambda>m. m\<lparr>gm_BankRemMoney := gm_BankRemMoney m - amount\<rparr>)) st)))
           else (True, st)))"

definition MemberItemWithdraw :: "'a guild_env_scheme \<Rightarrow> nat \<Rightarrow> u8 \<Rightarrow> u32 \<Rightarrow> gust \<Rightarrow> bool \<times> gust" where
  "MemberItemWithdraw e a tab low st =
     (case GetMemberSlotWithdrawRem e a low tab st of (right, st) \<Rightarrow>
        if right = 0 then (False, st)
        else if right < WITHDRAW_UNLIMITED
        then
          (case map_of (gmembers (gld st a)) low of
             None \<Rightarrow> (False, st)
           | Some m \<Rightarrow>
               (let rem = gm_BankRemSlotsTab m ! unat tab - 1
                in (True, u_sql [OnMember (QSetRemSlots (ucast tab) rem (m_Id (gld st a)) low)]
                     (upd_gld a (upd_member low (\<lambda>m. m\<lparr>gm_BankRemSlotsTab := (gm_BankRemSlotsTab m)[unat tab := rem]\<rparr>)) st))))
        else (True, st))"

definition upd_rank_members :: "u32 \<Rightarrow> (guild_member \<Rightarrow> guild_member) \<Rightarrow> guild \<Rightarrow> guild" where
  "upd_rank_members r f g = g\<lparr>gmembers := map (\<lambda>(k, m). (k, if gm_RankId m = r then f m else m)) (gmembers g)\<rparr>"

definition SetBankMoneyPerDay :: "nat \<Rightarrow> u32 \<Rightarrow> u32 \<Rightarrow> gust \<Rightarrow> gust" where
  "SetBankMoneyPerDay a r money st =
     (if unat r \<ge> length (m_Ranks (gld st a)) then st
      else
        (let money = (if r = GR_GUILDMASTER then WITHDRAW_UNLIMITED else money);
             st = upd_gld a (upd_rank r (\<lambda>i. i\<lparr>ri_BankMoneyPerDay := money\<rparr>)) st;
             st = upd_gld a (upd_rank_members r (\<lambda>m. m\<lparr>gm_BankResetTimeMoney := 0\<rparr>)) st;
             i = m_Id (gld st a)
         in u_sql [OnRank (QSetMoneyPerDay money (r + 1) i), OnMember (QForgetMoneyReset i r)] st))"

definition SetBankRightsAndSlots :: "nat \<Rightarrow> u32 \<Rightarrow> u8 \<Rightarrow> u32 \<Rightarrow> u32 \<Rightarrow> bool \<Rightarrow> gust \<Rightarrow> gust" where
  "SetBankRightsAndSlots a r tab right nbSlots db st =
     (let g = gld st a in
      if unat r \<ge> length (m_Ranks g) \<or> unat tab \<ge> GUILD_BANK_MAX_TABS \<or> tab \<ge> m_PurchasedTabs g
      then u_sql [OnRank (QDeleteBankRight (m_Id g) (ucast tab) r)] st
      else
        (let nbSlots = (if r = GR_GUILDMASTER then WITHDRAW_UNLIMITED else nbSlots);
             right = (if r = GR_GUILDMASTER then GUILD_BANK_RIGHT_FULL else right);
             st = upd_gld a (upd_rank r (\<lambda>i. i\<lparr>ri_TabSlotPerDay := (ri_TabSlotPerDay i)[unat tab := nbSlots],
               ri_TabRight := (ri_TabRight i)[unat tab := right]\<rparr>)) st
         in if \<not> db then st
            else u_sql [OnRank (QDeleteBankRight (m_Id g) (ucast tab) r),
                   OnRank (QInsertBankRights (m_Id g) (ucast tab) r right nbSlots), OnMember (QForgetTabReset (ucast tab) (m_Id g) r)]
              (upd_gld a (upd_rank_members r (\<lambda>m. m\<lparr>gm_BankResetTimeTab := replicate GUILD_BANK_MAX_TABS 0\<rparr>)) st)))"

record bank_right_row =
  br_guildid :: u32
  br_tab :: u8
  br_rank :: u32
  br_right :: u16
  br_slots :: u16

fun load_bank_rights :: "nat \<Rightarrow> bank_right_row list \<Rightarrow> gust \<Rightarrow> bank_right_row list \<times> gust" where
  "load_bank_rights a [] st = ([], st)"
| "load_bank_rights a (r # rs) st =
     (if br_guildid r < m_Id (gld st a) then load_bank_rights a rs (u_sql [OnRank (QDeleteBankRights (br_guildid r))] st)
      else if br_guildid r > m_Id (gld st a) then (r # rs, st)
      else load_bank_rights a rs
        (SetBankRightsAndSlots a (br_rank r) (br_tab r) (ucast (br_right r)) (ucast (br_slots r)) False st))"

definition LoadBankRightsFromDB :: "nat \<Rightarrow> bank_right_row list option \<Rightarrow> gust \<Rightarrow> bank_right_row list option \<times> gust" where
  "LoadBankRightsFromDB a result st =
     (case result of None \<Rightarrow> (None, st) | Some rows \<Rightarrow> (case load_bank_rights a rows st of (rows, st) \<Rightarrow> (Some rows, st)))"

section \<open>The bank log\<close>

abbreviation GUILD_BANK_LOG_DEPOSIT_ITEM :: u8 where "GUILD_BANK_LOG_DEPOSIT_ITEM \<equiv> 1"
abbreviation GUILD_BANK_LOG_WITHDRAW_ITEM :: u8 where "GUILD_BANK_LOG_WITHDRAW_ITEM \<equiv> 2"
abbreviation GUILD_BANK_LOG_MOVE_ITEM :: u8 where "GUILD_BANK_LOG_MOVE_ITEM \<equiv> 3"
abbreviation GUILD_BANK_LOG_DEPOSIT_MONEY :: u8 where "GUILD_BANK_LOG_DEPOSIT_MONEY \<equiv> 4"
abbreviation GUILD_BANK_LOG_WITHDRAW_MONEY :: u8 where "GUILD_BANK_LOG_WITHDRAW_MONEY \<equiv> 5"
abbreviation GUILD_BANK_LOG_REPAIR_MONEY :: u8 where "GUILD_BANK_LOG_REPAIR_MONEY \<equiv> 6"
abbreviation GUILD_BANK_LOG_MOVE_ITEM2 :: u8 where "GUILD_BANK_LOG_MOVE_ITEM2 \<equiv> 7"

definition isMoneyEvent :: "u8 \<Rightarrow> bool" where
  "isMoneyEvent LogEntry \<longleftrightarrow>
     LogEntry = GUILD_BANK_LOG_DEPOSIT_MONEY \<or> LogEntry = GUILD_BANK_LOG_WITHDRAW_MONEY \<or>
     LogEntry = GUILD_BANK_LOG_REPAIR_MONEY"

text \<open>The rows of the log query with their tab, the newest first.\<close>

definition load_bank_event :: "u8 \<times> bank_event \<Rightarrow> guild \<Rightarrow> guild" where
  "load_bank_event row g =
     (case row of (tab, ev) \<Rightarrow>
        if unat tab \<ge> GUILD_BANK_MAX_TABS then g
        else if (isMoneyEvent (be_LogEntry ev) \<and> length (m_BankLog_Money g) \<ge> GUILD_BANK_MAX_LOGS) \<or>
          length (m_BankLog_Item g ! unat tab) \<ge> GUILD_BANK_MAX_LOGS
        then g
        else if isMoneyEvent (be_LogEntry ev) then g\<lparr>m_BankLog_Money := ev # m_BankLog_Money g\<rparr>
        else g\<lparr>m_BankLog_Item := (m_BankLog_Item g)[unat tab := ev # m_BankLog_Item g ! unat tab]\<rparr>)"

definition LoadGuildBankEventLogFromDB :: "nat \<Rightarrow> (u8 \<times> bank_event) list \<Rightarrow> gust \<Rightarrow> gust" where
  "LoadGuildBankEventLogFromDB a rows st =
     (if rows = [] then st
      else
        (let st = upd_gld a (fold load_bank_event rows) st; g = gld st a
         in u_sql (map (\<lambda>log. OnLog (QDeleteBankLogsBelow (m_Id g) (be_LogGuid (hd log))))
              (filter (\<lambda>log. log \<noteq> []) (m_BankLog_Money g # m_BankLog_Item g))) st))"

definition UnloadGuildBankEventLog :: "guild \<Rightarrow> guild" where
  "UnloadGuildBankEventLog g = g\<lparr>m_BankLog_Money := [], m_BankLog_Item := replicate GUILD_BANK_MAX_TABS []\<rparr>"

definition RenumBankLogs :: "nat \<Rightarrow> (u32 \<times> u32) option \<Rightarrow> gust \<Rightarrow> gust" where
  "RenumBankLogs a minmax st =
     (case minmax of
        None \<Rightarrow> st
      | Some (lo, hi) \<Rightarrow>
          upd_gld a (\<lambda>g. g\<lparr>LogMaxGuid := hi + 1\<rparr>)
            (u_sql [OnLog (QRenumBankLogs lo (m_Id (gld st a)) (lo \<noteq> 0))] st))"

text \<open>One log, with the oldest entry dropped when it is over-full.\<close>

definition push_event :: "bank_event \<Rightarrow> bank_event list \<Rightarrow> bank_event list" where
  "push_event ev log = (if length log > GUILD_BANK_MAX_LOGS then tl log else log) @ [ev]"

definition LogBankEvent ::
  "'a guild_env_scheme \<Rightarrow> nat \<Rightarrow> u8 \<Rightarrow> u8 \<Rightarrow> u32 \<Rightarrow> u32 \<Rightarrow> u8 \<Rightarrow> u8 \<Rightarrow> gust \<Rightarrow> gust" where
  "LogBankEvent e a LogEntry tab low ItemOrMoney ItemStackCount DestTabId st =
     (let g = gld st a;
          ev = \<lparr>be_LogGuid = LogMaxGuid g, be_LogEntry = LogEntry, be_PlayerGuid = low, be_ItemOrMoney = ItemOrMoney,
                be_ItemStackCount = ItemStackCount, be_DestTabId = DestTabId, be_TimeStamp = ucast (ucast (ge_time e) :: u32)\<rparr>;
          log = (if isMoneyEvent LogEntry then m_BankLog_Money g else m_BankLog_Item g ! unat tab);
          st = (if length log > GUILD_BANK_MAX_LOGS
                then u_sql [OnLog (QDeleteBankLog (m_Id g) (be_LogGuid (hd log)))] st else st);
          st = upd_gld a (\<lambda>g. if isMoneyEvent LogEntry
             then g\<lparr>LogMaxGuid := LogMaxGuid g + 1, m_BankLog_Money := push_event ev (m_BankLog_Money g)\<rparr>
             else g\<lparr>LogMaxGuid := LogMaxGuid g + 1,
               m_BankLog_Item := (m_BankLog_Item g)[unat tab := push_event ev (m_BankLog_Item g ! unat tab)]\<rparr>) st
      in u_sql [OnLog (QInsertBankLog (m_Id g) ev (ucast tab))] st)"

abbreviation MSG_GUILD_BANK_LOG_QUERY :: u16 where "MSG_GUILD_BANK_LOG_QUERY \<equiv> 0x3ED"
abbreviation MSG_GUILD_PERMISSIONS :: u16 where "MSG_GUILD_PERMISSIONS \<equiv> 0x3FC"
abbreviation MSG_GUILD_BANK_MONEY_WITHDRAWN :: u16 where "MSG_GUILD_BANK_MONEY_WITHDRAWN \<equiv> 0x3FD"
abbreviation MSG_QUERY_GUILD_BANK_TEXT :: u16 where "MSG_QUERY_GUILD_BANK_TEXT \<equiv> 0x409"
abbreviation SMSG_GUILD_BANK_LIST :: u16 where "SMSG_GUILD_BANK_LIST \<equiv> 0x3E7"

definition money_log_fields :: "'a guild_env_scheme \<Rightarrow> bank_event \<Rightarrow> field list" where
  "money_log_fields e ev =
     [U8 (be_LogEntry ev), U64 (player_guid (be_PlayerGuid ev)), U32 (be_ItemOrMoney ev),
      U32 (ucast (ge_time e - be_TimeStamp ev))]"

definition item_log_fields :: "'a guild_env_scheme \<Rightarrow> bank_event \<Rightarrow> field list" where
  "item_log_fields e ev =
     [U8 (be_LogEntry ev), U64 (player_guid (be_PlayerGuid ev)), U32 (be_ItemOrMoney ev), U8 (be_ItemStackCount ev)] @
     (if be_LogEntry ev = GUILD_BANK_LOG_MOVE_ITEM \<or> be_LogEntry ev = GUILD_BANK_LOG_MOVE_ITEM2
      then [U8 (be_DestTabId ev)] else []) @
     [U32 (ucast (ge_time e - be_TimeStamp ev))]"

definition DisplayGuildBankLogs :: "'a guild_env_scheme \<Rightarrow> nat \<Rightarrow> u8 \<Rightarrow> u64 \<Rightarrow> gust \<Rightarrow> gust" where
  "DisplayGuildBankLogs e a tab p st =
     (let g = gld st a in
      if unat tab > GUILD_BANK_MAX_TABS then st
      else
        (let money = (unat tab = GUILD_BANK_MAX_TABS);
             log = (if money then m_BankLog_Money g else m_BankLog_Item g ! unat tab)
         in u_emit [USend p (mk_packet MSG_GUILD_BANK_LOG_QUERY
              ([U8 tab, U8 (word_of_nat (length log))] @
               concat (map (if money then money_log_fields e else item_log_fields e) log)))] st))"

section \<open>Tabs\<close>

definition GetBankTab :: "u8 \<Rightarrow> guild \<Rightarrow> bank_tab option" where
  "GetBankTab tab g = (if unat tab < length (m_TabListMap g) then m_TabListMap g ! unat tab else None)"

definition upd_tab :: "u8 \<Rightarrow> (bank_tab \<Rightarrow> bank_tab) \<Rightarrow> guild \<Rightarrow> guild" where
  "upd_tab tab f g = g\<lparr>m_TabListMap := (m_TabListMap g)[unat tab := map_option f (m_TabListMap g ! unat tab)]\<rparr>"

definition empty_tab :: bank_tab where
  "empty_tab = \<lparr>bt_Slots = replicate GUILD_BANK_MAX_SLOTS None, bt_Name = [], bt_Icon = [], bt_Text = []\<rparr>"

text \<open>\<open>vector::resize\<close> cuts the end off or fills up with null pointers.\<close>

definition resize_tabs :: "nat \<Rightarrow> bank_tab option list \<Rightarrow> bank_tab option list" where
  "resize_tabs n tabs = take n tabs @ replicate (n - length tabs) None"

definition CreateNewBankTab :: "nat \<Rightarrow> gust \<Rightarrow> gust" where
  "CreateNewBankTab a st =
     (if unat (m_PurchasedTabs (gld st a)) \<ge> GUILD_BANK_MAX_TABS then st
      else
        (let n = m_PurchasedTabs (gld st a) + 1;
             st = upd_gld a (\<lambda>g. g\<lparr>m_PurchasedTabs := n,
               m_TabListMap := (resize_tabs (unat n) (m_TabListMap g))[unat (n - 1) := Some empty_tab]\<rparr>) st;
             i = m_Id (gld st a)
         in u_sql [OnBank (QDeleteTab i (ucast (n - 1))), OnBank (QInsertTab i (ucast (n - 1)))] st))"

definition SetGuildBankTabInfo :: "nat \<Rightarrow> u8 \<Rightarrow> string \<Rightarrow> string \<Rightarrow> gust \<Rightarrow> gust" where
  "SetGuildBankTabInfo a tab name icon st =
     (case GetBankTab tab (gld st a) of
        None \<Rightarrow> st
      | Some t \<Rightarrow>
          if unat tab \<ge> GUILD_BANK_MAX_TABS \<or> bt_Name t = name \<and> bt_Icon t = icon then st
          else u_sql [OnBank (QSetTabInfo name icon (m_Id (gld st a)) (ucast tab))]
            (upd_gld a (upd_tab tab (\<lambda>t. t\<lparr>bt_Name := name, bt_Icon := icon\<rparr>)) st))"

definition SendGuildBankTabText :: "'a guild_env_scheme \<Rightarrow> nat \<Rightarrow> u8 \<Rightarrow> u64 option \<Rightarrow> gust \<Rightarrow> gust" where
  "SendGuildBankTabText e a tab session st =
     (if unat tab > GUILD_BANK_MAX_TABS then st
      else
        (case GetBankTab tab (gld st a) of
           None \<Rightarrow> st
         | Some t \<Rightarrow>
             (let pk = mk_packet MSG_QUERY_GUILD_BANK_TEXT [U8 tab, Str (bt_Text t)]
              in case session of Some p \<Rightarrow> u_emit [USend p pk] st | None \<Rightarrow> Guild_BroadcastPacket e a pk st)))"

text \<open>\<open>utf8truncate\<close> of the vendored library is the argument \<open>trunc\<close>.\<close>

definition SetGuildBankTabText ::
  "'a guild_env_scheme \<Rightarrow> (string \<Rightarrow> nat \<Rightarrow> string) \<Rightarrow> nat \<Rightarrow> u8 \<Rightarrow> string \<Rightarrow> gust \<Rightarrow> gust" where
  "SetGuildBankTabText e trunc a tab txt st =
     (case GetBankTab tab (gld st a) of
        None \<Rightarrow> st
      | Some t \<Rightarrow>
          if unat tab \<ge> GUILD_BANK_MAX_TABS \<or> bt_Text t = txt then st
          else
            (let txt = trunc txt 500;
                 st = upd_gld a (upd_tab tab (\<lambda>t. t\<lparr>bt_Text := txt\<rparr>)) st;
                 st = u_sql [OnBank (QSetTabText txt (m_Id (gld st a)) (ucast tab))] st
             in SendGuildBankTabText e a tab None st))"

section \<open>Items\<close>

text \<open>
  What the bank asks of the rest of the server: who stands at a bank chest or a tabard designer, who
  feigns death, the random properties a fresh copy gets, and the inventory of a player.
\<close>

type_synonym pos_count = "u8 \<times> u8"

record bank_env = guild_env +
  bx_bank :: "u64 \<Rightarrow> u64 \<Rightarrow> bool"
  bx_tabard :: "u64 \<Rightarrow> u64 \<Rightarrow> bool"
  bx_died :: "u64 \<Rightarrow> bool"
  bx_randomProps :: "u32 \<Rightarrow> u32 \<Rightarrow> u32 \<times> u32"
  bx_itemAt :: "u64 \<Rightarrow> u8 \<Rightarrow> u8 \<Rightarrow> nat option"
  bx_canBeTraded :: "nat \<Rightarrow> bool"
  bx_canStore :: "u64 \<Rightarrow> u8 \<Rightarrow> u8 \<Rightarrow> bank_item \<Rightarrow> bool \<Rightarrow> u8 \<times> (u8 \<times> u8 \<times> u32) list"

abbreviation EQUIP_ERR_OK :: u8 where "EQUIP_ERR_OK \<equiv> 0"
abbreviation EQUIP_ERR_ITEM_CANT_STACK :: u8 where "EQUIP_ERR_ITEM_CANT_STACK \<equiv> 19"
abbreviation EQUIP_ERR_ITEMS_CANT_BE_SWAPPED :: u8 where "EQUIP_ERR_ITEMS_CANT_BE_SWAPPED \<equiv> 21"
abbreviation EQUIP_ERR_ITEM_NOT_FOUND :: u8 where "EQUIP_ERR_ITEM_NOT_FOUND \<equiv> 23"
abbreviation EQUIP_ERR_CANT_DROP_SOULBOUND :: u8 where "EQUIP_ERR_CANT_DROP_SOULBOUND \<equiv> 24"
abbreviation EQUIP_ERR_COULDNT_SPLIT_ITEMS :: u8 where "EQUIP_ERR_COULDNT_SPLIT_ITEMS \<equiv> 27"
abbreviation EQUIP_ERR_BANK_FULL :: u8 where "EQUIP_ERR_BANK_FULL \<equiv> 51"
abbreviation EQUIP_ERR_NONE :: u8 where "EQUIP_ERR_NONE \<equiv> 59"
abbreviation NULL_BAG :: u8 where "NULL_BAG \<equiv> 0"
abbreviation NULL_SLOT :: u8 where "NULL_SLOT \<equiv> 255"

definition upd_item :: "nat \<Rightarrow> (bank_item \<Rightarrow> bank_item) \<Rightarrow> gust \<Rightarrow> gust" where
  "upd_item x f st = st\<lparr>gt_items := (gt_items st)(x := map_option f (gt_items st x))\<rparr>"

definition SetCount :: "nat \<Rightarrow> u32 \<Rightarrow> gust \<Rightarrow> gust" where
  "SetCount x n = upd_item x (\<lambda>i. i\<lparr>bi_count := n\<rparr>)"

definition delete_item :: "nat \<Rightarrow> gust \<Rightarrow> gust" where
  "delete_item x st = st\<lparr>gt_items := (gt_items st)(x := None)\<rparr>"

definition GenerateItemGuid :: "gust \<Rightarrow> u32 \<times> gust" where
  "GenerateItemGuid st =
     (let st = (if gt_itemGuid st \<ge> 0xFFFFFFFE then u_emit [UStop] st else st)
      in (gt_itemGuid st, st\<lparr>gt_itemGuid := gt_itemGuid st + 1\<rparr>))"

text \<open>A copy of an item with a count of its own; no pointer at count 0.\<close>

definition CloneItem :: "'a bank_env_scheme \<Rightarrow> nat \<Rightarrow> u32 \<Rightarrow> gust \<Rightarrow> (nat option \<times> gust) option" where
  "CloneItem e x n st = do {
     i \<leftarrow> gt_items st x;
     if n < 1 then Some (None, st)
     else
       (case GenerateItemGuid st of (guid, st) \<Rightarrow>
          (let (prop, suffix) = (if bi_randomProperty i = 0 then (0, 0) else bx_randomProps e (bi_entry i) (bi_randomProperty i));
               c = i\<lparr>bi_guid := guid, bi_count := min n (bi_stackable i), bi_randomProperty := prop,
                     bi_suffixFactor := suffix, bi_enchantment := 0\<rparr>;
               y = gt_nextItem st
           in Some (Some y, st\<lparr>gt_items := (gt_items st)(y \<mapsto> c), gt_nextItem := Suc y\<rparr>)))
   }"

text \<open>The pointer in a slot of a tab.\<close>

definition slot_at :: "u8 \<Rightarrow> u8 \<Rightarrow> guild \<Rightarrow> nat option option" where
  "slot_at tab slot g = do {
     t \<leftarrow> GetBankTab tab g;
     if unat slot < length (bt_Slots t) then Some (bt_Slots t ! unat slot) else None
   }"

definition set_slot :: "u8 \<Rightarrow> u8 \<Rightarrow> nat option \<Rightarrow> guild \<Rightarrow> guild" where
  "set_slot tab slot p = upd_tab tab (\<lambda>t. t\<lparr>bt_Slots := (bt_Slots t)[unat slot := p]\<rparr>)"

definition Guild_GetItem :: "u8 \<Rightarrow> u8 \<Rightarrow> guild \<Rightarrow> nat option option" where
  "Guild_GetItem tab slot g =
     (if unat tab \<ge> length (m_TabListMap g) \<or> unat slot \<ge> GUILD_BANK_MAX_SLOTS then Some None else slot_at tab slot g)"

definition AddGBankItemToDB :: "u32 \<Rightarrow> u8 \<Rightarrow> u8 \<Rightarrow> bank_item \<Rightarrow> guild_sql list" where
  "AddGBankItemToDB i tab slot it =
     [OnBank (QDeleteItem i (ucast tab) (ucast slot)),
      OnBank (QInsertItem i (ucast tab) (ucast slot) (bi_guid it) (bi_entry it))]"

definition Guild_RemoveItem :: "nat \<Rightarrow> u8 \<Rightarrow> u8 \<Rightarrow> gust \<Rightarrow> gust option" where
  "Guild_RemoveItem a tab slot st = do {
     _ \<leftarrow> slot_at tab slot (gld st a);
     Some (u_sql [OnBank (QDeleteItem (m_Id (gld st a)) (ucast tab) (ucast slot))] (upd_gld a (set_slot tab slot None) st))
   }"

text \<open>A position to store at, unless the slot is in the list already. Its count has eight bits.\<close>

definition push_pos :: "nat \<Rightarrow> u32 \<Rightarrow> pos_count list \<times> u32 \<Rightarrow> pos_count list \<times> u32" where
  "push_pos slot need dc =
     (case dc of (dest, count) \<Rightarrow>
        (let need = min need count; s = word_of_nat slot in
         if s \<in> fst ` set dest then (dest, count) else (dest @ [(s, ucast need)], count - need)))"

definition CanStoreItem_InSpecificSlot ::
  "nat \<Rightarrow> u8 \<Rightarrow> u8 \<Rightarrow> pos_count list \<times> u32 \<Rightarrow> bool \<Rightarrow> nat \<Rightarrow> gust \<Rightarrow> (u8 \<times> pos_count list \<times> u32) option" where
  "CanStoreItem_InSpecificSlot a tab slot dc swap src st = do {
     p \<leftarrow> slot_at tab slot (gld st a);
     i \<leftarrow> gt_items st src;
     (case (if p = Some src \<or> swap then None else p) of
        None \<Rightarrow> Some (EQUIP_ERR_OK, push_pos (unat slot) (bi_stackable i) dc)
      | Some y \<Rightarrow> do {
          j \<leftarrow> gt_items st y;
          if bi_entry j \<noteq> bi_entry i \<or> bi_count j \<ge> bi_stackable i then Some (EQUIP_ERR_ITEM_CANT_STACK, dc)
          else Some (EQUIP_ERR_OK, push_pos (unat slot) (bi_stackable i - bi_count j) dc)
        })
   }"

text \<open>One slot of the search for stacks to fill (\<open>merge\<close>) or for empty slots.\<close>

definition try_slot ::
  "bool \<Rightarrow> nat \<Rightarrow> nat option \<Rightarrow> nat \<Rightarrow> gust \<Rightarrow> pos_count list \<times> u32 \<Rightarrow> (pos_count list \<times> u32) option" where
  "try_slot merge src p j st dc = do {
     i \<leftarrow> gt_items st src;
     (case (if p = Some src then None else p) of
        None \<Rightarrow> Some (if merge then dc else push_pos j (bi_stackable i) dc)
      | Some y \<Rightarrow>
          if \<not> merge then Some dc
          else do {
            k \<leftarrow> gt_items st y;
            Some (if bi_entry k = bi_entry i \<and> bi_count k < bi_stackable i
                  then push_pos j (bi_stackable i - bi_count k) dc else dc)
          })
   }"

text \<open>The loop over the slots ends as soon as a position has taken the last of the count.\<close>

fun CanStoreItem_InTab ::
  "nat \<Rightarrow> u8 \<Rightarrow> pos_count list \<times> u32 \<Rightarrow> bool \<Rightarrow> nat \<Rightarrow> u8 \<Rightarrow> nat list \<Rightarrow> gust \<Rightarrow> (pos_count list \<times> u32) option" where
  "CanStoreItem_InTab a tab dc merge src skip [] st = Some dc"
| "CanStoreItem_InTab a tab dc merge src skip (j # js) st =
     (if j = unat skip then CanStoreItem_InTab a tab dc merge src skip js st
      else do {
        p \<leftarrow> slot_at tab (word_of_nat j) (gld st a);
        dc' \<leftarrow> try_slot merge src p j st dc;
        if length (fst dc') > length (fst dc) \<and> snd dc' = 0 then Some dc'
        else CanStoreItem_InTab a tab dc' merge src skip js st
      })"

definition Guild_CanStoreItem ::
  "nat \<Rightarrow> u8 \<Rightarrow> u8 \<Rightarrow> u32 \<Rightarrow> nat \<Rightarrow> bool \<Rightarrow> gust \<Rightarrow> (u8 \<times> pos_count list) option" where
  "Guild_CanStoreItem a tab slot count src swap st = do {
     i \<leftarrow> gt_items st src;
     if count > bi_count i then Some (EQUIP_ERR_COULDNT_SPLIT_ITEMS, [])
     else if bi_soulbound i then Some (EQUIP_ERR_CANT_DROP_SOULBOUND, [])
     else do {
       (res, dc) \<leftarrow> (if slot \<noteq> NULL_SLOT then CanStoreItem_InSpecificSlot a tab slot ([], count) swap src st
                     else Some (EQUIP_ERR_OK, [], count));
       if res \<noteq> EQUIP_ERR_OK then Some (res, fst dc)
       else if slot \<noteq> NULL_SLOT \<and> snd dc = 0 then Some (EQUIP_ERR_OK, fst dc)
       else do {
         dc \<leftarrow> (if bi_stackable i > 1 then CanStoreItem_InTab a tab dc True src slot [0..<GUILD_BANK_MAX_SLOTS] st
                else Some dc);
         if bi_stackable i > 1 \<and> snd dc = 0 then Some (EQUIP_ERR_OK, fst dc)
         else do {
           dc \<leftarrow> CanStoreItem_InTab a tab dc False src slot [0..<GUILD_BANK_MAX_SLOTS] st;
           Some (if snd dc = 0 then EQUIP_ERR_OK else EQUIP_ERR_BANK_FULL, fst dc)
         }
       }
     }
   }"

text \<open>\<open>_StoreItem\<close>: into an empty slot goes the item or a copy of it, a full one grows.\<close>

definition store_at ::
  "'a bank_env_scheme \<Rightarrow> nat \<Rightarrow> u8 \<Rightarrow> u8 \<Rightarrow> nat \<Rightarrow> u32 \<Rightarrow> bool \<Rightarrow> gust \<Rightarrow> (nat option \<times> gust) option" where
  "store_at e a tab slot x count clone st = do {
     p \<leftarrow> slot_at tab slot (gld st a);
     (case p of
        None \<Rightarrow> do {
          (x, st) \<leftarrow> (if clone then CloneItem e x count st else Some (Some x, SetCount x count st));
          (case x of
             None \<Rightarrow> Some (None, st)
           | Some x \<Rightarrow> do {
               i \<leftarrow> gt_items st x;
               Some (Some x, u_sql (AddGBankItemToDB (m_Id (gld st a)) tab slot i @ [OnBank (QSaveItem x)])
                 (upd_gld a (set_slot tab slot (Some x)) st))
             })
        }
      | Some y \<Rightarrow> do {
          j \<leftarrow> gt_items st y;
          let st = u_sql [OnBank (QSaveItem y)] (SetCount y (bi_count j + count) st);
          Some (Some y, if clone then st else delete_item x (u_sql [OnBank (QDeleteItemInstance x)] st))
        })
   }"

fun Guild_StoreItem ::
  "'a bank_env_scheme \<Rightarrow> nat \<Rightarrow> u8 \<Rightarrow> pos_count list \<Rightarrow> nat \<Rightarrow> gust \<Rightarrow> (nat option \<times> gust) option" where
  "Guild_StoreItem e a tab [] x st = Some (Some x, st)"
| "Guild_StoreItem e a tab [(slot, count)] x st = store_at e a tab slot x (ucast count) False st"
| "Guild_StoreItem e a tab ((slot, count) # d # ds) x st = do {
     (_, st) \<leftarrow> store_at e a tab slot x (ucast count) True st;
     Guild_StoreItem e a tab (d # ds) x st
   }"

section \<open>Showing the bank\<close>

definition slot_fields :: "nat \<Rightarrow> bank_item option \<Rightarrow> field list" where
  "slot_fields slot i =
     (let entry = (case i of None \<Rightarrow> 0 | Some i \<Rightarrow> bi_entry i)
      in [U8 (word_of_nat slot), U32 entry] @
         (case i of
            None \<Rightarrow> []
          | Some i \<Rightarrow>
              if entry = 0 then []
              else [U32 (bi_randomProperty i)] @
                (if bi_randomProperty i \<noteq> 0 then [U32 (bi_suffixFactor i)] else []) @
                [U8 (ucast (bi_count i)), U32 0, U8 0] @
                (if bi_enchantment i \<noteq> 0 then [U8 1, U8 0, U32 (bi_enchantment i)] else [U8 0])))"

definition AppendDisplayGuildBankSlot :: "nat \<Rightarrow> u8 \<Rightarrow> nat \<Rightarrow> gust \<Rightarrow> field list option" where
  "AppendDisplayGuildBankSlot a tab slot st = do {
     p \<leftarrow> slot_at tab (word_of_nat slot) (gld st a);
     (case p of
        None \<Rightarrow> Some (slot_fields slot None)
      | Some x \<Rightarrow> do { i \<leftarrow> gt_items st x; Some (slot_fields slot (Some i)) })
   }"

fun slots_fields :: "nat \<Rightarrow> u8 \<Rightarrow> nat list \<Rightarrow> gust \<Rightarrow> field list option" where
  "slots_fields a tab [] st = Some []"
| "slots_fields a tab (j # js) st = do {
     fs \<leftarrow> AppendDisplayGuildBankSlot a tab j st;
     gs \<leftarrow> slots_fields a tab js st;
     Some (fs @ gs)
   }"

definition DisplayGuildBankContent :: "'a guild_env_scheme \<Rightarrow> nat \<Rightarrow> u8 \<Rightarrow> u64 \<Rightarrow> gust \<Rightarrow> gust option" where
  "DisplayGuildBankContent e a tab p st =
     (let g = gld st a; low = GUID_LOPART p in
      if GetBankTab tab g = None \<or> \<not> IsMemberHaveRights low tab GUILD_BANK_RIGHT_VIEW_TAB g then Some st
      else
        (case GetMemberSlotWithdrawRem e a low tab st of (rem, st) \<Rightarrow> do {
           fs \<leftarrow> slots_fields a tab [0..<GUILD_BANK_MAX_SLOTS] st;
           Some (u_emit [USend p (mk_packet SMSG_GUILD_BANK_LIST
             ([U64 (m_GuildBankMoney g), U8 tab, U32 rem, U8 0, U8 98] @ fs))] st)
         }))"

definition DisplayGuildBankMoneyUpdate :: "'a guild_env_scheme \<Rightarrow> nat \<Rightarrow> gust \<Rightarrow> gust" where
  "DisplayGuildBankMoneyUpdate e a st =
     Guild_BroadcastPacket e a
       (mk_packet SMSG_GUILD_BANK_LIST [U64 (m_GuildBankMoney (gld st a)), U8 0, U32 0, U8 0, U8 0]) st"

text \<open>
  Changed slots go to the connected members who may see the tab, each with what is left to him today;
  asking for that may start his day anew.
\<close>

definition send_update ::
  "'a guild_env_scheme \<Rightarrow> nat \<Rightarrow> u8 \<Rightarrow> u64 \<Rightarrow> field list \<Rightarrow> u32 \<Rightarrow> gust \<Rightarrow> gust" where
  "send_update e a tab money fs low st =
     (if u_find e (player_guid low) = None \<or> \<not> IsMemberHaveRights low tab GUILD_BANK_RIGHT_VIEW_TAB (gld st a) then st
      else
        (case GetMemberSlotWithdrawRem e a low tab st of (rem, st) \<Rightarrow>
           u_emit [USend (player_guid low) (mk_packet SMSG_GUILD_BANK_LIST
             ([U64 money, U8 tab, U32 rem, U8 0] @ fs))] st))"

definition DisplayGuildBankContentUpdate :: "'a guild_env_scheme \<Rightarrow> nat \<Rightarrow> u8 \<Rightarrow> nat list \<Rightarrow> gust \<Rightarrow> gust option" where
  "DisplayGuildBankContentUpdate e a tab slots st =
     (if GetBankTab tab (gld st a) = None then Some st
      else do {
        fs \<leftarrow> slots_fields a tab slots st;
        let g = gld st a;
        Some (fold (send_update e a tab (m_GuildBankMoney g) (U8 (word_of_nat (length slots)) # fs))
          (map fst (gmembers g)) st)
      })"

definition update_slots :: "u8 \<Rightarrow> u8 option \<Rightarrow> nat list" where
  "update_slots slot1 slot2 =
     (case slot2 of
        None \<Rightarrow> [unat slot1]
      | Some s \<Rightarrow> if slot1 > s then [unat s, unat slot1] else [unat slot1, unat s])"

section \<open>Loading and unloading the bank\<close>

record bank_tab_row =
  tr_tab :: u8
  tr_name :: string
  tr_icon :: string
  tr_text :: string

text \<open>The item of a row is \<open>None\<close> where it cannot be loaded from its data.\<close>

record bank_item_row =
  ir_tab :: u8
  ir_slot :: u8
  ir_proto :: bool
  ir_item :: "bank_item option"

fun load_tabs :: "nat \<Rightarrow> bank_tab_row list \<Rightarrow> gust \<Rightarrow> gust option" where
  "load_tabs a [] st = Some st"
| "load_tabs a (r # rs) st =
     (if unat (tr_tab r) < length (m_TabListMap (gld st a))
      then load_tabs a rs (upd_gld a (\<lambda>g. g\<lparr>m_TabListMap := (m_TabListMap g)[unat (tr_tab r) :=
             Some (empty_tab\<lparr>bt_Name := tr_name r, bt_Icon := tr_icon r, bt_Text := tr_text r\<rparr>)]\<rparr>) st)
      else None)"

fun load_items :: "nat \<Rightarrow> bank_item_row list \<Rightarrow> gust \<Rightarrow> gust option" where
  "load_items a [] st = Some st"
| "load_items a (r # rs) st =
     (if ir_tab r \<ge> m_PurchasedTabs (gld st a) \<or> unat (ir_tab r) \<ge> GUILD_BANK_MAX_TABS \<or>
         unat (ir_slot r) \<ge> GUILD_BANK_MAX_SLOTS \<or> \<not> ir_proto r
      then load_items a rs st
      else
        (case ir_item r of
           None \<Rightarrow>
             load_items a rs (u_sql [OnBank (QDeleteItem (m_Id (gld st a)) (ucast (ir_tab r)) (ucast (ir_slot r)))] st)
         | Some i \<Rightarrow> do {
             _ \<leftarrow> GetBankTab (ir_tab r) (gld st a);
             let x = gt_nextItem st;
             load_items a rs (upd_gld a (set_slot (ir_tab r) (ir_slot r) (Some x))
               (st\<lparr>gt_items := (gt_items st)(x \<mapsto> i), gt_nextItem := Suc x\<rparr>))
           }))"

text \<open>The rows of the log, the tabs and the items as the three queries return them.\<close>

record bank_rows =
  bk_log :: "(u8 \<times> bank_event) list"
  bk_tabs :: "bank_tab_row list"
  bk_items :: "bank_item_row list"

definition LoadGuildBankFromDB :: "nat \<Rightarrow> bank_rows \<Rightarrow> gust \<Rightarrow> gust option" where
  "LoadGuildBankFromDB a rows st =
     (if m_bankloaded (gld st a) then Some st
      else
        (let st = upd_gld a (\<lambda>g. g\<lparr>m_bankloaded := True\<rparr>) st;
             st = LoadGuildBankEventLogFromDB a (bk_log rows) st
         in if bk_tabs rows = [] then Some (upd_gld a (\<lambda>g. g\<lparr>m_PurchasedTabs := 0\<rparr>) st)
            else do {
              st \<leftarrow> load_tabs a (bk_tabs rows)
                (upd_gld a (\<lambda>g. g\<lparr>m_TabListMap := resize_tabs (unat (m_PurchasedTabs g)) (m_TabListMap g)\<rparr>) st);
              load_items a (bk_items rows) st
            }))"

fun unload_tabs :: "nat \<Rightarrow> nat list \<Rightarrow> gust \<Rightarrow> gust option" where
  "unload_tabs a [] st = Some st"
| "unload_tabs a (i # is) st = do {
     t \<leftarrow> GetBankTab (word_of_nat i) (gld st a);
     unload_tabs a is (fold delete_item (concat (map (\<lambda>p. case p of None \<Rightarrow> [] | Some x \<Rightarrow> [x]) (bt_Slots t))) st)
   }"

definition UnloadGuildBank :: "nat \<Rightarrow> gust \<Rightarrow> gust option" where
  "UnloadGuildBank a st =
     (if \<not> m_bankloaded (gld st a) then Some st
      else do {
        st \<leftarrow> unload_tabs a [0..<unat (m_PurchasedTabs (gld st a))] st;
        Some (upd_gld a (\<lambda>g. (UnloadGuildBankEventLog (g\<lparr>m_TabListMap := []\<rparr>))\<lparr>m_bankloaded := False\<rparr>) st)
      })"

definition DisplayGuildBankTabsInfo :: "nat \<Rightarrow> bank_rows \<Rightarrow> u64 \<Rightarrow> gust \<Rightarrow> gust option" where
  "DisplayGuildBankTabsInfo a rows p st = do {
     st \<leftarrow> LoadGuildBankFromDB a rows st;
     let g = gld st a;
     let tabs = map (\<lambda>i. GetBankTab (word_of_nat i) g) [0..<unat (m_PurchasedTabs g)];
     if None \<in> set tabs then None
     else Some (u_emit [USend p (mk_packet SMSG_GUILD_BANK_LIST
       ([U64 (m_GuildBankMoney g), U8 0, U32 0xFFFFFFFF, U8 1, U8 (m_PurchasedTabs g)] @
        concat (map (\<lambda>t. [Str (bt_Name (the t)), Str (bt_Icon (the t))]) tabs) @ [U8 0]))] st)
   }"

definition SendMoneyInfo :: "'a guild_env_scheme \<Rightarrow> nat \<Rightarrow> u64 \<Rightarrow> u32 \<Rightarrow> gust \<Rightarrow> gust" where
  "SendMoneyInfo e a p low st =
     (case GetMemberMoneyWithdrawRem e a low st of
        (rem, st) \<Rightarrow> u_emit [USend p (mk_packet MSG_GUILD_BANK_MONEY_WITHDRAWN [U32 rem])] st)"

text \<open>A logout; the bank goes when the count of connected members had already been 0.\<close>

definition UpdateLogoutTime :: "'a guild_env_scheme \<Rightarrow> nat \<Rightarrow> u64 \<Rightarrow> gust \<Rightarrow> gust option" where
  "UpdateLogoutTime e a guid st =
     (if \<not> Guild_IsMember (GUID_LOPART guid) (gld st a) then Some st
      else
        (let st = upd_gld a (upd_member (GUID_LOPART guid) (\<lambda>m. m\<lparr>gm_LogoutTime := ge_time e\<rparr>)) st in
         if m_onlinemembers (gld st a) > 0
         then Some (upd_gld a (\<lambda>g. g\<lparr>m_onlinemembers := m_onlinemembers g - 1\<rparr>) st)
         else do { st \<leftarrow> UnloadGuildBank a st; Some (upd_gld a UnloadGuildEventlog st) }))"

section \<open>Start-up\<close>

text \<open>The least and greatest numbers of the two logs are the arguments \<open>bank\<close> and \<open>events\<close>.\<close>

definition CheckGuildStructure ::
  "'a guild_env_scheme \<Rightarrow> nat \<Rightarrow> bool \<Rightarrow> (u32 \<times> u32) option \<Rightarrow> (u32 \<times> u32) option \<Rightarrow> gust \<Rightarrow> (bool \<times> gust) option" where
  "CheckGuildStructure e a leaderExists bank events st = do {
     st \<leftarrow> (if leaderExists then Some st else DelMember e a (m_LeaderGuid (gld st a)) st);
     if \<not> leaderExists \<and> gmembers (gld st a) = [] then Some (False, st)
     else
       (let st = upd_gld a (\<lambda>g. g\<lparr>m_bankloaded := False, m_eventlogloaded := False, m_onlinemembers := 0\<rparr>) st
        in Some (True, RenumGuildEventlog a events (RenumBankLogs a bank st)))
   }"

text \<open>
  \<open>ObjectMgr::LoadGuilds\<close> for one row of the guild table; the ranks, members and rights of all guilds
  are three results that the guilds consume in turn.
\<close>

record guild_rows =
  gw_leaderExists :: "u64 \<Rightarrow> bool"
  gw_bankNumbers :: "(u32 \<times> u32) option"
  gw_eventNumbers :: "(u32 \<times> u32) option"
  gw_events :: "eventlog_entry list"
  gw_bankLog :: "(u8 \<times> bank_event) list"
  gw_bank :: bank_rows

type_synonym guild_results = "rank_row list option \<times> guild_member_row list option \<times> bank_right_row list option"

definition LoadGuild ::
  "'a guild_env_scheme \<Rightarrow> (u64 \<Rightarrow> u32 \<times> u32 \<times> u32) \<Rightarrow> guild_row \<times> guild_rows \<Rightarrow> guild_results \<times> gust \<Rightarrow>
     (guild_results \<times> gust) option" where
  "LoadGuild e date row rs =
     (case (row, rs) of ((r, w), (ranks, members, rights), st) \<Rightarrow>
        (let a = gt_next st;
             st = st\<lparr>gt_heap := (gt_heap st)(a \<mapsto> LoadGuildFromDB date r (Guild_new (ge_fresh e))), gt_next := Suc a\<rparr>
         in case LoadRanksFromDB e a ranks st of (ranks, st) \<Rightarrow>
            (case LoadMembersFromDB e a members st of (ok, members, st) \<Rightarrow>
              (case (if ok then LoadBankRightsFromDB a rights st else (rights, st)) of (rights, st) \<Rightarrow> do {
                 (ok, st) \<leftarrow> (if ok then CheckGuildStructure e a (gw_leaderExists w (m_LeaderGuid (gld st a)))
                                      (gw_bankNumbers w) (gw_eventNumbers w) st
                             else Some (False, st));
                 if \<not> ok
                 then do {
                   st \<leftarrow> Guild_Disband e a st;
                   Some ((ranks, members, rights), st\<lparr>gt_heap := (gt_heap st)(a := None)\<rparr>)
                 }
                 else do {
                   let st = LoadGuildEventLogFromDB a (gw_events w) st;
                   let st = LoadGuildBankEventLogFromDB a (gw_bankLog w) st;
                   st \<leftarrow> LoadGuildBankFromDB a (gw_bank w) st;
                   Some ((ranks, members, rights), AddGuild a st)
                 }
               }))))"

fun LoadGuilds ::
  "'a guild_env_scheme \<Rightarrow> (u64 \<Rightarrow> u32 \<times> u32 \<times> u32) \<Rightarrow> (guild_row \<times> guild_rows) list \<Rightarrow> guild_results \<times> gust \<Rightarrow>
     (guild_results \<times> gust) option" where
  "LoadGuilds e date [] rs = Some rs"
| "LoadGuilds e date (r # rows) rs = do { rs \<leftarrow> LoadGuild e date r rs; LoadGuilds e date rows rs }"

end
