(* ===== verification/GuildHandlers.thy ===== *)
theory GuildHandlers
  imports GuildBank Names
begin

text \<open>
  The requests of the players about guilds: game/GuildHandler.cpp, and what login
  (game/CharacterHandler.cpp) and logout (game/WorldSession.cpp) do. A request yields the state after
  it, or nothing where the server would dereference a pointer that leads nowhere.
\<close>

section \<open>Answers\<close>

text \<open>
  On top of what the bank asks of the server: the conversions of names, \<open>utf8truncate\<close>, and the rows
  the bank and event tables hold for a guild.
\<close>

record guild_henv = bank_env +
  gx_u8dec :: utf8_decoder
  gx_u8enc :: utf8_encoder
  gx_trunc :: "string \<Rightarrow> nat \<Rightarrow> string"
  gx_bankRows :: "u32 \<Rightarrow> bank_rows"
  gx_eventRows :: "u32 \<Rightarrow> eventlog_entry list"

datatype Typecommand =
    GUILD_CREATE_S
  | GUILD_INVITE_S
  | GUILD_QUIT_S
  | GUILD_FOUNDER_S
  | GUILD_UNK1
  | GUILD_BANK_S
  | GUILD_UNK3

fun typecmd_code :: "Typecommand \<Rightarrow> u32" where
  "typecmd_code GUILD_CREATE_S = 0x00"
| "typecmd_code GUILD_INVITE_S = 0x01"
| "typecmd_code GUILD_QUIT_S = 0x03"
| "typecmd_code GUILD_FOUNDER_S = 0x0E"
| "typecmd_code GUILD_UNK1 = 0x10"
| "typecmd_code GUILD_BANK_S = 0x15"
| "typecmd_code GUILD_UNK3 = 0x16"

datatype CommandErrors =
    ERR_PLAYER_NO_MORE_IN_GUILD
  | ERR_ALREADY_IN_GUILD_S
  | ERR_ALREADY_INVITED_TO_GUILD_S
  | ERR_GUILD_NAME_INVALID
  | ERR_GUILD_LEADER_LEAVE
  | ERR_GUILD_PERMISSIONS
  | ERR_GUILD_PLAYER_NOT_IN_GUILD
  | ERR_GUILD_PLAYER_NOT_IN_GUILD_S
  | ERR_GUILD_PLAYER_NOT_FOUND_S
  | ERR_GUILD_NOT_ALLIED

fun error_code :: "CommandErrors \<Rightarrow> u32" where
  "error_code ERR_PLAYER_NO_MORE_IN_GUILD = 0x00"
| "error_code ERR_ALREADY_IN_GUILD_S = 0x03"
| "error_code ERR_ALREADY_INVITED_TO_GUILD_S = 0x05"
| "error_code ERR_GUILD_NAME_INVALID = 0x06"
| "error_code ERR_GUILD_LEADER_LEAVE = 0x08"
| "error_code ERR_GUILD_PERMISSIONS = 0x08"
| "error_code ERR_GUILD_PLAYER_NOT_IN_GUILD = 0x09"
| "error_code ERR_GUILD_PLAYER_NOT_IN_GUILD_S = 0x0A"
| "error_code ERR_GUILD_PLAYER_NOT_FOUND_S = 0x0B"
| "error_code ERR_GUILD_NOT_ALLIED = 0x0C"

definition SendGuildCommandResult :: "u64 \<Rightarrow> Typecommand \<Rightarrow> string \<Rightarrow> CommandErrors \<Rightarrow> gust \<Rightarrow> gust" where
  "SendGuildCommandResult p typecmd str res =
     u_emit [USend p (mk_packet SMSG_GUILD_COMMAND_RESULT [U32 (typecmd_code typecmd), Str str, U32 (error_code res)])]"

text \<open>The checks most requests begin with: a guild, a right of the rank, the leader, a member by name.\<close>

definition guild_of :: "u64 \<Rightarrow> gust \<Rightarrow> nat option" where
  "guild_of me st = GetGuildById (GetGuildId me st) st"

definition in_guild :: "u64 \<Rightarrow> gust \<Rightarrow> (nat \<Rightarrow> gust option) \<Rightarrow> gust option" where
  "in_guild me st k =
     (case guild_of me st of
        None \<Rightarrow> Some (SendGuildCommandResult me GUILD_CREATE_S [] ERR_GUILD_PLAYER_NOT_IN_GUILD st)
      | Some a \<Rightarrow> k a)"

definition with_right :: "u64 \<Rightarrow> GuildRankRights \<Rightarrow> nat \<Rightarrow> gust \<Rightarrow> gust option \<Rightarrow> gust option" where
  "with_right me right a st k =
     (if HasRankRight (GetRank me st) right (gld st a) then k
      else Some (SendGuildCommandResult me GUILD_INVITE_S [] ERR_GUILD_PERMISSIONS st))"

definition as_leader :: "u64 \<Rightarrow> nat \<Rightarrow> gust \<Rightarrow> gust option \<Rightarrow> gust option" where
  "as_leader me a st k =
     (if me = m_LeaderGuid (gld st a) then k
      else Some (SendGuildCommandResult me GUILD_INVITE_S [] ERR_GUILD_PERMISSIONS st))"

definition with_member ::
  "u64 \<Rightarrow> string \<Rightarrow> nat \<Rightarrow> gust \<Rightarrow> (u64 \<Rightarrow> guild_member \<Rightarrow> gust option) \<Rightarrow> gust option" where
  "with_member me name a st k =
     (case GetMemberSlotByName name (gld st a) of
        None \<Rightarrow> Some (SendGuildCommandResult me GUILD_INVITE_S name ERR_GUILD_PLAYER_NOT_IN_GUILD_S st)
      | Some (low, slot) \<Rightarrow> k (ucast low) slot)"

definition normalized :: "guild_henv \<Rightarrow> string \<Rightarrow> string option" where
  "normalized e name = normalizePlayerName (gx_u8dec e) (gx_u8enc e) name"

text \<open>A name that cannot be normalised: it is emptied when only the way back to UTF-8 fails.\<close>

definition shown_name :: "guild_henv \<Rightarrow> string \<Rightarrow> string" where
  "shown_name e name =
     (case normalized e name of
        Some n \<Rightarrow> n
      | None \<Rightarrow> if Utf8toWStr_buf (gx_u8dec e) name MAX_INTERNAL_PLAYER_NAME = None then name else [])"

definition with_name :: "guild_henv \<Rightarrow> string \<Rightarrow> gust \<Rightarrow> (string \<Rightarrow> gust option) \<Rightarrow> gust option" where
  "with_name e name st k = (case normalized e name of None \<Rightarrow> Some st | Some name \<Rightarrow> k name)"

section \<open>Membership\<close>

definition HandleGuildQueryOpcode :: "player \<Rightarrow> u32 \<Rightarrow> gust \<Rightarrow> gust option" where
  "HandleGuildQueryOpcode self guildId st =
     (case GetGuildById guildId st of
        None \<Rightarrow> Some (SendGuildCommandResult (p_guid self) GUILD_CREATE_S [] ERR_GUILD_PLAYER_NOT_IN_GUILD st)
      | Some a \<Rightarrow> Some (Query a (p_guid self) st))"

definition HandleGuildCreateOpcode :: "guild_henv \<Rightarrow> player \<Rightarrow> string \<Rightarrow> gust \<Rightarrow> gust option" where
  "HandleGuildCreateOpcode e self gname st =
     (if GetGuildId (p_guid self) st \<noteq> 0 then Some st
      else
        (let a = gt_next st;
             st = st\<lparr>gt_heap := (gt_heap st)(a \<mapsto> Guild_new (ge_fresh e)), gt_next := Suc a\<rparr>
         in case Guild_Create e a (p_guid self) gname st of
              (False, st) \<Rightarrow> Some (st\<lparr>gt_heap := (gt_heap st)(a := None)\<rparr>)
            | (True, st) \<Rightarrow> Some (AddGuild a st)))"

definition HandleGuildInviteOpcode :: "guild_henv \<Rightarrow> player \<Rightarrow> string \<Rightarrow> gust \<Rightarrow> gust option" where
  "HandleGuildInviteOpcode e self name st =
     (let me = p_guid self;
          refuse = (\<lambda>str r. Some (SendGuildCommandResult me GUILD_INVITE_S str r st));
          shown = shown_name e name
      in case Option.bind (normalized e name) (FindPlayerByName (ge_world e)) of
           None \<Rightarrow> refuse shown ERR_GUILD_PLAYER_NOT_FOUND_S
         | Some pl \<Rightarrow> in_guild me st (\<lambda>a.
             if HasIgnore (GetSocial (ge_social e) (p_guid pl)) (GUID_LOPART me) then Some st
             else if \<not> getConfig (ge_world e) CONFIG_ALLOW_TWO_SIDE_INTERACTION_GUILD \<and> p_team pl \<noteq> p_team self
             then refuse shown ERR_GUILD_NOT_ALLIED
             else if GetGuildId (p_guid pl) st \<noteq> 0 then refuse (p_name pl) ERR_ALREADY_IN_GUILD_S
             else if GetGuildIdInvited (p_guid pl) st \<noteq> 0 then refuse (p_name pl) ERR_ALREADY_INVITED_TO_GUILD_S
             else with_right me GR_RIGHT_INVITE a st
               (let st = SetGuildIdInvited (p_guid pl) (GetGuildId me st) st;
                    st = LogGuildEvent e a GUILD_EVENT_LOG_INVITE_PLAYER (GUID_LOPART me) (GUID_LOPART (p_guid pl)) 0 st
                in Some (u_emit [USend (p_guid pl) (mk_packet SMSG_GUILD_INVITE [Str (p_name self), Str (m_Name (gld st a))])] st))))"

definition HandleGuildRemoveOpcode :: "guild_henv \<Rightarrow> player \<Rightarrow> string \<Rightarrow> gust \<Rightarrow> gust option" where
  "HandleGuildRemoveOpcode e self plName st =
     (let me = p_guid self in
      with_name e plName st (\<lambda>plName. in_guild me st (\<lambda>a. with_right me GR_RIGHT_REMOVE a st
        (with_member me plName a st (\<lambda>plGuid slot.
           if gm_RankId slot = GR_GUILDMASTER
           then Some (SendGuildCommandResult me GUILD_QUIT_S [] ERR_GUILD_LEADER_LEAVE st)
           else do {
             st \<leftarrow> DelMember e a plGuid st;
             let st = LogGuildEvent e a GUILD_EVENT_LOG_UNINVITE_PLAYER (GUID_LOPART me) (GUID_LOPART plGuid) 0 st;
             Some (Guild_BroadcastPacket e a (event_packet GE_REMOVED 0 [plName, p_name self]) st)
           })))))"

definition HandleGuildAcceptOpcode :: "guild_henv \<Rightarrow> player \<Rightarrow> gust \<Rightarrow> gust option" where
  "HandleGuildAcceptOpcode e self st =
     (let me = p_guid self in
      case GetGuildById (GetGuildIdInvited me st) st of
        None \<Rightarrow> Some st
      | Some a \<Rightarrow>
          if GetGuildId me st \<noteq> 0 then Some st
          else if \<not> getConfig (ge_world e) CONFIG_ALLOW_TWO_SIDE_INTERACTION_GUILD \<and>
            p_team self \<noteq> ge_teamOf e (m_LeaderGuid (gld st a)) then Some st
          else
            (case Guild_AddMember e a me (GetLowestRank (gld st a)) st of
               (False, st) \<Rightarrow> Some st
             | (True, st) \<Rightarrow>
                 (let st = LogGuildEvent e a GUILD_EVENT_LOG_JOIN_GUILD (GUID_LOPART me) 0 0 st
                  in Some (Guild_BroadcastPacket e a (event_packet GE_JOINED 0 [p_name self]) st))))"

definition HandleGuildDeclineOpcode :: "player \<Rightarrow> gust \<Rightarrow> gust option" where
  "HandleGuildDeclineOpcode self st = Some (SetInGuild (p_guid self) 0 (SetGuildIdInvited (p_guid self) 0 st))"

text \<open>The date of creation is day, month and year.\<close>

definition HandleGuildInfoOpcode :: "player \<Rightarrow> gust \<Rightarrow> gust option" where
  "HandleGuildInfoOpcode self st =
     in_guild (p_guid self) st (\<lambda>a.
       (let g = gld st a; (day, month, year) = m_Created g
        in Some (u_emit [USend (p_guid self) (mk_packet SMSG_GUILD_INFO
             [Str (m_Name g), U32 day, U32 month, U32 year, U32 (GetMemberSize g), U32 (m_accountsNumber g)])] st)))"

definition HandleGuildRosterOpcode :: "guild_henv \<Rightarrow> player \<Rightarrow> gust \<Rightarrow> gust option" where
  "HandleGuildRosterOpcode e self st =
     (case guild_of (p_guid self) st of None \<Rightarrow> Some st | Some a \<Rightarrow> Some (Roster e a (Some (p_guid self)) st))"

definition HandleGuildPromoteOpcode :: "guild_henv \<Rightarrow> player \<Rightarrow> string \<Rightarrow> gust \<Rightarrow> gust option" where
  "HandleGuildPromoteOpcode e self plName st =
     (let me = p_guid self in
      with_name e plName st (\<lambda>plName. in_guild me st (\<lambda>a. with_right me GR_RIGHT_PROMOTE a st
        (with_member me plName a st (\<lambda>plGuid slot.
           if plGuid = me then Some (SendGuildCommandResult me GUILD_INVITE_S [] ERR_GUILD_NAME_INVALID st)
           else if gm_RankId slot < 2 \<or> gm_RankId slot - 1 < GetRank me st then Some st
           else
             (let nr = GetNrRanks (gld st a);
                  newRankId = (if gm_RankId slot < nr then gm_RankId slot - 1 else nr - 1);
                  st = ChangeRank e a plGuid newRankId st;
                  st = LogGuildEvent e a GUILD_EVENT_LOG_PROMOTE_PLAYER (GUID_LOPART me) (GUID_LOPART plGuid) (ucast newRankId) st
              in Some (Guild_BroadcastPacket e a
                   (event_packet GE_PROMOTION 0 [p_name self, plName, GetRankName newRankId (gld st a)]) st)))))))"

text \<open>The slot is a pointer into the guild: after \<open>ChangeRank\<close> it shows the new rank.\<close>

definition HandleGuildDemoteOpcode :: "guild_henv \<Rightarrow> player \<Rightarrow> string \<Rightarrow> gust \<Rightarrow> gust option" where
  "HandleGuildDemoteOpcode e self plName st =
     (let me = p_guid self in
      with_name e plName st (\<lambda>plName. in_guild me st (\<lambda>a. with_right me GR_RIGHT_DEMOTE a st
        (with_member me plName a st (\<lambda>plGuid slot.
           if plGuid = me then Some (SendGuildCommandResult me GUILD_INVITE_S [] ERR_GUILD_NAME_INVALID st)
           else if gm_RankId slot + 1 \<ge> GetNrRanks (gld st a) \<or> gm_RankId slot \<le> GetRank me st then Some st
           else
             (let rank = gm_RankId slot + 1;
                  st = ChangeRank e a plGuid rank st;
                  st = LogGuildEvent e a GUILD_EVENT_LOG_DEMOTE_PLAYER (GUID_LOPART me) (GUID_LOPART plGuid) (ucast rank) st
              in Some (Guild_BroadcastPacket e a
                   (event_packet GE_DEMOTION 0 [p_name self, plName, GetRankName rank (gld st a)]) st)))))))"

definition HandleGuildLeaveOpcode :: "guild_henv \<Rightarrow> player \<Rightarrow> gust \<Rightarrow> gust option" where
  "HandleGuildLeaveOpcode e self st =
     (let me = p_guid self in
      in_guild me st (\<lambda>a.
        if me = m_LeaderGuid (gld st a) \<and> GetMemberSize (gld st a) > 1
        then Some (SendGuildCommandResult me GUILD_QUIT_S [] ERR_GUILD_LEADER_LEAVE st)
        else if me = m_LeaderGuid (gld st a) then Guild_Disband e a st
        else do {
          st \<leftarrow> DelMember e a me st;
          let st = LogGuildEvent e a GUILD_EVENT_LOG_LEAVE_GUILD (GUID_LOPART me) 0 0 st;
          let st = Guild_BroadcastPacket e a (event_packet GE_LEFT 0 [p_name self]) st;
          Some (SendGuildCommandResult me GUILD_QUIT_S (m_Name (gld st a)) ERR_PLAYER_NO_MORE_IN_GUILD st)
        }))"

definition HandleGuildDisbandOpcode :: "guild_henv \<Rightarrow> player \<Rightarrow> gust \<Rightarrow> gust option" where
  "HandleGuildDisbandOpcode e self st =
     in_guild (p_guid self) st (\<lambda>a. as_leader (p_guid self) a st (Guild_Disband e a st))"

definition HandleGuildLeaderOpcode :: "guild_henv \<Rightarrow> player \<Rightarrow> string \<Rightarrow> gust \<Rightarrow> gust option" where
  "HandleGuildLeaderOpcode e self name st =
     (let me = p_guid self in
      with_name e name st (\<lambda>name. in_guild me st (\<lambda>a. as_leader me a st
        (with_member me name a st (\<lambda>newLeader slot.
           (let st = Guild_SetLeader e a newLeader st;
                st = ChangeRank e a me GR_OFFICER st
            in Some (Guild_BroadcastPacket e a (event_packet GE_LEADER_CHANGED 0 [p_name self, name]) st)))))))"

section \<open>Texts, ranks and emblem\<close>

text \<open>An empty packet sets an empty message.\<close>

definition HandleGuildMOTDOpcode :: "guild_henv \<Rightarrow> player \<Rightarrow> string option \<Rightarrow> gust \<Rightarrow> gust option" where
  "HandleGuildMOTDOpcode e self text st =
     (let me = p_guid self in
      in_guild me st (\<lambda>a. with_right me GR_RIGHT_SETMOTD a st
        (let motd = (case text of None \<Rightarrow> [] | Some s \<Rightarrow> s);
             st = SetMOTD a motd st
         in Some (Guild_BroadcastPacket e a (event_packet GE_MOTD 0 [motd]) st))))"

definition HandleGuildSetPublicNoteOpcode :: "guild_henv \<Rightarrow> player \<Rightarrow> string \<Rightarrow> string \<Rightarrow> gust \<Rightarrow> gust option" where
  "HandleGuildSetPublicNoteOpcode e self name note st =
     (let me = p_guid self in
      with_name e name st (\<lambda>name. in_guild me st (\<lambda>a. with_right me GR_RIGHT_EPNOTE a st
        (with_member me name a st (\<lambda>plGuid slot. Some (Roster e a (Some me) (SetPNOTE a plGuid note st)))))))"

definition HandleGuildSetOfficerNoteOpcode :: "guild_henv \<Rightarrow> player \<Rightarrow> string \<Rightarrow> string \<Rightarrow> gust \<Rightarrow> gust option" where
  "HandleGuildSetOfficerNoteOpcode e self name note st =
     (let me = p_guid self in
      with_name e name st (\<lambda>name. in_guild me st (\<lambda>a. with_right me GR_RIGHT_EOFFNOTE a st
        (with_member me name a st (\<lambda>plGuid slot. Some (Roster e a (Some me) (SetOFFNOTE a plGuid note st)))))))"

text \<open>The rights and the daily slots of the six tabs are cut to 8 and 16 bits.\<close>

definition set_tab_rights :: "nat \<Rightarrow> u32 \<Rightarrow> (u32 \<times> u32) list \<Rightarrow> gust \<Rightarrow> gust" where
  "set_tab_rights a rankId tabs =
     fold (\<lambda>(i, right, slots).
         SetBankRightsAndSlots a rankId (word_of_nat i) (right AND 0xFF) (ucast (ucast slots :: u16)) True)
       (enumerate 0 tabs)"

definition HandleGuildRankOpcode ::
  "guild_henv \<Rightarrow> player \<Rightarrow> u32 \<Rightarrow> u32 \<Rightarrow> string \<Rightarrow> u32 \<Rightarrow> (u32 \<times> u32) list \<Rightarrow> gust \<Rightarrow> gust option" where
  "HandleGuildRankOpcode e self rankId rights rankname MoneyPerDay tabs st =
     (let me = p_guid self in
      in_guild me st (\<lambda>a. as_leader me a st
        (let st = set_tab_rights a rankId tabs st;
             st = SetRankName a rankId rankname (SetBankMoneyPerDay a rankId MoneyPerDay st);
             rights = (if rankId = GR_GUILDMASTER then rights OR right_code GR_RIGHT_ALL else rights);
             st = SetRankRights a rankId rights st
         in Some (Roster e a None (Query a me st)))))"

definition HandleGuildAddRankOpcode :: "guild_henv \<Rightarrow> player \<Rightarrow> string \<Rightarrow> gust \<Rightarrow> gust option" where
  "HandleGuildAddRankOpcode e self rankname st =
     (let me = p_guid self in
      in_guild me st (\<lambda>a. as_leader me a st
        (if unat (GetNrRanks (gld st a)) \<ge> GUILD_MAX_RANKS then Some st
         else Some (Roster e a None (Query a me (CreateRank a rankname default_rights st))))))"

definition HandleGuildDelRankOpcode :: "guild_henv \<Rightarrow> player \<Rightarrow> gust \<Rightarrow> gust option" where
  "HandleGuildDelRankOpcode e self st =
     (let me = p_guid self in
      in_guild me st (\<lambda>a. as_leader me a st (Some (Roster e a None (Query a me (DelRank a st))))))"

definition HandleGuildChangeInfoOpcode :: "player \<Rightarrow> string \<Rightarrow> gust \<Rightarrow> gust option" where
  "HandleGuildChangeInfoOpcode self ginfo st =
     (let me = p_guid self in
      in_guild me st (\<lambda>a.
        if HasRankRight (GetRank me st) GR_RIGHT_MODIFY_GUILD_INFO (gld st a) then Some (SetGINFO a ginfo st)
        else Some (SendGuildCommandResult me GUILD_CREATE_S [] ERR_GUILD_PERMISSIONS st)))"

datatype GuildEmblem =
    ERR_GUILDEMBLEM_SUCCESS
  | ERR_GUILDEMBLEM_INVALID_TABARD_COLORS
  | ERR_GUILDEMBLEM_NOGUILD
  | ERR_GUILDEMBLEM_NOTGUILDMASTER
  | ERR_GUILDEMBLEM_NOTENOUGHMONEY
  | ERR_GUILDEMBLEM_INVALIDVENDOR

fun emblem_code :: "GuildEmblem \<Rightarrow> u32" where
  "emblem_code ERR_GUILDEMBLEM_SUCCESS = 0"
| "emblem_code ERR_GUILDEMBLEM_INVALID_TABARD_COLORS = 1"
| "emblem_code ERR_GUILDEMBLEM_NOGUILD = 2"
| "emblem_code ERR_GUILDEMBLEM_NOTGUILDMASTER = 3"
| "emblem_code ERR_GUILDEMBLEM_NOTENOUGHMONEY = 4"
| "emblem_code ERR_GUILDEMBLEM_INVALIDVENDOR = 5"

definition SendSaveGuildEmblem :: "u64 \<Rightarrow> GuildEmblem \<Rightarrow> gust \<Rightarrow> gust" where
  "SendSaveGuildEmblem p msg = u_emit [USend p (mk_packet MSG_SAVE_GUILD_EMBLEM [U32 (emblem_code msg)])]"

abbreviation GOLD :: u32 where "GOLD \<equiv> 10000"

definition HandleGuildSaveEmblemOpcode :: "guild_henv \<Rightarrow> player \<Rightarrow> u64 \<Rightarrow> u32 list \<Rightarrow> gust \<Rightarrow> gust option" where
  "HandleGuildSaveEmblemOpcode e self vendorGuid emblem st =
     (let me = p_guid self in
      if \<not> bx_tabard e me vendorGuid then Some (SendSaveGuildEmblem me ERR_GUILDEMBLEM_INVALIDVENDOR st)
      else
        (let st = (if bx_died e me then u_emit [URemoveFeignDeath me] st else st) in
         case guild_of me st of
           None \<Rightarrow> Some (SendSaveGuildEmblem me ERR_GUILDEMBLEM_NOGUILD st)
         | Some a \<Rightarrow>
             if m_LeaderGuid (gld st a) \<noteq> me then Some (SendSaveGuildEmblem me ERR_GUILDEMBLEM_NOTGUILDMASTER st)
             else if GetMoney me st < 10 * GOLD then Some (SendSaveGuildEmblem me ERR_GUILDEMBLEM_NOTENOUGHMONEY st)
             else
               (let st = SetEmblem a emblem (ModifyMoney me (- (10 * GOLD)) st)
                in Some (Query a me (SendSaveGuildEmblem me ERR_GUILDEMBLEM_SUCCESS st)))))"

section \<open>The bank\<close>

text \<open>The requests of the bank ignore a player without a guild.\<close>

definition of_guild :: "u64 \<Rightarrow> gust \<Rightarrow> (nat \<Rightarrow> gust option) \<Rightarrow> gust option" where
  "of_guild me st k =
     (if GetGuildId me st = 0 then Some st else (case guild_of me st of None \<Rightarrow> Some st | Some a \<Rightarrow> k a))"

definition at_bank :: "guild_henv \<Rightarrow> u64 \<Rightarrow> u64 \<Rightarrow> gust \<Rightarrow> (nat \<Rightarrow> gust option) \<Rightarrow> gust option" where
  "at_bank e me GoGuid st k = (if \<not> bx_bank e me GoGuid then Some st else of_guild me st k)"

definition show_tabs :: "guild_henv \<Rightarrow> nat \<Rightarrow> u64 \<Rightarrow> gust \<Rightarrow> gust option" where
  "show_tabs e a me st = DisplayGuildBankTabsInfo a (gx_bankRows e (m_Id (gld st a))) me st"

definition HandleGuildEventLogOpcode :: "guild_henv \<Rightarrow> player \<Rightarrow> gust \<Rightarrow> gust option" where
  "HandleGuildEventLogOpcode e self st =
     of_guild (p_guid self) st (\<lambda>a. Some (DisplayGuildEventlog e a (gx_eventRows e (m_Id (gld st a))) (p_guid self) st))"

definition HandleGuildBankGetMoneyAmount :: "guild_henv \<Rightarrow> player \<Rightarrow> gust \<Rightarrow> gust option" where
  "HandleGuildBankGetMoneyAmount e self st =
     (let me = p_guid self in of_guild me st (\<lambda>a. Some (SendMoneyInfo e a me (GUID_LOPART me) st)))"

fun tab_rights_fields :: "guild_henv \<Rightarrow> nat \<Rightarrow> u32 \<Rightarrow> u32 \<Rightarrow> nat list \<Rightarrow> gust \<Rightarrow> field list \<times> gust" where
  "tab_rights_fields e a rankId low [] st = ([], st)"
| "tab_rights_fields e a rankId low (i # is) st =
     (case GetMemberSlotWithdrawRem e a low (word_of_nat i) st of (rem, st') \<Rightarrow>
       (case tab_rights_fields e a rankId low is st' of (fs, st'') \<Rightarrow>
         (U32 (GetBankRights rankId (word_of_nat i) (gld st a)) # U32 rem # fs, st'')))"

definition HandleGuildBankGetRights :: "guild_henv \<Rightarrow> player \<Rightarrow> gust \<Rightarrow> gust option" where
  "HandleGuildBankGetRights e self st =
     (let me = p_guid self; low = GUID_LOPART me in
      of_guild me st (\<lambda>a.
        (let rankId = GetRank me st; rights = GetRankRights rankId (gld st a) in
         case GetMemberMoneyWithdrawRem e a low st of (money, st) \<Rightarrow>
           (case tab_rights_fields e a rankId low [0..<GUILD_BANK_MAX_TABS] st of (fs, st') \<Rightarrow>
              Some (u_emit [USend me (mk_packet MSG_GUILD_PERMISSIONS
                ([U32 rankId, U32 rights, U32 money, U8 (m_PurchasedTabs (gld st a))] @ fs))] st')))))"

definition HandleGuildBankQuery :: "guild_henv \<Rightarrow> player \<Rightarrow> u64 \<Rightarrow> gust \<Rightarrow> gust option" where
  "HandleGuildBankQuery e self GoGuid st =
     (let me = p_guid self in
      if \<not> bx_bank e me GoGuid then Some st
      else
        (case (if GetGuildId me st \<noteq> 0 then guild_of me st else None) of
           Some a \<Rightarrow> show_tabs e a me st
         | None \<Rightarrow> Some (SendGuildCommandResult me GUILD_BANK_S [] ERR_GUILD_PLAYER_NOT_IN_GUILD st)))"

definition HandleGuildBankTabColon :: "guild_henv \<Rightarrow> player \<Rightarrow> u64 \<Rightarrow> u8 \<Rightarrow> gust \<Rightarrow> gust option" where
  "HandleGuildBankTabColon e self GoGuid TabId st =
     (let me = p_guid self in
      at_bank e me GoGuid st (\<lambda>a. DisplayGuildBankContent e a TabId me (SendMoneyInfo e a me (GUID_LOPART me) st)))"

text \<open>What a change of the money ends with: the tabs and the first one to the player, the sum to all.\<close>

definition show_money :: "guild_henv \<Rightarrow> nat \<Rightarrow> u64 \<Rightarrow> gust \<Rightarrow> gust option" where
  "show_money e a me st = do {
     st \<leftarrow> show_tabs e a me st;
     st \<leftarrow> DisplayGuildBankContent e a 0 me st;
     Some (DisplayGuildBankMoneyUpdate e a st)
   }"

definition HandleGuildBankDeposit :: "guild_henv \<Rightarrow> player \<Rightarrow> u64 \<Rightarrow> u32 \<Rightarrow> gust \<Rightarrow> gust option" where
  "HandleGuildBankDeposit e self GoGuid money st =
     (let me = p_guid self in
      if money = 0 then Some st
      else at_bank e me GoGuid st (\<lambda>a.
        if GetMoney me st < money then Some st
        else
          (let st = SetBankMoney a (m_GuildBankMoney (gld st a) + ucast money) st;
               st = u_emit [USaveMoney me] (ModifyMoney me (- money) st);
               st = LogBankEvent e a GUILD_BANK_LOG_DEPOSIT_MONEY 0 (GUID_LOPART me) money 0 0 st
           in show_money e a me st)))"

definition HandleGuildBankWithdraw :: "guild_henv \<Rightarrow> player \<Rightarrow> u64 \<Rightarrow> u32 \<Rightarrow> gust \<Rightarrow> gust option" where
  "HandleGuildBankWithdraw e self GoGuid money st =
     (let me = p_guid self; low = GUID_LOPART me in
      if money = 0 then Some st
      else at_bank e me GoGuid st (\<lambda>a.
        if m_GuildBankMoney (gld st a) < ucast money \<or>
           \<not> HasRankRight (GetRank me st) GR_RIGHT_WITHDRAW_GOLD (gld st a)
        then Some st
        else
          (case MemberMoneyWithdraw e a money low st of
             (False, st) \<Rightarrow> Some st
           | (True, st) \<Rightarrow>
               (let st = u_emit [USaveMoney me] (ModifyMoney me money st);
                    st = LogBankEvent e a GUILD_BANK_LOG_WITHDRAW_MONEY 0 low money 0 0 st
                in show_money e a me (SendMoneyInfo e a me low st)))))"

definition GetGuildBankTabPrice :: "u8 \<Rightarrow> u32" where
  "GetGuildBankTabPrice Index =
     (if unat Index < GUILD_BANK_MAX_TABS then [100, 250, 500, 1000, 2500, 5000] ! unat Index else 0)"

definition HandleGuildBankBuyTab :: "guild_henv \<Rightarrow> player \<Rightarrow> u64 \<Rightarrow> u8 \<Rightarrow> gust \<Rightarrow> gust option" where
  "HandleGuildBankBuyTab e self GoGuid TabId st =
     (let me = p_guid self in
      at_bank e me GoGuid st (\<lambda>a.
        (let TabCost = GetGuildBankTabPrice TabId * GOLD; g = gld st a in
         if TabCost = 0 \<or> unat (m_PurchasedTabs g) \<ge> GUILD_BANK_MAX_TABS \<or> TabId \<noteq> m_PurchasedTabs g \<or>
            GetMoney me st < TabCost
         then Some st
         else
           (let st = ModifyMoney me (- TabCost) (CreateNewBankTab a st);
                st = SetBankMoneyPerDay a (GetRank me st) WITHDRAW_UNLIMITED st;
                st = SetBankRightsAndSlots a (GetRank me st) TabId GUILD_BANK_RIGHT_FULL WITHDRAW_UNLIMITED True st
            in show_tabs e a me (Roster e a None st)))))"

definition HandleGuildBankModifyTab ::
  "guild_henv \<Rightarrow> player \<Rightarrow> u64 \<Rightarrow> u8 \<Rightarrow> string \<Rightarrow> string \<Rightarrow> gust \<Rightarrow> gust option" where
  "HandleGuildBankModifyTab e self GoGuid TabId name icon st =
     (let me = p_guid self in
      if name = [] \<or> icon = [] then Some st
      else at_bank e me GoGuid st (\<lambda>a. do {
        st \<leftarrow> show_tabs e a me (SetGuildBankTabInfo a TabId name icon st);
        DisplayGuildBankContent e a TabId me st
      }))"

definition HandleGuildBankLog :: "guild_henv \<Rightarrow> player \<Rightarrow> u8 \<Rightarrow> gust \<Rightarrow> gust option" where
  "HandleGuildBankLog e self TabId st =
     of_guild (p_guid self) st (\<lambda>a. Some (DisplayGuildBankLogs e a TabId (p_guid self) st))"

definition HandleGuildBankTabText :: "guild_henv \<Rightarrow> player \<Rightarrow> u8 \<Rightarrow> gust \<Rightarrow> gust option" where
  "HandleGuildBankTabText e self TabId st =
     of_guild (p_guid self) st (\<lambda>a. Some (SendGuildBankTabText e a TabId (Some (p_guid self)) st))"

definition HandleGuildBankSetTabText :: "guild_henv \<Rightarrow> player \<Rightarrow> u8 \<Rightarrow> string \<Rightarrow> gust \<Rightarrow> gust option" where
  "HandleGuildBankSetTabText e self TabId txt st =
     of_guild (p_guid self) st (\<lambda>a. Some (SetGuildBankTabText e (gx_trunc e) a TabId txt st))"

section \<open>Moving items\<close>

definition IsInventoryPos :: "u8 \<Rightarrow> u8 \<Rightarrow> bool" where
  "IsInventoryPos bag slot \<longleftrightarrow>
     (bag = 255 \<and> slot = NULL_SLOT) \<or> (bag = 255 \<and> 23 \<le> slot \<and> slot < 39) \<or> (19 \<le> bag \<and> bag < 23) \<or>
     (bag = 255 \<and> 86 \<le> slot \<and> slot < 118)"

definition equip_error :: "u64 \<Rightarrow> u8 \<Rightarrow> gust \<Rightarrow> gust" where
  "equip_error p msg = u_emit [UEquipError p msg]"

text \<open>A log entry for the moved item.\<close>

definition log_item ::
  "guild_henv \<Rightarrow> nat \<Rightarrow> u8 \<Rightarrow> u8 \<Rightarrow> u64 \<Rightarrow> bank_item \<Rightarrow> u32 \<Rightarrow> u8 \<Rightarrow> gust \<Rightarrow> gust" where
  "log_item e a kind tab me i count dst = LogBankEvent e a kind tab (GUID_LOPART me) (bi_entry i) (ucast count) dst"

text \<open>Part of a stack of the bank goes to another place of the bank.\<close>

definition bank_split ::
  "guild_henv \<Rightarrow> nat \<Rightarrow> u64 \<Rightarrow> u8 \<Rightarrow> u8 \<Rightarrow> u8 \<Rightarrow> u8 \<Rightarrow> nat \<Rightarrow> gust \<Rightarrow> (bool \<times> gust) option" where
  "bank_split e a me tab dstTab dstSlot n src st = do {
     (msg, dest) \<leftarrow> Guild_CanStoreItem a dstTab dstSlot (ucast n) src False st;
     if msg \<noteq> EQUIP_ERR_OK then Some (False, equip_error me msg st)
     else do {
       (x, st) \<leftarrow> CloneItem e src (ucast n) st;
       (case x of
          None \<Rightarrow> Some (False, equip_error me EQUIP_ERR_ITEM_NOT_FOUND st)
        | Some x \<Rightarrow> do {
            i \<leftarrow> gt_items st src;
            let st = log_item e a GUILD_BANK_LOG_MOVE_ITEM tab me i (ucast n) dstTab st;
            let st = u_emit [UQuestCheck me (bi_entry i) n] st;
            let st = u_sql [OnBank (QSaveItem src)] (SetCount src (bi_count i - ucast n) st);
            (_, st) \<leftarrow> Guild_StoreItem e a dstTab dest x st;
            Some (True, st)
          })
     }
   }"

text \<open>A whole stack is merged into the place, or else changes places with what is there.\<close>

definition bank_move ::
  "guild_henv \<Rightarrow> nat \<Rightarrow> u64 \<Rightarrow> u8 \<Rightarrow> u8 \<Rightarrow> u8 \<Rightarrow> u8 \<Rightarrow> nat \<Rightarrow> nat option \<Rightarrow> gust \<Rightarrow> (bool \<times> gust) option" where
  "bank_move e a me tab slot dstTab dstSlot src dst st = do {
     i \<leftarrow> gt_items st src;
     (msg, dest) \<leftarrow> Guild_CanStoreItem a dstTab dstSlot (bi_count i) src False st;
     if msg = EQUIP_ERR_OK
     then do {
       let st = log_item e a GUILD_BANK_LOG_MOVE_ITEM tab me i (bi_count i) dstTab st;
       st \<leftarrow> Guild_RemoveItem a tab slot st;
       (_, st) \<leftarrow> Guild_StoreItem e a dstTab dest src st;
       Some (True, st)
     }
     else do {
       (msg, gDest) \<leftarrow> Guild_CanStoreItem a dstTab dstSlot (bi_count i) src True st;
       if msg \<noteq> EQUIP_ERR_OK then Some (False, equip_error me msg st)
       else do {
         y \<leftarrow> dst;
         j \<leftarrow> gt_items st y;
         (msg, gSrc) \<leftarrow> Guild_CanStoreItem a tab slot (bi_count j) y True st;
         if msg \<noteq> EQUIP_ERR_OK then Some (False, equip_error me msg st)
         else if tab \<noteq> dstTab \<and> \<not> IsMemberHaveRights (GUID_LOPART me) tab GUILD_BANK_RIGHT_DEPOSIT_ITEM (gld st a)
         then Some (False, st)
         else
           (case (if tab \<noteq> dstTab then GetMemberSlotWithdrawRem e a (GUID_LOPART me) dstTab st else (1, st)) of
              (rem, st) \<Rightarrow>
                if rem = 0 then Some (False, st)
                else do {
                  let st = log_item e a GUILD_BANK_LOG_MOVE_ITEM tab me i (bi_count i) dstTab st;
                  let st = log_item e a GUILD_BANK_LOG_MOVE_ITEM dstTab me j (bi_count j) tab st;
                  st \<leftarrow> Guild_RemoveItem a tab slot st;
                  st \<leftarrow> Guild_RemoveItem a dstTab dstSlot st;
                  (_, st) \<leftarrow> Guild_StoreItem e a tab gSrc y st;
                  (_, st) \<leftarrow> Guild_StoreItem e a dstTab gDest src st;
                  Some (True, st)
                })
       }
     }
   }"

definition bank_to_bank ::
  "guild_henv \<Rightarrow> nat \<Rightarrow> u64 \<Rightarrow> u8 \<Rightarrow> u8 \<Rightarrow> u8 \<Rightarrow> u8 \<Rightarrow> u8 \<Rightarrow> gust \<Rightarrow> gust option" where
  "bank_to_bank e a me dstTab dstSlot tab slot split st = do {
     p \<leftarrow> Guild_GetItem tab slot (gld st a);
     (case p of
        None \<Rightarrow> Some st
      | Some src \<Rightarrow> do {
          i \<leftarrow> gt_items st src;
          if ucast split > bi_count i then Some st
          else do {
            let split = (if ucast split = bi_count i then 0 else split);
            dst \<leftarrow> Guild_GetItem dstTab dstSlot (gld st a);
            if tab \<noteq> dstTab \<and> \<not> IsMemberHaveRights (GUID_LOPART me) dstTab GUILD_BANK_RIGHT_DEPOSIT_ITEM (gld st a)
            then Some st
            else
              (case (if tab \<noteq> dstTab then GetMemberSlotWithdrawRem e a (GUID_LOPART me) tab st else (1, st)) of
                 (rem, st) \<Rightarrow>
                   if rem = 0 then Some st
                   else do {
                     (moved, st) \<leftarrow> (if split \<noteq> 0 then bank_split e a me tab dstTab dstSlot split src st
                                     else bank_move e a me tab slot dstTab dstSlot src dst st);
                     if \<not> moved then Some st
                     else do {
                       st \<leftarrow> DisplayGuildBankContentUpdate e a tab
                               (update_slots slot (if tab = dstTab then Some dstSlot else None)) st;
                       if tab \<noteq> dstTab then DisplayGuildBankContentUpdate e a dstTab [unat dstSlot] st else Some st
                     }
                   })
          }
        })
   }"

text \<open>Part of a stack of the bank, or the whole of it, goes to the player.\<close>

definition to_char_split ::
  "guild_henv \<Rightarrow> nat \<Rightarrow> u64 \<Rightarrow> u8 \<Rightarrow> nat \<Rightarrow> u8 \<Rightarrow> u8 \<Rightarrow> u8 \<Rightarrow> gust \<Rightarrow> (bool \<times> gust) option" where
  "to_char_split e a me tab bank bag pslot n st = do {
     (x, st) \<leftarrow> CloneItem e bank (ucast n) st;
     (case x of
        None \<Rightarrow> Some (False, equip_error me EQUIP_ERR_ITEM_NOT_FOUND st)
      | Some x \<Rightarrow> do {
          c \<leftarrow> gt_items st x;
          i \<leftarrow> gt_items st bank;
          let (msg, dest) = bx_canStore e me bag pslot c False;
          if msg \<noteq> EQUIP_ERR_OK then Some (False, delete_item x (equip_error me msg st))
          else
            (case GetMemberSlotWithdrawRem e a (GUID_LOPART me) tab st of (rem, st) \<Rightarrow>
               if rem = 0 then Some (False, delete_item x st)
               else do {
                 let st = log_item e a GUILD_BANK_LOG_WITHDRAW_ITEM tab me i (ucast n) 0 st;
                 let st = u_sql [OnBank (QSaveItem bank)] (SetCount bank (bi_count i - ucast n) st);
                 let st = u_emit [UMoveToInventory me dest x, USaveInventory me] st;
                 Some (True, snd (MemberItemWithdraw e a tab (GUID_LOPART me) st))
               })
        })
   }"

definition to_char_move ::
  "guild_henv \<Rightarrow> nat \<Rightarrow> u64 \<Rightarrow> u8 \<Rightarrow> u8 \<Rightarrow> nat \<Rightarrow> nat option \<Rightarrow> u8 \<Rightarrow> u8 \<Rightarrow> gust \<Rightarrow> (bool \<times> gust) option" where
  "to_char_move e a me tab slot bank char bag pslot st = do {
     i \<leftarrow> gt_items st bank;
     let low = GUID_LOPART me;
     let (msg, dest) = bx_canStore e me bag pslot i False;
     if msg = EQUIP_ERR_OK
     then
       (case GetMemberSlotWithdrawRem e a low tab st of (rem, st) \<Rightarrow>
          if rem = 0 then Some (False, st)
          else do {
            let st = log_item e a GUILD_BANK_LOG_WITHDRAW_ITEM tab me i (bi_count i) 0 st;
            st \<leftarrow> Guild_RemoveItem a tab slot st;
            let st = u_emit [UMoveToInventory me dest bank, USaveInventory me] st;
            Some (True, snd (MemberItemWithdraw e a tab low st))
          })
     else if \<not> IsMemberHaveRights low tab GUILD_BANK_RIGHT_DEPOSIT_ITEM (gld st a) then Some (False, st)
     else if (case char of None \<Rightarrow> False | Some y \<Rightarrow> \<not> bx_canBeTraded e y)
     then Some (False, equip_error me EQUIP_ERR_ITEMS_CANT_BE_SWAPPED st)
     else do {
       let (msg, iDest) = bx_canStore e me bag pslot i True;
       if msg \<noteq> EQUIP_ERR_OK then Some (False, equip_error me msg st)
       else do {
         (msg, gDest) \<leftarrow>
           (case char of
              None \<Rightarrow> Some (EQUIP_ERR_OK, [])
            | Some y \<Rightarrow> do { j \<leftarrow> gt_items st y; Guild_CanStoreItem a tab slot (bi_count j) y True st });
         if msg \<noteq> EQUIP_ERR_OK then Some (False, equip_error me msg st)
         else
           (case GetMemberSlotWithdrawRem e a low tab st of (rem, st) \<Rightarrow>
              if rem = 0 then Some (False, st)
              else do {
                let st = log_item e a GUILD_BANK_LOG_WITHDRAW_ITEM tab me i (bi_count i) 0 st;
                st \<leftarrow>
                  (case char of
                     None \<Rightarrow> Guild_RemoveItem a tab slot st
                   | Some y \<Rightarrow> do {
                       j \<leftarrow> gt_items st y;
                       let st = log_item e a GUILD_BANK_LOG_DEPOSIT_ITEM tab me j (bi_count j) 0 st;
                       st \<leftarrow> Guild_RemoveItem a tab slot st;
                       let st = u_emit [UMoveFromInventory me bag pslot, UDeleteFromInventory y] st;
                       (_, st) \<leftarrow> Guild_StoreItem e a tab gDest y st;
                       Some st
                     });
                let st = u_emit [UMoveToInventory me iDest bank, USaveInventory me] st;
                Some (True, snd (MemberItemWithdraw e a tab low st))
              })
       }
     }
   }"

definition to_char ::
  "guild_henv \<Rightarrow> nat \<Rightarrow> u64 \<Rightarrow> u8 \<Rightarrow> u8 \<Rightarrow> nat \<Rightarrow> nat option \<Rightarrow> u8 \<Rightarrow> u8 \<Rightarrow> u8 \<Rightarrow> gust \<Rightarrow> gust option" where
  "to_char e a me tab slot bank char bag pslot split st = do {
     i \<leftarrow> gt_items st bank;
     if ucast split > bi_count i then Some st
     else do {
       (moved, st) \<leftarrow> (if split \<noteq> 0 \<and> ucast split \<noteq> bi_count i then to_char_split e a me tab bank bag pslot split st
                       else to_char_move e a me tab slot bank char bag pslot st);
       if moved then DisplayGuildBankContentUpdate e a tab [unat slot] st else Some st
     }
   }"

text \<open>Part of a stack of the player, or the whole of it, goes to the bank.\<close>

definition to_bank_split ::
  "guild_henv \<Rightarrow> nat \<Rightarrow> u64 \<Rightarrow> u8 \<Rightarrow> u8 \<Rightarrow> nat \<Rightarrow> u8 \<Rightarrow> gust \<Rightarrow> gust option" where
  "to_bank_split e a me tab slot char n st = do {
     (msg, dest) \<leftarrow> Guild_CanStoreItem a tab slot (ucast n) char False st;
     if msg \<noteq> EQUIP_ERR_OK then Some (equip_error me msg st)
     else do {
       (x, st) \<leftarrow> CloneItem e char (ucast n) st;
       (case x of
          None \<Rightarrow> Some (equip_error me EQUIP_ERR_ITEM_NOT_FOUND st)
        | Some x \<Rightarrow> do {
            i \<leftarrow> gt_items st char;
            let st = log_item e a GUILD_BANK_LOG_DEPOSIT_ITEM tab me i (ucast n) 0 st;
            let st = u_emit [UQuestCheck me (bi_entry i) n] st;
            let st = u_emit [UMarkChanged char me, USaveInventory me] (SetCount char (bi_count i - ucast n) st);
            (_, st) \<leftarrow> Guild_StoreItem e a tab dest x st;
            DisplayGuildBankContentUpdate e a tab (map (unat \<circ> fst) dest) st
          })
     }
   }"

definition to_bank_move ::
  "guild_henv \<Rightarrow> nat \<Rightarrow> u64 \<Rightarrow> u8 \<Rightarrow> u8 \<Rightarrow> nat option \<Rightarrow> nat \<Rightarrow> u8 \<Rightarrow> u8 \<Rightarrow> gust \<Rightarrow> gust option" where
  "to_bank_move e a me tab slot bank char bag pslot st = do {
     j \<leftarrow> gt_items st char;
     (msg, dest) \<leftarrow> Guild_CanStoreItem a tab slot (bi_count j) char False st;
     if msg = EQUIP_ERR_OK
     then do {
       let st = log_item e a GUILD_BANK_LOG_DEPOSIT_ITEM tab me j (bi_count j) 0 st;
       let st = u_emit [UMoveFromInventory me bag pslot, UDeleteFromInventory char] st;
       (_, st) \<leftarrow> Guild_StoreItem e a tab dest char st;
       DisplayGuildBankContentUpdate e a tab (map (unat \<circ> fst) dest) (u_emit [USaveInventory me] st)
     }
     else do {
       (msg, iDest) \<leftarrow>
         (case bank of
            None \<Rightarrow> Some (EQUIP_ERR_OK, [])
          | Some x \<Rightarrow> do { i \<leftarrow> gt_items st x; Some (bx_canStore e me bag pslot i True) });
       if msg \<noteq> EQUIP_ERR_OK then Some (equip_error me msg st)
       else do {
         (msg, gDest) \<leftarrow> Guild_CanStoreItem a tab slot (bi_count j) char True st;
         if msg \<noteq> EQUIP_ERR_OK then Some (equip_error me msg st)
         else
           (case (if bank = None then (1, st) else GetMemberSlotWithdrawRem e a (GUID_LOPART me) tab st) of
              (rem, st) \<Rightarrow>
                if rem = 0 then Some st
                else do {
                  st \<leftarrow>
                    (case bank of
                       None \<Rightarrow> Some st
                     | Some x \<Rightarrow> do {
                         i \<leftarrow> gt_items st x;
                         Some (log_item e a GUILD_BANK_LOG_WITHDRAW_ITEM tab me i (bi_count i) 0 st)
                       });
                  let st = log_item e a GUILD_BANK_LOG_DEPOSIT_ITEM tab me j (bi_count j) 0 st;
                  let st = u_emit [UMoveFromInventory me bag pslot, UDeleteFromInventory char] st;
                  st \<leftarrow> (if bank = None then Some st else Guild_RemoveItem a tab slot st);
                  (_, st) \<leftarrow> Guild_StoreItem e a tab gDest char st;
                  let st = (case bank of None \<Rightarrow> st | Some x \<Rightarrow> u_emit [UMoveToInventory me iDest x] st);
                  let st = u_emit [USaveInventory me] st;
                  let st = (if bank = None then st else snd (MemberItemWithdraw e a tab (GUID_LOPART me) st));
                  DisplayGuildBankContentUpdate e a tab (map (unat \<circ> fst) gDest) st
                })
       }
     }
   }"

definition to_bank ::
  "guild_henv \<Rightarrow> nat \<Rightarrow> u64 \<Rightarrow> u8 \<Rightarrow> u8 \<Rightarrow> nat option \<Rightarrow> nat \<Rightarrow> u8 \<Rightarrow> u8 \<Rightarrow> u8 \<Rightarrow> gust \<Rightarrow> gust option" where
  "to_bank e a me tab slot bank char bag pslot split st =
     (if \<not> bx_canBeTraded e char then Some (equip_error me EQUIP_ERR_ITEMS_CANT_BE_SWAPPED st)
      else if \<not> IsMemberHaveRights (GUID_LOPART me) tab GUILD_BANK_RIGHT_DEPOSIT_ITEM (gld st a) then Some st
      else do {
        j \<leftarrow> gt_items st char;
        if ucast split > bi_count j then Some st
        else if split \<noteq> 0 \<and> ucast split \<noteq> bi_count j then to_bank_split e a me tab slot char split st
        else to_bank_move e a me tab slot bank char bag pslot st
      })"

text \<open>The two forms of the request; with \<open>autoStore\<close> the packet has neither \<open>toChar\<close> nor \<open>split\<close>.\<close>

datatype bank_swap =
    BankToBank u8 u8 u8 u8 u8
  | BankAndChar u8 u8 bool u8 u8 bool u8

definition with_char ::
  "guild_henv \<Rightarrow> nat \<Rightarrow> u64 \<Rightarrow> u8 \<Rightarrow> u8 \<Rightarrow> bool \<Rightarrow> u8 \<Rightarrow> u8 \<Rightarrow> bool \<Rightarrow> u8 \<Rightarrow> gust \<Rightarrow> gust option" where
  "with_char e a me tab slot auto bag pslot toChar split st =
     (let (bag, pslot) = (if auto \<and> toChar then (NULL_BAG, NULL_SLOT) else (bag, pslot)) in
      if \<not> IsInventoryPos bag pslot \<and> \<not> (bag = NULL_BAG \<and> pslot = NULL_SLOT)
      then Some (equip_error me EQUIP_ERR_NONE st)
      else do {
        bank \<leftarrow> Guild_GetItem tab slot (gld st a);
        (case (toChar, bank, bx_itemAt e me bag pslot) of
           (True, Some x, char) \<Rightarrow> to_char e a me tab slot x char bag pslot split st
         | (True, None, _) \<Rightarrow> Some st
         | (False, _, None) \<Rightarrow> Some st
         | (False, bank, Some y) \<Rightarrow> to_bank e a me tab slot bank y bag pslot split st)
      })"

fun HandleGuildBankDepositItem :: "guild_henv \<Rightarrow> player \<Rightarrow> u64 \<Rightarrow> bank_swap \<Rightarrow> gust \<Rightarrow> gust option" where
  "HandleGuildBankDepositItem e self GoGuid (BankToBank dstTab dstSlot tab slot split) st =
     (if unat dstSlot \<ge> GUILD_BANK_MAX_SLOTS \<or> dstTab = tab \<and> dstSlot = slot then Some st
      else at_bank e (p_guid self) GoGuid st (\<lambda>a. bank_to_bank e a (p_guid self) dstTab dstSlot tab slot split st))"
| "HandleGuildBankDepositItem e self GoGuid (BankAndChar tab slot auto bag pslot toChar split) st =
     (let toChar = (auto \<or> toChar); split = (if auto then 0 else split) in
      if unat slot \<ge> GUILD_BANK_MAX_SLOTS \<and> slot \<noteq> 0xFF then Some st
      else at_bank e (p_guid self) GoGuid st (\<lambda>a.
        if \<not> toChar \<and> GetBankTab tab (gld st a) = None then Some st
        else with_char e a (p_guid self) tab slot auto bag pslot toChar split st))"

section \<open>Login and logout\<close>

text \<open>\<open>row\<close> is the guild and the rank the member table holds for the player.\<close>

definition login_guild :: "guild_henv \<Rightarrow> player \<Rightarrow> (u32 \<times> u32) option \<Rightarrow> gust \<Rightarrow> gust option" where
  "login_guild e self row st =
     (let me = p_guid self;
          st = (case row of
                  Some (i, r) \<Rightarrow> SetRank me r (SetInGuild me i st)
                | None \<Rightarrow> if GetGuildId me st \<noteq> 0 then SetRank me 0 (SetInGuild me 0 st) else st)
      in if GetGuildId me st = 0 then Some st
         else
           (case guild_of me st of
              None \<Rightarrow> Some (SetInGuild me 0 st)
            | Some a \<Rightarrow>
                (let st = u_emit [USend me (event_packet GE_MOTD 0 [MOTD (gld st a)])] st;
                     st = Guild_BroadcastPacket e a (event_packet GE_SIGNED_ON me [p_name self]) st
                 in Some (upd_gld a (\<lambda>g. g\<lparr>m_onlinemembers := m_onlinemembers g + 1\<rparr>) st))))"

definition logout_guild :: "guild_henv \<Rightarrow> player \<Rightarrow> gust \<Rightarrow> gust option" where
  "logout_guild e self st =
     (let me = p_guid self in
      case guild_of me st of
        None \<Rightarrow> Some st
      | Some a \<Rightarrow> do {
          st \<leftarrow> UpdateLogoutTime e a me (LoadPlayerStatsByGuid e a me st);
          Some (BroadcastEvent e a GE_SIGNED_OFF me [p_name self] st)
        })"

end
