(* ===== verification/GuildFrame.thy ===== *)
theory GuildFrame
  imports GuildHandlers
begin

text \<open>
  What the operations on the bank, the ranks, the logs and the texts leave alone. A view of the state
  that sees of a guild only its number, its leader, the ranks of its members and its money is the
  same before and after each of them; the locale proves it once for every such view.
\<close>

definition member_ranks :: "guild \<Rightarrow> (u32 \<times> u32) list" where
  "member_ranks g = map (\<lambda>(k, m). (k, gm_RankId m)) (gmembers g)"

definition kernel :: "guild \<Rightarrow> u32 \<times> u64 \<times> (u32 \<times> u32) list \<times> u64" where
  "kernel g = (m_Id g, m_LeaderGuid g, member_ranks g, m_GuildBankMoney g)"

lemma member_ranks_upd_member:
  "(\<And>m. gm_RankId (f m) = gm_RankId m) \<Longrightarrow> member_ranks (upd_member low f g) = member_ranks g"
  by (auto simp: member_ranks_def upd_member_def)

lemma member_ranks_upd_rank_members:
  "(\<And>m. gm_RankId (f m) = gm_RankId m) \<Longrightarrow> member_ranks (upd_rank_members r f g) = member_ranks g"
  by (auto simp: member_ranks_def upd_rank_members_def)

lemma upd_member_sel [simp]:
  "m_Id (upd_member low f g) = m_Id g" "m_LeaderGuid (upd_member low f g) = m_LeaderGuid g"
  "m_GuildBankMoney (upd_member low f g) = m_GuildBankMoney g"
  "m_Id (upd_rank_members r f g) = m_Id g" "m_LeaderGuid (upd_rank_members r f g) = m_LeaderGuid g"
  "m_GuildBankMoney (upd_rank_members r f g) = m_GuildBankMoney g"
  by (simp_all add: upd_member_def upd_rank_members_def)

lemma kernel_simps [simp]:
  "kernel (upd_rank r f' g) = kernel g"
  "kernel (upd_tab tab f'' g) = kernel g"
  "kernel (set_slot tab slot p g) = kernel g"
  "kernel (AddRank nm rights money g) = kernel g"
  by (simp_all add: kernel_def member_ranks_def upd_rank_def upd_tab_def set_slot_def AddRank_def)

lemma kernel_fields [simp]:
  "kernel (g\<lparr>MOTD := s\<rparr>) = kernel g" "kernel (g\<lparr>GINFO := s\<rparr>) = kernel g" "kernel (g\<lparr>m_Emblem := w\<rparr>) = kernel g"
  "kernel (g\<lparr>m_Ranks := rs\<rparr>) = kernel g" "kernel (g\<lparr>m_TabListMap := ts\<rparr>) = kernel g"
  "kernel (g\<lparr>m_PurchasedTabs := n\<rparr>) = kernel g" "kernel (g\<lparr>m_GuildEventlog := el\<rparr>) = kernel g"
  "kernel (g\<lparr>m_BankLog_Money := bl\<rparr>) = kernel g" "kernel (g\<lparr>m_BankLog_Item := bi\<rparr>) = kernel g"
  "kernel (g\<lparr>m_bankloaded := b\<rparr>) = kernel g" "kernel (g\<lparr>m_eventlogloaded := b\<rparr>) = kernel g"
  "kernel (g\<lparr>m_onlinemembers := on\<rparr>) = kernel g" "kernel (g\<lparr>LogMaxGuid := l\<rparr>) = kernel g"
  "kernel (g\<lparr>GuildEventlogMaxGuid := l\<rparr>) = kernel g" "kernel (g\<lparr>m_accountsNumber := acc\<rparr>) = kernel g"
  by (simp_all add: kernel_def member_ranks_def)

lemma kernel_upd_member: "(\<And>m. gm_RankId (f m) = gm_RankId m) \<Longrightarrow> kernel (upd_member low f g) = kernel g"
  by (simp add: kernel_def member_ranks_upd_member)

lemma kernel_upd_rank_members:
  "(\<And>m. gm_RankId (f m) = gm_RankId m) \<Longrightarrow> kernel (upd_rank_members r f g) = kernel g"
  by (simp add: kernel_def member_ranks_upd_rank_members)

text \<open>A partial operation that keeps a view: wherever it yields a state, the view is the same.\<close>

definition keeps :: "('s \<Rightarrow> 'v) \<Rightarrow> ('y \<Rightarrow> 's) \<Rightarrow> 's \<Rightarrow> 'y option \<Rightarrow> bool" where
  "keeps view \<pi> st x \<longleftrightarrow> (\<forall>y. x = Some y \<longrightarrow> view (\<pi> y) = view st)"

named_theorems keeps_intros "that partial operations keep a view"

lemma keeps_None [keeps_intros]: "keeps view \<pi> st None"
  by (simp add: keeps_def)

lemma keeps_Some [keeps_intros]: "view (\<pi> y) = view st \<Longrightarrow> keeps view \<pi> st (Some y)"
  by (simp add: keeps_def)

lemma keeps_bind_any:
  "(\<And>y. m = Some y \<Longrightarrow> keeps view \<pi> st (f y)) \<Longrightarrow> keeps view \<pi> st (Option.bind m f)"
  by (cases m) (auto simp: keeps_def)

lemma keeps_bind:
  "keeps view \<rho> st m \<Longrightarrow> (\<And>y. m = Some y \<Longrightarrow> view (\<rho> y) = view st \<Longrightarrow> keeps view \<pi> (\<rho> y) (f y)) \<Longrightarrow>
     keeps view \<pi> st (Option.bind m f)"
  by (cases m) (auto simp: keeps_def)

lemma keeps_dest: "keeps view \<pi> st x \<Longrightarrow> x = Some y \<Longrightarrow> view (\<pi> y) = view st"
  by (simp add: keeps_def)

lemma keeps_trans: "view st' = view st \<Longrightarrow> keeps view \<pi> st' x \<Longrightarrow> keeps view \<pi> st x"
  by (simp add: keeps_def)

locale bank_view =
  fixes view :: "gust \<Rightarrow> 'v"
  assumes view_emit [simp]: "view (u_emit es st) = view st"
    and view_store: "view (st\<lparr>gt_items := i, gt_nextItem := n, gt_itemGuid := k\<rparr>) = view st"
    and view_guild: "(\<And>g. kernel (f g) = kernel g) \<Longrightarrow> view (upd_gld a f st) = view st"
begin

lemma view_items [simp]: "view (st\<lparr>gt_items := i\<rparr>) = view st"
  using view_store [where st = st and i = i and n = "gt_nextItem st" and k = "gt_itemGuid st"] by simp

lemma view_new_item [simp]: "view (st\<lparr>gt_items := i, gt_nextItem := n\<rparr>) = view st"
  using view_store [where st = st and i = i and n = n and k = "gt_itemGuid st"] by simp

lemma view_item_guid [simp]: "view (st\<lparr>gt_itemGuid := k\<rparr>) = view st"
  using view_store [where st = st and i = "gt_items st" and n = "gt_nextItem st" and k = k] by simp

lemma view_sql [simp]: "view (u_sql qs st) = view st"
  by (simp add: u_sql_def)

lemma view_upd_item [simp]: "view (upd_item x f st) = view st" "view (delete_item x st) = view st" "view (SetCount x n st) = view st"
  by (simp_all add: upd_item_def delete_item_def SetCount_def)

lemma view_delete_items [simp]: "view (fold delete_item xs st) = view st"
  by (induction xs arbitrary: st) simp_all

lemma view_broadcast [simp]:
  "view (Guild_BroadcastPacket e a pk st) = view st" "view (BroadcastEvent e a ev guid strs st) = view st"
  "view (Roster e a session st) = view st" "view (Query a p st) = view st"
  "view (SendGuildCommandResult p t s r st) = view st" "view (equip_error p msg st) = view st"
  "view (SendSaveGuildEmblem p m st) = view st"
  by (simp_all add: Guild_BroadcastPacket_def BroadcastEvent_def Roster_def Query_def Let_def
      SendGuildCommandResult_def equip_error_def SendSaveGuildEmblem_def split: option.splits)

lemmas quota_simps = kernel_upd_member kernel_upd_rank_members

lemma view_money_rem [simp]: "view (snd (GetMemberMoneyWithdrawRem e a low st)) = view st"
  by (auto simp: GetMemberMoneyWithdrawRem_def Let_def view_guild quota_simps split: option.split)

lemma view_slot_rem [simp]: "view (snd (GetMemberSlotWithdrawRem e a low tab st)) = view st"
  by (auto simp: GetMemberSlotWithdrawRem_def Let_def view_guild quota_simps split: option.split)

lemma view_money_rem_eq: "GetMemberMoneyWithdrawRem e a low st = (r, st') \<Longrightarrow> view st' = view st"
  by (metis snd_conv view_money_rem)

lemma view_slot_rem_eq: "GetMemberSlotWithdrawRem e a low tab st = (r, st') \<Longrightarrow> view st' = view st"
  by (metis snd_conv view_slot_rem)

lemma view_item_withdraw [simp]: "view (snd (MemberItemWithdraw e a tab low st)) = view st"
  by (auto simp: MemberItemWithdraw_def Let_def view_guild quota_simps view_slot_rem_eq split: option.split prod.split)

lemma view_log [simp]: "view (LogBankEvent e a k tab low x n d st) = view st" "view (log_item e a k tab me i cnt d st) = view st"
  "view (LogGuildEvent e a et p1 p2 r st) = view st"
  by (simp_all add: LogBankEvent_def log_item_def LogGuildEvent_def Let_def view_guild)

lemma view_rank_ops [simp]:
  "view (SetRankName a r nm st) = view st" "view (SetRankRights a r rights st) = view st"
  "view (DelRank a st) = view st" "view (SetBankMoneyPerDay a r money st) = view st"
  "view (SetBankRightsAndSlots a r tab right n db st) = view st" "view (CreateBankRightForTab a r tab st) = view st"
  "view (CreateNewBankTab a st) = view st" "view (SetGuildBankTabInfo a tab nm icon st) = view st"
  "view (SetMOTD a s st) = view st" "view (SetGINFO a s st) = view st" "view (SetEmblem a em st) = view st"
  by (simp_all add: SetRankName_def SetRankRights_def DelRank_def SetBankMoneyPerDay_def SetBankRightsAndSlots_def
      CreateBankRightForTab_def CreateNewBankTab_def SetGuildBankTabInfo_def SetMOTD_def SetGINFO_def SetEmblem_def
      Let_def view_guild quota_simps split: option.split)

lemma view_fold: "(\<And>x st. view (f x st) = view st) \<Longrightarrow> view (fold f xs st) = view st"
  by (induction xs arbitrary: st) simp_all

lemma view_create_rank [simp]: "view (CreateRank a nm rights st) = view st"
  by (simp add: CreateRank_def Let_def view_guild view_fold)

lemma view_default_ranks [simp]: "view (CreateDefaultGuildRanks e a st) = view st"
  unfolding CreateDefaultGuildRanks_def by (subst view_fold) auto

lemma view_notes [simp]: "view (SetPNOTE a guid s st) = view st" "view (SetOFFNOTE a guid s st) = view st"
  by (simp_all add: SetPNOTE_def SetOFFNOTE_def Let_def view_guild quota_simps)

lemma view_stats [simp]: "view (LoadPlayerStatsByGuid e a guid st) = view st"
  by (simp add: LoadPlayerStatsByGuid_def view_guild quota_simps split: option.split)

lemma view_tab_text [simp]:
  "view (SendGuildBankTabText e a tab session st) = view st" "view (SetGuildBankTabText e tr a tab s st) = view st"
  "view (DisplayGuildBankLogs e a tab p st) = view st"
  by (simp_all add: SendGuildBankTabText_def SetGuildBankTabText_def DisplayGuildBankLogs_def Let_def view_guild
      split: option.split)

text \<open>The operations that may fail.\<close>

lemma keeps_clone: "keeps view snd st (CloneItem e x n st)"
  unfolding CloneItem_def GenerateItemGuid_def
  by (rule keeps_bind_any) (auto intro!: keeps_intros simp: Let_def split: prod.split)

lemma keeps_remove: "keeps view (\<lambda>s. s) st (Guild_RemoveItem a tab slot st)"
  unfolding Guild_RemoveItem_def by (rule keeps_bind_any) (auto intro!: keeps_intros simp: view_guild)

lemma view_clone: "CloneItem e x n st = Some (r, st') \<Longrightarrow> view st' = view st"
  using keeps_dest [OF keeps_clone] by fastforce

lemma keeps_store_at: "keeps view snd st (store_at e a tab slot x count clone st)"
  unfolding store_at_def
  by (rule keeps_bind_any)
    (auto simp: Let_def view_guild view_clone split: option.split intro!: keeps_intros keeps_bind_any)

lemma keeps_store: "keeps view snd st (Guild_StoreItem e a tab dest x st)"
proof (induction e a tab dest x st rule: Guild_StoreItem.induct)
  case (3 e a tab slot count d ds x st)
  show ?case
    unfolding Guild_StoreItem.simps
    by (rule keeps_bind [OF keeps_store_at]) (auto intro: 3 split: prod.split)
qed (auto intro: keeps_intros keeps_store_at)

lemma keeps_content: "keeps view (\<lambda>s. s) st (DisplayGuildBankContent e a tab p st)"
  unfolding DisplayGuildBankContent_def Let_def
  by (auto simp: keeps_None dest: view_slot_rem_eq intro!: keeps_intros keeps_bind_any split: prod.split)

lemma view_send_update [simp]: "view (send_update e a tab money fs low st) = view st"
  by (auto simp: send_update_def view_slot_rem_eq split: prod.split)

lemma view_money_update [simp]: "view (DisplayGuildBankMoneyUpdate e a st) = view st"
  by (simp add: DisplayGuildBankMoneyUpdate_def)

lemma keeps_content_update: "keeps view (\<lambda>s. s) st (DisplayGuildBankContentUpdate e a tab slots st)"
  unfolding DisplayGuildBankContentUpdate_def Let_def
  by (auto intro!: keeps_intros keeps_bind_any simp: view_fold)

lemma view_bank_log [simp]: "view (LoadGuildBankEventLogFromDB a rows st) = view st"
proof -
  have "kernel (load_bank_event row g) = kernel g" for row g
    by (simp add: load_bank_event_def split: prod.split)
  hence "kernel (fold load_bank_event rows g) = kernel g" for g
    by (induction rows arbitrary: g) simp_all
  thus ?thesis by (simp add: LoadGuildBankEventLogFromDB_def Let_def view_guild)
qed

lemma keeps_load_tabs: "keeps view (\<lambda>s. s) st (load_tabs a rows st)"
proof (induction rows arbitrary: st)
  case (Cons r rows)
  show ?case by (auto intro!: keeps_intros keeps_trans [OF _ Cons.IH] simp: view_guild)
qed (auto intro: keeps_intros)

lemma keeps_load_items: "keeps view (\<lambda>s. s) st (load_items a rows st)"
proof (induction rows arbitrary: st)
  case (Cons r rows)
  show ?case
    by (auto intro!: keeps_trans [OF _ Cons.IH] keeps_bind_any simp: Let_def view_guild split: option.split)
qed (auto intro: keeps_intros)

lemma keeps_load_bank: "keeps view (\<lambda>s. s) st (LoadGuildBankFromDB a rows st)"
  unfolding LoadGuildBankFromDB_def Let_def
  by (auto simp: view_guild intro!: keeps_intros keeps_bind [OF keeps_trans [OF _ keeps_load_tabs]]
      keeps_trans [OF _ keeps_load_items])

lemma keeps_unload_tabs: "keeps view (\<lambda>s. s) st (unload_tabs a is st)"
proof (induction "is" arbitrary: st)
  case (Cons i "is")
  show ?case by (auto intro!: keeps_bind_any keeps_trans [OF _ Cons.IH])
qed (auto intro: keeps_intros)

lemma keeps_unload: "keeps view (\<lambda>s. s) st (UnloadGuildBank a st)"
  unfolding UnloadGuildBank_def
  by (auto simp: view_guild UnloadGuildBankEventLog_def intro!: keeps_intros keeps_bind [OF keeps_unload_tabs])

lemma keeps_logout_time: "keeps view (\<lambda>s. s) st (UpdateLogoutTime e a guid st)"
proof -
  have unlog: "kernel (UnloadGuildEventlog g) = kernel g" for g
    by (simp add: UnloadGuildEventlog_def)
  show ?thesis
    unfolding UpdateLogoutTime_def Let_def
    by (auto simp: view_guild quota_simps unlog intro!: keeps_intros keeps_bind [OF keeps_trans [OF _ keeps_unload]])
qed

lemma keeps_tabs_info: "keeps view (\<lambda>s. s) st (DisplayGuildBankTabsInfo a rows p st)"
  unfolding DisplayGuildBankTabsInfo_def Let_def
  by (rule keeps_bind [OF keeps_load_bank]) (auto intro!: keeps_intros)

lemma keeps_show_tabs: "keeps view (\<lambda>s. s) st (show_tabs e a me st)"
  by (simp add: show_tabs_def keeps_tabs_info)

lemma keeps_show_money: "keeps view (\<lambda>s. s) st (show_money e a me st)"
  unfolding show_money_def
  by (auto intro!: keeps_bind [OF keeps_show_tabs] keeps_bind [OF keeps_trans [OF _ keeps_content]] keeps_intros)

text \<open>The same as equations on the states the steps of a request go through.\<close>

lemma view_remove: "Guild_RemoveItem a tab slot st = Some st' \<Longrightarrow> view st' = view st"
  using keeps_dest [OF keeps_remove] by fastforce

lemma view_stored: "Guild_StoreItem e a tab dest x st = Some (r, st') \<Longrightarrow> view st' = view st"
  using keeps_dest [OF keeps_store] by fastforce

lemma view_updated: "DisplayGuildBankContentUpdate e a tab slots st = Some st' \<Longrightarrow> view st' = view st"
  using keeps_dest [OF keeps_content_update] by fastforce

lemma view_shown: "show_tabs e a me st = Some st' \<Longrightarrow> view st' = view st"
  using keeps_dest [OF keeps_show_tabs] by fastforce

lemma view_logout_time: "UpdateLogoutTime e a guid st = Some st' \<Longrightarrow> view st' = view st"
  using keeps_dest [OF keeps_logout_time] by fastforce

lemmas view_eqs = view_clone view_remove view_stored view_updated view_shown view_logout_time
  view_slot_rem_eq view_money_rem_eq view_guild

lemma keeps_bank_split: "keeps view snd st (bank_split e a me tab dstTab dstSlot n src st)"
  unfolding bank_split_def Let_def
  by (rule keeps_bind_any) (auto intro!: keeps_intros keeps_bind_any simp: view_eqs split: option.split)

lemma keeps_bank_move: "keeps view snd st (bank_move e a me tab slot dstTab dstSlot src dst st)"
  unfolding bank_move_def Let_def
  by (rule keeps_bind_any)
    (auto intro!: keeps_intros keeps_bind_any simp: view_eqs split: prod.split if_splits)

lemma keeps_to_char_split: "keeps view snd st (to_char_split e a me tab bank bag pslot n st)"
  unfolding to_char_split_def Let_def
  by (rule keeps_bind_any)
    (auto intro!: keeps_intros keeps_bind_any simp: view_eqs split: option.split prod.split)

lemma keeps_to_char_move: "keeps view snd st (to_char_move e a me tab slot bank char bag pslot st)"
  unfolding to_char_move_def Let_def
  by (rule keeps_bind_any)
    (auto intro!: keeps_intros keeps_bind_any simp: view_eqs split: option.splits prod.splits if_splits)

lemma keeps_to_bank_split: "keeps view (\<lambda>s. s) st (to_bank_split e a me tab slot char n st)"
  unfolding to_bank_split_def Let_def
  by (rule keeps_bind_any)
    (auto intro!: keeps_intros keeps_bind_any keeps_trans [OF _ keeps_content_update] simp: view_eqs
      split: option.split)

lemma keeps_to_bank_move: "keeps view (\<lambda>s. s) st (to_bank_move e a me tab slot bank char bag pslot st)"
  unfolding to_bank_move_def Let_def
  by (rule keeps_bind_any)
    (auto intro!: keeps_intros keeps_bind_any keeps_trans [OF _ keeps_content_update] simp: view_eqs
      split: option.splits prod.splits if_splits)

lemma view_moved:
  "bank_split e a me tab dstTab dstSlot n src st = Some (b, st') \<Longrightarrow> view st' = view st"
  "bank_move e a me tab slot dstTab dstSlot src dst st = Some (b, st') \<Longrightarrow> view st' = view st"
  "to_char_split e a me tab bank bag pslot n st = Some (b, st') \<Longrightarrow> view st' = view st"
  "to_char_move e a me tab slot bank char bag pslot st = Some (b, st') \<Longrightarrow> view st' = view st"
  using keeps_dest [OF keeps_bank_split] keeps_dest [OF keeps_bank_move] keeps_dest [OF keeps_to_char_split]
    keeps_dest [OF keeps_to_char_move] by fastforce+

lemma keeps_bank_to_bank: "keeps view (\<lambda>s. s) st (bank_to_bank e a me dstTab dstSlot tab slot split st)"
  unfolding bank_to_bank_def Let_def
  by (rule keeps_bind_any)
    (auto intro!: keeps_intros keeps_bind_any keeps_trans [OF _ keeps_content_update] simp: view_eqs view_moved
      split: option.splits prod.splits if_splits)

lemma keeps_to_char: "keeps view (\<lambda>s. s) st (to_char e a me tab slot bank char bag pslot split st)"
  unfolding to_char_def
  by (rule keeps_bind_any)
    (auto intro!: keeps_intros keeps_bind_any keeps_trans [OF _ keeps_content_update] simp: view_eqs view_moved)

lemma keeps_with_char: "keeps view (\<lambda>s. s) st (with_char e a me tab slot auto bag pslot toChar split st)"
  unfolding with_char_def to_bank_def Let_def
  by (auto intro!: keeps_intros keeps_bind_any keeps_to_char keeps_to_bank_split keeps_to_bank_move
      split: option.split bool.split)

text \<open>The frames of the requests.\<close>

lemma keeps_of_guild: "(\<And>a. keeps view (\<lambda>s. s) st (k a)) \<Longrightarrow> keeps view (\<lambda>s. s) st (of_guild me st k)"
  by (auto simp: of_guild_def intro: keeps_intros split: option.split)

lemma keeps_at_bank: "(\<And>a. keeps view (\<lambda>s. s) st (k a)) \<Longrightarrow> keeps view (\<lambda>s. s) st (at_bank e me go st k)"
  by (auto simp: at_bank_def intro: keeps_intros keeps_of_guild)

lemma keeps_in_guild: "(\<And>a. keeps view (\<lambda>s. s) st (k a)) \<Longrightarrow> keeps view (\<lambda>s. s) st (in_guild me st k)"
  by (auto simp: in_guild_def intro: keeps_intros split: option.split)

lemma keeps_guards:
  "keeps view (\<lambda>s. s) st k \<Longrightarrow> keeps view (\<lambda>s. s) st (with_right me right a st k)"
  "keeps view (\<lambda>s. s) st k \<Longrightarrow> keeps view (\<lambda>s. s) st (as_leader me a st k)"
  by (auto simp: with_right_def as_leader_def intro: keeps_intros)

lemma keeps_with_member:
  "(\<And>g m. keeps view (\<lambda>s. s) st (k' g m)) \<Longrightarrow> keeps view (\<lambda>s. s) st (with_member me nm a st k')"
  by (auto simp: with_member_def intro: keeps_intros split: option.split prod.split)

lemma keeps_with_name: "(\<And>n. keeps view (\<lambda>s. s) st (k'' n)) \<Longrightarrow> keeps view (\<lambda>s. s) st (with_name e nm st k'')"
  by (auto simp: with_name_def intro: keeps_intros split: option.split)

lemmas keeps_frames = keeps_of_guild keeps_at_bank keeps_in_guild keeps_guards keeps_with_member keeps_with_name

lemma keeps_deposit_item: "keeps view (\<lambda>s. s) st (HandleGuildBankDepositItem e self go req st)"
  by (cases req) (auto simp: Let_def intro!: keeps_intros keeps_frames keeps_bank_to_bank keeps_with_char)

lemma view_tab_rights: "tab_rights_fields e a r low is st = (fs, st') \<Longrightarrow> view st' = view st"
  by (induction "is" arbitrary: st fs) (auto simp: view_slot_rem_eq split: prod.splits)

lemma view_eventlog [simp]: "view (DisplayGuildEventlog e a rows p st) = view st"
  by (simp add: DisplayGuildEventlog_def LoadGuildEventLogFromDB_def Let_def view_guild)

lemma view_money_info [simp]: "view (SendMoneyInfo e a p low st) = view st"
  by (auto simp: SendMoneyInfo_def view_money_rem_eq split: prod.split)

lemma view_set_tab_rights [simp]: "view (set_tab_rights a r tabs st) = view st"
  unfolding set_tab_rights_def by (subst view_fold) auto

lemmas keeps_requests = keeps_intros keeps_frames

lemma keeps_shown: "view st' = view st \<Longrightarrow> keeps view (\<lambda>s. s) st (show_tabs e a me st')"
  "view st' = view st \<Longrightarrow> keeps view (\<lambda>s. s) st (show_money e a me st')"
  "view st' = view st \<Longrightarrow> keeps view (\<lambda>s. s) st (DisplayGuildBankContent e a tab me st')"
  by (auto intro: keeps_trans keeps_show_tabs keeps_show_money keeps_content)

lemma keeps_texts:
  "keeps view (\<lambda>s. s) st (HandleGuildQueryOpcode self i st)" "keeps view (\<lambda>s. s) st (HandleGuildInfoOpcode self st)"
  "keeps view (\<lambda>s. s) st (HandleGuildRosterOpcode e self st)" "keeps view (\<lambda>s. s) st (HandleGuildMOTDOpcode e self motd st)"
  "keeps view (\<lambda>s. s) st (HandleGuildSetPublicNoteOpcode e self name note st)"
  "keeps view (\<lambda>s. s) st (HandleGuildSetOfficerNoteOpcode e self name note st)"
  "keeps view (\<lambda>s. s) st (HandleGuildRankOpcode e self r rights name money tabs st)"
  "keeps view (\<lambda>s. s) st (HandleGuildAddRankOpcode e self name st)" "keeps view (\<lambda>s. s) st (HandleGuildDelRankOpcode e self st)"
  "keeps view (\<lambda>s. s) st (HandleGuildChangeInfoOpcode self info st)"
  unfolding HandleGuildQueryOpcode_def HandleGuildInfoOpcode_def HandleGuildRosterOpcode_def HandleGuildMOTDOpcode_def
    HandleGuildSetPublicNoteOpcode_def HandleGuildSetOfficerNoteOpcode_def HandleGuildRankOpcode_def
    HandleGuildAddRankOpcode_def HandleGuildDelRankOpcode_def HandleGuildChangeInfoOpcode_def Let_def
  by (auto intro!: keeps_requests split: option.split prod.split)

lemma keeps_rights: "keeps view (\<lambda>s. s) st (HandleGuildBankGetRights e self st)"
  unfolding HandleGuildBankGetRights_def Let_def
  by (auto intro!: keeps_requests simp: view_tab_rights view_money_rem_eq split: prod.split)

lemma keeps_bank:
  "keeps view (\<lambda>s. s) st (HandleGuildEventLogOpcode e self st)" "keeps view (\<lambda>s. s) st (HandleGuildBankGetMoneyAmount e self st)"
  "keeps view (\<lambda>s. s) st (HandleGuildBankQuery e self go st)" "keeps view (\<lambda>s. s) st (HandleGuildBankTabColon e self go tab st)"
  "keeps view (\<lambda>s. s) st (HandleGuildBankLog e self tab st)" "keeps view (\<lambda>s. s) st (HandleGuildBankTabText e self tab st)"
  "keeps view (\<lambda>s. s) st (HandleGuildBankSetTabText e self tab txt st)"
  unfolding HandleGuildEventLogOpcode_def HandleGuildBankGetMoneyAmount_def HandleGuildBankQuery_def
    HandleGuildBankTabColon_def HandleGuildBankLog_def HandleGuildBankTabText_def HandleGuildBankSetTabText_def Let_def
  by (auto intro!: keeps_requests keeps_shown split: option.split)

lemma keeps_modify: "keeps view (\<lambda>s. s) st (HandleGuildBankModifyTab e self go tab name icon st)"
  unfolding HandleGuildBankModifyTab_def Let_def
  by (auto intro!: keeps_requests keeps_bind_any keeps_shown simp: view_shown)

end

end
