(* ===== verification/GuildInv.thy ===== *)
theory GuildInv
  imports GuildFrame
begin

text \<open>
  The consistency of guilds, players and registry, and that every fair request keeps it. The state is
  seen through the registry, the guild and the rank of every player, and of every guild its number,
  its leader and the ranks of its members.
\<close>

section \<open>The view\<close>

lemma player_guid_ucast: "ucast low = player_guid low"
  by (simp add: player_guid_def MAKE_NEW_GUID_def)

lemma lopart_ucast [simp]: "GUID_LOPART (ucast (low :: u32)) = low"
  by (simp add: player_guid_ucast)

definition is_player :: "u64 \<Rightarrow> bool" where
  "is_player g \<longleftrightarrow> g = player_guid (GUID_LOPART g)"

lemma is_player_ucast [simp]: "is_player (ucast (low :: u32))" "is_player (player_guid low)"
  by (simp_all add: is_player_def player_guid_ucast)

lemma is_player_inj: "is_player p \<Longrightarrow> is_player q \<Longrightarrow> GUID_LOPART p = GUID_LOPART q \<longleftrightarrow> p = q"
  by (metis is_player_def)

definition gview :: "guild \<Rightarrow> u32 \<times> u64 \<times> (u32 \<times> u32) list" where
  "gview g = (m_Id g, m_LeaderGuid g, member_ranks g)"

definition gcore :: "gust \<Rightarrow> (u32, nat) omap \<times> u32 \<times> nat \<times> (u64 \<Rightarrow> u32 \<times> u32) \<times>
    (nat \<Rightarrow> (u32 \<times> u64 \<times> (u32 \<times> u32) list) option)" where
  "gcore st = (gt_map st, gt_guildId st, gt_next st, \<lambda>p. (GetGuildId p st, GetRank p st),
     \<lambda>a. map_option gview (gt_heap st a))"

lemma gview_kernel: "kernel (f g) = kernel g \<Longrightarrow> gview (f g) = gview g"
  by (simp add: kernel_def gview_def)

lemma gcore_upd_gld: "(\<And>g. gview (f g) = gview g) \<Longrightarrow> gcore (upd_gld a f st) = gcore st"
  by (auto simp: gcore_def upd_gld_def GetGuildId_def GetRank_def fun_eq_iff option.map_comp comp_def)

interpretation core: bank_view gcore
proof unfold_locales
  show "gcore (u_emit es st) = gcore st" for es st
    by (simp add: gcore_def u_emit_def GetGuildId_def GetRank_def)
  show "gcore (st\<lparr>gt_items := i, gt_nextItem := n, gt_itemGuid := k\<rparr>) = gcore st" for st i n k
    by (simp add: gcore_def GetGuildId_def GetRank_def)
  show "(\<And>g. kernel (f g) = kernel g) \<Longrightarrow> gcore (upd_gld a f st) = gcore st" for f a st
    by (rule gcore_upd_gld) (rule gview_kernel)
qed

lemma gcore_upd_gplayer:
  "(\<And>pl. pg_guildId (f pl) = pg_guildId pl \<and> pg_rank (f pl) = pg_rank pl) \<Longrightarrow> gcore (upd_gplayer p f st) = gcore st"
  by (auto simp: gcore_def upd_gplayer_def GetGuildId_def GetRank_def fun_eq_iff)

lemma gcore_money [simp]:
  "gcore (ModifyMoney p d st) = gcore st" "gcore (SetGuildIdInvited p i st) = gcore st"
  "gcore (SetBankMoney a m st) = gcore st"
  by (simp_all add: ModifyMoney_def SetGuildIdInvited_def SetBankMoney_def Let_def gcore_upd_gplayer gcore_upd_gld
      gview_def member_ranks_def)

section \<open>The invariant\<close>

text \<open>A member of a registered guild.\<close>

definition home :: "gust \<Rightarrow> u32 \<Rightarrow> u32 \<Rightarrow> nat \<Rightarrow> u32 \<Rightarrow> bool" where
  "home st low i a r \<longleftrightarrow> map_of (gt_map st) i = Some a \<and> map_of (member_ranks (gld st a)) low = Some r"

definition led :: "gust \<Rightarrow> nat \<Rightarrow> bool" where
  "led st a \<longleftrightarrow> is_player (m_LeaderGuid (gld st a)) \<and> om_mem (GUID_LOPART (m_LeaderGuid (gld st a))) (member_ranks (gld st a))"

definition registered_ok :: "gust \<Rightarrow> u32 \<Rightarrow> nat \<Rightarrow> bool" where
  "registered_ok st i a \<longleftrightarrow> i \<noteq> 0 \<and> i < gt_guildId st \<and> a < gt_next st \<and> gt_heap st a \<noteq> None \<and>
     m_Id (gld st a) = i \<and> om_ok (member_ranks (gld st a))"

definition at_home :: "gust \<Rightarrow> u64 \<Rightarrow> bool" where
  "at_home st p \<longleftrightarrow> is_player p \<and>
     (\<forall>i a r. home st (GUID_LOPART p) i a r \<longrightarrow> GetGuildId p st = i \<and> GetRank p st = r) \<and>
     (GetGuildId p st \<noteq> 0 \<longrightarrow> (\<exists>a r. home st (GUID_LOPART p) (GetGuildId p st) a r))"

text \<open>\<open>X\<close> are guilds whose leader may be missing in the middle of a request.\<close>

definition guild_inv_ex :: "nat set \<Rightarrow> u64 set \<Rightarrow> gust \<Rightarrow> bool" where
  "guild_inv_ex X C st \<longleftrightarrow>
     0 < gt_guildId st \<and> om_ok (gt_map st) \<and>
     (\<forall>i a. map_of (gt_map st) i = Some a \<longrightarrow> registered_ok st i a) \<and>
     (\<forall>i a. map_of (gt_map st) i = Some a \<longrightarrow> a \<notin> X \<longrightarrow> led st a) \<and>
     (\<forall>low i a r j b s. home st low i a r \<longrightarrow> home st low j b s \<longrightarrow> i = j) \<and>
     (\<forall>p\<in>C. at_home st p)"

abbreviation guild_inv :: "u64 set \<Rightarrow> gust \<Rightarrow> bool" where
  "guild_inv \<equiv> guild_inv_ex {}"

lemma gcore_heap_view: "gcore st' = gcore st \<Longrightarrow> map_option gview (gt_heap st' a) = map_option gview (gt_heap st a)"
  by (drule arg_cong [where f = "\<lambda>x. snd (snd (snd (snd x))) a"]) (simp add: gcore_def)

lemma gcore_gld: "gcore st' = gcore st \<Longrightarrow> gt_heap st a \<noteq> None \<Longrightarrow> gview (gld st' a) = gview (gld st a)"
  by (drule gcore_heap_view [where a = a]) (auto simp: gld_def split: option.splits)

lemma gcore_heap: "gcore st' = gcore st \<Longrightarrow> gt_heap st' a = None \<longleftrightarrow> gt_heap st a = None"
  by (drule gcore_heap_view [where a = a]) (metis option.map_disc_iff)

lemma gcore_player: "gcore st' = gcore st \<Longrightarrow> GetGuildId p st' = GetGuildId p st \<and> GetRank p st' = GetRank p st"
  by (drule arg_cong [where f = "\<lambda>x. fst (snd (snd (snd x))) p"]) (simp add: gcore_def)

lemma gcore_registry:
  "gcore st' = gcore st \<Longrightarrow> gt_map st' = gt_map st \<and> gt_guildId st' = gt_guildId st \<and> gt_next st' = gt_next st"
  by (simp add: gcore_def)

lemma gld_empty: "gt_heap st a = None \<Longrightarrow> gld st a = Guild_new (False, False, 0, 0, 0)"
  by (simp add: gld_def)

lemma gcore_gview:
  assumes "gcore st' = gcore st"
  shows "gview (gld st' a) = gview (gld st a)"
proof (cases "gt_heap st a = None")
  case True
  with gcore_heap [OF assms, of a] have "gt_heap st' a = None" by blast
  with True show ?thesis by (simp only: gld_empty)
qed (rule gcore_gld [OF assms])

lemma guild_inv_gcore:
  assumes "gcore st' = gcore st" "guild_inv_ex X C st"
  shows "guild_inv_ex X C st'"
proof -
  have g: "m_Id (gld st' a) = m_Id (gld st a)" "m_LeaderGuid (gld st' a) = m_LeaderGuid (gld st a)"
    "member_ranks (gld st' a) = member_ranks (gld st a)" for a
    using gcore_gview [OF assms(1), of a] by (simp_all add: gview_def)
  have h: "home st' = home st" "led st' = led st"
    using gcore_registry [OF assms(1)] by (simp_all add: home_def led_def g fun_eq_iff)
  have r: "registered_ok st' = registered_ok st"
    using gcore_registry [OF assms(1)] by (simp add: registered_ok_def g fun_eq_iff gcore_heap [OF assms(1)])
  have "at_home st' = at_home st"
    using gcore_player [OF assms(1)] by (simp add: at_home_def h fun_eq_iff)
  with assms(2) r h gcore_registry [OF assms(1)] show ?thesis
    unfolding guild_inv_ex_def by simp
qed

section \<open>What the operations on membership do\<close>

lemma gld_upd_gld: "gld (upd_gld a f st) b = (if b = a \<and> gt_heap st a \<noteq> None then f (gld st a) else gld st b)"
  by (auto simp: gld_def upd_gld_def split: option.split)

lemma st_simps [simp]:
  "gt_map (upd_gld a f st) = gt_map st" "gt_guildId (upd_gld a f st) = gt_guildId st" "gt_next (upd_gld a f st) = gt_next st"
  "gt_players (upd_gld a f st) = gt_players st" "gt_heap (upd_gld a f st) b = None \<longleftrightarrow> gt_heap st b = None"
  "gt_map (u_emit es st) = gt_map st" "gt_guildId (u_emit es st) = gt_guildId st" "gt_next (u_emit es st) = gt_next st"
  "gt_players (u_emit es st) = gt_players st" "gt_heap (u_emit es st) = gt_heap st" "gld (u_emit es st) = gld st"
  "gt_map (u_sql qs st) = gt_map st" "gt_guildId (u_sql qs st) = gt_guildId st" "gt_next (u_sql qs st) = gt_next st"
  "gt_players (u_sql qs st) = gt_players st" "gt_heap (u_sql qs st) = gt_heap st" "gld (u_sql qs st) = gld st"
  "gt_map (upd_gplayer p h st) = gt_map st" "gt_guildId (upd_gplayer p h st) = gt_guildId st"
  "gt_next (upd_gplayer p h st) = gt_next st" "gt_heap (upd_gplayer p h st) = gt_heap st" "gld (upd_gplayer p h st) = gld st"
  by (auto simp: upd_gld_def u_emit_def u_sql_def upd_gplayer_def gld_def fun_eq_iff)

lemma player_simps [simp]:
  "gt_players (SetInGuild p i st) = (gt_players st)(p := (gt_players st p)\<lparr>pg_guildId := i\<rparr>)"
  "gt_players (SetRank p r st) = (gt_players st)(p := (gt_players st p)\<lparr>pg_rank := r\<rparr>)"
  "gt_players (SetGuildIdInvited p i st) = (gt_players st)(p := (gt_players st p)\<lparr>pg_invited := i\<rparr>)"
  by (simp_all add: SetInGuild_def SetRank_def SetGuildIdInvited_def upd_gplayer_def)

lemma player_frame [simp]:
  "gt_map (SetInGuild p i st) = gt_map st" "gt_guildId (SetInGuild p i st) = gt_guildId st"
  "gt_next (SetInGuild p i st) = gt_next st" "gt_heap (SetInGuild p i st) = gt_heap st" "gld (SetInGuild p i st) = gld st"
  "gt_map (SetRank p i st) = gt_map st" "gt_guildId (SetRank p i st) = gt_guildId st"
  "gt_next (SetRank p i st) = gt_next st" "gt_heap (SetRank p i st) = gt_heap st" "gld (SetRank p i st) = gld st"
  "gt_map (SetGuildIdInvited p i st) = gt_map st" "gt_guildId (SetGuildIdInvited p i st) = gt_guildId st"
  "gt_next (SetGuildIdInvited p i st) = gt_next st" "gt_heap (SetGuildIdInvited p i st) = gt_heap st"
  "gld (SetGuildIdInvited p i st) = gld st"
  by (simp_all add: SetInGuild_def SetRank_def SetGuildIdInvited_def)

lemma member_ranks_erase: "member_ranks (g\<lparr>gmembers := om_erase k (gmembers g)\<rparr>) = om_erase k (member_ranks g)"
  by (auto simp: member_ranks_def om_erase_def filter_map comp_def case_prod_unfold)

lemma map_om_put: "map (\<lambda>(k, m). (k, f m)) (om_put k v ms) = om_put k (f v) (map (\<lambda>(k, m). (k, f m)) ms)"
  by (induction ms) auto

lemma member_ranks_put: "member_ranks (g\<lparr>gmembers := om_put k m (gmembers g)\<rparr>) = om_put k (gm_RankId m) (member_ranks g)"
  by (simp add: member_ranks_def map_om_put)

definition set_rank :: "u32 \<Rightarrow> u32 \<Rightarrow> (u32 \<times> u32) list \<Rightarrow> (u32 \<times> u32) list" where
  "set_rank low r ms = map (\<lambda>(k, s). (k, if k = low then r else s)) ms"

lemma member_ranks_set_rank: "member_ranks (upd_member low (\<lambda>m. m\<lparr>gm_RankId := r\<rparr>) g) = set_rank low r (member_ranks g)"
  by (auto simp: member_ranks_def upd_member_def set_rank_def)

lemma map_of_set_rank: "map_of (set_rank low r ms) k = (if k = low \<and> om_mem k ms then Some r else map_of ms k)"
  by (induction ms) (auto simp: set_rank_def)

lemma om_ok_set_rank [simp]: "om_ok (set_rank low r ms) = om_ok ms"
  by (simp add: om_ok_def set_rank_def comp_def case_prod_unfold)

lemma map_of_member_ranks: "map_of (member_ranks g) k = map_option gm_RankId (map_of (gmembers g) k)"
  by (simp add: member_ranks_def map_of_map)

text \<open>\<open>effect a R L P\<close>: guild \<open>a\<close> gets members \<open>R\<close> and leader \<open>L\<close>, and the players \<open>P\<close>.\<close>

definition effect :: "nat \<Rightarrow> (u32 \<times> u32) list \<Rightarrow> u64 \<Rightarrow> (u64 \<Rightarrow> u32 \<times> u32) \<Rightarrow> gust \<Rightarrow> gust \<Rightarrow> bool" where
  "effect a R L P st st' \<longleftrightarrow>
     gt_map st' = gt_map st \<and> gt_guildId st' = gt_guildId st \<and> gt_next st' = gt_next st \<and>
     (\<forall>b. gt_heap st' b = None \<longleftrightarrow> gt_heap st b = None) \<and>
     (\<forall>b. gview (gld st' b) = (if b = a then (m_Id (gld st a), L, R) else gview (gld st b))) \<and>
     (\<forall>p. (GetGuildId p st', GetRank p st') = P p)"

abbreviation ranks_of :: "gust \<Rightarrow> nat \<Rightarrow> (u32 \<times> u32) list" where
  "ranks_of st a \<equiv> member_ranks (gld st a)"

abbreviation standing :: "gust \<Rightarrow> u64 \<Rightarrow> u32 \<times> u32" where
  "standing st \<equiv> \<lambda>p. (GetGuildId p st, GetRank p st)"

lemma effect_erase:
  assumes "gt_heap st a \<noteq> None"
  shows "effect a (om_erase (GUID_LOPART guid) (ranks_of st a)) (m_LeaderGuid (gld st a))
    (\<lambda>p. if p = guid \<and> u_find e guid \<noteq> None then (0, 0) else standing st p) st (erase_member e a guid st)"
  using assms
  by (simp add: effect_def erase_member_def Let_def gld_upd_gld gview_def member_ranks_erase GetGuildId_def GetRank_def)

lemma effect_rank:
  assumes "gt_heap st a \<noteq> None"
  shows "effect a (set_rank (GUID_LOPART guid) r (ranks_of st a)) (m_LeaderGuid (gld st a))
    (\<lambda>p. if p = guid \<and> u_find e guid \<noteq> None then (GetGuildId p st, r) else standing st p) st (ChangeRank e a guid r st)"
  using assms
  by (simp add: effect_def ChangeRank_def Let_def gld_upd_gld gview_def member_ranks_set_rank GetGuildId_def GetRank_def)

lemma effect_leader:
  assumes "gt_heap st a \<noteq> None"
  shows "effect a (set_rank (GUID_LOPART guid) 0 (ranks_of st a)) guid
    (\<lambda>p. if p = guid \<and> u_find e guid \<noteq> None then (GetGuildId p st, 0) else standing st p) st (Guild_SetLeader e a guid st)"
  using assms
  by (simp add: effect_def Guild_SetLeader_def ChangeRank_def Let_def gld_upd_gld gview_def member_ranks_set_rank
      GetGuildId_def GetRank_def) (simp add: member_ranks_def)

section \<open>They keep the invariant\<close>

lemma effectD:
  assumes "effect a R L P st st'"
  shows "gt_map st' = gt_map st" "gt_guildId st' = gt_guildId st" "gt_next st' = gt_next st"
    "gt_heap st' b = None \<longleftrightarrow> gt_heap st b = None" "m_Id (gld st' b) = m_Id (gld st b)"
    "m_LeaderGuid (gld st' b) = (if b = a then L else m_LeaderGuid (gld st b))"
    "ranks_of st' b = (if b = a then R else ranks_of st b)"
    "GetGuildId p st' = fst (P p)" "GetRank p st' = snd (P p)"
proof -
  have "gview (gld st' b) = (if b = a then (m_Id (gld st a), L, R) else gview (gld st b))"
    using assms unfolding effect_def by blast
  thus "m_Id (gld st' b) = m_Id (gld st b)" "m_LeaderGuid (gld st' b) = (if b = a then L else m_LeaderGuid (gld st b))"
    "ranks_of st' b = (if b = a then R else ranks_of st b)"
    by (auto simp: gview_def split: if_splits)
  have "(GetGuildId p st', GetRank p st') = P p"
    using assms unfolding effect_def by blast
  thus "GetGuildId p st' = fst (P p)" "GetRank p st' = snd (P p)"
    by (metis fst_conv, metis snd_conv)
qed (use assms in \<open>auto simp: effect_def\<close>)

lemma inv_registered: "guild_inv_ex X C st \<Longrightarrow> map_of (gt_map st) i = Some a \<Longrightarrow> registered_ok st i a"
  unfolding guild_inv_ex_def by blast

lemma inv_heap: "guild_inv_ex X C st \<Longrightarrow> map_of (gt_map st) i = Some a \<Longrightarrow> gt_heap st a \<noteq> None \<and> m_Id (gld st a) = i \<and> i \<noteq> 0"
  by (frule (1) inv_registered) (simp add: registered_ok_def)

lemma inv_home: "guild_inv_ex X C st \<Longrightarrow> home st low i a r \<Longrightarrow> home st low j b s \<Longrightarrow> i = j \<and> a = b \<and> r = s"
  unfolding guild_inv_ex_def home_def by (metis option.inject)

lemma inv_at_home: "guild_inv_ex X C st \<Longrightarrow> p \<in> C \<Longrightarrow> at_home st p"
  unfolding guild_inv_ex_def by blast

lemma inv_effect:
  assumes inv: "guild_inv_ex X C st" and reg: "map_of (gt_map st) i = Some a" and eff: "effect a R L P st st'"
    and ok: "om_ok R" and keys: "\<And>low. om_mem low R \<Longrightarrow> om_mem low (ranks_of st a) \<or> (\<forall>j b s. \<not> home st low j b s)"
    and there: "\<And>p r. p \<in> C \<Longrightarrow> map_of R (GUID_LOPART p) = Some r \<Longrightarrow> P p = (i, r)"
    and gone: "\<And>p. p \<in> C \<Longrightarrow> \<not> om_mem (GUID_LOPART p) R \<Longrightarrow> om_mem (GUID_LOPART p) (ranks_of st a) \<Longrightarrow> fst (P p) = 0"
    and other: "\<And>p. p \<in> C \<Longrightarrow> \<not> om_mem (GUID_LOPART p) R \<Longrightarrow> \<not> om_mem (GUID_LOPART p) (ranks_of st a) \<Longrightarrow> P p = standing st p"
    and leader: "a \<notin> Y \<Longrightarrow> is_player L \<and> om_mem (GUID_LOPART L) R" and Y: "X \<subseteq> insert a Y"
  shows "guild_inv_ex Y C st'"
proof -
  note e = effectD [OF eff]
  have home': "home st' low j b s \<longleftrightarrow> (if b = a then j = i \<and> map_of R low = Some s else home st low j b s)" for low j b s
    using inv_heap [OF inv reg] inv_heap [OF inv, of j a] reg by (auto simp: home_def e)
  have here: "om_mem low R \<Longrightarrow> (\<exists>s. home st low i a s) \<or> (\<forall>j b s. \<not> home st low j b s)" for low
    using keys [of low] reg by (auto simp: home_def)
  have one: "i = j" if "home st' low i a r" "home st' low j b s" for low i a r j b s
    using that here [of low] inv_home [OF inv] unfolding home' by (metis option.distinct(1))
  have at: "at_home st' p" if p: "p \<in> C" for p
  proof -
    let ?l = "GUID_LOPART p"
    note h = inv_at_home [OF inv p, unfolded at_home_def]
    consider (in_R) r where "map_of R ?l = Some r" | (was) "\<not> om_mem ?l R" "om_mem ?l (ranks_of st a)"
      | (no) "\<not> om_mem ?l R" "\<not> om_mem ?l (ranks_of st a)" by fastforce
    thus ?thesis
    proof cases
      case in_R
      hence "(\<exists>s. home st ?l i a s) \<or> (\<forall>j b s. \<not> home st ?l j b s)" using here [of ?l] by auto
      hence "home st' ?l j b s' \<longleftrightarrow> j = i \<and> b = a \<and> s' = r" for j b s'
        using in_R inv_home [OF inv] unfolding home' by (auto; metis)
      thus ?thesis using h there [OF p in_R] by (simp add: at_home_def e)
    next
      case was
      hence "home st ?l i a (the (map_of (ranks_of st a) ?l))" using reg by (auto simp: home_def)
      hence "\<not> home st' ?l j b s'" for j b s'
        using was(1) inv_home [OF inv] unfolding home' by (metis option.distinct(1))
      thus ?thesis using h gone [OF p was] by (simp add: at_home_def e)
    next
      case no
      hence "home st' ?l j b s' = home st ?l j b s'" for j b s'
        using no unfolding home' by (auto simp: home_def)
      thus ?thesis using h other [OF p no] by (simp add: at_home_def e)
    qed
  qed
  have regs: "registered_ok st' j b" if "map_of (gt_map st') j = Some b" for j b
    using inv_registered [OF inv, of j b] that ok by (auto simp: registered_ok_def e)
  have leds: "led st' b" if "map_of (gt_map st') j = Some b" "b \<notin> Y" for j b
  proof (cases "b = a")
    case True
    with leader that show ?thesis by (simp add: led_def e)
  next
    case False
    hence "led st b" using inv that Y unfolding guild_inv_ex_def e by blast
    with False show ?thesis by (simp add: led_def e)
  qed
  have "0 < gt_guildId st' \<and> om_ok (gt_map st')"
    using inv by (simp add: guild_inv_ex_def e)
  with one regs leds at show ?thesis unfolding guild_inv_ex_def by blast
qed

definition serves :: "u64 set \<Rightarrow> 'a guild_env_scheme \<Rightarrow> bool" where
  "serves C e \<longleftrightarrow> (\<forall>g. u_find e g \<noteq> None \<longleftrightarrow> g \<in> C)"

lemma standing_member:
  "guild_inv_ex X C st \<Longrightarrow> map_of (gt_map st) i = Some a \<Longrightarrow> p \<in> C \<Longrightarrow> map_of (ranks_of st a) (GUID_LOPART p) = Some r \<Longrightarrow>
     standing st p = (i, r)"
  by (drule (1) inv_at_home) (auto simp: at_home_def home_def)

lemma inv_player: "guild_inv_ex X C st \<Longrightarrow> p \<in> C \<Longrightarrow> is_player p"
  by (drule (1) inv_at_home) (simp add: at_home_def)

lemma inv_ranks_ok: "guild_inv_ex X C st \<Longrightarrow> map_of (gt_map st) i = Some a \<Longrightarrow> om_ok (ranks_of st a)"
  by (drule (1) inv_registered) (simp add: registered_ok_def)

lemma inv_erase:
  assumes inv: "guild_inv_ex X C st" and reg: "map_of (gt_map st) i = Some a" and C: "serves C e"
    and guid: "is_player guid" and leader: "a \<notin> Y \<Longrightarrow> m_LeaderGuid (gld st a) \<noteq> guid" and Y: "X \<subseteq> insert a Y" "Y \<subseteq> insert a X"
    and led: "a \<notin> Y \<Longrightarrow> led st a" and mem: "om_mem (GUID_LOPART guid) (ranks_of st a)"
  shows "guild_inv_ex Y C (erase_member e a guid st)"
proof (rule inv_effect [OF inv reg effect_erase])
  fix p assume p: "p \<in> C"
  have same: "GUID_LOPART p = GUID_LOPART guid \<Longrightarrow> p = guid"
    using inv_player [OF inv p] guid is_player_inj by blast
  { fix r assume "map_of (om_erase (GUID_LOPART guid) (ranks_of st a)) (GUID_LOPART p) = Some r"
    thus "(if p = guid \<and> u_find e guid \<noteq> None then (0, 0) else standing st p) = (i, r)"
      using standing_member [OF inv reg p] by (auto split: if_splits) }
  { assume "\<not> om_mem (GUID_LOPART p) (om_erase (GUID_LOPART guid) (ranks_of st a))"
      "om_mem (GUID_LOPART p) (ranks_of st a)"
    thus "fst (if p = guid \<and> u_find e guid \<noteq> None then (0, 0) else standing st p) = 0"
      using same p C by (auto simp: serves_def split: if_splits) }
  { assume "\<not> om_mem (GUID_LOPART p) (ranks_of st a)"
    thus "(if p = guid \<and> u_find e guid \<noteq> None then (0, 0) else standing st p) = standing st p"
      using mem by auto }
qed (use inv_heap [OF inv reg] inv_ranks_ok [OF inv reg] leader led guid Y is_player_inj in
    \<open>auto simp: led_def split: if_splits\<close>)

lemma rank_players:
  assumes inv: "guild_inv_ex X C st" and reg: "map_of (gt_map st) i = Some a" and C: "serves C e"
    and guid: "is_player guid" and mem: "om_mem (GUID_LOPART guid) (ranks_of st a)" and p: "p \<in> C"
    and r': "map_of (set_rank (GUID_LOPART guid) r (ranks_of st a)) (GUID_LOPART p) = Some r'"
  shows "(if p = guid \<and> u_find e guid \<noteq> None then (GetGuildId p st, r) else standing st p) = (i, r')"
proof -
  obtain s where s: "map_of (ranks_of st a) (GUID_LOPART p) = Some s"
    using r' by (auto simp: map_of_set_rank split: if_splits)
  have "GUID_LOPART p = GUID_LOPART guid \<longleftrightarrow> p = guid"
    using inv_player [OF inv p] guid is_player_inj by blast
  thus ?thesis
    using standing_member [OF inv reg p s] s r' p C by (auto simp: map_of_set_rank serves_def split: if_splits)
qed

lemma om_mem_set_rank: "om_mem k (set_rank low r ms) \<longleftrightarrow> om_mem k ms"
  by (auto simp: map_of_set_rank)

lemma inv_rank:
  assumes inv: "guild_inv_ex X C st" and reg: "map_of (gt_map st) i = Some a" and C: "serves C e"
    and guid: "is_player guid" and mem: "om_mem (GUID_LOPART guid) (ranks_of st a)"
  shows "guild_inv_ex X C (ChangeRank e a guid r st)"
proof (rule inv_effect [OF inv reg effect_rank])
  show "a \<notin> X \<Longrightarrow> is_player (m_LeaderGuid (gld st a)) \<and>
      om_mem (GUID_LOPART (m_LeaderGuid (gld st a))) (set_rank (GUID_LOPART guid) r (ranks_of st a))"
    using inv reg unfolding om_mem_set_rank guild_inv_ex_def led_def by blast
next
  fix p
  let ?P = "if p = guid \<and> u_find e guid \<noteq> None then (GetGuildId p st, r) else standing st p"
  show "p \<in> C \<Longrightarrow> \<not> om_mem (GUID_LOPART p) (set_rank (GUID_LOPART guid) r (ranks_of st a)) \<Longrightarrow>
      om_mem (GUID_LOPART p) (ranks_of st a) \<Longrightarrow> fst ?P = 0"
    unfolding om_mem_set_rank by blast
  show "\<not> om_mem (GUID_LOPART p) (ranks_of st a) \<Longrightarrow> ?P = standing st p"
    using mem by auto
next
  show "om_mem low (set_rank (GUID_LOPART guid) r (ranks_of st a)) \<Longrightarrow>
      om_mem low (ranks_of st a) \<or> (\<forall>j b s. \<not> home st low j b s)" for low
    unfolding om_mem_set_rank by blast
qed (use inv_heap [OF inv reg] inv_ranks_ok [OF inv reg] rank_players [OF inv reg C guid mem] in auto)

lemma inv_set_leader:
  assumes inv: "guild_inv_ex X C st" and reg: "map_of (gt_map st) i = Some a" and C: "serves C e"
    and guid: "is_player guid" and mem: "om_mem (GUID_LOPART guid) (ranks_of st a)" and Y: "X \<subseteq> insert a Y"
  shows "guild_inv_ex Y C (Guild_SetLeader e a guid st)"
proof (rule inv_effect [OF inv reg effect_leader _ _ _ _ _ _ Y])
  show "a \<notin> Y \<Longrightarrow> is_player guid \<and> om_mem (GUID_LOPART guid) (set_rank (GUID_LOPART guid) 0 (ranks_of st a))"
    using guid mem unfolding om_mem_set_rank by blast
next
  fix p
  let ?P = "if p = guid \<and> u_find e guid \<noteq> None then (GetGuildId p st, 0) else standing st p"
  show "p \<in> C \<Longrightarrow> \<not> om_mem (GUID_LOPART p) (set_rank (GUID_LOPART guid) 0 (ranks_of st a)) \<Longrightarrow>
      om_mem (GUID_LOPART p) (ranks_of st a) \<Longrightarrow> fst ?P = 0"
    unfolding om_mem_set_rank by blast
  show "\<not> om_mem (GUID_LOPART p) (ranks_of st a) \<Longrightarrow> ?P = standing st p"
    using mem by auto
next
  show "om_mem low (set_rank (GUID_LOPART guid) 0 (ranks_of st a)) \<Longrightarrow>
      om_mem low (ranks_of st a) \<or> (\<forall>j b s. \<not> home st low j b s)" for low
    unfolding om_mem_set_rank by blast
qed (use inv_heap [OF inv reg] inv_ranks_ok [OF inv reg] rank_players [OF inv reg C guid mem] in auto)

section \<open>Leaving and disbanding\<close>

lemma gld_erase: "gt_heap st a \<noteq> None \<Longrightarrow>
    gmembers (gld (erase_member e a guid st) a) = om_erase (GUID_LOPART guid) (gmembers (gld st a))"
  by (simp add: erase_member_def Let_def gld_upd_gld)

lemma erase_member_frame [simp]:
  "gt_map (erase_member e a guid st) = gt_map st" "gt_heap (erase_member e a guid st) b = None \<longleftrightarrow> gt_heap st b = None"
  "m_Id (gld (erase_member e a guid st) b) = m_Id (gld st b)"
  by (simp_all add: erase_member_def Let_def gld_upd_gld)

lemma om_begin_simps [simp]: "om_begin [] = None" "om_begin (x # xs) = Some x"
  by (simp_all add: om_begin_def)

lemma gmembers_dead: "gt_heap st a = None \<Longrightarrow> gmembers (gld st a) = []"
  by (simp add: gld_empty)

text \<open>Every round of the loop takes the first member out.\<close>

lemma disband_loop_ends:
  "length (gmembers (gld st a)) \<le> n \<Longrightarrow>
     \<exists>st'. disband_loop n e a st = Some st' \<and> gmembers (gld st' a) = [] \<and> gt_map st' = gt_map st \<and>
       m_Id (gld st' a) = m_Id (gld st a)"
proof (induction n arbitrary: st)
  case (Suc n)
  show ?case
  proof (cases "gmembers (gld st a)")
    case Nil
    thus ?thesis by simp
  next
    case (Cons x ms)
    obtain low m where x: "x = (low, m)" by (cases x)
    have alive: "gt_heap st a \<noteq> None" using Cons gmembers_dead by fastforce
    let ?st = "erase_member e a (player_guid low) st"
    have "length (gmembers (gld ?st a)) \<le> n"
      using Suc.prems Cons alive le_trans [OF length_filter_le] by (simp add: gld_erase x om_erase_def)
    from Suc.IH [OF this] show ?thesis using Cons x by simp
  qed
qed simp

lemma member_ranks_Nil: "member_ranks g = [] \<longleftrightarrow> gmembers g = []"
  by (simp add: member_ranks_def)

lemma disband_loop_inv:
  "guild_inv_ex X C st \<Longrightarrow> map_of (gt_map st) i = Some a \<Longrightarrow> serves C e \<Longrightarrow> a \<in> X \<Longrightarrow> disband_loop n e a st = Some st' \<Longrightarrow>
     guild_inv_ex X C st'"
proof (induction n arbitrary: st)
  case (Suc n)
  show ?case
  proof (cases "gmembers (gld st a)")
    case (Cons x ms)
    obtain low m where x: "x = (low, m)" by (cases x)
    have "guild_inv_ex X C (erase_member e a (player_guid low) st)"
      by (rule inv_erase [OF Suc.prems(1-3)]) (use Suc.prems(4) Cons x in \<open>auto simp: map_of_member_ranks\<close>)
    with Suc Cons x show ?thesis by simp
  qed (use Suc.prems in simp)
next
  case 0
  thus ?case by (auto split: option.splits)
qed

lemma inv_unregister:
  assumes inv: "guild_inv_ex (insert a X) C st" and reg: "map_of (gt_map st) i = Some a" and no: "ranks_of st a = []"
  shows "guild_inv_ex X C (RemoveGuild i st)"
proof -
  have f: "gt_map (RemoveGuild i st) = om_erase i (gt_map st)" "gt_heap (RemoveGuild i st) = gt_heap st"
    "gld (RemoveGuild i st) = gld st" "gt_next (RemoveGuild i st) = gt_next st"
    "gt_guildId (RemoveGuild i st) = gt_guildId st" "standing (RemoveGuild i st) = standing st"
    by (simp_all add: RemoveGuild_def gld_def GetGuildId_def GetRank_def fun_eq_iff)
  have g: "GetGuildId p (RemoveGuild i st) = GetGuildId p st" "GetRank p (RemoveGuild i st) = GetRank p st" for p
    using fun_cong [OF f(6), of p] by simp_all
  have away: "map_of (gt_map st) j = Some b \<Longrightarrow> j \<noteq> i \<Longrightarrow> b \<noteq> a" for j b
    using inv_heap [OF inv reg] inv_heap [OF inv, of j b] by auto
  have "home (RemoveGuild i st) low j b r \<longleftrightarrow> home st low j b r" for low j b r
    using reg no by (auto simp: home_def f)
  hence h: "home (RemoveGuild i st) = home st" by (simp add: fun_eq_iff)
  have "at_home (RemoveGuild i st) = at_home st" "led (RemoveGuild i st) = led st"
    "registered_ok (RemoveGuild i st) = registered_ok st"
    by (simp_all add: at_home_def led_def registered_ok_def h g f fun_eq_iff)
  with inv show ?thesis
    unfolding guild_inv_ex_def h f by (auto split: if_splits) (use away in blast)
qed

lemma inv_weaken: "guild_inv_ex X C st \<Longrightarrow> X \<subseteq> Y \<Longrightarrow> guild_inv_ex Y C st"
  unfolding guild_inv_ex_def by blast

lemma Disband_inv:
  assumes inv: "guild_inv_ex X C st" and reg: "map_of (gt_map st) i = Some a" and C: "serves C e"
    and st': "Guild_Disband e a st = Some st'"
  shows "guild_inv_ex (X - {a}) C st'"
proof -
  let ?st1 = "BroadcastEvent e a GE_DISBANDED 0 [] st"
  have inv1: "guild_inv_ex (insert a X) C ?st1"
    by (rule guild_inv_gcore [OF _ inv_weaken [OF inv]]) auto
  have reg1: "map_of (gt_map ?st1) i = Some a" "m_Id (gld ?st1 a) = i"
    using reg inv_heap [OF inv reg] by (simp_all add: BroadcastEvent_def Guild_BroadcastPacket_def)
  obtain st2 where st2: "disband_loop (length (gmembers (gld ?st1 a))) e a ?st1 = Some st2"
    and e2: "gmembers (gld st2 a) = []" "gt_map st2 = gt_map ?st1" "m_Id (gld st2 a) = m_Id (gld ?st1 a)"
    using disband_loop_ends [of ?st1 a "length (gmembers (gld ?st1 a))" e] by auto
  have "guild_inv_ex (insert a X) C st2"
    by (rule disband_loop_inv [OF inv1 reg1(1) C _ st2]) simp
  hence inv2: "guild_inv_ex (insert a X) C (u_sql qs st2)" for qs
    by (rule guild_inv_gcore [rotated]) simp
  hence "guild_inv_ex (X - {a}) C (RemoveGuild i (u_sql qs st2))" for qs
    using reg1 e2 by (intro inv_unregister) (simp_all add: member_ranks_Nil)
  moreover have "m_Id (gld st2 a) = i"
    using e2 reg1 by simp
  ultimately show ?thesis
    using st' st2 by (simp add: Guild_Disband_def Let_def del: disband_loop.simps) blast
qed

lemma best_heir_in:
  "best_heir old ms best = Some (k, m) \<Longrightarrow> (k, m) \<in> set ms \<and> k \<noteq> old \<or> best = Some (k, m)"
  by (induction old ms best rule: best_heir.induct) (auto split: if_splits option.splits)

lemma gcore_SetRank_same: "GetRank p st = r \<Longrightarrow> gcore (SetRank p r st) = gcore st"
  by (auto simp: gcore_def GetGuildId_def GetRank_def fun_eq_iff)

lemma rank_after_ChangeRank: "u_find e guid \<noteq> None \<Longrightarrow> GetRank guid (ChangeRank e a guid r st) = r"
  by (auto simp: ChangeRank_def GetRank_def Let_def)

lemma rank_after_SetLeader: "u_find e guid \<noteq> None \<Longrightarrow> GetRank guid (Guild_SetLeader e a guid st) = 0"
  using rank_after_ChangeRank [of e guid a 0] by (simp add: Guild_SetLeader_def Let_def GetRank_def)

lemma replace_leader_gcore:
  "gcore (replace_leader e a guid heir st) = gcore (Guild_SetLeader e a (ucast (fst heir)) st)"
  by (auto simp: replace_leader_def Let_def gcore_SetRank_same rank_after_SetLeader split: option.split)

lemma led_inv: "guild_inv C st \<Longrightarrow> map_of (gt_map st) i = Some a \<Longrightarrow> led st a"
  unfolding guild_inv_ex_def by blast

lemma gcore_led: "gcore st' = gcore st \<Longrightarrow> led st' a = led st a"
  using gcore_gview [of st' st a] by (simp add: led_def gview_def)

lemma DelMember_inv:
  assumes inv: "guild_inv C st" and reg: "map_of (gt_map st) i = Some a" and C: "serves C e"
    and guid: "is_player guid" and mem: "om_mem (GUID_LOPART guid) (ranks_of st a)"
    and st': "DelMember e a guid st = Some st'"
  shows "guild_inv C st'"
proof (cases "m_LeaderGuid (gld st a) = guid")
  case False
  have "guild_inv C (erase_member e a guid st)"
    by (rule inv_erase [OF inv reg C guid]) (use False led_inv [OF inv reg] mem in auto)
  with False st' show ?thesis by (simp add: DelMember_def)
next
  case True
  show ?thesis
  proof (cases "best_heir (GUID_LOPART guid) (gmembers (gld st a)) None")
    case None
    with True st' have "Guild_Disband e a st = Some st'" by (simp add: DelMember_def)
    from Disband_inv [OF inv reg C this] show ?thesis by simp
  next
    case (Some heir)
    obtain low m where heir: "heir = (low, m)" by (cases heir)
    have in_g: "(low, m) \<in> set (gmembers (gld st a))" "low \<noteq> GUID_LOPART guid"
      using best_heir_in [OF Some [unfolded heir]] by auto
    hence mem_low: "om_mem low (ranks_of st a)"
      by (auto simp: map_of_member_ranks weak_map_of_SomeI)
    let ?s1 = "Guild_SetLeader e a (ucast low) st" and ?s2 = "replace_leader e a guid heir st"
    have eq: "gcore ?s2 = gcore ?s1" using replace_leader_gcore [of e a guid heir st] heir by simp
    have "guild_inv C ?s1"
      by (rule inv_set_leader [OF inv reg C]) (use mem_low in auto)
    hence inv2: "guild_inv C ?s2" by (rule guild_inv_gcore [OF eq])
    note e = effectD [OF effect_leader [of st a "ucast low" e]]
    have alive: "gt_heap st a \<noteq> None" using inv_heap [OF inv reg] by simp
    have reg2: "map_of (gt_map ?s2) i = Some a" using gcore_registry [OF eq] e(1) [OF alive] reg by simp
    have view2: "m_LeaderGuid (gld ?s2 a) = ucast low" "ranks_of ?s2 a = set_rank low 0 (ranks_of st a)"
      using gcore_gview [OF eq, of a] e(6,7) [OF alive] by (simp_all add: gview_def)
    have "guild_inv C (erase_member e a guid ?s2)"
    proof (rule inv_erase [OF inv2 reg2 C guid])
      show "m_LeaderGuid (gld ?s2 a) \<noteq> guid" using in_g(2) view2(1) by auto
      show "om_mem (GUID_LOPART guid) (ranks_of ?s2 a)" unfolding view2 om_mem_set_rank by (rule mem)
    qed (use led_inv [OF inv2 reg2] in auto)
    with True Some st' show ?thesis by (simp add: DelMember_def)
  qed
qed

section \<open>Joining and founding\<close>

lemma FillPlayerData_rank: "FillPlayerData e guid m = Some m' \<Longrightarrow> gm_RankId m' = gm_RankId m"
  by (auto simp: FillPlayerData_def Let_def split: option.splits if_splits)

lemma FillPlayerData_online: "u_find e guid \<noteq> None \<Longrightarrow> \<exists>m'. FillPlayerData e guid m = Some m'"
  by (auto simp: FillPlayerData_def)

lemma member_ranks_accounts: "gview (UpdateAccountsNumber g) = gview g"
  by (simp add: UpdateAccountsNumber_def gview_def member_ranks_def)

lemma member_ranks_count: "member_ranks (UpdateAccountsNumber g) = member_ranks g" "m_Id (UpdateAccountsNumber g) = m_Id g"
  "m_LeaderGuid (UpdateAccountsNumber g) = m_LeaderGuid g"
  by (simp_all add: UpdateAccountsNumber_def member_ranks_def)

definition joined :: "'a guild_env_scheme \<Rightarrow> nat \<Rightarrow> u64 \<Rightarrow> u32 \<Rightarrow> guild_member \<Rightarrow> gust \<Rightarrow> gust" where
  "joined e a p r m st =
     (let st = upd_gld a (\<lambda>g. g\<lparr>gmembers := om_put (GUID_LOPART p) m (gmembers g)\<rparr>) (u_emit [URemovePetitions p] st);
          st = u_sql [OnMember (QInsertMember (m_Id (gld st a)) (GUID_LOPART p) r [] [])] st
      in upd_gld a UpdateAccountsNumber (SetGuildIdInvited p 0 (SetRank p r (SetInGuild p (m_Id (gld st a)) st))))"

lemma AddMember_online:
  assumes "u_find e p \<noteq> None" "GetGuildId p st = 0"
  shows "\<exists>m. gm_RankId m = r \<and> Guild_AddMember e a p r st = (True, joined e a p r m st)"
proof -
  obtain pl where pl: "u_find e p = Some pl" using assms(1) by blast
  obtain m where m: "FillPlayerData e p (new_member e r) = Some m"
    using FillPlayerData_online [OF assms(1)] by blast
  have "gm_RankId m = r" using FillPlayerData_rank [OF m] by (simp add: new_member_def)
  moreover have "Guild_AddMember e a p r st = (True, joined e a p r m st)"
    using pl m assms(2) by (simp add: Guild_AddMember_def joined_def Let_def)
  ultimately show ?thesis by blast
qed

lemma effect_join:
  assumes "gt_heap st a = Some g" "gm_RankId m = r"
  shows "effect a (om_put (GUID_LOPART p) r (ranks_of st a)) (m_LeaderGuid (gld st a))
       (\<lambda>q. if q = p then (m_Id (gld st a), r) else standing st q) st (joined e a p r m st)"
  using assms
  by (simp add: joined_def Let_def effect_def gld_upd_gld gview_def member_ranks_put member_ranks_count
      GetGuildId_def GetRank_def)

lemma no_home:
  assumes "guild_inv_ex X C st" "p \<in> C" "GetGuildId p st = 0"
  shows "\<not> home st (GUID_LOPART p) i a r"
  using inv_at_home [OF assms(1,2)] assms(3) inv_heap [OF assms(1), of i a] by (auto simp: at_home_def home_def)

lemma inv_join:
  assumes inv: "guild_inv C st" and reg: "map_of (gt_map st) i = Some a" and p: "p \<in> C" "GetGuildId p st = 0"
    and m: "gm_RankId m = r"
  shows "guild_inv C (joined e a p r m st)"
proof -
  note h = inv_heap [OF inv reg]
  then obtain g where g: "gt_heap st a = Some g" by blast
  show ?thesis
  proof (rule inv_effect [OF inv reg effect_join [OF g m]])
    fix q assume q: "q \<in> C"
    have same: "GUID_LOPART q = GUID_LOPART p \<longleftrightarrow> q = p"
      using inv_player [OF inv] p(1) q is_player_inj by blast
    show "map_of (om_put (GUID_LOPART p) r (ranks_of st a)) (GUID_LOPART q) = Some s \<Longrightarrow>
        (if q = p then (m_Id (gld st a), r) else standing st q) = (i, s)" for s
      using standing_member [OF inv reg q] h same by (auto split: if_splits)
    show "\<not> om_mem (GUID_LOPART q) (om_put (GUID_LOPART p) r (ranks_of st a)) \<Longrightarrow>
        om_mem (GUID_LOPART q) (ranks_of st a) \<Longrightarrow> fst (if q = p then (m_Id (gld st a), r) else standing st q) = 0"
      by (cases "GUID_LOPART q = GUID_LOPART p") auto
    show "\<not> om_mem (GUID_LOPART q) (om_put (GUID_LOPART p) r (ranks_of st a)) \<Longrightarrow>
        (if q = p then (m_Id (gld st a), r) else standing st q) = standing st q"
      by auto
  next
    show "om_mem low (om_put (GUID_LOPART p) r (ranks_of st a)) \<Longrightarrow>
        om_mem low (ranks_of st a) \<or> (\<forall>j b s. \<not> home st low j b s)" for low
      using no_home [OF inv p] by (auto split: if_splits)
  qed (use inv_ranks_ok [OF inv reg] led_inv [OF inv reg] in \<open>auto simp: led_def\<close>)
qed

text \<open>A new guild under a number never given before.\<close>

lemma inv_found:
  assumes inv: "guild_inv C st" and p: "p \<in> C" "GetGuildId p st = 0" and i: "i = gt_guildId st" "i \<noteq> - 1"
    and a: "a = gt_next st" and reg: "gt_map st' = om_put i a (gt_map st)" "gt_guildId st' = i + 1" "gt_next st' = Suc a"
    and new: "gt_heap st' a \<noteq> None" "m_Id (gld st' a) = i" "m_LeaderGuid (gld st' a) = p" "ranks_of st' a = [(GUID_LOPART p, 0)]"
    and old: "\<And>b. b \<noteq> a \<Longrightarrow> (gt_heap st' b = None \<longleftrightarrow> gt_heap st b = None) \<and> gview (gld st' b) = gview (gld st b)"
    and players: "\<And>q. standing st' q = (if q = p then (i, 0) else standing st q)"
  shows "guild_inv C st'"
proof -
  have "1 + i \<noteq> 0" using i(2) by (metis add.commute add_eq_0_iff)
  hence i1: "i < i + 1" using unatSuc [of i] by (simp add: word_less_nat_alt add.commute)
  have i2: "0 < i" "0 < i + 1" using i inv i1 by (simp_all add: guild_inv_ex_def word_less_nat_alt)
  have fresh: "map_of (gt_map st) j = Some b \<Longrightarrow> b \<noteq> a \<and> j \<noteq> i" for j b
    using inv_registered [OF inv, of j b] i a by (auto simp: registered_ok_def)
  have v: "b \<noteq> a \<Longrightarrow> ranks_of st' b = ranks_of st b \<and> m_Id (gld st' b) = m_Id (gld st b) \<and>
      m_LeaderGuid (gld st' b) = m_LeaderGuid (gld st b)" for b
    using old [of b] by (simp add: gview_def)
  have home': "home st' low j b s \<longleftrightarrow> home st low j b s \<or> low = GUID_LOPART p \<and> j = i \<and> b = a \<and> s = 0" for low j b s
    using fresh [of j b] fresh [of i a] v [of b] new(4) by (auto simp: home_def reg split: if_splits)
  note none = no_home [OF inv p]
  have one: "j = k" if "home st' low j b s" "home st' low k c t" for low j b s k c t
    using that none inv_home [OF inv] unfolding home' by blast
  have "at_home st' q" if q: "q \<in> C" for q
  proof (cases "q = p")
    case True
    have "is_player p" using inv_player [OF inv p(1)] .
    thus ?thesis using none players [of p] True by (auto simp: at_home_def home')
  next
    case False
    hence "GUID_LOPART q \<noteq> GUID_LOPART p" using inv_player [OF inv] p(1) q is_player_inj by blast
    thus ?thesis using inv_at_home [OF inv q] players [of q] False by (auto simp: at_home_def home')
  qed
  moreover have "registered_ok st' j b" if "map_of (gt_map st') j = Some b" for j b
  proof (cases "j = i")
    case True
    with that i1 i2 new show ?thesis by (simp add: registered_ok_def reg om_ok_def)
  next
    case False
    with that have "map_of (gt_map st) j = Some b" by (simp add: reg)
    with inv_registered [OF inv this] fresh [OF this] v [of b] old [of b] i a i1 show ?thesis
      by (auto simp: registered_ok_def reg)
  qed
  moreover have "led st' b" if "map_of (gt_map st') j = Some b" for j b
  proof (cases "j = i")
    case True
    with that new inv_player [OF inv p(1)] show ?thesis by (simp add: led_def reg)
  next
    case False
    with that have "map_of (gt_map st) j = Some b" by (simp add: reg)
    with led_inv [OF inv this] fresh [OF this] v [of b] show ?thesis by (simp add: led_def)
  qed
  moreover have "0 < gt_guildId st' \<and> om_ok (gt_map st')"
    using inv i2 by (auto simp: guild_inv_ex_def reg)
  ultimately show ?thesis using one unfolding guild_inv_ex_def by blast
qed

end
