(* ===== verification/GuildRuns.thy ===== *)
theory GuildRuns
  imports GuildInv
begin

text \<open>
  Runs of the guild requests of all players, with logins and logouts in between, as a step relation,
  and the invariant over its runs.
\<close>

section \<open>Requests that leave membership alone\<close>

inductive quiet :: "guild_henv \<Rightarrow> player \<Rightarrow> gust \<Rightarrow> gust \<Rightarrow> bool" for e self st st' where
  "HandleGuildQueryOpcode self i st = Some st' \<Longrightarrow> quiet e self st st'"
| "HandleGuildInviteOpcode e self name st = Some st' \<Longrightarrow> quiet e self st st'"
| "HandleGuildInfoOpcode self st = Some st' \<Longrightarrow> quiet e self st st'"
| "HandleGuildRosterOpcode e self st = Some st' \<Longrightarrow> quiet e self st st'"
| "HandleGuildMOTDOpcode e self motd st = Some st' \<Longrightarrow> quiet e self st st'"
| "HandleGuildSetPublicNoteOpcode e self name note st = Some st' \<Longrightarrow> quiet e self st st'"
| "HandleGuildSetOfficerNoteOpcode e self name note st = Some st' \<Longrightarrow> quiet e self st st'"
| "HandleGuildRankOpcode e self r rights name money tabs st = Some st' \<Longrightarrow> quiet e self st st'"
| "HandleGuildAddRankOpcode e self name st = Some st' \<Longrightarrow> quiet e self st st'"
| "HandleGuildDelRankOpcode e self st = Some st' \<Longrightarrow> quiet e self st st'"
| "HandleGuildChangeInfoOpcode self info st = Some st' \<Longrightarrow> quiet e self st st'"
| "HandleGuildSaveEmblemOpcode e self vendor emblem st = Some st' \<Longrightarrow> quiet e self st st'"
| "HandleGuildEventLogOpcode e self st = Some st' \<Longrightarrow> quiet e self st st'"
| "HandleGuildBankGetMoneyAmount e self st = Some st' \<Longrightarrow> quiet e self st st'"
| "HandleGuildBankGetRights e self st = Some st' \<Longrightarrow> quiet e self st st'"
| "HandleGuildBankQuery e self go st = Some st' \<Longrightarrow> quiet e self st st'"
| "HandleGuildBankTabColon e self go tab st = Some st' \<Longrightarrow> quiet e self st st'"
| "HandleGuildBankDeposit e self go cash st = Some st' \<Longrightarrow> quiet e self st st'"
| "HandleGuildBankWithdraw e self go cash st = Some st' \<Longrightarrow> quiet e self st st'"
| "HandleGuildBankDepositItem e self go swap st = Some st' \<Longrightarrow> quiet e self st st'"
| "HandleGuildBankBuyTab e self go tab st = Some st' \<Longrightarrow> quiet e self st st'"
| "HandleGuildBankModifyTab e self go tab name icon st = Some st' \<Longrightarrow> quiet e self st st'"
| "HandleGuildBankLog e self tab st = Some st' \<Longrightarrow> quiet e self st st'"
| "HandleGuildBankTabText e self tab st = Some st' \<Longrightarrow> quiet e self st st'"
| "HandleGuildBankSetTabText e self tab txt st = Some st' \<Longrightarrow> quiet e self st st'"

abbreviation kept :: "gust \<Rightarrow> gust option \<Rightarrow> bool" where
  "kept \<equiv> keeps gcore (\<lambda>s. s)"

lemma gcore_money_withdraw: "MemberMoneyWithdraw e a amount low st = (b, st') \<Longrightarrow> gcore st' = gcore st"
  by (auto simp: MemberMoneyWithdraw_def Let_def core.view_money_rem_eq core.view_guild core.quota_simps
      split: prod.splits if_splits option.splits)

lemma kept_invite: "kept st (HandleGuildInviteOpcode e self name st)"
  unfolding HandleGuildInviteOpcode_def Let_def by (auto intro!: core.keeps_requests split: option.split)

lemma kept_emblem: "kept st (HandleGuildSaveEmblemOpcode e self vendor emblem st)"
  unfolding HandleGuildSaveEmblemOpcode_def Let_def by (auto intro!: core.keeps_requests split: option.split)

lemma kept_buy: "kept st (HandleGuildBankDeposit e self go cash st)" "kept st (HandleGuildBankBuyTab e self go tab st)"
  unfolding HandleGuildBankDeposit_def HandleGuildBankBuyTab_def Let_def
  by (auto intro!: core.keeps_requests core.keeps_shown)

lemma kept_withdraw: "kept st (HandleGuildBankWithdraw e self go cash st)"
  unfolding HandleGuildBankWithdraw_def Let_def
  by (auto intro!: core.keeps_requests core.keeps_shown simp: gcore_money_withdraw split: prod.split bool.split)

lemmas kept_all = core.keeps_texts core.keeps_rights core.keeps_bank core.keeps_modify core.keeps_deposit_item
  kept_invite kept_emblem kept_buy kept_withdraw

lemma quiet_gcore: "quiet e self st st' \<Longrightarrow> gcore st' = gcore st"
  by (induction rule: quiet.induct) (erule keeps_dest [rotated, where view = gcore and \<pi> = "\<lambda>s. s"], rule kept_all)+

section \<open>Requests about membership\<close>

text \<open>Every state a request may end in keeps the invariant.\<close>

definition keeps_inv :: "u64 set \<Rightarrow> gust option \<Rightarrow> bool" where
  "keeps_inv C x \<longleftrightarrow> (\<forall>st'. x = Some st' \<longrightarrow> guild_inv C st')"

lemma keeps_inv_Some: "guild_inv C st \<Longrightarrow> gcore st' = gcore st \<Longrightarrow> keeps_inv C (Some st')"
  by (simp add: keeps_inv_def guild_inv_gcore)

lemma keeps_inv_bind: "(\<And>y. m = Some y \<Longrightarrow> keeps_inv C (f y)) \<Longrightarrow> keeps_inv C (Option.bind m f)"
  by (cases m) (auto simp: keeps_inv_def)

lemma keeps_inv_if: "(b \<Longrightarrow> keeps_inv C x) \<Longrightarrow> (\<not> b \<Longrightarrow> keeps_inv C y) \<Longrightarrow> keeps_inv C (if b then x else y)"
  by simp

lemma keeps_inv_guards:
  assumes "guild_inv C st"
  shows in_guildI: "(\<And>a. guild_of me st = Some a \<Longrightarrow> keeps_inv C (k a)) \<Longrightarrow> keeps_inv C (in_guild me st k)"
    and with_rightI: "keeps_inv C x \<Longrightarrow> keeps_inv C (with_right me right a st x)"
    and as_leaderI: "keeps_inv C x \<Longrightarrow> keeps_inv C (as_leader me a st x)"
    and with_nameI: "(\<And>n. keeps_inv C (l n)) \<Longrightarrow> keeps_inv C (with_name e name st l)"
  by (auto simp: in_guild_def with_right_def as_leader_def with_name_def intro!: keeps_inv_Some [OF assms] split: option.split)

lemma guild_of_registered: "guild_of me st = Some a \<Longrightarrow> map_of (gt_map st) (GetGuildId me st) = Some a"
  by (simp add: guild_of_def GetGuildById_def)

lemma self_member:
  assumes inv: "guild_inv C st" and me: "me \<in> C" "guild_of me st = Some a"
  shows "om_mem (GUID_LOPART me) (ranks_of st a)"
  using inv_at_home [OF inv me(1)] guild_of_registered [OF me(2)] inv_heap [OF inv guild_of_registered [OF me(2)]]
  by (auto simp: at_home_def home_def)

lemma slot_member: "(low, slot) \<in> set (gmembers (gld st a)) \<Longrightarrow> om_mem low (ranks_of st a)"
  by (auto simp: map_of_member_ranks weak_map_of_SomeI)

lemma with_memberI:
  assumes "guild_inv C st"
    and "\<And>low slot. om_mem low (ranks_of st a) \<Longrightarrow> (low, slot) \<in> set (gmembers (gld st a)) \<Longrightarrow> keeps_inv C (k (ucast low) slot)"
  shows "keeps_inv C (with_member me name a st k)"
proof (cases "find (\<lambda>e. gm_Name (snd e) = name) (gmembers (gld st a))")
  case None
  thus ?thesis by (simp add: with_member_def GetMemberSlotByName_def keeps_inv_Some [OF assms(1)])
next
  case (Some x)
  hence "x \<in> set (gmembers (gld st a))" by (auto simp: find_Some_iff)
  with Some assms(2) [OF slot_member] show ?thesis
    by (cases x) (simp add: with_member_def GetMemberSlotByName_def)
qed

text \<open>A request of a connected player in a consistent state.\<close>

definition ready :: "u64 set \<Rightarrow> guild_henv \<Rightarrow> player \<Rightarrow> gust \<Rightarrow> bool" where
  "ready C e self st \<longleftrightarrow> guild_inv C st \<and> serves C e \<and> p_guid self \<in> C"

lemma readyD: "ready C e self st \<Longrightarrow> guild_inv C st" "ready C e self st \<Longrightarrow> serves C e" "ready C e self st \<Longrightarrow> p_guid self \<in> C"
  by (simp_all add: ready_def)

lemma ready_del:
  assumes "ready C e self st" "guild_of (p_guid self) st = Some a" "om_mem (GUID_LOPART g) (ranks_of st a)" "is_player g"
    "DelMember e a g st = Some st'"
  shows "guild_inv C st'"
  by (rule DelMember_inv [OF readyD(1) guild_of_registered readyD(2)]) (use assms in auto)

lemma ready_rank:
  assumes "ready C e self st" "guild_of (p_guid self) st = Some a" "om_mem (GUID_LOPART g) (ranks_of st a)" "is_player g"
  shows "guild_inv C (ChangeRank e a g r st)"
  by (rule inv_rank [OF readyD(1) guild_of_registered readyD(2)]) (use assms in auto)

lemma ready_quiet: "ready C e self st \<Longrightarrow> gcore st' = gcore st \<Longrightarrow> keeps_inv C (Some st')"
  by (rule keeps_inv_Some) (rule readyD)

lemma guild_remove_inv:
  assumes r: "ready C e self st"
  shows "keeps_inv C (HandleGuildRemoveOpcode e self name st)"
  unfolding HandleGuildRemoveOpcode_def Let_def
  by (intro keeps_inv_guards with_memberI keeps_inv_if keeps_inv_bind readyD(1) [OF r])
    ((rule ready_quiet [OF r], simp; fail) | (rule keeps_inv_Some [OF ready_del [OF r]], assumption, simp_all))+

lemma promote_inv:
  assumes r: "ready C e self st"
  shows "keeps_inv C (HandleGuildPromoteOpcode e self name st)"
  unfolding HandleGuildPromoteOpcode_def Let_def
  by (intro keeps_inv_guards with_memberI keeps_inv_if readyD(1) [OF r])
    ((rule ready_quiet [OF r], simp; fail) | (rule keeps_inv_Some [OF ready_rank [OF r]], assumption, simp_all))+

lemma demote_inv:
  assumes r: "ready C e self st"
  shows "keeps_inv C (HandleGuildDemoteOpcode e self name st)"
  unfolding HandleGuildDemoteOpcode_def Let_def
  by (intro keeps_inv_guards with_memberI keeps_inv_if readyD(1) [OF r])
    ((rule ready_quiet [OF r], simp; fail) | (rule keeps_inv_Some [OF ready_rank [OF r]], assumption, simp_all))+

lemma guild_leave_inv:
  assumes r: "ready C e self st"
  shows "keeps_inv C (HandleGuildLeaveOpcode e self st)"
  unfolding HandleGuildLeaveOpcode_def Let_def
proof (intro keeps_inv_guards(1) keeps_inv_if keeps_inv_bind readyD(1) [OF r])
  fix a assume a: "guild_of (p_guid self) st = Some a"
  note m = self_member [OF readyD(1) [OF r] readyD(3) [OF r] a]
  show "keeps_inv C (Guild_Disband e a st)"
    using Disband_inv [OF readyD(1) [OF r] guild_of_registered [OF a] readyD(2) [OF r]] by (simp add: keeps_inv_def)
  fix st1 assume "DelMember e a (p_guid self) st = Some st1"
  hence "guild_inv C st1"
    by (rule ready_del [OF r a m inv_player [OF readyD(1) [OF r] readyD(3) [OF r]]])
  thus "keeps_inv C (Some (SendGuildCommandResult (p_guid self) GUILD_QUIT_S
      (m_Name (gld (Guild_BroadcastPacket e a (event_packet GE_LEFT 0 [p_name self])
        (LogGuildEvent e a GUILD_EVENT_LOG_LEAVE_GUILD (GUID_LOPART (p_guid self)) 0 0 st1)) a)) ERR_PLAYER_NO_MORE_IN_GUILD
      (Guild_BroadcastPacket e a (event_packet GE_LEFT 0 [p_name self])
        (LogGuildEvent e a GUILD_EVENT_LOG_LEAVE_GUILD (GUID_LOPART (p_guid self)) 0 0 st1))))"
    by (rule keeps_inv_Some) simp
qed (rule ready_quiet [OF r], simp)

lemma disband_inv:
  assumes r: "ready C e self st"
  shows "keeps_inv C (HandleGuildDisbandOpcode e self st)"
  unfolding HandleGuildDisbandOpcode_def
proof (intro keeps_inv_guards readyD(1) [OF r])
  fix a assume a: "guild_of (p_guid self) st = Some a"
  show "keeps_inv C (Guild_Disband e a st)"
    using Disband_inv [OF readyD(1) [OF r] guild_of_registered [OF a] readyD(2) [OF r]] by (simp add: keeps_inv_def)
qed

lemma leader_inv:
  assumes r: "ready C e self st"
  shows "keeps_inv C (HandleGuildLeaderOpcode e self name st)"
  unfolding HandleGuildLeaderOpcode_def Let_def
proof (intro keeps_inv_guards with_memberI readyD(1) [OF r])
  fix n a low slot
  assume a: "guild_of (p_guid self) st = Some a" and low: "om_mem low (ranks_of st a)"
  note inv = readyD(1) [OF r] and reg = guild_of_registered [OF a]
  let ?s1 = "Guild_SetLeader e a (ucast low) st"
  have 1: "guild_inv C ?s1"
    by (rule inv_set_leader [OF inv reg readyD(2) [OF r]]) (use low in auto)
  have alive: "gt_heap st a \<noteq> None" using inv_heap [OF inv reg] by blast
  note f = effectD [OF effect_leader [OF alive, of "ucast low" e]]
  have "om_mem (GUID_LOPART (p_guid self)) (ranks_of ?s1 a)"
    using self_member [OF inv readyD(3) [OF r] a] unfolding f(7) by (simp add: om_mem_set_rank del: not_None_eq)
  hence "guild_inv C (ChangeRank e a (p_guid self) GR_OFFICER ?s1)"
    using reg by (intro inv_rank [OF 1 _ readyD(2) [OF r]]) (simp_all add: f inv_player [OF inv readyD(3) [OF r]])
  thus "keeps_inv C (Some (Guild_BroadcastPacket e a (event_packet GE_LEADER_CHANGED 0 [p_name self, n])
      (ChangeRank e a (p_guid self) GR_OFFICER ?s1)))"
    by (rule keeps_inv_Some) simp
qed

lemma accept_inv:
  assumes r: "ready C e self st"
  shows "keeps_inv C (HandleGuildAcceptOpcode e self st)"
proof (cases "GetGuildById (GetGuildIdInvited (p_guid self) st) st")
  case None
  thus ?thesis using ready_quiet [OF r] by (simp add: HandleGuildAcceptOpcode_def Let_def)
next
  case (Some a)
  let ?me = "p_guid self" and ?r = "GetLowestRank (gld st a)"
  note inv = readyD(1) [OF r] and me = readyD(3) [OF r]
  show ?thesis
  proof (cases "GetGuildId ?me st = 0")
    case True
    have "u_find e ?me \<noteq> None" using me readyD(2) [OF r] by (simp add: serves_def)
    then obtain m where m: "gm_RankId m = ?r" "Guild_AddMember e a ?me ?r st = (True, joined e a ?me ?r m st)"
      using AddMember_online [OF _ True] by blast
    have "guild_inv C (joined e a ?me ?r m st)"
      by (rule inv_join [OF inv _ me True m(1)]) (use Some in \<open>simp add: GetGuildById_def\<close>)
    hence "keeps_inv C (Some (Guild_BroadcastPacket e a (event_packet GE_JOINED 0 [p_name self])
        (LogGuildEvent e a GUILD_EVENT_LOG_JOIN_GUILD (GUID_LOPART ?me) 0 0 (joined e a ?me ?r m st))))"
      by (rule keeps_inv_Some) simp
    thus ?thesis using Some True m(2) ready_quiet [OF r] by (simp add: HandleGuildAcceptOpcode_def Let_def)
  qed (use Some ready_quiet [OF r] in \<open>simp add: HandleGuildAcceptOpcode_def Let_def\<close>)
qed

lemma gcore_leave_nothing: "GetGuildId p st = 0 \<Longrightarrow> gcore (SetInGuild p 0 st) = gcore st"
  by (auto simp: gcore_def GetGuildId_def GetRank_def fun_eq_iff)

lemma decline_inv:
  assumes r: "ready C e self st" and no: "GetGuildId (p_guid self) st = 0"
  shows "keeps_inv C (HandleGuildDeclineOpcode self st)"
  unfolding HandleGuildDeclineOpcode_def
  by (rule ready_quiet [OF r], subst gcore_leave_nothing) (use no in \<open>simp_all add: GetGuildId_def\<close>)

text \<open>Objects nobody registered do not matter.\<close>

lemma inv_unregistered:
  assumes inv: "guild_inv C st" and reg: "gt_map st' = gt_map st" "gt_guildId st' = gt_guildId st" "gt_next st \<le> gt_next st'"
    and old: "\<And>b. b < gt_next st \<Longrightarrow> (gt_heap st' b = None \<longleftrightarrow> gt_heap st b = None) \<and> gview (gld st' b) = gview (gld st b)"
    and players: "\<And>q. standing st' q = standing st q"
  shows "guild_inv C st'"
proof -
  have v: "map_of (gt_map st) i = Some b \<Longrightarrow> ranks_of st' b = ranks_of st b \<and> m_Id (gld st' b) = m_Id (gld st b) \<and>
      m_LeaderGuid (gld st' b) = m_LeaderGuid (gld st b) \<and> (gt_heap st' b = None \<longleftrightarrow> gt_heap st b = None) \<and> b < gt_next st'" for i b
    using old [of b] inv_registered [OF inv, of i b] reg(3) by (auto simp: gview_def registered_ok_def)
  have "home st' low i b s \<longleftrightarrow> home st low i b s" for low i b s
    using v [of i b] by (auto simp: home_def reg)
  hence h: "home st' = home st" by (simp add: fun_eq_iff)
  have "at_home st' = at_home st" using players by (simp add: at_home_def h fun_eq_iff)
  moreover have "registered_ok st' i b" "led st' b" if "map_of (gt_map st) i = Some b" for i b
    using v [OF that] inv_registered [OF inv that] led_inv [OF inv that] by (auto simp: registered_ok_def led_def reg)
  ultimately show ?thesis using inv unfolding guild_inv_ex_def h reg by auto
qed

lemma gld_new_object: "gld (st\<lparr>gt_heap := (gt_heap st)(a \<mapsto> g), gt_next := n\<rparr>) b = (if b = a then g else gld st b)"
  by (simp add: gld_def)

lemma gld_no_object: "b \<noteq> a \<Longrightarrow> gld (st\<lparr>gt_heap := (gt_heap st)(a := x)\<rparr>) b = gld st b"
  by (simp add: gld_def)

lemma AddGuild_simps:
  "gt_map (AddGuild a st) = om_put (m_Id (gld st a)) a (gt_map st)" "gt_guildId (AddGuild a st) = gt_guildId st"
  "gt_next (AddGuild a st) = gt_next st" "gt_heap (AddGuild a st) = gt_heap st" "gld (AddGuild a st) = gld st"
  "standing (AddGuild a st) = standing st"
  by (simp_all add: AddGuild_def gld_def GetGuildId_def GetRank_def fun_eq_iff)

text \<open>The state in which a new guild gets its founder, seen from outside.\<close>

definition founding :: "guild_henv \<Rightarrow> nat \<Rightarrow> u64 \<Rightarrow> string \<Rightarrow> gust \<Rightarrow> gust" where
  "founding e a leader gname st =
     (case GenerateGuildId st of (i, st) \<Rightarrow>
        (let st = upd_gld a (\<lambda>g. g\<lparr>m_LeaderGuid := leader, m_Name := gname, GINFO := [], MOTD := ''No message set.'',
                m_GuildBankMoney := 0, m_PurchasedTabs := 0, m_Id := i, m_Created := ge_date e\<rparr>) st;
             g = gld st a;
             st = u_sql [OnRank (QDeleteRanks i), OnMember (QDeleteMembers i),
                    OnGuild (QInsertGuild i gname (GUID_LOPART leader) [] (MOTD g) (m_Emblem g) 0)] st
         in CreateDefaultGuildRanks e a st))"

lemma Guild_Create_founding:
  "Guild_Create e a leader gname st =
     (if GetGuildByName gname st \<noteq> None then (False, st)
      else Guild_AddMember e a leader GR_GUILDMASTER (founding e a leader gname st))"
  by (simp add: Guild_Create_def founding_def Let_def split: prod.split)

lemma founding_view:
  assumes "gt_heap st a = Some g"
  shows "gcore (founding e a leader gname st) =
    gcore (upd_gld a (\<lambda>g. g\<lparr>m_LeaderGuid := leader, m_Id := gt_guildId st\<rparr>) (st\<lparr>gt_guildId := gt_guildId st + 1\<rparr>))"
  unfolding founding_def GenerateGuildId_def
  by (simp add: Let_def)
    (auto simp: gcore_def GetGuildId_def GetRank_def upd_gld_def u_emit_def gview_def member_ranks_def assms fun_eq_iff)

text \<open>The state after a guild has been founded, under the next number and at the next address.\<close>

definition founded :: "u64 \<Rightarrow> gust \<Rightarrow> gust \<Rightarrow> bool" where
  "founded me st st' \<longleftrightarrow>
     gt_map st' = om_put (gt_guildId st) (gt_next st) (gt_map st) \<and> gt_guildId st' = gt_guildId st + 1 \<and>
     gt_next st' = Suc (gt_next st) \<and> gt_heap st' (gt_next st) \<noteq> None \<and>
     gview (gld st' (gt_next st)) = (gt_guildId st, me, [(GUID_LOPART me, 0)]) \<and>
     (\<forall>b. b \<noteq> gt_next st \<longrightarrow> (gt_heap st' b = None \<longleftrightarrow> gt_heap st b = None) \<and> gview (gld st' b) = gview (gld st b)) \<and>
     (\<forall>q. standing st' q = (if q = me then (gt_guildId st, 0) else standing st q))"

lemma create_result:
  fixes st :: gust and e :: guild_henv and self :: player
  defines "me \<equiv> p_guid self" and "a \<equiv> gt_next st" and "i \<equiv> gt_guildId st"
  defines "s0 \<equiv> st\<lparr>gt_heap := (gt_heap st)(a \<mapsto> Guild_new (ge_fresh e)), gt_next := Suc a\<rparr>"
  assumes online: "u_find e me \<noteq> None" and no: "GetGuildId me st = 0" and free: "GetGuildByName gname s0 = None"
  shows "\<exists>st'. HandleGuildCreateOpcode e self gname st = Some st' \<and> founded me st st'"
proof -
  let ?g = "Guild_new (ge_fresh e)" and ?s1 = "founding e a me gname s0"
  let ?t = "upd_gld a (\<lambda>g. g\<lparr>m_LeaderGuid := me, m_Id := i\<rparr>) (s0\<lparr>gt_guildId := i + 1\<rparr>)"
  have eq: "gcore ?s1 = gcore ?t"
    using founding_view [of s0 a ?g e me gname] by (simp add: s0_def i_def)
  have t: "gt_map ?t = gt_map st" "gt_guildId ?t = i + 1" "gt_next ?t = Suc a" "standing ?t = standing st"
    "gld ?t b = (if b = a then ?g\<lparr>m_LeaderGuid := me, m_Id := i\<rparr> else gld st b)"
    "gt_heap ?t b = None \<longleftrightarrow> b \<noteq> a \<and> gt_heap st b = None" for b
    by (auto simp: s0_def GetGuildId_def GetRank_def fun_eq_iff gld_def upd_gld_def)
  have s1: "gt_map ?s1 = gt_map st" "gt_guildId ?s1 = i + 1" "gt_next ?s1 = Suc a" "standing ?s1 q = standing st q"
    "gview (gld ?s1 b) = gview (gld ?t b)" "gt_heap ?s1 b = None \<longleftrightarrow> b \<noteq> a \<and> gt_heap st b = None" for b q
    using gcore_registry [OF eq] gcore_player [OF eq, of q] gcore_gview [OF eq, of b] gcore_heap [OF eq, of b] t fun_cong [OF t(4), of q]
    by auto
  obtain m where m: "gm_RankId m = GR_GUILDMASTER"
    and add: "Guild_AddMember e a me GR_GUILDMASTER ?s1 = (True, joined e a me GR_GUILDMASTER m ?s1)"
    using AddMember_online [OF online, of ?s1 GR_GUILDMASTER a] s1(4) [of me] no by auto
  obtain g1 where g1: "gt_heap ?s1 a = Some g1" using s1(6) [of a] by auto
  note f = effectD [OF effect_join [OF g1 m, of me e]]
  have "member_ranks ?g = []" by (cases "ge_fresh e") (simp add: member_ranks_def)
  hence va: "m_Id (gld ?s1 a) = i" "ranks_of ?s1 a = []" "m_LeaderGuid (gld ?s1 a) = me"
    using s1(5) [of a] t(5) [of a] by (simp_all add: gview_def member_ranks_def)
  have vb: "b \<noteq> a \<Longrightarrow> gview (gld ?s1 b) = gview (gld st b)" for b
    using s1(5) [of b] t(5) [of b] by simp
  let ?s2 = "AddGuild a (joined e a me GR_GUILDMASTER m ?s1)"
  have "(gt_heap ?s2 b = None \<longleftrightarrow> gt_heap st b = None) \<and> gview (gld ?s2 b) = gview (gld st b)" if "b \<noteq> a" for b
    using vb [OF that] s1(6) [of b] that by (simp add: AddGuild_simps f gview_def del: not_None_eq)
  moreover have "standing ?s2 q = (if q = me then (i, 0) else standing st q)" for q
    using s1(4) [of q] by (simp add: fun_cong [OF AddGuild_simps(6)] f va)
  ultimately have "founded me st ?s2"
    using s1(1-3) g1 by (simp add: founded_def AddGuild_simps f va gview_def flip: a_def i_def)
  moreover have "HandleGuildCreateOpcode e self gname st = Some ?s2"
    using no free add by (simp add: HandleGuildCreateOpcode_def Let_def Guild_Create_founding s0_def flip: me_def a_def)
  ultimately show ?thesis by blast
qed

lemma founded_inv:
  assumes "guild_inv C st" "me \<in> C" "GetGuildId me st = 0" "gt_guildId st \<noteq> - 1" "founded me st st'"
  shows "guild_inv C st'"
  by (rule inv_found [OF assms(1-3) refl assms(4) refl]) (use assms(5) in \<open>simp_all add: founded_def gview_def\<close>)

lemma create_inv:
  assumes r: "ready C e self st" and room: "gt_guildId st \<noteq> - 1"
  shows "keeps_inv C (HandleGuildCreateOpcode e self gname st)"
proof (cases "GetGuildId (p_guid self) st = 0")
  case True
  let ?a = "gt_next st"
  let ?s0 = "st\<lparr>gt_heap := (gt_heap st)(?a \<mapsto> Guild_new (ge_fresh e)), gt_next := Suc ?a\<rparr>"
  note inv = readyD(1) [OF r] and me = readyD(3) [OF r]
  show ?thesis
  proof (cases "GetGuildByName gname ?s0 = None")
    case False
    hence h: "HandleGuildCreateOpcode e self gname st = Some (?s0\<lparr>gt_heap := (gt_heap ?s0)(?a := None)\<rparr>)"
      using True by (simp add: HandleGuildCreateOpcode_def Let_def Guild_Create_founding)
    have "guild_inv C (?s0\<lparr>gt_heap := (gt_heap ?s0)(?a := None)\<rparr>)"
      by (rule inv_unregistered [OF inv]) (auto simp: gld_def GetGuildId_def GetRank_def)
    thus ?thesis using h by (simp add: keeps_inv_def)
  next
    case free: True
    have "u_find e (p_guid self) \<noteq> None" using me readyD(2) [OF r] by (simp add: serves_def)
    from create_result [OF this True free] founded_inv [OF inv me True room] show ?thesis
      by (auto simp: keeps_inv_def)
  qed
qed (use ready_quiet [OF r] in \<open>simp add: HandleGuildCreateOpcode_def\<close>)

section \<open>Runs\<close>

text \<open>
  A request is fair when a player inside a guild does not decline an invitation (\<open>decline_leaves_half\<close>
  says what happens otherwise) and the numbers of guilds are not used up.
\<close>

inductive guild_request :: "guild_henv \<Rightarrow> player \<Rightarrow> gust \<Rightarrow> gust \<Rightarrow> bool" for e self st st' where
  quiet: "quiet e self st st' \<Longrightarrow> guild_request e self st st'"
| create: "gt_guildId st \<noteq> - 1 \<Longrightarrow> HandleGuildCreateOpcode e self gname st = Some st' \<Longrightarrow> guild_request e self st st'"
| remove: "HandleGuildRemoveOpcode e self name st = Some st' \<Longrightarrow> guild_request e self st st'"
| accept: "HandleGuildAcceptOpcode e self st = Some st' \<Longrightarrow> guild_request e self st st'"
| decline: "GetGuildId (p_guid self) st = 0 \<Longrightarrow> HandleGuildDeclineOpcode self st = Some st' \<Longrightarrow> guild_request e self st st'"
| promote: "HandleGuildPromoteOpcode e self name st = Some st' \<Longrightarrow> guild_request e self st st'"
| demote: "HandleGuildDemoteOpcode e self name st = Some st' \<Longrightarrow> guild_request e self st st'"
| leave: "HandleGuildLeaveOpcode e self st = Some st' \<Longrightarrow> guild_request e self st st'"
| disband: "HandleGuildDisbandOpcode e self st = Some st' \<Longrightarrow> guild_request e self st st'"
| leader: "HandleGuildLeaderOpcode e self name st = Some st' \<Longrightarrow> guild_request e self st st'"

text \<open>What the member table holds for a character.\<close>

definition member_row :: "gust \<Rightarrow> u32 \<Rightarrow> (u32 \<times> u32) option" where
  "member_row st low =
     (case find (\<lambda>(i, a). Guild_IsMember low (gld st a)) (gt_map st) of
        None \<Rightarrow> None
      | Some (i, a) \<Rightarrow> Some (i, Guild_GetRank low (gld st a)))"

inductive guild_run :: "u64 set \<Rightarrow> gust \<Rightarrow> bool" where
  start: "gt_map st = [] \<Longrightarrow> 0 < gt_guildId st \<Longrightarrow> guild_run {} st"
| request: "guild_run C st \<Longrightarrow> serves C e \<Longrightarrow> p_guid self \<in> C \<Longrightarrow> guild_request e self st st' \<Longrightarrow> guild_run C st'"
| login: "guild_run C st \<Longrightarrow> is_player (p_guid self) \<Longrightarrow> p_guid self \<notin> C \<Longrightarrow> serves (insert (p_guid self) C) e \<Longrightarrow>
    login_guild e self (member_row st (GUID_LOPART (p_guid self))) st = Some st' \<Longrightarrow> guild_run (insert (p_guid self) C) st'"
| logout: "guild_run C st \<Longrightarrow> serves C e \<Longrightarrow> p_guid self \<in> C \<Longrightarrow> logout_guild e self st = Some st' \<Longrightarrow>
    guild_run (C - {p_guid self}) st'"

lemma request_inv:
  assumes r: "ready C e self st" and req: "guild_request e self st st'"
  shows "guild_inv C st'"
  using req
proof cases
  case quiet
  thus ?thesis using quiet_gcore guild_inv_gcore readyD(1) [OF r] by blast
qed (use guild_remove_inv [OF r] accept_inv [OF r] decline_inv [OF r] promote_inv [OF r] demote_inv [OF r] guild_leave_inv [OF r]
    disband_inv [OF r] leader_inv [OF r] create_inv [OF r] in \<open>auto simp: keeps_inv_def\<close>)

lemma member_row_home:
  assumes "guild_inv C st"
  shows "member_row st low = None \<Longrightarrow> \<not> home st low i a r"
    and "member_row st low = Some (i, r) \<Longrightarrow> \<exists>a. home st low i a r"
proof -
  have ok: "om_ok (gt_map st)" using assms by (simp add: guild_inv_ex_def)
  show "member_row st low = None \<Longrightarrow> \<not> home st low i a r"
    using map_of_SomeD [of "gt_map st" i a]
    by (auto simp: member_row_def home_def find_None_iff Guild_IsMember_def map_of_member_ranks split: option.splits)
  show "member_row st low = Some (i, r) \<Longrightarrow> \<exists>a. home st low i a r"
    using om_ok_map_of [OF ok]
    by (auto simp: member_row_def home_def find_Some_iff Guild_IsMember_def map_of_member_ranks Guild_GetRank_def
        split: option.splits) (metis nth_mem)
qed

lemma inv_admit:
  assumes inv: "guild_inv C st" and p: "is_player p" "p \<notin> C"
    and home: "\<And>i a r. home st (GUID_LOPART p) i a r \<Longrightarrow> s = (i, r)"
    and has: "fst s \<noteq> 0 \<Longrightarrow> \<exists>a r. home st (GUID_LOPART p) (fst s) a r"
    and st': "st' = SetRank p (snd s) (SetInGuild p (fst s) st)"
  shows "guild_inv (insert p C) st'"
proof -
  have f: "home st' = home st" "led st' = led st" "registered_ok st' = registered_ok st" "gt_map st' = gt_map st"
    "gt_guildId st' = gt_guildId st"
    by (simp_all add: st' home_def led_def registered_ok_def fun_eq_iff)
  have "GetGuildId p st' = fst s" "GetRank p st' = snd s"
    by (simp_all add: st' GetGuildId_def GetRank_def)
  hence "at_home st' p"
    using has p(1) unfolding at_home_def f by (simp add: home)
  moreover have "at_home st' q" if "q \<in> C" for q
  proof -
    have "q \<noteq> p" using that p(2) by blast
    hence "GetGuildId q st' = GetGuildId q st" "GetRank q st' = GetRank q st"
      by (simp_all add: st' GetGuildId_def GetRank_def)
    with inv_at_home [OF inv that] show ?thesis unfolding at_home_def f by simp
  qed
  ultimately show ?thesis using inv unfolding guild_inv_ex_def f by blast
qed

lemma login_inv:
  assumes inv: "guild_inv C st" and p: "is_player (p_guid self)" "p_guid self \<notin> C"
    and l: "login_guild e self (member_row st (GUID_LOPART (p_guid self))) st = Some st'"
  shows "guild_inv (insert (p_guid self) C) st'"
proof (cases "member_row st (GUID_LOPART (p_guid self))")
  let ?me = "p_guid self"
  case None
  note no = member_row_home(1) [OF inv None]
  have out: "guild_inv (insert ?me C) (SetRank ?me r (SetInGuild ?me 0 st))" for r
    by (rule inv_admit [OF inv p, where s = "(0, r)"]) (use no in auto)
  show ?thesis
  proof (cases "GetGuildId ?me st = 0")
    case True
    have "gcore st = gcore (SetRank ?me (GetRank ?me st) (SetInGuild ?me 0 st))"
      using True by (auto simp: gcore_def GetGuildId_def GetRank_def fun_eq_iff)
    with out have "guild_inv (insert ?me C) st" by (rule guild_inv_gcore [rotated])
    with l None True show ?thesis by (simp add: login_guild_def Let_def)
  next
    case False
    have "st' = SetRank ?me 0 (SetInGuild ?me 0 st)"
      using l None False by (simp add: login_guild_def Let_def) (simp add: GetGuildId_def)
    with out show ?thesis by simp
  qed
next
  let ?me = "p_guid self"
  case (Some row)
  obtain i r where row: "row = (i, r)" by (cases row)
  obtain a where a: "home st (GUID_LOPART ?me) i a r"
    using member_row_home(2) [OF inv Some [unfolded row]] by blast
  let ?s = "SetRank ?me r (SetInGuild ?me i st)"
  have 1: "guild_inv (insert ?me C) ?s"
  proof (rule inv_admit [OF inv p, where s = "(i, r)"])
    show "home st (GUID_LOPART ?me) j b s \<Longrightarrow> (i, r) = (j, s)" for j b s
      using inv_home [OF inv a] by simp
  qed (use a in auto)
  have reg: "map_of (gt_map st) i = Some a" using a by (simp add: home_def)
  have i: "i \<noteq> 0" "GetGuildId ?me ?s = i"
    using inv_heap [OF inv reg] by (simp_all add: GetGuildId_def)
  have g: "guild_of ?me ?s = Some a" unfolding guild_of_def i(2) GetGuildById_def using reg by simp
  have "gcore st' = gcore ?s"
    using l Some row i g by (simp add: login_guild_def Let_def core.view_guild del: player_simps) (auto simp: core.view_guild)
  from guild_inv_gcore [OF this 1] show ?thesis .
qed

lemma logout_inv:
  assumes inv: "guild_inv C st" and l: "logout_guild e self st = Some st'"
  shows "guild_inv (C - {p_guid self}) st'"
proof -
  have "gcore st' = gcore st"
    using l by (auto simp: logout_guild_def Let_def core.view_logout_time bind_eq_Some_conv split: option.splits)
  from guild_inv_gcore [OF this inv] show ?thesis unfolding guild_inv_ex_def by blast
qed

lemma guild_run_inv: "guild_run C st \<Longrightarrow> guild_inv C st"
proof (induction rule: guild_run.induct)
  case (start st)
  thus ?case by (simp add: guild_inv_ex_def home_def om_ok_def)
next
  case (request C st e self st')
  thus ?case by (auto intro: request_inv simp: ready_def)
next
  case (login C st self e st')
  thus ?case by (auto intro: login_inv)
next
  case (logout C st e self st')
  thus ?case by (auto intro: logout_inv)
qed

end
