(* ===== verification/GuildTheorems.thy ===== *)
theory GuildTheorems
  imports GuildRuns
begin

text \<open>
  The properties of the guilds: consistency of all runs, succession and disbanding, ranks and rights,
  money, items and logs of the bank, each with a concrete instance.
\<close>

section \<open>A server with two players\<close>

definition guild_player_of :: "u64 \<Rightarrow> string \<Rightarrow> player" where
  "guild_player_of g n =
     \<lparr>p_guid = g, p_name = n, p_team = ALLIANCE, p_security = SEC_PLAYER, p_inWorld = True,
      p_visibility = VISIBILITY_ON, p_guildId = 0, p_hasGroup = False, p_lfgEmpty = True, p_afk = False, p_dnd = False,
      p_gmChatFlag = False, p_zone = 1, p_level = 10, p_class = 1\<rparr>"

definition demo_env :: "player list \<Rightarrow> guild_henv" where
  "demo_env ps =
     \<lparr>ge_world = \<lparr>w_players = ps, w_config = \<lambda>_. False, w_names = \<lambda>_. None\<rparr>, ge_social = [],
      ge_time = 600000, ge_date = (1, 2, 2013), ge_days = \<lambda>_ _. 0, ge_account = \<lambda>_. 1, ge_charRow = \<lambda>_. None,
      ge_zoneFromDB = \<lambda>_. 1, ge_guildFromDB = \<lambda>_. 0, ge_teamOf = \<lambda>_. ALLIANCE,
      ge_rankNames = [''Guild Master'', ''Officer'', ''Veteran'', ''Member'', ''Initiate''], ge_junk = 7,
      ge_fresh = (False, False, 0, 0, 0),
      bx_bank = \<lambda>_ _. True, bx_tabard = \<lambda>_ _. True, bx_died = \<lambda>_. False, bx_randomProps = \<lambda>_ _. (0, 0),
      bx_itemAt = \<lambda>_ _ _. None, bx_canBeTraded = \<lambda>_. True, bx_canStore = \<lambda>_ _ _ _ _. (EQUIP_ERR_OK, []),
      gx_u8dec = ascii_dec, gx_u8enc = ascii_enc, gx_trunc = \<lambda>s n. take n s,
      gx_bankRows = \<lambda>_. \<lparr>bk_log = [], bk_tabs = [], bk_items = []\<rparr>, gx_eventRows = \<lambda>_. []\<rparr>"

definition demo_start :: gust where
  "demo_start =
     \<lparr>gt_heap = Map.empty, gt_next = 0, gt_map = [], gt_guildId = 1,
      gt_players = \<lambda>_. \<lparr>pg_guildId = 0, pg_rank = 0, pg_invited = 0, pg_money = 2000000\<rparr>,
      gt_items = Map.empty, gt_nextItem = 0, gt_itemGuid = 1, gt_out = []\<rparr>"

abbreviation Ann :: player where "Ann \<equiv> guild_player_of 1 ''Ann''"
abbreviation Bob :: player where "Bob \<equiv> guild_player_of 2 ''Bob''"

lemma demo_find:
  "u_find (demo_env [Ann]) g = (if g = 1 then Some Ann else None)"
  "u_find (demo_env [Ann, Bob]) g = (if g = 1 then Some Ann else if g = 2 then Some Bob else None)"
  by (simp_all add: demo_env_def FindPlayer_def guild_player_of_def)

lemma demo_guid [simp]: "p_guid (guild_player_of g n) = g"
  by (simp add: guild_player_of_def)

lemma demo_serves: "serves {1} (demo_env [Ann])" "serves {1, 2} (demo_env [Ann, Bob])"
  by (auto simp: serves_def demo_find)

lemma demo_is_player: "is_player 1" "is_player 2"
  by (simp_all add: is_player_def GUID_LOPART_def IsGuidHaveEnPart_def GUID_HIPART_def GUID_LOPART_2_def player_guid_def MAKE_NEW_GUID_def)

text \<open>Ann founds a guild.\<close>

lemma demo_lopart [simp]: "GUID_LOPART 1 = 1" "GUID_LOPART 2 = 2"
  using lopart_ucast [of 1] lopart_ucast [of 2] by simp_all

definition demo_founded :: gust where
  "demo_founded = the (HandleGuildCreateOpcode (demo_env [Ann]) Ann ''Wolves'' demo_start)"

lemma demo_create:
  "HandleGuildCreateOpcode (demo_env [Ann]) Ann ''Wolves'' demo_start = Some demo_founded" "founded 1 demo_start demo_founded"
proof -
  have "\<exists>st'. HandleGuildCreateOpcode (demo_env [Ann]) Ann ''Wolves'' demo_start = Some st' \<and> founded (p_guid Ann) demo_start st'"
    by (rule create_result) (simp_all add: demo_find demo_start_def GetGuildId_def GetGuildByName_def)
  thus "HandleGuildCreateOpcode (demo_env [Ann]) Ann ''Wolves'' demo_start = Some demo_founded" "founded 1 demo_start demo_founded"
    by (auto simp: demo_founded_def)
qed

lemma demo_login: "login_guild (demo_env [Ann]) Ann (member_row demo_start (GUID_LOPART 1)) demo_start = Some demo_start"
  by (simp add: login_guild_def member_row_def demo_start_def GetGuildId_def Let_def)

lemma demo_run: "guild_run {1} demo_founded"
proof -
  have 0: "guild_run {} demo_start" by (rule guild_run.start) (simp_all add: demo_start_def)
  have 1: "guild_run {1} demo_start"
    using guild_run.login [OF 0, of Ann "demo_env [Ann]" demo_start] demo_is_player demo_serves demo_login by simp
  show ?thesis
    by (rule guild_run.request [OF 1 demo_serves(1), of Ann])
      (simp, rule guild_request.create [OF _ demo_create(1)], simp add: demo_start_def)
qed

lemma demo_start_sel: "gt_map demo_start = []" "gt_guildId demo_start = 1" "gt_next demo_start = 0"
  by (simp_all add: demo_start_def)

lemma demo_founded_view:
  "gt_map demo_founded = [(1, 0)]" "GetGuildById 1 demo_founded = Some 0" "GetGuildId 1 demo_founded = 1"
  "GetRank 1 demo_founded = 0" "m_LeaderGuid (gld demo_founded 0) = 1" "ranks_of demo_founded 0 = [(1, 0)]"
proof -
  note f = demo_create(2) [unfolded founded_def demo_start_sel]
  show "gt_map demo_founded = [(1, 0)]" using f by simp
  thus "GetGuildById 1 demo_founded = Some 0" by (simp add: GetGuildById_def)
  have "gview (gld demo_founded 0) = (1, 1, [(1, 0)])" using f by simp
  thus "m_LeaderGuid (gld demo_founded 0) = 1" "ranks_of demo_founded 0 = [(1, 0)]" by (simp_all add: gview_def)
  have "\<forall>q. standing demo_founded q = (if q = 1 then (1, 0) else standing demo_start q)" using f by blast
  hence "standing demo_founded 1 = (1, 0)" by simp
  thus "GetGuildId 1 demo_founded = 1" "GetRank 1 demo_founded = 0" by simp_all
qed

section \<open>Consistency\<close>

lemma Guild_IsMember_ranks: "Guild_IsMember low g \<longleftrightarrow> om_mem low (member_ranks g)"
  by (simp add: Guild_IsMember_def map_of_member_ranks)

text \<open>
  C4: however requests, logins and logouts follow one another, as long as no player who is in a guild
  declines an invitation (\<open>decline_leaves_half\<close> shows what that breaks) and the numbers of guilds are not
  used up: every registered guild is a live object with the number it is registered under, and its
  leader is one of its members; no character is a member of two guilds; a connected player carries the
  number of a guild exactly when he is a member of it, with the rank the guild has for him.
\<close>

theorem guild_consistency:
  assumes "guild_run C st"
  shows "(\<forall>i a. GetGuildById i st = Some a \<longrightarrow>
            gt_heap st a \<noteq> None \<and> m_Id (gld st a) = i \<and> Guild_IsMember (GUID_LOPART (m_LeaderGuid (gld st a))) (gld st a)) \<and>
         (\<forall>low i a j b. GetGuildById i st = Some a \<and> GetGuildById j st = Some b \<and>
            Guild_IsMember low (gld st a) \<and> Guild_IsMember low (gld st b) \<longrightarrow> i = j) \<and>
         (\<forall>p\<in>C. \<forall>i. i \<noteq> 0 \<longrightarrow> (GetGuildId p st = i \<longleftrightarrow>
            (\<exists>a. GetGuildById i st = Some a \<and> Guild_IsMember (GUID_LOPART p) (gld st a)))) \<and>
         (\<forall>p\<in>C. \<forall>a. guild_of p st = Some a \<longrightarrow> Guild_GetRank (GUID_LOPART p) (gld st a) = GetRank p st)"
proof -
  note inv = guild_run_inv [OF assms]
  have 1: "gt_heap st a \<noteq> None \<and> m_Id (gld st a) = i \<and> Guild_IsMember (GUID_LOPART (m_LeaderGuid (gld st a))) (gld st a)"
    if "GetGuildById i st = Some a" for i a
    using inv_heap [OF inv, of i a] led_inv [OF inv, of i a] that
    by (auto simp: GetGuildById_def led_def Guild_IsMember_ranks)
  have 2: "i = j" if "GetGuildById i st = Some a" "GetGuildById j st = Some b"
    "Guild_IsMember low (gld st a)" "Guild_IsMember low (gld st b)" for low i a j b
    using inv_home [OF inv, of low i a _ j b] that by (auto simp: home_def GetGuildById_def Guild_IsMember_ranks)
  have 3: "GetGuildId p st = i \<longleftrightarrow> (\<exists>a. GetGuildById i st = Some a \<and> Guild_IsMember (GUID_LOPART p) (gld st a))"
    if "p \<in> C" "i \<noteq> 0" for p i
    using inv_at_home [OF inv that(1)] that(2)
    by (fastforce simp: at_home_def home_def GetGuildById_def Guild_IsMember_ranks)
  have 4: "Guild_GetRank (GUID_LOPART p) (gld st a) = GetRank p st" if p: "p \<in> C" and a: "guild_of p st = Some a" for p a
  proof -
    obtain r where r: "map_of (ranks_of st a) (GUID_LOPART p) = Some r" using self_member [OF inv p a] by blast
    have "standing st p = (GetGuildId p st, r)" by (rule standing_member [OF inv guild_of_registered [OF a] p r])
    with r show ?thesis by (auto simp: map_of_member_ranks Guild_GetRank_def)
  qed
  from 1 2 3 4 show ?thesis by blast
qed

theorem guild_consistency_witness:
  "GetGuildById 1 demo_founded = Some 0 \<and> Guild_IsMember 1 (gld demo_founded 0) \<and>
   Guild_GetRank (GUID_LOPART 1) (gld demo_founded 0) = GetRank 1 demo_founded"
proof -
  have "guild_of 1 demo_founded = Some 0" by (simp add: guild_of_def demo_founded_view)
  with guild_consistency [OF demo_run, THEN conjunct2, THEN conjunct2, THEN conjunct2]
  have "Guild_GetRank (GUID_LOPART 1) (gld demo_founded 0) = GetRank 1 demo_founded" by blast
  moreover have "\<exists>a. GetGuildById 1 demo_founded = Some a \<and> Guild_IsMember (GUID_LOPART 1) (gld demo_founded a)"
    using guild_consistency [OF demo_run, THEN conjunct2, THEN conjunct2, THEN conjunct1, rule_format, of 1 1]
    by (simp add: demo_founded_view)
  ultimately show ?thesis by (simp add: demo_founded_view(2))
qed

section \<open>Disbanding and succession\<close>

text \<open>
  C6: Disbanding ends whatever the state: no member is left, and exactly this guild leaves the registry.
\<close>

theorem Disband_ends:
  "\<exists>st'. Guild_Disband e a st = Some st' \<and> gmembers (gld st' a) = [] \<and>
     (\<forall>i. GetGuildById i st' = (if i = m_Id (gld st a) then None else GetGuildById i st))"
proof -
  let ?st = "BroadcastEvent e a GE_DISBANDED 0 [] st"
  have f: "gld ?st = gld st" "gt_map ?st = gt_map st"
    by (simp_all add: BroadcastEvent_def Guild_BroadcastPacket_def)
  obtain st2 where "disband_loop (length (gmembers (gld ?st a))) e a ?st = Some st2" "gmembers (gld st2 a) = []"
    "gt_map st2 = gt_map ?st" "m_Id (gld st2 a) = m_Id (gld ?st a)"
    using disband_loop_ends [OF order_refl, where e = e] by blast
  moreover have "gld (RemoveGuild i (u_sql q s)) = gld s" "gt_map (RemoveGuild i (u_sql q s)) = om_erase i (gt_map s)" for i q s
    by (simp_all add: RemoveGuild_def u_sql_def gld_def fun_eq_iff)
  ultimately show ?thesis
    unfolding Guild_Disband_def f
    by (auto simp: Let_def f GetGuildById_def simp del: disband_loop.simps)
qed

text \<open>The heir is the least member in the order of rank and guid.\<close>

definition before :: "u32 \<times> guild_member \<Rightarrow> u32 \<times> guild_member \<Rightarrow> bool" where
  "before x y \<longleftrightarrow> gm_RankId (snd x) < gm_RankId (snd y) \<or> gm_RankId (snd x) = gm_RankId (snd y) \<and> fst x \<le> fst y"

lemma before_trans: "before x y \<Longrightarrow> before y z \<Longrightarrow> before x z"
  by (auto simp: before_def)

lemma best_heir_least:
  assumes "om_ok ms" "\<And>b k m. best = Some b \<Longrightarrow> (k, m) \<in> set ms \<Longrightarrow> fst b < k" "best_heir old ms best = Some h"
  shows "(\<forall>x\<in>set ms. fst x \<noteq> old \<longrightarrow> before h x) \<and> (\<forall>b. best = Some b \<longrightarrow> before h b)"
  using assms
proof (induction old ms best rule: best_heir.induct)
  case (1 old best)
  thus ?case by (simp add: before_def)
next
  case (2 old k m ms best)
  have ok: "om_ok ms" "\<And>k' m'. (k', m') \<in> set ms \<Longrightarrow> k < k'"
    using 2(3) by (auto simp: om_ok_Cons)
  show ?case
  proof (cases "k = old")
    case True
    thus ?thesis using 2(1) [OF True ok(1)] 2(4,5) by auto
  next
    case False
    let ?best = "case best of None \<Rightarrow> Some (k, m) | Some (_, b) \<Rightarrow> if gm_RankId b > gm_RankId m then Some (k, m) else best"
    have "best_heir old ms ?best = Some h" using 2(5) False by simp
    moreover have "fst b < k'" if "?best = Some b" "(k', m') \<in> set ms" for b k' m'
      using that ok(2) [of k' m'] 2(4) [of b k' m'] by (auto split: option.splits if_splits)
    ultimately have IH: "\<forall>x\<in>set ms. fst x \<noteq> old \<longrightarrow> before h x" "\<forall>b. ?best = Some b \<longrightarrow> before h b"
      using 2(2) [OF False ok(1)] by blast+
    have "before h (k, m) \<and> (\<forall>b. best = Some b \<longrightarrow> before h b)"
    proof (cases best)
      case None
      thus ?thesis using IH(2) by simp
    next
      case (Some b)
      obtain j n where b: "b = (j, n)" by (cases b)
      have "j < k" using 2(4) [of b k m] Some b by simp
      hence "before b (k, m) \<or> before (k, m) b" "\<not> gm_RankId n > gm_RankId m \<Longrightarrow> before b (k, m)"
        "gm_RankId n > gm_RankId m \<Longrightarrow> before (k, m) b"
        by (auto simp: before_def b)
      thus ?thesis
        using IH(2) Some b before_trans [of h b "(k, m)"] before_trans [of h "(k, m)" b]
        by (cases "gm_RankId n > gm_RankId m") simp_all
    qed
    with IH(1) show ?thesis by auto
  qed
qed

lemma best_heir_exists:
  "(\<exists>x\<in>set ms. fst x \<noteq> old) \<or> best \<noteq> None \<Longrightarrow> \<exists>h. best_heir old ms best = Some h"
  by (induction old ms best rule: best_heir.induct) (auto split: option.split)

text \<open>
  C5: When the leader leaves and others remain, the one with the least rank number, among equals the
  one with the least guid, becomes leader with rank 0, and exactly the old leader is gone.
\<close>

theorem leader_succession:
  assumes alive: "gt_heap st a \<noteq> None" and ok: "om_ok (gmembers (gld st a))" and leader: "m_LeaderGuid (gld st a) = guid"
    and others: "k \<noteq> GUID_LOPART guid" "Guild_IsMember k (gld st a)"
  shows "\<exists>st' heir m. DelMember e a guid st = Some st' \<and> (heir, m) \<in> set (gmembers (gld st a)) \<and> heir \<noteq> GUID_LOPART guid \<and>
    (\<forall>x\<in>set (gmembers (gld st a)). fst x \<noteq> GUID_LOPART guid \<longrightarrow> before (heir, m) x) \<and>
    m_LeaderGuid (gld st' a) = player_guid heir \<and> Guild_GetRank heir (gld st' a) = 0 \<and>
    (\<forall>low. Guild_IsMember low (gld st' a) \<longleftrightarrow> Guild_IsMember low (gld st a) \<and> low \<noteq> GUID_LOPART guid)"
proof -
  let ?old = "GUID_LOPART guid" and ?ms = "gmembers (gld st a)"
  have "\<exists>x\<in>set ?ms. fst x \<noteq> ?old"
    using others by (force simp: Guild_IsMember_def dest!: map_of_SomeD)
  then obtain heir m where h: "best_heir ?old ?ms None = Some (heir, m)"
    using best_heir_exists [of ?ms ?old None] by auto
  have in_g: "(heir, m) \<in> set ?ms" "heir \<noteq> ?old" using best_heir_in [OF h] by auto
  have least: "\<forall>x\<in>set ?ms. fst x \<noteq> ?old \<longrightarrow> before (heir, m) x"
    using best_heir_least [OF ok _ h] by blast
  let ?s1 = "Guild_SetLeader e a (ucast heir) st" and ?s2 = "replace_leader e a guid (heir, m) st"
  let ?s3 = "erase_member e a guid ?s2"
  have eq: "gcore ?s2 = gcore ?s1" using replace_leader_gcore [of e a guid "(heir, m)" st] by simp
  note f = effectD [OF effect_leader [OF alive, of "ucast heir" e]]
  have v: "m_LeaderGuid (gld ?s2 a) = ucast heir" "ranks_of ?s2 a = set_rank heir 0 (ranks_of st a)"
    using gcore_gview [OF eq, of a] f(6,7) by (simp_all add: gview_def)
  have alive2: "gt_heap ?s2 a \<noteq> None" using gcore_heap [OF eq, of a] f(4) [of a] alive by blast
  note g = effectD [OF effect_erase [OF alive2, of guid e]]
  have mem: "om_mem heir (ranks_of st a)" using in_g(1) by (rule slot_member)
  have lead: "m_LeaderGuid (gld ?s3 a) = player_guid heir" using g(6) [of a] v(1) by (simp add: player_guid_ucast)
  have ranks: "map_of (ranks_of ?s3 a) low = (if low = ?old then None else map_of (set_rank heir 0 (ranks_of st a)) low)" for low
    using g(7) [of a] v(2) by simp
  have "map_of (ranks_of ?s3 a) heir = Some 0" unfolding ranks map_of_set_rank using in_g(2) mem by simp
  hence "Guild_GetRank heir (gld ?s3 a) = 0" by (auto simp: map_of_member_ranks Guild_GetRank_def)
  moreover have "Guild_IsMember low (gld ?s3 a) \<longleftrightarrow> Guild_IsMember low (gld st a) \<and> low \<noteq> ?old" for low
    by (cases "low = ?old") (simp_all add: Guild_IsMember_ranks ranks om_mem_set_rank del: not_None_eq)
  moreover have "DelMember e a guid st = Some ?s3" using leader h by (simp add: DelMember_def)
  ultimately show ?thesis using in_g least lead by blast
qed


definition demo_member :: "u32 \<Rightarrow> string \<Rightarrow> guild_member" where
  "demo_member r n =
     \<lparr>gm_accountId = 1, gm_Name = n, gm_RankId = r, gm_Level = 10, gm_Class = 1, gm_ZoneId = 1, gm_LogoutTime = 0,
      gm_Pnote = [], gm_OFFnote = [], gm_BankResetTimeMoney = 0, gm_BankRemMoney = 0,
      gm_BankResetTimeTab = replicate 6 0, gm_BankRemSlotsTab = replicate 6 0\<rparr>"

definition demo_guild :: "(u32, guild_member) omap \<Rightarrow> guild" where
  "demo_guild ms =
     (Guild_new (True, True, 0, 0, 0))\<lparr>m_Id := 7, m_Name := ''Wolves'', m_LeaderGuid := 1, gmembers := ms,
       m_Ranks := [RankInfo_new ''Master'' 0xDF1FF 0xFFFFFFFF, RankInfo_new ''Officer'' 0xDF1FF 500, RankInfo_new ''Member'' 0x43 100]\<rparr>"

definition demo_with :: "guild \<Rightarrow> gust" where
  "demo_with g = demo_start\<lparr>gt_heap := [0 \<mapsto> g], gt_next := 1, gt_map := [(7, 0)]\<rparr>"

abbreviation four :: "(u32, guild_member) omap" where
  "four \<equiv> [(1, demo_member 0 ''Ann''), (2, demo_member 2 ''Bob''), (3, demo_member 1 ''Cid''), (5, demo_member 1 ''Dan'')]"

lemma demo_with_sel [simp]: "gt_heap (demo_with g) 0 = Some g" "gld (demo_with g) 0 = g" "gt_players (demo_with g) = gt_players demo_start"
  "gt_map (demo_with g) = [(7, 0)]"
  by (simp_all add: demo_with_def gld_def)

lemma demo_guild_sel [simp]: "gmembers (demo_guild ms) = ms" "m_LeaderGuid (demo_guild ms) = 1" "m_Id (demo_guild ms) = 7"
  by (simp_all add: demo_guild_def)

lemma demo_member_rank [simp]: "gm_RankId (demo_member r n) = r"
  by (simp add: demo_member_def)

theorem leader_succession_witness:
  "\<exists>st'. DelMember (demo_env []) 0 1 (demo_with (demo_guild four)) = Some st' \<and>
     m_LeaderGuid (gld st' 0) = player_guid 3 \<and> Guild_GetRank 3 (gld st' 0) = 0 \<and>
     \<not> Guild_IsMember 1 (gld st' 0) \<and> Guild_IsMember 5 (gld st' 0)"
proof -
  let ?st = "demo_with (demo_guild four)"
  have "\<exists>st' heir m. DelMember (demo_env []) 0 1 ?st = Some st' \<and> (heir, m) \<in> set (gmembers (gld ?st 0)) \<and> heir \<noteq> GUID_LOPART 1 \<and>
    (\<forall>x\<in>set (gmembers (gld ?st 0)). fst x \<noteq> GUID_LOPART 1 \<longrightarrow> before (heir, m) x) \<and>
    m_LeaderGuid (gld st' 0) = player_guid heir \<and> Guild_GetRank heir (gld st' 0) = 0 \<and>
    (\<forall>low. Guild_IsMember low (gld st' 0) \<longleftrightarrow> Guild_IsMember low (gld ?st 0) \<and> low \<noteq> GUID_LOPART 1)"
    by (rule leader_succession [where k = 2]) (simp_all add: om_ok_Cons Guild_IsMember_def)
  then obtain st' heir m where del: "DelMember (demo_env []) 0 1 ?st = Some st'"
    and h: "(heir, m) \<in> set four" "heir \<noteq> 1" "\<forall>x\<in>set four. fst x \<noteq> 1 \<longrightarrow> before (heir, m) x"
    and r: "m_LeaderGuid (gld st' 0) = player_guid heir" "Guild_GetRank heir (gld st' 0) = 0"
      "\<forall>low. Guild_IsMember low (gld st' 0) \<longleftrightarrow> Guild_IsMember low (demo_guild four) \<and> low \<noteq> 1"
    by (auto simp del: list.set)
  have "heir = 3" using h by (auto simp: before_def)
  with del r show ?thesis by (auto simp: Guild_IsMember_def)
qed

end
