(* ===== verification/GuildMoney.thy ===== *)
theory GuildMoney
  imports GuildTheorems
begin

text \<open>
  The money of the players and of the guild banks: what deposits and withdrawals move, that no request
  creates money, and the daily limit of a member.
\<close>

section \<open>Purses\<close>

lemma u32_bound: "unat (d :: u32) < 4294967296"
proof -
  have "unat d < 2 ^ LENGTH(32)" by (rule unsigned_less)
  thus ?thesis by simp
qed

lemma unat_to_u64: "unat (ucast (n :: u32) :: u64) = unat n"
  using u32_bound [of n] by (simp add: unsigned_ucast_eq take_bit_nat_eq_self)

lemma unat_uminus: "(c :: u32) \<noteq> 0 \<Longrightarrow> unat (- c) = 4294967296 - unat c"
  using unat_sub_if' [of 0 c] unat_gt_0 [of c] by simp

lemma sint_negative: "sint (d :: 'a :: len word) < 0 \<longleftrightarrow> 2 ^ (LENGTH('a) - 1) \<le> unat d"
proof -
  let ?k = "LENGTH('a) - 1"
  have "unat d < 2 ^ LENGTH('a)" by (rule unsigned_less)
  hence "unat d < 2 * 2 ^ ?k" by (metis One_nat_def Suc_pred len_gt_0 power_Suc)
  hence "unat d div 2 ^ ?k = (if 2 ^ ?k \<le> unat d then 1 else 0)" by (auto simp: div_nat_eqI)
  moreover have "sint d < 0 \<longleftrightarrow> bit d ?k" using bit_last_iff [of d] by simp
  moreover have "bit d ?k \<longleftrightarrow> bit (unat d) ?k" by (simp add: bit_simps)
  moreover have "bit (unat d) ?k \<longleftrightarrow> odd (unat d div 2 ^ ?k)" by (simp add: bit_iff_odd)
  ultimately show ?thesis by simp
qed

lemma sint_neg_iff: "sint (d :: u32) < 0 \<longleftrightarrow> 0x80000000 \<le> unat d"
  using sint_negative [of d] by simp

lemma money_after_pay:
  assumes "c \<le> m" "m \<le> MAX_MONEY_AMOUNT"
  shows "unat (money_after m (- c)) = unat m - unat c"
proof -
  have c: "unat c \<le> unat m" "unat m \<le> 2147483646" using assms by (simp_all add: word_le_nat_alt)
  show ?thesis
  proof (cases "c = 0")
    case True
    thus ?thesis using assms by (auto simp: money_after_def)
  next
    case False
    hence "unat (- c) = 4294967296 - unat c" by (rule unat_uminus)
    hence "sint (- c) < 0" using c by (simp add: sint_neg_iff)
    thus ?thesis using assms(1) by (auto simp: money_after_def unat_sub)
  qed
qed

lemma money_after_get:
  assumes "m \<le> MAX_MONEY_AMOUNT"
  shows "unat (money_after m d) \<le> unat m + unat d"
    and "unat d < 0x80000000 \<Longrightarrow> unat m + unat d < 0x7FFFFFFE \<Longrightarrow> unat (money_after m d) = unat m + unat d"
    and "0x80000000 \<le> unat d \<Longrightarrow> unat (money_after m d) = unat m - (0x100000000 - unat d)"
proof -
  have m: "unat m \<le> 2147483646" using assms by (simp add: word_le_nat_alt)
  have d: "unat d < 4294967296" by (rule u32_bound)
  have add: "unat (m + d) = (if unat m + unat d < 4294967296 then unat m + unat d else unat m + unat d - 4294967296)"
    using unat_plus_if' [of m d] by simp
  have max: "unat (MAX_MONEY_AMOUNT - d) = (if unat d \<le> 2147483646 then 2147483646 - unat d else 6442450942 - unat d)"
    by (simp add: unat_sub_if')
  show big: "0x80000000 \<le> unat d \<Longrightarrow> unat (money_after m d) = unat m - (0x100000000 - unat d)"
  proof -
    assume b: "0x80000000 \<le> unat d"
    hence "d \<noteq> 0" by auto
    hence n: "unat (- d) = 4294967296 - unat d" by (rule unat_uminus)
    show ?thesis using b m d add n by (auto simp: money_after_def sint_neg_iff word_less_nat_alt)
  qed
  show "unat d < 0x80000000 \<Longrightarrow> unat m + unat d < 0x7FFFFFFE \<Longrightarrow> unat (money_after m d) = unat m + unat d"
    using add max by (auto simp: money_after_def sint_neg_iff word_less_nat_alt)
  show "unat (money_after m d) \<le> unat m + unat d"
  proof (cases "0x80000000 \<le> unat d")
    case True
    thus ?thesis using big by simp
  next
    case False
    thus ?thesis using add max m by (auto simp: money_after_def sint_neg_iff word_less_nat_alt)
  qed
qed


section \<open>Purses and banks\<close>

definition gmoney :: "gust \<Rightarrow> (u64 \<Rightarrow> u32) \<times> (nat \<Rightarrow> u64 option)" where
  "gmoney st = (\<lambda>p. GetMoney p st, \<lambda>a. map_option m_GuildBankMoney (gt_heap st a))"

lemma gmoney_upd_gld: "(\<And>g. m_GuildBankMoney (f g) = m_GuildBankMoney g) \<Longrightarrow> gmoney (upd_gld a f st) = gmoney st"
  by (auto simp: gmoney_def upd_gld_def GetMoney_def fun_eq_iff option.map_comp comp_def)

interpretation cash: bank_view gmoney
proof unfold_locales
  show "gmoney (u_emit es st) = gmoney st" for es st
    by (simp add: gmoney_def u_emit_def GetMoney_def)
  show "gmoney (st\<lparr>gt_items := i, gt_nextItem := n, gt_itemGuid := k\<rparr>) = gmoney st" for st i n k
    by (simp add: gmoney_def GetMoney_def)
  show "(\<And>g. kernel (f g) = kernel g) \<Longrightarrow> gmoney (upd_gld a f st) = gmoney st" for f a st
    by (rule gmoney_upd_gld) (simp add: kernel_def)
qed

lemma gmoney_player [simp]:
  "gmoney (SetInGuild p i st) = gmoney st" "gmoney (SetRank p r st) = gmoney st" "gmoney (SetGuildIdInvited p i st) = gmoney st"
  by (auto simp: gmoney_def SetInGuild_def SetRank_def SetGuildIdInvited_def upd_gplayer_def GetMoney_def fun_eq_iff)

lemma gmoney_fields [simp]: "gmoney (st\<lparr>gt_map := m\<rparr>) = gmoney st" "gmoney (st\<lparr>gt_guildId := i\<rparr>) = gmoney st"
  by (simp_all add: gmoney_def GetMoney_def)

lemma gmoney_members [simp]:
  "gmoney (ChangeRank e a g r st) = gmoney st" "gmoney (erase_member e a g st) = gmoney st"
  by (simp_all add: ChangeRank_def erase_member_def Let_def gmoney_upd_gld)

lemma gmoney_leader [simp]:
  "gmoney (Guild_SetLeader e a g st) = gmoney st" "gmoney (replace_leader e a g h st) = gmoney st"
  by (simp_all add: Guild_SetLeader_def replace_leader_def Let_def gmoney_upd_gld split: option.split)

lemma gmoney_disband_loop: "disband_loop n e a st = Some st' \<Longrightarrow> gmoney st' = gmoney st"
proof (induction n arbitrary: st)
  case 0
  thus ?case by (auto split: option.splits)
next
  case (Suc n)
  thus ?case by (auto split: option.splits dest: Suc.IH)
qed

lemma gmoney_Disband: "Guild_Disband e a st = Some st' \<Longrightarrow> gmoney st' = gmoney st"
  by (auto simp: Guild_Disband_def RemoveGuild_def Let_def simp del: disband_loop.simps dest!: gmoney_disband_loop split: option.splits)

lemma gmoney_DelMember: "DelMember e a g st = Some st' \<Longrightarrow> gmoney st' = gmoney st"
  by (auto simp: DelMember_def Let_def dest: gmoney_Disband split: if_splits option.splits)

lemma gmoney_AddMember: "gmoney (snd (Guild_AddMember e a g r st)) = gmoney st"
  by (simp add: Guild_AddMember_def Let_def gmoney_upd_gld UpdateAccountsNumber_def split: option.split)

lemma gmoney_AddMember_eq: "Guild_AddMember e a g r st = (b, st') \<Longrightarrow> gmoney st' = gmoney st"
  using gmoney_AddMember [of e a g r st] by simp

abbreviation no_cash :: "gust \<Rightarrow> gust option \<Rightarrow> bool" where
  "no_cash \<equiv> keeps gmoney (\<lambda>s. s)"

lemma no_cash_disband: "no_cash st (Guild_Disband e a st)"
  by (auto simp: keeps_def gmoney_Disband)

lemma no_cash_del: "(\<And>y. gmoney y = gmoney st \<Longrightarrow> no_cash st (f y)) \<Longrightarrow> no_cash st (Option.bind (DelMember e a g st) f)"
  by (rule keeps_bind_any) (simp add: gmoney_DelMember)

lemma no_cash_membership:
  "no_cash st (HandleGuildInviteOpcode e self name st)" "no_cash st (HandleGuildRemoveOpcode e self name st)"
  "no_cash st (HandleGuildAcceptOpcode e self st)" "no_cash st (HandleGuildDeclineOpcode self st)"
  "no_cash st (HandleGuildPromoteOpcode e self name st)" "no_cash st (HandleGuildDemoteOpcode e self name st)"
  "no_cash st (HandleGuildLeaveOpcode e self st)" "no_cash st (HandleGuildDisbandOpcode e self st)"
  "no_cash st (HandleGuildLeaderOpcode e self name st)"
  unfolding HandleGuildInviteOpcode_def HandleGuildRemoveOpcode_def HandleGuildAcceptOpcode_def HandleGuildDeclineOpcode_def
    HandleGuildPromoteOpcode_def HandleGuildDemoteOpcode_def HandleGuildLeaveOpcode_def HandleGuildDisbandOpcode_def
    HandleGuildLeaderOpcode_def Let_def
  by (auto intro!: cash.keeps_requests no_cash_del no_cash_disband dest: gmoney_AddMember_eq
      split: option.split prod.split bool.split)


text \<open>What the players \<open>P\<close> and the guilds at the addresses \<open>A\<close> have together.\<close>

definition wealth :: "u64 set \<Rightarrow> nat set \<Rightarrow> gust \<Rightarrow> nat" where
  "wealth P A st = (\<Sum>p\<in>P. unat (GetMoney p st)) + (\<Sum>a\<in>A. unat (m_GuildBankMoney (gld st a)))"

lemma gmoney_purse: "gmoney st' = gmoney st \<Longrightarrow> GetMoney p st' = GetMoney p st"
  by (drule arg_cong [where f = "\<lambda>x. fst x p"]) (simp add: gmoney_def)

lemma gmoney_bank: "gmoney st' = gmoney st \<Longrightarrow> m_GuildBankMoney (gld st' a) = m_GuildBankMoney (gld st a)"
  by (drule arg_cong [where f = "\<lambda>x. snd x a"]) (auto simp: gmoney_def gld_def split: option.splits)

lemma gmoney_wealth: "gmoney st' = gmoney st \<Longrightarrow> wealth P A st' = wealth P A st"
  unfolding wealth_def
  by (intro arg_cong2 [where f = "(+)"] sum.cong refl arg_cong [where f = unat] gmoney_purse gmoney_bank)

lemma sum_change:
  fixes f g :: "'x \<Rightarrow> nat"
  assumes "finite S" "x \<in> S" "\<And>y. y \<in> S \<Longrightarrow> y \<noteq> x \<Longrightarrow> f y = g y"
  shows "sum f S + g x = sum g S + f x"
proof -
  have "sum f (S - {x}) = sum g (S - {x})" using assms(3) by (intro sum.cong) auto
  thus ?thesis using sum.remove [OF assms(1,2), of f] sum.remove [OF assms(1,2), of g] by simp
qed

text \<open>Only one purse and one bank change.\<close>

definition moved_between :: "u64 \<Rightarrow> nat \<Rightarrow> gust \<Rightarrow> gust \<Rightarrow> bool" where
  "moved_between p a st st' \<longleftrightarrow>
     (\<forall>q. q \<noteq> p \<longrightarrow> GetMoney q st' = GetMoney q st) \<and>
     (\<forall>b. b \<noteq> a \<longrightarrow> m_GuildBankMoney (gld st' b) = m_GuildBankMoney (gld st b))"

lemma wealth_moved:
  assumes "finite P" "finite A" "p \<in> P" "a \<in> A" "moved_between p a st st'"
  shows "wealth P A st' + unat (GetMoney p st) + unat (m_GuildBankMoney (gld st a)) =
    wealth P A st + unat (GetMoney p st') + unat (m_GuildBankMoney (gld st' a))"
  using sum_change [OF assms(1,3), of "\<lambda>q. unat (GetMoney q st')" "\<lambda>q. unat (GetMoney q st)"]
    sum_change [OF assms(2,4), of "\<lambda>b. unat (m_GuildBankMoney (gld st' b))" "\<lambda>b. unat (m_GuildBankMoney (gld st b))"]
    assms(5)
  by (simp add: wealth_def moved_between_def)

lemma moved_gmoney:
  assumes "gmoney st' = gmoney s"
  shows "moved_between p a st st' \<longleftrightarrow> moved_between p a st s"
  unfolding moved_between_def gmoney_purse [OF assms] gmoney_bank [OF assms] by (rule refl)

text \<open>Payments into and out of the bank.\<close>

definition moved_money :: "u64 \<Rightarrow> nat \<Rightarrow> u32 \<Rightarrow> u64 \<Rightarrow> gust \<Rightarrow> gust" where
  "moved_money me a d cash st = ModifyMoney me d (SetBankMoney a cash st)"

lemma moved_money_purse:
  "GetMoney q (moved_money me a d cash st) = (if q = me then money_after (GetMoney me st) d else GetMoney q st)"
  by (auto simp: moved_money_def ModifyMoney_def SetBankMoney_def upd_gplayer_def GetMoney_def Let_def u_sql_def u_emit_def upd_gld_def)

lemma moved_money_bank:
  "gt_heap st a \<noteq> None \<Longrightarrow> m_GuildBankMoney (gld (moved_money me a d cash st) b) =
     (if b = a then (if sint cash < 0 then 0 else cash) else m_GuildBankMoney (gld st b))"
  by (auto simp: moved_money_def ModifyMoney_def SetBankMoney_def upd_gplayer_def Let_def u_sql_def u_emit_def gld_def upd_gld_def)

lemma gmoney_SetBankMoney:
  "gmoney (SetBankMoney a c st) =
     (fst (gmoney st), (snd (gmoney st))(a := map_option (\<lambda>_. if sint c < 0 then 0 else c) (snd (gmoney st) a)))"
  by (simp add: SetBankMoney_def Let_def gmoney_def upd_gld_def u_sql_def u_emit_def GetMoney_def fun_eq_iff option.map_comp comp_def)

lemma gmoney_money_withdraw:
  assumes "MemberMoneyWithdraw e a n low st = (True, st')"
  shows "gmoney st' = gmoney (SetBankMoney a (m_GuildBankMoney (gld st a) - ucast n) st) \<and> ucast n \<le> m_GuildBankMoney (gld st a)"
proof -
  obtain r s where rem: "GetMemberMoneyWithdrawRem e a low st = (r, s)" by (cases "GetMemberMoneyWithdrawRem e a low st")
  have s: "gmoney s = gmoney st" by (rule cash.view_money_rem_eq [OF rem])
  have bank: "m_GuildBankMoney (gld s a) = m_GuildBankMoney (gld st a)" by (rule gmoney_bank [OF s])
  have cong: "gmoney (SetBankMoney a c s) = gmoney (SetBankMoney a c st)" for c
    unfolding gmoney_SetBankMoney s by (rule refl)
  have "gmoney st' = gmoney (SetBankMoney a (m_GuildBankMoney (gld s a) - ucast n) s) \<and> ucast n \<le> m_GuildBankMoney (gld s a)"
    using assms rem by (auto simp: MemberMoneyWithdraw_def Let_def cash.view_guild cash.quota_simps not_less split: if_splits option.splits)
  thus ?thesis unfolding bank cong .
qed


lemma gmoney_ModifyMoney:
  "gmoney (ModifyMoney p d st) = ((fst (gmoney st))(p := money_after (fst (gmoney st) p) d), snd (gmoney st))"
  by (simp add: ModifyMoney_def Let_def gmoney_def upd_gplayer_def u_emit_def GetMoney_def fun_eq_iff)

lemma of_guild_Some: "of_guild me st k = Some st' \<Longrightarrow> st' = st \<or> (\<exists>a. guild_of me st = Some a \<and> k a = Some st')"
  by (auto simp: of_guild_def split: if_splits option.splits)

lemma at_bank_Some: "at_bank e me go st k = Some st' \<Longrightarrow> st' = st \<or> (\<exists>a. guild_of me st = Some a \<and> k a = Some st')"
  by (auto simp: at_bank_def dest: of_guild_Some split: if_splits)

lemma cash_shown: "show_money e a me st = Some st' \<Longrightarrow> gmoney st' = gmoney st"
  using keeps_dest [OF cash.keeps_show_money] by fastforce

lemma deposit_effect:
  assumes "HandleGuildBankDeposit e self go n st = Some st'"
  shows "gmoney st' = gmoney st \<or> (\<exists>a. guild_of (p_guid self) st = Some a \<and> n \<le> GetMoney (p_guid self) st \<and>
    gmoney st' = gmoney (moved_money (p_guid self) a (- n) (m_GuildBankMoney (gld st a) + ucast n) st))"
  using assms
  by (auto simp: HandleGuildBankDeposit_def Let_def moved_money_def not_less gmoney_ModifyMoney
      dest!: at_bank_Some cash_shown split: if_splits)

lemma rem_member: "GetMemberMoneyWithdrawRem e a low st = (r, s) \<Longrightarrow> map_of (gmembers (gld s a)) low = None \<Longrightarrow> r = 0"
proof -
  assume rem: "GetMemberMoneyWithdrawRem e a low st = (r, s)" and no: "map_of (gmembers (gld s a)) low = None"
  have "gcore s = gcore st" by (rule core.view_money_rem_eq [OF rem])
  hence "ranks_of s a = ranks_of st a" using gcore_gview [of s st a] by (simp add: gview_def)
  with no have "map_of (gmembers (gld st a)) low = None" by (metis map_of_member_ranks option.map_disc_iff)
  with rem show "r = 0" by (simp add: GetMemberMoneyWithdrawRem_def)
qed

lemma SetBankMoney_members: "gmembers (gld (SetBankMoney a c st) a) = gmembers (gld st a)"
  by (cases "gt_heap st a") (simp_all add: SetBankMoney_def Let_def gld_def upd_gld_def u_sql_def u_emit_def)

lemma withdraw_denied: "n \<noteq> 0 \<Longrightarrow> MemberMoneyWithdraw e a n low st = (False, s) \<Longrightarrow> gmoney s = gmoney st"
  by (auto simp: MemberMoneyWithdraw_def Let_def SetBankMoney_members word_neq_0_conv dest: cash.view_money_rem_eq rem_member
      split: if_splits option.splits prod.splits)

lemma withdraw_effect:
  assumes "HandleGuildBankWithdraw e self go n st = Some st'"
  shows "gmoney st' = gmoney st \<or> (\<exists>a. guild_of (p_guid self) st = Some a \<and> ucast n \<le> m_GuildBankMoney (gld st a) \<and>
    gmoney st' = gmoney (moved_money (p_guid self) a n (m_GuildBankMoney (gld st a) - ucast n) st))"
proof -
  show ?thesis
    using assms
    by (auto simp: HandleGuildBankWithdraw_def Let_def moved_money_def not_less gmoney_ModifyMoney
        dest!: at_bank_Some cash_shown gmoney_money_withdraw dest: withdraw_denied split: if_splits prod.splits bool.splits)
qed


lemma emblem_effect:
  assumes "HandleGuildSaveEmblemOpcode e self vendor emblem st = Some st'"
  shows "gmoney st' = gmoney st \<or>
    10 * GOLD \<le> GetMoney (p_guid self) st \<and> gmoney st' = gmoney (ModifyMoney (p_guid self) (- (10 * GOLD)) st)"
proof -
  have "GetMoney p (u_emit es s) = GetMoney p s" for p es s by (simp add: GetMoney_def u_emit_def)
  thus ?thesis
    using assms
    by (auto simp: HandleGuildSaveEmblemOpcode_def Let_def not_less gmoney_ModifyMoney split: if_splits option.splits)
qed

lemma buy_effect:
  assumes "HandleGuildBankBuyTab e self go tab st = Some st'"
  shows "gmoney st' = gmoney st \<or>
    (\<exists>c \<le> GetMoney (p_guid self) st. gmoney st' = gmoney (ModifyMoney (p_guid self) (- c) st))"
proof -
  have "gmoney s' = gmoney s" if "show_tabs e a me s = Some s'" for a me s s'
    using that by (rule cash.view_shown)
  thus ?thesis
    using assms
    by (fastforce simp: HandleGuildBankBuyTab_def Let_def not_less gmoney_ModifyMoney dest!: at_bank_Some split: if_splits)
qed

lemma create_money:
  assumes "HandleGuildCreateOpcode e self gname st = Some st'"
  shows "GetMoney q st' = GetMoney q st \<and> m_GuildBankMoney (gld st' b) \<le> m_GuildBankMoney (gld st b)"
proof -
  let ?a = "gt_next st"
  let ?s = "st\<lparr>gt_heap := (gt_heap st)(?a \<mapsto> Guild_new (ge_fresh e)), gt_next := Suc ?a\<rparr>"
  have new: "m_GuildBankMoney (Guild_new x) = 0" for x by (cases x) simp
  have founding: "gmoney (founding e ?a leader gname ?s) = gmoney ?s" for leader
    unfolding founding_def GenerateGuildId_def
    by (simp add: Let_def) (auto simp: gmoney_def GetMoney_def upd_gld_def u_emit_def new fun_eq_iff)
  obtain b' s' where c: "Guild_Create e ?a (p_guid self) gname ?s = (b', s')" by (cases "Guild_Create e ?a (p_guid self) gname ?s")
  have s': "gmoney s' = gmoney ?s"
    using c founding gmoney_AddMember_eq by (fastforce simp: Guild_Create_founding split: if_splits)
  have "GetMoney q st' = GetMoney q s'" "m_GuildBankMoney (gld st' b) \<le> m_GuildBankMoney (gld s' b)"
    if "GetGuildId (p_guid self) st = 0"
    using assms c that new
    by (auto simp: HandleGuildCreateOpcode_def Let_def AddGuild_def GetMoney_def gld_def split: bool.splits option.splits if_splits)
  moreover have "GetMoney q s' = GetMoney q st" "m_GuildBankMoney (gld s' b) \<le> m_GuildBankMoney (gld st b)"
    using gmoney_purse [OF s', of q] gmoney_bank [OF s', of b] new by (auto simp: GetMoney_def gld_def)
  ultimately show ?thesis
    using assms by (cases "GetGuildId (p_guid self) st = 0") (auto simp: HandleGuildCreateOpcode_def)
qed


lemma wealth_paid:
  assumes "finite P" "finite A" "p \<in> P" "a \<in> A" "moved_between p a st st'"
    and "unat (GetMoney p st') + unat (m_GuildBankMoney (gld st' a)) \<le> unat (GetMoney p st) + unat (m_GuildBankMoney (gld st a))"
  shows "wealth P A st' \<le> wealth P A st"
  using wealth_moved [OF assms(1-5)] assms(6) by linarith

lemma moved_money_between: "moved_between p a st (moved_money p a d c st)"
proof -
  have "gld (upd_gld a f s) b = gld s b" if "b \<noteq> a" for b f s using that by (simp add: gld_upd_gld)
  moreover have "gld (upd_gplayer p f s) b = gld s b" "gld (u_emit es s) b = gld s b" for f s es b
    by (simp_all add: upd_gplayer_def u_emit_def gld_def)
  ultimately show ?thesis
    by (simp add: moved_between_def moved_money_purse) (simp add: moved_money_def ModifyMoney_def SetBankMoney_def Let_def u_sql_def)
qed

lemma moved_money_bank_le: "m_GuildBankMoney (gld (moved_money p a d c st) a) \<le> c"
proof (cases "gt_heap st a = None")
  case True
  hence "gt_heap (moved_money p a d c st) a = None"
    by (auto simp: moved_money_def ModifyMoney_def SetBankMoney_def Let_def u_sql_def u_emit_def upd_gplayer_def upd_gld_def)
  thus ?thesis by (simp add: gld_def)
qed (simp add: moved_money_bank)

lemma gmoney_quiet_or_cash:
  assumes "guild_request e self st st'"
  shows "gmoney st' = gmoney st \<or>
    (\<exists>a n. guild_of (p_guid self) st = Some a \<and> n \<le> GetMoney (p_guid self) st \<and>
       gmoney st' = gmoney (moved_money (p_guid self) a (- n) (m_GuildBankMoney (gld st a) + ucast n) st)) \<or>
    (\<exists>a n. guild_of (p_guid self) st = Some a \<and> ucast n \<le> m_GuildBankMoney (gld st a) \<and>
       gmoney st' = gmoney (moved_money (p_guid self) a n (m_GuildBankMoney (gld st a) - ucast n) st)) \<or>
    (\<exists>c \<le> GetMoney (p_guid self) st. gmoney st' = gmoney (ModifyMoney (p_guid self) (- c) st)) \<or>
    (\<forall>q b. GetMoney q st' = GetMoney q st \<and> m_GuildBankMoney (gld st' b) \<le> m_GuildBankMoney (gld st b))"
  using assms
proof cases
  case quiet
  thus ?thesis
  proof cases
    case (12 vendor emblem)
    thus ?thesis using emblem_effect by blast
  next
    case (18 go n)
    thus ?thesis using deposit_effect by blast
  next
    case (19 go n)
    thus ?thesis using withdraw_effect by blast
  next
    case (21 go tab)
    thus ?thesis using buy_effect by blast
  qed (rule disjI1, erule keeps_dest [rotated, where view = gmoney and \<pi> = "\<lambda>s. s"],
      rule cash.keeps_texts cash.keeps_rights cash.keeps_bank cash.keeps_modify cash.keeps_deposit_item no_cash_membership)+
next
  case (create gname)
  thus ?thesis using create_money by blast
qed (rule disjI1, erule keeps_dest [rotated, where view = gmoney and \<pi> = "\<lambda>s. s"], rule no_cash_membership)+

text \<open>
  C7: No request creates money: what a set of players and the guild banks in question have together
  never grows. (A purse may hold at most \<open>MAX_MONEY_AMOUNT\<close>.)
\<close>

theorem guild_money_never_created:
  assumes fin: "finite P" "finite A" and me: "p_guid self \<in> P" "\<And>a. guild_of (p_guid self) st = Some a \<Longrightarrow> a \<in> A"
    and purse: "GetMoney (p_guid self) st \<le> MAX_MONEY_AMOUNT" and req: "guild_request e self st st'"
  shows "wealth P A st' \<le> wealth P A st"
proof -
  let ?me = "p_guid self"
  have moved: "wealth P A st' \<le> wealth P A st"
    if a: "guild_of ?me st = Some a" and eq: "gmoney st' = gmoney (moved_money ?me a d c st)"
      and le: "unat (money_after (GetMoney ?me st) d) + unat c \<le> unat (GetMoney ?me st) + unat (m_GuildBankMoney (gld st a))"
    for a d c
  proof (rule wealth_paid [OF fin me(1) me(2) [OF a]])
    show "moved_between ?me a st st'" unfolding moved_gmoney [OF eq] by (rule moved_money_between)
    have "unat (m_GuildBankMoney (gld st' a)) \<le> unat c"
      unfolding gmoney_bank [OF eq] using moved_money_bank_le by (simp add: word_le_nat_alt)
    moreover have "GetMoney ?me st' = money_after (GetMoney ?me st) d"
      unfolding gmoney_purse [OF eq] by (simp add: moved_money_purse)
    ultimately show "unat (GetMoney ?me st') + unat (m_GuildBankMoney (gld st' a)) \<le>
        unat (GetMoney ?me st) + unat (m_GuildBankMoney (gld st a))" using le by simp
  qed
  show ?thesis
    using gmoney_quiet_or_cash [OF req]
  proof (elim disjE exE conjE)
    assume "gmoney st' = gmoney st"
    thus ?thesis using gmoney_wealth [of st' st P A] by simp
  next
    fix a n
    assume a: "guild_of ?me st = Some a" and n: "n \<le> GetMoney ?me st"
      and eq: "gmoney st' = gmoney (moved_money ?me a (- n) (m_GuildBankMoney (gld st a) + ucast n) st)"
    have "unat (m_GuildBankMoney (gld st a) + ucast n) \<le> unat (m_GuildBankMoney (gld st a)) + unat n"
      using unat_plus_if' [of "m_GuildBankMoney (gld st a)" "ucast n"] by (simp add: unat_to_u64 split: if_splits)
    thus ?thesis using moved [OF a eq] money_after_pay [OF n purse] n by (simp add: word_le_nat_alt)
  next
    fix a n
    assume a: "guild_of ?me st = Some a" and n: "ucast n \<le> m_GuildBankMoney (gld st a)"
      and eq: "gmoney st' = gmoney (moved_money ?me a n (m_GuildBankMoney (gld st a) - ucast n) st)"
    have "unat (m_GuildBankMoney (gld st a) - ucast n) = unat (m_GuildBankMoney (gld st a)) - unat n" "unat n \<le> unat (m_GuildBankMoney (gld st a))"
      using n unat_sub [OF n] by (simp_all add: word_le_nat_alt unat_to_u64)
    thus ?thesis using moved [OF a eq] money_after_get(1) [OF purse, of n] by simp
  next
    fix c
    assume c: "c \<le> GetMoney ?me st" and eq: "gmoney st' = gmoney (ModifyMoney ?me (- c) st)"
    have "GetMoney q st' \<le> GetMoney q st" for q
    proof -
      have "GetMoney q st' = (if q = ?me then money_after (GetMoney ?me st) (- c) else GetMoney q st)"
        unfolding gmoney_purse [OF eq] by (simp add: ModifyMoney_def Let_def upd_gplayer_def GetMoney_def u_emit_def)
      thus ?thesis using money_after_pay [OF c purse] by (simp add: word_le_nat_alt)
    qed
    moreover have "m_GuildBankMoney (gld st' b) = m_GuildBankMoney (gld st b)" for b
      unfolding gmoney_bank [OF eq] by (simp add: ModifyMoney_def Let_def upd_gplayer_def gld_def u_emit_def)
    ultimately show ?thesis by (simp add: wealth_def word_le_nat_alt sum_mono)
  next
    assume "\<forall>q b. GetMoney q st' = GetMoney q st \<and> m_GuildBankMoney (gld st' b) \<le> m_GuildBankMoney (gld st b)"
    thus ?thesis by (simp add: wealth_def word_le_nat_alt sum_mono)
  qed
qed


section \<open>Exact amounts\<close>

lemma moved_money_result:
  assumes "gmoney st' = gmoney (moved_money me a d c st)" "gt_heap st a \<noteq> None" "unat c < 2 ^ 63"
  shows "GetMoney me st' = money_after (GetMoney me st) d" "m_GuildBankMoney (gld st' a) = c"
proof -
  have "\<not> sint c < 0" using assms(3) sint_negative [of c] by simp
  thus "m_GuildBankMoney (gld st' a) = c"
    unfolding gmoney_bank [OF assms(1)] using assms(2) by (simp add: moved_money_bank)
  show "GetMoney me st' = money_after (GetMoney me st) d"
    unfolding gmoney_purse [OF assms(1)] by (simp add: moved_money_purse)
qed

lemma deposit_exact:
  assumes g: "guild_of (p_guid self) st = Some a" "GetGuildId (p_guid self) st \<noteq> 0"
    and d: "HandleGuildBankDeposit e self go n st = Some st'"
  shows "gmoney st' = (if bx_bank e (p_guid self) go \<and> n \<noteq> 0 \<and> n \<le> GetMoney (p_guid self) st
    then gmoney (moved_money (p_guid self) a (- n) (m_GuildBankMoney (gld st a) + ucast n) st) else gmoney st)"
  using d g
  by (auto simp: HandleGuildBankDeposit_def Let_def at_bank_def of_guild_def moved_money_def not_less gmoney_ModifyMoney
      dest!: cash_shown split: if_splits)

lemma money_withdraw_iff:
  assumes "n \<noteq> 0"
  shows "fst (MemberMoneyWithdraw e a n low st) \<longleftrightarrow> n \<le> fst (GetMemberMoneyWithdrawRem e a low st) \<and> ucast n \<le> m_GuildBankMoney (gld st a)"
proof -
  obtain r s where rem: "GetMemberMoneyWithdrawRem e a low st = (r, s)" by (cases "GetMemberMoneyWithdrawRem e a low st")
  have "m_GuildBankMoney (gld s a) = m_GuildBankMoney (gld st a)" by (rule gmoney_bank [OF cash.view_money_rem_eq [OF rem]])
  moreover have "map_of (gmembers (gld s a)) low \<noteq> None" if "n \<le> r"
    using rem_member [OF rem] that assms word_zero_le [of n] antisym [of n 0] by blast
  ultimately show ?thesis
    using rem by (auto simp: MemberMoneyWithdraw_def Let_def SetBankMoney_members not_less split: option.splits)
qed

lemma withdraw_exact:
  fixes e :: guild_henv and self :: player
  defines "me \<equiv> p_guid self"
  assumes g: "guild_of me st = Some a" "GetGuildId me st \<noteq> 0"
    and d: "HandleGuildBankWithdraw e self go n st = Some st'"
  shows "gmoney st' =
    (if bx_bank e me go \<and> n \<noteq> 0 \<and> ucast n \<le> m_GuildBankMoney (gld st a) \<and>
        HasRankRight (GetRank me st) GR_RIGHT_WITHDRAW_GOLD (gld st a) \<and>
        n \<le> fst (GetMemberMoneyWithdrawRem e a (GUID_LOPART me) st)
     then gmoney (moved_money me a n (m_GuildBankMoney (gld st a) - ucast n) st) else gmoney st)"
proof (cases "bx_bank e me go \<and> n \<noteq> 0 \<and> ucast n \<le> m_GuildBankMoney (gld st a) \<and>
        HasRankRight (GetRank me st) GR_RIGHT_WITHDRAW_GOLD (gld st a)")
  case True
  obtain ok s where w: "MemberMoneyWithdraw e a n (GUID_LOPART me) st = (ok, s)"
    by (cases "MemberMoneyWithdraw e a n (GUID_LOPART me) st")
  have ok: "ok \<longleftrightarrow> n \<le> fst (GetMemberMoneyWithdrawRem e a (GUID_LOPART me) st)"
    using money_withdraw_iff [of n e a "GUID_LOPART me" st] True w by simp
  have "gmoney st' = (if ok then gmoney (ModifyMoney me n s) else gmoney s)"
    using d g True w
    by (auto simp: HandleGuildBankWithdraw_def Let_def at_bank_def of_guild_def not_less simp flip: me_def
        dest!: cash_shown split: bool.splits if_splits)
  thus ?thesis
    using True w ok gmoney_money_withdraw [of e a n "GUID_LOPART me" st s] withdraw_denied [of n e a "GUID_LOPART me" st s]
    by (auto simp: moved_money_def gmoney_ModifyMoney)
next
  case False
  thus ?thesis
    using d g by (auto simp: HandleGuildBankWithdraw_def Let_def at_bank_def of_guild_def not_less simp flip: me_def split: if_splits)
qed

definition may_deposit :: "guild_henv \<Rightarrow> u64 \<Rightarrow> u64 \<Rightarrow> u32 \<Rightarrow> gust \<Rightarrow> bool" where
  "may_deposit e me go n st \<longleftrightarrow> bx_bank e me go \<and> n \<le> GetMoney me st"

definition may_withdraw :: "guild_henv \<Rightarrow> u64 \<Rightarrow> u64 \<Rightarrow> nat \<Rightarrow> u32 \<Rightarrow> gust \<Rightarrow> bool" where
  "may_withdraw e me go a n st \<longleftrightarrow>
     bx_bank e me go \<and> ucast n \<le> m_GuildBankMoney (gld st a) \<and>
     HasRankRight (GetRank me st) GR_RIGHT_WITHDRAW_GOLD (gld st a) \<and>
     n \<le> fst (GetMemberMoneyWithdrawRem e a (GUID_LOPART me) st)"

text \<open>
  C10: as long as purse and amount together stay below the 2147483646 copper a purse takes, and bank and
  amount below \<open>2 ^ 63\<close>: a deposit of a member that ends with a result moves exactly its amount from the
  purse to the bank when the player stands at the bank and has it, and nothing otherwise; a withdrawal
  moves exactly its amount from the bank to the purse when the player stands at the bank, the bank has it,
  the rank may withdraw and the rest of the day suffices, and nothing otherwise.
\<close>

theorem bank_moves_exact_amount:
  assumes g: "guild_of (p_guid self) st = Some a" "GetGuildId (p_guid self) st \<noteq> 0" "gt_heap st a \<noteq> None"
    and limits: "unat (GetMoney (p_guid self) st) + unat n < 0x7FFFFFFE" "unat (m_GuildBankMoney (gld st a)) + unat n < 2 ^ 63"
  shows
    "(HandleGuildBankDeposit e self go n st = Some st' \<longrightarrow>
        (let d = (if may_deposit e (p_guid self) go n st then unat n else 0) in
         unat (GetMoney (p_guid self) st') = unat (GetMoney (p_guid self) st) - d \<and>
         unat (m_GuildBankMoney (gld st' a)) = unat (m_GuildBankMoney (gld st a)) + d)) \<and>
     (HandleGuildBankWithdraw e self go n st = Some st' \<longrightarrow>
        (let d = (if may_withdraw e (p_guid self) go a n st then unat n else 0) in
         unat (GetMoney (p_guid self) st') = unat (GetMoney (p_guid self) st) + d \<and>
         unat (m_GuildBankMoney (gld st' a)) = unat (m_GuildBankMoney (gld st a)) - d))"
proof -
  let ?me = "p_guid self" and ?bank = "m_GuildBankMoney (gld st a)"
  have purse: "GetMoney ?me st \<le> MAX_MONEY_AMOUNT" using limits(1) by (simp add: word_le_nat_alt)
  have same: "GetMoney ?me st' = GetMoney ?me st" "m_GuildBankMoney (gld st' a) = ?bank" if "gmoney st' = gmoney st"
    using gmoney_purse [OF that] gmoney_bank [OF that] by simp_all
  have up: "unat (?bank + ucast n) = unat ?bank + unat n"
    using limits(2) unat_plus_if' [of ?bank "ucast n"] by (simp add: unat_to_u64)
  have dep: "unat (GetMoney ?me st') = unat (GetMoney ?me st) - unat n \<and> unat (m_GuildBankMoney (gld st' a)) = unat ?bank + unat n"
    if "n \<le> GetMoney ?me st" "gmoney st' = gmoney (moved_money ?me a (- n) (?bank + ucast n) st)"
    using moved_money_result [OF that(2) g(3)] money_after_pay [OF that(1) purse] up limits(2) by simp
  have wd: "unat (GetMoney ?me st') = unat (GetMoney ?me st) + unat n \<and> unat (m_GuildBankMoney (gld st' a)) = unat ?bank - unat n"
    if "ucast n \<le> ?bank" "gmoney st' = gmoney (moved_money ?me a n (?bank - ucast n) st)"
    using moved_money_result [OF that(2) g(3)] money_after_get(2) [OF purse, of n] unat_sub [OF that(1)] limits
    by (simp add: unat_to_u64)
  show ?thesis
    using deposit_exact [OF g(1,2)] dep withdraw_exact [OF g(1,2)] wd same
    by (cases "n = 0") (auto simp: may_deposit_def may_withdraw_def Let_def split: if_splits)
qed


section \<open>What the requests about money leave of the bank\<close>

definition vault :: "guild \<Rightarrow> bool \<times> u8 \<times> bank_tab option list" where
  "vault g = (m_bankloaded g, m_PurchasedTabs g, m_TabListMap g)"

lemma vault_kept [simp]:
  "vault (g\<lparr>m_GuildBankMoney := c\<rparr>) = vault g" "vault (g\<lparr>m_BankLog_Money := l\<rparr>) = vault g"
  "vault (g\<lparr>m_BankLog_Item := l'\<rparr>) = vault g" "vault (g\<lparr>LogMaxGuid := i\<rparr>) = vault g" "vault (upd_member low f g) = vault g"
  by (simp_all add: vault_def upd_member_def)

lemma vault_upd_gld: "(\<And>g. vault (f g) = vault g) \<Longrightarrow> vault (gld (upd_gld b f st) a) = vault (gld st a)"
  by (simp add: gld_upd_gld)

lemma vault_ops [simp]:
  "vault (gld (SetBankMoney a c st) a) = vault (gld st a)" "vault (gld (ModifyMoney p d st) a) = vault (gld st a)"
  "vault (gld (LogBankEvent e a k tab low x n d' st) a) = vault (gld st a)"
  by (simp_all add: SetBankMoney_def ModifyMoney_def LogBankEvent_def Let_def vault_upd_gld)

lemma vault_rem: "GetMemberMoneyWithdrawRem e a low st = (r, s) \<Longrightarrow> vault (gld s a) = vault (gld st a)"
  by (auto simp: GetMemberMoneyWithdrawRem_def Let_def vault_upd_gld split: option.splits if_splits)

lemma vault_money_info [simp]: "vault (gld (SendMoneyInfo e a p low st) a) = vault (gld st a)"
  by (auto simp: SendMoneyInfo_def vault_rem split: prod.split)

lemma vault_withdraw: "MemberMoneyWithdraw e a n low st = (b, s) \<Longrightarrow> vault (gld s a) = vault (gld st a)"
  by (auto simp: MemberMoneyWithdraw_def Let_def vault_upd_gld dest!: vault_rem split: option.splits if_splits prod.splits)

text \<open>A bank without tabs can always be shown.\<close>

lemma show_money_no_tabs: "vault (gld st a) = (True, 0, []) \<Longrightarrow> \<exists>st'. show_money e a me st = Some st'"
  by (simp add: show_money_def show_tabs_def DisplayGuildBankTabsInfo_def LoadGuildBankFromDB_def Let_def vault_def
      DisplayGuildBankContent_def GetBankTab_def)

lemma deposit_total:
  "vault (gld st a) = (True, 0, []) \<Longrightarrow> guild_of (p_guid self) st = Some a \<Longrightarrow> \<exists>st'. HandleGuildBankDeposit e self go n st = Some st'"
  by (auto simp: HandleGuildBankDeposit_def Let_def at_bank_def of_guild_def intro!: show_money_no_tabs)

lemma withdraw_total:
  "vault (gld st a) = (True, 0, []) \<Longrightarrow> guild_of (p_guid self) st = Some a \<Longrightarrow> \<exists>st'. HandleGuildBankWithdraw e self go n st = Some st'"
  by (auto simp: HandleGuildBankWithdraw_def Let_def at_bank_def of_guild_def vault_withdraw intro!: show_money_no_tabs
      split: prod.split bool.split)

section \<open>A guild of three\<close>

text \<open>Every player of this state is in the guild with the rank \<open>r\<close>, carries 200 gold and stands at the bank.\<close>

definition demo_in :: "u32 \<Rightarrow> guild \<Rightarrow> gust" where
  "demo_in r g = (demo_with g)\<lparr>gt_players := \<lambda>_. \<lparr>pg_guildId = 7, pg_rank = r, pg_invited = 0, pg_money = 2000000\<rparr>\<rparr>"

definition rich_guild :: guild where
  "rich_guild = (demo_guild four)\<lparr>m_GuildBankMoney := 0x100000000\<rparr>"

lemma demo_in_sel [simp]:
  "gld (demo_in r g) 0 = g" "gt_heap (demo_in r g) 0 = Some g" "GetMoney p (demo_in r g) = 2000000" "GetRank p (demo_in r g) = r"
  "GetGuildId p (demo_in r g) = 7" "guild_of p (demo_in r g) = Some 0" "gt_map (demo_in r g) = [(7, 0)]"
  by (simp_all add: demo_in_def demo_with_def gld_def GetMoney_def GetRank_def GetGuildId_def guild_of_def GetGuildById_def)

lemma rich_guild_sel [simp]:
  "gmembers rich_guild = four" "m_GuildBankMoney rich_guild = 0x100000000" "vault rich_guild = (True, 0, [])"
  "m_Ranks rich_guild = m_Ranks (demo_guild four)"
  by (simp_all add: rich_guild_def demo_guild_def vault_def)


theorem guild_money_never_created_witness:
  "\<exists>st'. HandleGuildBankDeposit (demo_env []) Ann 5 1000 (demo_in 0 rich_guild) = Some st' \<and>
     wealth {1} {0} st' \<le> wealth {1} {0} (demo_in 0 rich_guild)"
proof -
  obtain st' where d: "HandleGuildBankDeposit (demo_env []) Ann 5 1000 (demo_in 0 rich_guild) = Some st'"
    using deposit_total [of "demo_in 0 rich_guild" 0 Ann "demo_env []" 5 1000] by auto
  have "guild_request (demo_env []) Ann (demo_in 0 rich_guild) st'"
    by (rule guild_request.quiet, rule quiet.intros(18), rule d)
  hence "wealth {1} {0} st' \<le> wealth {1} {0} (demo_in 0 rich_guild)"
    by (intro guild_money_never_created) simp_all
  with d show ?thesis by blast
qed

lemma demo_bank [simp]: "bx_bank (demo_env ps) me go"
  by (simp add: demo_env_def)

theorem bank_moves_exact_amount_witness:
  "\<exists>st'. HandleGuildBankDeposit (demo_env []) Ann 5 1000 (demo_in 0 rich_guild) = Some st' \<and>
     unat (GetMoney 1 st') = 1999000 \<and> unat (m_GuildBankMoney (gld st' 0)) = 4294968296"
proof -
  obtain st' where d: "HandleGuildBankDeposit (demo_env []) Ann 5 1000 (demo_in 0 rich_guild) = Some st'"
    using deposit_total [of "demo_in 0 rich_guild" 0 Ann "demo_env []" 5 1000] by auto
  have "may_deposit (demo_env []) 1 5 1000 (demo_in 0 rich_guild)" by (simp add: may_deposit_def)
  with d show ?thesis
    using bank_moves_exact_amount [where self = Ann and st = "demo_in 0 rich_guild" and a = 0 and n = 1000 and e = "demo_env []" and go = 5 and st' = st'] by (simp add: Let_def)
qed

text \<open>
  C11: The amount of a withdrawal reaches the purse as a signed number: from 2147483648 on the bank pays
  and the purse loses what is missing to 4294967296, down to nothing.
\<close>

theorem huge_withdrawal_loses:
  assumes g: "guild_of (p_guid self) st = Some a" "GetGuildId (p_guid self) st \<noteq> 0" "gt_heap st a \<noteq> None"
    and may: "may_withdraw e (p_guid self) go a n st" and huge: "0x80000000 \<le> unat n"
    and limits: "GetMoney (p_guid self) st \<le> MAX_MONEY_AMOUNT" "unat (m_GuildBankMoney (gld st a)) < 2 ^ 63"
    and w: "HandleGuildBankWithdraw e self go n st = Some st'"
  shows "unat (m_GuildBankMoney (gld st' a)) = unat (m_GuildBankMoney (gld st a)) - unat n \<and>
    unat (GetMoney (p_guid self) st') = unat (GetMoney (p_guid self) st) - (0x100000000 - unat n)"
proof -
  let ?me = "p_guid self" and ?bank = "m_GuildBankMoney (gld st a)"
  have n: "ucast n \<le> ?bank" "n \<noteq> 0" using may huge by (auto simp: may_withdraw_def)
  have "gmoney st' = gmoney (moved_money ?me a n (?bank - ucast n) st)"
    using withdraw_exact [OF g(1,2) w] may n(2) by (simp add: may_withdraw_def)
  from moved_money_result [OF this g(3)] money_after_get(3) [OF limits(1) huge] unat_sub [OF n(1)] limits(2)
  show ?thesis by (simp add: unat_to_u64)
qed

theorem huge_withdrawal_loses_witness:
  "\<exists>st'. HandleGuildBankWithdraw (demo_env []) Ann 5 0x80000000 (demo_in 0 rich_guild) = Some st' \<and>
     unat (m_GuildBankMoney (gld st' 0)) = 2147483648 \<and> GetMoney 1 st' = 0"
proof -
  obtain st' where w: "HandleGuildBankWithdraw (demo_env []) Ann 5 0x80000000 (demo_in 0 rich_guild) = Some st'"
    using withdraw_total [of "demo_in 0 rich_guild" 0 Ann "demo_env []" 5 "0x80000000"] by auto
  have "may_withdraw (demo_env []) 1 5 0 0x80000000 (demo_in 0 rich_guild)"
    by (simp add: may_withdraw_def HasRankRight_def GetRankRights_def demo_guild_def RankInfo_new_def GetMemberMoneyWithdrawRem_def Let_def)
  with w show ?thesis
    using huge_withdrawal_loses [where self = Ann and st = "demo_in 0 rich_guild" and a = 0 and n = "0x80000000" and e = "demo_env []" and go = 5 and st' = st'] by (simp add: unat_eq_0)
qed


section \<open>The daily limit of a member\<close>

lemma map_of_upd_member: "map_of (gmembers (upd_member low f g)) low = map_option f (map_of (gmembers g) low)"
proof -
  have "map_of (map (\<lambda>(k, m). (k, if k = low then f m else m)) ms) low = map_option f (map_of ms low)" for ms
    by (induction ms) auto
  thus ?thesis by (simp add: upd_member_def)
qed

lemma gmembers_set_money [simp]: "gmembers (g\<lparr>m_GuildBankMoney := c\<rparr>) = gmembers g"
  by simp

text \<open>The slot of the member in the guild.\<close>

abbreviation slot_of :: "gust \<Rightarrow> nat \<Rightarrow> u32 \<Rightarrow> guild_member option" where
  "slot_of st a low \<equiv> map_of (gmembers (gld st a)) low"

lemma slot_of_ops:
  "slot_of (SetBankMoney b c st) a low = slot_of st a low" "slot_of (u_sql qs st) a low = slot_of st a low"
  "gt_heap st a \<noteq> None \<Longrightarrow> slot_of (upd_gld a (upd_member low f) st) a low = map_option f (slot_of st a low)"
  by (simp_all add: SetBankMoney_def Let_def gld_upd_gld map_of_upd_member del: not_None_eq)

definition in_day :: "guild_henv \<Rightarrow> guild_member \<Rightarrow> bool" where
  "in_day e m \<longleftrightarrow> cur_minute e \<le> gm_BankResetTimeMoney m + 1440"

lemma rem_in_day:
  "slot_of st a low = Some m \<Longrightarrow> gm_RankId m \<noteq> 0 \<Longrightarrow> in_day e m \<Longrightarrow>
     GetMemberMoneyWithdrawRem e a low st = (gm_BankRemMoney m, st)"
  by (auto simp: GetMemberMoneyWithdrawRem_def Let_def in_day_def dest: leD)

text \<open>Within the day a withdrawal lowers the rest by its amount; a new day begins with the limit of the rank.\<close>

lemma withdraw_in_day:
  assumes live: "gt_heap st a \<noteq> None" and m: "slot_of st a low = Some m" "gm_RankId m \<noteq> 0" and day: "in_day e m"
    and rest: "gm_BankRemMoney m < WITHDRAW_UNLIMITED" and w: "MemberMoneyWithdraw e a n low st = (ok, s)"
  shows "gt_heap s a \<noteq> None \<and> (if ok then n \<le> gm_BankRemMoney m \<and> slot_of s a low = Some (m\<lparr>gm_BankRemMoney := gm_BankRemMoney m - n\<rparr>)
    else slot_of s a low = Some m)"
proof -
  have rem: "GetMemberMoneyWithdrawRem e a low st = (gm_BankRemMoney m, st)"
    by (rule rem_in_day [OF m day])
  have live': "gt_heap (SetBankMoney a c st) a \<noteq> None" for c
    using live by (simp add: SetBankMoney_def Let_def del: not_None_eq)
  show ?thesis
  proof (cases "gm_BankRemMoney m < n \<or> m_GuildBankMoney (gld st a) < ucast n")
    case True
    thus ?thesis using w rem m live by (simp add: MemberMoneyWithdraw_def del: not_None_eq)
  next
    case False
    let ?s = "SetBankMoney a (m_GuildBankMoney (gld st a) - ucast n) st"
    have "(ok, s) = (True, u_sql [OnMember (QSetRemMoney (gm_BankRemMoney m - n) (m_Id (gld ?s a)) low)]
        (upd_gld a (upd_member low (\<lambda>m. m\<lparr>gm_BankRemMoney := gm_BankRemMoney m - n\<rparr>)) ?s))"
      using w rem m rest False by (simp add: MemberMoneyWithdraw_def Let_def slot_of_ops)
    thus ?thesis
      using False m live' [of "m_GuildBankMoney (gld st a) - ucast n"] by (simp add: slot_of_ops not_less del: not_None_eq)
  qed
qed

fun withdrawals :: "(guild_henv \<times> u32) list \<Rightarrow> nat \<Rightarrow> u32 \<Rightarrow> gust \<Rightarrow> nat \<times> gust" where
  "withdrawals [] a low st = (0, st)"
| "withdrawals ((e, n) # xs) a low st =
     (case MemberMoneyWithdraw e a n low st of
        (ok, s) \<Rightarrow> (case withdrawals xs a low s of (paid, s') \<Rightarrow> ((if ok then unat n else 0) + paid, s')))"

lemma withdrawals_in_day:
  assumes "gt_heap st a \<noteq> None" "slot_of st a low = Some m" "gm_RankId m \<noteq> 0" "\<forall>x\<in>set xs. in_day (fst x) m"
    "gm_BankRemMoney m < WITHDRAW_UNLIMITED"
  shows "fst (withdrawals xs a low st) \<le> unat (gm_BankRemMoney m)"
  using assms
proof (induction xs arbitrary: st m)
  case Nil
  show ?case by simp
next
  case (Cons x xs)
  obtain e n where x: "x = (e, n)" by (cases x)
  obtain ok s where w: "MemberMoneyWithdraw e a n low st = (ok, s)" by (cases "MemberMoneyWithdraw e a n low st")
  obtain paid s' where t: "withdrawals xs a low s = (paid, s')" by (cases "withdrawals xs a low s")
  have step: "gt_heap s a \<noteq> None" "ok \<Longrightarrow> n \<le> gm_BankRemMoney m"
    "slot_of s a low = Some (if ok then m\<lparr>gm_BankRemMoney := gm_BankRemMoney m - n\<rparr> else m)"
    using withdraw_in_day [OF Cons.prems(1-3) _ Cons.prems(5) w] Cons.prems(4) x by (auto split: if_splits)
  show ?case
  proof (cases ok)
    case True
    have less: "gm_BankRemMoney m - n < WITHDRAW_UNLIMITED"
      using step(2) [OF True] Cons.prems(5) by (simp add: word_less_nat_alt word_le_nat_alt unat_sub)
    have "paid \<le> unat (gm_BankRemMoney m - n)"
      using Cons.IH [OF step(1) step(3)] Cons.prems(3,4) less t True by (simp add: in_day_def)
    thus ?thesis
      using x w t True unat_sub [OF step(2) [OF True]] step(2) [OF True] by (simp add: word_le_nat_alt)
  next
    case False
    thus ?thesis using Cons.IH [OF step(1) step(3)] Cons.prems(3-5) x w t by simp
  qed
qed

text \<open>
  C9: In the day that begins with his first withdrawal a member other than the guild master never gets
  more than the daily limit of his rank, however many requests he makes.
\<close>

theorem daily_money_limit:
  assumes live: "gt_heap st a \<noteq> None" and m: "slot_of st a low = Some m" "gm_RankId m \<noteq> 0"
    and limit: "GetBankMoneyPerDay (gm_RankId m) (gld st a) < WITHDRAW_UNLIMITED"
    and new: "\<not> in_day (fst (hd xs)) m"
    and day: "\<forall>x\<in>set xs. cur_minute (fst x) \<le> cur_minute (fst (hd xs)) + 1440"
  shows "fst (withdrawals xs a low st) \<le> unat (GetBankMoneyPerDay (gm_RankId m) (gld st a))"
proof (cases xs)
  case (Cons x ys)
  obtain e n where x: "x = (e, n)" by (cases x)
  let ?L = "GetBankMoneyPerDay (gm_RankId m) (gld st a)"
  let ?m = "m\<lparr>gm_BankResetTimeMoney := cur_minute e, gm_BankRemMoney := ?L\<rparr>"
  let ?s = "u_sql [OnMember (QResetMoney (cur_minute e) ?L (m_Id (gld st a)) low)]
    (upd_gld a (upd_member low (\<lambda>m. m\<lparr>gm_BankResetTimeMoney := cur_minute e, gm_BankRemMoney := ?L\<rparr>)) st)"
  have rem: "GetMemberMoneyWithdrawRem e a low st = (?L, ?s)"
    using m new Cons x by (simp add: GetMemberMoneyWithdrawRem_def Let_def in_day_def not_le)
  have s: "gt_heap ?s a \<noteq> None" "slot_of ?s a low = Some ?m"
    using live m by (simp_all add: slot_of_ops del: not_None_eq)
  have "GetMemberMoneyWithdrawRem e a low ?s = (?L, ?s)" if "in_day e ?m"
    using rem_in_day [OF s(2) _ that] m(2) by simp
  moreover have days: "\<forall>y\<in>set xs. in_day (fst y) ?m"
    using day Cons x by (simp add: in_day_def)
  ultimately have "withdrawals xs a low st = withdrawals xs a low ?s"
    using rem Cons x by (simp add: MemberMoneyWithdraw_def)
  thus ?thesis using withdrawals_in_day [OF s _ days] m(2) limit by simp
qed simp

theorem daily_money_limit_witness:
  "fst (withdrawals [(demo_env [], 60), (demo_env [], 60), (demo_env [], 40)] 0 2 (demo_in 2 rich_guild)) \<le> 100"
proof -
  have "GetBankMoneyPerDay 2 rich_guild = 100"
    by (simp add: GetBankMoneyPerDay_def demo_guild_def RankInfo_new_def)
  moreover have "gm_BankResetTimeMoney (demo_member r n) = 0" for r n by (simp add: demo_member_def)
  moreover have "cur_minute (demo_env []) = 10000" by (simp add: cur_minute_def demo_env_def)
  ultimately show ?thesis
    using daily_money_limit [of "demo_in 2 rich_guild" 0 2 "demo_member 2 ''Bob''"
        "[(demo_env [], 60), (demo_env [], 60), (demo_env [], 40)]"]
    by (simp add: in_day_def)
qed

end
