(* ===== verification/GuildRights.thy ===== *)
theory GuildRights
  imports GuildMoney
begin

text \<open>
  Ranks and rights: what the test of a right comes to, who may change ranks and how far, and what
  happens to a rank that is deleted while members have it.
\<close>

section \<open>The test of a right\<close>

text \<open>The bit all proper rights share, and the three rights defined without it.\<close>

definition money_right :: "GuildRankRights \<Rightarrow> bool" where
  "money_right right \<longleftrightarrow> right \<in> {GR_RIGHT_WITHDRAW_GOLD_LOCK, GR_RIGHT_WITHDRAW_REPAIR, GR_RIGHT_WITHDRAW_GOLD}"

lemma and_split_bit:
  fixes x c b :: "'a :: len word"
  assumes "c AND b = b"
  shows "x AND c = b \<longleftrightarrow> x AND b = b \<and> x AND (c AND NOT b) = 0"
proof -
  have bits: "bit b n \<Longrightarrow> bit c n" for n
    using assms by (metis bit_and_iff)
  show ?thesis
    by (auto simp: bit_eq_iff bit_simps) (use bits in blast)+
qed

lemma and_power_bit: "(x :: 'a :: len word) AND 2 ^ m = (if bit x m then 2 ^ m else 0)"
  by (rule bit_word_eqI) (auto simp: bit_simps)

lemma and_0x40: "(x :: u32) AND 0x40 = (if bit x 6 then 0x40 else 0)"
  using and_power_bit [of x 6] by simp

lemma right_code_bit: "right_code right AND 0x40 = (if money_right right then 0 else 0x40)"
  by (cases right) (simp_all add: money_right_def)

text \<open>
  C13: The test of a right is passed in exactly these cases: the right is one of the three about money,
  which always pass; the rank does not exist or lacks the bit 0x40, so that it passes every test; or
  the rank has a bit of the right besides 0x40.
\<close>

theorem rank_right_test:
  "HasRankRight r right g \<longleftrightarrow>
     money_right right \<or> length (m_Ranks g) \<le> unat r \<or> GetRankRights r g AND 0x40 = 0 \<or>
     0 < GetRankRights r g AND (right_code right AND NOT 0x40)"
proof -
  let ?x = "GetRankRights r g" and ?c = "right_code right"
  have none: "?x = 0" if "length (m_Ranks g) \<le> unat r" using that by (simp add: GetRankRights_def)
  have bit: "?x AND 0x40 = 0 \<or> ?x AND 0x40 = 0x40"
    by (simp add: and_0x40)
  show ?thesis
  proof (cases "money_right right")
    case True
    hence "?c AND 0x40 = 0" by (simp add: right_code_bit)
    hence "(?x AND ?c) AND 0x40 = 0" by (simp add: and.assoc)
    moreover have "(0x40 :: u32) AND 0x40 \<noteq> 0" by simp
    ultimately have "?x AND ?c \<noteq> 0x40" by metis
    thus ?thesis using True by (simp add: HasRankRight_def)
  next
    case False
    hence "?c AND 0x40 = 0x40" by (simp add: right_code_bit)
    from and_split_bit [OF this, of ?x] bit show ?thesis
      using False none by (auto simp: HasRankRight_def word_gt_0)
  qed
qed


section \<open>Deleting a rank\<close>

text \<open>
  C14: The guild master deletes the lowest rank although members have it: they keep its number, which
  now is no rank, and pass every test of a right.
\<close>

theorem deleted_rank_gains_rights:
  assumes "guild_of (p_guid self) st = Some a" "gt_heap st a \<noteq> None" "m_LeaderGuid (gld st a) = p_guid self"
    and ranks: "m_Ranks (gld st a) \<noteq> []" "length (m_Ranks (gld st a)) \<le> 10"
    and p: "GetRank p st = GetLowestRank (gld st a)"
  shows "\<exists>st'. HandleGuildDelRankOpcode e self st = Some st' \<and> GetRank p st' = GetRank p st \<and>
    (\<forall>right. HasRankRight (GetRank p st') right (gld st' a))"
proof -
  let ?n = "length (m_Ranks (gld st a))"
  let ?st = "Roster e a None (Query a (p_guid self) (DelRank a st))"
  have len: "unat (GetLowestRank (gld st a)) = ?n - 1"
  proof -
    have n: "(1 :: u32) \<le> word_of_nat ?n" "unat (word_of_nat ?n :: u32) = ?n"
      using ranks by (auto simp: word_le_nat_alt unat_of_nat take_bit_nat_eq_self Suc_le_eq)
    show ?thesis using unat_sub [OF n(1)] n(2) by (simp add: GetLowestRank_def GetNrRanks_def)
  qed
  have g: "gld ?st a = (gld st a)\<lparr>m_Ranks := butlast (m_Ranks (gld st a))\<rparr>"
    using assms(2) ranks by (simp add: Roster_def Query_def Guild_BroadcastPacket_def DelRank_def Let_def gld_upd_gld del: not_None_eq)
  have r: "GetRank p ?st = GetRank p st"
    using gcore_player [of ?st st p] by simp
  have "HasRankRight (GetRank p ?st) right (gld ?st a)" for right
    unfolding r p HasRankRight_def GetRankRights_def g by (cases right) (simp_all add: len)
  moreover have "HandleGuildDelRankOpcode e self st = Some ?st"
    using assms(1,3) by (simp add: HandleGuildDelRankOpcode_def Let_def in_guild_def as_leader_def)
  ultimately show ?thesis using r by blast
qed

theorem deleted_rank_gains_rights_witness:
  "\<exists>st'. HandleGuildDelRankOpcode (demo_env []) Ann (demo_in 2 rich_guild) = Some st' \<and>
     HasRankRight (GetRank 2 st') GR_RIGHT_REMOVE (gld st' 0) \<and>
     \<not> HasRankRight (GetRank 2 (demo_in 2 rich_guild)) GR_RIGHT_REMOVE rich_guild"
proof -
  have ranks: "length (m_Ranks rich_guild) = 3" "m_Ranks rich_guild \<noteq> []" "m_LeaderGuid rich_guild = 1"
    by (simp_all add: rich_guild_def demo_guild_def)
  moreover have "\<not> HasRankRight 2 GR_RIGHT_REMOVE rich_guild"
    by (simp add: HasRankRight_def GetRankRights_def demo_guild_def RankInfo_new_def)
  ultimately show ?thesis
    using deleted_rank_gains_rights [where self = Ann and st = "demo_in 2 rich_guild" and a = 0 and p = 2 and e = "demo_env []"]
    by (auto simp: GetLowestRank_def GetNrRanks_def)
qed

section \<open>Promotion and demotion\<close>

lemma Guild_GetRank_ranks: "Guild_GetRank low g = (case map_of (member_ranks g) low of None \<Rightarrow> - 1 | Some r \<Rightarrow> r)"
  by (simp add: Guild_GetRank_def map_of_member_ranks split: option.split)

lemma with_member_Some:
  "with_member me name a st k = Some st' \<Longrightarrow> gcore st' = gcore st \<or>
     (\<exists>low slot. (low, slot) \<in> set (gmembers (gld st a)) \<and> k (ucast low) slot = Some st')"
  by (auto simp: with_member_def GetMemberSlotByName_def find_Some_iff split: option.splits prod.splits dest: nth_mem)

text \<open>What a request may have made of the rank of one member.\<close>

definition rank_moved :: "guild_henv \<Rightarrow> u64 \<Rightarrow> nat \<Rightarrow> u32 \<Rightarrow> u32 \<Rightarrow> GuildRankRights \<Rightarrow> gust \<Rightarrow> gust \<Rightarrow> bool" where
  "rank_moved e me a low new right st st' \<longleftrightarrow>
     guild_of me st = Some a \<and> HasRankRight (GetRank me st) right (gld st a) \<and> ucast low \<noteq> me \<and>
     gcore st' = gcore (ChangeRank e a (ucast low) new st)"

lemma rank_request:
  assumes "with_name e name st (\<lambda>n. in_guild me st (\<lambda>a. with_right me right a st (with_member me n a st
      (\<lambda>g slot. if g = me then Some (SendGuildCommandResult me t str res st)
         else if P a slot then Some st else Some (F a n g slot))))) = Some st'"
    and "\<And>a n g slot. gcore (F a n g slot) = gcore (ChangeRank e a g (new a slot) st)"
  shows "gcore st' = gcore st \<or>
    (\<exists>a low slot. (low, slot) \<in> set (gmembers (gld st a)) \<and> \<not> P a slot \<and> rank_moved e me a low (new a slot) right st st')"
  using assms
  by (auto simp: with_name_def in_guild_def with_right_def rank_moved_def dest!: with_member_Some split: option.splits if_splits) blast

lemma promote_shape:
  assumes "HandleGuildPromoteOpcode e self name st = Some st'"
  shows "gcore st' = gcore st \<or> (\<exists>a low slot. (low, slot) \<in> set (gmembers (gld st a)) \<and>
    \<not> (gm_RankId slot < 2 \<or> gm_RankId slot - 1 < GetRank (p_guid self) st) \<and>
    rank_moved e (p_guid self) a low
      (if gm_RankId slot < GetNrRanks (gld st a) then gm_RankId slot - 1 else GetNrRanks (gld st a) - 1) GR_RIGHT_PROMOTE st st')"
  by (rule rank_request [OF assms [unfolded HandleGuildPromoteOpcode_def Let_def]]) simp

lemma demote_shape:
  assumes "HandleGuildDemoteOpcode e self name st = Some st'"
  shows "gcore st' = gcore st \<or> (\<exists>a low slot. (low, slot) \<in> set (gmembers (gld st a)) \<and>
    \<not> (gm_RankId slot + 1 \<ge> GetNrRanks (gld st a) \<or> gm_RankId slot \<le> GetRank (p_guid self) st) \<and>
    rank_moved e (p_guid self) a low (gm_RankId slot + 1) GR_RIGHT_DEMOTE st st')"
  by (rule rank_request [OF assms [unfolded HandleGuildDemoteOpcode_def Let_def]]) simp

text \<open>In terms of the ranks of the guild.\<close>

lemma rank_moved_ranks:
  assumes alive: "gt_heap st a \<noteq> None" and ok: "om_ok (gmembers (gld st a))"
    and move: "rank_moved e me a low new right st st'" and slot: "(low, slot) \<in> set (gmembers (gld st a))"
  shows "Guild_GetRank k (gld st' a) = (if k = low then new else Guild_GetRank k (gld st a))"
    and "Guild_GetRank low (gld st a) = gm_RankId slot"
proof -
  have eq: "gcore st' = gcore (ChangeRank e a (ucast low) new st)" using move by (simp add: rank_moved_def)
  have "ranks_of st' a = set_rank low new (ranks_of st a)"
    using gcore_gview [OF eq, of a] effectD(7) [OF effect_rank [OF alive, of "ucast low" new e], of a] by (simp add: gview_def)
  moreover have "om_mem low (ranks_of st a)" by (rule slot_member [OF slot])
  ultimately show "Guild_GetRank k (gld st' a) = (if k = low then new else Guild_GetRank k (gld st a))"
    by (simp add: Guild_GetRank_ranks map_of_set_rank del: not_None_eq)
  show "Guild_GetRank low (gld st a) = gm_RankId slot"
    using slot ok by (simp add: om_ok_map_of Guild_GetRank_def)
qed

lemma rank_found:
  assumes "gt_heap st a \<noteq> None" "om_ok (gmembers (gld st a))" "is_player me" "guild_of me st = Some a"
    and changed: "Guild_GetRank low (gld st' a) \<noteq> Guild_GetRank low (gld st a)"
    and move: "rank_moved e me b k new right st st'" "(k, slot) \<in> set (gmembers (gld st b))"
  shows "b = a \<and> gm_RankId slot = Guild_GetRank low (gld st a) \<and> Guild_GetRank low (gld st' a) = new \<and>
    low \<noteq> GUID_LOPART me \<and> HasRankRight (GetRank me st) right (gld st a)"
proof -
  have b: "b = a" using move(1) assms(4) by (simp add: rank_moved_def)
  note r = rank_moved_ranks [OF assms(1,2) move [unfolded b]]
  have "k = low" using r(1) [of low] changed by (auto split: if_splits)
  thus ?thesis
    using r(1) [of low] r(2) b move(1) assms(3) by (auto simp: rank_moved_def is_player_def player_guid_ucast)
qed

lemma promoted_rank:
  fixes slot mine nr :: u32
  assumes "\<not> (slot < 2 \<or> slot - 1 < mine)" "mine < nr"
  shows "mine < slot" "mine \<le> (if slot < nr then slot - 1 else nr - 1)" "(if slot < nr then slot - 1 else nr - 1) < nr"
    "(if slot < nr then slot - 1 else nr - 1) < slot"
  using assms unat_sub [of 1 slot] unat_sub [of 1 nr]
  by (auto simp: not_less word_less_nat_alt word_le_nat_alt)

lemma demoted_rank:
  fixes slot mine nr :: u32
  assumes "\<not> (nr \<le> slot + 1 \<or> slot \<le> mine)" "slot \<noteq> - 1"
  shows "mine < slot" "mine \<le> slot + 1" "slot + 1 < nr" "\<not> slot + 1 < slot"
proof -
  have "unat slot \<noteq> 0xFFFFFFFF" using assms(2) unat_uminus [of 1] by (auto simp: word_unat_eq_iff)
  hence "unat (slot + 1) = unat slot + 1"
    using u32_bound [of slot] unat_plus_if' [of slot 1] by (auto split: if_splits)
  thus "mine < slot" "mine \<le> slot + 1" "slot + 1 < nr" "\<not> slot + 1 < slot"
    using assms(1) by (auto simp: word_less_nat_alt word_le_nat_alt not_le)
qed

text \<open>
  C12: when a player whose own rank is one of the ranks of his guild changes the rank of a member by
  promoting or demoting him, then the member is not himself, stands below him, the player has the right
  to promote or to demote, and the new rank is one of the guild and not above the player's own. (The guild
  is a live object with its members in the order of \<open>std::map\<close>, the member's rank is not the value that
  \<open>GetRank\<close> has for strangers, and a player whose own rank has been deleted is not bound by this:
  \<open>promotion_above_own_rank\<close>.)
\<close>

theorem rank_changes_bounded:
  assumes state: "gt_heap st a \<noteq> None" "om_ok (gmembers (gld st a))" "is_player (p_guid self)" "guild_of (p_guid self) st = Some a"
    and mine: "GetRank (p_guid self) st < GetNrRanks (gld st a)"
    and req: "HandleGuildPromoteOpcode e self name st = Some st' \<or> HandleGuildDemoteOpcode e self name st = Some st'"
    and changed: "Guild_GetRank low (gld st' a) \<noteq> Guild_GetRank low (gld st a)"
    and proper: "Guild_GetRank low (gld st a) \<noteq> - 1"
  shows "low \<noteq> GUID_LOPART (p_guid self) \<and>
    GetRank (p_guid self) st < Guild_GetRank low (gld st a) \<and>
    GetRank (p_guid self) st \<le> Guild_GetRank low (gld st' a) \<and>
    Guild_GetRank low (gld st' a) < GetNrRanks (gld st a) \<and>
    HasRankRight (GetRank (p_guid self) st)
      (if Guild_GetRank low (gld st' a) < Guild_GetRank low (gld st a) then GR_RIGHT_PROMOTE else GR_RIGHT_DEMOTE) (gld st a)"
proof -
  have moved: "\<not> gcore st' = gcore st"
    using changed gcore_gview [of st' st a] by (auto simp: Guild_GetRank_ranks gview_def)
  note found = rank_found [OF state changed]
  from req show ?thesis
  proof
    assume "HandleGuildPromoteOpcode e self name st = Some st'"
    from promote_shape [OF this] moved obtain b k slot where s: "(k, slot) \<in> set (gmembers (gld st b))"
      and p: "\<not> (gm_RankId slot < 2 \<or> gm_RankId slot - 1 < GetRank (p_guid self) st)"
      and m: "rank_moved e (p_guid self) b k (if gm_RankId slot < GetNrRanks (gld st b) then gm_RankId slot - 1
        else GetNrRanks (gld st b) - 1) GR_RIGHT_PROMOTE st st'" by blast
    from found [OF m s] promoted_rank [OF p mine] show ?thesis by auto
  next
    assume "HandleGuildDemoteOpcode e self name st = Some st'"
    from demote_shape [OF this] moved obtain b k slot where s: "(k, slot) \<in> set (gmembers (gld st b))"
      and p: "\<not> (GetNrRanks (gld st b) \<le> gm_RankId slot + 1 \<or> gm_RankId slot \<le> GetRank (p_guid self) st)"
      and m: "rank_moved e (p_guid self) b k (gm_RankId slot + 1) GR_RIGHT_DEMOTE st st'" by blast
    from found [OF m s] demoted_rank [OF p] proper show ?thesis by auto
  qed
qed

lemma demo_name: "normalized (demo_env ps) ''Bob'' = Some ''Bob''"
proof -
  have "ascii_dec ''Bob'' = Some [66, 111, 98]" by (simp add: ascii_dec_def)
  thus ?thesis
    by (simp add: normalized_def demo_env_def normalizePlayerName_def Utf8toWStr_buf_def wcharToUpper_def wcharToLower_def
        ascii_enc_def char_of_def bit_iff_odd)
qed

lemma rich_ranks:
  "GetRankRights 0 rich_guild = 0xDF1FF" "GetNrRanks rich_guild = 3"
  "Guild_GetRank 2 rich_guild = 2" "GetMemberSlotByName ''Bob'' rich_guild = Some (2, demo_member 2 ''Bob'')"
  by (simp_all add: GetRankRights_def GetNrRanks_def demo_guild_def RankInfo_new_def Guild_GetRank_def GetMemberSlotByName_def
      demo_member_def)

theorem rank_changes_bounded_witness:
  "\<exists>st'. HandleGuildPromoteOpcode (demo_env []) Ann ''Bob'' (demo_in 0 rich_guild) = Some st' \<and>
     Guild_GetRank 2 (gld st' 0) = 1 \<and> HasRankRight 0 GR_RIGHT_PROMOTE rich_guild"
proof -
  let ?st = "demo_in 0 rich_guild"
  have right: "HasRankRight 0 GR_RIGHT_PROMOTE rich_guild" by (simp add: HasRankRight_def rich_ranks)
  obtain st' where p: "HandleGuildPromoteOpcode (demo_env []) Ann ''Bob'' ?st = Some st'"
    and eq: "gcore st' = gcore (ChangeRank (demo_env []) 0 2 1 ?st)"
    using right
    by (simp add: HandleGuildPromoteOpcode_def Let_def with_name_def demo_name in_guild_def with_right_def with_member_def rich_ranks)
  have ok: "om_ok (gmembers (gld ?st 0))" by (simp add: om_ok_Cons)
  have "ranks_of st' 0 = set_rank 2 1 (ranks_of ?st 0)"
    using gcore_gview [OF eq, of 0] effectD(7) [OF effect_rank [of ?st 0 2 1 "demo_env []"], of 0] by (simp add: gview_def)
  hence new: "Guild_GetRank 2 (gld st' 0) = 1"
    by (simp add: Guild_GetRank_ranks map_of_set_rank map_of_member_ranks)
  with p ok show ?thesis
    using rank_changes_bounded [where self = Ann and st = ?st and a = 0 and e = "demo_env []" and name = "''Bob''" and st' = st' and low = 2]
    by (simp add: rich_ranks demo_is_player)
qed


text \<open>
  Without the bound on his own rank: after two ranks were deleted from under them, a member of rank 4 in a
  guild of three ranks promotes one of rank 5 to rank 2, above himself.
\<close>

definition shrunk_guild :: guild where
  "shrunk_guild = (demo_guild [(1, demo_member 4 ''Ann''), (2, demo_member 5 ''Bob''), (9, demo_member 0 ''Eve'')])
     \<lparr>m_LeaderGuid := 9\<rparr>"

lemma promotion_above_own_rank:
  "\<exists>st'. HandleGuildPromoteOpcode (demo_env []) Ann ''Bob'' (demo_in 4 shrunk_guild) = Some st' \<and>
     Guild_GetRank 2 (gld st' 0) = 2 \<and> GetRank (p_guid Ann) st' = 4"
proof -
  let ?st = "demo_in 4 shrunk_guild"
  have g: "GetRankRights 4 shrunk_guild = 0" "GetNrRanks shrunk_guild = 3"
    "GetMemberSlotByName ''Bob'' shrunk_guild = Some (2, demo_member 5 ''Bob'')"
    by (simp_all add: shrunk_guild_def GetRankRights_def GetNrRanks_def demo_guild_def GetMemberSlotByName_def demo_member_def)
  have right: "HasRankRight 4 GR_RIGHT_PROMOTE shrunk_guild" by (simp add: HasRankRight_def g)
  obtain st' where p: "HandleGuildPromoteOpcode (demo_env []) Ann ''Bob'' ?st = Some st'"
    and eq: "gcore st' = gcore (ChangeRank (demo_env []) 0 2 2 ?st)"
    using right
    by (simp add: HandleGuildPromoteOpcode_def Let_def with_name_def demo_name in_guild_def with_right_def with_member_def g demo_member_def)
  have "ranks_of st' 0 = set_rank 2 2 (ranks_of ?st 0)"
    using gcore_gview [OF eq, of 0] effectD(7) [OF effect_rank [of ?st 0 2 2 "demo_env []"], of 0] by (simp add: gview_def)
  moreover have "map_of (ranks_of ?st 0) 2 = Some 5"
    by (simp add: map_of_member_ranks shrunk_guild_def demo_guild_def demo_member_def)
  ultimately have "Guild_GetRank 2 (gld st' 0) = 2"
    by (simp add: Guild_GetRank_ranks map_of_set_rank)
  moreover have "GetRank 1 st' = GetRank 1 (ChangeRank (demo_env []) 0 2 2 ?st)"
    using eq by (simp add: gcore_def fun_eq_iff)
  moreover have "(GetGuildId 1 (ChangeRank (demo_env []) 0 2 2 ?st), GetRank 1 (ChangeRank (demo_env []) 0 2 2 ?st)) = (7, 4)"
    using effect_rank [of ?st 0 2 2 "demo_env []", unfolded effect_def, THEN conjunct2, THEN conjunct2, THEN conjunct2,
        THEN conjunct2, THEN conjunct2, THEN spec [of _ 1]] by simp
  ultimately show ?thesis using p by simp
qed

end
