(* ===== verification/GuildLogs.thy ===== *)
theory GuildLogs
  imports GuildRights
begin

text \<open>
  The logs of a guild as bounded queues, what a late load does to the event log, and a member who
  declines an invitation.
\<close>

section \<open>Logs as bounded queues\<close>

text \<open>The specification: the last \<open>n\<close> of a list.\<close>

definition recent :: "nat \<Rightarrow> 'x list \<Rightarrow> 'x list" where
  "recent n xs = drop (length xs - n) xs"

lemma recent_length: "length (recent n xs) \<le> n"
  by (simp add: recent_def)

lemma recent_append: "recent n (recent n xs @ ys) = recent n (xs @ ys)"
proof (cases "length xs \<le> n")
  case True
  thus ?thesis by (simp add: recent_def)
next
  case False
  hence "length ys + (length xs - n) = length xs + length ys - n" by simp
  thus ?thesis using False by (simp add: recent_def)
qed

lemma recent_short: "length xs \<le> n \<Longrightarrow> recent n xs = xs"
  by (simp add: recent_def)

lemma push_recent:
  assumes "length log \<le> Suc n"
  shows "(if length log > n then tl log else log) @ [ev] = recent (Suc n) (log @ [ev])"
proof (cases "length log > n")
  case True
  hence "length log = Suc n" using assms by simp
  thus ?thesis by (cases log) (simp_all add: recent_def)
qed (simp add: recent_def)

text \<open>An event as its caller gives it.\<close>

type_synonym guild_happening = "u8 \<times> u32 \<times> u32 \<times> u8"

fun log_all :: "'a guild_env_scheme \<Rightarrow> nat \<Rightarrow> guild_happening list \<Rightarrow> gust \<Rightarrow> gust" where
  "log_all e a [] st = st"
| "log_all e a ((k, p, q, r) # evs) st = log_all e a evs (LogGuildEvent e a k p q r st)"

definition happening :: "eventlog_entry \<Rightarrow> guild_happening" where
  "happening ev = (el_EventType ev, el_PlayerGuid1 ev, el_PlayerGuid2 ev, el_NewRank ev)"

definition shown_log :: "gust \<Rightarrow> nat \<Rightarrow> guild_happening list" where
  "shown_log st a = map happening (m_GuildEventlog (gld st a))"

lemma recent_map: "recent n (map f xs) = map f (recent n xs)"
  by (simp add: recent_def drop_map)

lemma LogGuildEvent_shown:
  assumes "gt_heap st a \<noteq> None" "length (shown_log st a) \<le> 101"
  shows "shown_log (LogGuildEvent e a k p q r st) a = recent 101 (shown_log st a @ [(k, p, q, r)])"
    and "gt_heap (LogGuildEvent e a k p q r st) a \<noteq> None"
proof -
  let ?g = "gld st a"
  let ?ev = "\<lparr>el_LogGuid = GuildEventlogMaxGuid ?g, el_EventType = k, el_PlayerGuid1 = p, el_PlayerGuid2 = q, el_NewRank = r,
    el_TimeStamp = ucast (ucast (ge_time e) :: u32)\<rparr>"
  have ev: "happening ?ev = (k, p, q, r)"
    "m_GuildEventlog (gld (LogGuildEvent e a k p q r st) a) =
       (if length (m_GuildEventlog ?g) > 100 then tl (m_GuildEventlog ?g) else m_GuildEventlog ?g) @ [?ev]"
    by (cases "length (m_GuildEventlog ?g) > 100")
      (simp_all add: LogGuildEvent_def Let_def gld_upd_gld happening_def assms(1) del: not_None_eq)
  have "length (m_GuildEventlog ?g) \<le> Suc 100" using assms(2) by (simp add: shown_log_def)
  from push_recent [OF this] ev show "shown_log (LogGuildEvent e a k p q r st) a = recent 101 (shown_log st a @ [(k, p, q, r)])"
    by (simp add: shown_log_def flip: recent_map)
  show "gt_heap (LogGuildEvent e a k p q r st) a \<noteq> None"
    using assms(1) by (simp add: LogGuildEvent_def Let_def del: not_None_eq)
qed

lemma eventlog_queue:
  assumes "gt_heap st a \<noteq> None" "length (shown_log st a) \<le> 101"
  shows "shown_log (log_all e a evs st) a = recent 101 (shown_log st a @ evs)"
  using assms
proof (induction evs arbitrary: st)
  case Nil
  thus ?case by (simp add: recent_short)
next
  case (Cons ev evs)
  obtain k p q r where ev: "ev = (k, p, q, r)" by (cases ev)
  note step = LogGuildEvent_shown [OF Cons.prems, of e k p q r]
  have "shown_log (log_all e a (ev # evs) st) a = recent 101 (recent 101 (shown_log st a @ [ev]) @ evs)"
    using Cons.IH [OF step(2)] step(1) recent_length [of 101 "shown_log st a @ [(k, p, q, r)]"] ev by simp
  thus ?case by (simp add: recent_append)
qed

text \<open>
  The event log is a queue of the last 101 events: whatever is logged, it shows exactly the last 101
  of the former and the new events, in order. (The limit in the source is 100.)
\<close>

theorem eventlog_keeps_last:
  assumes "gt_heap st a \<noteq> None" "length (shown_log st a) \<le> 101"
  shows "shown_log (log_all e a evs st) a = recent 101 (shown_log st a @ evs)"
  by (rule eventlog_queue [OF assms])

theorem eventlog_keeps_last_witness:
  "shown_log (log_all (demo_env []) 0 (replicate 102 (1, 2, 3, 0) @ [(2, 4, 0, 0)]) (demo_with (demo_guild four))) 0 =
     replicate 100 (1, 2, 3, 0) @ [(2, 4, 0, 0)]"
proof -
  have "shown_log (demo_with (demo_guild four)) 0 = []" by (simp add: shown_log_def demo_guild_def)
  moreover have "recent 101 (replicate 102 x @ [y]) = replicate 100 x @ [y]" for x y :: guild_happening
    by (simp add: recent_def)
  ultimately show ?thesis
    using eventlog_keeps_last [of "demo_with (demo_guild four)" 0 "demo_env []" "replicate 102 (1, 2, 3, 0) @ [(2, 4, 0, 0)]"] by simp
qed

section \<open>The event log is read too late\<close>

text \<open>
  A guild whose event log was empty at its load does not count as loaded: the first look at the log
  loads the rows written since on top of the events in memory, and shows every event twice.
\<close>

theorem eventlog_shown_twice:
  assumes "gt_heap st a \<noteq> None" "m_GuildEventlog (gld st a) = []" "\<not> m_eventlogloaded (gld st a)"
    and evs: "evs \<noteq> []" "length evs \<le> 101"
    and rows: "rows = rev (m_GuildEventlog (gld (log_all e a evs st) a))"
  shows "shown_log (DisplayGuildEventlog e a rows p (log_all e a evs st)) a = evs @ evs"
proof -
  let ?s = "log_all e a evs st"
  have log: "shown_log ?s a = evs"
    using eventlog_queue [OF assms(1), of e evs] recent_short [OF evs(2)] assms(2) by (simp add: shown_log_def)
  have kept: "gt_heap ?s a \<noteq> None \<and> m_eventlogloaded (gld ?s a) = m_eventlogloaded (gld st a)"
    using assms(1)
  proof (induction evs arbitrary: st)
    case (Cons ev evs)
    obtain k p q r where ev: "ev = (k, p, q, r)" by (cases ev)
    have "gt_heap (LogGuildEvent e a k p q r st) a \<noteq> None"
      "m_eventlogloaded (gld (LogGuildEvent e a k p q r st) a) = m_eventlogloaded (gld st a)"
      using Cons.prems by (auto simp: LogGuildEvent_def Let_def gld_upd_gld simp del: not_None_eq)
    thus ?case using Cons.IH ev by simp
  qed simp
  have "m_GuildEventlog (gld ?s a) \<noteq> []" using log evs(1) by (auto simp: shown_log_def)
  thus ?thesis
    using kept assms(3) rows log
    by (simp add: DisplayGuildEventlog_def LoadGuildEventLogFromDB_def Let_def gld_upd_gld shown_log_def del: not_None_eq)
qed

theorem eventlog_shown_twice_witness:
  "\<exists>rows st. shown_log (DisplayGuildEventlog (demo_env []) 0 rows 1 st) 0 = [(2, 4, 0, 0), (2, 4, 0, 0)]"
proof -
  let ?g = "(demo_guild four)\<lparr>m_eventlogloaded := False\<rparr>"
  let ?s = "log_all (demo_env []) 0 [(2, 4, 0, 0)] (demo_with ?g)"
  have "shown_log (DisplayGuildEventlog (demo_env []) 0 (rev (m_GuildEventlog (gld ?s 0))) 1 ?s) 0 = [(2, 4, 0, 0)] @ [(2, 4, 0, 0)]"
    by (rule eventlog_shown_twice [OF _ _ _ _ _ refl]) (simp_all add: demo_guild_def)
  hence "shown_log (DisplayGuildEventlog (demo_env []) 0 (rev (m_GuildEventlog (gld ?s 0))) 1 ?s) 0 = [(2, 4, 0, 0), (2, 4, 0, 0)]"
    by (simp del: log_all.simps)
  thus ?thesis by blast
qed

section \<open>Declining as a member\<close>

text \<open>
  A member who declines an invitation is no longer shown as a member himself but stays in the list
  of his guild, so that a second guild accepts him: he is a member of both.
\<close>

theorem decline_leaves_half:
  assumes mine: "gt_heap st a \<noteq> None" "Guild_IsMember (GUID_LOPART (p_guid self)) (gld st a)"
    and other: "GetGuildById j st = Some b" "gt_heap st b \<noteq> None" "b \<noteq> a"
    and free: "getConfig (ge_world e) CONFIG_ALLOW_TWO_SIDE_INTERACTION_GUILD" and online: "u_find e (p_guid self) \<noteq> None"
  shows "\<exists>s t. HandleGuildDeclineOpcode self st = Some s \<and> GetGuildId (p_guid self) s = 0 \<and>
    HandleGuildAcceptOpcode e self (SetGuildIdInvited (p_guid self) j s) = Some t \<and>
    Guild_IsMember (GUID_LOPART (p_guid self)) (gld t a) \<and> Guild_IsMember (GUID_LOPART (p_guid self)) (gld t b)"
proof -
  let ?me = "p_guid self" and ?low = "GUID_LOPART (p_guid self)"
  let ?s = "SetInGuild ?me 0 (SetGuildIdInvited ?me 0 st)"
  let ?i = "SetGuildIdInvited ?me j ?s"
  have i: "gld ?i = gld st" "gt_map ?i = gt_map st" "gt_heap ?i = gt_heap st" "GetGuildId ?me ?i = 0" "GetGuildIdInvited ?me ?i = j"
    by (simp_all add: GetGuildId_def GetGuildIdInvited_def)
  obtain m where add: "Guild_AddMember e b ?me (GetLowestRank (gld st b)) ?i = (True, joined e b ?me (GetLowestRank (gld st b)) m ?i)"
    and m: "gm_RankId m = GetLowestRank (gld st b)"
    using AddMember_online [OF online i(4)] by blast
  let ?t = "joined e b ?me (GetLowestRank (gld st b)) m ?i"
  obtain g where g: "gt_heap ?i b = Some g" using other(2) i(3) by auto
  note f = effectD(7) [OF effect_join [OF g m, of ?me e]]
  have "Guild_IsMember ?low (gld ?t a)" "Guild_IsMember ?low (gld ?t b)"
    using mine(2) other(3) i(1) by (simp_all add: Guild_IsMember_ranks f del: not_None_eq)
  moreover obtain t where t: "HandleGuildAcceptOpcode e self ?i = Some t" "gcore t = gcore ?t"
    using other(1) free i add by (simp add: HandleGuildAcceptOpcode_def Let_def GetGuildById_def)
  moreover have "ranks_of t c = ranks_of ?t c" for c
    using gcore_gview [OF t(2), of c] by (simp add: gview_def)
  ultimately show ?thesis
    by (auto simp: HandleGuildDeclineOpcode_def GetGuildId_def Guild_IsMember_ranks simp del: not_None_eq)
qed

definition two_sided :: guild_henv where
  "two_sided = (demo_env [])\<lparr>ge_world := \<lparr>w_players = [Ann\<lparr>p_inWorld := True\<rparr>], w_config = \<lambda>_. True, w_names = \<lambda>_. None\<rparr>\<rparr>"

definition two_guilds :: gust where
  "two_guilds = (demo_in 2 (demo_guild four))\<lparr>gt_heap := [0 \<mapsto> demo_guild four, 1 \<mapsto> demo_guild [(4, demo_member 0 ''Eve'')]],
     gt_next := 2, gt_map := [(7, 0), (8, 1)]\<rparr>"

theorem decline_leaves_half_witness:
  "\<exists>s t. HandleGuildDeclineOpcode Ann two_guilds = Some s \<and> GetGuildId 1 s = 0 \<and>
    HandleGuildAcceptOpcode two_sided Ann (SetGuildIdInvited 1 8 s) = Some t \<and>
    Guild_IsMember 1 (gld t 0) \<and> Guild_IsMember 1 (gld t 1)"
proof -
  have "u_find two_sided 1 \<noteq> None" "getConfig (ge_world two_sided) CONFIG_ALLOW_TWO_SIDE_INTERACTION_GUILD"
    by (simp_all add: two_sided_def FindPlayer_def getConfig_def)
  moreover have "gt_heap two_guilds 0 \<noteq> None" "GetGuildById 8 two_guilds = Some 1" "gt_heap two_guilds 1 \<noteq> None"
    by (simp_all add: two_guilds_def GetGuildById_def)
  moreover have "Guild_IsMember 1 (gld two_guilds 0)"
    by (simp add: two_guilds_def gld_def Guild_IsMember_def demo_guild_def)
  ultimately show ?thesis
    using decline_leaves_half [where self = Ann and st = two_guilds and a = 0 and b = 1 and j = 8 and e = two_sided]
    by (simp del: not_None_eq)
qed

end
