(* ===== verification/GuildVault.thy ===== *)
theory GuildVault
  imports GuildLogs
begin

text \<open>
  The items of the guild bank. A vault is in order when its tabs have their 98 slots, every pointer in a
  slot is a live item of at least one and at most a full stack, and no item is in two slots. Moves
  inside the bank keep it so and neither create nor lose a piece of any kind of item.
\<close>

declare split_paired_All [simp del] split_paired_Ex [simp del]

section \<open>The vault\<close>

text \<open>All that the moves depend on: the slots of the tabs and the items.\<close>

definition hoard :: "gust \<Rightarrow> nat \<Rightarrow> bool \<times> nat option list option list \<times> (nat \<Rightarrow> bank_item option) \<times> nat" where
  "hoard st a = (gt_heap st a = None, map (map_option bt_Slots) (m_TabListMap (gld st a)), gt_items st, gt_nextItem st)"

type_synonym place = "u8 \<times> u8"

definition cells :: "gust \<Rightarrow> nat \<Rightarrow> place \<Rightarrow> nat option option" where
  "cells st a p = slot_at (fst p) (snd p) (gld st a)"

definition tabs_ok :: "guild \<Rightarrow> bool" where
  "tabs_ok g \<longleftrightarrow> (\<forall>t\<in>set (m_TabListMap g). \<exists>b. t = Some b \<and> length (bt_Slots b) = GUILD_BANK_MAX_SLOTS)"

text \<open>A stack; its limit fits the byte in which the positions of a move keep their counts.\<close>

definition stack_ok :: "bank_item \<Rightarrow> bool" where
  "stack_ok i \<longleftrightarrow> 1 \<le> bi_count i \<and> bi_count i \<le> bi_stackable i \<and> bi_stackable i \<le> 255"

text \<open>The limit comes from the kind of the item.\<close>

definition kinds_ok :: "(nat \<Rightarrow> bank_item option) \<Rightarrow> bool" where
  "kinds_ok its \<longleftrightarrow> (\<forall>x y i j. its x = Some i \<and> its y = Some j \<and> bi_entry i = bi_entry j \<longrightarrow> bi_stackable i = bi_stackable j)"

definition sound :: "('p \<Rightarrow> nat option option) \<Rightarrow> (nat \<Rightarrow> bank_item option) \<Rightarrow> bool" where
  "sound c its \<longleftrightarrow> kinds_ok its \<and>
     (\<forall>p x. c p = Some (Some x) \<longrightarrow> (\<exists>i. its x = Some i \<and> stack_ok i)) \<and>
     (\<forall>p q x. c p = Some (Some x) \<longrightarrow> c q = Some (Some x) \<longrightarrow> p = q)"

definition vault_ok :: "gust \<Rightarrow> nat \<Rightarrow> bool" where
  "vault_ok st a \<longleftrightarrow> gt_heap st a \<noteq> None \<and> tabs_ok (gld st a) \<and> sound (cells st a) (gt_items st) \<and>
     (\<forall>x. gt_items st x \<noteq> None \<longrightarrow> x < gt_nextItem st)"

text \<open>How many pieces of a kind are in a slot, and in the vault.\<close>

definition worth :: "u32 \<Rightarrow> (nat \<Rightarrow> bank_item option) \<Rightarrow> nat option option \<Rightarrow> nat" where
  "worth k its q =
     (case q of
        Some (Some x) \<Rightarrow> (case its x of None \<Rightarrow> 0 | Some i \<Rightarrow> if bi_entry i = k then unat (bi_count i) else 0)
      | _ \<Rightarrow> 0)"

definition held :: "u32 \<Rightarrow> gust \<Rightarrow> nat \<Rightarrow> nat" where
  "held k st a = (\<Sum>p\<in>UNIV. worth k (gt_items st) (cells st a p))"

lemma worth_simps [simp]:
  "worth k its None = 0" "worth k its (Some None) = 0"
  "its x = Some i \<Longrightarrow> worth k its (Some (Some x)) = (if bi_entry i = k then unat (bi_count i) else 0)"
  by (simp_all add: worth_def)

text \<open>A change at one place changes the sum by the difference there.\<close>

lemma held_change:
  assumes "\<And>q. q \<noteq> p \<Longrightarrow> worth k (gt_items st') (cells st' a q) = worth k (gt_items st) (cells st a q)"
  shows "held k st' a + worth k (gt_items st) (cells st a p) = held k st a + worth k (gt_items st') (cells st' a p)"
proof -
  have split: "held k s a = worth k (gt_items s) (cells s a p) + (\<Sum>q\<in>UNIV - {p}. worth k (gt_items s) (cells s a q))" for s
    unfolding held_def by (rule sum.remove) simp_all
  have "(\<Sum>q\<in>UNIV - {p}. worth k (gt_items st') (cells st' a q)) = (\<Sum>q\<in>UNIV - {p}. worth k (gt_items st) (cells st a q))"
    by (rule sum.cong) (simp_all add: assms)
  thus ?thesis using split [of st] split [of st'] by simp
qed

section \<open>Operations that leave the vault alone\<close>

definition slots_at :: "nat option list option list \<Rightarrow> place \<Rightarrow> nat option option" where
  "slots_at L p = (if unat (fst p) < length L
     then (case L ! unat (fst p) of None \<Rightarrow> None | Some sl \<Rightarrow> if unat (snd p) < length sl then Some (sl ! unat (snd p)) else None)
     else None)"

lemma cells_slots: "cells st a p = slots_at (map (map_option bt_Slots) (m_TabListMap (gld st a))) p"
  by (simp add: cells_def slot_at_def GetBankTab_def slots_at_def split: option.split)

lemma tabs_ok_slots:
  "tabs_ok g \<longleftrightarrow> (\<forall>t\<in>set (map (map_option bt_Slots) (m_TabListMap g)). \<exists>sl. t = Some sl \<and> length sl = GUILD_BANK_MAX_SLOTS)"
  by (fastforce simp: tabs_ok_def)

lemma hoardD:
  assumes "hoard st' a = hoard st a"
  shows "cells st' a = cells st a" "gt_items st' = gt_items st" "gt_nextItem st' = gt_nextItem st"
    "gt_heap st' a = None \<longleftrightarrow> gt_heap st a = None" "tabs_ok (gld st' a) = tabs_ok (gld st a)"
    "length (m_TabListMap (gld st' a)) = length (m_TabListMap (gld st a))"
proof -
  from assms have L: "map (map_option bt_Slots) (m_TabListMap (gld st' a)) = map (map_option bt_Slots) (m_TabListMap (gld st a))"
    and r: "gt_items st' = gt_items st" "gt_nextItem st' = gt_nextItem st" "gt_heap st' a = None \<longleftrightarrow> gt_heap st a = None"
    by (simp_all add: hoard_def)
  show "cells st' a = cells st a" by (rule ext) (simp add: cells_slots L)
  show "tabs_ok (gld st' a) = tabs_ok (gld st a)" unfolding tabs_ok_slots L ..
  show "length (m_TabListMap (gld st' a)) = length (m_TabListMap (gld st a))" using arg_cong [OF L, of length] by simp
qed (use assms in \<open>simp_all add: hoard_def\<close>)

lemma vault_ok_hoard:
  assumes "hoard st' a = hoard st a"
  shows "vault_ok st' a = vault_ok st a"
  unfolding vault_ok_def hoardD [OF assms] ..

lemma held_hoard:
  assumes "hoard st' a = hoard st a"
  shows "held k st' a = held k st a"
  unfolding held_def hoardD [OF assms] ..

lemma emit_items [simp]:
  "gt_items (u_emit es st) = gt_items st" "gt_nextItem (u_emit es st) = gt_nextItem st"
  "gt_items (u_sql qs st) = gt_items st" "gt_nextItem (u_sql qs st) = gt_nextItem st"
  "gt_items (upd_gld a f st) = gt_items st" "gt_nextItem (upd_gld a f st) = gt_nextItem st"
  by (simp_all add: u_emit_def u_sql_def upd_gld_def)

lemma hoard_sql [simp]: "hoard (u_sql qs st) a = hoard st a" "hoard (u_emit es st) a = hoard st a"
  "hoard (equip_error p msg st) a = hoard st a"
  by (simp_all add: hoard_def equip_error_def)

lemma hoard_upd:
  "(\<And>g. m_TabListMap (f g) = m_TabListMap g) \<Longrightarrow> hoard (upd_gld a f st) a = hoard st a"
  by (simp add: hoard_def gld_upd_gld)

lemma hoard_log [simp]: "hoard (LogBankEvent e a k tab low n c d st) a = hoard st a"
  "hoard (log_item e a k tab p i n8 d st) a = hoard st a"
  by (simp_all add: LogBankEvent_def log_item_def Let_def hoard_upd)

lemma upd_member_tabs [simp]: "m_TabListMap (upd_member low f g) = m_TabListMap g"
  by (simp add: upd_member_def)

lemma hoard_rem [simp]: "hoard (snd (GetMemberSlotWithdrawRem e a low tab st)) a = hoard st a"
  by (auto simp: GetMemberSlotWithdrawRem_def Let_def hoard_upd split: option.split)

lemma hoard_send_updates: "hoard (fold (send_update e a tab money fs) lows st) a = hoard st a"
proof (induction lows arbitrary: st)
  case (Cons low lows)
  have "hoard (send_update e a tab money fs low st) a = hoard st a"
    using hoard_rem [of e a low tab st]
    by (cases "GetMemberSlotWithdrawRem e a low tab st") (simp add: send_update_def)
  thus ?case using Cons.IH by simp
qed simp

lemma hoard_update: "DisplayGuildBankContentUpdate e a tab js st = Some st' \<Longrightarrow> hoard st' a = hoard st a"
  by (auto simp: DisplayGuildBankContentUpdate_def Let_def hoard_send_updates split: if_splits Option.bind_splits)

section \<open>Changing a slot or an item\<close>

lemma set_slot_cells:
  assumes "gt_heap st a \<noteq> None" "cells st a p \<noteq> None"
  shows "cells (upd_gld a (set_slot (fst p) (snd p) v) st) a = (cells st a)(p := Some v)"
proof
  fix q
  have t: "unat (fst p) < length (m_TabListMap (gld st a))" "m_TabListMap (gld st a) ! unat (fst p) \<noteq> None"
    using assms(2) by (auto simp: cells_def slot_at_def GetBankTab_def simp del: not_None_eq split: if_splits Option.bind_splits)
  then obtain b where b: "m_TabListMap (gld st a) ! unat (fst p) = Some b" by blast
  have s: "unat (snd p) < length (bt_Slots b)"
    using assms(2) t(1) b by (auto simp: cells_def slot_at_def GetBankTab_def split: if_splits)
  show "cells (upd_gld a (set_slot (fst p) (snd p) v) st) a q = ((cells st a)(p := Some v)) q"
  proof (cases "fst q = fst p")
    case True
    hence e: "q = p \<longleftrightarrow> unat (snd p) = unat (snd q)" by (auto simp: prod_eq_iff word_unat_eq_iff)
    show ?thesis
      using True t b s assms(1)
      by (auto simp: cells_def e slot_at_def GetBankTab_def gld_upd_gld set_slot_def upd_tab_def nth_list_update simp del: not_None_eq)
  next
    case False
    hence "q \<noteq> p" "unat (fst q) \<noteq> unat (fst p)" by (auto simp: word_unat_eq_iff)
    thus ?thesis using assms(1)
      by (simp add: cells_def slot_at_def GetBankTab_def gld_upd_gld set_slot_def upd_tab_def nth_list_update del: not_None_eq)
  qed
qed

lemma set_slot_tabs_ok: "tabs_ok g \<Longrightarrow> tabs_ok (set_slot t s v g)"
  unfolding tabs_ok_def set_slot_def upd_tab_def
  by (cases "unat t < length (m_TabListMap g)")
    (auto dest!: set_update_subset_insert [THEN subsetD] nth_mem [of "unat t" "m_TabListMap g"] simp: list_update_beyond)

lemma set_slot_length [simp]: "length (m_TabListMap (set_slot t s v g)) = length (m_TabListMap g)"
  by (simp add: set_slot_def upd_tab_def)

definition loose :: "gust \<Rightarrow> nat \<Rightarrow> nat \<Rightarrow> bool" where
  "loose st a x \<longleftrightarrow> (\<forall>p. cells st a p \<noteq> Some (Some x))"

lemma kinds_okD: "kinds_ok its \<Longrightarrow> its x = Some i \<Longrightarrow> its y = Some j \<Longrightarrow> bi_entry i = bi_entry j \<Longrightarrow> bi_stackable i = bi_stackable j"
  unfolding kinds_ok_def by blast

lemma kinds_ok_upd:
  assumes "kinds_ok its" "its z = Some j" "bi_entry j = bi_entry i" "bi_stackable j = bi_stackable i"
  shows "kinds_ok (its(x \<mapsto> i))"
proof -
  have "bi_stackable k = bi_stackable i" if "its y = Some k" "bi_entry k = bi_entry i" for y k
    using kinds_okD [OF assms(1) that(1) assms(2)] that(2) assms(3,4) by simp
  moreover have "bi_stackable k = bi_stackable l" if "its y = Some k" "its w = Some l" "bi_entry k = bi_entry l" for y w k l
    by (rule kinds_okD [OF assms(1) that])
  ultimately show ?thesis unfolding kinds_ok_def fun_upd_apply by (metis option.inject)
qed

lemma kinds_ok_drop: "kinds_ok its \<Longrightarrow> kinds_ok (its(x := None))"
  unfolding kinds_ok_def by (metis fun_upd_apply option.distinct(1))

lemma soundD:
  assumes "sound c its"
  shows "kinds_ok its" "c p = Some (Some x) \<Longrightarrow> \<exists>i. its x = Some i \<and> stack_ok i"
    "c p = Some (Some x) \<Longrightarrow> c q = Some (Some x) \<Longrightarrow> p = q"
  using assms unfolding sound_def by blast+

lemma soundI:
  assumes "kinds_ok its" "\<And>p x. c p = Some (Some x) \<Longrightarrow> \<exists>i. its x = Some i \<and> stack_ok i"
    "\<And>p q x. c p = Some (Some x) \<Longrightarrow> c q = Some (Some x) \<Longrightarrow> p = q"
  shows "sound c its"
  using assms unfolding sound_def by blast

lemma sound_put: "sound c its \<Longrightarrow> its x = Some i \<Longrightarrow> stack_ok i \<Longrightarrow> (\<And>p. c p \<noteq> Some (Some x)) \<Longrightarrow> sound (c(p := Some (Some x))) its"
  by (rule soundI) (auto dest: soundD split: if_splits)

lemma sound_take: "sound c its \<Longrightarrow> sound (c(p := Some None)) its"
  by (rule soundI) (auto dest: soundD split: if_splits)

lemma sound_upd:
  "sound c its \<Longrightarrow> its z = Some j \<Longrightarrow> bi_entry j = bi_entry i \<Longrightarrow> bi_stackable j = bi_stackable i \<Longrightarrow>
     (\<And>p. c p = Some (Some x) \<Longrightarrow> stack_ok i) \<Longrightarrow> sound c (its(x \<mapsto> i))"
  by (rule soundI) (auto intro: kinds_ok_upd dest: soundD)

lemma sound_drop: "sound c its \<Longrightarrow> (\<And>p. c p \<noteq> Some (Some x)) \<Longrightarrow> sound c (its(x := None))"
  by (rule soundI) (auto intro: kinds_ok_drop dest: soundD)

lemma cells_items [simp]:
  "cells (st\<lparr>gt_items := f\<rparr>) a = cells st a" "gld (st\<lparr>gt_items := f\<rparr>) = gld st"
  "cells (st\<lparr>gt_items := f, gt_nextItem := n\<rparr>) a = cells st a" "gld (st\<lparr>gt_items := f, gt_nextItem := n\<rparr>) = gld st"
  by (simp_all add: cells_def gld_def fun_eq_iff)

lemma cells_emit [simp]: "cells (u_emit es st) a = cells st a" "cells (u_sql qs st) a = cells st a"
  by (simp_all add: cells_def fun_eq_iff)

lemma SetCount_eq: "gt_items st x = Some i \<Longrightarrow> SetCount x n st = st\<lparr>gt_items := (gt_items st)(x \<mapsto> i\<lparr>bi_count := n\<rparr>)\<rparr>"
  by (simp add: SetCount_def upd_item_def)

text \<open>What a clone is.\<close>

lemma CloneItem_ok:
  assumes "gt_items st x = Some i" "1 \<le> n" "n \<le> bi_stackable i"
  obtains c s where "CloneItem e x n st = Some (Some (gt_nextItem st), s\<lparr>gt_items := (gt_items st)(gt_nextItem st \<mapsto> c), gt_nextItem := Suc (gt_nextItem st)\<rparr>)"
    "bi_entry c = bi_entry i" "bi_stackable c = bi_stackable i" "bi_count c = n" "gt_heap s = gt_heap st"
proof -
  obtain pr where pr: "(if bi_randomProperty i = 0 then (0, 0) else bx_randomProps e (bi_entry i) (bi_randomProperty i)) = pr" by blast
  have n: "\<not> n < 1" "min n (bi_stackable i) = n" using assms(2,3) by (auto simp: min_def)
  let ?s = "if gt_itemGuid st \<ge> 0xFFFFFFFE then u_emit [UStop] st else st"
  have s: "gt_items ?s = gt_items st" "gt_nextItem ?s = gt_nextItem st" "gt_heap ?s = gt_heap st" by simp_all
  show thesis
    by (rule that [of "i\<lparr>bi_guid := gt_itemGuid ?s, bi_count := n, bi_randomProperty := fst pr, bi_suffixFactor := snd pr, bi_enchantment := 0\<rparr>"
          "?s\<lparr>gt_itemGuid := gt_itemGuid ?s + 1\<rparr>"])
      (use n assms(1) pr in \<open>simp_all add: CloneItem_def GenerateItemGuid_def Let_def split_def\<close>)
qed

section \<open>Storing\<close>

text \<open>A place of the tab that takes \<open>n\<close> pieces of the item.\<close>

definition room :: "gust \<Rightarrow> nat \<Rightarrow> bank_item \<Rightarrow> place \<Rightarrow> nat \<Rightarrow> bool" where
  "room st a i p n \<longleftrightarrow> 1 \<le> n \<and>
     (case cells st a p of
        None \<Rightarrow> False
      | Some None \<Rightarrow> n \<le> unat (bi_stackable i)
      | Some (Some y) \<Rightarrow> (\<exists>j. gt_items st y = Some j \<and> bi_entry j = bi_entry i \<and> unat (bi_count j) + n \<le> unat (bi_stackable i)))"

text \<open>What is the same after something went to \<open>P\<close>: the other places, and the items besides \<open>X\<close> and those at \<open>P\<close>.\<close>

definition away :: "place set \<Rightarrow> nat set \<Rightarrow> nat \<Rightarrow> gust \<Rightarrow> gust \<Rightarrow> bool" where
  "away P X a st st' \<longleftrightarrow>
     (\<forall>q. q \<notin> P \<longrightarrow> cells st' a q = cells st a q) \<and>
     (\<forall>z. gt_items st z \<noteq> None \<longrightarrow> z \<notin> X \<longrightarrow> (\<forall>q\<in>P. cells st a q \<noteq> Some (Some z)) \<longrightarrow>
        gt_items st' z = gt_items st z \<and> (\<forall>q\<in>P. cells st' a q \<noteq> Some (Some z))) \<and>
     length (m_TabListMap (gld st' a)) = length (m_TabListMap (gld st a))"

definition adds :: "u32 \<Rightarrow> nat \<Rightarrow> nat \<Rightarrow> gust \<Rightarrow> gust \<Rightarrow> bool" where
  "adds k n a st st' \<longleftrightarrow> (\<forall>k'. held k' st' a = held k' st a + (if k' = k then n else 0))"

lemma vault_okD:
  assumes "vault_ok st a"
  shows "gt_heap st a \<noteq> None" "tabs_ok (gld st a)" "sound (cells st a) (gt_items st)"
    "gt_items st x = Some i \<Longrightarrow> x < gt_nextItem st" "gt_items st (gt_nextItem st) = None"
  using assms unfolding vault_ok_def by auto

lemma vault_okI:
  assumes "gt_heap st a \<noteq> None" "tabs_ok (gld st a)" "sound (cells st a) (gt_items st)"
    "\<And>x i. gt_items st x = Some i \<Longrightarrow> x < gt_nextItem st"
  shows "vault_ok st a"
  using assms unfolding vault_ok_def by auto

lemma vault_lives: "vault_ok st a \<Longrightarrow> cells st a p = Some (Some x) \<Longrightarrow> gt_items st x \<noteq> None"
  using soundD(2) [OF vault_okD(3)] by fastforce

text \<open>Changing an item, adding one, taking one away: what the vault and the sum become.\<close>

lemma items_vault_ok:
  assumes ok: "vault_ok st a" and z: "gt_items st z = Some j" "bi_entry j = bi_entry i" "bi_stackable j = bi_stackable i"
    and s: "\<And>p. cells st a p = Some (Some x) \<Longrightarrow> stack_ok i" and n: "x < n" "gt_nextItem st \<le> n"
    and h: "gt_heap s = gt_heap st"
  shows "vault_ok (s\<lparr>gt_items := (gt_items st)(x \<mapsto> i), gt_nextItem := n\<rparr>) a"
proof (rule vault_okI)
  have g: "gld s a = gld st a" by (simp add: gld_def h)
  show "gt_heap (s\<lparr>gt_items := (gt_items st)(x \<mapsto> i), gt_nextItem := n\<rparr>) a \<noteq> None" using vault_okD(1) [OF ok] h by simp
  show "tabs_ok (gld (s\<lparr>gt_items := (gt_items st)(x \<mapsto> i), gt_nextItem := n\<rparr>) a)" using vault_okD(2) [OF ok] g by simp
  have "cells s a = cells st a" by (simp add: cells_def g fun_eq_iff)
  thus "sound (cells (s\<lparr>gt_items := (gt_items st)(x \<mapsto> i), gt_nextItem := n\<rparr>) a)
      (gt_items (s\<lparr>gt_items := (gt_items st)(x \<mapsto> i), gt_nextItem := n\<rparr>))"
    using sound_upd [OF vault_okD(3) [OF ok] z s] by simp
  fix y k assume "gt_items (s\<lparr>gt_items := (gt_items st)(x \<mapsto> i), gt_nextItem := n\<rparr>) y = Some k"
  thus "y < gt_nextItem (s\<lparr>gt_items := (gt_items st)(x \<mapsto> i), gt_nextItem := n\<rparr>)"
    using n vault_okD(4) [OF ok, of y k] by (auto split: if_splits)
qed

lemma slot_vault_ok:
  assumes ok: "vault_ok st a" and p: "cells st a p \<noteq> None" and x: "gt_items st x = Some i" "stack_ok i" "loose st a x"
  shows "vault_ok (upd_gld a (set_slot (fst p) (snd p) (Some x)) st) a"
  using vault_okD(4) [OF ok] sound_put [OF vault_okD(3) [OF ok] x(1,2) x(3) [unfolded loose_def, rule_format]]
  by (intro vault_okI) (simp_all add: vault_okD(1-3) [OF ok] set_slot_cells [OF vault_okD(1) [OF ok] p] gld_upd_gld set_slot_tabs_ok
      del: not_None_eq)

lemma take_vault_ok:
  assumes ok: "vault_ok st a" and p: "cells st a p \<noteq> None"
  shows "vault_ok (upd_gld a (set_slot (fst p) (snd p) None) st) a"
  using vault_okD(4) [OF ok] sound_take [OF vault_okD(3) [OF ok]]
  by (intro vault_okI) (simp_all add: vault_okD(1-3) [OF ok] set_slot_cells [OF vault_okD(1) [OF ok] p] gld_upd_gld set_slot_tabs_ok
      del: not_None_eq)

lemma away_adds:
  assumes ok: "vault_ok st a" and away: "away {p} X a st st'" and x: "\<And>z. z \<in> X \<Longrightarrow> loose st a z"
    and w: "\<And>k'. worth k' (gt_items st') (cells st' a p) = worth k' (gt_items st) (cells st a p) + (if k' = k then n else 0)"
  shows "adds k n a st st'"
proof -
  have "worth k' (gt_items st') (cells st' a q) = worth k' (gt_items st) (cells st a q)" if q: "q \<noteq> p" for k' q
  proof -
    have c: "cells st' a q = cells st a q" using away q by (simp add: away_def)
    show ?thesis
    proof (cases "\<exists>z. cells st a q = Some (Some z)")
      case True
      then obtain z where z: "cells st a q = Some (Some z)" by blast
      have "gt_items st z \<noteq> None" by (rule vault_lives [OF ok z])
      moreover have "z \<notin> X" using x z by (auto simp: loose_def)
      moreover have "cells st a p \<noteq> Some (Some z)" using soundD(3) [OF vault_okD(3) [OF ok] z] q by blast
      ultimately have "gt_items st' z = gt_items st z" using away by (simp add: away_def del: not_None_eq)
      thus ?thesis by (simp add: c z worth_def)
    next
      case False
      thus ?thesis by (auto simp: c worth_def split: option.split)
    qed
  qed
  note change = held_change [OF this]
  show ?thesis unfolding adds_def
  proof
    fix k'
    show "held k' st' a = held k' st a + (if k' = k then n else 0)"
      using change [of p k'] w [of k'] by simp
  qed
qed

lemma store_loose:
  assumes ok: "vault_ok st a" and p: "cells st a p = Some None" and x: "gt_items st x = Some i" "stack_ok i" "loose st a x"
  shows "vault_ok (upd_gld a (set_slot (fst p) (snd p) (Some x)) st) a"
    and "away {p} {x} a st (upd_gld a (set_slot (fst p) (snd p) (Some x)) st)"
    and "adds (bi_entry i) (unat (bi_count i)) a st (upd_gld a (set_slot (fst p) (snd p) (Some x)) st)"
proof -
  let ?s = "upd_gld a (set_slot (fst p) (snd p) (Some x)) st"
  note live = vault_okD(1) [OF ok]
  have c: "cells ?s a = (cells st a)(p := Some (Some x))" by (rule set_slot_cells [OF live]) (simp add: p)
  show "vault_ok ?s a" by (rule slot_vault_ok [OF ok _ x]) (simp add: p)
  show away: "away {p} {x} a st ?s"
    using live by (simp add: away_def c gld_upd_gld del: not_None_eq)
  show "adds (bi_entry i) (unat (bi_count i)) a st ?s"
    by (rule away_adds [OF ok away]) (use x p in \<open>auto simp: c\<close>)
qed

lemma grow_stack:
  assumes ok: "vault_ok st a" and p: "cells st a p = Some (Some y)" and j: "gt_items st y = Some j"
    and n: "unat (bi_count j) + unat n \<le> unat (bi_stackable j)"
  shows "vault_ok (SetCount y (bi_count j + n) st) a"
    and "away {p} {} a st (SetCount y (bi_count j + n) st)"
    and "adds (bi_entry j) (unat n) a st (SetCount y (bi_count j + n) st)"
proof -
  let ?j = "j\<lparr>bi_count := bi_count j + n\<rparr>" and ?s = "SetCount y (bi_count j + n) st"
  have sj: "stack_ok j" using soundD(2) [OF vault_okD(3) [OF ok] p] j by simp
  have plus: "unat (bi_count j + n) = unat (bi_count j) + unat n"
    using n sj by (intro unat_plus_simple [THEN iffD1] ) (auto simp: stack_ok_def word_le_nat_alt unat_plus_if' split: if_splits)
  have s: "?s = st\<lparr>gt_items := (gt_items st)(y \<mapsto> ?j), gt_nextItem := gt_nextItem st\<rparr>" by (simp add: SetCount_eq [OF j])
  have "stack_ok ?j" using sj n plus by (simp add: stack_ok_def word_le_nat_alt)
  thus "vault_ok ?s a" unfolding s
    by (intro items_vault_ok [OF ok j]) (use vault_okD(4) [OF ok j] in simp_all)
  show away: "away {p} {} a st ?s" unfolding s using p by (auto simp: away_def)
  show "adds (bi_entry j) (unat n) a st ?s"
    by (rule away_adds [OF ok away]) (simp_all add: s p j plus)
qed

lemma away_trans:
  assumes "away P X a st s" "away Q Y a s st'"
  shows "away (P \<union> Q) (X \<union> Y) a st st'"
proof -
  have c: "cells st' a q = cells st a q" if "q \<notin> P \<union> Q" for q using assms that by (simp add: away_def)
  have "gt_items st' z = gt_items st z \<and> (\<forall>q\<in>P \<union> Q. cells st' a q \<noteq> Some (Some z))"
    if z: "gt_items st z \<noteq> None" "z \<notin> X \<union> Y" "\<forall>q\<in>P \<union> Q. cells st a q \<noteq> Some (Some z)" for z
  proof -
    have 1: "gt_items s z = gt_items st z" "\<forall>q\<in>P. cells s a q \<noteq> Some (Some z)"
      using assms(1) z by (simp_all add: away_def)
    have "\<forall>q\<in>Q. cells s a q \<noteq> Some (Some z)"
    proof
      fix q assume "q \<in> Q"
      thus "cells s a q \<noteq> Some (Some z)" using 1(2) z(3) assms(1) by (cases "q \<in> P") (simp_all add: away_def)
    qed
    hence 2: "gt_items st' z = gt_items s z" "\<forall>q\<in>Q. cells st' a q \<noteq> Some (Some z)"
      using assms(2) z 1(1) by (simp_all add: away_def)
    have "\<forall>q\<in>P. cells st' a q \<noteq> Some (Some z)"
    proof
      fix q assume "q \<in> P"
      thus "cells st' a q \<noteq> Some (Some z)" using 1(2) 2(2) assms(2) by (cases "q \<in> Q") (simp_all add: away_def)
    qed
    thus ?thesis using 1(1) 2 by auto
  qed
  thus ?thesis using c assms unfolding away_def by auto
qed

lemma away_loose:
  assumes "away P X a st st'" "gt_items st z = Some i" "loose st a z" "z \<notin> X"
  shows "gt_items st' z = Some i" "loose st' a z"
proof -
  have "gt_items st z \<noteq> None" "\<forall>q\<in>P. cells st a q \<noteq> Some (Some z)" using assms(2,3) by (auto simp: loose_def)
  hence "gt_items st' z = gt_items st z" "\<forall>q\<in>P. cells st' a q \<noteq> Some (Some z)"
    using assms(1,4) unfolding away_def by blast+
  thus "gt_items st' z = Some i" "loose st' a z" using assms(1-3) unfolding away_def loose_def by metis+
qed

lemma away_mono: "away P X a st st' \<Longrightarrow> X \<subseteq> Y \<Longrightarrow> away P Y a st st'"
  by (auto simp: away_def)

lemma away_fresh: "away P (insert x X) a st st' \<Longrightarrow> gt_items st x = None \<Longrightarrow> away P X a st st'"
  unfolding away_def by (metis insertE)

lemma away_sql [simp]: "away P X a st (u_sql qs st') = away P X a st st'" "away P X a (u_sql qs st) st' = away P X a st st'"
  by (simp_all add: away_def)

lemma adds_trans: "adds k m a st s \<Longrightarrow> adds k n a s st' \<Longrightarrow> adds k (m + n) a st st'"
  by (simp add: adds_def)

lemma adds_sql [simp]: "adds k n a st (u_sql qs st') = adds k n a st st'" "adds k n a (u_sql qs st) st' = adds k n a st st'"
  by (simp_all add: adds_def held_def)

lemma vault_ok_sql [simp]: "vault_ok (u_sql qs st) a = vault_ok st a"
  by (rule vault_ok_hoard) simp

text \<open>An item outside the vault is made, changed or deleted.\<close>

lemma loose_item:
  assumes ok: "vault_ok st a" and x: "loose st a x" and z: "gt_items st z = Some j" "bi_entry j = bi_entry i" "bi_stackable j = bi_stackable i"
    and n: "x < n" "gt_nextItem st \<le> n" and h: "gt_heap s = gt_heap st"
  defines "s' \<equiv> s\<lparr>gt_items := (gt_items st)(x \<mapsto> i), gt_nextItem := n\<rparr>"
  shows "vault_ok s' a" "away {} {x} a st s'" "\<And>k. adds k 0 a st s'" "loose s' a x" "cells s' a = cells st a"
proof -
  have g: "gld s' a = gld st a" by (simp add: gld_def h s'_def)
  show c: "cells s' a = cells st a" by (simp add: cells_def g fun_eq_iff)
  show "vault_ok s' a" unfolding s'_def
    by (rule items_vault_ok [OF ok z _ n h]) (use x in \<open>simp add: loose_def\<close>)
  show "away {} {x} a st s'" by (simp add: away_def c g) (simp add: s'_def)
  show "loose s' a x" using x by (simp add: loose_def c)
  show "adds k 0 a st s'" for k
  proof -
    have "worth k' (gt_items s') (cells s' a p) = worth k' (gt_items st) (cells st a p)" for k' p
    proof -
      have "worth k' ((gt_items st)(x \<mapsto> i)) (cells st a p) = worth k' (gt_items st) (cells st a p)"
        using x by (auto simp: worth_def loose_def split: option.split)
      thus ?thesis by (simp add: c) (simp add: s'_def)
    qed
    thus ?thesis by (simp add: adds_def held_def)
  qed
qed

lemma loose_delete:
  assumes ok: "vault_ok st a" and x: "loose st a x"
  shows "vault_ok (delete_item x st) a" "away {} {x} a st (delete_item x st)" "adds k 0 a st (delete_item x st)"
proof -
  have e: "delete_item x st = st\<lparr>gt_items := (gt_items st)(x := None)\<rparr>" by (simp add: delete_item_def)
  have "sound (cells st a) ((gt_items st)(x := None))"
    by (rule sound_drop [OF vault_okD(3) [OF ok]]) (use x in \<open>simp add: loose_def\<close>)
  thus "vault_ok (delete_item x st) a"
    using vault_okD [OF ok] unfolding e by (intro vault_okI) (auto split: if_splits)
  show "away {} {x} a st (delete_item x st)" by (simp add: away_def e)
  have "worth k' ((gt_items st)(x := None)) (cells st a p) = worth k' (gt_items st) (cells st a p)" for k' p
    using x by (auto simp: worth_def loose_def split: option.split)
  thus "adds k 0 a st (delete_item x st)" by (simp add: adds_def held_def e)
qed

lemma fresh_loose: "vault_ok st a \<Longrightarrow> loose st a (gt_nextItem st)"
  using vault_lives vault_okD(5) unfolding loose_def by blast

definition stored :: "u32 \<Rightarrow> nat \<Rightarrow> nat \<Rightarrow> place set \<Rightarrow> nat set \<Rightarrow> gust \<Rightarrow> gust \<Rightarrow> bool" where
  "stored k n a P X st st' \<longleftrightarrow> vault_ok st' a \<and> adds k n a st st' \<and> away P X a st st'"

lemma store_in_empty:
  assumes ok: "vault_ok st a" and p: "cells st a p = Some None" and y: "loose st a y" "y < m" "gt_nextItem st \<le> m"
    and z: "gt_items st z = Some j" "bi_entry j = bi_entry c" "bi_stackable j = bi_stackable c" and c: "stack_ok c"
    and h: "gt_heap s = gt_heap st"
  defines "s' \<equiv> s\<lparr>gt_items := (gt_items st)(y \<mapsto> c), gt_nextItem := m\<rparr>"
  shows "stored (bi_entry c) (unat (bi_count c)) a {p} {y} st (upd_gld a (set_slot (fst p) (snd p) (Some y)) s')"
proof -
  note l = loose_item [OF ok y(1) z y(2,3) h, folded s'_def]
  have q: "cells s' a p = Some None" using p l(5) by simp
  have it: "gt_items s' y = Some c" by (simp add: s'_def)
  note st = store_loose [OF l(1) q it c l(4)]
  show ?thesis
    using st(1) adds_trans [OF l(3) st(3)] away_trans [OF l(2) st(2)] by (simp add: stored_def)
qed

lemma store_at_ok:
  assumes ok: "vault_ok st a" and x: "gt_items st x = Some i" "stack_ok i" "loose st a x"
    and room: "room st a i (tab, slot) (unat n)"
  shows "\<exists>y st'. store_at e a tab slot x n clone st = Some (y, st') \<and>
    stored (bi_entry i) (unat n) a {(tab, slot)} (if clone then {} else {x}) st st'"
proof -
  let ?p = "(tab, slot)"
  have n: "1 \<le> n" using room by (simp add: room_def word_le_nat_alt)
  from room obtain q where q: "cells st a ?p = Some q" by (auto simp: room_def split: option.splits)
  have sl: "slot_at tab slot (gld st a) = Some q" using q by (simp add: cells_def)
  have next_item: "x < gt_nextItem st" by (rule vault_okD(4) [OF ok x(1)])
  show ?thesis
  proof (cases q)
    case None
    have le: "n \<le> bi_stackable i" using room q None by (simp add: room_def word_le_nat_alt)
    show ?thesis
    proof (cases clone)
      case True
      let ?y = "gt_nextItem st"
      from CloneItem_ok [OF x(1) n le, of e] obtain c s where cl:
        "CloneItem e x n st = Some (Some ?y, s\<lparr>gt_items := (gt_items st)(?y \<mapsto> c), gt_nextItem := Suc ?y\<rparr>)"
        and c: "bi_entry c = bi_entry i" "bi_stackable c = bi_stackable i" "bi_count c = n" and h: "gt_heap s = gt_heap st" by metis
      have "stack_ok c" using c n le x(2) by (simp add: stack_ok_def)
      from store_in_empty [OF ok _ fresh_loose [OF ok] lessI le_SucI [OF order_refl] x(1) _ _ this h, of ?p] q None c
      have "stored (bi_entry i) (unat n) a {?p} {?y} st (upd_gld a (set_slot tab slot (Some ?y))
          (s\<lparr>gt_items := (gt_items st)(?y \<mapsto> c), gt_nextItem := Suc ?y\<rparr>))" by simp
      moreover from this have "stored (bi_entry i) (unat n) a {?p} {} st (upd_gld a (set_slot tab slot (Some ?y))
          (s\<lparr>gt_items := (gt_items st)(?y \<mapsto> c), gt_nextItem := Suc ?y\<rparr>))"
        using away_fresh vault_okD(5) [OF ok] unfolding stored_def by blast
      ultimately show ?thesis
        using True None sl cl by (simp add: store_at_def stored_def)
    next
      case False
      let ?c = "i\<lparr>bi_count := n\<rparr>"
      have s: "SetCount x n st = st\<lparr>gt_items := (gt_items st)(x \<mapsto> ?c), gt_nextItem := gt_nextItem st\<rparr>"
        by (simp add: SetCount_eq [OF x(1)])
      have "stack_ok ?c" using n le x(2) by (simp add: stack_ok_def)
      from store_in_empty [OF ok _ x(3) next_item order_refl x(1) _ _ this refl, of ?p] q None
      show ?thesis
        using False None sl by (simp add: store_at_def s stored_def)
    qed
  next
    case (Some y)
    from room q Some obtain j where j: "gt_items st y = Some j" "bi_entry j = bi_entry i" "unat (bi_count j) + unat n \<le> unat (bi_stackable i)"
      by (auto simp: room_def)
    have "bi_stackable j = bi_stackable i" by (rule kinds_okD [OF soundD(1) [OF vault_okD(3) [OF ok]] j(1) x(1) j(2)])
    with j(3) have le: "unat (bi_count j) + unat n \<le> unat (bi_stackable j)" by simp
    note g = grow_stack [OF ok _ j(1) le, of ?p, unfolded q Some j(2), OF refl]
    let ?s = "u_sql [OnBank (QSaveItem y)] (SetCount y (bi_count j + n) st)"
    let ?d = "u_sql [OnBank (QDeleteItemInstance x)] ?s"
    have "vault_ok ?d a" "loose ?d a x" using g(1) x(3) by (simp_all add: SetCount_eq [OF j(1)] loose_def)
    note d = loose_delete [OF this]
    have "store_at e a tab slot x n clone st = Some (Some y, if clone then ?s else delete_item x ?d)"
      using Some sl j(1) by (simp add: store_at_def)
    moreover have "stored (bi_entry i) (unat n) a {?p} {} st ?s" using g by (simp add: stored_def)
    moreover have "stored (bi_entry i) (unat n) a {?p} {x} st (delete_item x ?d)"
      using d(1) adds_trans [OF g(3), of 0] away_trans [OF g(2), of "{}" "{x}"] d(2,3) by (simp add: stored_def)
    ultimately show ?thesis by simp
  qed
qed

lemma unat_u8_u32 [simp]: "unat (ucast (n :: u8) :: u32) = unat n"
proof -
  have "unat n < 2 ^ LENGTH(8)" by (rule unsigned_less)
  thus ?thesis by (simp add: unsigned_ucast_eq take_bit_nat_eq_self)
qed

text \<open>A whole list of positions.\<close>

lemma room_away:
  assumes "vault_ok st a" "away {p} {} a st st'" "q \<noteq> p" "room st a i q n"
  shows "room st' a i q n"
proof -
  have c: "cells st' a q = cells st a q" using assms(2,3) by (simp add: away_def)
  have "gt_items st' y = gt_items st y" if y: "cells st a q = Some (Some y)" for y
  proof -
    have "gt_items st y \<noteq> None" by (rule vault_lives [OF assms(1) y])
    moreover have "cells st a p \<noteq> Some (Some y)" using soundD(3) [OF vault_okD(3) [OF assms(1)] y] assms(3) by blast
    ultimately show ?thesis using assms(2) by (simp add: away_def del: not_None_eq)
  qed
  with assms(4) show ?thesis by (simp add: room_def c split: option.splits)
qed

lemma Guild_StoreItem_ok:
  assumes "vault_ok st a" "gt_items st x = Some i" "stack_ok i" "loose st a x" "dest \<noteq> []" "distinct (map fst dest)"
    and "\<forall>d\<in>set dest. room st a i (tab, fst d) (unat (snd d))"
  shows "\<exists>y st'. Guild_StoreItem e a tab dest x st = Some (y, st') \<and>
    stored (bi_entry i) (sum_list (map (unat \<circ> snd) dest)) a (Pair tab ` fst ` set dest) {x} st st'"
  using assms
proof (induction e a tab dest x st rule: Guild_StoreItem.induct)
  case (2 e a tab slot count x st)
  from 2 store_at_ok [OF 2(1-4), of tab slot "ucast count" e False] show ?case by simp
next
  case (3 e a tab slot count d ds x st)
  from 3(8) store_at_ok [OF 3(2-5), of tab slot "ucast count" e True] obtain y s where
    s: "store_at e a tab slot x (ucast count) True st = Some (y, s)"
    and st: "stored (bi_entry i) (unat count) a {(tab, slot)} {} st s" by auto
  have aw: "away {(tab, slot)} {} a st s" and ok: "vault_ok s a" and ad: "adds (bi_entry i) (unat count) a st s"
    using st by (simp_all add: stored_def)
  have it: "gt_items s x = Some i" "loose s a x"
    using aw 3(3,5) unfolding away_def loose_def by (simp_all, metis singletonD)
  have "\<forall>d'\<in>set (d # ds). room s a i (tab, fst d') (unat (snd d'))"
  proof
    fix d' assume d': "d' \<in> set (d # ds)"
    hence "fst d' \<noteq> slot" using 3(7) by auto
    thus "room s a i (tab, fst d') (unat (snd d'))"
      by (intro room_away [OF 3(2) aw]) (use 3(8) d' in auto)
  qed
  moreover have "d # ds \<noteq> []" "distinct (map fst (d # ds))" using 3(7) by simp_all
  ultimately obtain y' st' where
    r: "Guild_StoreItem e a tab (d # ds) x s = Some (y', st')"
    and st': "stored (bi_entry i) (sum_list (map (unat \<circ> snd) (d # ds))) a (Pair tab ` fst ` set (d # ds)) {x} s st'"
    using 3(1) [OF s refl ok it(1) 3(4) it(2)] by blast
  have "stored (bi_entry i) (unat count + sum_list (map (unat \<circ> snd) (d # ds))) a
      ({(tab, slot)} \<union> Pair tab ` fst ` set (d # ds)) ({} \<union> {x}) st st'"
    using st' adds_trans [OF ad] away_trans [OF aw] unfolding stored_def by blast
  moreover have "Guild_StoreItem e a tab ((slot, count) # d # ds) x st = Some (y', st')" using s r by simp
  ultimately show ?case by (simp add: comp_def insert_commute)
qed simp

section \<open>Searching room\<close>

text \<open>
  The list of positions a search has found: different places of the tab, each with room for what it
  is to take, and what is left. Places where the item itself lies count as empty, as does the place
  asked for when the item there is to be swapped.
\<close>

definition space :: "gust \<Rightarrow> nat \<Rightarrow> nat \<Rightarrow> bank_item \<Rightarrow> place set \<Rightarrow> place \<Rightarrow> nat \<Rightarrow> bool" where
  "space st a src i E p n \<longleftrightarrow> 1 \<le> n \<and>
     (case cells st a p of
        None \<Rightarrow> False
      | Some None \<Rightarrow> n \<le> unat (bi_stackable i)
      | Some (Some y) \<Rightarrow> (if y = src \<or> p \<in> E then n \<le> unat (bi_stackable i)
          else \<exists>j. gt_items st y = Some j \<and> bi_entry j = bi_entry i \<and> unat (bi_count j) + n \<le> unat (bi_stackable i)))"

definition found :: "gust \<Rightarrow> nat \<Rightarrow> u8 \<Rightarrow> nat \<Rightarrow> bank_item \<Rightarrow> place set \<Rightarrow> u32 \<Rightarrow> pos_count list \<times> u32 \<Rightarrow> bool" where
  "found st a tab src i E count dc \<longleftrightarrow>
     distinct (map fst (fst dc)) \<and>
     (\<forall>d\<in>set (fst dc). space st a src i E (tab, fst d) (unat (snd d))) \<and>
     sum_list (map (unat \<circ> snd) (fst dc)) + unat (snd dc) = unat count"

lemma push_pos_found:
  assumes f: "found st a tab src i E count dc" and left: "1 \<le> snd dc" and need: "1 \<le> need" "need \<le> 255" and j: "j < 256"
    and sp: "\<And>n. 1 \<le> n \<Longrightarrow> n \<le> unat need \<Longrightarrow> space st a src i E (tab, word_of_nat j) n"
  shows "found st a tab src i E count (push_pos j need dc)"
proof -
  obtain dest rest where dc: "dc = (dest, rest)" by (cases dc)
  let ?n = "min need rest"
  have n: "1 \<le> unat ?n" "unat ?n \<le> unat need" "unat ?n \<le> unat rest" "unat ?n \<le> 255"
    using left need dc by (auto simp: min_def word_le_nat_alt)
  have u: "unat (ucast ?n :: u8) = unat ?n" using n(4) by (simp add: unsigned_ucast_eq take_bit_nat_eq_self)
  have m: "unat (rest - ?n) = unat rest - unat ?n" by (rule unat_sub) simp
  show ?thesis
  proof (cases "word_of_nat j \<in> fst ` set dest")
    case True
    thus ?thesis using f by (simp add: push_pos_def dc Let_def)
  next
    case False
    thus ?thesis using f sp [OF n(1,2)] n(3) m u by (auto simp: push_pos_def dc Let_def found_def)
  qed
qed

abbreviation n_tabs :: "gust \<Rightarrow> nat \<Rightarrow> nat" where
  "n_tabs st a \<equiv> length (m_TabListMap (gld st a))"

lemma cells_valid:
  assumes "vault_ok st a"
  shows "cells st a p \<noteq> None \<longleftrightarrow> unat (fst p) < n_tabs st a \<and> unat (snd p) < GUILD_BANK_MAX_SLOTS"
proof (cases "unat (fst p) < n_tabs st a")
  case True
  then obtain b where "m_TabListMap (gld st a) ! unat (fst p) = Some b" "length (bt_Slots b) = GUILD_BANK_MAX_SLOTS"
    using vault_okD(2) [OF assms] nth_mem [OF True] unfolding tabs_ok_def by blast
  thus ?thesis using True by (simp add: cells_def slot_at_def GetBankTab_def)
qed (simp add: cells_def slot_at_def GetBankTab_def)

lemma slot_of_nat: "j < GUILD_BANK_MAX_SLOTS \<Longrightarrow> unat (word_of_nat j :: u8) = j"
  by (simp add: unat_of_nat take_bit_nat_eq_self)

lemma stackable_bounds: "stack_ok i \<Longrightarrow> 1 \<le> bi_stackable i \<and> bi_stackable i \<le> 255"
  unfolding stack_ok_def by (meson order_trans)

text \<open>The room left on a stack of the same kind.\<close>

lemma stack_space:
  assumes "vault_ok st a" "cells st a p = Some (Some y)" "gt_items st y = Some j" "gt_items st src = Some i" "stack_ok i"
    and "bi_entry j = bi_entry i" "bi_count j < bi_stackable i"
  shows "1 \<le> bi_stackable i - bi_count j" "bi_stackable i - bi_count j \<le> 255"
    and "y \<noteq> src \<Longrightarrow> p \<notin> E \<Longrightarrow> 1 \<le> n \<Longrightarrow> n \<le> unat (bi_stackable i - bi_count j) \<Longrightarrow> space st a src i E p n"
proof -
  have u: "unat (bi_stackable i - bi_count j) = unat (bi_stackable i) - unat (bi_count j)"
    using assms(7) by (intro unat_sub) simp
  show "1 \<le> bi_stackable i - bi_count j" "bi_stackable i - bi_count j \<le> 255"
    using assms(7) stackable_bounds [OF assms(5)] u by (simp_all add: word_le_nat_alt word_less_nat_alt)
  show "space st a src i E p n" if "y \<noteq> src" "p \<notin> E" "1 \<le> n" "n \<le> unat (bi_stackable i - bi_count j)"
    using that assms u by (simp add: space_def word_less_nat_alt)
qed

lemma try_slot_ok:
  assumes ok: "vault_ok st a" and i: "gt_items st src = Some i" "stack_ok i"
    and p: "cells st a (tab, word_of_nat j) = Some p" "j < 256" "(tab, word_of_nat j) \<notin> E"
    and f: "found st a tab src i E count dc" "1 \<le> snd dc"
  shows "\<exists>dc'. try_slot merge src p j st dc = Some dc' \<and> found st a tab src i E count dc' \<and>
    (length (fst dc') > length (fst dc) \<or> dc' = dc)"
proof -
  note st = stackable_bounds [OF i(2)]
  have grown: "length (fst (push_pos j need dc)) > length (fst dc) \<or> push_pos j need dc = dc" for need
    by (cases dc) (simp add: push_pos_def Let_def)
  show ?thesis
  proof (cases "p = None \<or> p = Some src")
    case True
    have "space st a src i E (tab, word_of_nat j) n" if "1 \<le> n" "n \<le> unat (bi_stackable i)" for n
      using True p that by (auto simp: space_def)
    from push_pos_found [OF f st [THEN conjunct1] st [THEN conjunct2] p(2) this] grown [of "bi_stackable i"]
    show ?thesis using True f i by (cases merge) (auto simp: try_slot_def)
  next
    case False
    then obtain y where y: "p = Some y" "y \<noteq> src" by auto
    obtain k where k: "gt_items st y = Some k" using vault_lives [OF ok p(1) [unfolded y(1)]] by blast
    show ?thesis
    proof (cases "merge \<and> bi_entry k = bi_entry i \<and> bi_count k < bi_stackable i")
      case True
      note sp = stack_space [OF ok p(1) [unfolded y(1)] k i]
      from True have "found st a tab src i E count (push_pos j (bi_stackable i - bi_count k) dc)"
        using y(2) p(3) by (intro push_pos_found [OF f sp(1,2) p(2) sp(3)]) simp_all
      thus ?thesis using True y k i grown [of "bi_stackable i - bi_count k"] by (simp add: try_slot_def)
    next
      case False
      thus ?thesis using y k i f by (auto simp: try_slot_def)
    qed
  qed
qed

lemma InTab_ok:
  assumes "vault_ok st a" "gt_items st src = Some i" "stack_ok i" "unat tab < n_tabs st a"
    and "\<forall>j\<in>set js. j < GUILD_BANK_MAX_SLOTS" "E \<subseteq> {(tab, skip)}"
    and "found st a tab src i E count dc" "1 \<le> snd dc"
  shows "\<exists>dc'. CanStoreItem_InTab a tab dc merge src skip js st = Some dc' \<and> found st a tab src i E count dc'"
  using assms(5,7,8)
proof (induction js arbitrary: dc)
  case (Cons j js)
  have j: "unat (word_of_nat j :: u8) = j" "j < 256" using Cons.prems(1) by (simp_all add: slot_of_nat)
  show ?case
  proof (cases "j = unat skip")
    case True
    with Cons show ?thesis by simp
  next
    case False
    obtain p where p: "cells st a (tab, word_of_nat j) = Some p"
      using cells_valid [OF assms(1), of "(tab, word_of_nat j)"] assms(4) Cons.prems(1) j by auto
    have E: "(tab, word_of_nat j) \<notin> E" using assms(6) False j by auto
    from try_slot_ok [OF assms(1-3) p j(2) E Cons.prems(2,3), of merge] obtain dc' where
      t: "try_slot merge src p j st dc = Some dc'" "found st a tab src i E count dc'" "length (fst dc') > length (fst dc) \<or> dc' = dc" by blast
    have s: "slot_at tab (word_of_nat j) (gld st a) = Some p" using p by (simp add: cells_def)
    show ?thesis
    proof (cases "length (fst dc') > length (fst dc) \<and> snd dc' = 0")
      case True
      thus ?thesis using False s t by simp
    next
      case nz: False
      have "1 \<le> snd dc'" using nz t(3) Cons.prems(3) by (auto simp: word_le_nat_alt unat_gt_0 Suc_le_eq)
      from Cons.IH [OF _ t(2) this] Cons.prems(1) nz False s t show ?thesis by auto
    qed
  qed
qed simp

lemma InSpecificSlot_ok:
  assumes ok: "vault_ok st a" and i: "gt_items st src = Some i" "stack_ok i" and p: "cells st a (tab, slot) \<noteq> None"
    and f: "found st a tab src i E count dc" "1 \<le> snd dc" and E: "swap \<Longrightarrow> E = {(tab, slot)}" "\<not> swap \<Longrightarrow> E = {}"
  shows "\<exists>res dc'. CanStoreItem_InSpecificSlot a tab slot dc swap src st = Some (res, dc') \<and>
    (res = EQUIP_ERR_OK \<longrightarrow> found st a tab src i E count dc')"
proof -
  obtain q where q: "cells st a (tab, slot) = Some q" using p by auto
  hence s: "slot_at tab slot (gld st a) = Some q" by (simp add: cells_def)
  have j: "word_of_nat (unat slot) = slot" "unat slot < 256" using unsigned_less [of slot] by simp_all
  note st = stackable_bounds [OF i(2)]
  show ?thesis
  proof (cases "q = None \<or> q = Some src \<or> swap")
    case True
    have "space st a src i E (tab, word_of_nat (unat slot)) n" if "1 \<le> n" "n \<le> unat (bi_stackable i)" for n
      using True q that E(1) unfolding j(1) by (auto simp: space_def split: option.split)
    from push_pos_found [OF f st [THEN conjunct1] st [THEN conjunct2] j(2) this]
    have "found st a tab src i E count (push_pos (unat slot) (bi_stackable i) dc)" .
    moreover have "(if q = Some src \<or> swap then None else q) = None" using True by auto
    ultimately show ?thesis using s i by (simp add: CanStoreItem_InSpecificSlot_def)
  next
    case False
    then obtain y where y: "q = Some y" "y \<noteq> src" "\<not> swap" by auto
    obtain k where k: "gt_items st y = Some k" using vault_lives [OF ok q [unfolded y(1)]] by blast
    show ?thesis
    proof (cases "bi_entry k \<noteq> bi_entry i \<or> bi_count k \<ge> bi_stackable i")
      case True
      thus ?thesis using s i k y by (simp add: CanStoreItem_InSpecificSlot_def)
    next
      case fits: False
      hence "bi_entry k = bi_entry i" "bi_count k < bi_stackable i" by auto
      note sp = stack_space [OF ok q [unfolded y(1)] k i this]
      have "found st a tab src i E count (push_pos (unat slot) (bi_stackable i - bi_count k) dc)"
        by (rule push_pos_found [OF f sp(1,2) j(2)]) (use sp(3) y E(2) in \<open>simp add: j(1)\<close>)
      thus ?thesis using s i k y fits by (simp add: CanStoreItem_InSpecificSlot_def)
    qed
  qed
qed

lemma CanStoreItem_ok:
  assumes ok: "vault_ok st a" and i: "gt_items st src = Some i" "stack_ok i" and tab: "unat tab < n_tabs st a"
    and slot: "unat slot < GUILD_BANK_MAX_SLOTS" and count: "1 \<le> count"
    and E_def: "E = (if swap then {(tab, slot)} else {})"
  shows "\<exists>res dest. Guild_CanStoreItem a tab slot count src swap st = Some (res, dest) \<and>
    (res = EQUIP_ERR_OK \<longrightarrow> found st a tab src i E count (dest, 0) \<and> dest \<noteq> [])"
proof -
  let ?js = "[0..<GUILD_BANK_MAX_SLOTS]"
  have ns: "slot \<noteq> NULL_SLOT" using slot by auto
  have f0: "found st a tab src i E count ([], count)" by (simp add: found_def)
  have nonempty: "dest \<noteq> []" if "found st a tab src i E count (dest, 0)" for dest
    using that count by (auto simp: found_def word_le_nat_alt)
  have p: "cells st a (tab, slot) \<noteq> None" using cells_valid [OF ok] tab slot by simp
  have tab_loop: "\<exists>dc'. CanStoreItem_InTab a tab dc merge src slot ?js st = Some dc' \<and> found st a tab src i E count dc'"
    if "found st a tab src i E count dc" "snd dc \<noteq> 0" for dc merge
    using that by (intro InTab_ok [OF ok i tab]) (auto simp: E_def word_le_nat_alt unat_gt_0 Suc_le_eq)
  from InSpecificSlot_ok [OF ok i p f0, of swap] count obtain res dc where
    sp: "CanStoreItem_InSpecificSlot a tab slot ([], count) swap src st = Some (res, dc)" "res = EQUIP_ERR_OK \<longrightarrow> found st a tab src i E count dc"
    by (auto simp: E_def)
  show ?thesis
  proof (cases "count > bi_count i \<or> bi_soulbound i \<or> res \<noteq> EQUIP_ERR_OK")
    case True
    thus ?thesis using ns sp i by (auto simp: Guild_CanStoreItem_def)
  next
    case ok': False
    hence f: "found st a tab src i E count dc" using sp(2) by simp
    show ?thesis
    proof (cases "snd dc = 0")
      case True
      hence "found st a tab src i E count (fst dc, 0)" using f by (metis prod.collapse)
      thus ?thesis using True ns sp i ok' nonempty by (auto simp: Guild_CanStoreItem_def)
    next
      case left: False
      have "\<exists>dc2. (if bi_stackable i > 1 then CanStoreItem_InTab a tab dc True src slot ?js st else Some dc) = Some dc2 \<and>
          found st a tab src i E count dc2"
        using tab_loop [OF f left, of True] f by auto
      then obtain dc2 where 2: "(if bi_stackable i > 1 then CanStoreItem_InTab a tab dc True src slot ?js st else Some dc) = Some dc2"
        "found st a tab src i E count dc2" by blast
      show ?thesis
      proof (cases "bi_stackable i > 1 \<and> snd dc2 = 0")
        case True
        hence "found st a tab src i E count (fst dc2, 0)" using 2(2) by (metis prod.collapse)
        thus ?thesis using True 2(1) left ns sp i ok' nonempty by (auto simp: Guild_CanStoreItem_def)
      next
        case False
        have "snd dc2 \<noteq> 0" using False 2 left by (auto split: if_splits)
        from tab_loop [OF 2(2) this, of False] obtain dc3 where
          3: "CanStoreItem_InTab a tab dc2 False src slot ?js st = Some dc3" "found st a tab src i E count dc3" by blast
        have "found st a tab src i E count (fst dc3, 0)" if "snd dc3 = 0" using 3(2) that by (metis prod.collapse)
        thus ?thesis using False 2(1) 3(1) left ns sp i ok' nonempty by (auto simp: Guild_CanStoreItem_def)
      qed
    qed
  qed
qed

section \<open>Moves inside the bank\<close>

definition conserves :: "nat \<Rightarrow> gust \<Rightarrow> gust \<Rightarrow> bool" where
  "conserves a st st' \<longleftrightarrow> vault_ok st' a \<and> (\<forall>k. held k st' a = held k st a) \<and> n_tabs st' a = n_tabs st a"

lemma conserves_hoard:
  assumes "vault_ok st a" "hoard st' a = hoard st a"
  shows "conserves a st st'"
  using assms(1) by (simp add: conserves_def vault_ok_hoard [OF assms(2)] held_hoard [OF assms(2)] hoardD(6) [OF assms(2)])

lemma conserves_trans: "conserves a st s \<Longrightarrow> conserves a s st' \<Longrightarrow> conserves a st st'"
  by (simp add: conserves_def)

lemma shrink_stack:
  assumes ok: "vault_ok st a" and p: "cells st a p = Some (Some y)" and j: "gt_items st y = Some j" and n: "n < bi_count j"
  shows "vault_ok (SetCount y (bi_count j - n) st) a" "cells (SetCount y (bi_count j - n) st) a = cells st a"
    "held k (SetCount y (bi_count j - n) st) a + (if k = bi_entry j then unat n else 0) = held k st a"
    "n_tabs (SetCount y (bi_count j - n) st) a = n_tabs st a"
proof -
  let ?j = "j\<lparr>bi_count := bi_count j - n\<rparr>" and ?s = "SetCount y (bi_count j - n) st"
  have sj: "stack_ok j" using soundD(2) [OF vault_okD(3) [OF ok] p] j by simp
  have u: "unat (bi_count j - n) = unat (bi_count j) - unat n" "unat n < unat (bi_count j)"
    using n unat_sub [OF less_imp_le [OF n]] by (simp_all add: word_less_nat_alt)
  have s: "?s = st\<lparr>gt_items := (gt_items st)(y \<mapsto> ?j), gt_nextItem := gt_nextItem st\<rparr>" by (simp add: SetCount_eq [OF j])
  have "stack_ok ?j" using sj u by (auto simp: stack_ok_def word_le_nat_alt)
  thus "vault_ok ?s a" unfolding s by (intro items_vault_ok [OF ok j]) (use vault_okD(4) [OF ok j] in simp_all)
  show c: "cells ?s a = cells st a" by (simp add: s)
  show "n_tabs ?s a = n_tabs st a" by (simp add: s)
  have "held k ?s a + worth k (gt_items st) (cells st a p) = held k st a + worth k (gt_items ?s) (cells ?s a p)"
  proof (rule held_change)
    fix q assume "q \<noteq> p"
    hence "cells st a q \<noteq> Some (Some y)" using soundD(3) [OF vault_okD(3) [OF ok] p, of q] by blast
    thus "worth k (gt_items ?s) (cells ?s a q) = worth k (gt_items st) (cells st a q)"
      by (auto simp: s worth_def split: option.split)
  qed
  thus "held k ?s a + (if k = bi_entry j then unat n else 0) = held k st a"
    using u p j by (auto simp: s)
qed

lemma found_le: "found st a tab src i E count (dest, 0) \<Longrightarrow> d \<in> set dest \<Longrightarrow> unat (snd d) \<le> unat count"
  using member_le_sum_list [of "unat (snd d)" "map (unat \<circ> snd) dest"] by (force simp: found_def)

text \<open>Storing what a search has found room for, once the item is loose.\<close>

lemma store_found:
  assumes ok: "vault_ok s a" and x: "gt_items s x = Some c" "stack_ok c" "loose s a x"
    and c: "bi_entry c = bi_entry i"
    and f: "found st a tab src i E count (dest, 0)" "dest \<noteq> []"
    and room: "\<And>p n. space st a src i E p n \<Longrightarrow> n \<le> unat count \<Longrightarrow> fst p = tab \<Longrightarrow> room s a c p n"
  shows "\<exists>y st'. Guild_StoreItem e a tab dest x s = Some (y, st') \<and>
    stored (bi_entry i) (unat count) a (Pair tab ` fst ` set dest) {x} s st'"
proof -
  have "\<forall>d\<in>set dest. room s a c (tab, fst d) (unat (snd d))"
    using f(1) found_le [OF f(1)] by (auto simp: found_def intro!: room)
  from Guild_StoreItem_ok [OF ok x f(2) _ this, of e] f(1) c show ?thesis
    by (auto simp: found_def)
qed

lemma bank_split_ok:
  assumes ok: "vault_ok st a" and p: "cells st a p = Some (Some src)" and i: "gt_items st src = Some i"
    and n: "n \<noteq> 0" "unat n < unat (bi_count i)" and dst: "unat dstTab < n_tabs st a" "unat dstSlot < GUILD_BANK_MAX_SLOTS"
  shows "\<exists>b st'. bank_split e a me tab dstTab dstSlot n src st = Some (b, st') \<and> conserves a st st'"
proof -
  have si: "stack_ok i" using soundD(2) [OF vault_okD(3) [OF ok] p] i by simp
  have u: "1 \<le> (ucast n :: u32)" "ucast n < bi_count i" "ucast n \<le> bi_stackable i"
    using n si by (auto simp: stack_ok_def word_le_nat_alt word_less_nat_alt Suc_le_eq unat_gt_0)
  from CanStoreItem_ok [OF ok i si dst u(1) refl, of False] obtain res dest where
    can: "Guild_CanStoreItem a dstTab dstSlot (ucast n) src False st = Some (res, dest)"
    and f: "res = EQUIP_ERR_OK \<longrightarrow> found st a dstTab src i {} (ucast n) (dest, 0) \<and> dest \<noteq> []" by auto
  show ?thesis
  proof (cases "res = EQUIP_ERR_OK")
    case False
    have "conserves a st (equip_error me res st)" by (rule conserves_hoard [OF ok]) simp
    with False can show ?thesis by (auto simp: bank_split_def)
  next
    case True
    let ?x = "gt_nextItem st"
    from CloneItem_ok [OF i u(1,3), of e] obtain c s where cl:
      "CloneItem e src (ucast n) st = Some (Some ?x, s\<lparr>gt_items := (gt_items st)(?x \<mapsto> c), gt_nextItem := Suc ?x\<rparr>)"
      and c: "bi_entry c = bi_entry i" "bi_stackable c = bi_stackable i" "bi_count c = ucast n" and h: "gt_heap s = gt_heap st" by metis
    define s1 where "s1 = s\<lparr>gt_items := (gt_items st)(?x \<mapsto> c), gt_nextItem := Suc ?x\<rparr>"
    note l = loose_item [OF ok fresh_loose [OF ok] i c(1,2) [symmetric] lessI le_SucI [OF order_refl] h, folded s1_def]
    define s2 where "s2 = u_emit [UQuestCheck me (bi_entry i) n] (log_item e a GUILD_BANK_LOG_MOVE_ITEM tab me i (ucast n) dstTab s1)"
    have h2: "hoard s2 a = hoard s1 a" by (simp add: s2_def)
    note hd = hoardD [OF h2]
    have ok2: "vault_ok s2 a" using l(1) vault_ok_hoard [OF h2] by simp
    have fresh: "src \<noteq> ?x" using vault_okD(4) [OF ok i] by simp
    have p2: "cells s2 a p = Some (Some src)" and i2: "gt_items s2 src = Some i"
      using p i fresh by (simp_all add: hd l(5)) (simp_all add: s1_def)
    note sh = shrink_stack [OF ok2 p2 i2 u(2)]
    define s3 where "s3 = u_sql [OnBank (QSaveItem src)] (SetCount src (bi_count i - ucast n) s2)"
    have c3: "cells s3 a = cells st a" by (simp add: s3_def sh(2) hd l(5))
    have it3: "gt_items s3 = (gt_items st)(?x \<mapsto> c, src \<mapsto> i\<lparr>bi_count := bi_count i - ucast n\<rparr>)"
      by (simp add: s3_def SetCount_eq [OF i2] hd) (simp add: s1_def)
    have ok3: "vault_ok s3 a" using sh(1) by (simp add: s3_def)
    have x3: "gt_items s3 ?x = Some c" "stack_ok c" "loose s3 a ?x"
      using fresh c u si fresh_loose [OF ok] by (auto simp: it3 stack_ok_def loose_def c3)
    have cnt: "unat (bi_count i - ucast n) = unat (bi_count i) - unat n" using unat_sub [OF less_imp_le [OF u(2)]] by simp
    have room: "room s3 a c q m" if sp: "space st a src i {} q m" "m \<le> unat (ucast n :: u32)" for q m
    proof -
      have le: "unat (bi_count i) \<le> unat (bi_stackable i)" using si by (simp add: stack_ok_def word_le_nat_alt)
      have "y \<noteq> ?x" if "cells st a q = Some (Some y)" for y using fresh_loose [OF ok] that by (auto simp: loose_def)
      thus ?thesis using sp fresh cnt le n c by (auto simp: space_def room_def c3 it3 split: option.splits if_splits)
    qed
    from f True have f': "found st a dstTab src i {} (ucast n) (dest, 0)" "dest \<noteq> []" by auto
    from store_found [OF ok3 x3 c(1) f' room, of e] obtain y st' where
      st': "Guild_StoreItem e a dstTab dest ?x s3 = Some (y, st')"
      "stored (bi_entry i) (unat n) a (Pair dstTab ` fst ` set dest) {?x} s3 st'" by auto
    have i1: "gt_items s1 src = Some i" using i fresh by (simp add: s1_def)
    have "bank_split e a me tab dstTab dstSlot n src st = Some (True, st')"
      using can True cl i1 st'(1) by (simp add: bank_split_def s1_def [symmetric] s2_def [symmetric] s3_def [symmetric] Let_def)
    moreover have "conserves a st st'"
    proof -
      have "held k st' a = held k st a" for k
        using st'(2) sh(3) [of k] held_hoard [OF h2, of k] l(3) [of k]
        by (auto simp: stored_def adds_def s3_def held_def split: if_splits)
      moreover have "n_tabs st' a = n_tabs s3 a" "n_tabs s1 a = n_tabs st a"
        using st'(2) l(2) by (simp_all add: stored_def away_def)
      ultimately show ?thesis using st'(2) sh(4) hd(6) by (simp add: conserves_def stored_def s3_def)
    qed
    ultimately show ?thesis by blast
  qed
qed

text \<open>An item is taken out of its place.\<close>

lemma remove_ok:
  assumes ok: "vault_ok st a" and p: "cells st a (tab, slot) = Some (Some x)" and i: "gt_items st x = Some i"
  obtains s where "Guild_RemoveItem a tab slot st = Some s" "vault_ok s a" "cells s a = (cells st a)((tab, slot) := Some None)"
    "gt_items s = gt_items st" "loose s a x" "n_tabs s a = n_tabs st a"
    "\<And>k. held k s a + (if k = bi_entry i then unat (bi_count i) else 0) = held k st a"
proof -
  let ?s = "u_sql [OnBank (QDeleteItem (m_Id (gld st a)) (ucast tab) (ucast slot))] (upd_gld a (set_slot tab slot None) st)"
  have c: "cells ?s a = (cells st a)((tab, slot) := Some None)"
    using set_slot_cells [OF vault_okD(1) [OF ok], of "(tab, slot)" None] p by simp
  have only: "cells st a q \<noteq> Some (Some x)" if "q \<noteq> (tab, slot)" for q
    using soundD(3) [OF vault_okD(3) [OF ok] p, of q] that by blast
  have sl: "slot_at tab slot (gld st a) = Some (Some x)" using p by (simp add: cells_def)
  have it: "gt_items ?s = gt_items st" by simp
  show thesis
  proof (rule that)
    show "Guild_RemoveItem a tab slot st = Some ?s" using sl by (simp add: Guild_RemoveItem_def)
    show "vault_ok ?s a" using take_vault_ok [OF ok, of "(tab, slot)"] p by simp
    show "cells ?s a = (cells st a)((tab, slot) := Some None)" by (rule c)
    show "gt_items ?s = gt_items st" by (rule it)
    show "loose ?s a x" unfolding loose_def c using only by (metis fun_upd_apply option.inject option.distinct(1))
    show "n_tabs ?s a = n_tabs st a" using vault_okD(1) [OF ok] by (simp add: gld_upd_gld)
    show "held k ?s a + (if k = bi_entry i then unat (bi_count i) else 0) = held k st a" for k
    proof -
      have "held k ?s a + worth k (gt_items st) (cells st a (tab, slot)) = held k st a + worth k (gt_items ?s) (cells ?s a (tab, slot))"
        by (rule held_change) (simp only: it c fun_upd_apply if_False)
      thus ?thesis using p i c by auto
    qed
  qed
qed

text \<open>A place that is empty, or is to be emptied, takes the whole stack.\<close>

lemma CanStoreItem_empty:
  assumes i: "gt_items st src = Some i" "stack_ok i" and slot: "unat slot < GUILD_BANK_MAX_SLOTS"
    and p: "cells st a (tab, slot) = Some None \<or> swap \<and> cells st a (tab, slot) \<noteq> None"
  shows "Guild_CanStoreItem a tab slot (bi_count i) src swap st =
    Some (if bi_soulbound i then (EQUIP_ERR_CANT_DROP_SOULBOUND, []) else (EQUIP_ERR_OK, [(slot, ucast (bi_count i))]))"
proof -
  have ns: "slot \<noteq> NULL_SLOT" using slot by auto
  have le: "bi_count i \<le> bi_stackable i" using i(2) by (simp add: stack_ok_def)
  obtain q where q: "slot_at tab slot (gld st a) = Some q" "q = None \<or> swap" using p by (auto simp: cells_def)
  have "(if q = Some src \<or> swap then None else q) = None" using q(2) by auto
  hence "CanStoreItem_InSpecificSlot a tab slot ([], bi_count i) swap src st = Some (EQUIP_ERR_OK, [(slot, ucast (bi_count i))], 0)"
    using q(1) i(1) le by (simp add: CanStoreItem_InSpecificSlot_def push_pos_def Let_def min_absorb2)
  thus ?thesis using i(1) ns by (simp add: Guild_CanStoreItem_def)
qed

lemma store_whole:
  assumes ok: "vault_ok s a" and x: "gt_items s x = Some i" "stack_ok i" "loose s a x" and p: "cells s a (tab, slot) = Some None"
  obtains y st' where "Guild_StoreItem e a tab [(slot, ucast (bi_count i))] x s = Some (y, st')"
    "stored (bi_entry i) (unat (bi_count i)) a {(tab, slot)} {x} s st'"
proof -
  have le: "1 \<le> unat (bi_count i)" "unat (bi_count i) \<le> unat (bi_stackable i)" "unat (bi_count i) \<le> 255"
    using x(2) by (auto simp: stack_ok_def word_le_nat_alt)
  have u: "unat (ucast (bi_count i) :: u8) = unat (bi_count i)" using le(3) by (simp add: unsigned_ucast_eq take_bit_nat_eq_self)
  have "\<forall>d\<in>set [(slot, ucast (bi_count i) :: u8)]. room s a i (tab, fst d) (unat (snd d))"
    using p le u by (simp add: room_def)
  from Guild_StoreItem_ok [OF ok x _ _ this, of e] that u show thesis by auto
qed

text \<open>Two stacks change places.\<close>

lemma bank_swap_ok:
  assumes ok: "vault_ok st a" and p: "cells st a (tab, slot) = Some (Some src)"
    and slot: "unat slot < GUILD_BANK_MAX_SLOTS" and q: "cells st a (dstTab, dstSlot) = Some (Some y)"
    and i: "gt_items st src = Some i" "stack_ok i" and j: "gt_items st y = Some j" "stack_ok j"
    and other: "(dstTab, dstSlot) \<noteq> (tab, slot)" "y \<noteq> src" and h: "hoard s1 a = hoard st a"
  shows "\<exists>s2 s3 z s4 z' st'. Guild_RemoveItem a tab slot s1 = Some s2 \<and> Guild_RemoveItem a dstTab dstSlot s2 = Some s3 \<and>
    Guild_StoreItem e a tab [(slot, ucast (bi_count j))] y s3 = Some (z, s4) \<and>
    Guild_StoreItem e a dstTab [(dstSlot, ucast (bi_count i))] src s4 = Some (z', st') \<and> conserves a st st'"
proof -
  note hd = hoardD [OF h] and hh = held_hoard [OF h]
  have ok1: "vault_ok s1 a" using ok by (simp add: vault_ok_hoard [OF h])
  have "cells s1 a (tab, slot) = Some (Some src)" "gt_items s1 src = Some i" using p i hd by simp_all
  from remove_ok [OF ok1 this] obtain s2 where 2: "Guild_RemoveItem a tab slot s1 = Some s2" "vault_ok s2 a"
    "cells s2 a = (cells s1 a)((tab, slot) := Some None)" "gt_items s2 = gt_items s1" "loose s2 a src" "n_tabs s2 a = n_tabs s1 a"
    "\<And>k. held k s2 a + (if k = bi_entry i then unat (bi_count i) else 0) = held k s1 a" by blast
  have "cells s2 a (dstTab, dstSlot) = Some (Some y)" "gt_items s2 y = Some j" using q j hd other(1) by (simp_all add: 2(3,4))
  from remove_ok [OF 2(2) this] obtain s3 where 3: "Guild_RemoveItem a dstTab dstSlot s2 = Some s3" "vault_ok s3 a"
    "cells s3 a = (cells s2 a)((dstTab, dstSlot) := Some None)" "gt_items s3 = gt_items s2" "loose s3 a y" "n_tabs s3 a = n_tabs s2 a"
    "\<And>k. held k s3 a + (if k = bi_entry j then unat (bi_count j) else 0) = held k s2 a" by blast
  have y3: "gt_items s3 y = Some j" "cells s3 a (tab, slot) = Some None" using j hd other(1) by (auto simp: 2(3,4) 3(3,4))
  from store_whole [OF 3(2) y3(1) j(2) 3(5) y3(2), of e] obtain z s4 where
    4: "Guild_StoreItem e a tab [(slot, ucast (bi_count j))] y s3 = Some (z, s4)"
    "stored (bi_entry j) (unat (bi_count j)) a {(tab, slot)} {y} s3 s4" by blast
  have ok4: "vault_ok s4 a" and aw: "away {(tab, slot)} {y} a s3 s4" using 4(2) by (simp_all add: stored_def)
  have src3: "gt_items s3 src = Some i" "loose s3 a src"
    using i hd 2(5) by (auto simp: 2(4) 3(4) loose_def 3(3))
  have src4: "gt_items s4 src = Some i" "loose s4 a src"
    using away_loose [OF aw src3] other(2) by simp_all
  have at4: "cells s4 a (dstTab, dstSlot) = Some None" using aw other(1) by (simp add: away_def 3(3))
  from store_whole [OF ok4 src4(1) i(2) src4(2) at4, of e] obtain z' st' where
    5: "Guild_StoreItem e a dstTab [(dstSlot, ucast (bi_count i))] src s4 = Some (z', st')"
    "stored (bi_entry i) (unat (bi_count i)) a {(dstTab, dstSlot)} {src} s4 st'" by blast
  have "held k st' a = held k st a" for k
    using 2(7) [of k] 3(7) [of k] 4(2) 5(2) hh [of k] by (auto simp: stored_def adds_def split: if_splits)
  moreover have "n_tabs st' a = n_tabs st a"
    using 4(2) 5(2) 2(6) 3(6) hd(6) by (simp add: stored_def away_def)
  ultimately have "conserves a st st'" using 5(2) by (simp add: conserves_def stored_def)
  with 2(1) 3(1) 4(1) 5(1) show ?thesis by blast
qed

lemma bank_move_ok:
  assumes ok: "vault_ok st a" and p: "cells st a (tab, slot) = Some (Some src)" and slot: "unat slot < GUILD_BANK_MAX_SLOTS"
    and dst: "unat dstTab < n_tabs st a" "unat dstSlot < GUILD_BANK_MAX_SLOTS" "(dstTab, dstSlot) \<noteq> (tab, slot)"
    and q: "cells st a (dstTab, dstSlot) = Some target"
  shows "\<exists>b st'. bank_move e a me tab slot dstTab dstSlot src target st = Some (b, st') \<and> conserves a st st'"
proof -
  obtain i where i: "gt_items st src = Some i" "stack_ok i" using soundD(2) [OF vault_okD(3) [OF ok] p] by blast
  have one: "1 \<le> bi_count i" using i(2) by (simp add: stack_ok_def)
  from CanStoreItem_ok [OF ok i dst(1,2) one refl, of False] obtain res dest where
    can: "Guild_CanStoreItem a dstTab dstSlot (bi_count i) src False st = Some (res, dest)"
    and f: "res = EQUIP_ERR_OK \<longrightarrow> found st a dstTab src i {} (bi_count i) (dest, 0) \<and> dest \<noteq> []" by auto
  show ?thesis
  proof (cases "res = EQUIP_ERR_OK")
    case True
    let ?s1 = "log_item e a GUILD_BANK_LOG_MOVE_ITEM tab me i (bi_count i) dstTab st"
    have h1: "hoard ?s1 a = hoard st a" by simp
    note hd = hoardD [OF h1]
    have ok1: "vault_ok ?s1 a" using ok by (simp add: vault_ok_hoard [OF h1])
    from remove_ok [OF ok1, of tab slot src i] p i(1) hd obtain s where s: "Guild_RemoveItem a tab slot ?s1 = Some s" "vault_ok s a"
      "cells s a = (cells st a)((tab, slot) := Some None)" "gt_items s = gt_items st" "loose s a src" "n_tabs s a = n_tabs st a"
      "\<And>k. held k s a + (if k = bi_entry i then unat (bi_count i) else 0) = held k st a"
      by (metis held_hoard [OF h1])
    have room: "room s a i p' m" if sp: "space st a src i {} p' m" for p' m
    proof (cases "p' = (tab, slot)")
      case True
      thus ?thesis using sp p by (simp add: space_def room_def s(3))
    next
      case False
      have "cells st a p' \<noteq> Some (Some src)" using soundD(3) [OF vault_okD(3) [OF ok] p, of p'] False by blast
      thus ?thesis using sp False by (auto simp: space_def room_def s(3,4) split: option.splits)
    qed
    have i': "gt_items s src = Some i" by (simp add: s(4) i(1))
    from f True have f': "found st a dstTab src i {} (bi_count i) (dest, 0)" "dest \<noteq> []" by auto
    from store_found [OF s(2) i' i(2) s(5) refl f' room, of e] obtain y st' where
      st': "Guild_StoreItem e a dstTab dest src s = Some (y, st')"
      "stored (bi_entry i) (unat (bi_count i)) a (Pair dstTab ` fst ` set dest) {src} s st'" by blast
    have "bank_move e a me tab slot dstTab dstSlot src target st = Some (True, st')"
      using can True i(1) s(1) st'(1) by (simp add: bank_move_def Let_def)
    moreover have "held k st' a = held k st a" for k
      using st'(2) s(7) [of k] by (auto simp: stored_def adds_def split: if_splits)
    ultimately show ?thesis using st'(2) s(6) by (auto simp: conserves_def stored_def away_def)
  next
    case False
    have can2: "Guild_CanStoreItem a dstTab dstSlot (bi_count i) src True st =
        Some (if bi_soulbound i then (EQUIP_ERR_CANT_DROP_SOULBOUND, []) else (EQUIP_ERR_OK, [(dstSlot, ucast (bi_count i))]))"
      by (rule CanStoreItem_empty [OF i dst(2)]) (simp add: q)
    show ?thesis
    proof (cases "bi_soulbound i")
      case True
      have "conserves a st (equip_error me EQUIP_ERR_CANT_DROP_SOULBOUND st)" by (rule conserves_hoard [OF ok]) simp
      thus ?thesis using can can2 False True i(1) by (auto simp: bank_move_def)
    next
      case free: False
      have "target \<noteq> None"
        using CanStoreItem_empty [OF i dst(2), of a dstTab False] q can False free by auto
      then obtain y where y: "target = Some y" by auto
      obtain j where j: "gt_items st y = Some j" "stack_ok j" using soundD(2) [OF vault_okD(3) [OF ok] q [unfolded y]] by blast
      have other: "y \<noteq> src" using dst(3) q y p soundD(3) [OF vault_okD(3) [OF ok], of "(tab, slot)" src "(dstTab, dstSlot)"] by auto
      have can3: "Guild_CanStoreItem a tab slot (bi_count j) y True st =
          Some (if bi_soulbound j then (EQUIP_ERR_CANT_DROP_SOULBOUND, []) else (EQUIP_ERR_OK, [(slot, ucast (bi_count j))]))"
        by (rule CanStoreItem_empty [OF j slot]) (simp add: p)
      let ?ask = "if tab \<noteq> dstTab then GetMemberSlotWithdrawRem e a (GUID_LOPART me) dstTab st else (1, st)"
      obtain rem s0 where ask: "?ask = (rem, s0)" by (cases ?ask)
      have "hoard (snd ?ask) a = hoard st a" by simp
      hence h0: "hoard s0 a = hoard st a" unfolding ask by simp
      note stop = conserves_hoard [OF ok]
      show ?thesis
      proof (cases "bi_soulbound j \<or> (tab \<noteq> dstTab \<and> \<not> IsMemberHaveRights (GUID_LOPART me) tab GUILD_BANK_RIGHT_DEPOSIT_ITEM (gld st a)) \<or> rem = 0")
        case True
        have "conserves a st (equip_error me EQUIP_ERR_CANT_DROP_SOULBOUND st)" "conserves a st st" "conserves a st s0"
          by (rule stop; simp add: h0)+
        thus ?thesis using can can2 can3 False True free ask i(1) j(1) y by (auto simp: bank_move_def)
      next
        case go: False
        let ?s1 = "log_item e a GUILD_BANK_LOG_MOVE_ITEM dstTab me j (bi_count j) tab
          (log_item e a GUILD_BANK_LOG_MOVE_ITEM tab me i (bi_count i) dstTab s0)"
        from bank_swap_ok [OF ok p slot q [unfolded y] i j dst(3) other, of ?s1 e] h0 obtain s2 s3 z s4 z' st' where
          r: "Guild_RemoveItem a tab slot ?s1 = Some s2" "Guild_RemoveItem a dstTab dstSlot s2 = Some s3"
            "Guild_StoreItem e a tab [(slot, ucast (bi_count j))] y s3 = Some (z, s4)"
            "Guild_StoreItem e a dstTab [(dstSlot, ucast (bi_count i))] src s4 = Some (z', st')" "conserves a st st'" by auto
        have "bank_move e a me tab slot dstTab dstSlot src target st = Some (True, st')"
          using can can2 can3 False free go ask i(1) j(1) y r(1-4) by (auto simp: bank_move_def Let_def)
        thus ?thesis using r(5) by blast
      qed
    qed
  qed
qed

lemma slots_fields_ok:
  assumes ok: "vault_ok st a" and tab: "unat tab < n_tabs st a"
  shows "\<forall>j\<in>set js. j < GUILD_BANK_MAX_SLOTS \<Longrightarrow> \<exists>fs. slots_fields a tab js st = Some fs"
proof (induction js)
  case (Cons j js)
  from Cons.prems slot_of_nat obtain p where p: "cells st a (tab, word_of_nat j) = Some p"
    using cells_valid [OF ok, of "(tab, word_of_nat j)"] tab by auto
  have "\<exists>fs. AppendDisplayGuildBankSlot a tab j st = Some fs"
  proof (cases p)
    case None
    thus ?thesis using p by (simp add: AppendDisplayGuildBankSlot_def cells_def)
  next
    case (Some x)
    obtain i where "gt_items st x = Some i" using vault_lives [OF ok p [unfolded Some]] by blast
    thus ?thesis using p Some by (simp add: AppendDisplayGuildBankSlot_def cells_def)
  qed
  with Cons show ?case by auto
qed simp

lemma display_ok:
  assumes "vault_ok st a" "unat tab < n_tabs st a" "\<forall>j\<in>set js. j < GUILD_BANK_MAX_SLOTS"
  shows "\<exists>st'. DisplayGuildBankContentUpdate e a tab js st = Some st' \<and> conserves a st st'"
proof -
  have "\<exists>st'. DisplayGuildBankContentUpdate e a tab js st = Some st'"
    using slots_fields_ok [OF assms] by (auto simp: DisplayGuildBankContentUpdate_def Let_def)
  thus ?thesis using conserves_hoard [OF assms(1) hoard_update] by blast
qed

lemma bank_to_bank_ok:
  assumes ok: "vault_ok st a" and dst: "unat dstTab < n_tabs st a" "unat dstSlot < GUILD_BANK_MAX_SLOTS" "(dstTab, dstSlot) \<noteq> (tab, slot)"
  shows "\<exists>st'. bank_to_bank e a me dstTab dstSlot tab slot split st = Some st' \<and> conserves a st st'"
proof -
  have same: "conserves a st st" by (rule conserves_hoard [OF ok refl])
  show ?thesis
  proof (cases "\<exists>src. cells st a (tab, slot) = Some (Some src)")
    case False
    have "Guild_GetItem tab slot (gld st a) = Some None"
    proof (cases "unat tab \<ge> n_tabs st a \<or> unat slot \<ge> GUILD_BANK_MAX_SLOTS")
      case inside: False
      hence "cells st a (tab, slot) \<noteq> None" using cells_valid [OF ok] by simp
      with False have "cells st a (tab, slot) = Some None" by auto
      thus ?thesis using inside by (simp add: Guild_GetItem_def cells_def)
    qed (simp add: Guild_GetItem_def)
    thus ?thesis using same by (simp add: bank_to_bank_def)
  next
    case True
    then obtain src where p: "cells st a (tab, slot) = Some (Some src)" by blast
    obtain i where i: "gt_items st src = Some i" using vault_lives [OF ok p] by blast
    have inside: "unat tab < n_tabs st a" "unat slot < GUILD_BANK_MAX_SLOTS" using cells_valid [OF ok, of "(tab, slot)"] p by auto
    obtain target where q: "cells st a (dstTab, dstSlot) = Some target" using cells_valid [OF ok, of "(dstTab, dstSlot)"] dst by auto
    have get: "Guild_GetItem tab slot (gld st a) = Some (Some src)" "Guild_GetItem dstTab dstSlot (gld st a) = Some target"
      using p q inside dst by (simp_all add: Guild_GetItem_def cells_def)
    define n where "n = (if ucast split = bi_count i then 0 else split)"
    let ?ask = "if tab \<noteq> dstTab then GetMemberSlotWithdrawRem e a (GUID_LOPART me) tab st else (1, st)"
    obtain rem s0 where ask: "?ask = (rem, s0)" by (cases ?ask)
    have "hoard (snd ?ask) a = hoard st a" by simp
    hence h: "hoard s0 a = hoard st a" unfolding ask by simp
    note hd = hoardD [OF h]
    have ok0: "vault_ok s0 a" and c0: "conserves a st s0"
      using ok conserves_hoard [OF ok h] by (simp_all add: vault_ok_hoard [OF h])
    show ?thesis
    proof (cases "ucast split > bi_count i \<or> (tab \<noteq> dstTab \<and> \<not> IsMemberHaveRights (GUID_LOPART me) dstTab GUILD_BANK_RIGHT_DEPOSIT_ITEM (gld st a)) \<or> rem = 0")
      case True
      thus ?thesis using get i ask same c0 by (auto simp: bank_to_bank_def Let_def)
    next
      case go: False
      let ?move = "if n \<noteq> 0 then bank_split e a me tab dstTab dstSlot n src s0
        else bank_move e a me tab slot dstTab dstSlot src target s0"
      have "\<exists>b s1. ?move = Some (b, s1) \<and> conserves a s0 s1"
      proof (cases "n = 0")
        case True
        thus ?thesis using bank_move_ok [OF ok0, of tab slot src dstTab dstSlot target e me] p q inside dst hd by simp
      next
        case False
        hence "unat n < unat (bi_count i)"
          using go by (auto simp: n_def not_less word_le_nat_alt word_unat_eq_iff split: if_splits)
        with False show ?thesis
          using bank_split_ok [OF ok0, of "(tab, slot)" src i n dstTab dstSlot e me tab] p i inside dst hd by auto
      qed
      then obtain b s1 where move: "?move = Some (b, s1)" "conserves a s0 s1" by blast
      have c1: "conserves a st s1" by (rule conserves_trans [OF c0 move(2)])
      hence ok1: "vault_ok s1 a" and n1: "n_tabs s1 a = n_tabs st a" by (simp_all add: conserves_def)
      have js: "\<forall>j\<in>set (update_slots slot (if tab = dstTab then Some dstSlot else None)). j < GUILD_BANK_MAX_SLOTS"
        using inside dst by (auto simp: update_slots_def)
      from display_ok [OF ok1 _ js, of tab e] inside n1 obtain s2 where
        2: "DisplayGuildBankContentUpdate e a tab (update_slots slot (if tab = dstTab then Some dstSlot else None)) s1 = Some s2"
          "conserves a s1 s2" by auto
      hence ok2: "vault_ok s2 a" and n2: "n_tabs s2 a = n_tabs st a" using n1 by (simp_all add: conserves_def)
      from display_ok [OF ok2, of dstTab "[unat dstSlot]" e] dst n2 obtain s3 where
        3: "DisplayGuildBankContentUpdate e a dstTab [unat dstSlot] s2 = Some s3" "conserves a s2 s3" by auto
      have "conserves a st s2" "conserves a st s3"
        using conserves_trans [OF c1 2(2)] conserves_trans [OF _ 3(2)] by blast+
      thus ?thesis
        using get i ask go move(1) 2(1) 3(1) c1 by (auto simp: bank_to_bank_def Let_def n_def [symmetric])
    qed
  qed
qed

text \<open>
  C8: A move inside the guild bank always comes to an end with a result when the tab it goes to exists;
  then no pointer dangles, no item lies in two slots, no stack is over-full, and the bank holds as many
  pieces of every kind of item as before.
\<close>

theorem bank_moves_conserve_items:
  assumes ok: "vault_ok st a" and g: "guild_of (p_guid self) st = Some a" and tab: "unat dstTab < length (m_TabListMap (gld st a))"
  shows "\<exists>st'. HandleGuildBankDepositItem e self go (BankToBank dstTab dstSlot tab slot split) st = Some st' \<and>
    vault_ok st' a \<and> (\<forall>k. held k st' a = held k st a)"
proof (cases "unat dstSlot \<ge> GUILD_BANK_MAX_SLOTS \<or> dstTab = tab \<and> dstSlot = slot \<or> \<not> bx_bank e (p_guid self) go \<or> GetGuildId (p_guid self) st = 0")
  case True
  thus ?thesis using ok by (auto simp: at_bank_def of_guild_def)
next
  case False
  hence "(dstTab, dstSlot) \<noteq> (tab, slot)" "unat dstSlot < GUILD_BANK_MAX_SLOTS" by auto
  from bank_to_bank_ok [OF ok tab this(2,1), of e "p_guid self" split] False g show ?thesis
    by (auto simp: at_bank_def of_guild_def conserves_def)
qed

definition stocked :: gust where
  "stocked = (demo_in 0 ((demo_guild four)\<lparr>m_TabListMap := [Some (empty_tab\<lparr>bt_Slots := Some 0 # replicate 97 None\<rparr>)]\<rparr>))
     \<lparr>gt_items := [0 \<mapsto> \<lparr>bi_guid = 1, bi_entry = 2589, bi_count = 10, bi_stackable = 20, bi_soulbound = False,
        bi_randomProperty = 0, bi_suffixFactor = 0, bi_enchantment = 0\<rparr>], gt_nextItem := 1\<rparr>"

lemma stocked_guild: "guild_of 1 stocked = Some 0" "length (m_TabListMap (gld stocked 0)) = 1"
  by (simp_all add: stocked_def guild_of_def GetGuildById_def GetGuildId_def gld_def demo_in_def demo_with_def)

lemma stocked_cells: "cells stocked 0 p = Some (Some x) \<longleftrightarrow> p = (0, 0) \<and> x = 0"
proof -
  have s: "slots_at (map (map_option bt_Slots) (m_TabListMap (gld stocked 0))) p =
      (if unat (fst p) = 0 \<and> unat (snd p) < 98 then Some ((Some 0 # replicate 97 None) ! unat (snd p)) else None)"
    by (simp add: slots_at_def stocked_def gld_def demo_in_def demo_with_def)
  show ?thesis unfolding cells_slots s
    by (cases p; cases "unat (snd p)") (auto simp: unat_eq_0)
qed

lemma stocked_ok: "vault_ok stocked 0"
proof (rule vault_okI)
  show "gt_heap stocked 0 \<noteq> None" by (simp add: stocked_def demo_in_def demo_with_def)
  show "tabs_ok (gld stocked 0)" by (simp add: tabs_ok_def stocked_def gld_def demo_in_def demo_with_def)
  show "sound (cells stocked 0) (gt_items stocked)"
    by (rule soundI) (auto simp: stocked_cells, simp_all add: stocked_def kinds_ok_def stack_ok_def)
qed (auto simp: stocked_def split: if_splits)

theorem bank_moves_conserve_items_witness:
  "\<exists>st'. HandleGuildBankDepositItem (demo_env []) Ann 5 (BankToBank 0 7 0 0 4) stocked = Some st' \<and>
     vault_ok st' 0 \<and> held 2589 st' 0 = held 2589 stocked 0"
  using bank_moves_conserve_items [where self = Ann and st = stocked and a = 0 and dstTab = 0 and e = "demo_env []" and go = 5
      and dstSlot = 7 and tab = 0 and slot = 0 and split = 4] stocked_ok stocked_guild by auto

text \<open>
  C15: A guild master who moves an item to a tab the guild does not have makes the server read beyond the
  end of its list of tabs: nothing but the right to the tab is checked, and the guild master has every
  right.
\<close>

theorem missing_tab_crashes:
  assumes ok: "vault_ok st a" and g: "guild_of (p_guid self) st = Some a" "GetGuildId (p_guid self) st \<noteq> 0" "bx_bank e (p_guid self) go"
    and master: "map_of (gmembers (gld st a)) (GUID_LOPART (p_guid self)) = Some m" "gm_RankId m = GR_GUILDMASTER"
    and item: "Guild_GetItem tab slot (gld st a) = Some (Some src)" "gt_items st src = Some i" "\<not> bi_soulbound i"
    and dst: "length (m_TabListMap (gld st a)) \<le> unat dstTab" "unat dstSlot < GUILD_BANK_MAX_SLOTS"
  shows "HandleGuildBankDepositItem e self go (BankToBank dstTab dstSlot tab slot 0) st = None"
proof -
  have inside: "unat tab < n_tabs st a" using item(1) by (auto simp: Guild_GetItem_def split: if_splits)
  hence tabs: "dstTab \<noteq> tab" using dst(1) by auto
  have none: "slot_at dstTab dstSlot (gld st a) = None" using dst(1) by (simp add: slot_at_def GetBankTab_def)
  have "cells st a (tab, slot) = Some (Some src)" using item(1) by (auto simp: Guild_GetItem_def cells_def split: if_splits)
  hence "stack_ok i" using soundD(2) [OF vault_okD(3) [OF ok]] item(2) by fastforce
  hence count: "bi_count i \<noteq> 0" by (auto simp: stack_ok_def)
  have ns: "dstSlot \<noteq> NULL_SLOT" using dst(2) by auto
  have "Guild_CanStoreItem a dstTab dstSlot (bi_count i) src False st = None"
    using item ns none by (simp add: Guild_CanStoreItem_def CanStoreItem_InSpecificSlot_def)
  moreover have "Guild_GetItem dstTab dstSlot (gld st a) = Some None" using dst(1) by (simp add: Guild_GetItem_def)
  moreover have "GetMemberSlotWithdrawRem e a (GUID_LOPART (p_guid self)) tab st = (WITHDRAW_UNLIMITED, st)"
    using master by (simp add: GetMemberSlotWithdrawRem_def)
  ultimately have "bank_to_bank e a (p_guid self) dstTab dstSlot tab slot 0 st = None"
    using item master tabs count by (simp add: bank_to_bank_def bank_move_def IsMemberHaveRights_def Let_def)
  thus ?thesis using g dst(2) tabs by (simp add: at_bank_def of_guild_def)
qed

theorem missing_tab_crashes_witness:
  "HandleGuildBankDepositItem (demo_env []) Ann 5 (BankToBank 1 7 0 0 0) stocked = None"
proof -
  have "Guild_GetItem 0 0 (gld stocked 0) = Some (Some 0)"
    by (simp add: stocked_def Guild_GetItem_def slot_at_def GetBankTab_def gld_def demo_in_def demo_with_def)
  moreover have "map_of (gmembers (gld stocked 0)) 1 = Some (demo_member 0 ''Ann'')"
    by (simp add: stocked_def gld_def demo_in_def demo_with_def demo_guild_def)
  moreover have "GetGuildId 1 stocked = 7" by (simp add: stocked_def GetGuildId_def demo_in_def)
  ultimately show ?thesis
    using missing_tab_crashes [where self = Ann and st = stocked and a = 0 and e = "demo_env []" and go = 5
      and tab = 0 and slot = 0 and src = 0 and dstTab = 1 and dstSlot = 7 and m = "demo_member 0 ''Ann''"
      and i = "\<lparr>bi_guid = 1, bi_entry = 2589, bi_count = 10, bi_stackable = 20, bi_soulbound = False,
        bi_randomProperty = 0, bi_suffixFactor = 0, bi_enchantment = 0\<rparr>"] stocked_ok stocked_guild
    by (simp add: demo_member_def) (simp add: stocked_def)
qed

end
