(* ===== verification/Trade.thy ===== *)
theory Trade
  imports GuildMoney Social
begin

text \<open>
  Trading between two players (game/TradeHandler.cpp and the trade fields of Player.h, Player.cpp):
  the partner, what is offered and whether it is accepted, one function per request, and the exchange.
  Inventories are parameters except for whom an item belongs to.
\<close>

section \<open>State\<close>

abbreviation TRADE_SLOT_COUNT :: nat where "TRADE_SLOT_COUNT \<equiv> 7"
abbreviation TRADE_SLOT_TRADED_COUNT :: nat where "TRADE_SLOT_TRADED_COUNT \<equiv> 6"
abbreviation TRADE_SLOT_NONTRADED :: nat where "TRADE_SLOT_NONTRADED \<equiv> 6"

record trader =
  pTrader :: "u64 option"
  acceptTrade :: bool
  tradeItems :: "u64 list"
  tradeGold :: u32
  tr_money :: u32

text \<open>
  What a trade sees of an item: the player in whose inventory it is, and the fields shown to the
  partner in the order of the packet.
\<close>

record trade_item =
  ti_owner :: "u64 option"
  ti_ItemId :: u32
  ti_DisplayInfoID :: u32
  ti_count :: u32
  ti_giftCreator :: u64
  ti_enchantment :: u32
  ti_creator :: u64
  ti_spellCharges :: u32
  ti_suffixFactor :: u32
  ti_randomProperty :: u32
  ti_lockID :: u32
  ti_maxDurability :: u32
  ti_durability :: u32

type_synonym item_pos = "u16 \<times> u32"

datatype trade_event =
    TSend u64 packet
  | TNotify u64 nat
  | TEquipError u64 u8
  | TMoveFrom u64 u64
  | TMoveTo u64 "item_pos list" u64
  | TSave u64

record tst =
  td_traders :: "u64 \<Rightarrow> trader"
  td_items :: "u64 \<Rightarrow> trade_item option"
  td_out :: "trade_event list"

text \<open>
  The rest of the server: who is alive, stunned, about to log out or in flight, distances, the item at a
  position of an inventory, and the answers of the inventory, which may depend on everything.
\<close>

record trade_env =
  te_world :: world
  te_social :: SocialMap
  te_twoSideTrade :: bool
  te_alive :: "u64 \<Rightarrow> bool"
  te_stunned :: "u64 \<Rightarrow> bool"
  te_logingOut :: "u64 \<Rightarrow> bool"
  te_playerLogout :: "u64 \<Rightarrow> bool"
  te_inFlight :: "u64 \<Rightarrow> bool"
  te_far :: "u64 \<Rightarrow> u64 \<Rightarrow> bool"
  te_itemAt :: "u64 \<Rightarrow> u8 \<Rightarrow> u8 \<Rightarrow> u64 option"
  te_canBeTraded :: "u64 \<Rightarrow> bool"
  te_canStore :: "u64 \<Rightarrow> item_pos list \<Rightarrow> u64 \<Rightarrow> tst \<Rightarrow> u8 \<times> item_pos list"
  te_canStoreItems :: "u64 \<Rightarrow> u64 option list \<Rightarrow> tst \<Rightarrow> u8"

definition upd_trader :: "u64 \<Rightarrow> (trader \<Rightarrow> trader) \<Rightarrow> tst \<Rightarrow> tst" where
  "upd_trader p f st = st\<lparr>td_traders := (td_traders st)(p := f (td_traders st p))\<rparr>"

definition t_emit :: "trade_event list \<Rightarrow> tst \<Rightarrow> tst" where
  "t_emit es st = st\<lparr>td_out := td_out st @ es\<rparr>"

text \<open>\<open>Player::GetItemByGuid\<close>: an item of the player's own.\<close>

definition GetItemByGuid :: "u64 \<Rightarrow> u64 \<Rightarrow> tst \<Rightarrow> trade_item option" where
  "GetItemByGuid p g st =
     (case td_items st g of None \<Rightarrow> None | Some it \<Rightarrow> if ti_owner it = Some p then Some it else None)"

section \<open>Status packets\<close>

datatype TradeStatus =
    TRADE_STATUS_BUSY
  | TRADE_STATUS_BEGIN_TRADE
  | TRADE_STATUS_OPEN_WINDOW
  | TRADE_STATUS_TRADE_CANCELED
  | TRADE_STATUS_TRADE_ACCEPT
  | TRADE_STATUS_BUSY_2
  | TRADE_STATUS_NO_TARGET
  | TRADE_STATUS_BACK_TO_TRADE
  | TRADE_STATUS_TRADE_COMPLETE
  | TRADE_STATUS_TARGET_TO_FAR
  | TRADE_STATUS_WRONG_FACTION
  | TRADE_STATUS_CLOSE_WINDOW
  | TRADE_STATUS_IGNORE_YOU
  | TRADE_STATUS_YOU_STUNNED
  | TRADE_STATUS_TARGET_STUNNED
  | TRADE_STATUS_YOU_DEAD
  | TRADE_STATUS_TARGET_DEAD
  | TRADE_STATUS_YOU_LOGOUT
  | TRADE_STATUS_TARGET_LOGOUT
  | TRADE_STATUS_TRIAL_ACCOUNT
  | TRADE_STATUS_ONLY_CONJURED

fun trade_status_code :: "TradeStatus \<Rightarrow> u32" where
  "trade_status_code TRADE_STATUS_BUSY = 0"
| "trade_status_code TRADE_STATUS_BEGIN_TRADE = 1"
| "trade_status_code TRADE_STATUS_OPEN_WINDOW = 2"
| "trade_status_code TRADE_STATUS_TRADE_CANCELED = 3"
| "trade_status_code TRADE_STATUS_TRADE_ACCEPT = 4"
| "trade_status_code TRADE_STATUS_BUSY_2 = 5"
| "trade_status_code TRADE_STATUS_NO_TARGET = 6"
| "trade_status_code TRADE_STATUS_BACK_TO_TRADE = 7"
| "trade_status_code TRADE_STATUS_TRADE_COMPLETE = 8"
| "trade_status_code TRADE_STATUS_TARGET_TO_FAR = 10"
| "trade_status_code TRADE_STATUS_WRONG_FACTION = 11"
| "trade_status_code TRADE_STATUS_CLOSE_WINDOW = 12"
| "trade_status_code TRADE_STATUS_IGNORE_YOU = 14"
| "trade_status_code TRADE_STATUS_YOU_STUNNED = 15"
| "trade_status_code TRADE_STATUS_TARGET_STUNNED = 16"
| "trade_status_code TRADE_STATUS_YOU_DEAD = 17"
| "trade_status_code TRADE_STATUS_TARGET_DEAD = 18"
| "trade_status_code TRADE_STATUS_YOU_LOGOUT = 19"
| "trade_status_code TRADE_STATUS_TARGET_LOGOUT = 20"
| "trade_status_code TRADE_STATUS_TRIAL_ACCOUNT = 21"
| "trade_status_code TRADE_STATUS_ONLY_CONJURED = 22"

abbreviation SMSG_TRADE_STATUS :: u16 where "SMSG_TRADE_STATUS \<equiv> 0x120"
abbreviation SMSG_TRADE_STATUS_EXTENDED :: u16 where "SMSG_TRADE_STATUS_EXTENDED \<equiv> 0x121"

definition trade_status_packet :: "TradeStatus \<Rightarrow> packet" where
  "trade_status_packet s =
     mk_packet SMSG_TRADE_STATUS (U32 (trade_status_code s) #
       (case s of
          TRADE_STATUS_BEGIN_TRADE \<Rightarrow> [U64 0]
        | TRADE_STATUS_OPEN_WINDOW \<Rightarrow> [U32 0]
        | TRADE_STATUS_CLOSE_WINDOW \<Rightarrow> [U32 0, U8 0, U32 0]
        | TRADE_STATUS_ONLY_CONJURED \<Rightarrow> [U8 0]
        | _ \<Rightarrow> []))"

definition SendTradeStatus :: "u64 \<Rightarrow> TradeStatus \<Rightarrow> tst \<Rightarrow> tst" where
  "SendTradeStatus p s = t_emit [TSend p (trade_status_packet s)]"

section \<open>Showing the offer of the partner\<close>

text \<open>A status that takes an acceptance back.\<close>

definition reset_accept :: "u64 \<Rightarrow> tst \<Rightarrow> tst" where
  "reset_accept p st =
     (if acceptTrade (td_traders st p)
      then SendTradeStatus p TRADE_STATUS_BACK_TO_TRADE (upd_trader p (\<lambda>t. t\<lparr>acceptTrade := False\<rparr>) st)
      else st)"

definition trade_item_fields :: "trade_item option \<Rightarrow> field list" where
  "trade_item_fields i =
     (case i of
        None \<Rightarrow> replicate 18 (U32 0)
      | Some it \<Rightarrow>
          [U32 (ti_ItemId it), U32 (ti_DisplayInfoID it), U32 (ti_count it), U32 0, U64 (ti_giftCreator it),
           U32 (ti_enchantment it), U32 0, U32 0, U32 0, U64 (ti_creator it), U32 (ti_spellCharges it),
           U32 (ti_suffixFactor it), U32 (ti_randomProperty it), U32 (ti_lockID it), U32 (ti_maxDurability it),
           U32 (ti_durability it)])"

definition SendUpdateTrade :: "u64 \<Rightarrow> tst \<Rightarrow> tst" where
  "SendUpdateTrade p st =
     (case pTrader (td_traders st p) of
        None \<Rightarrow> st
      | Some q \<Rightarrow>
          (let st = reset_accept q (reset_accept p st); t = td_traders st q
           in t_emit [TSend p (mk_packet SMSG_TRADE_STATUS_EXTENDED
                ([U8 1, U32 0, U32 7, U32 7, U32 (tradeGold t), U32 0] @
                 concat (map (\<lambda>i. U8 (word_of_nat i) # trade_item_fields
                    (if tradeItems t ! i \<noteq> 0 then GetItemByGuid q (tradeItems t ! i) st else None)) [0..<TRADE_SLOT_COUNT])))] st))"

section \<open>Beginning and ending\<close>

definition ClearTrade :: "u64 \<Rightarrow> tst \<Rightarrow> tst" where
  "ClearTrade p = upd_trader p (\<lambda>t. t\<lparr>tradeGold := 0, acceptTrade := False, tradeItems := replicate TRADE_SLOT_COUNT 0\<rparr>)"

definition set_pTrader :: "u64 \<Rightarrow> u64 option \<Rightarrow> tst \<Rightarrow> tst" where
  "set_pTrader p q = upd_trader p (\<lambda>t. t\<lparr>pTrader := q\<rparr>)"

definition TradeCancel :: "trade_env \<Rightarrow> u64 \<Rightarrow> bool \<Rightarrow> tst \<Rightarrow> tst" where
  "TradeCancel e p sendback st =
     (case pTrader (td_traders st p) of
        None \<Rightarrow> st
      | Some q \<Rightarrow>
          (let st = (if sendback then SendTradeStatus p TRADE_STATUS_TRADE_CANCELED st else st);
               st = (if \<not> te_playerLogout e q then SendTradeStatus q TRADE_STATUS_TRADE_CANCELED st else st);
               st = ClearTrade q (ClearTrade p st)
           in set_pTrader p None (set_pTrader q None st)))"

definition HandleCancelTradeOpcode :: "trade_env \<Rightarrow> u64 \<Rightarrow> tst \<Rightarrow> tst" where
  "HandleCancelTradeOpcode e me st = TradeCancel e me True st"

definition HandleBeginTradeOpcode :: "u64 \<Rightarrow> tst \<Rightarrow> tst" where
  "HandleBeginTradeOpcode me st =
     (case pTrader (td_traders st me) of
        None \<Rightarrow> st
      | Some q \<Rightarrow>
          (let st = ClearTrade q (SendTradeStatus q TRADE_STATUS_OPEN_WINDOW st)
           in ClearTrade me (SendTradeStatus me TRADE_STATUS_OPEN_WINDOW st)))"

definition HandleUnacceptTradeOpcode :: "u64 \<Rightarrow> tst \<Rightarrow> tst" where
  "HandleUnacceptTradeOpcode me st =
     (case pTrader (td_traders st me) of
        None \<Rightarrow> st
      | Some q \<Rightarrow> upd_trader me (\<lambda>t. t\<lparr>acceptTrade := False\<rparr>) (SendTradeStatus q TRADE_STATUS_BACK_TO_TRADE st))"

definition HandleInitiateTradeOpcode :: "trade_env \<Rightarrow> player \<Rightarrow> u64 \<Rightarrow> tst \<Rightarrow> tst" where
  "HandleInitiateTradeOpcode e self ID st =
     (let me = p_guid self; reply = (\<lambda>s. SendTradeStatus me s st) in
      if pTrader (td_traders st me) \<noteq> None then st
      else if \<not> te_alive e me then reply TRADE_STATUS_YOU_DEAD
      else if te_stunned e me then reply TRADE_STATUS_YOU_STUNNED
      else if te_logingOut e me then reply TRADE_STATUS_YOU_LOGOUT
      else if te_inFlight e me then reply TRADE_STATUS_TARGET_TO_FAR
      else
        (case FindPlayer (te_world e) ID of
           None \<Rightarrow> reply TRADE_STATUS_NO_TARGET
         | Some pOther \<Rightarrow>
             (let q = p_guid pOther in
              if q = me \<or> pTrader (td_traders st q) \<noteq> None then reply TRADE_STATUS_BUSY
              else if \<not> te_alive e q then reply TRADE_STATUS_TARGET_DEAD
              else if te_inFlight e q then reply TRADE_STATUS_TARGET_TO_FAR
              else if te_stunned e q then reply TRADE_STATUS_TARGET_STUNNED
              else if te_logingOut e q then reply TRADE_STATUS_TARGET_LOGOUT
              else if HasIgnore (GetSocial (te_social e) q) (GUID_LOPART me) then reply TRADE_STATUS_IGNORE_YOU
              else if \<not> te_twoSideTrade e \<and> p_team pOther \<noteq> p_team self then reply TRADE_STATUS_WRONG_FACTION
              else if te_far e q me then reply TRADE_STATUS_TARGET_TO_FAR
              else
                t_emit [TSend q (mk_packet SMSG_TRADE_STATUS [U32 (trade_status_code TRADE_STATUS_BEGIN_TRADE), U64 me])]
                  (set_pTrader q (Some me) (set_pTrader me (Some q) st)))))"

section \<open>The offer\<close>

definition HandleSetTradeGoldOpcode :: "u64 \<Rightarrow> u32 \<Rightarrow> tst \<Rightarrow> tst" where
  "HandleSetTradeGoldOpcode me gold st =
     (case pTrader (td_traders st me) of
        None \<Rightarrow> st
      | Some q \<Rightarrow> SendUpdateTrade q (upd_trader me (\<lambda>t. t\<lparr>tradeGold := gold\<rparr>) st))"

definition HandleSetTradeItemOpcode :: "trade_env \<Rightarrow> u64 \<Rightarrow> u8 \<Rightarrow> u8 \<Rightarrow> u8 \<Rightarrow> tst \<Rightarrow> tst" where
  "HandleSetTradeItemOpcode e me tradeSlot bag slot st =
     (case pTrader (td_traders st me) of
        None \<Rightarrow> st
      | Some q \<Rightarrow>
          (let cancel = SendTradeStatus me TRADE_STATUS_TRADE_CANCELED st in
           if unat tradeSlot \<ge> TRADE_SLOT_COUNT then cancel
           else
             (case te_itemAt e me bag slot of
                None \<Rightarrow> cancel
              | Some g \<Rightarrow>
                  if unat tradeSlot \<noteq> TRADE_SLOT_NONTRADED \<and> \<not> te_canBeTraded e g then cancel
                  else if g \<in> set (tradeItems (td_traders st me)) then cancel
                  else SendUpdateTrade q
                    (upd_trader me (\<lambda>t. t\<lparr>tradeItems := (tradeItems t)[unat tradeSlot := g]\<rparr>) st))))"

definition HandleClearTradeItemOpcode :: "u64 \<Rightarrow> u8 \<Rightarrow> tst \<Rightarrow> tst" where
  "HandleClearTradeItemOpcode me tradeSlot st =
     (case pTrader (td_traders st me) of
        None \<Rightarrow> st
      | Some q \<Rightarrow>
          if unat tradeSlot \<ge> TRADE_SLOT_COUNT then st
          else SendUpdateTrade q (upd_trader me (\<lambda>t. t\<lparr>tradeItems := (tradeItems t)[unat tradeSlot := 0]\<rparr>) st))"

section \<open>The exchange\<close>

definition t_ModifyMoney :: "u64 \<Rightarrow> u32 \<Rightarrow> tst \<Rightarrow> tst" where
  "t_ModifyMoney p d st =
     (let st = upd_trader p (\<lambda>t. t\<lparr>tr_money := money_after (tr_money t) d\<rparr>) st
      in if tr_money (td_traders st p) \<ge> MAX_MONEY_AMOUNT then t_emit [TEquipError p EQUIP_ERR_TOO_MUCH_GOLD] st else st)"

definition set_owner :: "u64 \<Rightarrow> u64 option \<Rightarrow> tst \<Rightarrow> tst" where
  "set_owner g p st = st\<lparr>td_items := (td_items st)(g := map_option (\<lambda>it. it\<lparr>ti_owner := p\<rparr>) (td_items st g))\<rparr>"

definition MoveItemFromInventory :: "u64 \<Rightarrow> u64 \<Rightarrow> tst \<Rightarrow> tst" where
  "MoveItemFromInventory p g st = set_owner g None (t_emit [TMoveFrom p g] st)"

definition MoveItemToInventory :: "u64 \<Rightarrow> item_pos list \<Rightarrow> u64 \<Rightarrow> tst \<Rightarrow> tst" where
  "MoveItemToInventory p dest g st = set_owner g (Some p) (t_emit [TMoveTo p dest g] st)"

text \<open>The items of a player's offer that are still his, by slot.\<close>

definition offered_items :: "u64 \<Rightarrow> tst \<Rightarrow> u64 option list" where
  "offered_items p st =
     map (\<lambda>g. if g \<noteq> 0 \<and> GetItemByGuid p g st \<noteq> None then Some g else None)
       (take TRADE_SLOT_TRADED_COUNT (tradeItems (td_traders st p)))"

definition take_item :: "u64 \<Rightarrow> u64 option \<Rightarrow> tst \<Rightarrow> tst" where
  "take_item p i st =
     (case i of
        None \<Rightarrow> st
      | Some g \<Rightarrow> MoveItemFromInventory p g
          (st\<lparr>td_items := (td_items st)(g := map_option (\<lambda>it. it\<lparr>ti_giftCreator := p\<rparr>) (td_items st g))\<rparr>))"

fun remove_items :: "u64 \<Rightarrow> u64 \<Rightarrow> u64 option list \<Rightarrow> u64 option list \<Rightarrow> tst \<Rightarrow> tst" where
  "remove_items me q (m # ms) (h # hs) st = remove_items me q ms hs (take_item q h (take_item me m st))"
| "remove_items me q _ _ st = st"

definition give_item :: "u64 \<Rightarrow> item_pos list \<Rightarrow> u64 option \<Rightarrow> tst \<Rightarrow> tst" where
  "give_item p dest i st = (case i of None \<Rightarrow> st | Some g \<Rightarrow> MoveItemToInventory p dest g st)"

definition give_back :: "trade_env \<Rightarrow> u64 \<Rightarrow> item_pos list \<Rightarrow> u64 option \<Rightarrow> tst \<Rightarrow> tst" where
  "give_back e p dest i st =
     (case i of
        None \<Rightarrow> st
      | Some g \<Rightarrow>
          (case te_canStore e p dest g st of (msg, dest) \<Rightarrow>
             if msg = EQUIP_ERR_OK then MoveItemToInventory p dest g st else st))"

text \<open>
  \<open>moveItems\<close>: slot by slot both items change hands or both go back; the list of positions is the one
  the first check has filled.
\<close>

definition can_take :: "trade_env \<Rightarrow> u64 \<Rightarrow> u64 option \<Rightarrow> tst \<Rightarrow> bool \<times> item_pos list" where
  "can_take e p i st =
     (case i of
        None \<Rightarrow> (True, [])
      | Some g \<Rightarrow> (case te_canStore e p [] g st of (msg, dest) \<Rightarrow> (msg = EQUIP_ERR_OK, dest)))"

fun moveItems :: "trade_env \<Rightarrow> u64 \<Rightarrow> u64 \<Rightarrow> u64 option list \<Rightarrow> u64 option list \<Rightarrow> tst \<Rightarrow> tst" where
  "moveItems e me q (m # ms) (h # hs) st =
     (let (traderCan, traderDst) = can_take e q m st;
          (playerCan, playerDst) = can_take e me h st
      in moveItems e me q ms hs
           (if traderCan \<and> playerCan then give_item me playerDst h (give_item q traderDst m st)
            else give_back e q traderDst h (give_back e me playerDst m st)))"
| "moveItems e me q _ _ st = st"

abbreviation LANG_NOT_ENOUGH_GOLD :: nat where "LANG_NOT_ENOUGH_GOLD \<equiv> 801"
abbreviation LANG_NOT_FREE_TRADE_SLOTS :: nat where "LANG_NOT_FREE_TRADE_SLOTS \<equiv> 802"
abbreviation LANG_NOT_PARTNER_FREE_TRADE_SLOTS :: nat where "LANG_NOT_PARTNER_FREE_TRADE_SLOTS \<equiv> 803"

definition untradeable :: "trade_env \<Rightarrow> u64 \<Rightarrow> tst \<Rightarrow> bool" where
  "untradeable e p st = list_ex (\<lambda>i. case i of None \<Rightarrow> False | Some g \<Rightarrow> \<not> te_canBeTraded e g) (offered_items p st)"

definition exchange_gold :: "u64 \<Rightarrow> u64 \<Rightarrow> tst \<Rightarrow> tst" where
  "exchange_gold me q st =
     (let mine = tradeGold (td_traders st me); his = tradeGold (td_traders st q);
          st = t_ModifyMoney me his (t_ModifyMoney me (- mine) st)
      in t_ModifyMoney q mine (t_ModifyMoney q (- his) st))"

definition complete_trade :: "trade_env \<Rightarrow> u64 \<Rightarrow> u64 \<Rightarrow> u64 option list \<Rightarrow> u64 option list \<Rightarrow> tst \<Rightarrow> tst" where
  "complete_trade e me q myItems hisItems st =
     (let st = moveItems e me q myItems hisItems (remove_items me q myItems hisItems st);
          st = ClearTrade q (ClearTrade me (exchange_gold me q st));
          st = t_emit [TSave me, TSave q] st;
          st = SendTradeStatus me TRADE_STATUS_TRADE_COMPLETE (SendTradeStatus q TRADE_STATUS_TRADE_COMPLETE st)
      in set_pTrader me None (set_pTrader q None st))"

definition HandleAcceptTradeOpcode :: "trade_env \<Rightarrow> u64 \<Rightarrow> tst \<Rightarrow> tst" where
  "HandleAcceptTradeOpcode e me st =
     (case pTrader (td_traders st me) of
        None \<Rightarrow> st
      | Some q \<Rightarrow>
          if tradeGold (td_traders st me) > tr_money (td_traders st me)
          then upd_trader me (\<lambda>t. t\<lparr>acceptTrade := False\<rparr>)
                 (SendTradeStatus q TRADE_STATUS_BACK_TO_TRADE (t_emit [TNotify me LANG_NOT_ENOUGH_GOLD] st))
          else if tradeGold (td_traders st q) > tr_money (td_traders st q)
          then upd_trader q (\<lambda>t. t\<lparr>acceptTrade := False\<rparr>)
                 (SendTradeStatus me TRADE_STATUS_BACK_TO_TRADE (t_emit [TNotify q LANG_NOT_ENOUGH_GOLD] st))
          else if untradeable e me st \<or> untradeable e q st then SendTradeStatus me TRADE_STATUS_TRADE_CANCELED st
          else
            (let st = upd_trader me (\<lambda>t. t\<lparr>acceptTrade := True\<rparr>) st in
             if \<not> acceptTrade (td_traders st q) then SendTradeStatus q TRADE_STATUS_TRADE_ACCEPT st
             else
               (let st = SendTradeStatus q TRADE_STATUS_TRADE_ACCEPT st;
                    myItems = offered_items me st; hisItems = offered_items q st;
                    hisCan = te_canStoreItems e q myItems st = EQUIP_ERR_OK;
                    myCan = te_canStoreItems e me hisItems st = EQUIP_ERR_OK;
                    back = (\<lambda>st. SendTradeStatus q TRADE_STATUS_BACK_TO_TRADE (SendTradeStatus me TRADE_STATUS_BACK_TO_TRADE st))
                in if \<not> myCan
                   then back (t_emit [TNotify me LANG_NOT_FREE_TRADE_SLOTS, TNotify q LANG_NOT_PARTNER_FREE_TRADE_SLOTS] st)
                   else if \<not> hisCan
                   then back (t_emit [TNotify me LANG_NOT_PARTNER_FREE_TRADE_SLOTS, TNotify q LANG_NOT_FREE_TRADE_SLOTS] st)
                   else complete_trade e me q myItems hisItems st)))"

end
