(* ===== verification/TradeProps.thy ===== *)
theory TradeProps
  imports Trade
begin

text \<open>
  What trading guarantees: trades are between two players who both know it, nothing changes hands
  before both have accepted the same terms, and then exactly the terms are exchanged.
\<close>

section \<open>Requests\<close>

text \<open>
  A request of a player, the cancellation at logout or take-off, or anything elsewhere in the server,
  which may change purses and items but no trade.
\<close>

definition deal :: "trader \<Rightarrow> u64 option \<times> bool \<times> u64 list \<times> u32" where
  "deal t = (pTrader t, acceptTrade t, tradeItems t, tradeGold t)"

inductive trade_request :: "tst \<Rightarrow> tst \<Rightarrow> bool" where
  cancel: "trade_request st (HandleCancelTradeOpcode e me st)"
| leave: "trade_request st (TradeCancel e me b st)"
| begin_trade: "trade_request st (HandleBeginTradeOpcode me st)"
| unaccept: "trade_request st (HandleUnacceptTradeOpcode me st)"
| initiate: "trade_request st (HandleInitiateTradeOpcode e self ID st)"
| gold: "trade_request st (HandleSetTradeGoldOpcode me g st)"
| item: "trade_request st (HandleSetTradeItemOpcode e me ts bag slot st)"
| clear_item: "trade_request st (HandleClearTradeItemOpcode me ts st)"
| accept: "trade_request st (HandleAcceptTradeOpcode e me st)"

inductive trade_step :: "tst \<Rightarrow> tst \<Rightarrow> bool" where
  request: "trade_request st st' \<Longrightarrow> trade_step st st'"
| elsewhere: "(\<And>p. deal (td_traders st' p) = deal (td_traders st p)) \<Longrightarrow> trade_step st st'"

definition idle :: trader where
  "idle = \<lparr>pTrader = None, acceptTrade = False, tradeItems = replicate TRADE_SLOT_COUNT 0, tradeGold = 0, tr_money = 0\<rparr>"

inductive trade_run :: "tst \<Rightarrow> bool" where
  start: "(\<And>p. deal (td_traders st p) = deal idle) \<Longrightarrow> trade_run st"
| step: "trade_run st \<Longrightarrow> trade_step st st' \<Longrightarrow> trade_run st'"

section \<open>What the operations do to the deals\<close>

text \<open>The deals of all players, and those of the traders of a state.\<close>

abbreviation deals :: "tst \<Rightarrow> u64 \<Rightarrow> u64 option \<times> bool \<times> u64 list \<times> u32" where
  "deals st \<equiv> \<lambda>p. deal (td_traders st p)"

lemma traders_upd [simp]:
  "td_traders (upd_trader p f st) = (td_traders st)(p := f (td_traders st p))" "td_items (upd_trader p f st) = td_items st"
  "td_traders (t_emit es st) = td_traders st" "td_items (t_emit es st) = td_items st"
  "td_traders (SendTradeStatus p s st) = td_traders st" "td_items (SendTradeStatus p s st) = td_items st"
  "td_traders (set_owner g r st) = td_traders st"
  by (simp_all add: upd_trader_def t_emit_def SendTradeStatus_def set_owner_def)

lemma reset_accept_traders [simp]:
  "td_traders (reset_accept p st) = (td_traders st)(p := (td_traders st p)\<lparr>acceptTrade := False\<rparr>)" "td_items (reset_accept p st) = td_items st"
  by (auto simp: reset_accept_def fun_eq_iff)

lemma SendUpdateTrade_traders:
  assumes "pTrader (td_traders st p) = Some q"
  shows "td_traders (SendUpdateTrade p st) =
      (td_traders st)(p := (td_traders st p)\<lparr>acceptTrade := False\<rparr>, q := (if q = p then (td_traders st p)\<lparr>acceptTrade := False\<rparr> else (td_traders st q)\<lparr>acceptTrade := False\<rparr>))"
    "td_items (SendUpdateTrade p st) = td_items st"
  using assms by (simp_all add: SendUpdateTrade_def Let_def)

lemma clear_traders [simp]:
  "td_traders (ClearTrade p st) = (td_traders st)(p := (td_traders st p)\<lparr>tradeGold := 0, acceptTrade := False, tradeItems := replicate TRADE_SLOT_COUNT 0\<rparr>)"
  "td_items (ClearTrade p st) = td_items st"
  "td_traders (set_pTrader p q st) = (td_traders st)(p := (td_traders st p)\<lparr>pTrader := q\<rparr>)"
  "td_items (set_pTrader p q st) = td_items st"
  by (simp_all add: ClearTrade_def set_pTrader_def)

lemma items_traders [simp]:
  "td_traders (MoveItemFromInventory p g st) = td_traders st" "td_traders (MoveItemToInventory p d g st) = td_traders st"
  "td_traders (take_item p i st) = td_traders st" "td_traders (give_item p d i st) = td_traders st"
  "td_traders (give_back e p d i st) = td_traders st"
  by (auto simp: MoveItemFromInventory_def MoveItemToInventory_def take_item_def give_item_def give_back_def split: option.splits prod.splits)

lemma remove_items_traders [simp]: "td_traders (remove_items me q ms hs st) = td_traders st"
  by (induction me q ms hs st rule: remove_items.induct) simp_all

lemma moveItems_traders [simp]: "td_traders (moveItems e me q ms hs st) = td_traders st"
  by (induction e me q ms hs st rule: moveItems.induct) (simp_all add: Let_def split: prod.split)

lemma money_deals [simp]: "deal (td_traders (t_ModifyMoney p d st) r) = deal (td_traders st r)" "td_items (t_ModifyMoney p d st) = td_items st"
  by (auto simp: t_ModifyMoney_def Let_def deal_def)

lemma exchange_deals [simp]: "deal (td_traders (exchange_gold me q st) r) = deal (td_traders st r)" "td_items (exchange_gold me q st) = td_items st"
  by (simp_all add: exchange_gold_def Let_def)

lemma deal_upd:
  "deal (t\<lparr>acceptTrade := b\<rparr>) = (case deal t of (p, _, i, g) \<Rightarrow> (p, b, i, g))"
  "deal (t\<lparr>pTrader := r\<rparr>) = (case deal t of (_, b, i, g) \<Rightarrow> (r, b, i, g))"
  "deal (t\<lparr>tradeGold := n\<rparr>) = (case deal t of (p, b, i, _) \<Rightarrow> (p, b, i, n))"
  "deal (t\<lparr>tradeItems := is\<rparr>) = (case deal t of (p, b, _, g) \<Rightarrow> (p, b, is, g))"
  "deal (t\<lparr>tradeGold := n, acceptTrade := b, tradeItems := is\<rparr>) = (case deal t of (p, _, _, _) \<Rightarrow> (p, b, is, n))"
  by (simp_all add: deal_def)

section \<open>The protocol\<close>

text \<open>
  The abstract view: partner, acceptance, items and gold of every player. An offer can only change
  together with both acceptances being taken back.
\<close>

type_synonym deal = "u64 option \<times> bool \<times> u64 list \<times> u32"

abbreviation no_deal :: deal where "no_deal \<equiv> (None, False, replicate TRADE_SLOT_COUNT 0, 0)"

inductive deal_step :: "(u64 \<Rightarrow> deal) \<Rightarrow> (u64 \<Rightarrow> deal) \<Rightarrow> bool" where
  stay: "deal_step D D"
| meet: "fst (D p) = None \<Longrightarrow> fst (D q) = None \<Longrightarrow> p \<noteq> q \<Longrightarrow>
    deal_step D (D(p := (Some q, snd (D p)), q := (Some p, snd (D q))))"
| offer: "D p = (Some q, b, is, n) \<Longrightarrow> D q = (Some p, c, js, m) \<Longrightarrow>
    is' = is \<or> (\<exists>k g. is' = is[k := g] \<and> (g = 0 \<or> g \<notin> set is)) \<Longrightarrow>
    deal_step D (D(p := (Some q, False, is', n'), q := (Some p, False, js, m)))"
| flag: "D p = (Some q, b, rest) \<Longrightarrow> deal_step D (D(p := (Some q, c, rest)))"
| restart: "D p = (Some q, b, rest) \<Longrightarrow>
    deal_step D (D(p := (Some q, snd no_deal), q := (fst (D q), snd no_deal)))"
| part: "D p = (Some q, b, rest) \<Longrightarrow> deal_step D (D(p := no_deal, q := no_deal))"

definition items_ok :: "u64 list \<Rightarrow> bool" where
  "items_ok is \<longleftrightarrow> length is = TRADE_SLOT_COUNT \<and> distinct (filter (\<lambda>g. g \<noteq> 0) is)"

definition good :: "(u64 \<Rightarrow> deal) \<Rightarrow> u64 \<Rightarrow> bool" where
  "good D p \<longleftrightarrow> (case fst (D p) of
      None \<Rightarrow> D p = no_deal
    | Some q \<Rightarrow> q \<noteq> p \<and> fst (D q) = Some p \<and> items_ok (fst (snd (snd (D p)))))"

definition paired :: "(u64 \<Rightarrow> deal) \<Rightarrow> bool" where
  "paired D \<longleftrightarrow> (\<forall>p. good D p)"

lemma pairedD:
  assumes "paired D"
  shows "fst (D p) = None \<Longrightarrow> D p = no_deal" "fst (D p) = Some q \<Longrightarrow> q \<noteq> p" "fst (D p) = Some q \<Longrightarrow> fst (D q) = Some p"
    "items_ok (fst (snd (snd (D p))))"
proof -
  have g: "good D p" using assms by (simp add: paired_def)
  show "fst (D p) = None \<Longrightarrow> D p = no_deal" "fst (D p) = Some q \<Longrightarrow> q \<noteq> p" "fst (D p) = Some q \<Longrightarrow> fst (D q) = Some p"
    using g by (auto simp: good_def)
  show "items_ok (fst (snd (snd (D p))))" using g by (cases "fst (D p)") (auto simp: good_def items_ok_def)
qed

lemma distinct_slot:
  assumes "distinct (filter (\<lambda>g. g \<noteq> 0) is)" "g = 0 \<or> g \<notin> set is"
  shows "distinct (filter (\<lambda>g. g \<noteq> 0) (is[k := g]))"
  using assms
proof (induction "is" arbitrary: k)
  case (Cons x xs)
  show ?case
  proof (cases k)
    case 0
    thus ?thesis using Cons.prems by (auto split: if_splits)
  next
    case (Suc j)
    thus ?thesis using Cons.IH [of j] Cons.prems set_update_subset_insert [of xs j g] by (auto split: if_splits)
  qed
qed simp

text \<open>A change at two players whose partners, if any, are each other.\<close>

lemma paired_change:
  assumes ok: "paired D" and pq: "fst (D p) \<in> {None, Some q}" "fst (D q) \<in> {None, Some p}"
    and new: "good (D(p := x, q := y)) p" "good (D(p := x, q := y)) q"
  shows "paired (D(p := x, q := y))"
  unfolding paired_def
proof
  fix r
  show "good (D(p := x, q := y)) r"
  proof (cases "r = p \<or> r = q")
    case True
    thus ?thesis using new by blast
  next
    case False
    have "fst (D r) \<noteq> Some p" "fst (D r) \<noteq> Some q" using pairedD(3) [OF ok, of r] pq False by auto
    moreover have "good D r" using ok by (simp add: paired_def)
    ultimately show ?thesis using False by (auto simp: good_def split: option.splits)
  qed
qed

lemma paired_step: "deal_step D D' \<Longrightarrow> paired D \<Longrightarrow> paired D'"
proof (induction rule: deal_step.induct)
  case (meet D p q)
  hence "D p = no_deal" "D q = no_deal" using pairedD(1) by blast+
  thus ?case using meet by (intro paired_change) (auto simp: good_def items_ok_def)
next
  case (offer D p q b "is" n c js m is' n')
  have "items_ok is" "items_ok js" "p \<noteq> q"
    using pairedD(4) [OF offer(4), of p] pairedD(4) [OF offer(4), of q] pairedD(2) [OF offer(4), of p q] offer(1,2) by auto
  moreover from this have "items_ok is'" using offer(3) distinct_slot by (auto simp: items_ok_def)
  ultimately show ?case using offer by (intro paired_change) (auto simp: good_def)
next
  case (flag D p q b rest c)
  have "good (D(p := (Some q, c, rest))) r" for r
  proof -
    have "good D r" using flag(2) by (simp add: paired_def)
    thus ?thesis using flag(1) by (auto simp: good_def split: option.splits)
  qed
  thus ?case unfolding paired_def by blast
next
  case (restart D p q b rest)
  have "p \<noteq> q" "fst (D q) = Some p" using pairedD(2,3) [OF restart(2), of p q] restart(1) by auto
  thus ?case using restart by (intro paired_change) (auto simp: good_def items_ok_def)
next
  case (part D p q b rest)
  have "p \<noteq> q" "fst (D q) = Some p" using pairedD(2,3) [OF part(2), of p q] part(1) by auto
  thus ?case using part by (intro paired_change) (auto simp: good_def)
qed

section \<open>The requests follow the protocol\<close>

lemma deal_eq: "deal t = (r, b, is, n) \<longleftrightarrow> pTrader t = r \<and> acceptTrade t = b \<and> tradeItems t = is \<and> tradeGold t = n"
  by (simp add: deal_def)

lemma fun_upd_deal: "(\<lambda>p. deal ((f(q := t)) p)) = (\<lambda>p. deal (f p))(q := deal t)"
  by auto

lemma deal_step_eq: "deal_step D E \<Longrightarrow> E = D' \<Longrightarrow> deal_step D D'"
  by simp

text \<open>A changed offer is shown to the partner, who is somebody else.\<close>

lemma offer_step:
  assumes ok: "paired (deals st)" and p: "pTrader (td_traders st me) = Some q"
    and f: "pTrader (f (td_traders st me)) = Some q"
    and ch: "tradeItems (f (td_traders st me)) = tradeItems (td_traders st me) \<or>
      (\<exists>k g. tradeItems (f (td_traders st me)) = (tradeItems (td_traders st me))[k := g] \<and> (g = 0 \<or> g \<notin> set (tradeItems (td_traders st me))))"
  shows "deal_step (deals st) (deals (SendUpdateTrade q (upd_trader me f st)))"
proof -
  have q: "q \<noteq> me" "pTrader (td_traders st q) = Some me"
    using pairedD(2,3) [OF ok, of me q] p by (simp_all add: deal_def)
  let ?t = "td_traders st me" and ?u = "td_traders st q"
  have t: "pTrader (td_traders (upd_trader me f st) q) = Some me" using q by simp
  have "deals (SendUpdateTrade q (upd_trader me f st)) =
      (deals st)(me := (Some q, False, tradeItems (f ?t), tradeGold (f ?t)), q := (Some me, False, tradeItems ?u, tradeGold ?u))"
    using q f by (auto simp: SendUpdateTrade_traders [OF t] deal_def fun_eq_iff)
  moreover have "deal_step (deals st)
      ((deals st)(me := (Some q, False, tradeItems (f ?t), tradeGold (f ?t)), q := (Some me, False, tradeItems ?u, tradeGold ?u)))"
    using p q by (intro deal_step.offer [OF _ _ ch]) (simp_all add: deal_def)
  ultimately show ?thesis by simp
qed

lemma flag_step:
  assumes "pTrader (td_traders st p) = Some q" "td_traders st' = (td_traders st)(p := (td_traders st p)\<lparr>acceptTrade := b\<rparr>)"
  shows "deal_step (deals st) (deals st')"
  using assms by (intro deal_step_eq [OF deal_step.flag [of _ p q "acceptTrade (td_traders st p)" _ b]]) (auto simp: deal_def)

lemma stay_step: "deals st' = deals st \<Longrightarrow> deal_step (deals st) (deals st')"
  by (metis deal_step.stay)

lemma part_step:
  assumes ok: "paired (deals st)" and p: "pTrader (td_traders st p) = Some q"
    and d: "\<And>r. r \<noteq> p \<Longrightarrow> r \<noteq> q \<Longrightarrow> deal (td_traders st' r) = deal (td_traders st r)"
      "deal (td_traders st' p) = no_deal" "deal (td_traders st' q) = no_deal"
  shows "deal_step (deals st) (deals st')"
  using d p by (intro deal_step_eq [OF deal_step.part [of _ p q "acceptTrade (td_traders st p)"]]) (auto simp: deal_def)

lemma parted:
  "deal (td_traders (set_pTrader p None (set_pTrader q None (ClearTrade r (ClearTrade s st)))) x) =
     (case deal (td_traders st x) of (y, b, is, n) \<Rightarrow>
        (if x = p \<or> x = q then None else y, (if x = r \<or> x = s then snd no_deal else (b, is, n))))"
  by (auto simp: deal_def)

lemma cancel_step:
  assumes ok: "paired (deals st)"
  shows "deal_step (deals st) (deals (TradeCancel e me b st))"
proof (cases "pTrader (td_traders st me)")
  case None
  thus ?thesis by (simp add: TradeCancel_def deal_step.stay)
next
  case (Some q)
  show ?thesis
    by (rule part_step [OF ok Some]) (simp_all add: TradeCancel_def Some Let_def deal_def)
qed

lemma deal_if: "deal_step D (deals a) \<Longrightarrow> deal_step D (deals b) \<Longrightarrow> deal_step D (deals (if c then a else b))"
  by simp

lemma complete_deals:
  "deals (complete_trade e me q ms hs s) = (\<lambda>r. if r = me \<or> r = q then no_deal else deal (td_traders s r))"
proof -
  have "deal (td_traders (complete_trade e me q ms hs s) r) =
      deal (td_traders (set_pTrader me None (set_pTrader q None (ClearTrade q (ClearTrade me
        (exchange_gold me q (moveItems e me q ms hs (remove_items me q ms hs s))))))) r)" for r
    by (simp add: complete_trade_def Let_def)
  moreover have "deal (td_traders (exchange_gold me q (moveItems e me q ms hs (remove_items me q ms hs s))) r) = deal (td_traders s r)" for r
    by simp
  ultimately show ?thesis unfolding parted by (simp add: fun_eq_iff split: prod.split)
qed

lemma accept_step:
  assumes ok: "paired (deals st)"
  shows "deal_step (deals st) (deals (HandleAcceptTradeOpcode e me st))"
proof (cases "pTrader (td_traders st me)")
  case None
  thus ?thesis by (simp add: HandleAcceptTradeOpcode_def deal_step.stay)
next
  case (Some q)
  have q: "q \<noteq> me" "pTrader (td_traders st q) = Some me"
    using pairedD(2,3) [OF ok, of me q] Some by (simp_all add: deal_def)
  have complete: "deal_step (deals st) (deals (complete_trade e me q ms hs s))"
    if "td_traders s = (td_traders st)(me := (td_traders st me)\<lparr>acceptTrade := True\<rparr>)" for ms hs s
    by (rule part_step [OF ok Some]) (simp_all add: complete_deals [unfolded fun_eq_iff, rule_format] that)
  show ?thesis
    unfolding HandleAcceptTradeOpcode_def Some option.case Let_def
    by (intro deal_if; (rule flag_step [OF Some] flag_step [OF q(2)] stay_step complete; simp; fail))
qed

lemma request_step:
  assumes "trade_request st st'" "paired (deals st)"
  shows "deal_step (deals st) (deals st')"
  using assms
proof (induction rule: trade_request.induct)
  case (cancel st e me)
  thus ?case by (simp add: HandleCancelTradeOpcode_def cancel_step)
next
  case (leave st e me b)
  thus ?case by (rule cancel_step)
next
  case (begin_trade st me)
  show ?case
  proof (cases "pTrader (td_traders st me)")
    case None
    thus ?thesis by (simp add: HandleBeginTradeOpcode_def deal_step.stay)
  next
    case (Some q)
    thus ?thesis
      by (intro deal_step_eq [OF deal_step.restart [of _ me q "acceptTrade (td_traders st me)"]])
        (auto simp: HandleBeginTradeOpcode_def Let_def deal_def fun_eq_iff)
  qed
next
  case (unaccept st me)
  show ?case
  proof (cases "pTrader (td_traders st me)")
    case None
    thus ?thesis by (simp add: HandleUnacceptTradeOpcode_def deal_step.stay)
  next
    case (Some q)
    show ?thesis by (rule flag_step [OF Some, of _ False]) (simp add: HandleUnacceptTradeOpcode_def Some)
  qed
next
  case (initiate st e self ID)
  let ?me = "p_guid self" and ?st' = "HandleInitiateTradeOpcode e self ID st"
  show ?case
  proof (cases "td_traders ?st' = td_traders st")
    case False
    then obtain x where q: "FindPlayer (te_world e) ID = Some x" "pTrader (td_traders st ?me) = None"
        "pTrader (td_traders st (p_guid x)) = None" "p_guid x \<noteq> ?me"
      by (cases "FindPlayer (te_world e) ID") (auto simp: HandleInitiateTradeOpcode_def Let_def split: if_splits)
    have "td_traders ?st' = (td_traders st)(?me := (td_traders st ?me)\<lparr>pTrader := Some (p_guid x)\<rparr>,
        p_guid x := (td_traders st (p_guid x))\<lparr>pTrader := Some ?me\<rparr>)"
      using False q by (auto simp: HandleInitiateTradeOpcode_def Let_def split: if_splits)
    thus ?thesis
      by (intro deal_step_eq [OF deal_step.meet [of _ ?me "p_guid x"]]) (use q in \<open>auto simp: deal_def\<close>)
  qed (simp add: deal_step.stay)
next
  case (gold st me g)
  thus ?case
    by (cases "pTrader (td_traders st me)") (auto simp: HandleSetTradeGoldOpcode_def deal_step.stay intro!: offer_step)
next
  case (item st e me ts bag slot)
  thus ?case
    by (cases "pTrader (td_traders st me)")
      (auto simp: HandleSetTradeItemOpcode_def Let_def deal_step.stay split: option.split intro!: offer_step)
next
  case (clear_item st me ts)
  let ?f = "\<lambda>t. t\<lparr>tradeItems := (tradeItems t)[unat ts := 0]\<rparr>"
  show ?case
  proof (cases "pTrader (td_traders st me)")
    case None
    thus ?thesis by (simp add: HandleClearTradeItemOpcode_def deal_step.stay)
  next
    case (Some q)
    have "deal_step (deals st) (deals (SendUpdateTrade q (upd_trader me ?f st)))"
      by (rule offer_step [OF clear_item Some]) (use Some in \<open>simp, simp, blast\<close>)
    thus ?thesis using Some by (simp add: HandleClearTradeItemOpcode_def deal_step.stay)
  qed
next
  case (accept st e me)
  thus ?case by (rule accept_step)
qed

lemma step_deals: "trade_step st st' \<Longrightarrow> paired (deals st) \<Longrightarrow> deal_step (deals st) (deals st')"
  by (induction rule: trade_step.induct) (auto intro: request_step stay_step)

section \<open>Pairs\<close>

lemma start_paired: "(\<And>p. deal (td_traders st p) = deal idle) \<Longrightarrow> paired (deals st)"
  by (simp add: paired_def good_def idle_def deal_def)

lemma run_paired: "trade_run st \<Longrightarrow> paired (deals st)"
proof (induction rule: trade_run.induct)
  case (start st)
  thus ?case by (rule start_paired)
next
  case (step st st')
  thus ?case using paired_step step_deals by blast
qed

text \<open>
  Whatever happens, a trade is between two different players who are each other's partner, has
  seven slots and no item in two of them; a player without a trade offers and accepts nothing.
\<close>

theorem trades_are_pairs:
  assumes "trade_run st"
  shows "(case pTrader (td_traders st p) of
      None \<Rightarrow> deal (td_traders st p) = (None, False, replicate 7 0, 0)
    | Some q \<Rightarrow> q \<noteq> p \<and> pTrader (td_traders st q) = Some p \<and> length (tradeItems (td_traders st p)) = 7 \<and>
        distinct (filter (\<lambda>g. g \<noteq> 0) (tradeItems (td_traders st p))))"
proof -
  have "good (deals st) p" using run_paired [OF assms] by (simp add: paired_def)
  thus ?thesis by (simp add: good_def items_ok_def deal_def split: option.splits)
qed

text \<open>
  C18: The requests refine the protocol: a trade begins between two free players, an offer changes
  together with both acceptances being taken back, and a trade ends for both at once.
\<close>

theorem trade_refines_protocol:
  assumes "trade_run st" "trade_step st st'"
  shows "deal_step (deals st) (deals st')"
  by (rule step_deals [OF assms(2) run_paired [OF assms(1)]])

section \<open>Consent\<close>

definition terms :: "u64 \<Rightarrow> (u64 \<Rightarrow> deal) \<Rightarrow> u64 option \<times> u64 list \<times> u32 \<times> u64 list \<times> u32" where
  "terms p D = (case D p of (r, _, is, n) \<Rightarrow>
     (r, is, n, (case r of None \<Rightarrow> ([], 0) | Some q \<Rightarrow> snd (snd (D q)))))"

lemma accepted_step:
  assumes "deal_step D D'" "paired D" "fst (snd (D p))" "fst (snd (D' p))"
  shows "terms p D' = terms p D"
  using assms
proof (induction rule: deal_step.induct)
  case (meet D q r)
  hence "D q = no_deal" "D r = no_deal" using pairedD(1) by blast+
  hence "p \<noteq> q" "p \<noteq> r" "fst (D p) \<noteq> Some q" "fst (D p) \<noteq> Some r"
    using meet(5) pairedD(3) [OF meet(4), of p] by auto
  thus ?case by (auto simp: terms_def split: prod.split option.split)
next
  case (offer D q r b "is" n c js m is' n')
  have "q \<noteq> r" using pairedD(2) [OF offer(4), of q r] offer(1) by simp
  hence "p \<noteq> q" "p \<noteq> r" using offer(6) by auto
  moreover have "fst (D p) \<noteq> Some q" "fst (D p) \<noteq> Some r"
    using calculation offer(1,2) pairedD(3) [OF offer(4), of p] by auto
  ultimately show ?case by (auto simp: terms_def split: prod.split option.split)
next
  case (flag D q r b rest c)
  thus ?case by (auto simp: terms_def split: prod.split option.split)
next
  case (restart D q r b rest)
  have "q \<noteq> r" using pairedD(2) [OF restart(2), of q r] restart(1) by simp
  hence "p \<noteq> q" "p \<noteq> r" using restart(4) by auto
  moreover have "fst (D p) \<noteq> Some q" "fst (D p) \<noteq> Some r"
    using calculation restart(1) pairedD(3) [OF restart(2), of p] pairedD(3) [OF restart(2), of q] by auto
  ultimately show ?case by (auto simp: terms_def split: prod.split option.split)
next
  case (part D q r b rest)
  have "q \<noteq> r" using pairedD(2) [OF part(2), of q r] part(1) by simp
  hence "p \<noteq> q" "p \<noteq> r" using part(4) by auto
  moreover have "fst (D p) \<noteq> Some q" "fst (D p) \<noteq> Some r"
    using calculation part(1) pairedD(3) [OF part(2), of p] pairedD(3) [OF part(2), of q] by auto
  ultimately show ?case by (auto simp: terms_def split: prod.split option.split)
qed simp

text \<open>The states while a player's acceptance stands.\<close>

inductive while_accepted :: "u64 \<Rightarrow> tst \<Rightarrow> tst \<Rightarrow> bool" for p where
  here: "acceptTrade (td_traders st p) \<Longrightarrow> while_accepted p st st"
| more: "while_accepted p st s \<Longrightarrow> trade_step s st' \<Longrightarrow> acceptTrade (td_traders st' p) \<Longrightarrow> while_accepted p st st'"

lemma while_accepted_terms:
  "while_accepted p st s \<Longrightarrow> paired (deals st) \<Longrightarrow>
     paired (deals s) \<and> acceptTrade (td_traders s p) \<and> terms p (deals s) = terms p (deals st)"
proof (induction rule: while_accepted.induct)
  case (more st s st')
  note d = step_deals [OF more(2)]
  show ?case using more d accepted_step [OF d] paired_step [OF d] by (auto simp: deal_def)
qed simp

text \<open>The purses and items of the players.\<close>

definition goods :: "tst \<Rightarrow> (u64 \<Rightarrow> u32) \<times> (u64 \<Rightarrow> trade_item option)" where
  "goods st = ((\<lambda>p. tr_money (td_traders st p)), td_items st)"

lemma goods_upd: "(\<And>t. tr_money (f t) = tr_money t) \<Longrightarrow> goods (upd_trader p f st) = goods st"
  by (auto simp: goods_def)

lemma goods_same [simp]:
  "goods (t_emit es st) = goods st" "goods (SendTradeStatus p s st) = goods st" "goods (ClearTrade p st) = goods st"
  "goods (set_pTrader p q st) = goods st" "goods (reset_accept p st) = goods st"
  by (auto simp: goods_def)

lemma goods_update [simp]: "goods (SendUpdateTrade p st) = goods st"
  by (cases "pTrader (td_traders st p)") (auto simp: SendUpdateTrade_def Let_def)

lemma accept_goods:
  assumes "goods (HandleAcceptTradeOpcode e me st) \<noteq> goods st"
  obtains q s where "pTrader (td_traders st me) = Some q" "q \<noteq> me \<Longrightarrow> acceptTrade (td_traders st q)"
    "HandleAcceptTradeOpcode e me st = complete_trade e me q (offered_items me s) (offered_items q s) s"
    "td_traders s = (td_traders st)(me := (td_traders st me)\<lparr>acceptTrade := True\<rparr>)" "td_items s = td_items st"
proof (cases "pTrader (td_traders st me)")
  case None
  thus thesis using assms by (simp add: HandleAcceptTradeOpcode_def)
next
  case (Some q)
  let ?s = "SendTradeStatus q TRADE_STATUS_TRADE_ACCEPT (upd_trader me (\<lambda>t. t\<lparr>acceptTrade := True\<rparr>) st)"
  have same: "goods (upd_trader r (\<lambda>t. t\<lparr>acceptTrade := b\<rparr>) s) = goods s" for r b s by (rule goods_upd) simp
  have "q \<noteq> me \<Longrightarrow> acceptTrade (td_traders st q)" and
    "HandleAcceptTradeOpcode e me st = complete_trade e me q (offered_items me ?s) (offered_items q ?s) ?s"
    using assms unfolding HandleAcceptTradeOpcode_def Some option.case Let_def
    by (auto simp: same split: if_splits)
  thus thesis using that [OF Some, of ?s] by simp
qed

lemma others_goods:
  "goods (TradeCancel e me b st) = goods st" "goods (HandleBeginTradeOpcode me st) = goods st"
  "goods (HandleUnacceptTradeOpcode me st) = goods st" "goods (HandleInitiateTradeOpcode e self ID st) = goods st"
  "goods (HandleSetTradeGoldOpcode me g st) = goods st" "goods (HandleSetTradeItemOpcode e me ts bag slot st) = goods st"
  "goods (HandleClearTradeItemOpcode me ts st) = goods st"
  by (simp_all add: TradeCancel_def HandleBeginTradeOpcode_def HandleUnacceptTradeOpcode_def HandleInitiateTradeOpcode_def
      HandleSetTradeGoldOpcode_def HandleSetTradeItemOpcode_def HandleClearTradeItemOpcode_def Let_def goods_upd split: option.split)

lemma request_goods:
  "trade_request s s' \<Longrightarrow> goods s' \<noteq> goods s \<Longrightarrow> \<exists>e me. s' = HandleAcceptTradeOpcode e me s"
  by (induction rule: trade_request.induct) (auto simp: others_goods HandleCancelTradeOpcode_def)

text \<open>
  C16: No request moves gold or an item unless it ends a trade whose two players have both accepted:
  the one who asks, and his partner by an acceptance that has stood ever since his partner, the items
  and the gold of both sides were what they are now.
\<close>

theorem exchange_needs_consent:
  assumes run: "trade_run s" and req: "trade_request s s'" and moved: "goods s' \<noteq> goods s"
  shows "\<exists>e me q. s' = HandleAcceptTradeOpcode e me s \<and> pTrader (td_traders s me) = Some q \<and> acceptTrade (td_traders s q) \<and>
    pTrader (td_traders s' me) = None \<and> pTrader (td_traders s' q) = None \<and>
    (\<forall>st. trade_run st \<longrightarrow> while_accepted q st s \<longrightarrow> terms q (deals st) = terms q (deals s))"
proof -
  from request_goods [OF req moved] obtain e me where s': "s' = HandleAcceptTradeOpcode e me s" by blast
  from accept_goods [OF moved [unfolded s']] s' obtain q x where q: "pTrader (td_traders s me) = Some q" "q \<noteq> me \<Longrightarrow> acceptTrade (td_traders s q)"
    "s' = complete_trade e me q (offered_items me x) (offered_items q x) x" by metis
  have "q \<noteq> me" using pairedD(2) [OF run_paired [OF run], of me q] q(1) by (simp add: deal_def)
  moreover have "deal (td_traders s' me) = no_deal" "deal (td_traders s' q) = no_deal"
    unfolding q(3) by (simp_all add: complete_deals [unfolded fun_eq_iff, rule_format])
  hence "pTrader (td_traders s' me) = None" "pTrader (td_traders s' q) = None" by (simp_all add: deal_def)
  moreover have "terms q (deals st) = terms q (deals s)" if "trade_run st" "while_accepted q st s" for st
    using while_accepted_terms [OF that(2) run_paired [OF that(1)]] by simp
  ultimately show ?thesis using s' q(1,2) by blast
qed

section \<open>The exchange\<close>

text \<open>Whom an item belongs to, where there is such an item.\<close>

definition owner :: "tst \<Rightarrow> u64 \<Rightarrow> u64 option option" where
  "owner st g = map_option ti_owner (td_items st g)"

lemma owner_simps [simp]:
  "owner (t_emit es st) g = owner st g" "owner (upd_trader p f st) g = owner st g" "owner (SendTradeStatus p s st) g = owner st g"
  "owner (ClearTrade p st) g = owner st g" "owner (set_pTrader p r st) g = owner st g" "owner (exchange_gold me q st) g = owner st g"
  "owner (set_owner h w st) g = (if g = h then map_option (\<lambda>_. w) (owner st g) else owner st g)"
  by (simp_all add: owner_def set_owner_def option.map_comp comp_def)

lemma owner_moves [simp]:
  "owner (take_item p i st) g = (if i = Some g then map_option (\<lambda>_. None) (owner st g) else owner st g)"
  "owner (give_item p d i st) g = (if i = Some g then map_option (\<lambda>_. Some p) (owner st g) else owner st g)"
proof -
  have gift: "owner (st\<lparr>td_items := (td_items st)(h := map_option (\<lambda>it. it\<lparr>ti_giftCreator := p\<rparr>) (td_items st h))\<rparr>) g = owner st g" for h
    by (simp add: owner_def option.map_comp comp_def)
  show "owner (take_item p i st) g = (if i = Some g then map_option (\<lambda>_. None) (owner st g) else owner st g)"
    by (auto simp: take_item_def MoveItemFromInventory_def gift split: option.split)
  show "owner (give_item p d i st) g = (if i = Some g then map_option (\<lambda>_. Some p) (owner st g) else owner st g)"
    by (auto simp: give_item_def MoveItemToInventory_def split: option.split)
qed





lemma modify_money [simp]:
  "tr_money (td_traders (t_ModifyMoney p d st) r) = (if r = p then money_after (tr_money (td_traders st p)) d else tr_money (td_traders st r))"
  by (simp add: t_ModifyMoney_def Let_def)

lemma exchange_money:
  assumes "q \<noteq> me"
  shows "tr_money (td_traders (exchange_gold me q st) r) =
    (if r = me then money_after (money_after (tr_money (td_traders st me)) (- tradeGold (td_traders st me))) (tradeGold (td_traders st q))
     else if r = q then money_after (money_after (tr_money (td_traders st q)) (- tradeGold (td_traders st q))) (tradeGold (td_traders st me))
     else tr_money (td_traders st r))"
  using assms by (auto simp: exchange_gold_def Let_def)

lemma pay_and_get:
  assumes "c \<le> m" "unat m + unat d < 0x7FFFFFFE"
  shows "unat (money_after (money_after m (- c)) d) = unat m - unat c + unat d"
proof -
  have m: "m \<le> MAX_MONEY_AMOUNT" "unat d < 0x80000000" using assms(2) by (simp_all add: word_le_nat_alt)
  have pay: "unat (money_after m (- c)) = unat m - unat c" by (rule money_after_pay [OF assms(1) m(1)])
  hence "money_after m (- c) \<le> MAX_MONEY_AMOUNT" using assms(2) by (simp add: word_le_nat_alt)
  from money_after_get(2) [OF this m(2)] show ?thesis using pay assms by (simp add: word_le_nat_alt)
qed





text \<open>
  C19: When there is no room for the items, both clients are told that the trade is open again, but
  both acceptances stand in the server: the next acceptance of either player completes the trade.
\<close>

theorem failed_trade_stays_accepted:
  assumes run: "trade_run st" and q: "pTrader (td_traders st me) = Some q" "acceptTrade (td_traders st q)"
    and gold: "\<forall>p\<in>{me, q}. tradeGold (td_traders st p) \<le> tr_money (td_traders st p)"
    and items: "\<not> untradeable e me st" "\<not> untradeable e q st" and room: "\<forall>is s. te_canStoreItems e me is s \<noteq> EQUIP_ERR_OK"
  shows "\<exists>es. td_out (HandleAcceptTradeOpcode e me st) = td_out st @ es @
        [TSend me (trade_status_packet TRADE_STATUS_BACK_TO_TRADE), TSend q (trade_status_packet TRADE_STATUS_BACK_TO_TRADE)] \<and>
    acceptTrade (td_traders (HandleAcceptTradeOpcode e me st) me) \<and> acceptTrade (td_traders (HandleAcceptTradeOpcode e me st) q)"
proof -
  have ne: "q \<noteq> me" using pairedD(2) [OF run_paired [OF run], of me q] q(1) by (simp add: deal_def)
  have gold': "\<not> tradeGold (td_traders st me) > tr_money (td_traders st me)" "\<not> tradeGold (td_traders st q) > tr_money (td_traders st q)"
    using gold by (simp_all add: not_less)
  let ?s = "SendTradeStatus q TRADE_STATUS_TRADE_ACCEPT (upd_trader me (\<lambda>t. t\<lparr>acceptTrade := True\<rparr>) st)"
  have "HandleAcceptTradeOpcode e me st = SendTradeStatus q TRADE_STATUS_BACK_TO_TRADE (SendTradeStatus me TRADE_STATUS_BACK_TO_TRADE
      (t_emit [TNotify me LANG_NOT_FREE_TRADE_SLOTS, TNotify q LANG_NOT_PARTNER_FREE_TRADE_SLOTS] ?s))"
    using q gold' items room ne by (simp add: HandleAcceptTradeOpcode_def Let_def)
  thus ?thesis using q(2) ne by (simp add: SendTradeStatus_def) (simp add: t_emit_def upd_trader_def)
qed

section \<open>Witnesses\<close>

definition demo_trade :: trade_env where
  "demo_trade = \<lparr>te_world = \<lparr>w_players = [Ann\<lparr>p_guid := 2, p_inWorld := True\<rparr>], w_config = \<lambda>_. False, w_names = \<lambda>_. None\<rparr>,
     te_social = [], te_twoSideTrade = True, te_alive = \<lambda>_. True, te_stunned = \<lambda>_. False, te_logingOut = \<lambda>_. False,
     te_playerLogout = \<lambda>_. False, te_inFlight = \<lambda>_. False, te_far = \<lambda>_ _. False, te_itemAt = \<lambda>_ _ _. None,
     te_canBeTraded = \<lambda>_. True, te_canStore = \<lambda>_ d _ _. (EQUIP_ERR_OK, d), te_canStoreItems = \<lambda>_ _ _. EQUIP_ERR_OK\<rparr>"

definition demo_idle :: tst where
  "demo_idle = \<lparr>td_traders = \<lambda>_. idle\<lparr>tr_money := 500\<rparr>, td_items = Map.empty, td_out = []\<rparr>"

definition demo_open :: tst where "demo_open = HandleInitiateTradeOpcode demo_trade Ann 2 demo_idle"

definition demo_offer :: tst where "demo_offer = HandleSetTradeGoldOpcode 1 100 demo_open"

definition demo_accepted :: tst where "demo_accepted = HandleAcceptTradeOpcode demo_trade 2 demo_offer"

lemma demo_trade_run: "trade_run demo_idle" "trade_run demo_open" "trade_run demo_offer" "trade_run demo_accepted"
proof -
  show 0: "trade_run demo_idle" by (rule trade_run.start) (simp add: demo_idle_def deal_def)
  show 1: "trade_run demo_open" unfolding demo_open_def by (rule trade_run.step [OF 0]) (intro trade_step.request trade_request.initiate)
  show 2: "trade_run demo_offer" unfolding demo_offer_def by (rule trade_run.step [OF 1]) (intro trade_step.request trade_request.gold)
  show "trade_run demo_accepted" unfolding demo_accepted_def by (rule trade_run.step [OF 2]) (intro trade_step.request trade_request.accept)
qed

lemma demo_open_traders:
  "td_traders demo_open = (\<lambda>p. idle\<lparr>tr_money := 500, pTrader := (if p = 1 then Some 2 else if p = 2 then Some 1 else None)\<rparr>)"
  "td_items demo_open = Map.empty"
  by (auto simp: demo_open_def HandleInitiateTradeOpcode_def Let_def demo_trade_def demo_idle_def idle_def FindPlayer_def HasIgnore_def
      GetSocial_def om_at_def PlayerSocial_new_def fun_eq_iff)

lemma demo_offer_traders:
  "td_traders demo_offer = (td_traders demo_open)(1 := (td_traders demo_open 1)\<lparr>tradeGold := 100\<rparr>)" "td_items demo_offer = Map.empty"
  by (auto simp: demo_offer_def HandleSetTradeGoldOpcode_def SendUpdateTrade_def Let_def demo_open_traders idle_def fun_eq_iff)

lemma demo_nothing: "td_items st = Map.empty \<Longrightarrow> Some g \<notin> set (offered_items p st)" "td_items st = Map.empty \<Longrightarrow> \<not> untradeable e p st"
  by (auto simp: untradeable_def offered_items_def GetItemByGuid_def list_ex_iff split: if_splits)

lemma demo_accepted_traders:
  "td_traders demo_accepted = (td_traders demo_offer)(2 := (td_traders demo_offer 2)\<lparr>acceptTrade := True\<rparr>)" "td_items demo_accepted = Map.empty"
  by (simp_all add: demo_accepted_def HandleAcceptTradeOpcode_def Let_def demo_offer_traders demo_open_traders idle_def demo_nothing)

lemmas demo_traders = demo_accepted_traders demo_offer_traders demo_open_traders idle_def

theorem trades_are_pairs_witness:
  "pTrader (td_traders demo_accepted 1) = Some 2 \<and> pTrader (td_traders demo_accepted 2) = Some 1"
  using trades_are_pairs [OF demo_trade_run(4), of 1] by (simp add: demo_traders)

theorem trade_refines_protocol_witness:
  "deal_step (deals demo_open) (deals demo_offer)"
  unfolding demo_offer_def
  by (rule trade_refines_protocol [OF demo_trade_run(2)]) (intro trade_step.request trade_request.gold)


theorem exchange_needs_consent_witness:
  "\<exists>e me q. HandleAcceptTradeOpcode demo_trade 1 demo_accepted = HandleAcceptTradeOpcode e me demo_accepted \<and>
     pTrader (td_traders demo_accepted me) = Some q \<and> acceptTrade (td_traders demo_accepted q)"
proof -
  let ?t = "HandleAcceptTradeOpcode demo_trade 1 demo_accepted"
  have "\<exists>s. ?t = complete_trade demo_trade 1 2 (offered_items 1 s) (offered_items 2 s) s \<and>
      td_traders s = (td_traders demo_accepted)(1 := (td_traders demo_accepted 1)\<lparr>acceptTrade := True\<rparr>)"
    by (rule exI [of _ "SendTradeStatus 2 TRADE_STATUS_TRADE_ACCEPT (upd_trader 1 (\<lambda>t. t\<lparr>acceptTrade := True\<rparr>) demo_accepted)"])
      (simp add: HandleAcceptTradeOpcode_def Let_def demo_traders demo_nothing, simp add: demo_trade_def)
  hence "tr_money (td_traders ?t 1) = money_after (money_after 500 (- 100)) 0"
    by (auto simp: complete_trade_def Let_def exchange_money demo_traders)
  moreover have "unat (money_after (money_after 500 (- 100)) 0) = 400" using pay_and_get [of 100 500 0] by simp
  ultimately have "tr_money (td_traders ?t 1) \<noteq> tr_money (td_traders demo_accepted 1)" by (auto simp: demo_traders)
  hence "goods ?t \<noteq> goods demo_accepted" by (auto simp: goods_def fun_eq_iff)
  from exchange_needs_consent [OF demo_trade_run(4) trade_request.accept this] show ?thesis by blast
qed

theorem failed_trade_stays_accepted_witness:
  "acceptTrade (td_traders (HandleAcceptTradeOpcode (demo_trade\<lparr>te_canStoreItems := \<lambda>_ _ _. 50\<rparr>) 1 demo_accepted) 1) \<and>
   acceptTrade (td_traders (HandleAcceptTradeOpcode (demo_trade\<lparr>te_canStoreItems := \<lambda>_ _ _. 50\<rparr>) 1 demo_accepted) 2)"
  using failed_trade_stays_accepted [OF demo_trade_run(4), of 1 2 "demo_trade\<lparr>te_canStoreItems := \<lambda>_ _ _. 50\<rparr>"]
  by (simp add: demo_traders demo_nothing)

end
