(* ===== verification/Mail.thy ===== *)
theory Mail
  imports GuildMoney Social ByteBuffer
begin

text \<open>
  The mail system below its requests (game/Mail.h, game/Mail.cpp and the mail part of Player.cpp):
  mails in memory and in the database, drafts and how they are sent, loading and saving a mailbox.
  The tables \<open>mail\<close>, \<open>mail_items\<close> and \<open>item_instance\<close> are part of the state, one definition for each
  statement the code runs on them.
\<close>

section \<open>Mails\<close>

abbreviation MAIL_NORMAL :: u8 where "MAIL_NORMAL \<equiv> 0"
abbreviation MAIL_AUCTION :: u8 where "MAIL_AUCTION \<equiv> 2"
abbreviation MAIL_CREATURE :: u8 where "MAIL_CREATURE \<equiv> 3"
abbreviation MAIL_GAMEOBJECT :: u8 where "MAIL_GAMEOBJECT \<equiv> 4"
abbreviation MAIL_ITEM :: u8 where "MAIL_ITEM \<equiv> 5"

abbreviation MAIL_CHECK_MASK_READ :: u32 where "MAIL_CHECK_MASK_READ \<equiv> 0x01"
abbreviation MAIL_CHECK_MASK_RETURNED :: u32 where "MAIL_CHECK_MASK_RETURNED \<equiv> 0x02"
abbreviation MAIL_CHECK_MASK_COPIED :: u32 where "MAIL_CHECK_MASK_COPIED \<equiv> 0x04"
abbreviation MAIL_CHECK_MASK_COD_PAYMENT :: u32 where "MAIL_CHECK_MASK_COD_PAYMENT \<equiv> 0x08"
abbreviation MAIL_CHECK_MASK_HAS_BODY :: u32 where "MAIL_CHECK_MASK_HAS_BODY \<equiv> 0x10"

abbreviation MAIL_STATIONERY_NORMAL :: u8 where "MAIL_STATIONERY_NORMAL \<equiv> 41"
abbreviation MAIL_STATIONERY_GM :: u8 where "MAIL_STATIONERY_GM \<equiv> 61"
abbreviation MAIL_STATIONERY_AUCTION :: u8 where "MAIL_STATIONERY_AUCTION \<equiv> 62"

abbreviation MAX_MAIL_ITEMS :: nat where "MAX_MAIL_ITEMS \<equiv> 12"

datatype MailState =
    MAIL_STATE_UNCHANGED
  | MAIL_STATE_CHANGED
  | MAIL_STATE_DELETED

record mail =
  ml_id :: u32
  ml_messageType :: u8
  ml_stationery :: u8
  ml_mailTemplateId :: u16
  ml_sender :: u32
  ml_receiver :: u32
  ml_subject :: string
  ml_itemTextId :: u32
  ml_items :: "(u32 \<times> u32) list"
  ml_removedItems :: "u32 list"
  ml_expire_time :: u64
  ml_deliver_time :: u64
  ml_money :: u32
  ml_COD :: u32
  ml_checked :: u32
  ml_state :: MailState

text \<open>\<open>HasItems\<close>, and \<open>RemoveItem\<close>, which erases the first entry of the item.\<close>

definition HasItems :: "mail \<Rightarrow> bool" where
  "HasItems m \<longleftrightarrow> ml_items m \<noteq> []"

fun erase_first :: "u32 \<Rightarrow> (u32 \<times> u32) list \<Rightarrow> (u32 \<times> u32) list" where
  "erase_first g [] = []"
| "erase_first g (i # rest) = (if fst i = g then rest else i # erase_first g rest)"

definition Mail_RemoveItem :: "u32 \<Rightarrow> mail \<Rightarrow> mail" where
  "Mail_RemoveItem g m = m\<lparr>ml_items := erase_first g (ml_items m)\<rparr>"

text \<open>
  The fields of an item that the mail system reads. \<open>mi_fullBag\<close> is \<open>IsBag() && !IsEmpty()\<close>;
  \<open>mi_ench\<close> gives id, duration and charges of an enchantment slot.
\<close>

record mitem =
  mi_guid :: u64
  mi_entry :: u32
  mi_count :: u32
  mi_ench :: "nat \<Rightarrow> u32 \<times> u32 \<times> u32"
  mi_randomProperty :: u32
  mi_suffixFactor :: u32
  mi_spellCharges :: u32
  mi_maxDurability :: u32
  mi_durability :: u32
  mi_flags :: u32
  mi_duration :: u32
  mi_fullBag :: bool
  mi_canBeTraded :: bool
  mi_textId :: u32
  mi_creator :: u32

abbreviation ITEM_FLAGS_CONJURED :: u32 where "ITEM_FLAGS_CONJURED \<equiv> 0x2"
abbreviation ITEM_FLAGS_WRAPPED :: u32 where "ITEM_FLAGS_WRAPPED \<equiv> 0x8"

definition mi_low :: "mitem \<Rightarrow> u32" where
  "mi_low it = GUID_LOPART (mi_guid it)"

section \<open>State\<close>

text \<open>The row of a mail in the table \<open>mail\<close>.\<close>

record mail_row =
  mr_id :: u32
  mr_messageType :: u8
  mr_stationery :: u8
  mr_mailTemplateId :: u16
  mr_sender :: u32
  mr_receiver :: u32
  mr_subject :: string
  mr_itemTextId :: u32
  mr_has_items :: bool
  mr_expire_time :: u64
  mr_deliver_time :: u64
  mr_money :: u32
  mr_cod :: u32
  mr_checked :: u32

text \<open>
  What a character has of the mail system, by low guid: \<open>m_mail\<close>, \<open>mMitems\<close>, \<open>m_mailsLoaded\<close>,
  \<open>m_mailsUpdated\<close>, \<open>unReadMails\<close>, \<open>m_nextMailDelivereTime\<close>, the purse and the inventory.
\<close>

record mailbox =
  mb_mail :: "mail list"
  mb_items :: "u32 \<Rightarrow> mitem option"
  mb_loaded :: bool
  mb_updated :: bool
  mb_unread :: u8
  mb_next :: u64
  mb_money :: u32
  mb_inv :: "mitem list"

datatype mail_event =
    MSend u32 packet
  | MEquipError u32 u8
  | MStop

text \<open>
  \<open>ms_mail\<close>, \<open>ms_mailItems\<close> (mail, item, template, receiver) and \<open>ms_instances\<close> are the tables \<open>mail\<close>,
  \<open>mail_items\<close> and \<open>item_instance\<close>, a row of the last as the item \<open>Item::LoadFromDB\<close> reads from it.
\<close>

record mst =
  ms_box :: "u32 \<Rightarrow> mailbox"
  ms_mail :: "mail_row list"
  ms_mailItems :: "(u32 \<times> u32 \<times> u32 \<times> u32) list"
  ms_instances :: "u32 \<Rightarrow> mitem option"
  ms_texts :: "u32 \<Rightarrow> string option"
  ms_mailid :: u32
  ms_textid :: u32
  ms_out :: "mail_event list"

type_synonym store_dest = "(u16 \<times> u32) list"

text \<open>
  The rest of the server. \<open>me_store\<close> is the inventory after \<open>MoveItemToInventory\<close>, which may merge the
  item into a stack; \<open>me_templateLoot\<close> are the items a mail template generates for a receiver;
  \<open>me_guidByName\<close> is the low part of \<open>objmgr.GetPlayerGUIDByName\<close>, 0 where there is no such character.
\<close>

record mail_env =
  me_world :: world
  me_time :: u64
  me_mailbox :: "u32 \<Rightarrow> u64 \<Rightarrow> bool"
  me_dec :: utf8_decoder
  me_enc :: utf8_encoder
  me_guidByName :: "string \<Rightarrow> u32"
  me_account :: "u32 \<Rightarrow> u32"
  me_team :: "u32 \<Rightarrow> u32"
  me_security :: "u32 \<Rightarrow> nat"
  me_twoSideMail :: bool
  me_gmMail :: bool
  me_isGM :: "u32 \<Rightarrow> bool"
  me_delay :: u32
  me_bot :: u32
  me_battlemaster :: "u32 \<Rightarrow> bool"
  me_proto :: "u32 \<Rightarrow> bool"
  me_template :: "u16 \<Rightarrow> bool"
  me_templateLoot :: "u16 \<Rightarrow> u32 \<Rightarrow> mst \<Rightarrow> mitem list"
  me_canStore :: "u32 \<Rightarrow> mitem \<Rightarrow> mst \<Rightarrow> u8 \<times> store_dest"
  me_store :: "u32 \<Rightarrow> store_dest \<Rightarrow> mitem \<Rightarrow> mitem list \<Rightarrow> mitem list"
  me_letter :: "u32 \<Rightarrow> mst \<Rightarrow> mitem option"
  me_createItem :: "u32 \<Rightarrow> u32 \<Rightarrow> u32 \<Rightarrow> mst \<Rightarrow> mitem option"
  me_floatBits :: "int \<Rightarrow> u32"

definition upd_box :: "u32 \<Rightarrow> (mailbox \<Rightarrow> mailbox) \<Rightarrow> mst \<Rightarrow> mst" where
  "upd_box p f st = st\<lparr>ms_box := (ms_box st)(p := f (ms_box st p))\<rparr>"

definition m_emit :: "mail_event list \<Rightarrow> mst \<Rightarrow> mst" where
  "m_emit es st = st\<lparr>ms_out := ms_out st @ es\<rparr>"

text \<open>\<open>ObjectAccessor::FindPlayer\<close> on the guid of a character, as its low guid.\<close>

definition mail_online :: "mail_env \<Rightarrow> u32 \<Rightarrow> u32 option" where
  "mail_online e low = (case FindPlayer (me_world e) (player_guid low) of None \<Rightarrow> None | Some _ \<Rightarrow> Some low)"

definition mail_ModifyMoney :: "u32 \<Rightarrow> u32 \<Rightarrow> mst \<Rightarrow> mst" where
  "mail_ModifyMoney p d st =
     (let st = upd_box p (\<lambda>b. b\<lparr>mb_money := money_after (mb_money b) d\<rparr>) st
      in if mb_money (ms_box st p) \<ge> MAX_MONEY_AMOUNT then m_emit [MEquipError p EQUIP_ERR_TOO_MUCH_GOLD] st else st)"

section \<open>Statements on the tables\<close>

definition db_insert_mail :: "mail_row \<Rightarrow> mst \<Rightarrow> mst" where
  "db_insert_mail r st = st\<lparr>ms_mail := ms_mail st @ [r]\<rparr>"

definition db_insert_mail_item :: "u32 \<times> u32 \<times> u32 \<times> u32 \<Rightarrow> mst \<Rightarrow> mst" where
  "db_insert_mail_item r st = st\<lparr>ms_mailItems := ms_mailItems st @ [r]\<rparr>"

definition db_update_mail :: "u32 \<Rightarrow> (mail_row \<Rightarrow> mail_row) \<Rightarrow> mst \<Rightarrow> mst" where
  "db_update_mail i f st = st\<lparr>ms_mail := map (\<lambda>r. if mr_id r = i then f r else r) (ms_mail st)\<rparr>"

definition db_delete_mail :: "u32 \<Rightarrow> mst \<Rightarrow> mst" where
  "db_delete_mail i st = st\<lparr>ms_mail := filter (\<lambda>r. mr_id r \<noteq> i) (ms_mail st)\<rparr>"

definition db_delete_mail_items :: "u32 \<Rightarrow> mst \<Rightarrow> mst" where
  "db_delete_mail_items i st = st\<lparr>ms_mailItems := filter (\<lambda>(m, _). m \<noteq> i) (ms_mailItems st)\<rparr>"

definition db_delete_mailed_item :: "u32 \<Rightarrow> mst \<Rightarrow> mst" where
  "db_delete_mailed_item g st = st\<lparr>ms_mailItems := filter (\<lambda>(_, i, _). i \<noteq> g) (ms_mailItems st)\<rparr>"

definition db_delete_instance :: "u32 \<Rightarrow> mst \<Rightarrow> mst" where
  "db_delete_instance g st = st\<lparr>ms_instances := (ms_instances st)(g := None)\<rparr>"

text \<open>\<open>Item::SaveToDB\<close> leaves the row of an item equal to the item.\<close>

definition Item_SaveToDB :: "mitem \<Rightarrow> mst \<Rightarrow> mst" where
  "Item_SaveToDB it st = st\<lparr>ms_instances := (ms_instances st)(mi_low it \<mapsto> it)\<rparr>"

definition rows_of :: "u32 \<Rightarrow> mst \<Rightarrow> mail_row list" where
  "rows_of p st = filter (\<lambda>r. mr_receiver r = p) (ms_mail st)"

definition item_rows :: "u32 \<Rightarrow> mst \<Rightarrow> (u32 \<times> u32) list" where
  "item_rows i st = map (\<lambda>(_, g, t, _). (g, t)) (filter (\<lambda>(m, _). m = i) (ms_mailItems st))"

section \<open>Ids\<close>

definition GenerateMailID :: "mst \<Rightarrow> u32 \<times> mst" where
  "GenerateMailID st =
     (let st = (if ms_mailid st \<ge> 0xFFFFFFFE then m_emit [MStop] st else st)
      in (ms_mailid st, st\<lparr>ms_mailid := ms_mailid st + 1\<rparr>))"

definition GenerateItemTextID :: "mst \<Rightarrow> u32 \<times> mst" where
  "GenerateItemTextID st =
     (let st = (if ms_textid st \<ge> 0xFFFFFFFE then m_emit [MStop] st else st)
      in (ms_textid st, st\<lparr>ms_textid := ms_textid st + 1\<rparr>))"

definition CreateItemText :: "string \<Rightarrow> mst \<Rightarrow> u32 \<times> mst" where
  "CreateItemText text st =
     (let (i, st) = GenerateItemTextID st in (i, st\<lparr>ms_texts := (ms_texts st)(i \<mapsto> text)\<rparr>))"

definition GetItemText :: "u32 \<Rightarrow> mst \<Rightarrow> string" where
  "GetItemText i st = (case ms_texts st i of Some t \<Rightarrow> t | None \<Rightarrow> ''There is no info for this item'')"

section \<open>The mailbox of a player\<close>

definition GetMail :: "u32 \<Rightarrow> u32 \<Rightarrow> mst \<Rightarrow> mail option" where
  "GetMail p i st = find (\<lambda>m. ml_id m = i) (mb_mail (ms_box st p))"

fun remove_first :: "u32 \<Rightarrow> mail list \<Rightarrow> mail list" where
  "remove_first i [] = []"
| "remove_first i (m # ms) = (if ml_id m = i then ms else m # remove_first i ms)"

definition RemoveMail :: "u32 \<Rightarrow> u32 \<Rightarrow> mst \<Rightarrow> mst" where
  "RemoveMail p i = upd_box p (\<lambda>b. b\<lparr>mb_mail := remove_first i (mb_mail b)\<rparr>)"

text \<open>A write through the pointer \<open>GetMail\<close> returns.\<close>

fun modify_first :: "u32 \<Rightarrow> (mail \<Rightarrow> mail) \<Rightarrow> mail list \<Rightarrow> mail list" where
  "modify_first i f [] = []"
| "modify_first i f (m # ms) = (if ml_id m = i then f m # ms else m # modify_first i f ms)"

definition upd_mail :: "u32 \<Rightarrow> u32 \<Rightarrow> (mail \<Rightarrow> mail) \<Rightarrow> mst \<Rightarrow> mst" where
  "upd_mail p i f = upd_box p (\<lambda>b. b\<lparr>mb_mail := modify_first i f (mb_mail b)\<rparr>)"

definition GetMItem :: "u32 \<Rightarrow> u32 \<Rightarrow> mst \<Rightarrow> mitem option" where
  "GetMItem p g st = mb_items (ms_box st p) g"

definition AddMItem :: "u32 \<Rightarrow> mitem \<Rightarrow> mst \<Rightarrow> mst" where
  "AddMItem p it = upd_box p (\<lambda>b. b\<lparr>mb_items := (mb_items b)(mi_low it \<mapsto> it)\<rparr>)"

definition RemoveMItem :: "u32 \<Rightarrow> u32 \<Rightarrow> mst \<Rightarrow> mst" where
  "RemoveMItem p g = upd_box p (\<lambda>b. b\<lparr>mb_items := (mb_items b)(g := None)\<rparr>)"

definition mailsUpdated :: "u32 \<Rightarrow> mst \<Rightarrow> mst" where
  "mailsUpdated p = upd_box p (\<lambda>b. b\<lparr>mb_updated := True\<rparr>)"

text \<open>\<open>Player::GetItemByGuid\<close>.\<close>

definition mail_GetItemByGuid :: "u32 \<Rightarrow> u64 \<Rightarrow> mst \<Rightarrow> mitem option" where
  "mail_GetItemByGuid p g st = find (\<lambda>it. mi_guid it = g) (mb_inv (ms_box st p))"

text \<open>\<open>MoveItemFromInventory\<close>: an item that is not there any more is left alone.\<close>

definition mail_MoveItemFromInventory :: "u32 \<Rightarrow> mitem \<Rightarrow> mst \<Rightarrow> mst" where
  "mail_MoveItemFromInventory p it =
     upd_box p (\<lambda>b. b\<lparr>mb_inv := filter (\<lambda>i. mi_guid i \<noteq> mi_guid it) (mb_inv b)\<rparr>)"

definition mail_MoveItemToInventory :: "mail_env \<Rightarrow> u32 \<Rightarrow> store_dest \<Rightarrow> mitem \<Rightarrow> mst \<Rightarrow> mst" where
  "mail_MoveItemToInventory e p dest it = upd_box p (\<lambda>b. b\<lparr>mb_inv := me_store e p dest it (mb_inv b)\<rparr>)"

abbreviation SMSG_SEND_MAIL_RESULT :: u16 where "SMSG_SEND_MAIL_RESULT \<equiv> 0x239"
abbreviation SMSG_MAIL_LIST_RESULT :: u16 where "SMSG_MAIL_LIST_RESULT \<equiv> 0x23B"
abbreviation SMSG_ITEM_TEXT_QUERY_RESPONSE :: u16 where "SMSG_ITEM_TEXT_QUERY_RESPONSE \<equiv> 0x244"
abbreviation MSG_QUERY_NEXT_MAIL_TIME :: u16 where "MSG_QUERY_NEXT_MAIL_TIME \<equiv> 0x284"
abbreviation SMSG_RECEIVED_MAIL :: u16 where "SMSG_RECEIVED_MAIL \<equiv> 0x285"

datatype MailResponseType =
    MAIL_SEND
  | MAIL_MONEY_TAKEN
  | MAIL_ITEM_TAKEN
  | MAIL_RETURNED_TO_SENDER
  | MAIL_DELETED
  | MAIL_MADE_PERMANENT

fun mail_action_code :: "MailResponseType \<Rightarrow> u32" where
  "mail_action_code MAIL_SEND = 0"
| "mail_action_code MAIL_MONEY_TAKEN = 1"
| "mail_action_code MAIL_ITEM_TAKEN = 2"
| "mail_action_code MAIL_RETURNED_TO_SENDER = 3"
| "mail_action_code MAIL_DELETED = 4"
| "mail_action_code MAIL_MADE_PERMANENT = 5"

datatype MailResponseResult =
    MAIL_OK
  | MAIL_ERR_EQUIP_ERROR
  | MAIL_ERR_CANNOT_SEND_TO_SELF
  | MAIL_ERR_NOT_ENOUGH_MONEY
  | MAIL_ERR_RECIPIENT_NOT_FOUND
  | MAIL_ERR_NOT_YOUR_TEAM
  | MAIL_ERR_INTERNAL_ERROR
  | MAIL_ERR_DISABLED_FOR_TRIAL_ACC
  | MAIL_ERR_RECIPIENT_CAP_REACHED
  | MAIL_ERR_CANT_SEND_WRAPPED_COD
  | MAIL_ERR_MAIL_AND_CHAT_SUSPENDED
  | MAIL_ERR_TOO_MANY_ATTACHMENTS
  | MAIL_ERR_MAIL_ATTACHMENT_INVALID

fun mail_result_code :: "MailResponseResult \<Rightarrow> u32" where
  "mail_result_code MAIL_OK = 0"
| "mail_result_code MAIL_ERR_EQUIP_ERROR = 1"
| "mail_result_code MAIL_ERR_CANNOT_SEND_TO_SELF = 2"
| "mail_result_code MAIL_ERR_NOT_ENOUGH_MONEY = 3"
| "mail_result_code MAIL_ERR_RECIPIENT_NOT_FOUND = 4"
| "mail_result_code MAIL_ERR_NOT_YOUR_TEAM = 5"
| "mail_result_code MAIL_ERR_INTERNAL_ERROR = 6"
| "mail_result_code MAIL_ERR_DISABLED_FOR_TRIAL_ACC = 14"
| "mail_result_code MAIL_ERR_RECIPIENT_CAP_REACHED = 15"
| "mail_result_code MAIL_ERR_CANT_SEND_WRAPPED_COD = 16"
| "mail_result_code MAIL_ERR_MAIL_AND_CHAT_SUSPENDED = 17"
| "mail_result_code MAIL_ERR_TOO_MANY_ATTACHMENTS = 18"
| "mail_result_code MAIL_ERR_MAIL_ATTACHMENT_INVALID = 19"

definition SendMailResult ::
  "u32 \<Rightarrow> u32 \<Rightarrow> MailResponseType \<Rightarrow> MailResponseResult \<Rightarrow> u32 \<Rightarrow> u32 \<Rightarrow> u32 \<Rightarrow> mst \<Rightarrow> mst" where
  "SendMailResult p mailId action err equipError item_guid item_count =
     m_emit [MSend p (mk_packet SMSG_SEND_MAIL_RESULT
       ([U32 mailId, U32 (mail_action_code action), U32 (mail_result_code err)] @
        (if err = MAIL_ERR_EQUIP_ERROR then [U32 equipError]
         else if action = MAIL_ITEM_TAKEN then [U32 item_guid, U32 item_count]
         else [])))]"

definition SendNewMail :: "u32 \<Rightarrow> mst \<Rightarrow> mst" where
  "SendNewMail p = m_emit [MSend p (mk_packet SMSG_RECEIVED_MAIL [U32 0])]"

definition earlier :: "u64 \<Rightarrow> u64 \<Rightarrow> u64" where
  "earlier next t = (if next = 0 \<or> next > t then t else next)"

fun next_and_unread :: "u64 \<Rightarrow> mail list \<Rightarrow> u64 \<times> u8 \<Rightarrow> u64 \<times> u8" where
  "next_and_unread now [] (n, u) = (n, u)"
| "next_and_unread now (m # ms) (n, u) = next_and_unread now ms
     (if ml_deliver_time m > now then (earlier n (ml_deliver_time m), u)
      else if ml_checked m AND MAIL_CHECK_MASK_READ = 0 then (n, u + 1)
      else (n, u))"

definition UpdateNextMailTimeAndUnreads :: "mail_env \<Rightarrow> u32 \<Rightarrow> mst \<Rightarrow> mst" where
  "UpdateNextMailTimeAndUnreads e p =
     upd_box p (\<lambda>b. case next_and_unread (me_time e) (mb_mail b) (0, 0) of
                      (n, u) \<Rightarrow> b\<lparr>mb_next := n, mb_unread := u\<rparr>)"

definition AddNewMailDeliverTime :: "mail_env \<Rightarrow> u32 \<Rightarrow> u64 \<Rightarrow> mst \<Rightarrow> mst" where
  "AddNewMailDeliverTime e p t st =
     (if t \<le> me_time e
      then SendNewMail p (upd_box p (\<lambda>b. b\<lparr>mb_unread := mb_unread b + 1\<rparr>) st)
      else upd_box p (\<lambda>b. b\<lparr>mb_next := earlier (mb_next b) t\<rparr>) st)"

text \<open>The part of \<open>Player::Update\<close> that announces mail that has become deliverable.\<close>

definition Update_mail :: "mail_env \<Rightarrow> u32 \<Rightarrow> mst \<Rightarrow> mst" where
  "Update_mail e p st =
     (let next = mb_next (ms_box st p)
      in if next \<noteq> 0 \<and> next \<le> me_time e
         then upd_box p (\<lambda>b. b\<lparr>mb_unread := mb_unread b + 1, mb_next := 0\<rparr>) (SendNewMail p st)
         else st)"

section \<open>Drafts\<close>

record MailSender =
  snd_messageType :: u8
  snd_senderId :: u32
  snd_stationery :: u8

record MailReceiver =
  rcv_player :: "u32 option"
  rcv_low :: u32

record MailDraft =
  md_mailTemplateId :: u16
  md_itemsNeed :: bool
  md_subject :: string
  md_bodyId :: u32
  md_items :: "(u32, mitem) omap"
  md_money :: u32
  md_COD :: u32

definition draft_of :: "string \<Rightarrow> u32 \<Rightarrow> MailDraft" where
  "draft_of s b =
     \<lparr>md_mailTemplateId = 0, md_itemsNeed = False, md_subject = s, md_bodyId = b, md_items = [], md_money = 0,
      md_COD = 0\<rparr>"

definition template_draft :: "u16 \<Rightarrow> bool \<Rightarrow> MailDraft" where
  "template_draft t need =
     \<lparr>md_mailTemplateId = t, md_itemsNeed = need, md_subject = [], md_bodyId = 0, md_items = [], md_money = 0,
      md_COD = 0\<rparr>"

definition MailDraft_AddItem :: "mitem \<Rightarrow> MailDraft \<Rightarrow> MailDraft" where
  "MailDraft_AddItem it d = d\<lparr>md_items := om_put (mi_low it) it (md_items d)\<rparr>"

definition AddMoney :: "u32 \<Rightarrow> MailDraft \<Rightarrow> MailDraft" where
  "AddMoney m d = d\<lparr>md_money := m\<rparr>"

definition AddCOD :: "u32 \<Rightarrow> MailDraft \<Rightarrow> MailDraft" where
  "AddCOD c d = d\<lparr>md_COD := c\<rparr>"

definition player_sender :: "mail_env \<Rightarrow> u32 \<Rightarrow> MailSender" where
  "player_sender e p =
     \<lparr>snd_messageType = MAIL_NORMAL, snd_senderId = p,
      snd_stationery = (if me_gmMail e \<and> me_isGM e p then MAIL_STATIONERY_GM else MAIL_STATIONERY_NORMAL)\<rparr>"

definition plain_sender :: "u32 \<Rightarrow> u8 \<Rightarrow> MailSender" where
  "plain_sender i s = \<lparr>snd_messageType = MAIL_NORMAL, snd_senderId = i, snd_stationery = s\<rparr>"

definition receiver_of :: "mail_env \<Rightarrow> u32 \<Rightarrow> MailReceiver" where
  "receiver_of e low = \<lparr>rcv_player = mail_online e low, rcv_low = low\<rparr>"

fun add_template_items :: "mitem list \<Rightarrow> MailDraft \<Rightarrow> mst \<Rightarrow> MailDraft \<times> mst" where
  "add_template_items [] d st = (d, st)"
| "add_template_items (it # its) d st =
     (if length (md_items d) < MAX_MAIL_ITEMS
      then add_template_items its (MailDraft_AddItem it d) (Item_SaveToDB it st) else (d, st))"

definition prepareItems :: "mail_env \<Rightarrow> u32 \<Rightarrow> MailDraft \<Rightarrow> mst \<Rightarrow> MailDraft \<times> mst" where
  "prepareItems e q d st =
     (if md_mailTemplateId d = 0 \<or> \<not> md_itemsNeed d then (d, st)
      else add_template_items (me_templateLoot e (md_mailTemplateId d) q st) (d\<lparr>md_itemsNeed := False\<rparr>) st)"

definition delete_instances :: "u32 list \<Rightarrow> mst \<Rightarrow> mst" where
  "delete_instances gs = fold db_delete_instance gs"

section \<open>Sending\<close>

definition expire_delay :: "mail_env \<Rightarrow> MailDraft \<Rightarrow> MailSender \<Rightarrow> u32" where
  "expire_delay e d s =
     (if snd_messageType s = MAIL_AUCTION \<and> md_items d = [] \<and> md_money d = 0 then me_delay e
      else if snd_messageType s = MAIL_CREATURE \<and> me_battlemaster e (snd_senderId s) then DAY
      else if md_COD d > 0 then 3 * DAY else 30 * DAY)"

definition draft_row :: "mail_env \<Rightarrow> MailDraft \<Rightarrow> u32 \<Rightarrow> MailSender \<Rightarrow> u32 \<Rightarrow> u32 \<Rightarrow> u32 \<Rightarrow> mail_row" where
  "draft_row e d low s ck delay i =
     (let deliver = me_time e + ucast delay
      in \<lparr>mr_id = i, mr_messageType = snd_messageType s, mr_stationery = snd_stationery s,
          mr_mailTemplateId = md_mailTemplateId d, mr_sender = snd_senderId s, mr_receiver = low,
          mr_subject = md_subject d, mr_itemTextId = md_bodyId d, mr_has_items = (md_items d \<noteq> []),
          mr_expire_time = deliver + ucast (expire_delay e d s), mr_deliver_time = deliver,
          mr_money = md_money d, mr_cod = md_COD d, mr_checked = ck\<rparr>)"

text \<open>The mail an online receiver gets beside the row.\<close>

definition mail_of_row :: "mail_row \<Rightarrow> (u32 \<times> u32) list \<Rightarrow> mail" where
  "mail_of_row r gs =
     \<lparr>ml_id = mr_id r, ml_messageType = mr_messageType r, ml_stationery = mr_stationery r,
      ml_mailTemplateId = mr_mailTemplateId r, ml_sender = mr_sender r, ml_receiver = mr_receiver r,
      ml_subject = mr_subject r, ml_itemTextId = mr_itemTextId r, ml_items = gs, ml_removedItems = [],
      ml_expire_time = mr_expire_time r, ml_deliver_time = mr_deliver_time r, ml_money = mr_money r,
      ml_COD = mr_cod r, ml_checked = mr_checked r, ml_state = MAIL_STATE_UNCHANGED\<rparr>"

definition insert_mail :: "mail_row \<Rightarrow> mitem list \<Rightarrow> mst \<Rightarrow> mst" where
  "insert_mail r its st =
     fold (\<lambda>it. db_insert_mail_item (mr_id r, mi_low it, mi_entry it, mr_receiver r)) its (db_insert_mail r st)"

definition deliver_online :: "mail_env \<Rightarrow> u32 \<Rightarrow> mail_row \<Rightarrow> mitem list \<Rightarrow> mst \<Rightarrow> mst" where
  "deliver_online e q r its st =
     (let st = AddNewMailDeliverTime e q (mr_deliver_time r) st
      in if mb_loaded (ms_box st q)
         then fold (AddMItem q) its
                (upd_box q (\<lambda>b. b\<lparr>mb_mail := mail_of_row r (map (\<lambda>it. (mi_low it, mi_entry it)) its) # mb_mail b\<rparr>) st)
         else st)"

definition SendMailTo ::
  "mail_env \<Rightarrow> MailDraft \<Rightarrow> MailReceiver \<Rightarrow> MailSender \<Rightarrow> u32 \<Rightarrow> u32 \<Rightarrow> mst \<Rightarrow> mst" where
  "SendMailTo e d r s ck delay st =
     (let (d, st) = (case rcv_player r of None \<Rightarrow> (d, st) | Some q \<Rightarrow> prepareItems e q d st)
      in if rcv_low r = me_bot e
         then (if snd_messageType s = MAIL_AUCTION \<and> md_items d \<noteq> []
               then delete_instances (map fst (md_items d)) st else st)
         else
           (let (i, st) = GenerateMailID st;
                row = draft_row e d (rcv_low r) s ck delay i;
                its = map snd (md_items d);
                st = insert_mail row its st
            in case rcv_player r of None \<Rightarrow> st | Some q \<Rightarrow> deliver_online e q row its st))"

definition SendReturnToSender ::
  "mail_env \<Rightarrow> MailDraft \<Rightarrow> u32 \<Rightarrow> u32 \<Rightarrow> u32 \<Rightarrow> mst \<Rightarrow> mst" where
  "SendReturnToSender e d sender_acc sender_guid receiver_guid st =
     (let receiver = mail_online e receiver_guid;
          rc_account = (if receiver = None then me_account e receiver_guid else 0)
      in if receiver = None \<and> rc_account = 0 then delete_instances (map fst (md_items d)) st
         else
           (let needItemDelay = (md_items d \<noteq> [] \<and> sender_acc \<noteq> rc_account);
                st = fold Item_SaveToDB (map snd (md_items d)) st;
                deliver_delay = (if needItemDelay then me_delay e else 0)
            in SendMailTo e d \<lparr>rcv_player = receiver, rcv_low = receiver_guid\<rparr>
                 (plain_sender sender_guid MAIL_STATIONERY_NORMAL) MAIL_CHECK_MASK_RETURNED deliver_delay st))"

section \<open>Loading and saving\<close>

fun LoadMailedItems :: "mail_env \<Rightarrow> u32 \<Rightarrow> (u32 \<times> u32) list \<Rightarrow> mst \<Rightarrow> mst" where
  "LoadMailedItems e p [] st = st"
| "LoadMailedItems e p ((g, t) # rs) st =
     LoadMailedItems e p rs
       (if \<not> me_proto e t then db_delete_instance g (db_delete_mailed_item g st)
        else (case ms_instances st g of
                None \<Rightarrow> db_delete_instance g (db_delete_mailed_item g st)
              | Some it \<Rightarrow> AddMItem p it st))"

definition load_row :: "mail_env \<Rightarrow> u32 \<Rightarrow> mail_row \<Rightarrow> mst \<Rightarrow> mst" where
  "load_row e p r st =
     (let r = (if mr_mailTemplateId r \<noteq> 0 \<and> \<not> me_template e (mr_mailTemplateId r)
               then r\<lparr>mr_mailTemplateId := 0\<rparr> else r);
          gs = (if mr_has_items r then item_rows (mr_id r) st else []);
          st = (if mr_has_items r then LoadMailedItems e p gs st else st)
      in upd_box p (\<lambda>b. b\<lparr>mb_mail := mb_mail b @ [mail_of_row r gs]\<rparr>) st)"

text \<open>\<open>ORDER BY id DESC\<close>.\<close>

definition newest_first :: "mail_row list \<Rightarrow> mail_row list" where
  "newest_first rs = rev (sort_key mr_id rs)"

definition LoadMail :: "mail_env \<Rightarrow> u32 \<Rightarrow> mst \<Rightarrow> mst" where
  "LoadMail e p st =
     (let rows = newest_first (rows_of p st);
          st = fold (load_row e p) rows (upd_box p (\<lambda>b. b\<lparr>mb_mail := []\<rparr>) st)
      in upd_box p (\<lambda>b. b\<lparr>mb_loaded := True\<rparr>) st)"

text \<open>\<open>_LoadMailInit\<close> on the two queries of the login.\<close>

definition LoadMailInit :: "mail_env \<Rightarrow> u32 \<Rightarrow> mst \<Rightarrow> mst" where
  "LoadMailInit e p st =
     (let unread = filter (\<lambda>r. mr_checked r AND 1 = 0) (rows_of p st)
      in upd_box p (\<lambda>b. b\<lparr>mb_unread := word_of_nat (length (filter (\<lambda>r. mr_deliver_time r \<le> me_time e) unread)),
           mb_next := (if unread = [] then 0 else Min (set (map mr_deliver_time unread)))\<rparr>) st)"

definition save_one :: "mail \<Rightarrow> mst \<Rightarrow> mail \<times> mst" where
  "save_one m st =
     (case ml_state m of
        MAIL_STATE_UNCHANGED \<Rightarrow> (m, st)
      | MAIL_STATE_CHANGED \<Rightarrow>
          (m\<lparr>ml_removedItems := [], ml_state := MAIL_STATE_UNCHANGED\<rparr>,
           fold db_delete_mailed_item (ml_removedItems m)
             (db_update_mail (ml_id m) (\<lambda>r. r\<lparr>mr_itemTextId := ml_itemTextId m, mr_has_items := HasItems m,
                mr_expire_time := ml_expire_time m, mr_deliver_time := ml_deliver_time m, mr_money := ml_money m,
                mr_cod := ml_COD m, mr_checked := ml_checked m\<rparr>) st))
      | MAIL_STATE_DELETED \<Rightarrow>
          (m, db_delete_mail_items (ml_id m) (db_delete_mail (ml_id m)
                (delete_instances (map fst (ml_items m)) st))))"

fun save_mails :: "mail list \<Rightarrow> mst \<Rightarrow> mail list \<times> mst" where
  "save_mails [] st = ([], st)"
| "save_mails (m # ms) st =
     (let (m, st) = save_one m st; (ms, st) = save_mails ms st in (m # ms, st))"

definition SaveMail :: "u32 \<Rightarrow> mst \<Rightarrow> mst" where
  "SaveMail p st =
     (if \<not> mb_loaded (ms_box st p) then st
      else (let (ms, st) = save_mails (mb_mail (ms_box st p)) st
            in upd_box p (\<lambda>b. b\<lparr>mb_mail := filter (\<lambda>m. ml_state m \<noteq> MAIL_STATE_DELETED) ms, mb_updated := False\<rparr>) st))"

text \<open>A character leaves: \<open>SaveToDB\<close> writes the mailbox if it changed, then the player object goes.\<close>

definition mail_logout :: "u32 \<Rightarrow> mst \<Rightarrow> mst" where
  "mail_logout p st =
     (let st = (if mb_updated (ms_box st p) then SaveMail p st else st)
      in upd_box p (\<lambda>b. b\<lparr>mb_mail := [], mb_items := (\<lambda>_. None), mb_loaded := False, mb_updated := False,
           mb_unread := 0, mb_next := 0\<rparr>) st)"

end
