(* ===== verification/MailHandlers.thy ===== *)
theory MailHandlers
  imports Mail
begin

text \<open>
  The requests of the mail system (game/Mail.cpp), one function each, on the state of Mail, and the
  housekeeping of old and external mail.
\<close>

section \<open>Sending\<close>

abbreviation EQUIP_ERR_ITEM_NOT_FOUND :: u32 where "EQUIP_ERR_ITEM_NOT_FOUND \<equiv> 23"
abbreviation EQUIP_ERR_CAN_ONLY_DO_WITH_EMPTY_BAGS :: u32 where "EQUIP_ERR_CAN_ONLY_DO_WITH_EMPTY_BAGS \<equiv> 31"
abbreviation EQUIP_ERR_MAIL_BOUND_ITEM :: u32 where "EQUIP_ERR_MAIL_BOUND_ITEM \<equiv> 72"

definition attachment_error :: "u32 \<Rightarrow> mitem \<Rightarrow> (MailResponseResult \<times> u32) option" where
  "attachment_error cod it =
     (if \<not> mi_canBeTraded it then Some (MAIL_ERR_EQUIP_ERROR, EQUIP_ERR_MAIL_BOUND_ITEM)
      else if mi_flags it AND ITEM_FLAGS_CONJURED \<noteq> 0 \<or> mi_duration it \<noteq> 0
      then Some (MAIL_ERR_EQUIP_ERROR, EQUIP_ERR_MAIL_BOUND_ITEM)
      else if cod \<noteq> 0 \<and> mi_flags it AND ITEM_FLAGS_WRAPPED \<noteq> 0 then Some (MAIL_ERR_CANT_SEND_WRAPPED_COD, 0)
      else if mi_fullBag it then Some (MAIL_ERR_EQUIP_ERROR, EQUIP_ERR_CAN_ONLY_DO_WITH_EMPTY_BAGS)
      else None)"

fun attachments :: "u32 \<Rightarrow> u32 \<Rightarrow> u64 list \<Rightarrow> mst \<Rightarrow> (MailResponseResult \<times> u32) + mitem list" where
  "attachments p cod [] st = Inr []"
| "attachments p cod (g # gs) st =
     (if g = 0 then Inl (MAIL_ERR_MAIL_ATTACHMENT_INVALID, 0)
      else (case mail_GetItemByGuid p g st of
              None \<Rightarrow> Inl (MAIL_ERR_MAIL_ATTACHMENT_INVALID, 0)
            | Some it \<Rightarrow>
                (case attachment_error cod it of
                   Some err \<Rightarrow> Inl err
                 | None \<Rightarrow> (case attachments p cod gs st of Inl err \<Rightarrow> Inl err | Inr its \<Rightarrow> Inr (it # its)))))"

definition mail_cost :: "u64 list \<Rightarrow> u32" where
  "mail_cost gs = (if gs \<noteq> [] then 30 * word_of_nat (length gs) else 30)"

definition reqmoney :: "u64 list \<Rightarrow> u32 \<Rightarrow> u32" where
  "reqmoney gs money = mail_cost gs + money"

definition mails_count :: "mail_env \<Rightarrow> u32 \<Rightarrow> mst \<Rightarrow> u8" where
  "mails_count e rc st =
     (if mail_online e rc \<noteq> None then word_of_nat (length (mb_mail (ms_box st rc)))
      else word_of_nat (length (rows_of rc st)))"

definition take_from_sender :: "u32 \<Rightarrow> mitem \<Rightarrow> mst \<Rightarrow> mst" where
  "take_from_sender p it st = Item_SaveToDB it (mail_MoveItemFromInventory p it st)"

text \<open>The part of \<open>HandleSendMail\<close> after its checks.\<close>

definition send_checked ::
  "mail_env \<Rightarrow> u32 \<Rightarrow> u32 \<Rightarrow> string \<Rightarrow> string \<Rightarrow> mitem list \<Rightarrow> u32 \<Rightarrow> u32 \<Rightarrow> u32 \<Rightarrow> mst \<Rightarrow> mst" where
  "send_checked e p rc subject bodyText its req money cod st =
     (let st = SendMailResult p 0 MAIL_SEND MAIL_OK 0 0 0 st;
          (itemTextId, st) = (if bodyText \<noteq> [] then CreateItemText bodyText st else (0, st));
          st = mail_ModifyMoney p (- req) st;
          d = draft_of subject itemTextId;
          st = fold (take_from_sender p) its st;
          d = fold MailDraft_AddItem its d;
          needItemDelay = (its \<noteq> [] \<and> me_account e p \<noteq> me_account e rc);
          deliver_delay = (if needItemDelay then me_delay e else 0)
      in SendMailTo e (AddCOD cod (AddMoney money d)) (receiver_of e rc) (player_sender e p)
           (if bodyText = [] then MAIL_CHECK_MASK_COPIED else MAIL_CHECK_MASK_HAS_BODY) deliver_delay st)"

definition HandleSendMail ::
  "mail_env \<Rightarrow> u32 \<Rightarrow> u64 \<Rightarrow> string \<Rightarrow> string \<Rightarrow> string \<Rightarrow> u64 list \<Rightarrow> u32 \<Rightarrow> u32 \<Rightarrow> mst \<Rightarrow> mst" where
  "HandleSendMail e p mailbox toName subject bodyText itemGUIDs money cod st =
     (if length itemGUIDs > MAX_MAIL_ITEMS
      then SendMailResult p 0 MAIL_SEND MAIL_ERR_TOO_MANY_ATTACHMENTS 0 0 0 st
      else if \<not> me_mailbox e p mailbox then st
      else if toName = [] then st
      else
        (let rc = (case normalizePlayerName (me_dec e) (me_enc e) toName of None \<Rightarrow> 0 | Some n \<Rightarrow> me_guidByName e n)
         in if rc = 0 then SendMailResult p 0 MAIL_SEND MAIL_ERR_RECIPIENT_NOT_FOUND 0 0 0 st
            else if p = rc then SendMailResult p 0 MAIL_SEND MAIL_ERR_CANNOT_SEND_TO_SELF 0 0 0 st
            else if mb_money (ms_box st p) < reqmoney itemGUIDs money
            then SendMailResult p 0 MAIL_SEND MAIL_ERR_NOT_ENOUGH_MONEY 0 0 0 st
            else if mails_count e rc st > 100 then SendMailResult p 0 MAIL_SEND MAIL_ERR_RECIPIENT_CAP_REACHED 0 0 0 st
            else if \<not> me_twoSideMail e \<and> me_team e p \<noteq> me_team e rc \<and> me_security e p = SEC_PLAYER
            then SendMailResult p 0 MAIL_SEND MAIL_ERR_NOT_YOUR_TEAM 0 0 0 st
            else (case attachments p cod itemGUIDs st of
                    Inl (err, code) \<Rightarrow> SendMailResult p 0 MAIL_SEND err code 0 0 st
                  | Inr its \<Rightarrow> send_checked e p rc subject bodyText its (reqmoney itemGUIDs money) money cod st)))"

section \<open>Reading, deleting and returning\<close>

definition HandleMarkAsRead :: "mail_env \<Rightarrow> u32 \<Rightarrow> u64 \<Rightarrow> u32 \<Rightarrow> mst \<Rightarrow> mst" where
  "HandleMarkAsRead e p mailbox mailId st =
     (if \<not> me_mailbox e p mailbox then st
      else (case GetMail p mailId st of
              None \<Rightarrow> st
            | Some _ \<Rightarrow>
                upd_mail p mailId (\<lambda>m. m\<lparr>ml_checked := ml_checked m OR MAIL_CHECK_MASK_READ,
                    ml_state := MAIL_STATE_CHANGED\<rparr>)
                  (mailsUpdated p
                    (upd_box p (\<lambda>b. if mb_unread b \<noteq> 0 then b\<lparr>mb_unread := mb_unread b - 1\<rparr> else b) st))))"

definition HandleMailDelete :: "mail_env \<Rightarrow> u32 \<Rightarrow> u64 \<Rightarrow> u32 \<Rightarrow> mst \<Rightarrow> mst" where
  "HandleMailDelete e p mailbox mailId st =
     (if \<not> me_mailbox e p mailbox then st
      else
        (let st = mailsUpdated p st
         in case GetMail p mailId st of
              None \<Rightarrow> SendMailResult p mailId MAIL_DELETED MAIL_OK 0 0 0 st
            | Some m \<Rightarrow>
                if ml_COD m \<noteq> 0 then SendMailResult p mailId MAIL_DELETED MAIL_ERR_INTERNAL_ERROR 0 0 0 st
                else SendMailResult p mailId MAIL_DELETED MAIL_OK 0 0 0
                       (upd_mail p mailId (\<lambda>m. m\<lparr>ml_state := MAIL_STATE_DELETED\<rparr>) st)))"

text \<open>A mail that is deleted or not delivered yet is no use to a request.\<close>

definition usable :: "mail_env \<Rightarrow> mail \<Rightarrow> bool" where
  "usable e m \<longleftrightarrow> ml_state m \<noteq> MAIL_STATE_DELETED \<and> \<not> ml_deliver_time m > me_time e"

fun collect_items :: "u32 \<Rightarrow> (u32 \<times> u32) list \<Rightarrow> MailDraft \<Rightarrow> mst \<Rightarrow> MailDraft \<times> mst" where
  "collect_items p [] d st = (d, st)"
| "collect_items p ((g, t) # rest) d st =
     (let d = (case GetMItem p g st of None \<Rightarrow> d | Some it \<Rightarrow> MailDraft_AddItem it d)
      in collect_items p rest d (RemoveMItem p g st))"

definition return_mail :: "mail_env \<Rightarrow> u32 \<Rightarrow> mail \<Rightarrow> mst \<Rightarrow> mst" where
  "return_mail e p m st =
     (if ml_messageType m = MAIL_NORMAL \<and> ml_sender m \<noteq> 0
      then
        (let d = (if ml_mailTemplateId m \<noteq> 0 then template_draft (ml_mailTemplateId m) False
                  else draft_of (ml_subject m) (ml_itemTextId m));
             (d, st) = (if HasItems m then collect_items p (ml_items m) d st else (d, st))
         in SendReturnToSender e (AddMoney (ml_money m) d) (me_account e p) (ml_receiver m) (ml_sender m) st)
      else st)"

definition HandleReturnToSender :: "mail_env \<Rightarrow> u32 \<Rightarrow> u64 \<Rightarrow> u32 \<Rightarrow> mst \<Rightarrow> mst" where
  "HandleReturnToSender e p mailbox mailId st =
     (if \<not> me_mailbox e p mailbox then st
      else (case GetMail p mailId st of
              None \<Rightarrow> SendMailResult p mailId MAIL_RETURNED_TO_SENDER MAIL_ERR_INTERNAL_ERROR 0 0 0 st
            | Some m \<Rightarrow>
                if \<not> usable e m then SendMailResult p mailId MAIL_RETURNED_TO_SENDER MAIL_ERR_INTERNAL_ERROR 0 0 0 st
                else
                  (let st = db_delete_mail_items mailId (db_delete_mail mailId st);
                       st = RemoveMail p mailId st;
                       st = return_mail e p m st
                   in SendMailResult p mailId MAIL_RETURNED_TO_SENDER MAIL_OK 0 0 0 st)))"

section \<open>Taking items and money\<close>

text \<open>The payment of a mail sent cash on delivery.\<close>

definition pay_COD :: "mail_env \<Rightarrow> u32 \<Rightarrow> mail \<Rightarrow> mst \<Rightarrow> mst" where
  "pay_COD e p m st =
     (if ml_COD m > 0
      then
        (let receive = mail_online e (ml_sender m);
             sender_accId = (if receive = None then me_account e (ml_sender m) else 0);
             st = (if receive \<noteq> None \<or> sender_accId \<noteq> 0
                   then SendMailTo e (AddMoney (ml_COD m) (draft_of (ml_subject m) 0))
                          \<lparr>rcv_player = receive, rcv_low = ml_sender m\<rparr>
                          (plain_sender (ml_receiver m) MAIL_STATIONERY_NORMAL) MAIL_CHECK_MASK_COD_PAYMENT 0 st
                   else st)
         in mail_ModifyMoney p (- ml_COD m) st)
      else st)"

definition take_mailed_item :: "mail_env \<Rightarrow> u32 \<Rightarrow> mail \<Rightarrow> u32 \<Rightarrow> mitem \<Rightarrow> store_dest \<Rightarrow> mst \<Rightarrow> mst" where
  "take_mailed_item e p m itemId it dest st =
     (let st = upd_mail p (ml_id m)
                 (\<lambda>m. (Mail_RemoveItem itemId m)\<lparr>ml_removedItems := ml_removedItems m @ [itemId]\<rparr>) st;
          st = pay_COD e p m st;
          st = upd_mail p (ml_id m) (\<lambda>m. m\<lparr>ml_COD := 0, ml_state := MAIL_STATE_CHANGED\<rparr>) st;
          st = RemoveMItem p (mi_low it) (mailsUpdated p st);
          st = mail_MoveItemToInventory e p dest it st;
          st = SaveMail p st
      in SendMailResult p (ml_id m) MAIL_ITEM_TAKEN MAIL_OK 0 itemId (mi_count it) st)"

definition HandleTakeItem :: "mail_env \<Rightarrow> u32 \<Rightarrow> u64 \<Rightarrow> u32 \<Rightarrow> u32 \<Rightarrow> mst \<Rightarrow> mst" where
  "HandleTakeItem e p mailbox mailId itemId st =
     (if \<not> me_mailbox e p mailbox then st
      else (case GetMail p mailId st of
              None \<Rightarrow> SendMailResult p mailId MAIL_ITEM_TAKEN MAIL_ERR_INTERNAL_ERROR 0 0 0 st
            | Some m \<Rightarrow>
                if \<not> usable e m then SendMailResult p mailId MAIL_ITEM_TAKEN MAIL_ERR_INTERNAL_ERROR 0 0 0 st
                else if mb_money (ms_box st p) < ml_COD m
                then SendMailResult p mailId MAIL_ITEM_TAKEN MAIL_ERR_NOT_ENOUGH_MONEY 0 0 0 st
                else (case GetMItem p itemId st of
                        None \<Rightarrow> SendMailResult p mailId MAIL_ITEM_TAKEN MAIL_ERR_EQUIP_ERROR EQUIP_ERR_ITEM_NOT_FOUND 0 0 st
                      | Some it \<Rightarrow>
                          (case me_canStore e p it st of
                             (msg, dest) \<Rightarrow>
                               if msg = 0 then take_mailed_item e p m itemId it dest st
                               else SendMailResult p mailId MAIL_ITEM_TAKEN MAIL_ERR_EQUIP_ERROR (ucast msg) 0 0 st))))"

definition HandleTakeMoney :: "mail_env \<Rightarrow> u32 \<Rightarrow> u64 \<Rightarrow> u32 \<Rightarrow> mst \<Rightarrow> mst" where
  "HandleTakeMoney e p mailbox mailId st =
     (if \<not> me_mailbox e p mailbox then st
      else (case GetMail p mailId st of
              None \<Rightarrow> SendMailResult p mailId MAIL_MONEY_TAKEN MAIL_ERR_INTERNAL_ERROR 0 0 0 st
            | Some m \<Rightarrow>
                if \<not> usable e m then SendMailResult p mailId MAIL_MONEY_TAKEN MAIL_ERR_INTERNAL_ERROR 0 0 0 st
                else
                  (let st = SendMailResult p mailId MAIL_MONEY_TAKEN MAIL_OK 0 0 0 st;
                       st = mail_ModifyMoney p (ml_money m) st;
                       st = upd_mail p mailId (\<lambda>m. m\<lparr>ml_money := 0, ml_state := MAIL_STATE_CHANGED\<rparr>) st
                   in SaveMail p (mailsUpdated p st))))"

section \<open>Listing\<close>

definition next_mail_size :: "mail \<Rightarrow> nat" where
  "next_mail_size m = 2+4+1+8+4*8+(length (ml_subject m)+1)+1+ length (ml_items m) mod 256 *(1+4+4+6*3*4+4+4+1+4+4+4)"

definition or_zero :: "(mitem \<Rightarrow> u32) \<Rightarrow> mitem option \<Rightarrow> u32" where
  "or_zero f it = (case it of None \<Rightarrow> 0 | Some i \<Rightarrow> f i)"

definition mailed_item_fields :: "nat \<Rightarrow> mitem option \<Rightarrow> field list" where
  "mailed_item_fields i it =
     [U8 (word_of_nat i), U32 (or_zero mi_low it), U32 (or_zero mi_entry it)] @
     concat (map (\<lambda>j. [U32 (or_zero (\<lambda>it. fst (mi_ench it j)) it), U32 (or_zero (\<lambda>it. fst (snd (mi_ench it j))) it),
                       U32 (or_zero (\<lambda>it. snd (snd (mi_ench it j))) it)]) [0..<6]) @
     [U32 (or_zero mi_randomProperty it), U32 (or_zero mi_suffixFactor it), U8 (ucast (or_zero mi_count it)),
      U32 (or_zero mi_spellCharges it), U32 (or_zero mi_maxDurability it), U32 (or_zero mi_durability it)]"

definition sender_fields :: "mail \<Rightarrow> field list" where
  "sender_fields m =
     (if ml_messageType m = MAIL_NORMAL then [U64 (player_guid (ml_sender m))]
      else if ml_messageType m \<in> {MAIL_CREATURE, MAIL_GAMEOBJECT, MAIL_AUCTION} then [U32 (ml_sender m)]
      else [])"

definition days_left :: "mail_env \<Rightarrow> mail \<Rightarrow> int" where
  "days_left e m =
     (let d = sint (ml_expire_time m - me_time e) in if d < 0 then - ((- d) div 86400) else d div 86400)"

definition mail_fields :: "mail_env \<Rightarrow> u32 \<Rightarrow> mail \<Rightarrow> mst \<Rightarrow> field list" where
  "mail_fields e p m st =
     [U16 (word_of_nat (next_mail_size m)), U32 (ml_id m), U8 (ml_messageType m)] @ sender_fields m @
     [U32 (ml_COD m), U32 (ml_itemTextId m), U32 0, U32 (ucast (ml_stationery m)), U32 (ml_money m), U32 (ml_checked m),
      U32 (me_floatBits e (days_left e m)), U32 (ucast (ml_mailTemplateId m)), Str (ml_subject m),
      U8 (word_of_nat (length (ml_items m)))] @
     concat (map (\<lambda>i. mailed_item_fields i (GetMItem p (fst (ml_items m ! i)) st)) [0..<length (ml_items m) mod 256])"

text \<open>The loop of \<open>HandleGetMail\<close>: the fields written so far, the first being the count's place, and the mails sent.\<close>

fun list_mails :: "mail_env \<Rightarrow> u32 \<Rightarrow> mail list \<Rightarrow> field list \<Rightarrow> nat \<Rightarrow> mst \<Rightarrow> field list \<times> nat" where
  "list_mails e p [] acc n st = (acc, n)"
| "list_mails e p (m # ms) acc n st =
     (if n \<ge> 254 then (acc, n)
      else if ml_state m = MAIL_STATE_DELETED \<or> me_time e < ml_deliver_time m then list_mails e p ms acc n st
      else if length (packet_bytes acc) + next_mail_size m > 32767 then (acc, n)
      else list_mails e p ms (acc @ mail_fields e p m st) (n + 1) st)"

definition mail_list_body :: "mail_env \<Rightarrow> u32 \<Rightarrow> mst \<Rightarrow> field list" where
  "mail_list_body e p st =
     (case list_mails e p (mb_mail (ms_box st p)) [U8 0] 0 st of (acc, n) \<Rightarrow> U8 (word_of_nat n) # tl acc)"

definition HandleGetMail :: "mail_env \<Rightarrow> u32 \<Rightarrow> u64 \<Rightarrow> mst \<Rightarrow> mst" where
  "HandleGetMail e p mailbox st =
     (if \<not> me_mailbox e p mailbox then st
      else
        (let st = (if \<not> mb_loaded (ms_box st p) then LoadMail e p st else st);
             st = m_emit [MSend p (mk_packet SMSG_MAIL_LIST_RESULT (mail_list_body e p st))] st
         in UpdateNextMailTimeAndUnreads e p st))"

definition HandleItemTextQuery :: "u32 \<Rightarrow> u32 \<Rightarrow> mst \<Rightarrow> mst" where
  "HandleItemTextQuery p itemTextId st =
     m_emit [MSend p (mk_packet SMSG_ITEM_TEXT_QUERY_RESPONSE [U32 itemTextId, Str (GetItemText itemTextId st)])] st"

definition HandleMailCreateTextItem :: "mail_env \<Rightarrow> u32 \<Rightarrow> u64 \<Rightarrow> u32 \<Rightarrow> mst \<Rightarrow> mst" where
  "HandleMailCreateTextItem e p mailbox mailId st =
     (if \<not> me_mailbox e p mailbox then st
      else (case GetMail p mailId st of
              None \<Rightarrow> SendMailResult p mailId MAIL_MADE_PERMANENT MAIL_ERR_INTERNAL_ERROR 0 0 0 st
            | Some m \<Rightarrow>
                if (ml_itemTextId m = 0 \<and> ml_mailTemplateId m = 0) \<or> \<not> usable e m
                then SendMailResult p mailId MAIL_MADE_PERMANENT MAIL_ERR_INTERNAL_ERROR 0 0 0 st
                else (case me_letter e p st of
                        None \<Rightarrow> st
                      | Some it \<Rightarrow>
                          (let it = it\<lparr>mi_textId := ml_itemTextId m, mi_creator := ml_sender m\<rparr>
                           in case me_canStore e p it st of
                                (msg, dest) \<Rightarrow>
                                  if msg = 0
                                  then SendMailResult p mailId MAIL_MADE_PERMANENT MAIL_OK 0 0 0
                                         (mail_MoveItemToInventory e p dest it
                                           (mailsUpdated p
                                             (upd_mail p mailId (\<lambda>m. m\<lparr>ml_checked := ml_checked m OR MAIL_CHECK_MASK_COPIED,
                                                ml_state := MAIL_STATE_CHANGED\<rparr>) st)))
                                  else SendMailResult p mailId MAIL_MADE_PERMANENT MAIL_ERR_EQUIP_ERROR (ucast msg) 0 0 st))))"

fun next_mails :: "u64 \<Rightarrow> mail list \<Rightarrow> nat \<Rightarrow> field list \<times> nat" where
  "next_mails now [] n = ([], n)"
| "next_mails now (m # ms) n =
     (if ml_checked m AND MAIL_CHECK_MASK_READ = 0 \<and> ml_deliver_time m \<le> now
      then (if n + 1 > 2 then ([], 2)
            else (let (fs, k) = next_mails now ms (n + 1)
                  in ([U64 (ucast (ml_sender m))] @
                      (if ml_messageType m = MAIL_AUCTION then [U32 (ml_sender m), U32 2] else [U32 0, U32 0]) @
                      [U32 (ucast (ml_stationery m)), U32 0xC6000000] @ fs, k)))
      else next_mails now ms n)"

definition HandleMsgQueryNextMailtime :: "mail_env \<Rightarrow> u32 \<Rightarrow> mst \<Rightarrow> mst" where
  "HandleMsgQueryNextMailtime e p st =
     (let st = (if \<not> mb_loaded (ms_box st p) then LoadMail e p st else st)
      in m_emit [MSend p (mk_packet MSG_QUERY_NEXT_MAIL_TIME
           (if mb_unread (ms_box st p) > 0
            then (case next_mails (me_time e) (mb_mail (ms_box st p)) 0 of (fs, n) \<Rightarrow> U32 0 # U32 (word_of_nat n) # fs)
            else [U32 0xC7A8C000, U32 0]))] st)"

section \<open>Old mail\<close>

definition old_mail :: "mail_env \<Rightarrow> bool \<Rightarrow> mail_row \<Rightarrow> mst \<Rightarrow> mst" where
  "old_mail e serverUp r st =
     (if serverUp \<and> mail_online e (mr_receiver r) \<noteq> None \<and> mb_loaded (ms_box st (mr_receiver r)) then st
      else if mr_has_items r
      then (if mr_messageType r \<noteq> MAIL_NORMAL
               \<or> mr_checked r AND (MAIL_CHECK_MASK_COD_PAYMENT OR MAIL_CHECK_MASK_RETURNED) \<noteq> 0
            then db_delete_mail (mr_id r) (delete_instances (map fst (item_rows (mr_id r) st)) st)
            else db_update_mail (mr_id r) (\<lambda>q. q\<lparr>mr_sender := mr_receiver r, mr_receiver := mr_sender r,
                   mr_expire_time := me_time e + ucast (30 * DAY), mr_deliver_time := me_time e, mr_cod := 0,
                   mr_checked := MAIL_CHECK_MASK_RETURNED\<rparr>) st)
      else db_delete_mail (mr_id r) st)"

definition ReturnOrDeleteOldMails :: "mail_env \<Rightarrow> bool \<Rightarrow> mst \<Rightarrow> mst" where
  "ReturnOrDeleteOldMails e serverUp st =
     (let st = (if \<not> serverUp
                then st\<lparr>ms_mail := filter (\<lambda>r. \<not> (mr_expire_time r < me_time e \<and> \<not> mr_has_items r \<and> mr_itemTextId r = 0))
                                    (ms_mail st)\<rparr>
                else st)
      in fold (old_mail e serverUp) (filter (\<lambda>r. mr_expire_time r < me_time e) (ms_mail st)) st)"

section \<open>External mail\<close>

record external_mail =
  xm_id :: u32
  xm_receiver :: u64
  xm_subject :: string
  xm_message :: string
  xm_money :: u32
  xm_item :: u32
  xm_count :: u32

definition external_sender :: MailSender where
  "external_sender = plain_sender 0 MAIL_STATIONERY_GM"

text \<open>
  One row of the queue: the row stays where the receiver is not in the world; an item that cannot be
  created is a null pointer whose \<open>SaveToDB\<close> is called, None.
\<close>

definition send_external_mail :: "mail_env \<Rightarrow> external_mail \<Rightarrow> mst \<Rightarrow> (bool \<times> mst) option" where
  "send_external_mail e x st =
     (case FindPlayer (me_world e) (xm_receiver x) of
        None \<Rightarrow> Some (False, st)
      | Some _ \<Rightarrow>
          (let low = GUID_LOPART (xm_receiver x);
               (itemTextId, st) = (if xm_message x \<noteq> [] then CreateItemText (xm_message x) st else (0, st));
               d = draft_of (xm_subject x) itemTextId;
               send = (\<lambda>d. SendMailTo e (AddMoney (xm_money x) d) \<lparr>rcv_player = Some low, rcv_low = low\<rparr>
                             external_sender MAIL_CHECK_MASK_RETURNED 0)
           in if xm_item x \<noteq> 0
              then (case me_createItem e (xm_item x) (xm_count x) low st of
                      None \<Rightarrow> None
                    | Some it \<Rightarrow> Some (True, send (MailDraft_AddItem it d) (Item_SaveToDB it st)))
              else Some (True, send d st)))"

fun SendExternalMails :: "mail_env \<Rightarrow> external_mail list \<Rightarrow> mst \<Rightarrow> (external_mail list \<times> mst) option" where
  "SendExternalMails e [] st = Some ([], st)"
| "SendExternalMails e (x # xs) st =
     (case send_external_mail e x st of
        None \<Rightarrow> None
      | Some (sent, st) \<Rightarrow>
          (case SendExternalMails e xs st of
             None \<Rightarrow> None
           | Some (rest, st) \<Rightarrow> Some (if sent then rest else x # rest, st)))"

end
