(* ===== verification/MailInv.thy ===== *)
theory MailInv
  imports MailHandlers
begin

text \<open>
  What the mail system keeps: the mailbox of a character in memory is a faithful copy of his rows in the
  database up to what the next save writes, and mail ids are used once.
\<close>

section \<open>The invariant\<close>

text \<open>The fields of a mail that no request changes.\<close>

definition same_identity :: "mail \<Rightarrow> mail_row \<Rightarrow> bool" where
  "same_identity m r \<longleftrightarrow>
     mr_id r = ml_id m \<and> mr_messageType r = ml_messageType m \<and> mr_stationery r = ml_stationery m \<and>
     mr_sender r = ml_sender m \<and> mr_receiver r = ml_receiver m \<and> mr_subject r = ml_subject m \<and>
     ml_mailTemplateId m \<in> {mr_mailTemplateId r, 0}"

text \<open>The fields that are written at once; only the mask of checks waits for the next save.\<close>

definition settled :: "mail \<Rightarrow> mail_row \<Rightarrow> bool" where
  "settled m r \<longleftrightarrow>
     mr_itemTextId r = ml_itemTextId m \<and> mr_expire_time r = ml_expire_time m \<and>
     mr_deliver_time r = ml_deliver_time m \<and> mr_money r = ml_money m \<and> mr_cod r = ml_COD m \<and>
     (HasItems m \<longrightarrow> mr_has_items r) \<and> ml_removedItems m = [] \<and>
     (ml_state m = MAIL_STATE_UNCHANGED \<longrightarrow> mr_checked r = ml_checked m)"

text \<open>Every item the database attaches to a mail is in its list, or will be removed at the next save.\<close>

definition covered :: "mail \<Rightarrow> mst \<Rightarrow> bool" where
  "covered m st \<longleftrightarrow> set (item_rows (ml_id m) st) \<subseteq> set (ml_items m) \<union> {x. fst x \<in> set (ml_removedItems m)}"

definition mirrored :: "u32 set \<Rightarrow> u32 \<Rightarrow> mail \<Rightarrow> mst \<Rightarrow> bool" where
  "mirrored X p m st \<longleftrightarrow>
     (\<exists>r \<in> set (rows_of p st). same_identity m r \<and> (ml_id m \<notin> X \<longrightarrow> settled m r)) \<and> covered m st \<and>
     (ml_state m \<noteq> MAIL_STATE_UNCHANGED \<longrightarrow> mb_updated (ms_box st p))"

definition mail_mirrors :: "u32 set \<Rightarrow> u32 \<Rightarrow> mst \<Rightarrow> bool" where
  "mail_mirrors X p st \<longleftrightarrow>
     (if mb_loaded (ms_box st p)
      then distinct (map ml_id (mb_mail (ms_box st p))) \<and> (\<forall>m \<in> set (mb_mail (ms_box st p)). mirrored X p m st)
      else mb_mail (ms_box st p) = [])"

definition db_ok :: "mst \<Rightarrow> bool" where
  "db_ok st \<longleftrightarrow>
     distinct (map mr_id (ms_mail st)) \<and> (\<forall>r \<in> set (ms_mail st). mr_id r < ms_mailid st) \<and>
     (\<forall>x \<in> set (ms_mailItems st). fst x < ms_mailid st)"

text \<open>A row without the mark has no attachments; the rows of X are being written.\<close>

definition marked :: "u32 set \<Rightarrow> mst \<Rightarrow> bool" where
  "marked X st \<longleftrightarrow> (\<forall>r \<in> set (ms_mail st). mr_id r \<notin> X \<longrightarrow> \<not> mr_has_items r \<longrightarrow> item_rows (mr_id r) st = [])"

definition mail_inv :: "u32 set \<Rightarrow> mst \<Rightarrow> bool" where
  "mail_inv X st \<longleftrightarrow> db_ok st \<and> marked {} st \<and> (\<forall>p. mail_mirrors X p st)"

text \<open>The invariant reads this part of the state.\<close>

definition mcore ::
  "mst \<Rightarrow> (u32 \<Rightarrow> mail list \<times> bool \<times> bool) \<times> mail_row list \<times> (u32 \<times> u32 \<times> u32 \<times> u32) list \<times> u32" where
  "mcore st = (\<lambda>p. (mb_mail (ms_box st p), mb_loaded (ms_box st p), mb_updated (ms_box st p)),
               ms_mail st, ms_mailItems st, ms_mailid st)"

lemma mail_inv_mcore: "mcore st = mcore st' \<Longrightarrow> mail_inv X st = mail_inv X st'"
  by (simp add: mail_inv_def db_ok_def marked_def mail_mirrors_def mirrored_def covered_def rows_of_def item_rows_def
      mcore_def fun_eq_iff)

lemma mcore_upd_box:
  "(\<And>b. mb_mail (f b) = mb_mail b \<and> mb_loaded (f b) = mb_loaded b \<and> mb_updated (f b) = mb_updated b) \<Longrightarrow>
   mcore (upd_box p f st) = mcore st"
  by (auto simp: mcore_def upd_box_def fun_eq_iff)

lemma mcore_money [simp]: "mcore (mail_ModifyMoney p d st) = mcore st"
  by (simp add: mail_ModifyMoney_def Let_def m_emit_def mcore_def upd_box_def fun_eq_iff)

lemma mcore_boxes [simp]:
  "mcore (m_emit es st) = mcore st" "mcore (SendMailResult p i a b c d f st) = mcore st"
  "mcore (SendNewMail p st) = mcore st" "mcore (UpdateNextMailTimeAndUnreads e p st) = mcore st"
  "mcore (AddNewMailDeliverTime e p t st) = mcore st" "mcore (Update_mail e p st) = mcore st"
  "mcore (AddMItem p it st) = mcore st" "mcore (RemoveMItem p g st) = mcore st"
  "mcore (mail_MoveItemFromInventory p it st) = mcore st" "mcore (mail_MoveItemToInventory e p ds it st) = mcore st"
  "mcore (Item_SaveToDB it st) = mcore st" "mcore (db_delete_instance g st) = mcore st"
  "mcore (LoadMailInit e p st) = mcore st" "mcore (take_from_sender p it st) = mcore st"
  by (auto simp: mcore_def m_emit_def SendMailResult_def SendNewMail_def UpdateNextMailTimeAndUnreads_def
      AddNewMailDeliverTime_def Update_mail_def AddMItem_def RemoveMItem_def mail_MoveItemFromInventory_def
      mail_MoveItemToInventory_def Item_SaveToDB_def db_delete_instance_def LoadMailInit_def take_from_sender_def
      upd_box_def Let_def fun_eq_iff split: prod.split)

lemma mcore_texts [simp]: "CreateItemText t st = (i, st') \<Longrightarrow> mcore st' = mcore st"
  by (auto simp: CreateItemText_def GenerateItemTextID_def m_emit_def mcore_def Let_def split: if_splits prod.splits)

lemma mcore_fold: "(\<And>x st. mcore (f x st) = mcore st) \<Longrightarrow> mcore (fold f xs st) = mcore st"
  by (induction xs arbitrary: st) simp_all

lemma mcore_folds [simp]:
  "mcore (delete_instances gs st) = mcore st" "mcore (fold (AddMItem p) its st) = mcore st"
  "mcore (fold Item_SaveToDB its st) = mcore st" "mcore (fold (take_from_sender p) its st) = mcore st"
  by (simp_all add: delete_instances_def mcore_fold)

lemma mcore_template_items: "add_template_items its d st = (d', st') \<Longrightarrow> mcore st' = mcore st"
  by (induction its d st rule: add_template_items.induct) (auto split: if_splits)

lemma mcore_prepareItems: "prepareItems e q d st = (d', st') \<Longrightarrow> mcore st' = mcore st"
  by (auto simp: prepareItems_def dest: mcore_template_items split: if_splits)

lemma mcore_collect: "collect_items p gs d st = (d', st') \<Longrightarrow> mcore st' = mcore st"
proof (induction p gs d st rule: collect_items.induct)
  case (2 p g t rest d st)
  thus ?case by (simp add: Let_def split: option.splits)
qed simp

section \<open>Looking at one mailbox\<close>

lemma mcoreD:
  assumes "mcore st' = mcore st"
  shows "mb_mail (ms_box st' p) = mb_mail (ms_box st p)" "mb_loaded (ms_box st' p) = mb_loaded (ms_box st p)"
    "mb_updated (ms_box st' p) = mb_updated (ms_box st p)" "ms_mail st' = ms_mail st"
    "ms_mailItems st' = ms_mailItems st" "ms_mailid st' = ms_mailid st"
  using assms by (auto simp: mcore_def fun_eq_iff)

text \<open>A mailbox stays mirrored while its own rows stay and no attachment is added to its mails.\<close>

lemma mirrors_mono:
  assumes "mail_mirrors X p st"
    and "ms_box st' p = ms_box st p"
    and "\<And>r. r \<in> set (ms_mail st) \<Longrightarrow> mr_receiver r = p \<Longrightarrow> mr_id r \<in> ml_id ` set (mb_mail (ms_box st p)) \<Longrightarrow>
           r \<in> set (ms_mail st')"
    and "\<And>m. m \<in> set (mb_mail (ms_box st p)) \<Longrightarrow> set (item_rows (ml_id m) st') \<subseteq> set (item_rows (ml_id m) st)"
  shows "mail_mirrors X p st'"
proof -
  have "mirrored X p m st'" if m: "m \<in> set (mb_mail (ms_box st p))" and old: "mirrored X p m st" for m
  proof -
    obtain r where r: "r \<in> set (rows_of p st)" "same_identity m r" "ml_id m \<notin> X \<longrightarrow> settled m r"
      using old by (auto simp: mirrored_def)
    have "r \<in> set (ms_mail st')"
      using r m by (intro assms(3)) (auto simp: rows_of_def same_identity_def)
    thus ?thesis using r old assms(2) assms(4) [OF m] by (auto simp: mirrored_def rows_of_def covered_def)
  qed
  thus ?thesis using assms(1,2) by (auto simp: mail_mirrors_def split: if_splits)
qed

lemma GetMail_Some:
  assumes "GetMail p i st = Some m"
  shows "m \<in> set (mb_mail (ms_box st p))" "ml_id m = i"
  using assms by (auto simp: GetMail_def find_Some_iff)

lemma GetMail_loaded: "mail_inv X st \<Longrightarrow> GetMail p i st = Some m \<Longrightarrow> mb_loaded (ms_box st p)"
  by (auto simp: mail_inv_def mail_mirrors_def GetMail_def split: if_splits dest: spec [of _ p])

text \<open>Two mailboxes never hold the same mail.\<close>

lemma mail_owner:
  assumes "mail_inv X st" "m \<in> set (mb_mail (ms_box st p))" "r \<in> set (ms_mail st)" "mr_id r = ml_id m"
  shows "mr_receiver r = p"
proof -
  have "mail_mirrors X p st" using assms(1) by (simp add: mail_inv_def)
  then obtain r' where r': "r' \<in> set (ms_mail st)" "mr_receiver r' = p" "mr_id r' = ml_id m"
    using assms(2) by (fastforce simp: mail_mirrors_def mirrored_def rows_of_def same_identity_def split: if_splits)
  moreover have "distinct (map mr_id (ms_mail st))" using assms(1) by (simp add: mail_inv_def db_ok_def)
  ultimately have "r' = r" using assms(3,4) by (metis distinct_map inj_onD)
  thus ?thesis using r' by simp
qed

lemma one_owner:
  assumes "mail_inv X st" "m \<in> set (mb_mail (ms_box st p))" "m' \<in> set (mb_mail (ms_box st q))" "ml_id m = ml_id m'"
  shows "p = q"
proof -
  have "mail_mirrors X p st" using assms(1) by (simp add: mail_inv_def)
  then obtain r where "r \<in> set (ms_mail st)" "mr_receiver r = p" "mr_id r = ml_id m"
    using assms(2) by (fastforce simp: mail_mirrors_def mirrored_def rows_of_def same_identity_def split: if_splits)
  thus ?thesis using mail_owner [OF assms(1,3)] assms(4) by simp
qed


lemma item_rows_set: "x \<in> set (item_rows i st) \<longleftrightarrow> (\<exists>rc. (i, fst x, snd x, rc) \<in> set (ms_mailItems st))"
  by (cases x) (force simp: item_rows_def)

lemma item_rows_Nil: "item_rows i st = [] \<longleftrightarrow> (\<forall>x \<in> set (ms_mailItems st). fst x \<noteq> i)"
  by (auto simp: item_rows_def filter_empty_conv)

lemma item_rows_shrink:
  "set (ms_mailItems st') \<subseteq> set (ms_mailItems st) \<Longrightarrow> set (item_rows i st') \<subseteq> set (item_rows i st)"
  unfolding subset_iff item_rows_set by blast

text \<open>Fewer attachments in the database.\<close>

lemma mail_inv_shrink:
  assumes "mail_inv X st" "ms_box st' = ms_box st" "ms_mail st' = ms_mail st" "ms_mailid st' = ms_mailid st"
    and "set (ms_mailItems st') \<subseteq> set (ms_mailItems st)"
  shows "mail_inv X st'"
proof -
  have ok: "db_ok st" "marked {} st" "\<And>p. mail_mirrors X p st" using assms(1) by (simp_all add: mail_inv_def)
  have "mail_mirrors X p st'" for p
    by (rule mirrors_mono [OF ok(3)]) (simp_all only: assms(2,3) item_rows_shrink [OF assms(5)])
  moreover have "marked {} st'"
    unfolding marked_def assms(3) using ok(2) assms(5) by (auto simp: marked_def item_rows_Nil)
  moreover have "db_ok st'"
    unfolding db_ok_def assms(3,4) using ok(1) assms(5) by (auto simp: db_ok_def)
  ultimately show ?thesis by (simp add: mail_inv_def)
qed

lemma mail_inv_delete_mailed: "mail_inv X st \<Longrightarrow> mail_inv X (db_delete_mailed_item g st)"
  by (erule mail_inv_shrink) (auto simp: db_delete_mailed_item_def)

section \<open>Sending\<close>

text \<open>The server stops before the ids run out.\<close>

definition running :: "mst \<Rightarrow> bool" where
  "running st \<longleftrightarrow> ms_mailid st < 0xFFFFFFFE"

lemma insert_mail_sel [simp]:
  "ms_box (insert_mail r its st) = ms_box st" "ms_mail (insert_mail r its st) = ms_mail st @ [r]"
  "ms_mailid (insert_mail r its st) = ms_mailid st"
  "ms_mailItems (insert_mail r its st) =
     ms_mailItems st @ map (\<lambda>it. (mr_id r, mi_low it, mi_entry it, mr_receiver r)) its"
  "ms_instances (insert_mail r its st) = ms_instances st"
proof -
  have "ms_box (fold (\<lambda>it. db_insert_mail_item (h it)) its s) = ms_box s \<and>
        ms_mail (fold (\<lambda>it. db_insert_mail_item (h it)) its s) = ms_mail s \<and>
        ms_mailid (fold (\<lambda>it. db_insert_mail_item (h it)) its s) = ms_mailid s \<and>
        ms_instances (fold (\<lambda>it. db_insert_mail_item (h it)) its s) = ms_instances s \<and>
        ms_mailItems (fold (\<lambda>it. db_insert_mail_item (h it)) its s) = ms_mailItems s @ map h its" for h s
    by (induction its arbitrary: s) (simp_all add: db_insert_mail_item_def)
  thus "ms_box (insert_mail r its st) = ms_box st" "ms_mail (insert_mail r its st) = ms_mail st @ [r]"
    "ms_mailid (insert_mail r its st) = ms_mailid st"
    "ms_mailItems (insert_mail r its st) =
       ms_mailItems st @ map (\<lambda>it. (mr_id r, mi_low it, mi_entry it, mr_receiver r)) its"
    "ms_instances (insert_mail r its st) = ms_instances st"
    by (simp_all add: insert_mail_def db_insert_mail_def)
qed

lemma item_rows_insert:
  "item_rows i (insert_mail r its st) =
     item_rows i st @ (if i = mr_id r then map (\<lambda>it. (mi_low it, mi_entry it)) its else [])"
  by (auto simp: item_rows_def comp_def)

lemma GenerateMailID_running: "running st \<Longrightarrow> GenerateMailID st = (ms_mailid st, st\<lparr>ms_mailid := ms_mailid st + 1\<rparr>)"
  by (auto simp: running_def GenerateMailID_def Let_def dest: leD)

lemma running_next: "running st \<Longrightarrow> (x :: u32) < ms_mailid st \<Longrightarrow> x < ms_mailid st + 1"
  "running st \<Longrightarrow> ms_mailid st < ms_mailid st + 1"
proof -
  assume r: "running st"
  have s: "unat (ms_mailid st + 1) = unat (ms_mailid st) + 1"
    using r by (simp add: running_def word_less_nat_alt unat_plus_if')
  show "ms_mailid st < ms_mailid st + 1" using s by (simp add: word_less_nat_alt)
  show "x < ms_mailid st \<Longrightarrow> x < ms_mailid st + 1" using s by (simp add: word_less_nat_alt)
qed

text \<open>A row and its attachments under a fresh id.\<close>

lemma mail_inv_new_row:
  assumes inv: "mail_inv X st" and run: "running st" and id: "mr_id r = ms_mailid st"
    and mark: "mr_has_items r \<longleftrightarrow> its \<noteq> []"
  shows "mail_inv X (insert_mail r its (st\<lparr>ms_mailid := ms_mailid st + 1\<rparr>))"
    (is "mail_inv X ?st'")
proof -
  have ok: "db_ok st" "marked {} st" and mir: "\<And>p. mail_mirrors X p st" using inv by (simp_all add: mail_inv_def)
  have fresh: "mr_id q \<noteq> ms_mailid st" if "q \<in> set (ms_mail st)" for q
    using ok(1) that by (auto simp: db_ok_def)
  have none_yet: "item_rows (ms_mailid st) st = []"
    using ok(1) by (auto simp: db_ok_def item_rows_Nil)
  have base: "item_rows i (st\<lparr>ms_mailid := k\<rparr>) = item_rows i st" for i k by (simp add: item_rows_def)
  have "db_ok ?st'"
    using ok(1) fresh running_next [OF run] id by (auto simp: db_ok_def)
  moreover have "marked {} ?st'"
    unfolding marked_def
  proof (intro ballI impI)
    fix q
    assume q: "q \<in> set (ms_mail ?st')" "\<not> mr_has_items q"
    show "item_rows (mr_id q) ?st' = []"
    proof (cases "q = r")
      case True
      thus ?thesis using q(2) mark none_yet by (simp add: item_rows_insert base id)
    next
      case False
      hence "q \<in> set (ms_mail st)" using q(1) by simp
      thus ?thesis using q(2) ok(2) fresh unfolding item_rows_insert base id by (simp add: marked_def)
    qed
  qed
  moreover have "mail_mirrors X p ?st'" for p
  proof (rule mirrors_mono [OF mir])
    show "ms_box ?st' p = ms_box st p" by simp
    show "q \<in> set (ms_mail ?st')" if "q \<in> set (ms_mail st)" for q using that by simp
    show "set (item_rows (ml_id m) ?st') \<subseteq> set (item_rows (ml_id m) st)" if m: "m \<in> set (mb_mail (ms_box st p))" for m
    proof -
      have "ml_id m \<noteq> ms_mailid st"
      proof -
        have "\<exists>q \<in> set (ms_mail st). mr_id q = ml_id m"
          using mir [of p] m by (fastforce simp: mail_mirrors_def mirrored_def rows_of_def same_identity_def split: if_splits)
        thus ?thesis using fresh by auto
      qed
      thus ?thesis by (simp add: item_rows_insert base id)
    qed
  qed
  ultimately show ?thesis by (simp add: mail_inv_def)
qed


lemma same_identity_row: "same_identity (mail_of_row r gs) r"
  by (simp add: same_identity_def mail_of_row_def)

lemma settled_row: "(gs \<noteq> [] \<longrightarrow> mr_has_items r) \<Longrightarrow> settled (mail_of_row r gs) r"
  by (simp add: settled_def mail_of_row_def HasItems_def)

lemma mail_of_row_sel [simp]:
  "ml_id (mail_of_row r gs) = mr_id r" "ml_items (mail_of_row r gs) = gs"
  "ml_state (mail_of_row r gs) = MAIL_STATE_UNCHANGED" "ml_removedItems (mail_of_row r gs) = []"
  by (simp_all add: mail_of_row_def)

text \<open>A new mail in front of the mailbox of its receiver.\<close>

lemma mail_inv_push:
  assumes inv: "mail_inv X st" and r: "r \<in> set (ms_mail st)" "mr_receiver r = q"
    and new: "mr_id r \<notin> ml_id ` set (mb_mail (ms_box st q))" and load: "mb_loaded (ms_box st q)"
    and gs: "set (item_rows (mr_id r) st) \<subseteq> set gs" "gs \<noteq> [] \<longrightarrow> mr_has_items r"
    and f: "\<And>b. mb_mail (f b) = mail_of_row r gs # mb_mail b" "\<And>b. mb_loaded (f b) = mb_loaded b"
       "\<And>b. mb_updated (f b) = mb_updated b"
  shows "mail_inv X (upd_box q f st)"
proof -
  let ?st' = "upd_box q f st"
  have [simp]: "ms_mail ?st' = ms_mail st" "ms_mailItems ?st' = ms_mailItems st" "ms_mailid ?st' = ms_mailid st"
    by (simp_all add: upd_box_def)
  have rows: "rows_of p ?st' = rows_of p st" "item_rows i ?st' = item_rows i st" for p i
    by (simp_all add: rows_of_def item_rows_def)
  have "mail_mirrors X p ?st'" for p
  proof (cases "p = q")
    case False
    hence "ms_box ?st' p = ms_box st p" by (simp add: upd_box_def)
    have "mail_mirrors X p st" using inv by (simp add: mail_inv_def)
    thus ?thesis by (rule mirrors_mono) (simp_all add: rows \<open>ms_box ?st' p = ms_box st p\<close>)
  next
    case True
    have box: "ms_box ?st' q = f (ms_box st q)" by (simp add: upd_box_def)
    have "mirrored X q (mail_of_row r gs) ?st'"
      using r gs same_identity_row [of r gs] settled_row [of gs r]
      by (auto simp: mirrored_def rows rows_of_def covered_def)
    moreover have "mirrored X q m ?st'" if "mirrored X q m st" for m
      using that by (simp add: mirrored_def rows covered_def box f)
    moreover have "mail_mirrors X q st" using inv by (simp add: mail_inv_def)
    ultimately show ?thesis using True new load by (simp add: mail_mirrors_def box f)
  qed
  thus ?thesis using inv by (simp add: mail_inv_def db_ok_def marked_def rows)
qed

lemma mail_inv_deliver:
  assumes "mail_inv X st" "r \<in> set (ms_mail st)" "mr_receiver r = q"
    and "mr_id r \<notin> ml_id ` set (mb_mail (ms_box st q))"
    and "item_rows (mr_id r) st = map (\<lambda>it. (mi_low it, mi_entry it)) its" "its \<noteq> [] \<longrightarrow> mr_has_items r"
  shows "mail_inv X (deliver_online e q r its st)"
proof -
  let ?s = "AddNewMailDeliverTime e q (mr_deliver_time r) st"
  have core: "mcore ?s = mcore st" by simp
  note same = mcoreD [OF core]
  have inv: "mail_inv X ?s" using assms(1) by (simp add: mail_inv_mcore [OF core])
  show ?thesis
  proof (cases "mb_loaded (ms_box ?s q)")
    case True
    have "mail_inv X (upd_box q (\<lambda>b. b\<lparr>mb_mail := mail_of_row r (map (\<lambda>it. (mi_low it, mi_entry it)) its) # mb_mail b\<rparr>) ?s)"
      using assms True by (intro mail_inv_push [OF inv]) (simp_all add: same item_rows_def)
    thus ?thesis using True
      by (simp add: deliver_online_def Let_def mail_inv_mcore [OF mcore_folds(2)])
  next
    case False
    thus ?thesis using inv by (simp add: deliver_online_def Let_def)
  qed
qed

definition send_prepared ::
  "mail_env \<Rightarrow> MailDraft \<Rightarrow> MailReceiver \<Rightarrow> MailSender \<Rightarrow> u32 \<Rightarrow> u32 \<Rightarrow> mst \<Rightarrow> mst" where
  "send_prepared e d r s ck delay st =
     (let row = draft_row e d (rcv_low r) s ck delay (ms_mailid st); its = map snd (md_items d);
          st = insert_mail row its (st\<lparr>ms_mailid := ms_mailid st + 1\<rparr>)
      in case rcv_player r of None \<Rightarrow> st | Some q \<Rightarrow> deliver_online e q row its st)"

definition addressed :: "MailReceiver \<Rightarrow> bool" where
  "addressed r \<longleftrightarrow> (\<forall>q. rcv_player r = Some q \<longrightarrow> q = rcv_low r)"

lemma draft_row_sel [simp]:
  "mr_id (draft_row e d low s ck delay i) = i" "mr_receiver (draft_row e d low s ck delay i) = low"
  "mr_has_items (draft_row e d low s ck delay i) = (md_items d \<noteq> [])"
  "mr_money (draft_row e d low s ck delay i) = md_money d" "mr_cod (draft_row e d low s ck delay i) = md_COD d"
  by (simp_all add: draft_row_def Let_def)

lemma mail_inv_send_prepared:
  assumes inv: "mail_inv X st" and run: "running st" and to: "addressed r"
  shows "mail_inv X (send_prepared e d r s ck delay st)"
proof -
  define row where "row = draft_row e d (rcv_low r) s ck delay (ms_mailid st)"
  define its where "its = map snd (md_items d)"
  define st1 where "st1 = insert_mail row its (st\<lparr>ms_mailid := ms_mailid st + 1\<rparr>)"
  have row: "mr_id row = ms_mailid st" "mr_receiver row = rcv_low r" "mr_has_items row \<longleftrightarrow> its \<noteq> []"
    by (simp_all add: row_def its_def)
  have ids: "x < ms_mailid st" if "x \<in> ml_id ` set (mb_mail (ms_box st p))" for x p
  proof -
    have "\<exists>q \<in> set (ms_mail st). mr_id q = x"
      using that inv by (fastforce simp: mail_inv_def mail_mirrors_def mirrored_def rows_of_def same_identity_def
          split: if_splits dest: spec [of _ p])
    thus ?thesis using inv by (auto simp: mail_inv_def db_ok_def)
  qed
  have inv1: "mail_inv X st1" unfolding st1_def by (rule mail_inv_new_row [OF inv run]) (simp_all add: row)
  have none_yet: "item_rows (ms_mailid st) st = []"
    using inv by (auto simp: mail_inv_def db_ok_def item_rows_Nil)
  have "mail_inv X (deliver_online e q row its st1)" if "rcv_player r = Some q" for q
  proof (rule mail_inv_deliver [OF inv1])
    show "row \<in> set (ms_mail st1)" by (simp add: st1_def)
    show "mr_receiver row = q" using that to by (simp add: row addressed_def)
    show "mr_id row \<notin> ml_id ` set (mb_mail (ms_box st1 q))" using ids [of "ms_mailid st" q] by (auto simp: row st1_def)
    show "item_rows (mr_id row) st1 = map (\<lambda>it. (mi_low it, mi_entry it)) its"
      using none_yet by (simp add: st1_def item_rows_insert row item_rows_def comp_def)
    show "its \<noteq> [] \<longrightarrow> mr_has_items row" by (simp add: row)
  qed
  thus ?thesis using inv1
    by (simp add: send_prepared_def Let_def row_def [symmetric] its_def [symmetric] st1_def [symmetric] split: option.split)
qed

lemma SendMailTo_cases:
  assumes "running st"
  obtains st1 where "mcore st1 = mcore st" "rcv_low r = me_bot e" "SendMailTo e d r s ck delay st = st1"
  | st1 d1 where "mcore st1 = mcore st" "SendMailTo e d r s ck delay st = send_prepared e d1 r s ck delay st1"
      "md_money d1 = md_money d" "md_COD d1 = md_COD d"
      "rcv_player r = None \<Longrightarrow> st1 = st \<and> d1 = d" "md_itemsNeed d = False \<Longrightarrow> st1 = st \<and> d1 = d"
proof -
  have money: "add_template_items xs dd s0 = (dd', s1) \<Longrightarrow> md_money dd' = md_money dd \<and> md_COD dd' = md_COD dd" for xs dd s0 dd' s1
    by (induction xs dd s0 rule: add_template_items.induct) (auto simp: MailDraft_AddItem_def split: if_splits)
  obtain d1 st1 where prep: "(case rcv_player r of None \<Rightarrow> (d, st) | Some q \<Rightarrow> prepareItems e q d st) = (d1, st1)"
    by (metis surj_pair)
  have core: "mcore st1 = mcore st" using prep by (auto dest: mcore_prepareItems split: option.splits)
  hence run: "running st1" using assms mcoreD(6) [OF core] by (simp add: running_def)
  have keep: "md_money d1 = md_money d" "md_COD d1 = md_COD d" "rcv_player r = None \<Longrightarrow> st1 = st \<and> d1 = d"
    "md_itemsNeed d = False \<Longrightarrow> st1 = st \<and> d1 = d"
    using prep by (auto simp: prepareItems_def dest!: money split: option.splits if_splits)
  show thesis
  proof (cases "rcv_low r = me_bot e")
    case True
    let ?s = "if snd_messageType s = MAIL_AUCTION \<and> md_items d1 \<noteq> [] then delete_instances (map fst (md_items d1)) st1 else st1"
    have "SendMailTo e d r s ck delay st = ?s" using True prep by (simp add: SendMailTo_def)
    moreover have "mcore ?s = mcore st" using core by simp
    ultimately show thesis using True by (intro that(1))
  next
    case False
    hence "SendMailTo e d r s ck delay st = send_prepared e d1 r s ck delay st1"
      using prep GenerateMailID_running [OF run] by (simp add: SendMailTo_def send_prepared_def Let_def)
    thus thesis using core keep by (intro that(2))
  qed
qed

lemma mail_inv_SendMailTo:
  assumes inv: "mail_inv X st" and run: "running st" and to: "addressed r"
  shows "mail_inv X (SendMailTo e d r s ck delay st)"
  using run
proof (cases rule: SendMailTo_cases [where e = e and d = d and r = r and s = s and ck = ck and delay = delay])
  case (1 st1)
  thus ?thesis using inv by (simp add: mail_inv_mcore [OF 1(1)])
next
  case (2 st1 d1)
  have "mail_inv X st1" using inv by (simp add: mail_inv_mcore [OF 2(1)])
  moreover have "running st1" using run mcoreD(6) [OF 2(1)] by (simp add: running_def)
  ultimately show ?thesis using 2(2) mail_inv_send_prepared to by simp
qed

lemma addressed_to [simp]: "addressed \<lparr>rcv_player = mail_online e low, rcv_low = low\<rparr>" "addressed (receiver_of e low)"
  by (auto simp: addressed_def receiver_of_def mail_online_def split: option.splits)


section \<open>Saving\<close>

definition saved :: "mail \<Rightarrow> mail" where
  "saved m = (if ml_state m = MAIL_STATE_CHANGED then m\<lparr>ml_removedItems := [], ml_state := MAIL_STATE_UNCHANGED\<rparr> else m)"

definition row_update :: "mail \<Rightarrow> mail_row \<Rightarrow> mail_row" where
  "row_update m r =
     (if ml_state m = MAIL_STATE_CHANGED \<and> mr_id r = ml_id m
      then r\<lparr>mr_itemTextId := ml_itemTextId m, mr_has_items := HasItems m, mr_expire_time := ml_expire_time m,
             mr_deliver_time := ml_deliver_time m, mr_money := ml_money m, mr_cod := ml_COD m, mr_checked := ml_checked m\<rparr>
      else r)"

lemma row_update_id [simp]: "mr_id (row_update m r) = mr_id r" "mr_receiver (row_update m r) = mr_receiver r"
  by (simp_all add: row_update_def)

lemma fold_row_update_id [simp]:
  "mr_id (fold row_update ms r) = mr_id r" "mr_receiver (fold row_update ms r) = mr_receiver r"
  by (induction ms arbitrary: r) simp_all

lemma fold_row_update_miss: "mr_id r \<notin> ml_id ` set ms \<Longrightarrow> fold row_update ms r = r"
  by (induction ms arbitrary: r) (auto simp: row_update_def)

lemma fold_row_update_hit:
  "distinct (map ml_id ms) \<Longrightarrow> m \<in> set ms \<Longrightarrow> ml_id m = mr_id r \<Longrightarrow> fold row_update ms r = row_update m r"
proof (induction ms arbitrary: r)
  case (Cons a ms)
  show ?case
  proof (cases "a = m")
    case True
    thus ?thesis using Cons.prems by (auto intro!: fold_row_update_miss)
  next
    case False
    hence "m \<in> set ms" "ml_id a \<noteq> mr_id r" using Cons.prems by (auto simp: image_iff)
    thus ?thesis using Cons by (auto simp: row_update_def)
  qed
qed simp

lemma fold_delete_mailed [simp]:
  "ms_box (fold db_delete_mailed_item gs st) = ms_box st" "ms_mail (fold db_delete_mailed_item gs st) = ms_mail st"
  "ms_mailid (fold db_delete_mailed_item gs st) = ms_mailid st"
  "ms_mailItems (fold db_delete_mailed_item gs st) = filter (\<lambda>(_, g, _). g \<notin> set gs) (ms_mailItems st)"
  by (induction gs arbitrary: st) (auto simp: db_delete_mailed_item_def intro!: filter_cong)

definition dropped :: "mail list \<Rightarrow> mail_row \<Rightarrow> bool" where
  "dropped ms r \<longleftrightarrow> (\<exists>m \<in> set ms. ml_state m = MAIL_STATE_DELETED \<and> ml_id m = mr_id r)"

lemma delete_instances_sel [simp]:
  "ms_box (delete_instances gs st) = ms_box st" "ms_mail (delete_instances gs st) = ms_mail st"
  "ms_mailid (delete_instances gs st) = ms_mailid st" "ms_mailItems (delete_instances gs st) = ms_mailItems st"
  unfolding delete_instances_def
  by (induction gs arbitrary: st; simp add: db_delete_instance_def)+

lemma save_one_sel:
  "fst (save_one m st) = saved m" "ms_box (snd (save_one m st)) = ms_box st" "ms_mailid (snd (save_one m st)) = ms_mailid st"
  "ms_mail (snd (save_one m st)) = filter (\<lambda>r. \<not> dropped [m] r) (map (row_update m) (ms_mail st))"
  "set (ms_mailItems (snd (save_one m st))) =
     {x \<in> set (ms_mailItems st). (ml_state m = MAIL_STATE_CHANGED \<longrightarrow> fst (snd x) \<notin> set (ml_removedItems m)) \<and>
        (ml_state m = MAIL_STATE_DELETED \<longrightarrow> fst x \<noteq> ml_id m)}"
proof -
  have [simp]: "map (row_update m) rs = rs" if "ml_state m \<noteq> MAIL_STATE_CHANGED" for rs
    using that by (auto simp: row_update_def intro: map_idI)
  show "fst (save_one m st) = saved m" "ms_box (snd (save_one m st)) = ms_box st"
    "ms_mailid (snd (save_one m st)) = ms_mailid st"
    by (simp_all add: save_one_def saved_def db_update_mail_def db_delete_mail_def db_delete_mail_items_def split: MailState.split)
  show "ms_mail (snd (save_one m st)) = filter (\<lambda>r. \<not> dropped [m] r) (map (row_update m) (ms_mail st))"
    by (cases "ml_state m")
      (auto simp: save_one_def dropped_def row_update_def db_update_mail_def db_delete_mail_def db_delete_mail_items_def
        intro!: filter_cong)
  show "set (ms_mailItems (snd (save_one m st))) =
     {x \<in> set (ms_mailItems st). (ml_state m = MAIL_STATE_CHANGED \<longrightarrow> fst (snd x) \<notin> set (ml_removedItems m)) \<and>
        (ml_state m = MAIL_STATE_DELETED \<longrightarrow> fst x \<noteq> ml_id m)}"
    by (cases "ml_state m") (auto simp: save_one_def db_update_mail_def db_delete_mail_def db_delete_mail_items_def)
qed

lemma save_mails_sel:
  "fst (save_mails ms st) = map saved ms" "ms_box (snd (save_mails ms st)) = ms_box st"
  "ms_mailid (snd (save_mails ms st)) = ms_mailid st"
  by (induction ms arbitrary: st) (simp_all add: save_one_sel split_beta Let_def)

lemma save_mails_rows:
  "ms_mail (snd (save_mails ms st)) = filter (\<lambda>r. \<not> dropped ms r) (map (fold row_update ms) (ms_mail st))"
proof (induction ms arbitrary: st)
  case Nil
  show ?case by (simp add: dropped_def)
next
  case (Cons m ms)
  have *: "filter P (map f (filter Q (map g rs))) = filter R (map (\<lambda>r. f (g r)) rs)"
    if "\<And>r. r \<in> set rs \<Longrightarrow> R (f (g r)) \<longleftrightarrow> P (f (g r)) \<and> Q (g r)" for P f Q g R and rs :: "mail_row list"
    using that by (induction rs) auto
  show ?case
    by (simp add: split_beta Let_def Cons.IH save_one_sel comp_def, rule *) (auto simp: dropped_def)
qed

lemma save_mails_items:
  "set (ms_mailItems (snd (save_mails ms st))) =
     {x \<in> set (ms_mailItems st). \<forall>m \<in> set ms. (ml_state m = MAIL_STATE_CHANGED \<longrightarrow> fst (snd x) \<notin> set (ml_removedItems m)) \<and>
        (ml_state m = MAIL_STATE_DELETED \<longrightarrow> fst x \<noteq> ml_id m)}"
  by (induction ms arbitrary: st) (auto simp: split_beta Let_def save_one_sel)


lemma mirrors_rest: "mail_mirrors X q st \<Longrightarrow> (\<And>m. m \<in> set (mb_mail (ms_box st q)) \<Longrightarrow> ml_id m \<notin> X) \<Longrightarrow> mail_mirrors {} q st"
  by (auto simp: mail_mirrors_def mirrored_def split: if_splits)

lemma saved_sel [simp]: "ml_id (saved m) = ml_id m" "ml_items (saved m) = ml_items m" "ml_money (saved m) = ml_money m"
  "ml_state (saved m) = MAIL_STATE_DELETED \<longleftrightarrow> ml_state m = MAIL_STATE_DELETED"
  by (simp_all add: saved_def)

lemma SaveMail_loaded:
  "mb_loaded (ms_box st p) \<Longrightarrow>
   SaveMail p st = upd_box p (\<lambda>b. b\<lparr>mb_mail := filter (\<lambda>m. ml_state m \<noteq> MAIL_STATE_DELETED)
       (map saved (mb_mail (ms_box st p))), mb_updated := False\<rparr>) (snd (save_mails (mb_mail (ms_box st p)) st))"
  by (simp add: SaveMail_def split_beta Let_def save_mails_sel(1))

text \<open>A loaded mailbox whose mails outside the mirror are marked for the save.\<close>

definition saving :: "u32 set \<Rightarrow> u32 \<Rightarrow> mst \<Rightarrow> bool" where
  "saving X p st \<longleftrightarrow> mail_inv X st \<and> mb_loaded (ms_box st p) \<and>
     (\<forall>m \<in> set (mb_mail (ms_box st p)). ml_id m \<in> X \<longrightarrow> ml_state m = MAIL_STATE_CHANGED) \<and>
     (\<forall>q m. q \<noteq> p \<longrightarrow> m \<in> set (mb_mail (ms_box st q)) \<longrightarrow> ml_id m \<notin> X)"

lemma save_distinct: "saving X p st \<Longrightarrow> distinct (map ml_id (mb_mail (ms_box st p)))"
  by (auto simp: saving_def mail_inv_def mail_mirrors_def dest: spec [of _ p])

lemma save_rowE:
  assumes "saving X p st" "m \<in> set (mb_mail (ms_box st p))"
  obtains r where "r \<in> set (ms_mail st)" "mr_receiver r = p" "same_identity m r" "ml_id m \<notin> X \<longrightarrow> settled m r"
    "covered m st"
proof -
  have "mirrored X p m st" using assms by (auto simp: saving_def mail_inv_def mail_mirrors_def dest: spec [of _ p])
  thus thesis using that by (auto simp: mirrored_def rows_of_def)
qed

lemma save_row:
  assumes "saving X p st" "m \<in> set (mb_mail (ms_box st p))" "ml_id m = mr_id r"
  shows "fold row_update (mb_mail (ms_box st p)) r = row_update m r"
  by (rule fold_row_update_hit [OF save_distinct [OF assms(1)] assms(2,3)])

lemma save_not_dropped:
  assumes "saving X p st" "m \<in> set (mb_mail (ms_box st p))" "ml_id m = mr_id r" "ml_state m \<noteq> MAIL_STATE_DELETED"
  shows "\<not> dropped (mb_mail (ms_box st p)) r"
proof
  assume "dropped (mb_mail (ms_box st p)) r"
  then obtain m' where "m' \<in> set (mb_mail (ms_box st p))" "ml_state m' = MAIL_STATE_DELETED" "ml_id m' = ml_id m"
    using assms by (auto simp: dropped_def)
  thus False using assms save_distinct [OF assms(1)] by (metis distinct_map inj_onD)
qed

text \<open>No attachment of a changed mail is left in the database that is not in its list.\<close>

lemma save_attachments:
  assumes "m \<in> set (mb_mail (ms_box st p))" "ml_state m \<noteq> MAIL_STATE_DELETED" "covered m st"
    and "x \<in> set (ms_mailItems (snd (save_mails (mb_mail (ms_box st p)) st)))" "fst x = ml_id m"
    and "ml_state m = MAIL_STATE_UNCHANGED \<longrightarrow> ml_removedItems m = []"
  shows "(fst (snd x), fst (snd (snd x))) \<in> set (ml_items m)"
proof -
  have x: "x \<in> set (ms_mailItems st)" "ml_state m = MAIL_STATE_CHANGED \<longrightarrow> fst (snd x) \<notin> set (ml_removedItems m)"
    using assms(1,4) by (auto simp: save_mails_items)
  have "(fst (snd x), fst (snd (snd x))) \<in> set (item_rows (ml_id m) st)"
    using x(1) assms(5) unfolding item_rows_set by (metis fst_conv prod.collapse snd_conv)
  hence "(fst (snd x), fst (snd (snd x))) \<in> set (ml_items m) \<or> fst (snd x) \<in> set (ml_removedItems m)"
    using assms(3) by (auto simp: covered_def)
  thus ?thesis using x(2) assms(2,6) by (cases "ml_state m") auto
qed

lemma save_own:
  assumes sv: "saving X p st"
  shows "mail_mirrors {} p (SaveMail p st)"
proof -
  have inv: "mail_inv X st" and load: "mb_loaded (ms_box st p)"
    and changed: "\<And>m. m \<in> set (mb_mail (ms_box st p)) \<Longrightarrow> ml_id m \<in> X \<Longrightarrow> ml_state m = MAIL_STATE_CHANGED"
    using sv by (auto simp: saving_def)
  let ?ms = "mb_mail (ms_box st p)" and ?st' = "SaveMail p st"
  have rows: "ms_mail ?st' = filter (\<lambda>r. \<not> dropped ?ms r) (map (fold row_update ?ms) (ms_mail st))"
    and items: "ms_mailItems ?st' = ms_mailItems (snd (save_mails ?ms st))"
    by (simp_all add: SaveMail_loaded [OF load] upd_box_def save_mails_rows)
  have mails: "mb_mail (ms_box ?st' p) = filter (\<lambda>m. ml_state m \<noteq> MAIL_STATE_DELETED) (map saved ?ms)"
    "mb_loaded (ms_box ?st' p)"
    using load by (simp_all add: SaveMail_loaded [OF load] upd_box_def save_mails_sel)
  have "mirrored {} p (saved m) ?st'" if m: "m \<in> set ?ms" "ml_state m \<noteq> MAIL_STATE_DELETED" for m
  proof -
    obtain r where r: "r \<in> set (ms_mail st)" "mr_receiver r = p" "same_identity m r" "ml_id m \<notin> X \<longrightarrow> settled m r"
      and cov: "covered m st" by (rule save_rowE [OF sv m(1)])
    have id: "ml_id m = mr_id r" using r(3) by (simp add: same_identity_def)
    have un: "ml_state m = MAIL_STATE_UNCHANGED \<Longrightarrow> settled m r" using changed [OF m(1)] r(4) by fastforce
    have "row_update m r = fold row_update ?ms r" by (rule save_row [OF sv m(1) id, symmetric])
    hence "row_update m r \<in> set (rows_of p ?st')"
      using r save_not_dropped [OF sv m(1) _ m(2), of "row_update m r"] id by (auto simp: rows_of_def rows)
    moreover have "same_identity (saved m) (row_update m r)"
      using r(3) by (simp add: same_identity_def saved_def row_update_def)
    moreover have "settled (saved m) (row_update m r)"
      using un id m(2) by (cases "ml_state m") (simp_all add: settled_def saved_def row_update_def HasItems_def)
    moreover have "covered (saved m) ?st'"
      using save_attachments [OF m cov] un unfolding covered_def saved_sel subset_iff item_rows_set items
      by (auto simp: settled_def)
    ultimately show ?thesis using m(2) by (cases "ml_state m") (auto simp: mirrored_def saved_def)
  qed
  moreover have "distinct (map ml_id (filter (\<lambda>m. ml_state m \<noteq> MAIL_STATE_DELETED) (map saved ?ms)))"
    using save_distinct [OF sv] by (simp add: distinct_map_filter comp_def)
  ultimately show ?thesis by (auto simp: mail_mirrors_def mails)
qed

lemma save_others:
  assumes sv: "saving X p st" and qp: "q \<noteq> p"
  shows "mail_mirrors {} q (SaveMail p st)"
proof -
  have inv: "mail_inv X st" and load: "mb_loaded (ms_box st p)"
    and others: "\<And>q m. q \<noteq> p \<Longrightarrow> m \<in> set (mb_mail (ms_box st q)) \<Longrightarrow> ml_id m \<notin> X"
    using sv by (auto simp: saving_def)
  show ?thesis
proof (rule mirrors_mono)
  let ?ms = "mb_mail (ms_box st p)"
  show "mail_mirrors {} q st"
    using inv others [OF qp] by (intro mirrors_rest [of X]) (auto simp: mail_inv_def)
  show "ms_box (SaveMail p st) q = ms_box st q"
    using qp by (simp add: SaveMail_loaded [OF load] upd_box_def save_mails_sel)
  fix r
  assume r: "r \<in> set (ms_mail st)" "mr_id r \<in> ml_id ` set (mb_mail (ms_box st q))"
  have "mr_id r \<notin> ml_id ` set ?ms" using r(2) one_owner [OF inv] qp by fastforce
  hence "fold row_update ?ms r = r" "\<not> dropped ?ms r" by (simp add: fold_row_update_miss, force simp: dropped_def)
  thus "r \<in> set (ms_mail (SaveMail p st))"
    using r(1) by (force simp: SaveMail_loaded [OF load] upd_box_def save_mails_rows)
next
  fix m
  show "set (item_rows (ml_id m) (SaveMail p st)) \<subseteq> set (item_rows (ml_id m) st)"
    by (rule item_rows_shrink) (auto simp: SaveMail_loaded [OF load] upd_box_def save_mails_items)
qed
qed

lemma save_marked:
  assumes sv: "saving X p st"
  shows "marked {} (SaveMail p st)"
proof -
  have inv: "mail_inv X st" and load: "mb_loaded (ms_box st p)" using sv by (simp_all add: saving_def)
  let ?ms = "mb_mail (ms_box st p)" and ?st' = "SaveMail p st"
  have rows: "ms_mail ?st' = filter (\<lambda>r. \<not> dropped ?ms r) (map (fold row_update ?ms) (ms_mail st))"
    and items: "ms_mailItems ?st' = ms_mailItems (snd (save_mails ?ms st))"
    by (simp_all add: SaveMail_loaded [OF load] upd_box_def save_mails_rows)
  have shrink: "set (ms_mailItems ?st') \<subseteq> set (ms_mailItems st)" by (auto simp: items save_mails_items)
  have "item_rows (mr_id r) ?st' = []"
    if r: "r \<in> set (ms_mail st)" "\<not> dropped ?ms r" "\<not> mr_has_items (fold row_update ?ms r)" for r
  proof (cases "\<exists>m \<in> set ?ms. ml_id m = mr_id r \<and> ml_state m = MAIL_STATE_CHANGED")
    case True
    then obtain m where m: "m \<in> set ?ms" "ml_id m = mr_id r" "ml_state m = MAIL_STATE_CHANGED" by blast
    have "ml_items m = []" using r(3) m by (simp add: save_row [OF sv m(1,2)] row_update_def HasItems_def)
    moreover obtain r' where "covered m st" by (rule save_rowE [OF sv m(1)])
    ultimately show ?thesis
      using save_attachments [OF m(1)] m by (auto simp: item_rows_Nil items)
  next
    case False
    have "fold row_update ?ms r = r"
    proof (cases "mr_id r \<in> ml_id ` set ?ms")
      case True
      then obtain m where m: "m \<in> set ?ms" "ml_id m = mr_id r" by auto
      thus ?thesis using False by (auto simp: save_row [OF sv m] row_update_def)
    qed (simp add: fold_row_update_miss)
    hence "item_rows (mr_id r) st = []" using r inv by (simp add: mail_inv_def marked_def)
    thus ?thesis using shrink by (auto simp: item_rows_Nil)
  qed
  thus ?thesis by (auto simp: marked_def rows dropped_def)
qed

lemma save_db_ok:
  assumes sv: "saving X p st"
  shows "db_ok (SaveMail p st)"
proof -
  have inv: "mail_inv X st" and load: "mb_loaded (ms_box st p)" using sv by (simp_all add: saving_def)
  let ?ms = "mb_mail (ms_box st p)"
  have "distinct (map mr_id (ms_mail st))" "\<forall>r \<in> set (ms_mail st). mr_id r < ms_mailid st"
    "\<forall>x \<in> set (ms_mailItems st). fst x < ms_mailid st"
    using inv by (simp_all add: mail_inv_def db_ok_def)
  thus ?thesis
    by (auto simp: db_ok_def SaveMail_loaded [OF load] upd_box_def save_mails_rows save_mails_sel save_mails_items
        distinct_map_filter comp_def)
qed

lemma mail_inv_SaveMail:
  assumes "saving X p st"
  shows "mail_inv {} (SaveMail p st)"
proof -
  have "mail_mirrors {} q (SaveMail p st)" for q
    using assms by (cases "q = p") (simp_all add: save_own save_others)
  thus ?thesis using assms by (simp add: mail_inv_def save_db_ok save_marked)
qed


section \<open>Changing one mail\<close>

lemma modify_first_ids: "(\<And>m. ml_id (f m) = ml_id m) \<Longrightarrow> map ml_id (modify_first i f ms) = map ml_id ms"
  by (induction ms) auto

lemma set_modify_first:
  "distinct (map ml_id ms) \<Longrightarrow> m \<in> set ms \<Longrightarrow> set (modify_first (ml_id m) f ms) = insert (f m) (set ms - {m})"
proof (induction ms)
  case (Cons a ms)
  show ?case
  proof (cases "a = m")
    case True
    thus ?thesis using Cons.prems by auto
  next
    case False
    hence "m \<in> set ms" "ml_id a \<noteq> ml_id m" using Cons.prems by (auto simp: image_iff)
    thus ?thesis using Cons False by auto
  qed
qed simp

lemma find_modify_first:
  "(\<And>m. ml_id (f m) = ml_id m) \<Longrightarrow> find (\<lambda>m. ml_id m = i) (modify_first i f ms) = map_option f (find (\<lambda>m. ml_id m = i) ms)"
  by (induction ms) auto

lemma mail_inv_distinct: "mail_inv X st \<Longrightarrow> distinct (map ml_id (mb_mail (ms_box st p)))"
proof -
  assume "mail_inv X st"
  hence "mail_mirrors X p st" by (simp add: mail_inv_def)
  thus ?thesis by (cases "mb_loaded (ms_box st p)") (simp_all add: mail_mirrors_def)
qed

lemma mail_inv_mirrored:
  assumes "mail_inv X st" "m \<in> set (mb_mail (ms_box st p))"
  shows "mirrored X p m st" "mb_loaded (ms_box st p)"
proof -
  have "mail_mirrors X p st" using assms(1) by (simp add: mail_inv_def)
  thus "mirrored X p m st" "mb_loaded (ms_box st p)" using assms(2) by (auto simp: mail_mirrors_def split: if_splits)
qed

lemma mail_inv_modify:
  assumes inv: "mail_inv X st" and g: "GetMail p i st = Some m" and ids: "\<And>m. ml_id (f m) = ml_id m"
    and h: "\<And>b. mb_mail (h b) = modify_first i f (mb_mail b)" "\<And>b. mb_loaded (h b) = mb_loaded b"
       "\<And>b. mb_updated b \<Longrightarrow> mb_updated (h b)"
    and X: "X \<subseteq> X'" and own: "mirrored X' p (f m) (upd_box p h st)"
  shows "mail_inv X' (upd_box p h st)"
proof -
  let ?st' = "upd_box p h st"
  note m = GetMail_Some [OF g]
  have load: "mb_loaded (ms_box st p)" by (rule GetMail_loaded [OF inv g])
  have [simp]: "ms_mail ?st' = ms_mail st" "ms_mailItems ?st' = ms_mailItems st" "ms_mailid ?st' = ms_mailid st"
    by (simp_all add: upd_box_def)
  have rows: "rows_of q ?st' = rows_of q st" "item_rows j ?st' = item_rows j st" for q j
    by (simp_all add: rows_of_def item_rows_def)
  have weak: "mirrored X' q m' ?st'" if "mirrored X q m' st" for q m'
  proof -
    have "mb_updated (ms_box st q) \<Longrightarrow> mb_updated (ms_box ?st' q)" using h(3) by (auto simp: upd_box_def)
    thus ?thesis using that X by (auto simp: mirrored_def rows covered_def)
  qed
  have "mail_mirrors X' q ?st'" for q
  proof (cases "q = p")
    case False
    have "mail_mirrors X q st" using inv by (simp add: mail_inv_def)
    thus ?thesis using False weak by (auto simp: mail_mirrors_def upd_box_def)
  next
    case True
    note d = mail_inv_distinct [OF inv, of p]
    have box: "mb_mail (ms_box ?st' p) = modify_first (ml_id m) f (mb_mail (ms_box st p))" "mb_loaded (ms_box ?st' p)"
      using load m(2) by (simp_all add: upd_box_def h)
    have "mirrored X' p m' ?st'" if "m' \<in> set (mb_mail (ms_box ?st' p))" for m'
      using that weak [of p] own mail_inv_mirrored(1) [OF inv]
      unfolding box set_modify_first [OF d m(1)] by auto
    moreover have "distinct (map ml_id (mb_mail (ms_box ?st' p)))"
      using d by (simp add: box modify_first_ids ids)
    ultimately show ?thesis using True box by (simp add: mail_mirrors_def)
  qed
  thus ?thesis using inv by (simp add: mail_inv_def db_ok_def marked_def rows)
qed

lemma GetMail_modify:
  assumes "GetMail p i st = Some m" "\<And>m. ml_id (f m) = ml_id m" "\<And>b. mb_mail (h b) = modify_first i f (mb_mail b)"
  shows "GetMail p i (upd_box p h st) = Some (f m)"
  using assms by (simp add: GetMail_def upd_box_def find_modify_first)

text \<open>A change of the checks or the state, which the next save writes.\<close>

lemma mail_inv_mark:
  assumes inv: "mail_inv X st" and g: "GetMail p i st = Some m"
    and f: "\<And>m. \<exists>c s. f m = m\<lparr>ml_checked := c, ml_state := s\<rparr> \<and> s \<noteq> MAIL_STATE_UNCHANGED"
    and h: "\<And>b. mb_mail (h b) = modify_first i f (mb_mail b)" "\<And>b. mb_loaded (h b) = mb_loaded b" "\<And>b. mb_updated (h b)"
  shows "mail_inv X (upd_box p h st)"
proof (rule mail_inv_modify [OF inv g _ h(1,2)])
  show "ml_id (f m) = ml_id m" for m using f [of m] by auto
  note m = GetMail_Some [OF g]
  obtain c s where fm: "f m = m\<lparr>ml_checked := c, ml_state := s\<rparr>" "s \<noteq> MAIL_STATE_UNCHANGED" using f [of m] by auto
  have "mirrored X p m st" by (rule mail_inv_mirrored [OF inv m(1)])
  thus "mirrored X p (f m) (upd_box p h st)"
    using fm(2) by (auto simp: mirrored_def fm(1) rows_of_def same_identity_def settled_def HasItems_def covered_def
        item_rows_def upd_box_def h(3))
qed (simp_all add: h)

section \<open>Taking a mail away\<close>

lemma set_remove_first: "distinct (map ml_id ms) \<Longrightarrow> set (remove_first i ms) = {m \<in> set ms. ml_id m \<noteq> i}"
proof (induction ms)
  case (Cons a ms)
  hence "ml_id m \<noteq> ml_id a" if "m \<in> set ms" for m using that by (force simp: image_iff)
  thus ?case using Cons by auto
qed simp

lemma distinct_remove_first: "distinct (map ml_id ms) \<Longrightarrow> distinct (map ml_id (remove_first i ms))"
  by (induction ms) (auto simp: set_remove_first)

text \<open>A row goes that no mailbox in memory shows any more.\<close>

lemma mail_inv_drop_row:
  assumes inv: "mail_inv X st"
    and unseen: "\<And>q m. m \<in> set (mb_mail (f (ms_box st) q)) \<Longrightarrow> ml_id m \<noteq> i"
    and f: "\<And>q. set (mb_mail (f (ms_box st) q)) \<subseteq> set (mb_mail (ms_box st q))"
       "\<And>q. distinct (map ml_id (mb_mail (f (ms_box st) q)))"
       "\<And>q. mb_loaded (f (ms_box st) q) = mb_loaded (ms_box st q)"
       "\<And>q. mb_updated (f (ms_box st) q) = mb_updated (ms_box st q)"
    and st': "ms_box st' = f (ms_box st)" "ms_mail st' = filter (\<lambda>r. mr_id r \<noteq> i) (ms_mail st)"
       "set (ms_mailItems st') \<subseteq> set (ms_mailItems st)" "ms_mailid st' = ms_mailid st"
  shows "mail_inv X st'"
proof -
  have ok: "db_ok st" "marked {} st" "\<And>p. mail_mirrors X p st" using inv by (simp_all add: mail_inv_def)
  note shrink = item_rows_shrink [OF st'(3)]
  have "mirrored X q m st'" if m: "m \<in> set (mb_mail (ms_box st' q))" for q m
  proof -
    have "m \<in> set (mb_mail (ms_box st q))" "ml_id m \<noteq> i" using m f(1) [of q] unseen [of m q] by (auto simp: st'(1))
    moreover from this have "mirrored X q m st" using mail_inv_mirrored [OF inv] by blast
    ultimately show ?thesis using shrink [of "ml_id m"] f(4) [of q]
      by (auto simp: mirrored_def rows_of_def st' same_identity_def covered_def)
  qed
  moreover have "mb_mail (ms_box st' q) = []" if "\<not> mb_loaded (ms_box st' q)" for q
    using that f(1,3) [of q] ok(3) [of q] by (simp add: mail_mirrors_def st'(1))
  ultimately have "mail_mirrors X q st'" for q using f(2) [of q] by (simp add: mail_mirrors_def st'(1))
  moreover have "marked {} st'" using ok(2) st'(3) by (auto simp: marked_def st'(2) item_rows_Nil)
  moreover have "db_ok st'" using ok(1) st'(3) by (auto simp: db_ok_def st'(2,4) distinct_map_filter)
  ultimately show ?thesis by (simp add: mail_inv_def)
qed


section \<open>Loading\<close>

text \<open>What loading leaves alone: everything but the mails of one box, while attachments may go.\<close>

definition load_frame :: "u32 \<Rightarrow> mst \<Rightarrow> mst \<Rightarrow> bool" where
  "load_frame p st st' \<longleftrightarrow>
     ms_mail st' = ms_mail st \<and> ms_mailid st' = ms_mailid st \<and> set (ms_mailItems st') \<subseteq> set (ms_mailItems st) \<and>
     (\<forall>q. q \<noteq> p \<longrightarrow> ms_box st' q = ms_box st q) \<and> mb_loaded (ms_box st' p) = mb_loaded (ms_box st p) \<and>
     mb_updated (ms_box st' p) = mb_updated (ms_box st p) \<and> mb_money (ms_box st' p) = mb_money (ms_box st p)"

lemma load_frame_refl: "load_frame p st st"
  by (simp add: load_frame_def)

lemma load_frame_trans: "load_frame p st s \<Longrightarrow> load_frame p s st' \<Longrightarrow> load_frame p st st'"
  by (auto simp: load_frame_def)

lemma LoadMailedItems_frame:
  "load_frame p st (LoadMailedItems e p gs st) \<and> mb_mail (ms_box (LoadMailedItems e p gs st) p) = mb_mail (ms_box st p)"
proof (induction e p gs st rule: LoadMailedItems.induct)
  case (2 e p g t rs st)
  define s where "s = (if \<not> me_proto e t then db_delete_instance g (db_delete_mailed_item g st)
     else case ms_instances st g of None \<Rightarrow> db_delete_instance g (db_delete_mailed_item g st) | Some it \<Rightarrow> AddMItem p it st)"
  have "load_frame p st s" "mb_mail (ms_box s p) = mb_mail (ms_box st p)"
    by (auto simp: s_def load_frame_def db_delete_instance_def db_delete_mailed_item_def AddMItem_def upd_box_def
        split: option.splits)
  moreover have "load_frame p s (LoadMailedItems e p rs s) \<and> mb_mail (ms_box (LoadMailedItems e p rs s) p) = mb_mail (ms_box s p)"
    unfolding s_def by (rule 2)
  ultimately show ?case by (simp add: s_def [symmetric]) (blast intro: load_frame_trans)
qed (simp add: load_frame_refl)

definition with_template :: "mail_env \<Rightarrow> mail_row \<Rightarrow> mail_row" where
  "with_template e r =
     (if mr_mailTemplateId r \<noteq> 0 \<and> \<not> me_template e (mr_mailTemplateId r) then r\<lparr>mr_mailTemplateId := 0\<rparr> else r)"

lemma with_template_sel [simp]:
  "mr_id (with_template e r) = mr_id r" "mr_has_items (with_template e r) = mr_has_items r"
  "mr_receiver (with_template e r) = mr_receiver r" "mr_money (with_template e r) = mr_money r"
  by (simp_all add: with_template_def)

text \<open>A mail read from its row.\<close>

definition read_from :: "mail_env \<Rightarrow> mst \<Rightarrow> mail_row \<Rightarrow> mail \<Rightarrow> bool" where
  "read_from e st r m \<longleftrightarrow>
     (\<exists>gs. m = mail_of_row (with_template e r) gs \<and>
           (if mr_has_items r then set (item_rows (mr_id r) st) \<subseteq> set gs else gs = []))"

lemma read_from_later: "read_from e st r m \<Longrightarrow> load_frame p st st' \<Longrightarrow> read_from e st' r m"
  using item_rows_shrink [of st' st "mr_id r"]
  by (fastforce simp: read_from_def load_frame_def split: if_splits)

lemma load_row_step:
  "load_frame p st (load_row e p r st) \<and>
   (\<exists>m. mb_mail (ms_box (load_row e p r st) p) = mb_mail (ms_box st p) @ [m] \<and> read_from e (load_row e p r st) r m)"
proof -
  define gs where "gs = (if mr_has_items r then item_rows (mr_id r) st else [])"
  define s where "s = (if mr_has_items r then LoadMailedItems e p gs st else st)"
  have s: "load_frame p st s" "mb_mail (ms_box s p) = mb_mail (ms_box st p)"
    using LoadMailedItems_frame [of p st e gs] by (simp_all add: s_def load_frame_refl)
  have row: "load_row e p r st = upd_box p (\<lambda>b. b\<lparr>mb_mail := mb_mail b @ [mail_of_row (with_template e r) gs]\<rparr>) s"
    unfolding load_row_def with_template_def [symmetric] Let_def s_def gs_def by simp
  have fr: "load_frame p st (load_row e p r st)" using s(1) by (simp add: row load_frame_def upd_box_def)
  moreover have "read_from e (load_row e p r st) r (mail_of_row (with_template e r) gs)"
    using fr item_rows_shrink [of "load_row e p r st" st "mr_id r"]
    by (auto simp: read_from_def gs_def load_frame_def)
  moreover have "mb_mail (ms_box (load_row e p r st) p) = mb_mail (ms_box st p) @ [mail_of_row (with_template e r) gs]"
    by (simp add: row upd_box_def s(2))
  ultimately show ?thesis by blast
qed

lemma load_rows:
  "load_frame p st (fold (load_row e p) rs st) \<and>
   (\<exists>new. mb_mail (ms_box (fold (load_row e p) rs st) p) = mb_mail (ms_box st p) @ new \<and>
          list_all2 (read_from e (fold (load_row e p) rs st)) rs new)"
proof (induction rs arbitrary: st)
  case Nil
  show ?case by (simp add: load_frame_refl)
next
  case (Cons r rs)
  let ?s = "load_row e p r st"
  obtain m where m: "load_frame p st ?s" "mb_mail (ms_box ?s p) = mb_mail (ms_box st p) @ [m]" "read_from e ?s r m"
    using load_row_step [of p st e r] by blast
  obtain new where new: "load_frame p ?s (fold (load_row e p) rs ?s)"
    "mb_mail (ms_box (fold (load_row e p) rs ?s) p) = mb_mail (ms_box ?s p) @ new"
    "list_all2 (read_from e (fold (load_row e p) rs ?s)) rs new"
    using Cons.IH [of ?s] by blast
  have "read_from e (fold (load_row e p) rs ?s) r m" by (rule read_from_later [OF m(3) new(1)])
  hence "list_all2 (read_from e (fold (load_row e p) rs ?s)) (r # rs) (m # new)" using new(3) by simp
  thus ?case using m new load_frame_trans [OF m(1) new(1)] by fastforce
qed

lemma set_newest_first [simp]: "set (newest_first rs) = set rs"
  by (simp add: newest_first_def)

lemma LoadMail_reads:
  obtains new where "mb_mail (ms_box (LoadMail e p st) p) = new" "mb_loaded (ms_box (LoadMail e p st) p)"
    "list_all2 (read_from e (LoadMail e p st)) (newest_first (rows_of p st)) new"
    "ms_mail (LoadMail e p st) = ms_mail st" "ms_mailid (LoadMail e p st) = ms_mailid st"
    "set (ms_mailItems (LoadMail e p st)) \<subseteq> set (ms_mailItems st)"
    "\<And>q. q \<noteq> p \<Longrightarrow> ms_box (LoadMail e p st) q = ms_box st q"
    "mb_money (ms_box (LoadMail e p st) p) = mb_money (ms_box st p)"
proof -
  let ?s = "upd_box p (\<lambda>b. b\<lparr>mb_mail := []\<rparr>) st"
  let ?t = "fold (load_row e p) (newest_first (rows_of p st)) ?s"
  have eq: "LoadMail e p st = upd_box p (\<lambda>b. b\<lparr>mb_loaded := True\<rparr>) ?t" by (simp add: LoadMail_def)
  obtain new where new: "load_frame p ?s ?t" "mb_mail (ms_box ?t p) = mb_mail (ms_box ?s p) @ new"
    "list_all2 (read_from e ?t) (newest_first (rows_of p st)) new"
    using load_rows [of p ?s e "newest_first (rows_of p st)"] by blast
  have "item_rows i (LoadMail e p st) = item_rows i ?t" for i by (simp add: eq upd_box_def item_rows_def)
  hence "read_from e (LoadMail e p st) = read_from e ?t" by (simp add: read_from_def fun_eq_iff)
  thus thesis using new by (intro that [of new]) (auto simp: eq upd_box_def load_frame_def)
qed

lemma mail_inv_LoadMail:
  assumes inv: "mail_inv X st" and not: "\<not> mb_loaded (ms_box st p)"
  shows "mail_inv X (LoadMail e p st)"
proof (rule LoadMail_reads [of e p st])
  fix new
  let ?st' = "LoadMail e p st"
  assume mails: "mb_mail (ms_box ?st' p) = new" "mb_loaded (ms_box ?st' p)"
    and reads: "list_all2 (read_from e ?st') (newest_first (rows_of p st)) new"
    and keep: "ms_mail ?st' = ms_mail st" "ms_mailid ?st' = ms_mailid st" "set (ms_mailItems ?st') \<subseteq> set (ms_mailItems st)"
    and box: "\<And>q. q \<noteq> p \<Longrightarrow> ms_box ?st' q = ms_box st q"
  have ok: "db_ok st" "marked {} st" "\<And>p. mail_mirrors X p st" using inv by (simp_all add: mail_inv_def)
  have "distinct (map mr_id (newest_first (rows_of p st)))"
    using ok(1) by (simp add: newest_first_def rows_of_def db_ok_def distinct_map inj_on_def)
  moreover have "map ml_id new = map mr_id (newest_first (rows_of p st))"
    using reads by (intro nth_equalityI) (auto simp: list_all2_conv_all_nth read_from_def)
  ultimately have d: "distinct (map ml_id new)" by simp
  have "mirrored X p m ?st'" if m: "m \<in> set new" for m
  proof -
    obtain k where k: "k < length new" "m = new ! k" using m by (metis in_set_conv_nth)
    define r where "r = newest_first (rows_of p st) ! k"
    have "r \<in> set (newest_first (rows_of p st))" "read_from e ?st' r m"
      using reads k nth_mem [of k "newest_first (rows_of p st)"] by (auto simp: list_all2_conv_all_nth r_def)
    hence r: "r \<in> set (rows_of p st)" "read_from e ?st' r m" by simp_all
    then obtain gs where gs: "m = mail_of_row (with_template e r) gs"
      "if mr_has_items r then set (item_rows (mr_id r) ?st') \<subseteq> set gs else gs = []" by (auto simp: read_from_def)
    have "r \<in> set (rows_of p ?st')" using r(1) by (simp add: rows_of_def keep)
    moreover have "same_identity m r" by (simp add: gs(1) same_identity_def mail_of_row_def with_template_def)
    moreover have "settled m r"
      using gs(2) by (auto simp: gs(1) settled_def mail_of_row_def with_template_def HasItems_def split: if_splits)
    moreover have "covered m ?st'"
    proof (cases "mr_has_items r")
      case True
      thus ?thesis using gs by (auto simp: covered_def)
    next
      case False
      hence "item_rows (mr_id r) st = []" using ok(2) r(1) by (simp add: marked_def rows_of_def)
      hence "item_rows (mr_id r) ?st' = []" using keep(3) by (auto simp: item_rows_Nil)
      thus ?thesis using gs by (simp add: covered_def)
    qed
    ultimately show ?thesis by (auto simp: mirrored_def gs(1))
  qed
  hence "mail_mirrors X p ?st'" using d by (simp add: mail_mirrors_def mails)
  moreover have "mail_mirrors X q ?st'" if "q \<noteq> p" for q
    by (rule mirrors_mono [OF ok(3)]) (simp_all add: box that keep item_rows_shrink)
  ultimately have "mail_mirrors X q ?st'" for q by (cases "q = p") auto
  moreover have "marked {} ?st'" using ok(2) keep(3) by (auto simp: marked_def keep(1) item_rows_Nil)
  moreover have "db_ok ?st'" using ok(1) keep(3) by (auto simp: db_ok_def keep(1,2))
  ultimately show ?thesis by (simp add: mail_inv_def)
qed

end
