(* ===== verification/MailRuns.thy ===== *)
theory MailRuns
  imports MailInv
begin

text \<open>
  The requests of the mail system keep its invariant, one lemma for each, and any sequence of them does.
\<close>

section \<open>Requests\<close>

lemmas mail_inv_frames [simp] =
  mcore_boxes(1-3) [THEN mail_inv_mcore] mcore_boxes(4-14) [THEN mail_inv_mcore] mcore_money [THEN mail_inv_mcore]
  mcore_folds [THEN mail_inv_mcore]

lemma running_mcore: "mcore st' = mcore st \<Longrightarrow> running st' = running st"
  using mcoreD(6) [of st' st] by (simp add: running_def)

lemma mail_inv_send_checked:
  assumes inv: "mail_inv X st" and run: "running st"
  shows "mail_inv X (send_checked e p rc s b its req money cod st)"
proof -
  let ?s = "SendMailResult p 0 MAIL_SEND MAIL_OK 0 0 0 st"
  obtain i st1 where st1: "(if b \<noteq> [] then CreateItemText b ?s else (0, ?s)) = (i, st1)" by (metis surj_pair)
  have core: "mcore st1 = mcore st"
  proof (cases "b = []")
    case True
    thus ?thesis using st1 by auto
  next
    case False
    hence "mcore st1 = mcore ?s" using st1 by (auto intro: mcore_texts)
    thus ?thesis by simp
  qed
  hence core: "mcore (fold (take_from_sender p) its (mail_ModifyMoney p (- req) st1)) = mcore st" by simp
  have "mail_inv X (fold (take_from_sender p) its (mail_ModifyMoney p (- req) st1))"
    using inv by (simp only: mail_inv_mcore [OF core])
  moreover have "running (fold (take_from_sender p) its (mail_ModifyMoney p (- req) st1))"
    using run by (simp only: running_mcore [OF core])
  ultimately show ?thesis
    unfolding send_checked_def Let_def st1 by (simp add: mail_inv_SendMailTo del: mail_inv_frames)
qed

lemma mail_inv_HandleSendMail:
  "mail_inv X st \<Longrightarrow> running st \<Longrightarrow> mail_inv X (HandleSendMail e p mbx n s b gs money cod st)"
  unfolding HandleSendMail_def Let_def
  by (simp add: mail_inv_send_checked split: sum.split prod.split)

lemma mail_inv_HandleMarkAsRead:
  assumes "mail_inv X st"
  shows "mail_inv X (HandleMarkAsRead e p mbx i st)"
proof (cases "GetMail p i st")
  case None
  thus ?thesis using assms by (simp add: HandleMarkAsRead_def)
next
  case (Some m)
  let ?f = "\<lambda>m. m\<lparr>ml_checked := ml_checked m OR MAIL_CHECK_MASK_READ, ml_state := MAIL_STATE_CHANGED\<rparr>"
  let ?g = "\<lambda>b. if mb_unread b \<noteq> 0 then b\<lparr>mb_unread := mb_unread b - 1\<rparr> else b"
  let ?h = "\<lambda>b. (?g b)\<lparr>mb_updated := True, mb_mail := modify_first i ?f (mb_mail (?g b))\<rparr>"
  have eq: "upd_mail p i ?f (mailsUpdated p (upd_box p ?g st)) = upd_box p ?h st"
    by (simp add: upd_mail_def mailsUpdated_def upd_box_def)
  have "mail_inv X (upd_box p ?h st)"
    by (rule mail_inv_mark [OF assms Some, where f = ?f]) auto
  thus ?thesis using assms Some unfolding HandleMarkAsRead_def by (simp only: eq option.case if_split) simp
qed

lemma mail_inv_updated:
  assumes inv: "mail_inv X st"
  shows "mail_inv X (mailsUpdated p st)"
proof -
  have same: "rows_of q (mailsUpdated p st) = rows_of q st" "item_rows i (mailsUpdated p st) = item_rows i st"
    "mb_mail (ms_box (mailsUpdated p st) q) = mb_mail (ms_box st q)"
    "mb_loaded (ms_box (mailsUpdated p st) q) = mb_loaded (ms_box st q)"
    "mb_updated (ms_box st q) \<Longrightarrow> mb_updated (ms_box (mailsUpdated p st) q)"
    "ms_mail (mailsUpdated p st) = ms_mail st" "ms_mailItems (mailsUpdated p st) = ms_mailItems st"
    "ms_mailid (mailsUpdated p st) = ms_mailid st" for q i
    by (simp_all add: mailsUpdated_def upd_box_def rows_of_def item_rows_def)
  have "mirrored X q m st \<Longrightarrow> mirrored X q m (mailsUpdated p st)" for q m
    using same(5) [of q] by (auto simp: mirrored_def covered_def same)
  hence "mail_mirrors X q (mailsUpdated p st)" for q
    using inv by (simp add: mail_inv_def mail_mirrors_def same)
  thus ?thesis using inv by (simp add: mail_inv_def db_ok_def marked_def same)
qed

lemma mail_inv_HandleMailDelete:
  assumes "mail_inv X st"
  shows "mail_inv X (HandleMailDelete e p mbx i st)"
proof (cases "GetMail p i (mailsUpdated p st)")
  case None
  thus ?thesis using assms by (simp add: HandleMailDelete_def Let_def mail_inv_updated)
next
  case (Some m)
  let ?f = "\<lambda>m. m\<lparr>ml_state := MAIL_STATE_DELETED\<rparr>"
  let ?h = "\<lambda>b. b\<lparr>mb_updated := True, mb_mail := modify_first i ?f (mb_mail b)\<rparr>"
  have eq: "upd_mail p i ?f (mailsUpdated p st) = upd_box p ?h st"
    by (simp add: upd_mail_def mailsUpdated_def upd_box_def)
  have g: "GetMail p i st = Some m" using Some by (simp add: GetMail_def mailsUpdated_def upd_box_def)
  have "\<exists>c s. ?f m = m\<lparr>ml_checked := c, ml_state := s\<rparr> \<and> s \<noteq> MAIL_STATE_UNCHANGED" for m
    by (rule exI [of _ "ml_checked m"]) (cases m, simp)
  hence "mail_inv X (upd_box p ?h st)" by (intro mail_inv_mark [OF assms g, where f = ?f]) auto
  thus ?thesis using assms Some by (simp add: HandleMailDelete_def Let_def mail_inv_updated eq)
qed

section \<open>Returning\<close>

lemma mail_inv_return_mail:
  assumes inv: "mail_inv X st" and run: "running st"
  shows "mail_inv X (return_mail e p m st)"
proof -
  let ?d = "if ml_mailTemplateId m \<noteq> 0 then template_draft (ml_mailTemplateId m) False else draft_of (ml_subject m) (ml_itemTextId m)"
  obtain d st1 where d: "(if HasItems m then collect_items p (ml_items m) ?d st else (?d, st)) = (d, st1)" by (metis surj_pair)
  have core: "mcore st1 = mcore st" using d by (auto dest: mcore_collect split: if_splits)
  have "mail_inv X st1" using inv by (simp only: mail_inv_mcore [OF core])
  moreover have "running st1" using run by (simp only: running_mcore [OF core])
  moreover have "running (fold Item_SaveToDB its s) = running s" for its s by (rule running_mcore) simp
  ultimately show ?thesis using inv d
    unfolding return_mail_def Let_def
    by (simp add: SendReturnToSender_def Let_def mail_inv_SendMailTo)
qed

lemma mail_inv_HandleReturnToSender:
  assumes inv: "mail_inv X st" and run: "running st"
  shows "mail_inv X (HandleReturnToSender e p mbx i st)"
proof (cases "GetMail p i st")
  case None
  thus ?thesis using inv by (simp add: HandleReturnToSender_def)
next
  case (Some m)
  define st1 where "st1 = RemoveMail p i (db_delete_mail_items i (db_delete_mail i st))"
  let ?f = "\<lambda>b. b(p := (b p)\<lparr>mb_mail := remove_first i (mb_mail (b p))\<rparr>)"
  note m = GetMail_Some [OF Some]
  note d = mail_inv_distinct [OF inv]
  have boxes: "mb_mail (?f (ms_box st) q) = (if q = p then remove_first i (mb_mail (ms_box st p)) else mb_mail (ms_box st q))" for q
    by simp
  have "mail_inv X st1"
  proof (rule mail_inv_drop_row [OF inv, where f = ?f and i = i])
    show "ml_id m' \<noteq> i" if "m' \<in> set (mb_mail (?f (ms_box st) q))" for q m'
    proof (cases "q = p")
      case True
      thus ?thesis using that by (simp add: set_remove_first [OF d])
    next
      case False
      hence "m' \<in> set (mb_mail (ms_box st q))" using that by simp
      thus ?thesis using one_owner [OF inv m(1)] m(2) False by blast
    qed
    show "set (mb_mail (?f (ms_box st) q)) \<subseteq> set (mb_mail (ms_box st q))" for q
      by (auto simp: set_remove_first [OF d])
    show "distinct (map ml_id (mb_mail (?f (ms_box st) q)))" for q
      using d by (simp add: distinct_remove_first)
  qed (auto simp: st1_def RemoveMail_def upd_box_def db_delete_mail_items_def db_delete_mail_def)
  moreover have "running st1"
    using run by (simp add: st1_def running_def RemoveMail_def upd_box_def db_delete_mail_items_def db_delete_mail_def)
  ultimately show ?thesis using inv Some
    by (simp add: HandleReturnToSender_def Let_def st1_def [symmetric] mail_inv_return_mail)
qed


section \<open>Taking\<close>

lemma set_erase_first: "x \<in> set xs \<Longrightarrow> fst x \<noteq> g \<Longrightarrow> x \<in> set (erase_first g xs)"
  by (induction xs) auto

lemma GetMail_mcore: "mcore st' = mcore st \<Longrightarrow> GetMail p i st' = GetMail p i st"
  using mcoreD(1) [of st' st p] by (simp add: GetMail_def)

lemma known_id:
  assumes "mail_inv X st" "m \<in> set (mb_mail (ms_box st p))"
  shows "ml_id m < ms_mailid st"
proof -
  obtain r where "r \<in> set (ms_mail st)" "mr_id r = ml_id m"
    using mail_inv_mirrored(1) [OF assms] by (auto simp: mirrored_def rows_of_def same_identity_def)
  thus ?thesis using assms(1) by (auto simp: mail_inv_def db_ok_def)
qed

lemma boxes_send_prepared:
  "mb_mail (ms_box (send_prepared e d r s ck delay st) p) =
     (if rcv_player r = Some p \<and> mb_loaded (ms_box st p)
      then mail_of_row (draft_row e d (rcv_low r) s ck delay (ms_mailid st))
             (map (\<lambda>it. (mi_low it, mi_entry it)) (map snd (md_items d))) # mb_mail (ms_box st p)
      else mb_mail (ms_box st p))"
proof -
  have items: "mb_mail (ms_box (fold (AddMItem q) its s) p) = mb_mail (ms_box s p)" for q its s
    by (rule mcoreD(1)) simp
  have add: "mb_mail (ms_box (AddNewMailDeliverTime e q t s) p) = mb_mail (ms_box s p)"
    "mb_loaded (ms_box (AddNewMailDeliverTime e q t s) p) = mb_loaded (ms_box s p)" for q t s p
    by (rule mcoreD, simp)+
  show ?thesis
    by (cases "rcv_player r") (auto simp: send_prepared_def Let_def deliver_online_def upd_box_def items add)
qed

lemma GetMail_SendMailTo:
  assumes inv: "mail_inv X st" and run: "running st" and g: "GetMail p i st = Some m"
  shows "GetMail p i (SendMailTo e d r s ck delay st) = Some m"
  using run
proof (cases rule: SendMailTo_cases [where e = e and d = d and r = r and s = s and ck = ck and delay = delay])
  case (1 st1)
  thus ?thesis using g by (simp add: 1(3) GetMail_mcore [OF 1(1)])
next
  case (2 st1 d1)
  have "ms_mailid st1 \<noteq> i" using known_id [OF inv GetMail_Some(1) [OF g]] GetMail_Some(2) [OF g] mcoreD(6) [OF 2(1)] by auto
  moreover have "GetMail p i st1 = Some m" using g by (simp add: GetMail_mcore [OF 2(1)])
  ultimately show ?thesis unfolding 2(2) GetMail_def boxes_send_prepared by simp
qed

lemma mail_inv_pay_COD:
  assumes "mail_inv X st" "running st"
  shows "mail_inv X (pay_COD e p m st)"
  using assms by (simp add: pay_COD_def Let_def mail_inv_SendMailTo)

lemma GetMail_pay_COD:
  assumes "mail_inv X st" "running st" "GetMail p i st = Some m"
  shows "GetMail p i (pay_COD e q m' st) = Some m"
  using assms by (auto simp: pay_COD_def Let_def GetMail_SendMailTo GetMail_mcore [OF mcore_money])

text \<open>Money or a payment of one mail is written with the next save.\<close>

lemma mail_inv_write:
  assumes inv: "mail_inv X s" "X \<subseteq> {i}" and g: "GetMail p i s = Some m"
    and f: "\<And>m. \<exists>c k. f m = m\<lparr>ml_COD := c, ml_money := k, ml_state := MAIL_STATE_CHANGED\<rparr>"
    and h: "\<And>b. mb_mail (h b) = modify_first i f (mb_mail b)" "\<And>b. mb_loaded (h b) = mb_loaded b" "\<And>b. mb_updated (h b)"
    and core: "mcore s' = mcore (upd_box p h s)"
  shows "saving {i} p s'"
proof -
  note m = GetMail_Some [OF g]
  have ids: "ml_id (f m) = ml_id m" for m using f [of m] by auto
  obtain c k where fm: "f m = m\<lparr>ml_COD := c, ml_money := k, ml_state := MAIL_STATE_CHANGED\<rparr>" using f [of m] by auto
  have "mirrored X p m s" by (rule mail_inv_mirrored [OF inv(1) m(1)])
  hence "mirrored {i} p (f m) (upd_box p h s)"
    using m(2) by (auto simp: mirrored_def fm rows_of_def same_identity_def covered_def item_rows_def upd_box_def h(3))
  hence u: "mail_inv {i} (upd_box p h s)"
    by (intro mail_inv_modify [OF inv(1) g ids]) (simp_all add: h inv(2))
  hence inv': "mail_inv {i} s'" by (simp only: mail_inv_mcore [OF core])
  have "GetMail p i (upd_box p h s) = Some (f m)" by (rule GetMail_modify [OF g ids h(1)])
  hence g': "GetMail p i s' = Some (f m)" by (simp only: GetMail_mcore [OF core])
  note fm' = GetMail_Some [OF g']
  have "mb_loaded (ms_box s' p)" by (rule GetMail_loaded [OF inv' g'])
  moreover have "ml_state m' = MAIL_STATE_CHANGED" if "m' \<in> set (mb_mail (ms_box s' p))" "ml_id m' = i" for m'
  proof -
    have "m' = f m" using that fm' mail_inv_distinct [OF inv', of p] by (metis distinct_map inj_onD)
    thus ?thesis by (simp add: fm)
  qed
  moreover have "ml_id m' \<noteq> i" if "q \<noteq> p" "m' \<in> set (mb_mail (ms_box s' q))" for q m'
    using one_owner [OF inv' that(2) fm'(1)] fm'(2) that(1) by auto
  ultimately show ?thesis using inv' by (auto simp: saving_def)
qed

lemma mail_inv_unlisted:
  assumes inv: "mail_inv {} st" and g: "GetMail p i st = Some m"
  shows "mail_inv {i} (upd_mail p i (\<lambda>m. (Mail_RemoveItem x m)\<lparr>ml_removedItems := ml_removedItems m @ [x]\<rparr>) st)"
    and "GetMail p i (upd_mail p i (\<lambda>m. (Mail_RemoveItem x m)\<lparr>ml_removedItems := ml_removedItems m @ [x]\<rparr>) st) =
           Some ((Mail_RemoveItem x m)\<lparr>ml_removedItems := ml_removedItems m @ [x]\<rparr>)"
proof -
  let ?f = "\<lambda>m. (Mail_RemoveItem x m)\<lparr>ml_removedItems := ml_removedItems m @ [x]\<rparr>"
  let ?h = "\<lambda>b. b\<lparr>mb_mail := modify_first i ?f (mb_mail b)\<rparr>"
  note m = GetMail_Some [OF g]
  have ids: "ml_id (?f m) = ml_id m" for m by (simp add: Mail_RemoveItem_def)
  have "mirrored {} p m st" by (rule mail_inv_mirrored [OF inv m(1)])
  hence "mirrored {i} p (?f m) (upd_box p ?h st)"
    using m(2) by (auto simp: mirrored_def rows_of_def same_identity_def covered_def item_rows_def upd_box_def
        Mail_RemoveItem_def dest: set_erase_first)
  thus "mail_inv {i} (upd_mail p i ?f st)"
    unfolding upd_mail_def by (intro mail_inv_modify [OF inv g ids]) simp_all
  show "GetMail p i (upd_mail p i ?f st) = Some (?f m)"
    unfolding upd_mail_def by (rule GetMail_modify [OF g ids]) simp
qed

text \<open>The state in which taking an item saves the mailbox.\<close>

definition before_save :: "mail_env \<Rightarrow> u32 \<Rightarrow> mail \<Rightarrow> u32 \<Rightarrow> mitem \<Rightarrow> store_dest \<Rightarrow> mst \<Rightarrow> mst" where
  "before_save e p m itemId it dest st =
     (let st = upd_mail p (ml_id m)
                 (\<lambda>m. (Mail_RemoveItem itemId m)\<lparr>ml_removedItems := ml_removedItems m @ [itemId]\<rparr>) st;
          st = pay_COD e p m st;
          st = upd_mail p (ml_id m) (\<lambda>m. m\<lparr>ml_COD := 0, ml_state := MAIL_STATE_CHANGED\<rparr>) st;
          st = RemoveMItem p (mi_low it) (mailsUpdated p st)
      in mail_MoveItemToInventory e p dest it st)"

lemma take_item_save:
  "take_mailed_item e p m itemId it dest st =
     SendMailResult p (ml_id m) MAIL_ITEM_TAKEN MAIL_OK 0 itemId (mi_count it) (SaveMail p (before_save e p m itemId it dest st))"
  by (simp add: take_mailed_item_def before_save_def Let_def)

lemma saving_take_item:
  assumes inv: "mail_inv {} st" and run: "running st" and g: "GetMail p (ml_id m) st = Some m"
  shows "saving {ml_id m} p (before_save e p m x it dest st)"
proof -
  let ?f = "\<lambda>m. (Mail_RemoveItem x m)\<lparr>ml_removedItems := ml_removedItems m @ [x]\<rparr>"
  define s1 where "s1 = upd_mail p (ml_id m) ?f st"
  define s2 where "s2 = pay_COD e p m s1"
  let ?f2 = "\<lambda>m. m\<lparr>ml_COD := 0, ml_state := MAIL_STATE_CHANGED\<rparr>"
  let ?h = "\<lambda>b. b\<lparr>mb_mail := modify_first (ml_id m) ?f2 (mb_mail b), mb_updated := True\<rparr>"
  have i1: "mail_inv {ml_id m} s1" "GetMail p (ml_id m) s1 = Some (?f m)"
    unfolding s1_def by (rule mail_inv_unlisted [OF inv g])+
  have r1: "running s1" using run by (simp add: s1_def running_def upd_mail_def upd_box_def)
  have i2: "mail_inv {ml_id m} s2" "GetMail p (ml_id m) s2 = Some (?f m)"
    unfolding s2_def by (rule mail_inv_pay_COD [OF i1(1) r1], rule GetMail_pay_COD [OF i1(1) r1 i1(2)])
  have "mailsUpdated p (upd_mail p (ml_id m) ?f2 s2) = upd_box p ?h s2"
    by (simp add: upd_mail_def mailsUpdated_def upd_box_def)
  hence eq: "mcore (before_save e p m x it dest st) = mcore (upd_box p ?h s2)"
    unfolding before_save_def s2_def [symmetric] s1_def [symmetric] Let_def by simp
  have fm: "\<exists>c k. ?f2 m = m\<lparr>ml_COD := c, ml_money := k, ml_state := MAIL_STATE_CHANGED\<rparr>" for m
    by (rule exI [of _ 0], rule exI [of _ "ml_money m"]) (cases m, simp)
  show ?thesis by (rule mail_inv_write [OF i2(1) _ i2(2) fm _ _ _ eq]) auto
qed

lemma mail_inv_take_item:
  assumes "mail_inv {} st" "running st" "GetMail p (ml_id m) st = Some m"
  shows "mail_inv {} (take_mailed_item e p m x it dest st)"
  using mail_inv_SaveMail [OF saving_take_item [OF assms]] by (simp add: take_item_save)

lemma mail_inv_HandleTakeItem:
  assumes "mail_inv {} st" "running st"
  shows "mail_inv {} (HandleTakeItem e p mbx i g st)"
proof (cases "GetMail p i st")
  case (Some m)
  hence "GetMail p (ml_id m) st = Some m" using GetMail_Some(2) [OF Some] by simp
  thus ?thesis using assms Some
    by (auto simp: HandleTakeItem_def mail_inv_take_item split: option.splits prod.splits)
qed (simp add: HandleTakeItem_def assms)

text \<open>The state in which taking the money of a mail saves the mailbox.\<close>

definition before_money_save :: "u32 \<Rightarrow> mail \<Rightarrow> mst \<Rightarrow> mst" where
  "before_money_save p m st =
     (let st = SendMailResult p (ml_id m) MAIL_MONEY_TAKEN MAIL_OK 0 0 0 st;
          st = mail_ModifyMoney p (ml_money m) st;
          st = upd_mail p (ml_id m) (\<lambda>m. m\<lparr>ml_money := 0, ml_state := MAIL_STATE_CHANGED\<rparr>) st
      in mailsUpdated p st)"

lemma saving_take_money:
  assumes inv: "mail_inv {} st" and g: "GetMail p (ml_id m) st = Some m"
  shows "saving {ml_id m} p (before_money_save p m st)"
proof -
  let ?f = "\<lambda>m. m\<lparr>ml_money := 0, ml_state := MAIL_STATE_CHANGED\<rparr>"
  let ?h = "\<lambda>b. b\<lparr>mb_mail := modify_first (ml_id m) ?f (mb_mail b), mb_updated := True\<rparr>"
  define s where "s = mail_ModifyMoney p (ml_money m) (SendMailResult p (ml_id m) MAIL_MONEY_TAKEN MAIL_OK 0 0 0 st)"
  have core: "mcore s = mcore st" by (simp add: s_def)
  have s: "mail_inv {} s" "GetMail p (ml_id m) s = Some m"
    using inv g by (simp_all add: mail_inv_mcore [OF core] GetMail_mcore [OF core])
  have eq: "mcore (before_money_save p m st) = mcore (upd_box p ?h s)"
    by (simp add: before_money_save_def s_def [symmetric] Let_def upd_mail_def mailsUpdated_def upd_box_def)
  have fm: "\<exists>c k. ?f m = m\<lparr>ml_COD := c, ml_money := k, ml_state := MAIL_STATE_CHANGED\<rparr>" for m
    by (rule exI [of _ "ml_COD m"], rule exI [of _ 0]) (cases m, simp)
  show ?thesis by (rule mail_inv_write [OF s(1) _ s(2) fm _ _ _ eq]) auto
qed

lemma HandleTakeMoney_save:
  assumes "me_mailbox e p mbx" "GetMail p i st = Some m" "usable e m"
  shows "HandleTakeMoney e p mbx i st = SaveMail p (before_money_save p m st)"
  using assms GetMail_Some(2) [OF assms(2)] by (simp add: HandleTakeMoney_def before_money_save_def Let_def)

lemma mail_inv_HandleTakeMoney:
  assumes "mail_inv {} st"
  shows "mail_inv {} (HandleTakeMoney e p mbx i st)"
proof (cases "me_mailbox e p mbx \<and> (\<exists>m. GetMail p i st = Some m \<and> usable e m)")
  case True
  then obtain m where m: "GetMail p i st = Some m" "usable e m" by blast
  hence "GetMail p (ml_id m) st = Some m" using GetMail_Some(2) [OF m(1)] by simp
  thus ?thesis using True m mail_inv_SaveMail [OF saving_take_money [OF assms]] by (simp add: HandleTakeMoney_save)
next
  case False
  thus ?thesis using assms by (auto simp: HandleTakeMoney_def split: option.splits)
qed


section \<open>Listing, leaving and housekeeping\<close>

lemma mail_inv_HandleGetMail: "mail_inv X st \<Longrightarrow> mail_inv X (HandleGetMail e p mbx st)"
  by (simp add: HandleGetMail_def Let_def mail_inv_LoadMail)

lemma mail_inv_HandleMsgQueryNextMailtime: "mail_inv X st \<Longrightarrow> mail_inv X (HandleMsgQueryNextMailtime e p st)"
  by (simp add: HandleMsgQueryNextMailtime_def Let_def mail_inv_LoadMail)

lemma mail_inv_HandleItemTextQuery: "mail_inv X st \<Longrightarrow> mail_inv X (HandleItemTextQuery p i st)"
  by (simp add: HandleItemTextQuery_def)

lemma mail_inv_HandleMailCreateTextItem:
  assumes "mail_inv X st"
  shows "mail_inv X (HandleMailCreateTextItem e p mbx i st)"
proof (cases "GetMail p i st")
  case None
  thus ?thesis using assms by (simp add: HandleMailCreateTextItem_def)
next
  case (Some m)
  let ?f = "\<lambda>m. m\<lparr>ml_checked := ml_checked m OR MAIL_CHECK_MASK_COPIED, ml_state := MAIL_STATE_CHANGED\<rparr>"
  let ?h = "\<lambda>b. b\<lparr>mb_mail := modify_first i ?f (mb_mail b), mb_updated := True\<rparr>"
  have eq: "mailsUpdated p (upd_mail p i ?f st) = upd_box p ?h st"
    by (simp add: upd_mail_def mailsUpdated_def upd_box_def)
  have "mail_inv X (upd_box p ?h st)" by (rule mail_inv_mark [OF assms Some, where f = ?f]) auto
  thus ?thesis using assms Some
    by (auto simp: HandleMailCreateTextItem_def Let_def eq split: option.splits prod.splits)
qed

lemma mail_inv_logout:
  assumes inv: "mail_inv {} st"
  shows "mail_inv {} (mail_logout p st)"
proof -
  define s where "s = (if mb_updated (ms_box st p) then SaveMail p st else st)"
  have s: "mail_inv {} s"
  proof (cases "mb_updated (ms_box st p) \<and> mb_loaded (ms_box st p)")
    case True
    hence "saving {} p st" using inv by (simp add: saving_def)
    thus ?thesis using True mail_inv_SaveMail by (simp add: s_def)
  next
    case False
    thus ?thesis using inv by (auto simp: s_def SaveMail_def)
  qed
  let ?f = "\<lambda>b. b\<lparr>mb_mail := [], mb_items := (\<lambda>_. None), mb_loaded := False, mb_updated := False, mb_unread := 0, mb_next := 0\<rparr>"
  have eq: "mail_logout p st = upd_box p ?f s" by (simp add: mail_logout_def Let_def s_def)
  have same: "ms_mail (upd_box p ?f s) = ms_mail s" "ms_mailItems (upd_box p ?f s) = ms_mailItems s"
    "ms_mailid (upd_box p ?f s) = ms_mailid s" "item_rows i (upd_box p ?f s) = item_rows i s" for i
    by (simp_all add: upd_box_def item_rows_def)
  have "mail_mirrors {} q (upd_box p ?f s)" for q
  proof (cases "q = p")
    case True
    thus ?thesis by (simp add: mail_mirrors_def upd_box_def)
  next
    case False
    have "mail_mirrors {} q s" using s by (simp add: mail_inv_def)
    moreover have "ms_box (upd_box p ?f s) q = ms_box s q" using False by (simp add: upd_box_def)
    ultimately show ?thesis by (rule mirrors_mono) (simp_all add: same)
  qed
  thus ?thesis using s by (simp add: eq mail_inv_def db_ok_def marked_def same)
qed

text \<open>A row that no mailbox in memory shows may be rewritten under its id.\<close>

lemma mail_inv_rewrite_row:
  assumes inv: "mail_inv X st" and unseen: "\<And>q m. m \<in> set (mb_mail (ms_box st q)) \<Longrightarrow> ml_id m \<noteq> i"
    and f: "\<And>r. mr_id (f r) = mr_id r" "\<And>r. mr_has_items (f r) = mr_has_items r"
  shows "mail_inv X (db_update_mail i f st)"
proof -
  let ?st' = "db_update_mail i f st"
  have same: "ms_box ?st' = ms_box st" "ms_mailid ?st' = ms_mailid st" "ms_mailItems ?st' = ms_mailItems st"
    "item_rows j ?st' = item_rows j st" and rows: "ms_mail ?st' = map (\<lambda>r. if mr_id r = i then f r else r) (ms_mail st)" for j
    by (simp_all add: db_update_mail_def item_rows_def)
  have ok: "db_ok st" "marked {} st" "\<And>p. mail_mirrors X p st" using inv by (simp_all add: mail_inv_def)
  have "mail_mirrors X q ?st'" for q
  proof (rule mirrors_mono [OF ok(3)])
    show "r \<in> set (ms_mail ?st')" if "r \<in> set (ms_mail st)" "mr_id r \<in> ml_id ` set (mb_mail (ms_box st q))" for r
      using that unseen [of _ q] by (force simp: rows)
  qed (simp_all add: same)
  moreover have "map mr_id (ms_mail ?st') = map mr_id (ms_mail st)" by (simp add: rows f)
  moreover have "\<forall>r \<in> set (ms_mail ?st'). \<exists>q \<in> set (ms_mail st). mr_id r = mr_id q \<and> mr_has_items r = mr_has_items q"
    by (auto simp: rows f)
  ultimately show ?thesis using ok(1,2) unfolding mail_inv_def db_ok_def marked_def same by fastforce
qed

definition mail_timely :: "mail_env \<Rightarrow> bool \<Rightarrow> mst \<Rightarrow> bool" where
  "mail_timely e serverUp st \<longleftrightarrow> (\<forall>p. mb_loaded (ms_box st p) \<longrightarrow> serverUp \<and> mail_online e p \<noteq> None)"

lemma old_mail_keeps:
  "ms_box (old_mail e up r st) = ms_box st"
  "q \<in> set (ms_mail st) \<Longrightarrow> mr_id q \<noteq> mr_id r \<Longrightarrow> q \<in> set (ms_mail (old_mail e up r st))"
  by (force simp: old_mail_def db_delete_mail_def db_update_mail_def)+

lemma mail_inv_old_mail:
  assumes inv: "mail_inv X st" and time: "mail_timely e up st" and r: "r \<in> set (ms_mail st)"
  shows "mail_inv X (old_mail e up r st)"
proof (cases "mb_loaded (ms_box st (mr_receiver r))")
  case True
  thus ?thesis using time inv by (auto simp: mail_timely_def old_mail_def)
next
  case False
  have unseen: "ml_id m \<noteq> mr_id r" if m: "m \<in> set (mb_mail (ms_box st q))" for m q
    using mail_owner [OF inv m r] mail_inv_mirrored(2) [OF inv m] False by auto
  have drop: "mail_inv X (db_delete_mail (mr_id r) st')"
    if "mail_inv X st'" "ms_box st' = ms_box st" for st'
    by (rule mail_inv_drop_row [OF that(1), where f = "\<lambda>b. b" and i = "mr_id r"])
      (simp_all add: that(2) unseen mail_inv_distinct [OF inv], simp_all add: db_delete_mail_def that(2))
  have upd: "mail_inv X (db_update_mail (mr_id r) (\<lambda>q. q\<lparr>mr_sender := mr_receiver r, mr_receiver := mr_sender r,
       mr_expire_time := a, mr_deliver_time := b, mr_cod := 0, mr_checked := c\<rparr>) st)" for a b c
    by (rule mail_inv_rewrite_row [OF inv unseen]) simp_all
  show ?thesis using inv drop [of st] drop [of "delete_instances (map fst (item_rows (mr_id r) st)) st"] upd
    by (simp add: old_mail_def)
qed

lemma mail_inv_old_mails:
  "mail_inv X st \<Longrightarrow> mail_timely e up st \<Longrightarrow> distinct (map mr_id rs) \<Longrightarrow> set rs \<subseteq> set (ms_mail st) \<Longrightarrow>
   mail_inv X (fold (old_mail e up) rs st)"
proof (induction rs arbitrary: st)
  case (Cons r rs)
  have "mail_inv X (old_mail e up r st)" using Cons.prems by (simp add: mail_inv_old_mail)
  moreover have "mail_timely e up (old_mail e up r st)" using Cons.prems by (simp add: mail_timely_def old_mail_keeps)
  moreover have "set rs \<subseteq> set (ms_mail (old_mail e up r st))"
    using Cons.prems by (auto intro!: old_mail_keeps(2)) (metis image_eqI)
  ultimately show ?case using Cons by simp
qed simp

lemma mail_inv_ReturnOrDeleteOldMails:
  assumes inv: "mail_inv X st" and time: "mail_timely e up st"
  shows "mail_inv X (ReturnOrDeleteOldMails e up st)"
proof -
  define s where "s = (if \<not> up
    then st\<lparr>ms_mail := filter (\<lambda>r. \<not> (mr_expire_time r < me_time e \<and> \<not> mr_has_items r \<and> mr_itemTextId r = 0)) (ms_mail st)\<rparr>
    else st)"
  have same: "ms_box s = ms_box st" "ms_mailItems s = ms_mailItems st" "ms_mailid s = ms_mailid st"
    "item_rows i s = item_rows i st" "set (ms_mail s) \<subseteq> set (ms_mail st)" for i
    by (auto simp: s_def item_rows_def)
  have ok: "db_ok st" "marked {} st" "\<And>p. mail_mirrors X p st" using inv by (simp_all add: mail_inv_def)
  have "mail_mirrors X q s" for q
  proof (cases up)
    case True
    thus ?thesis using ok(3) by (simp add: s_def)
  next
    case False
    thus ?thesis using time ok(3) [of q] by (simp add: mail_timely_def mail_mirrors_def same)
  qed
  moreover have "distinct (map mr_id (ms_mail s))" using ok(1) by (simp add: s_def db_ok_def distinct_map_filter)
  ultimately have inv': "mail_inv X s"
    using ok(1,2) subsetD [OF same(5)] by (auto simp: mail_inv_def db_ok_def marked_def same(1-4))
  have "distinct (map mr_id (filter (\<lambda>r. mr_expire_time r < me_time e) (ms_mail s)))"
    using inv' by (simp add: mail_inv_def db_ok_def distinct_map_filter)
  moreover have "mail_timely e up s" using time by (simp add: mail_timely_def same)
  ultimately show ?thesis
    unfolding ReturnOrDeleteOldMails_def s_def [symmetric] Let_def by (intro mail_inv_old_mails [OF inv']) auto
qed

lemma mail_inv_external:
  assumes inv: "mail_inv X st" and run: "running st" and x: "send_external_mail e x st = Some (b, st')"
  shows "mail_inv X st'"
proof -
  obtain i st1 where st1: "(if xm_message x \<noteq> [] then CreateItemText (xm_message x) st else (0, st)) = (i, st1)"
    by (metis surj_pair)
  have core: "mcore st1 = mcore st" using st1 by (auto intro: mcore_texts split: if_splits)
  have "mail_inv X st1" using inv by (simp only: mail_inv_mcore [OF core])
  moreover have "running st1" using run by (simp only: running_mcore [OF core])
  moreover have "running (Item_SaveToDB it st1) = running st1" for it by (rule running_mcore) simp
  moreover have "addressed \<lparr>rcv_player = Some low, rcv_low = low\<rparr>" for low by (simp add: addressed_def)
  ultimately show ?thesis using inv x unfolding send_external_mail_def Let_def st1
    by (auto simp: mail_inv_SendMailTo split: option.splits if_splits)
qed

section \<open>Any sequence of requests\<close>

datatype mail_op =
    OpSend u32 u64 string string string "u64 list" u32 u32
  | OpMarkAsRead u32 u64 u32
  | OpDelete u32 u64 u32
  | OpReturn u32 u64 u32
  | OpTakeItem u32 u64 u32 u32
  | OpTakeMoney u32 u64 u32
  | OpGetMail u32 u64
  | OpItemText u32 u32
  | OpCreateText u32 u64 u32
  | OpNextMailTime u32
  | OpOldMails bool
  | OpExternal external_mail
  | OpAnnounce u32
  | OpLogin u32
  | OpLogout u32

fun mail_exec :: "mail_env \<Rightarrow> mail_op \<Rightarrow> mst \<Rightarrow> mst option" where
  "mail_exec e (OpSend p mbx n s b gs money cod) st = Some (HandleSendMail e p mbx n s b gs money cod st)"
| "mail_exec e (OpMarkAsRead p mbx i) st = Some (HandleMarkAsRead e p mbx i st)"
| "mail_exec e (OpDelete p mbx i) st = Some (HandleMailDelete e p mbx i st)"
| "mail_exec e (OpReturn p mbx i) st = Some (HandleReturnToSender e p mbx i st)"
| "mail_exec e (OpTakeItem p mbx i g) st = Some (HandleTakeItem e p mbx i g st)"
| "mail_exec e (OpTakeMoney p mbx i) st = Some (HandleTakeMoney e p mbx i st)"
| "mail_exec e (OpGetMail p mbx) st = Some (HandleGetMail e p mbx st)"
| "mail_exec e (OpItemText p i) st = Some (HandleItemTextQuery p i st)"
| "mail_exec e (OpCreateText p mbx i) st = Some (HandleMailCreateTextItem e p mbx i st)"
| "mail_exec e (OpNextMailTime p) st = Some (HandleMsgQueryNextMailtime e p st)"
| "mail_exec e (OpOldMails up) st = Some (ReturnOrDeleteOldMails e up st)"
| "mail_exec e (OpExternal x) st = map_option snd (send_external_mail e x st)"
| "mail_exec e (OpAnnounce p) st = Some (Update_mail e p st)"
| "mail_exec e (OpLogin p) st = Some (LoadMailInit e p st)"
| "mail_exec e (OpLogout p) st = Some (mail_logout p st)"

text \<open>
  A run of the server: it goes on while mail ids are left, and the old mail is looked for when every
  character whose mail is in memory is in the world (at the start nobody's is).
\<close>

inductive mail_run :: "mst \<Rightarrow> mst \<Rightarrow> bool" where
  start: "mail_run st st"
| step: "mail_run st s \<Longrightarrow> running s \<Longrightarrow> (\<And>up. op = OpOldMails up \<Longrightarrow> mail_timely e up s) \<Longrightarrow>
         mail_exec e op s = Some s' \<Longrightarrow> mail_run st s'"

lemma mail_inv_exec:
  assumes "mail_inv {} st" "running st" "\<And>up. op = OpOldMails up \<Longrightarrow> mail_timely e up st" "mail_exec e op st = Some st'"
  shows "mail_inv {} st'"
proof (cases op)
  case (OpExternal x)
  thus ?thesis using assms(4) mail_inv_external [OF assms(1,2)] by auto
next
  case (OpOldMails up)
  thus ?thesis using assms(4) mail_inv_ReturnOrDeleteOldMails [OF assms(1) assms(3)] by auto
qed (use assms in \<open>auto simp: mail_inv_HandleSendMail mail_inv_HandleMarkAsRead mail_inv_HandleMailDelete
    mail_inv_HandleReturnToSender mail_inv_HandleTakeItem mail_inv_HandleTakeMoney mail_inv_HandleGetMail
    mail_inv_HandleItemTextQuery mail_inv_HandleMailCreateTextItem mail_inv_HandleMsgQueryNextMailtime mail_inv_logout\<close>)

lemma mail_run_inv: "mail_run st st' \<Longrightarrow> mail_inv {} st \<Longrightarrow> mail_inv {} st'"
  by (induction rule: mail_run.induct) (blast intro: mail_inv_exec)+

end
