(* ===== verification/MailMoney.thy ===== *)
theory MailMoney
  imports MailRuns
begin

text \<open>
  The money in purses and in mails: what each request of the mail system moves, and that none creates any.
\<close>

section \<open>Money\<close>

definition mail_wealth :: "mst \<Rightarrow> nat" where
  "mail_wealth st = (\<Sum>p \<in> UNIV. unat (mb_money (ms_box st p))) + (\<Sum>r \<leftarrow> ms_mail st. unat (mr_money r))"

definition purses_ok :: "mst \<Rightarrow> bool" where
  "purses_ok st \<longleftrightarrow>
     (\<forall>p. mb_money (ms_box st p) \<le> MAX_MONEY_AMOUNT) \<and> (\<forall>r \<in> set (ms_mail st). mr_money r \<le> MAX_MONEY_AMOUNT)"

definition cash :: "mst \<Rightarrow> (u32 \<Rightarrow> u32) \<times> u32 list" where
  "cash st = (\<lambda>p. mb_money (ms_box st p), map mr_money (ms_mail st))"

lemma cash_wealth: "cash st' = cash st \<Longrightarrow> mail_wealth st' = mail_wealth st \<and> purses_ok st' = purses_ok st"
proof -
  assume c: "cash st' = cash st"
  hence p: "mb_money (ms_box st' p) = mb_money (ms_box st p)" for p by (simp add: cash_def fun_eq_iff)
  have m: "map mr_money (ms_mail st') = map mr_money (ms_mail st)" using c by (simp add: cash_def)
  hence "sum_list (map unat (map mr_money (ms_mail st'))) = sum_list (map unat (map mr_money (ms_mail st)))" by (simp only:)
  moreover have "mr_money ` set (ms_mail st') = mr_money ` set (ms_mail st)" using m by (metis list.set_map)
  hence "(\<forall>r \<in> set (ms_mail st'). mr_money r \<le> MAX_MONEY_AMOUNT) \<longleftrightarrow> (\<forall>r \<in> set (ms_mail st). mr_money r \<le> MAX_MONEY_AMOUNT)"
    by (metis (no_types, opaque_lifting) image_iff)
  ultimately show ?thesis by (simp add: mail_wealth_def purses_ok_def p comp_def)
qed

text \<open>What moves neither purses nor mailed money.\<close>

lemma cash_box: "(\<And>b. mb_money (f b) = mb_money b) \<Longrightarrow> cash (upd_box p f st) = cash st"
  by (auto simp: cash_def upd_box_def fun_eq_iff)

lemma cash_same [simp]:
  "cash (m_emit es st) = cash st" "cash (SendMailResult p i a b c d f st) = cash st"
  "cash (AddNewMailDeliverTime e p t st) = cash st" "cash (Update_mail e p st) = cash st"
  "cash (UpdateNextMailTimeAndUnreads e p st) = cash st" "cash (LoadMailInit e p st) = cash st"
  "cash (AddMItem p it st) = cash st" "cash (RemoveMItem p g st) = cash st" "cash (mailsUpdated p st) = cash st"
  "cash (upd_mail p i h st) = cash st" "cash (RemoveMail p i st) = cash st"
  "cash (take_from_sender p it st) = cash st" "cash (mail_MoveItemToInventory e p ds it st) = cash st"
  "cash (Item_SaveToDB it st) = cash st" "cash (db_delete_instance g st) = cash st"
  "cash (db_delete_mail_items i st) = cash st" "cash (db_delete_mailed_item g st) = cash st"
  by (auto simp: cash_def m_emit_def SendMailResult_def SendNewMail_def AddNewMailDeliverTime_def Update_mail_def
      UpdateNextMailTimeAndUnreads_def LoadMailInit_def AddMItem_def RemoveMItem_def mailsUpdated_def upd_mail_def
      RemoveMail_def take_from_sender_def mail_MoveItemFromInventory_def mail_MoveItemToInventory_def Item_SaveToDB_def
      db_delete_instance_def db_delete_mail_items_def db_delete_mailed_item_def upd_box_def Let_def fun_eq_iff
      split: prod.split)

lemma cash_fold: "(\<And>x st. cash (f x st) = cash st) \<Longrightarrow> cash (fold f xs st) = cash st"
  by (induction xs arbitrary: st) simp_all

lemma cash_folds [simp]:
  "cash (delete_instances gs st) = cash st" "cash (fold (AddMItem p) its st) = cash st"
  "cash (fold Item_SaveToDB its st) = cash st" "cash (fold (take_from_sender p) its st) = cash st"
  by (simp_all add: delete_instances_def cash_fold)

lemma cash_texts: "CreateItemText t st = (i, st') \<Longrightarrow> cash st' = cash st"
  by (auto simp: CreateItemText_def GenerateItemTextID_def m_emit_def cash_def Let_def split: if_splits prod.splits)

lemma cash_template_items: "add_template_items its d st = (d', st') \<Longrightarrow> cash st' = cash st"
  by (induction its d st rule: add_template_items.induct) (auto split: if_splits)

lemma cash_prepareItems: "prepareItems e q d st = (d', st') \<Longrightarrow> cash st' = cash st"
  by (auto simp: prepareItems_def dest: cash_template_items split: if_splits)

lemma cash_collect: "collect_items p gs d st = (d', st') \<Longrightarrow> cash st' = cash st"
proof (induction p gs d st rule: collect_items.induct)
  case (2 p g t rest d st)
  thus ?case by (simp add: Let_def split: option.splits)
qed simp

lemma cash_LoadMail: "cash (LoadMail e p st) = cash st"
proof (rule LoadMail_reads [of e p st])
  assume "ms_mail (LoadMail e p st) = ms_mail st" "\<And>q. q \<noteq> p \<Longrightarrow> ms_box (LoadMail e p st) q = ms_box st q"
    "mb_money (ms_box (LoadMail e p st) p) = mb_money (ms_box st p)"
  moreover from this have "mb_money (ms_box (LoadMail e p st) q) = mb_money (ms_box st q)" for q
    by (cases "q = p") simp_all
  ultimately show ?thesis by (simp add: cash_def)
qed

text \<open>A payment and a receipt.\<close>

lemma purse_moves:
  "mail_wealth (mail_ModifyMoney p d st) + unat (mb_money (ms_box st p)) =
   mail_wealth st + unat (money_after (mb_money (ms_box st p)) d)"
proof -
  let ?f = "\<lambda>st p. unat (mb_money (ms_box st p))"
  let ?s = "mail_ModifyMoney p d st"
  have box: "?f ?s q = (if q = p then unat (money_after (mb_money (ms_box st p)) d) else ?f st q)" for q
    by (simp add: mail_ModifyMoney_def Let_def m_emit_def upd_box_def)
  have mail: "ms_mail ?s = ms_mail st" by (simp add: mail_ModifyMoney_def Let_def m_emit_def upd_box_def)
  have "(\<Sum>q \<in> UNIV. ?f ?s q) = ?f ?s p + (\<Sum>q \<in> UNIV - {p}. ?f ?s q)" by (rule sum.remove) simp_all
  moreover have "(\<Sum>q \<in> UNIV. ?f st q) = ?f st p + (\<Sum>q \<in> UNIV - {p}. ?f st q)" by (rule sum.remove) simp_all
  moreover have "(\<Sum>q \<in> UNIV - {p}. ?f ?s q) = (\<Sum>q \<in> UNIV - {p}. ?f st q)" by (rule sum.cong) (simp_all add: box)
  ultimately show ?thesis by (simp add: mail_wealth_def mail box)
qed

lemma money_after_max:
  assumes m: "m \<le> MAX_MONEY_AMOUNT" and d: "d \<noteq> 0x7FFFFFFF"
  shows "money_after m d \<le> MAX_MONEY_AMOUNT"
proof (cases "sint d < 0")
  case True
  hence b: "0x80000000 \<le> unat d" by (simp add: sint_neg_iff)
  have "unat (money_after m d) \<le> unat m" using money_after_get(3) [OF m b] by simp
  thus ?thesis using m by (simp add: word_le_nat_alt)
next
  case False
  have n: "unat d < 0x80000000" using False by (simp add: sint_neg_iff)
  have "unat d \<noteq> 0x7FFFFFFF" using d by (auto simp: word_unat_eq_iff)
  hence l: "unat d \<le> 2147483646" using n by simp
  have max: "unat (MAX_MONEY_AMOUNT - d) = 2147483646 - unat d" using l by (simp add: unat_sub_if')
  have "m + d \<le> MAX_MONEY_AMOUNT" if "m < MAX_MONEY_AMOUNT - d"
  proof -
    have "unat m < 2147483646 - unat d" using that unfolding word_less_nat_alt max .
    hence "unat m + unat d < 2147483646" by (simp only: less_diff_conv)
    hence "unat (m + d) \<le> 2147483646" by (simp add: unat_plus_if')
    thus ?thesis by (simp add: word_le_nat_alt)
  qed
  thus ?thesis using False by (auto simp: money_after_def)
qed

lemma purses_ModifyMoney: "purses_ok st \<Longrightarrow> d \<noteq> 0x7FFFFFFF \<Longrightarrow> purses_ok (mail_ModifyMoney p d st)"
  by (auto simp: purses_ok_def mail_ModifyMoney_def Let_def m_emit_def upd_box_def money_after_max)

lemma purses_pay: "purses_ok st \<Longrightarrow> c \<le> mb_money (ms_box st p) \<Longrightarrow> purses_ok (mail_ModifyMoney p (- c) st)"
proof (rule purses_ModifyMoney)
  assume "purses_ok st" "c \<le> mb_money (ms_box st p)"
  hence "c \<le> 0x7FFFFFFE" by (auto simp: purses_ok_def intro: order_trans)
  thus "- c \<noteq> 0x7FFFFFFF"
  proof (rule contrapos_pn)
    assume "- c = 0x7FFFFFFF"
    hence "c = - 0x7FFFFFFF" by (metis minus_equation_iff)
    thus "\<not> c \<le> 0x7FFFFFFE" by simp
  qed
qed

lemma wealth_pay:
  assumes "purses_ok st" "c \<le> mb_money (ms_box st p)"
  shows "mail_wealth (mail_ModifyMoney p (- c) st) + unat c = mail_wealth st"
proof -
  have "unat (money_after (mb_money (ms_box st p)) (- c)) = unat (mb_money (ms_box st p)) - unat c"
    using assms by (intro money_after_pay) (simp_all add: purses_ok_def)
  moreover have "unat c \<le> unat (mb_money (ms_box st p))" using assms(2) by (simp add: word_le_nat_alt)
  ultimately show ?thesis using purse_moves [of p "- c" st] by simp
qed

lemma wealth_receive:
  assumes "purses_ok st"
  shows "mail_wealth (mail_ModifyMoney p d st) \<le> mail_wealth st + unat d"
proof -
  have "unat (money_after (mb_money (ms_box st p)) d) \<le> unat (mb_money (ms_box st p)) + unat d"
    using assms by (intro money_after_get(1)) (simp add: purses_ok_def)
  thus ?thesis using purse_moves [of p d st] by simp
qed

lemma wealth_SendMailTo:
  assumes "purses_ok st" "md_money d \<le> MAX_MONEY_AMOUNT"
  shows "mail_wealth (SendMailTo e d r s ck delay st) \<le> mail_wealth st + unat (md_money d)"
    "purses_ok (SendMailTo e d r s ck delay st)"
    "mb_money (ms_box (SendMailTo e d r s ck delay st) p) = mb_money (ms_box st p)"
    "set (ms_mail st) \<subseteq> set (ms_mail (SendMailTo e d r s ck delay st))"
proof -
  obtain d1 st1 where prep: "(case rcv_player r of None \<Rightarrow> (d, st) | Some q \<Rightarrow> prepareItems e q d st) = (d1, st1)"
    by (metis surj_pair)
  have money: "add_template_items xs dd s0 = (dd', s1) \<Longrightarrow> md_money dd' = md_money dd" for xs dd s0 dd' s1
    by (induction xs dd s0 rule: add_template_items.induct) (auto simp: MailDraft_AddItem_def split: if_splits)
  have core: "cash st1 = cash st" using prep by (auto dest: cash_prepareItems split: option.splits)
  have d1: "md_money d1 = md_money d"
    using prep by (auto simp: prepareItems_def dest!: money split: option.splits if_splits)
  obtain i st2 where i: "GenerateMailID st1 = (i, st2)" by (metis surj_pair)
  have st2: "cash st2 = cash st" using i core by (auto simp: GenerateMailID_def Let_def m_emit_def cash_def split: if_splits)
  define row where "row = draft_row e d1 (rcv_low r) s ck delay i"
  define its where "its = map snd (md_items d1)"
  have del: "cash (deliver_online e q row its st3) = cash st3" for q st3
    by (auto simp: deliver_online_def Let_def cash_box)
  have eq: "cash (SendMailTo e d r s ck delay st) = cash st \<or>
      cash (SendMailTo e d r s ck delay st) = cash (insert_mail row its st2)"
    using core by (auto simp: SendMailTo_def prep i row_def [symmetric] its_def [symmetric] Let_def del split: option.split)
  have ins: "mail_wealth (insert_mail row its st2) = mail_wealth st + unat (md_money d)" "purses_ok (insert_mail row its st2)"
    using cash_wealth [OF st2] assms by (auto simp: mail_wealth_def purses_ok_def row_def d1)
  show "mail_wealth (SendMailTo e d r s ck delay st) \<le> mail_wealth st + unat (md_money d)"
    "purses_ok (SendMailTo e d r s ck delay st)"
    using eq ins assms by (auto dest!: cash_wealth)
  show "mb_money (ms_box (SendMailTo e d r s ck delay st) p) = mb_money (ms_box st p)"
    using eq st2 by (auto simp: cash_def fun_eq_iff)
  have "ms_mail st1 = ms_mail st"
    using prep by (auto dest!: mcore_prepareItems dest: mcoreD(4) split: option.splits)
  moreover have "ms_mail st2 = ms_mail st1" using i by (auto simp: GenerateMailID_def Let_def m_emit_def split: if_splits)
  moreover have "ms_mail (deliver_online e q row its s3) = ms_mail s3" for q s3
    using mcoreD(4) [OF mcore_folds(2)] mcoreD(4) [OF mcore_boxes(5)]
    by (simp add: deliver_online_def Let_def) (simp add: upd_box_def)
  moreover have "ms_mail (delete_instances gs st1) = ms_mail st1" for gs by simp
  ultimately show "set (ms_mail st) \<subseteq> set (ms_mail (SendMailTo e d r s ck delay st))"
    by (auto simp: SendMailTo_def prep i row_def [symmetric] its_def [symmetric] Let_def split: option.split)
qed


section \<open>Saving moves no money\<close>

lemma saved_row_money:
  assumes sv: "saving X p st" and r: "r \<in> set (ms_mail st)" "mr_id r \<notin> X"
  shows "mr_money (fold row_update (mb_mail (ms_box st p)) r) = mr_money r"
proof (cases "mr_id r \<in> ml_id ` set (mb_mail (ms_box st p))")
  case True
  then obtain m where m: "m \<in> set (mb_mail (ms_box st p))" "ml_id m = mr_id r" by auto
  obtain r' where r': "r' \<in> set (ms_mail st)" "same_identity m r'" "ml_id m \<notin> X \<longrightarrow> settled m r'"
    by (rule save_rowE [OF sv m(1)])
  have "distinct (map mr_id (ms_mail st))" using sv by (simp add: saving_def mail_inv_def db_ok_def)
  hence "r' = r" using r r' m(2) by (metis distinct_map inj_onD same_identity_def)
  hence "mr_money r = ml_money m" using r' r(2) m(2) by (simp add: settled_def)
  thus ?thesis by (simp add: save_row [OF sv m] row_update_def)
qed (simp add: fold_row_update_miss)

lemma purses_SaveMail: "mb_money (ms_box (SaveMail p st) q) = mb_money (ms_box st q)"
  by (cases "mb_loaded (ms_box st p)")
    (simp_all add: SaveMail_loaded upd_box_def save_mails_sel, simp add: SaveMail_def)

lemma sum_filter_le: "(\<Sum>x \<leftarrow> filter P xs. f x) \<le> (\<Sum>x \<leftarrow> xs. f x :: nat)"
  by (induction xs) auto

lemma sum_replace:
  "distinct (map mr_id rs) \<Longrightarrow> r \<in> set rs \<Longrightarrow>
   (\<Sum>x \<leftarrow> rs. if mr_id x = mr_id r then c else f x) + f r = (\<Sum>x \<leftarrow> rs. f x) + (c :: nat)"
proof (induction rs)
  case (Cons a rs)
  show ?case
  proof (cases "a = r")
    case True
    have "mr_id x \<noteq> mr_id r" if "x \<in> set rs" for x using Cons.prems(1) True that by (force simp: image_iff)
    hence "(\<Sum>x \<leftarrow> rs. if mr_id x = mr_id r then c else f x) = (\<Sum>x \<leftarrow> rs. f x)" by (intro arg_cong [of _ _ sum_list] map_cong) auto
    thus ?thesis using True by simp
  next
    case False
    hence "mr_id a \<noteq> mr_id r" "r \<in> set rs" using Cons.prems by (auto simp: image_iff)
    thus ?thesis using Cons by simp
  qed
qed simp

lemma wealth_SaveMail:
  assumes sv: "saving {i} p st" and m: "m \<in> set (mb_mail (ms_box st p))" "ml_id m = i"
    and r: "r \<in> set (ms_mail st)" "mr_id r = i"
  shows "mail_wealth (SaveMail p st) + unat (mr_money r) \<le> mail_wealth st + unat (ml_money m)"
proof -
  let ?F = "fold row_update (mb_mail (ms_box st p))"
  have load: "mb_loaded (ms_box st p)" using sv by (simp add: saving_def)
  have "ml_state m = MAIL_STATE_CHANGED" using sv m by (auto simp: saving_def)
  hence "mr_money (?F r') = ml_money m" if "mr_id r' = i" for r'
    using m that by (simp add: save_row [OF sv m(1)] row_update_def)
  hence "unat (mr_money (?F r')) = (if mr_id r' = mr_id r then unat (ml_money m) else unat (mr_money r'))"
    if "r' \<in> set (ms_mail st)" for r' using saved_row_money [OF sv that] r(2) by auto
  hence "(\<Sum>r' \<leftarrow> ms_mail st. unat (mr_money (?F r'))) =
      (\<Sum>r' \<leftarrow> ms_mail st. if mr_id r' = mr_id r then unat (ml_money m) else unat (mr_money r'))"
    by (intro arg_cong [of _ _ sum_list] map_cong) auto
  moreover have "\<dots> + unat (mr_money r) = (\<Sum>r' \<leftarrow> ms_mail st. unat (mr_money r')) + unat (ml_money m)"
    using sv r(1) by (intro sum_replace) (simp_all add: saving_def mail_inv_def db_ok_def)
  moreover have "(\<Sum>r' \<leftarrow> ms_mail (SaveMail p st). unat (mr_money r')) \<le> (\<Sum>r' \<leftarrow> map ?F (ms_mail st). unat (mr_money r'))"
    by (simp add: SaveMail_loaded [OF load] upd_box_def save_mails_rows sum_filter_le del: map_map)
  ultimately show ?thesis by (simp add: mail_wealth_def purses_SaveMail comp_def)
qed

lemma wealth_SaveMail_all:
  assumes sv: "saving {} p st"
  shows "mail_wealth (SaveMail p st) \<le> mail_wealth st"
proof -
  let ?F = "fold row_update (mb_mail (ms_box st p))"
  have load: "mb_loaded (ms_box st p)" using sv by (simp add: saving_def)
  have "(\<Sum>r' \<leftarrow> ms_mail st. unat (mr_money (?F r'))) = (\<Sum>r' \<leftarrow> ms_mail st. unat (mr_money r'))"
    using saved_row_money [OF sv] by (intro arg_cong [of _ _ sum_list] map_cong) auto
  moreover have "(\<Sum>r' \<leftarrow> ms_mail (SaveMail p st). unat (mr_money r')) \<le> (\<Sum>r' \<leftarrow> map ?F (ms_mail st). unat (mr_money r'))"
    by (simp add: SaveMail_loaded [OF load] upd_box_def save_mails_rows sum_filter_le del: map_map)
  ultimately show ?thesis by (simp add: mail_wealth_def purses_SaveMail comp_def)
qed

section \<open>No request creates money\<close>

text \<open>Amounts whose sum with the postage fits 32 bits; external mail brings money from outside.\<close>

definition sane_mail_op :: "mail_op \<Rightarrow> bool" where
  "sane_mail_op op =
     (case op of
        OpSend p mbx n s b gs money cod \<Rightarrow> unat (mail_cost gs) + unat money < 2 ^ 32
      | OpExternal x \<Rightarrow> xm_money x = 0
      | _ \<Rightarrow> True)"

abbreviation no_gain :: "mst \<Rightarrow> mst \<Rightarrow> bool" where
  "no_gain st st' \<equiv> mail_wealth st' \<le> mail_wealth st \<and> purses_ok st'"

lemma no_gain_cash: "purses_ok st \<Longrightarrow> cash st' = cash st \<Longrightarrow> no_gain st st'"
  using cash_wealth [of st' st] by simp

lemma no_gain_send_checked:
  assumes ok: "purses_ok st" and pay: "unat req = c + unat money" "req \<le> mb_money (ms_box st p)"
  shows "no_gain st (send_checked e p rc s b its req money cod st)"
proof -
  let ?s = "SendMailResult p 0 MAIL_SEND MAIL_OK 0 0 0 st"
  obtain i st1 where st1: "(if b \<noteq> [] then CreateItemText b ?s else (0, ?s)) = (i, st1)" by (metis surj_pair)
  have "cash st1 = cash st"
  proof (cases "b = []")
    case True
    thus ?thesis using st1 by auto
  next
    case False
    hence "cash st1 = cash ?s" using st1 by (auto dest: cash_texts)
    thus ?thesis by simp
  qed
  hence c1: "mail_wealth st1 = mail_wealth st" "purses_ok st1" "mb_money (ms_box st1 p) = mb_money (ms_box st p)"
    using cash_wealth [of st1 st] ok by (simp_all add: cash_def fun_eq_iff)
  let ?st2 = "mail_ModifyMoney p (- req) st1"
  have w2: "mail_wealth ?st2 + unat req = mail_wealth st" using wealth_pay [OF c1(2), of req p] pay(2) c1 by simp
  have p2: "purses_ok ?st2" using purses_pay [OF c1(2), of req p] pay(2) c1 by simp
  let ?st3 = "fold (take_from_sender p) its ?st2"
  have w3: "mail_wealth ?st3 = mail_wealth ?st2" "purses_ok ?st3" using cash_wealth [of ?st3 ?st2] p2 by simp_all
  have m: "md_money (AddCOD cod (AddMoney money d)) = money" for d by (simp add: AddCOD_def AddMoney_def)
  have "unat money \<le> unat (MAX_MONEY_AMOUNT)"
  proof -
    have "unat req \<le> unat (mb_money (ms_box st p))" using pay(2) by (simp add: word_le_nat_alt)
    moreover have "mb_money (ms_box st p) \<le> MAX_MONEY_AMOUNT" using ok by (simp add: purses_ok_def)
    ultimately show ?thesis using pay(1) by (simp add: word_le_nat_alt)
  qed
  hence "money \<le> MAX_MONEY_AMOUNT" by (simp add: word_le_nat_alt)
  note send = wealth_SendMailTo [OF w3(2), of "AddCOD cod (AddMoney money _)", unfolded m, OF this]
  have w: "mail_wealth (SendMailTo e (AddCOD cod (AddMoney money d)) r s ck delay ?st3) \<le> mail_wealth st" for d r s ck delay
    using send(1) [of e d r s ck delay] w2 w3(1) pay(1) by linarith
  show ?thesis unfolding send_checked_def Let_def st1 prod.case by (intro conjI w send(2))
qed


lemma no_gain_pay_COD:
  assumes ok: "purses_ok st" and c: "ml_COD m \<le> mb_money (ms_box st p)"
  shows "no_gain st (pay_COD e p m st)" "set (ms_mail st) \<subseteq> set (ms_mail (pay_COD e p m st))"
proof -
  have "ml_COD m \<le> MAX_MONEY_AMOUNT" using c ok by (auto simp: purses_ok_def intro: order_trans)
  hence m: "md_money (AddMoney (ml_COD m) (draft_of s 0)) \<le> MAX_MONEY_AMOUNT"
    "md_money (AddMoney (ml_COD m) (draft_of s 0)) = ml_COD m" for s by (simp_all add: AddMoney_def)
  note send = wealth_SendMailTo [OF ok m(1)]
  have rows: "ms_mail (mail_ModifyMoney p d s) = ms_mail s" for d s by (rule mcoreD(4) [OF mcore_money])
  have "mail_wealth (mail_ModifyMoney p (- ml_COD m) (SendMailTo e (AddMoney (ml_COD m) (draft_of s 0)) r sd ck dl st)) \<le> mail_wealth st"
    (is "mail_wealth (mail_ModifyMoney _ _ ?t) \<le> _") for s r sd ck dl
  proof -
    have "mail_wealth (mail_ModifyMoney p (- ml_COD m) ?t) + unat (ml_COD m) = mail_wealth ?t"
      by (rule wealth_pay [OF send(2)]) (simp add: send(3) c)
    moreover have "mail_wealth ?t \<le> mail_wealth st + unat (ml_COD m)" using send(1) m(2) by metis
    ultimately show ?thesis by linarith
  qed
  moreover have "purses_ok (mail_ModifyMoney p (- ml_COD m) (SendMailTo e (AddMoney (ml_COD m) (draft_of s 0)) r sd ck dl st))"
    for s r sd ck dl by (rule purses_pay [OF send(2)]) (simp add: send(3) c)
  moreover have "no_gain st (mail_ModifyMoney p (- ml_COD m) st)"
    using wealth_pay [OF ok c] purses_pay [OF ok c] by simp
  ultimately show "no_gain st (pay_COD e p m st)" using ok by (simp add: pay_COD_def Let_def)
  show "set (ms_mail st) \<subseteq> set (ms_mail (pay_COD e p m st))"
    using send(4) by (auto simp: pay_COD_def Let_def rows)
qed


lemma row_of_mail:
  assumes "mail_inv {} st" "GetMail p i st = Some m"
  obtains r where "r \<in> set (ms_mail st)" "mr_id r = i" "mr_money r = ml_money m"
proof -
  have "mirrored {} p m st" by (rule mail_inv_mirrored [OF assms(1) GetMail_Some(1) [OF assms(2)]])
  thus thesis using that GetMail_Some(2) [OF assms(2)] by (auto simp: mirrored_def rows_of_def same_identity_def settled_def)
qed

lemma purses_save:
  assumes sv: "saving {i} p st" and ok: "purses_ok st" and m: "GetMail p i st = Some m" "ml_money m \<le> MAX_MONEY_AMOUNT"
  shows "purses_ok (SaveMail p st)"
proof -
  let ?F = "fold row_update (mb_mail (ms_box st p))"
  have load: "mb_loaded (ms_box st p)" using sv by (simp add: saving_def)
  have "mr_money (?F r) \<le> MAX_MONEY_AMOUNT" if r: "r \<in> set (ms_mail st)" for r
  proof (cases "mr_id r = i")
    case True
    hence "?F r = row_update m r" using save_row [OF sv GetMail_Some(1) [OF m(1)]] GetMail_Some(2) [OF m(1)] by simp
    thus ?thesis using m(2) ok r by (simp add: row_update_def purses_ok_def)
  next
    case False
    thus ?thesis using saved_row_money [OF sv r] ok r by (simp add: purses_ok_def)
  qed
  thus ?thesis using ok
    by (auto simp: purses_ok_def purses_SaveMail SaveMail_loaded [OF load] upd_box_def save_mails_rows save_mails_sel)
qed

lemma no_gain_take_item:
  assumes inv: "mail_inv {} st" and run: "running st" and g: "GetMail p (ml_id m) st = Some m"
    and ok: "purses_ok st" and c: "ml_COD m \<le> mb_money (ms_box st p)"
  shows "no_gain st (take_mailed_item e p m x it dest st)"
proof -
  let ?f = "\<lambda>m. (Mail_RemoveItem x m)\<lparr>ml_removedItems := ml_removedItems m @ [x]\<rparr>"
  let ?g = "\<lambda>m. m\<lparr>ml_COD := 0, ml_state := MAIL_STATE_CHANGED\<rparr>"
  let ?bs = "before_save e p m x it dest st"
  define s1 where "s1 = upd_mail p (ml_id m) ?f st"
  define s2 where "s2 = pay_COD e p m s1"
  have sv: "saving {ml_id m} p ?bs" by (rule saving_take_item [OF inv run g])
  have s1: "cash s1 = cash st" "ms_mail s1 = ms_mail st" by (simp_all add: s1_def) (simp add: upd_mail_def upd_box_def)
  have ok1: "purses_ok s1" "mb_money (ms_box s1 p) = mb_money (ms_box st p)" "mail_wealth s1 = mail_wealth st"
    using cash_wealth [OF s1(1)] s1(1) ok by (simp_all add: cash_def fun_eq_iff)
  have s2: "no_gain s1 s2" "set (ms_mail s1) \<subseteq> set (ms_mail s2)"
    unfolding s2_def using no_gain_pay_COD [OF ok1(1), of m p] c ok1(2) by auto
  have bs: "?bs = mail_MoveItemToInventory e p dest it (RemoveMItem p (mi_low it) (mailsUpdated p (upd_mail p (ml_id m) ?g s2)))"
    by (simp add: before_save_def Let_def s1_def s2_def)
  have cash: "cash ?bs = cash s2" by (simp add: bs)
  have i1: "mail_inv {ml_id m} s1" "GetMail p (ml_id m) s1 = Some (?f m)"
    unfolding s1_def by (rule mail_inv_unlisted [OF inv g])+
  have r1: "running s1" using run by (simp add: s1_def running_def upd_mail_def upd_box_def)
  have g2: "GetMail p (ml_id m) s2 = Some (?f m)" unfolding s2_def by (rule GetMail_pay_COD [OF i1(1) r1 i1(2)])
  have "GetMail p (ml_id m) (upd_mail p (ml_id m) ?g s2) = Some (?g (?f m))"
    unfolding upd_mail_def by (rule GetMail_modify [OF g2]) simp_all
  hence gb: "GetMail p (ml_id m) ?bs = Some (?g (?f m))"
    by (simp add: bs GetMail_def mail_MoveItemToInventory_def RemoveMItem_def mailsUpdated_def upd_box_def)
  have money: "ml_money (?g (?f m)) = ml_money m" by (simp add: Mail_RemoveItem_def)
  obtain r where r: "r \<in> set (ms_mail st)" "mr_id r = ml_id m" "mr_money r = ml_money m" by (rule row_of_mail [OF inv g])
  have rb: "r \<in> set (ms_mail ?bs)"
  proof -
    have "ms_mail ?bs = ms_mail s2"
      by (simp add: bs mail_MoveItemToInventory_def RemoveMItem_def mailsUpdated_def upd_mail_def upd_box_def)
    thus ?thesis using r(1) s1(2) s2(2) by auto
  qed
  have "mail_wealth (SaveMail p ?bs) + unat (mr_money r) \<le> mail_wealth ?bs + unat (ml_money (?g (?f m)))"
    by (rule wealth_SaveMail [OF sv GetMail_Some [OF gb] rb r(2)])
  hence w: "mail_wealth (SaveMail p ?bs) \<le> mail_wealth st"
    using cash_wealth [OF cash] s2(1) ok1(3) r(3) money by simp
  have "ml_money m \<le> MAX_MONEY_AMOUNT" using r ok by (auto simp: purses_ok_def)
  hence "purses_ok (SaveMail p ?bs)"
    using purses_save [OF sv _ gb] cash_wealth [OF cash] s2(1) money by simp
  thus ?thesis using w unfolding take_item_save by (simp add: cash_wealth [OF cash_same(2)])
qed

lemma no_gain_take_money:
  assumes inv: "mail_inv {} st" and g: "GetMail p (ml_id m) st = Some m" and ok: "purses_ok st"
  shows "no_gain st (SaveMail p (before_money_save p m st))"
proof -
  let ?f = "\<lambda>m. m\<lparr>ml_money := 0, ml_state := MAIL_STATE_CHANGED\<rparr>"
  let ?bs = "before_money_save p m st"
  define s where "s = mail_ModifyMoney p (ml_money m) (SendMailResult p (ml_id m) MAIL_MONEY_TAKEN MAIL_OK 0 0 0 st)"
  have bs: "?bs = mailsUpdated p (upd_mail p (ml_id m) ?f s)" by (simp add: before_money_save_def Let_def s_def)
  have sv: "saving {ml_id m} p ?bs" by (rule saving_take_money [OF inv g])
  obtain r where r: "r \<in> set (ms_mail st)" "mr_id r = ml_id m" "mr_money r = ml_money m" by (rule row_of_mail [OF inv g])
  have small: "ml_money m \<le> MAX_MONEY_AMOUNT" using r ok by (auto simp: purses_ok_def)
  have ok0: "purses_ok (SendMailResult p (ml_id m) MAIL_MONEY_TAKEN MAIL_OK 0 0 0 st)"
    "mail_wealth (SendMailResult p (ml_id m) MAIL_MONEY_TAKEN MAIL_OK 0 0 0 st) = mail_wealth st"
    using ok cash_wealth [OF cash_same(2)] by simp_all
  have w: "mail_wealth s \<le> mail_wealth st + unat (ml_money m)" using wealth_receive [OF ok0(1)] ok0(2) by (simp add: s_def)
  have "ml_money m \<noteq> 0x7FFFFFFF" using small by auto
  hence oks: "purses_ok s" unfolding s_def by (rule purses_ModifyMoney [OF ok0(1)])
  have cash: "cash ?bs = cash s" by (simp add: bs)
  have core: "mcore s = mcore st" by (simp add: s_def)
  have gs: "GetMail p (ml_id m) s = Some m" and rows: "ms_mail s = ms_mail st"
    using g by (simp_all add: GetMail_mcore [OF core] mcoreD(4) [OF core])
  have "GetMail p (ml_id m) (upd_mail p (ml_id m) ?f s) = Some (?f m)"
    unfolding upd_mail_def by (rule GetMail_modify [OF gs]) simp_all
  hence gb: "GetMail p (ml_id m) ?bs = Some (?f m)" by (simp add: bs GetMail_def mailsUpdated_def upd_box_def)
  have rb: "r \<in> set (ms_mail ?bs)" using r(1) rows by (simp add: bs mailsUpdated_def upd_mail_def upd_box_def)
  have "mail_wealth (SaveMail p ?bs) + unat (mr_money r) \<le> mail_wealth ?bs + unat (ml_money (?f m))"
    by (rule wealth_SaveMail [OF sv GetMail_Some [OF gb] rb r(2)])
  hence "mail_wealth (SaveMail p ?bs) \<le> mail_wealth st" using cash_wealth [OF cash] w r(3) by simp
  moreover have "purses_ok (SaveMail p ?bs)"
    using purses_save [OF sv _ gb] cash_wealth [OF cash] oks by simp
  ultimately show ?thesis by simp
qed


lemma no_gain_return_mail:
  assumes ok: "purses_ok st" and m: "ml_money m \<le> MAX_MONEY_AMOUNT"
  shows "mail_wealth (return_mail e p m st) \<le> mail_wealth st + unat (ml_money m)" "purses_ok (return_mail e p m st)"
proof -
  let ?d = "if ml_mailTemplateId m \<noteq> 0 then template_draft (ml_mailTemplateId m) False else draft_of (ml_subject m) (ml_itemTextId m)"
  obtain d st1 where d: "(if HasItems m then collect_items p (ml_items m) ?d st else (?d, st)) = (d, st1)" by (metis surj_pair)
  have "cash st1 = cash st" using d by (auto dest: cash_collect split: if_splits)
  hence s1: "mail_wealth st1 = mail_wealth st" "purses_ok st1" using cash_wealth [of st1 st] ok by simp_all
  have ret: "mail_wealth (SendReturnToSender e (AddMoney (ml_money m) d) a b c st1) \<le> mail_wealth st + unat (ml_money m) \<and>
      purses_ok (SendReturnToSender e (AddMoney (ml_money m) d) a b c st1)" for a b c
  proof -
    have c: "mail_wealth (delete_instances gs st1) = mail_wealth st1" "purses_ok (delete_instances gs st1)"
      "mail_wealth (fold Item_SaveToDB its st1) = mail_wealth st1" "purses_ok (fold Item_SaveToDB its st1)" for gs its
      using cash_wealth [OF cash_folds(1)] cash_wealth [OF cash_folds(3)] s1(2) by simp_all
    have dm: "md_money (AddMoney (ml_money m) d) = ml_money m" by (simp add: AddMoney_def)
    show ?thesis
      using wealth_SendMailTo(1,2) [OF c(4), of "AddMoney (ml_money m) d"] m s1 c
      by (simp add: SendReturnToSender_def Let_def dm)
  qed
  show "mail_wealth (return_mail e p m st) \<le> mail_wealth st + unat (ml_money m)" "purses_ok (return_mail e p m st)"
    using ret ok unfolding return_mail_def Let_def d prod.case by (simp_all split: if_split)
qed

lemma no_gain_rows:
  assumes ok: "purses_ok st" and box: "\<And>p. mb_money (ms_box st' p) = mb_money (ms_box st p)"
    and rows: "map mr_money (ms_mail st') = map mr_money (filter P (ms_mail st))"
  shows "no_gain st st'"
proof -
  have "sum_list (map unat (map mr_money (ms_mail st'))) = sum_list (map unat (map mr_money (filter P (ms_mail st))))"
    by (simp only: rows)
  hence "(\<Sum>r \<leftarrow> ms_mail st'. unat (mr_money r)) = (\<Sum>r \<leftarrow> filter P (ms_mail st). unat (mr_money r))" by (simp add: comp_def)
  moreover have "mr_money ` set (ms_mail st') = mr_money ` set (filter P (ms_mail st))" using rows by (metis list.set_map)
  hence "mr_money r \<le> MAX_MONEY_AMOUNT" if "r \<in> set (ms_mail st')" for r
    using ok that by (fastforce simp: purses_ok_def dest: equalityD1 [THEN subsetD])
  ultimately show ?thesis using ok sum_filter_le [of "\<lambda>r. unat (mr_money r)" P "ms_mail st"]
    by (simp add: mail_wealth_def purses_ok_def box)
qed

lemma no_gain_HandleReturnToSender:
  assumes inv: "mail_inv {} st" and ok: "purses_ok st"
  shows "no_gain st (HandleReturnToSender e p mbx i st)"
proof (cases "me_mailbox e p mbx \<and> (\<exists>m. GetMail p i st = Some m \<and> usable e m)")
  case True
  then obtain m where m: "me_mailbox e p mbx" "GetMail p i st = Some m" "usable e m" by blast
  define st1 where "st1 = RemoveMail p i (db_delete_mail_items i (db_delete_mail i st))"
  obtain r where r: "r \<in> set (ms_mail st)" "mr_id r = i" "mr_money r = ml_money m" by (rule row_of_mail [OF inv m(2)])
  have rows: "ms_mail st1 = filter (\<lambda>q. mr_id q \<noteq> i) (ms_mail st)" and box: "mb_money (ms_box st1 q) = mb_money (ms_box st q)" for q
    by (simp_all add: st1_def RemoveMail_def upd_box_def db_delete_mail_items_def db_delete_mail_def)
  have ok1: "purses_ok st1" using ok by (simp add: purses_ok_def rows box)
  have "distinct (map mr_id rs) \<Longrightarrow> r \<in> set rs \<Longrightarrow>
      (\<Sum>q \<leftarrow> filter (\<lambda>q. mr_id q \<noteq> i) rs. unat (mr_money q)) + unat (mr_money r) \<le> (\<Sum>q \<leftarrow> rs. unat (mr_money q))" for rs
  proof (induction rs)
    case (Cons a rs)
    thus ?case using sum_filter_le [of "\<lambda>q. unat (mr_money q)" "\<lambda>q. mr_id q \<noteq> i" rs] r(2) by (auto simp: image_iff)
  qed simp
  hence "mail_wealth st1 + unat (ml_money m) \<le> mail_wealth st"
    using inv r by (simp add: mail_wealth_def rows box mail_inv_def db_ok_def)
  moreover have "ml_money m \<le> MAX_MONEY_AMOUNT" using ok r by (auto simp: purses_ok_def)
  note ret = no_gain_return_mail [OF ok1 this, of e p]
  ultimately show ?thesis using m
    by (simp add: HandleReturnToSender_def Let_def st1_def [symmetric] cash_wealth [OF cash_same(2)] ret)
      (meson add_le_cancel_right ret(1) le_trans)
next
  case False
  thus ?thesis using ok by (auto simp: HandleReturnToSender_def cash_wealth [OF cash_same(2)] split: option.splits)
qed

lemma no_gain_old_mails:
  assumes "purses_ok st"
  shows "no_gain st (ReturnOrDeleteOldMails e up st)"
proof -
  have step: "no_gain st (old_mail e up r st)" if "purses_ok st" for r st
  proof -
    have upd: "no_gain st (db_update_mail i f st)" if "\<And>q. mr_money (f q) = mr_money q" for i f
      using that by (intro no_gain_cash [OF \<open>purses_ok st\<close>]) (auto simp: cash_def db_update_mail_def)
    have del: "no_gain st (db_delete_mail i s)" if "ms_box s = ms_box st" "ms_mail s = ms_mail st" for i s
      by (rule no_gain_rows [OF \<open>purses_ok st\<close>, where P = "\<lambda>r. mr_id r \<noteq> i"]) (simp_all add: that db_delete_mail_def)
    show ?thesis using that upd del [of st] del [of "delete_instances (map fst (item_rows (mr_id r) st)) st"]
      by (simp add: old_mail_def)
  qed
  have fold: "no_gain st (fold (old_mail e up) rs st)" if "purses_ok st" for rs st
    using that
  proof (induction rs arbitrary: st)
    case (Cons r rs)
    thus ?case using step [of st r] Cons.IH [of "old_mail e up r st"] by (auto intro: order_trans)
  qed simp
  define s where "s = (if \<not> up
    then st\<lparr>ms_mail := filter (\<lambda>r. \<not> (mr_expire_time r < me_time e \<and> \<not> mr_has_items r \<and> mr_itemTextId r = 0)) (ms_mail st)\<rparr>
    else st)"
  have "no_gain st s"
    by (rule no_gain_rows [OF assms, where P = "\<lambda>r. up \<or> \<not> (mr_expire_time r < me_time e \<and> \<not> mr_has_items r \<and> mr_itemTextId r = 0)"])
      (simp_all add: s_def)
  thus ?thesis using fold [of s "filter (\<lambda>r. mr_expire_time r < me_time e) (ms_mail s)"]
    unfolding ReturnOrDeleteOldMails_def s_def [symmetric] Let_def by (auto intro: order_trans)
qed

lemma no_gain_HandleSendMail:
  assumes ok: "purses_ok st" and sane: "unat (mail_cost gs) + unat money < 2 ^ 32"
  shows "no_gain st (HandleSendMail e p mbx n s b gs money cod st)"
proof -
  have req: "unat (reqmoney gs money) = unat (mail_cost gs) + unat money"
    using sane by (simp add: reqmoney_def unat_plus_if')
  have "no_gain st (send_checked e p rc s b its (reqmoney gs money) money cod st)"
    if "\<not> mb_money (ms_box st p) < reqmoney gs money" for rc its
    using no_gain_send_checked [OF ok req] that by (simp add: not_less)
  thus ?thesis using ok
    by (auto simp: HandleSendMail_def Let_def cash_wealth [OF cash_same(2)] split: sum.split prod.split)
qed

lemma no_gain_logout:
  assumes inv: "mail_inv {} st" and ok: "purses_ok st"
  shows "no_gain st (mail_logout p st)"
proof -
  have s: "no_gain st (if mb_updated (ms_box st p) then SaveMail p st else st)"
  proof (cases "mb_updated (ms_box st p) \<and> mb_loaded (ms_box st p)")
    case True
    hence sv: "saving {} p st" using inv by (simp add: saving_def)
    have "mr_money (fold row_update (mb_mail (ms_box st p)) r) \<le> MAX_MONEY_AMOUNT" if "r \<in> set (ms_mail st)" for r
      using saved_row_money [OF sv that] ok that by (simp add: purses_ok_def)
    hence "purses_ok (SaveMail p st)" using ok True
      by (auto simp: purses_ok_def purses_SaveMail SaveMail_loaded upd_box_def save_mails_rows save_mails_sel)
    thus ?thesis using True wealth_SaveMail_all [OF sv] by simp
  next
    case False
    thus ?thesis using ok by (auto simp: SaveMail_def)
  qed
  have "cash (mail_logout p st) = cash (if mb_updated (ms_box st p) then SaveMail p st else st)"
    by (simp add: mail_logout_def Let_def cash_box)
  from cash_wealth [OF this] show ?thesis using s by simp
qed

lemma no_gain_external:
  assumes ok: "purses_ok st" and x: "send_external_mail e x st = Some (b, st')" "xm_money x = 0"
  shows "no_gain st st'"
proof -
  obtain i st1 where st1: "(if xm_message x \<noteq> [] then CreateItemText (xm_message x) st else (0, st)) = (i, st1)"
    by (metis surj_pair)
  have "cash st1 = cash st" using st1 by (auto dest: cash_texts split: if_splits)
  hence s1: "mail_wealth st1 = mail_wealth st" "purses_ok st1" using cash_wealth [of st1 st] ok by simp_all
  have it: "mail_wealth (Item_SaveToDB it st1) = mail_wealth st" "purses_ok (Item_SaveToDB it st1)" for it
    using cash_wealth [OF cash_same(14)] s1 by simp_all
  have "no_gain st (SendMailTo e (AddMoney 0 d) r s ck dl st1)" "no_gain st (SendMailTo e (AddMoney 0 d) r s ck dl (Item_SaveToDB it st1))"
    for d r s ck dl it
    using wealth_SendMailTo(1,2) [OF s1(2), of "AddMoney 0 d"] wealth_SendMailTo(1,2) [OF it(2), of "AddMoney 0 d"] s1 it
    by (simp_all add: AddMoney_def)
  thus ?thesis using x ok unfolding send_external_mail_def Let_def st1 by (auto split: option.splits if_splits)
qed

end
