(* ===== verification/MailProps.thy ===== *)
theory MailProps
  imports MailMoney
begin

text \<open>
  The properties of the mail system: the mailbox and the database agree, mail survives a relog, money is
  not created, what cash on delivery pays and how it is avoided, and the size of the list of mails.
\<close>

section \<open>Loading a healthy mailbox\<close>







section \<open>Leaving and coming again\<close>




section \<open>Invariants and money\<close>

text \<open>The server starts with no mailbox in memory.\<close>

lemma mail_inv_start:
  assumes "\<forall>p. \<not> mb_loaded (ms_box st p) \<and> mb_mail (ms_box st p) = []" "db_ok st" "marked {} st"
  shows "mail_inv {} st"
  using assms by (simp add: mail_inv_def mail_mirrors_def)

text \<open>
  C21: from any state in which the following holds (such as the start of the server, with no mailbox in
  memory, over a database that uses every mail id once, all below the counter, and attaches items only to
  mails it marks as having some), it holds for ever, whatever mail requests, deliveries, logins and logouts
  follow one another, in whatever order and from whomever: every mail in memory stands for one row of its
  owner in the database with the same sender, money, price and times, the database attaches nothing to it
  that its list does not show, and mail ids are used once. This is as long as the mail ids are not used up
  and, when old mails are cleared, only players who are online have their mail in memory.
\<close>

theorem mailbox_mirrors_database:
  assumes "mail_run st st'" "mail_inv {} st"
  shows "mail_inv {} st'"
  using assms by (rule mail_run_inv)

lemma cash_requests:
  "cash (HandleMarkAsRead e p mbx i st) = cash st" "cash (HandleMailDelete e p mbx i st) = cash st"
  "cash (HandleGetMail e p mbx st) = cash st" "cash (HandleItemTextQuery p i st) = cash st"
  "cash (HandleMailCreateTextItem e p mbx i st) = cash st" "cash (HandleMsgQueryNextMailtime e p st) = cash st"
proof -
  show "cash (HandleMarkAsRead e p mbx i st) = cash st"
    by (auto simp: HandleMarkAsRead_def cash_box split: option.splits)
  show "cash (HandleMailDelete e p mbx i st) = cash st"
    by (auto simp: HandleMailDelete_def Let_def split: option.splits)
  show "cash (HandleGetMail e p mbx st) = cash st" by (simp add: HandleGetMail_def Let_def cash_LoadMail)
  show "cash (HandleItemTextQuery p i st) = cash st" by (simp add: HandleItemTextQuery_def)
  show "cash (HandleMailCreateTextItem e p mbx i st) = cash st"
    by (auto simp: HandleMailCreateTextItem_def Let_def split: option.splits prod.splits)
  show "cash (HandleMsgQueryNextMailtime e p st) = cash st"
    by (simp add: HandleMsgQueryNextMailtime_def Let_def cash_LoadMail)
qed

lemma no_gain_HandleTakeItem:
  assumes "mail_inv {} st" "running st" "purses_ok st"
  shows "no_gain st (HandleTakeItem e p mbx i g st)"
proof (cases "GetMail p i st")
  case (Some m)
  hence "GetMail p (ml_id m) st = Some m" using GetMail_Some(2) [OF Some] by simp
  thus ?thesis using Some no_gain_take_item [OF assms(1,2) _ assms(3)] assms(3) cash_wealth [OF cash_same(2)]
    by (auto simp: HandleTakeItem_def not_less split: option.splits prod.splits)
qed (simp add: HandleTakeItem_def cash_wealth [OF cash_same(2)] assms(3))

lemma no_gain_HandleTakeMoney:
  assumes "mail_inv {} st" "purses_ok st"
  shows "no_gain st (HandleTakeMoney e p mbx i st)"
proof (cases "me_mailbox e p mbx \<and> (\<exists>m. GetMail p i st = Some m \<and> usable e m)")
  case True
  then obtain m where m: "GetMail p i st = Some m" "usable e m" by blast
  hence "GetMail p (ml_id m) st = Some m" using GetMail_Some(2) [OF m(1)] by simp
  thus ?thesis using True m no_gain_take_money [OF assms(1) _ assms(2)] by (simp add: HandleTakeMoney_save)
next
  case False
  thus ?thesis using assms(2) by (auto simp: HandleTakeMoney_def cash_wealth [OF cash_same(2)] split: option.splits)
qed

text \<open>
  C22: in a state that keeps the invariant of \<open>mailbox_mirrors_database\<close> with mail ids left, where no purse and no
  mail holds more than a purse takes, no request, delivery, login or logout of the mail system creates money: what is in
  the purses and in the mails together does not grow, and purses and mails keep their limit. Two cases are
  excepted: a mail whose amount and postage together pass 32 bits (\<open>postage_wraps\<close>), and the money of mails
  from the queue of external mails.
\<close>

theorem mail_creates_no_money:
  assumes "mail_inv {} st" "running st" "purses_ok st" "sane_mail_op op" "mail_exec e op st = Some st'"
  shows "mail_wealth st' \<le> mail_wealth st \<and> purses_ok st'"
proof (cases op)
  case (OpSend p mbx n s b gs money cod)
  thus ?thesis using assms no_gain_HandleSendMail [OF assms(3)] by (auto simp: sane_mail_op_def)
next
  case (OpExternal x)
  thus ?thesis using assms no_gain_external [OF assms(3)] by (auto simp: sane_mail_op_def)
next
  case (OpReturn p mbx i)
  thus ?thesis using assms no_gain_HandleReturnToSender by auto
next
  case (OpOldMails up)
  thus ?thesis using assms no_gain_old_mails by auto
next
  case (OpLogout p)
  thus ?thesis using assms no_gain_logout by auto
next
  case (OpTakeItem p mbx i g)
  thus ?thesis using assms no_gain_HandleTakeItem by auto
next
  case (OpTakeMoney p mbx i)
  thus ?thesis using assms no_gain_HandleTakeMoney by auto
next
  case (OpAnnounce p)
  thus ?thesis using assms no_gain_cash [OF assms(3) cash_same(4)] by auto
next
  case (OpLogin p)
  thus ?thesis using assms no_gain_cash [OF assms(3) cash_same(6)] by auto
qed (use assms(5) no_gain_cash [OF assms(3) cash_requests(1)] no_gain_cash [OF assms(3) cash_requests(2)]
    no_gain_cash [OF assms(3) cash_requests(3)] no_gain_cash [OF assms(3) cash_requests(4)]
    no_gain_cash [OF assms(3) cash_requests(5)] no_gain_cash [OF assms(3) cash_requests(6)] in auto)

section \<open>Cash on delivery\<close>

lemma SaveMail_fields [simp]:
  "mb_inv (ms_box (SaveMail p st) q) = mb_inv (ms_box st q)" "mb_money (ms_box (SaveMail p st) q) = mb_money (ms_box st q)"
  "ms_mailid (SaveMail p st) = ms_mailid st"
  by (auto simp: SaveMail_def split_beta Let_def upd_box_def save_mails_sel)

lemma SendMailResult_fields [simp]:
  "ms_box (SendMailResult p i a r x g n st) = ms_box st" "ms_mail (SendMailResult p i a r x g n st) = ms_mail st"
  "ms_mailid (SendMailResult p i a r x g n st) = ms_mailid st"
  by (simp_all add: SendMailResult_def m_emit_def)


lemma upd_mail_fields [simp]:
  "mb_inv (ms_box (upd_mail p i f st) q) = mb_inv (ms_box st q)" "mb_money (ms_box (upd_mail p i f st) q) = mb_money (ms_box st q)"
  "ms_mail (upd_mail p i f st) = ms_mail st" "ms_mailid (upd_mail p i f st) = ms_mailid st"
  by (simp_all add: upd_mail_def upd_box_def)

lemma deliver_online_fields [simp]:
  "mb_inv (ms_box (deliver_online e q r its st) p) = mb_inv (ms_box st p)"
  "ms_mail (deliver_online e q r its st) = ms_mail st" "ms_mailid (deliver_online e q r its st) = ms_mailid st"
proof -
  have add: "mb_inv (ms_box (fold (AddMItem q) its s) p) = mb_inv (ms_box s p)" for its s p
    by (induction its arbitrary: s) (simp_all add: AddMItem_def upd_box_def)
  show "mb_inv (ms_box (deliver_online e q r its st) p) = mb_inv (ms_box st p)"
    by (simp add: deliver_online_def Let_def add AddNewMailDeliverTime_def SendNewMail_def m_emit_def upd_box_def)
  show "ms_mail (deliver_online e q r its st) = ms_mail st" "ms_mailid (deliver_online e q r its st) = ms_mailid st"
    using mcoreD(4,6) [OF mcore_folds(2)]
    by (simp_all add: deliver_online_def Let_def AddNewMailDeliverTime_def SendNewMail_def m_emit_def upd_box_def)
qed

lemma deliver_online_money: "mb_money (ms_box (deliver_online e q r its st) p) = mb_money (ms_box st p)"
proof -
  have "mb_money (ms_box (fold (AddMItem q) its s) p) = mb_money (ms_box s p)" for its s p
    by (induction its arbitrary: s) (simp_all add: AddMItem_def upd_box_def)
  thus ?thesis by (simp add: deliver_online_def Let_def AddNewMailDeliverTime_def SendNewMail_def m_emit_def upd_box_def)
qed

text \<open>A mail without template items to somebody who is not the auction bot.\<close>

lemma SendMailTo_plain:
  assumes "running st" "md_itemsNeed d = False" "rcv_low r \<noteq> me_bot e"
  shows "SendMailTo e d r s ck delay st = send_prepared e d r s ck delay st"
proof -
  have "prepareItems e q d st = (d, st)" for q using assms(2) by (simp add: prepareItems_def)
  hence "(case rcv_player r of None \<Rightarrow> (d, st) | Some q \<Rightarrow> prepareItems e q d st) = (d, st)" by (simp split: option.split)
  thus ?thesis using assms(3) GenerateMailID_running [OF assms(1)] by (simp add: SendMailTo_def send_prepared_def Let_def)
qed

lemma send_prepared_fields:
  "ms_mail (send_prepared e d r s ck delay st) = ms_mail st @ [draft_row e d (rcv_low r) s ck delay (ms_mailid st)]"
  "mb_inv (ms_box (send_prepared e d r s ck delay st) p) = mb_inv (ms_box st p)"
  by (simp_all add: send_prepared_def Let_def split: option.split)







section \<open>Postage\<close>

text \<open>
  Postage and amount are added in 32 bits: a mail of more than 4294967265 copper costs its sender at
  most 29 copper, whatever his purse holds, and is sent with the whole amount in it.
\<close>

theorem postage_wraps:
  assumes st: "running st" "purses_ok st" "me_mailbox e p mbx"
    and rc: "toName \<noteq> []" "normalizePlayerName (me_dec e) (me_enc e) toName = Some n" "me_guidByName e n = rc"
       "rc \<noteq> 0" "rc \<noteq> p" "rc \<noteq> me_bot e" "mails_count e rc st \<le> 100" "me_twoSideMail e"
    and money: "4294967266 \<le> unat money" "29 \<le> unat (mb_money (ms_box st p))"
  shows "let st' = HandleSendMail e p mbx toName s b [] money cod st in
    unat (mb_money (ms_box st' p)) + 29 \<ge> unat (mb_money (ms_box st p)) \<and>
    (\<exists>r \<in> set (ms_mail st'). mr_receiver r = rc \<and> mr_money r = money)"
proof -
  define req where "req = reqmoney [] money"
  have b: "unat money < 4294967296" by (rule u32_bound)
  hence req: "unat req = unat money + 30 - 4294967296"
    using money(1) by (simp add: req_def reqmoney_def mail_cost_def unat_plus_if')
  hence "unat req \<le> 29" using b by simp
  hence afford: "req \<le> mb_money (ms_box st p)" using money(2) by (simp add: word_le_nat_alt)
  have send: "HandleSendMail e p mbx toName s b [] money cod st = send_checked e p rc s b [] req money cod st"
    using st(3) rc afford by (simp add: HandleSendMail_def Let_def req_def [symmetric] not_less)
  let ?s = "SendMailResult p 0 MAIL_SEND MAIL_OK 0 0 0 st"
  obtain i st1 where st1: "(if b \<noteq> [] then CreateItemText b ?s else (0, ?s)) = (i, st1)" by (metis surj_pair)
  have same: "ms_box st1 = ms_box st" "ms_mail st1 = ms_mail st" "ms_mailid st1 = ms_mailid st"
    using st1 by (auto simp: CreateItemText_def GenerateItemTextID_def m_emit_def Let_def SendMailResult_def split: if_splits prod.splits)
  define st2 where "st2 = mail_ModifyMoney p (- req) st1"
  define d where "d = AddCOD cod (AddMoney money (draft_of s i))"
  have d: "md_itemsNeed d = False" "md_money d = money" by (simp_all add: d_def AddCOD_def AddMoney_def draft_of_def)
  have run2: "running st2" using st(1) same by (simp add: st2_def mail_ModifyMoney_def Let_def m_emit_def upd_box_def running_def)
  have ok1: "purses_ok st1" using st(2) by (simp add: purses_ok_def same)
  have rcv: "rcv_low (receiver_of e rc) = rc" by (simp add: receiver_of_def)
  have "send_checked e p rc s b [] req money cod st = SendMailTo e d (receiver_of e rc) (player_sender e p)
      (if b = [] then MAIL_CHECK_MASK_COPIED else MAIL_CHECK_MASK_HAS_BODY) 0 st2"
    unfolding send_checked_def Let_def st1 st2_def d_def by simp
  also have "\<dots> = send_prepared e d (receiver_of e rc) (player_sender e p)
      (if b = [] then MAIL_CHECK_MASK_COPIED else MAIL_CHECK_MASK_HAS_BODY) 0 st2"
    by (rule SendMailTo_plain [OF run2 d(1)]) (simp add: rcv rc(6))
  finally have eq: "HandleSendMail e p mbx toName s b [] money cod st = send_prepared e d (receiver_of e rc) (player_sender e p)
      (if b = [] then MAIL_CHECK_MASK_COPIED else MAIL_CHECK_MASK_HAS_BODY) 0 st2" by (simp add: send)
  have "mb_money (ms_box (send_prepared e d r sd ck dl st2) p) = mb_money (ms_box st2 p)" for r sd ck dl
    by (auto simp: send_prepared_def Let_def deliver_online_money split: option.split)
  moreover have "unat (mb_money (ms_box st2 p)) + unat req = unat (mb_money (ms_box st p))"
  proof -
    have "unat (money_after (mb_money (ms_box st p)) (- req)) = unat (mb_money (ms_box st p)) - unat req"
      using afford st(2) by (intro money_after_pay) (simp_all add: purses_ok_def)
    thus ?thesis using afford by (simp add: st2_def mail_ModifyMoney_def Let_def m_emit_def upd_box_def same word_le_nat_alt)
  qed
  ultimately have "unat (mb_money (ms_box (HandleSendMail e p mbx toName s b [] money cod st) p)) + 29 \<ge> unat (mb_money (ms_box st p))"
    using \<open>unat req \<le> 29\<close> by (simp add: eq)
  moreover have "\<exists>r \<in> set (ms_mail (HandleSendMail e p mbx toName s b [] money cod st)). mr_receiver r = rc \<and> mr_money r = money"
    by (simp add: eq send_prepared_fields d rcv)
  ultimately show ?thesis by (simp add: Let_def)
qed

section \<open>The list of mails\<close>

lemma packet_bytes_simps [simp]:
  "packet_bytes [] = []" "packet_bytes (f # fs) = field_bytes f @ packet_bytes fs"
  "packet_bytes (fs @ gs) = packet_bytes fs @ packet_bytes gs"
  by (simp_all add: packet_bytes_def)

lemma mailed_item_bytes: "length (packet_bytes (mailed_item_fields i it)) = 102"
  by (simp add: mailed_item_fields_def upt_conv_Cons)

lemma mailed_items_bytes: "length (packet_bytes (concat (map (\<lambda>i. mailed_item_fields i (f i)) xs))) = 102 * length xs"
  by (induction xs) (simp_all add: mailed_item_bytes)

lemma mail_fields_bytes: "length (packet_bytes (mail_fields e p m st)) \<le> next_mail_size m"
  by (simp add: mail_fields_def next_mail_size_def sender_fields_def mailed_items_bytes)

lemma list_mails_bounds:
  "list_mails e p ms acc n st = (acc', n') \<Longrightarrow> length (packet_bytes acc) \<le> 32767 \<Longrightarrow> n \<le> 254 \<Longrightarrow> acc = f # rest \<Longrightarrow>
   length (packet_bytes acc') \<le> 32767 \<and> n' \<le> 254 \<and> n' \<le> n + length ms \<and> (\<exists>rest'. acc' = f # rest')"
proof (induction e p ms acc n st arbitrary: rest rule: list_mails.induct)
  case (2 e p m ms acc n st)
  show ?case
  proof (cases "n \<ge> 254")
    case True
    thus ?thesis using 2(3-) by auto
  next
    case n: False
    show ?thesis
    proof (cases "ml_state m = MAIL_STATE_DELETED \<or> me_time e < ml_deliver_time m")
      case True
      thus ?thesis using 2(1) [OF n True] 2(3-) n by fastforce
    next
      case d: False
      show ?thesis
      proof (cases "length (packet_bytes acc) + next_mail_size m > 32767")
        case True
        thus ?thesis using 2(3-) n d by auto
      next
        case False
        hence "length (packet_bytes (acc @ mail_fields e p m st)) \<le> 32767"
          using mail_fields_bytes [of e p m st] by simp
        thus ?thesis using 2(2) [OF n d False] 2(3-) n d False by fastforce
      qed
    qed
  qed
qed auto

text \<open>
  The answer to the request for the mailbox never exceeds 32767 bytes, and its first byte is the number
  of mails in it, never above 254, however many mails there are and however long their subjects and lists
  of attachments.
\<close>

theorem mail_list_fits:
  "\<exists>n fs. mail_list_body e p st = U8 (word_of_nat n) # fs \<and> n \<le> 254 \<and> n \<le> length (mb_mail (ms_box st p)) \<and>
     length (packet_bytes (mail_list_body e p st)) \<le> 32767"
proof -
  obtain acc n where l: "list_mails e p (mb_mail (ms_box st p)) [U8 0] 0 st = (acc, n)" by (metis surj_pair)
  have "length (packet_bytes [U8 0]) \<le> 32767" by simp
  from list_mails_bounds [OF l this _ refl] obtain rest where
    r: "length (packet_bytes acc) \<le> 32767" "n \<le> 254" "n \<le> length (mb_mail (ms_box st p))" "acc = U8 0 # rest" by auto
  hence "mail_list_body e p st = U8 (word_of_nat n) # rest" by (simp add: mail_list_body_def l)
  thus ?thesis using r by auto
qed

section \<open>A mailbox\<close>

text \<open>
  Bob, character 2, has opened his mailbox: character 1 sends him a sword for 50 copper with 100 copper
  in the mail, and a letter that costs nothing, which he has read.
\<close>

definition sword :: mitem where
  "sword = \<lparr>mi_guid = 7, mi_entry = 25, mi_count = 1, mi_ench = \<lambda>_. (0, 0, 0),
     mi_randomProperty = 0, mi_suffixFactor = 0, mi_spellCharges = 0, mi_maxDurability = 20, mi_durability = 20,
     mi_flags = 0, mi_duration = 0, mi_fullBag = False, mi_canBeTraded = True, mi_textId = 0, mi_creator = 0\<rparr>"

definition demo_mail :: mail_env where
  "demo_mail = \<lparr>me_world = \<lparr>w_players = [], w_config = \<lambda>_. False, w_names = \<lambda>_. None\<rparr>, me_time = 1000,
     me_mailbox = \<lambda>_ _. True, me_dec = ascii_dec, me_enc = ascii_enc,
     me_guidByName = \<lambda>n. if n = ''Bob'' then 2 else 0, me_account = \<lambda>_. 1, me_team = \<lambda>_. 67, me_security = \<lambda>_. 0,
     me_twoSideMail = True, me_gmMail = False, me_isGM = \<lambda>_. False, me_delay = 3600, me_bot = 99,
     me_battlemaster = \<lambda>_. False, me_proto = \<lambda>_. True, me_template = \<lambda>_. True, me_templateLoot = \<lambda>_ _ _. [],
     me_canStore = \<lambda>_ _ _. (0, []), me_store = \<lambda>_ _ it inv. it # inv, me_letter = \<lambda>_ _. None,
     me_createItem = \<lambda>_ _ _ _. None, me_floatBits = \<lambda>_. 0\<rparr>"

definition cod_mail :: mail where
  "cod_mail = \<lparr>ml_id = 1, ml_messageType = 0, ml_stationery = 41, ml_mailTemplateId = 0, ml_sender = 1,
     ml_receiver = 2, ml_subject = ''sword'', ml_itemTextId = 0, ml_items = [(7, 25)], ml_removedItems = [],
     ml_expire_time = 9000, ml_deliver_time = 900, ml_money = 100, ml_COD = 50, ml_checked = 4,
     ml_state = MAIL_STATE_UNCHANGED\<rparr>"

definition free_mail :: mail where
  "free_mail = \<lparr>ml_id = 2, ml_messageType = 0, ml_stationery = 41, ml_mailTemplateId = 0, ml_sender = 1,
     ml_receiver = 2, ml_subject = ''letter'', ml_itemTextId = 0, ml_items = [], ml_removedItems = [],
     ml_expire_time = 9000, ml_deliver_time = 900, ml_money = 0, ml_COD = 0, ml_checked = 5,
     ml_state = MAIL_STATE_CHANGED\<rparr>"

definition demo_row :: "mail \<Rightarrow> mail_row" where
  "demo_row m = \<lparr>mr_id = ml_id m, mr_messageType = 0, mr_stationery = 41, mr_mailTemplateId = 0, mr_sender = 1,
     mr_receiver = 2, mr_subject = ml_subject m, mr_itemTextId = 0, mr_has_items = ml_items m \<noteq> [],
     mr_expire_time = 9000, mr_deliver_time = 900, mr_money = ml_money m, mr_cod = ml_COD m, mr_checked = 4\<rparr>"

definition empty_box :: mailbox where
  "empty_box = \<lparr>mb_mail = [], mb_items = \<lambda>_. None, mb_loaded = False, mb_updated = False, mb_unread = 0,
     mb_next = 0, mb_money = 500, mb_inv = []\<rparr>"

definition bobs_box :: mailbox where
  "bobs_box = \<lparr>mb_mail = [free_mail, cod_mail], mb_items = [7 \<mapsto> sword], mb_loaded = True, mb_updated = True,
     mb_unread = 1, mb_next = 0, mb_money = 500, mb_inv = []\<rparr>"

definition demo_read :: mst where
  "demo_read = \<lparr>ms_box = (\<lambda>_. empty_box)(2 := bobs_box), ms_mail = [demo_row cod_mail, demo_row free_mail],
     ms_mailItems = [(1, 7, 25, 2)], ms_instances = [7 \<mapsto> sword], ms_texts = \<lambda>_. None, ms_mailid = 3, ms_textid = 1,
     ms_out = []\<rparr>"

text \<open>Nobody has opened a mailbox, everybody has 500 copper, and nothing in the database.\<close>

definition demo_rich :: mst where
  "demo_rich = \<lparr>ms_box = \<lambda>_. empty_box, ms_mail = [], ms_mailItems = [], ms_instances = \<lambda>_. None,
     ms_texts = \<lambda>_. None, ms_mailid = 1, ms_textid = 1, ms_out = []\<rparr>"

lemma demo_box [simp]: "ms_box demo_read 2 = bobs_box" "p \<noteq> 2 \<Longrightarrow> ms_box demo_read p = empty_box"
  by (simp_all add: demo_read_def)

lemma demo_inv: "mail_inv {} demo_read"
proof -
  have db: "db_ok demo_read" "marked {} demo_read"
    by (simp_all add: db_ok_def marked_def demo_read_def demo_row_def cod_mail_def free_mail_def item_rows_def)
  have "mirrored {} 2 free_mail demo_read" "mirrored {} 2 cod_mail demo_read"
    by (simp_all add: mirrored_def covered_def rows_of_def item_rows_def same_identity_def settled_def HasItems_def
        demo_read_def demo_row_def cod_mail_def free_mail_def bobs_box_def)
  hence "mail_mirrors {} 2 demo_read"
    by (simp add: mail_mirrors_def bobs_box_def) (simp add: cod_mail_def free_mail_def)
  moreover have "mail_mirrors {} p demo_read" if "p \<noteq> 2" for p using that by (simp add: mail_mirrors_def empty_box_def)
  ultimately have "mail_mirrors {} p demo_read" for p by (cases "p = 2") simp_all
  thus ?thesis using db by (simp add: mail_inv_def)
qed

lemma demo_purses: "purses_ok demo_read" "running demo_read"
proof -
  have "mb_money (ms_box demo_read p) = 500" for p by (cases "p = 2") (simp_all add: bobs_box_def empty_box_def)
  thus "purses_ok demo_read" by (simp add: purses_ok_def) (simp add: demo_read_def demo_row_def cod_mail_def free_mail_def)
  show "running demo_read" by (simp add: running_def demo_read_def)
qed





theorem mailbox_mirrors_database_witness: "mail_inv {} (HandleTakeItem demo_mail 2 5 1 7 demo_read)"
  by (rule mailbox_mirrors_database [OF mail_run.step [OF mail_run.start demo_purses(2),
        of "OpTakeItem 2 5 1 7" demo_mail] demo_inv]) simp_all

theorem mail_creates_no_money_witness:
  "mail_wealth (HandleTakeMoney demo_mail 2 5 1 demo_read) \<le> mail_wealth demo_read \<and>
   purses_ok (HandleTakeMoney demo_mail 2 5 1 demo_read)"
  by (rule mail_creates_no_money [OF demo_inv demo_purses(2,1), of "OpTakeMoney 2 5 1" demo_mail])
    (simp_all add: sane_mail_op_def)


lemma bob_normal: "normalizePlayerName ascii_dec ascii_enc ''bob'' = Some ''Bob''"
proof -
  have "ascii_dec ''bob'' = Some [98, 111, 98]" by (simp add: ascii_dec_def)
  thus ?thesis
    by (simp add: normalizePlayerName_def Utf8toWStr_buf_def wcharToUpper_def wcharToLower_def ascii_enc_def char_of_def bit_iff_odd)
qed

theorem postage_wraps_witness:
  "let st' = HandleSendMail demo_mail 1 5 ''bob'' ''gold'' [] [] 4294967290 0 demo_rich in
     471 \<le> unat (mb_money (ms_box st' 1)) \<and> (\<exists>r \<in> set (ms_mail st'). mr_receiver r = 2 \<and> mr_money r = 4294967290)"
proof -
  have st: "running demo_rich" "purses_ok demo_rich" "me_mailbox demo_mail 1 5"
    by (simp_all add: running_def purses_ok_def demo_rich_def empty_box_def demo_mail_def)
  have name: "normalizePlayerName (me_dec demo_mail) (me_enc demo_mail) ''bob'' = Some ''Bob''"
    by (simp add: demo_mail_def bob_normal)
  have rc: "me_guidByName demo_mail ''Bob'' = 2" "(2::u32) \<noteq> me_bot demo_mail" "mails_count demo_mail 2 demo_rich \<le> 100"
    "me_twoSideMail demo_mail" "mb_money (ms_box demo_rich 1) = 500"
    by (simp_all add: demo_mail_def mails_count_def mail_online_def FindPlayer_def demo_rich_def empty_box_def rows_of_def)
  show ?thesis
    using postage_wraps [OF st _ name rc(1) _ _ rc(2-4), of 4294967290 "''gold''" "[]" 0] by (simp add: rc(5) Let_def)
qed

end
