(* ===== verification/Spec2Isabelle.thy ===== *)
theory Spec2Isabelle
  imports ByteBuffer ObjectGuid Social ChannelProps ChannelLife TextUtil Names GroupRolls GroupTheorems
    GuildLogs GuildVault GuildRights TradeProps MailProps
begin

text \<open>
  A model of the social core of a game server (C++, src/src/game and src/src/shared): the packets it
  speaks, the identifiers of its objects, friend and ignore lists, chat channels with their
  registries and request handlers, the names players choose, parties and raids with their handlers
  and loot rolls, guilds with their ranks, bank and handlers, trading between players, and mail.

  \<^bold>\<open>The program.\<close> A world server keeps one \<open>Player\<close> object per connected character. A packet of a
  client is dispatched to a handler of \<open>WorldSession\<close> (the files named \<open>*Handler.cpp\<close>), which decodes
  it from a \<open>ByteBuffer\<close>, looks players up through \<open>ObjectAccessor\<close>, calls the component concerned
  (\<open>PlayerSocial\<close>, \<open>ChannelMgr\<close> and \<open>Channel\<close>, \<open>Group\<close>, \<open>Guild\<close>) and sends packets to other sessions. The
  handlers run one after the other, so a component is a state machine driven by requests.

  \<^bold>\<open>Theories.\<close>
  \<^item> Prelude: words, packet fields, observable effects, and the locales \<open>machine\<close> (an operation
    that preserves an invariant preserves it along every sequence of operations) and
    \<open>framed_machine\<close> (which keeps a view of the state as well).
  \<^item> OrderedMap: \<open>std::map\<close> and \<open>std::set\<close> as association lists in key order, because the code
    relies on the order: \<open>players.begin()\<close> is the player with the least guid. The locale
    \<open>keyed_store\<close> is the interface of a map, interpreted on this representation.
  \<^item> ByteBuffer (shared/ByteBuffer.h): storage, \<open>rpos\<close>, \<open>wpos\<close>; an access beyond the end is the
    left side of a sum. Round trips of typed values, strings and packed guids, and bounds.
  \<^item> ObjectGuid (game/ObjectGuid.h): composing a 64-bit guid and taking it apart.
  \<^item> Players: what the components read of \<open>Player\<close>, \<open>ObjectAccessor\<close> and \<open>sWorld\<close>.
  \<^item> Social (game/SocialMgr.cpp, MiscHandler.cpp): the lists, the statements written to the table
    \<open>character_social\<close> with their effect on its rows, status packets and their audience, the
    handlers. Limits, write-through, exact effect.
  \<^item> Channel, ChannelOps (game/Channel.h, Channel.cpp): members, flags, owner, bans, packets; one
    function per operation, on the channel, the channel lists of the players and the output.
  \<^item> ChannelInv, ChannelTrans, ChannelProps: the invariant, the step relation \<open>chan_trans\<close> as the
    abstract specification, the refinement, and what follows: ownership, rights, bans, audience.
  \<^item> ChannelMgr (game/ChannelMgr.h, ChannelHandler.cpp and the channel lists of Player.cpp): channels
    at addresses of a heap with \<open>new\<close> and \<open>delete\<close>, the registries of the two factions, all chat
    handlers, logout; which channels are never deleted.
  \<^item> ChannelLife (Player.cpp): what a change of zone does to the built-in channels of a player, and
    \<open>chat_run\<close>, the states reached by requests, zone changes, the LFG channel and logouts: no address of
    a deleted channel survives in any of them. A zone change that never ends.
  \<^item> TextUtil (shared/Util.cpp): splitting, cleaning of chat lines, durations, hexadecimal dumps.
  \<^item> Names (shared/Util.h, Util.cpp, game/ObjectMgr.cpp): character classes, case, normal form,
    validity and declined forms of names.
  \<^item> GroupRolls (game/Group.cpp): the three ways of starting a roll, votes, the end
    of a roll, leaving members. The counters of a roll agree with its votes; who wins with which throw.
  \<^item> Group (game/Group.h, Group.cpp, GroupReference.cpp): groups at addresses of a heap, the two
    references a player holds on groups, members, subgroups, leader, invitations, roles, icons,
    looters, loading, the battleground queue check. One function per method, on \<open>gstate\<close>.
  \<^item> GroupHandlers (game/GroupHandler.cpp, Player.cpp, WorldSession.cpp): all requests, login, logout.
  \<^item> GroupLinks, GroupProps: the invariant \<open>groups_inv\<close> (live pointers, shape of groups) and that every
    request keeps it, apart from the two that \<open>fair\<close> excludes because the code lets them break it;
    \<open>group_run\<close> are the states reached from the empty server.
  \<^item> GroupTheorems: the theorems over these runs, the order of looters, and the requests \<open>fair\<close> excludes.
  \<^item> Guild (game/Guild.h, Guild.cpp, the guild registry of ObjectMgr.cpp, the guild fields of Player.h):
    members, ranks and rights, leader and heir, texts, event log, founding, disbanding, loading. One
    function per method on the state \<open>gust\<close>: a heap of guilds, the registry, the guild fields of the
    players, the items, the output (packets, statements, calls into parts not modelled).
  \<^item> GuildBank (game/Guild.cpp): bank rights and daily limits, money, both logs, tabs, item slots, the
    search for room and storing, packets, loading and unloading, the start-up loop.
  \<^item> GuildHandlers (game/GuildHandler.cpp, CharacterHandler.cpp, WorldSession.cpp): every guild request,
    the moves of items between bank and character, login and logout.
  \<^item> GuildFrame: \<open>keeps\<close> (an operation leaves a view of the state) and the locale \<open>bank_view\<close>, whose
    lemmas say once for all views that the bank and text operations leave them.
  \<^item> GuildInv, GuildRuns: \<open>guild_inv\<close> (registry, leaders, members and the fields of the players agree),
    its preservation by every request, and \<open>guild_run\<close>, the states reached from an empty registry by
    requests, logins and logouts.
  \<^item> GuildTheorems: consistency of all runs, succession of the leader, disbanding.
  \<^item> GuildMoney: the view of purses and guild banks; no request creates money, what a deposit and a
    withdrawal move, the daily limit of a member.
  \<^item> GuildRights: when the test of a right is passed, what promotion and demotion may do, what a
    deleted rank leaves behind.
  \<^item> GuildLogs: the event log as a queue, its late loading, members who decline an invitation.
  \<^item> GuildVault: the bank as places with stacks; what searching room, storing, splitting, merging and
    swapping do to it. Moves inside the bank lose and duplicate nothing.
  \<^item> Trade (game/TradeHandler.cpp, the trade fields of Player): partner, offer and acceptance of every
    player, one function per request, the exchange. TradeProps: the abstract protocol \<open>deal_step\<close> that
    the requests refine, pairs of partners, consent and the exact exchange over all runs.
  \<^item> Mail, MailHandlers (game/Mail.h, Mail.cpp and the mail part of Player.cpp): mailboxes in memory and
    the tables \<open>mail\<close>, \<open>mail_items\<close> and \<open>item_instance\<close> with one function per statement the code runs on
    them; drafts and sending, loading and saving, every request, old and external mail.
  \<^item> MailInv, MailRuns: \<open>mail_inv\<close> (mailbox and tables agree up to the next save) and its preservation by
    every operation; \<open>mail_run\<close>, the states reached from one that keeps it. MailMoney, MailProps: the money
    in purses and mails, cash on delivery, relogging, the size of the list of mails.

  \<^bold>\<open>Conventions.\<close> Integers have the width of the source and wrap round. A packet is the list of its
  typed fields in writing order; \<open>emit\<close> and the output lists hold the packets in sending order. A
  null dereference, a thrown exception or an out-of-range access is a value of an option or sum type,
  or, where the run goes on in the source, written out: \<open>m_subGroupsCounts\<close> is a function of the
  whole index byte, its values from 8 on being the memory behind the array of eight. Names and messages are byte strings.

  \<^bold>\<open>Parameters.\<close> Code outside the repository or reading external data is an argument: the client's
  channel and item tables, the conversion of UTF-8 (utf8cpp), the random numbers of a roll in drawing
  order, the inventory checks \<open>CanStoreNewItem\<close> and \<open>CanStoreItem\<close> with what they do to stacks in
  an inventory, the items a mail template generates, the creation of item objects, rows returned by the
  database. In Trade an item has an owner and no place in the inventory.

  \<^bold>\<open>Loops and fuel.\<close> Loops over a container are structural recursion or folds. Two loops run until a
  container is empty: \<open>CleanupChannels\<close> (fuel: the length of the player's channel list, see
  CleanupChannels_ends) and \<open>EndRoll\<close> (fuel: the number of rolls, see EndRoll_ends_all); the theorems
  say that this fuel always gives a result. The loop of
  \<open>UpdateLocalChannels\<close> may run for ever: its result is None when the fuel is used up, and
  zone_change_never_ends gives states in which no fuel is enough. The role setters of a group call each other, but only once
  and with guid 0, which no member has: fuel 3.

  \<^bold>\<open>Not modelled.\<close> Sockets, sessions and their queue, the database engine and the length limits of its
  statements, logging, floats in packets, the instance binds of players and groups (events only), the
  packet of party member statistics (a parameter), the mail of characters that are deleted, and the other
  components of the server: auctions, battlegrounds, items and inventories, spells, movement, scripts.
\<close>

end
